(* ===== verification/Prelude.thy ===== *)
theory Prelude
  imports Main
begin

text \<open>
  Shared vocabulary of the development: the lemma collections, the string
  operations of the JavaScript library that the server uses, and the list
  operations that stand for a database table (rows in creation order), with the
  interface \<open>keyed_table\<close> that states what a service relies on when it looks
  a row up, inserts, modifies or deletes rows.
\<close>

section \<open>Lemma collections\<close>

named_theorems guard_defs \<open>request validation helpers, unfolded to their branches\<close>
named_theorems step_defs \<open>service operations, unfolded to their branches\<close>
named_theorems inv_intros \<open>preservation of a component's invariant by its operations\<close>

section \<open>Strings\<close>

text \<open>
  Strings are lists of 8-bit code units. \<open>js_trim\<close> is \<open>String.prototype.trim\<close>
  on them (the white space below U+0100), \<open>js_upper\<close> and \<open>js_lower\<close> are
  \<open>toUpperCase\<close> and \<open>toLowerCase\<close> on ASCII letters; other code units are left
  unchanged.
\<close>

definition js_space :: "char \<Rightarrow> bool" where
  "js_space c \<longleftrightarrow> (of_char c :: nat) \<in> {9, 10, 11, 12, 13, 32, 160}"

definition js_trim :: "string \<Rightarrow> string" where
  "js_trim s = rev (dropWhile js_space (rev (dropWhile js_space s)))"

definition upper_char :: "char \<Rightarrow> char" where
  "upper_char c = (let n = (of_char c :: nat) in if 97 \<le> n \<and> n \<le> 122 then char_of (n - 32) else c)"

definition lower_char :: "char \<Rightarrow> char" where
  "lower_char c = (let n = (of_char c :: nat) in if 65 \<le> n \<and> n \<le> 90 then char_of (n + 32) else c)"

definition js_upper :: "string \<Rightarrow> string" where
  "js_upper s = map upper_char s"

definition js_lower :: "string \<Rightarrow> string" where
  "js_lower s = map lower_char s"

text \<open>\<open>s.includes(p)\<close>.\<close>

fun contains_text :: "string \<Rightarrow> string \<Rightarrow> bool" where
  "contains_text p [] \<longleftrightarrow> p = []"
| "contains_text p (c # s) \<longleftrightarrow> take (length p) (c # s) = p \<or> contains_text p s"

text \<open>\<open>value?.trim()\<close>, and whether the result is falsy (\<open>undefined\<close> or empty).\<close>

definition opt_trim :: "string option \<Rightarrow> string" where
  "opt_trim v = (case v of None \<Rightarrow> [] | Some s \<Rightarrow> js_trim s)"

text \<open>\<open>value || fallback\<close> on an optional string.\<close>

definition or_else :: "string option \<Rightarrow> string \<Rightarrow> string" where
  "or_else v d = (case v of None \<Rightarrow> d | Some s \<Rightarrow> if s = [] then d else s)"

lemma dropWhile_idem [simp]: "dropWhile P (dropWhile P xs) = dropWhile P xs"
  by (induction xs) auto

lemma dropWhile_hd: "dropWhile P xs = [] \<or> \<not> P (hd (dropWhile P xs))"
  by (induction xs) auto

lemma dropWhile_append_keep:
  "xs \<noteq> [] \<Longrightarrow> \<not> P (hd xs) \<Longrightarrow> dropWhile P (xs @ ys) = xs @ ys"
  by (cases xs) auto

lemma dropWhile_fix: "(xs = [] \<or> \<not> P (hd xs)) \<Longrightarrow> dropWhile P xs = xs"
  by (cases xs) auto

lemma last_dropWhile: "dropWhile P xs \<noteq> [] \<Longrightarrow> last (dropWhile P xs) = last xs"
  by (induction xs) (auto split: if_splits)

lemma js_trim_idem [simp]: "js_trim (js_trim s) = js_trim s"
proof -
  let ?a = "dropWhile js_space s"
  let ?t = "js_trim s"
  have t: "?t = rev (dropWhile js_space (rev ?a))"
    by (simp add: js_trim_def)
  have hd_t: "?t = [] \<or> \<not> js_space (hd ?t)"
  proof (cases "dropWhile js_space (rev ?a) = []")
    case True
    then show ?thesis by (simp add: t)
  next
    case False
    then have "hd ?t = hd ?a"
      using last_dropWhile [of js_space "rev ?a"] by (simp add: t hd_rev last_rev)
    moreover have "\<not> js_space (hd ?a)"
    proof -
      have "?a \<noteq> []" using False by fastforce
      then show ?thesis using dropWhile_hd [of js_space s] by blast
    qed
    ultimately show ?thesis by simp
  qed
  have "dropWhile js_space ?t = ?t"
    using hd_t by (rule dropWhile_fix)
  then show ?thesis
    by (simp add: js_trim_def [of ?t]) (simp add: t)
qed

section \<open>Tables\<close>

text \<open>
  A table is the list of its rows, oldest first. \<open>lookup_row\<close> is
  \<open>findUnique\<close> on a unique column, \<open>List.find\<close> is \<open>findFirst\<close>,
  \<open>update_where\<close> is \<open>update\<close> and \<open>updateMany\<close>, \<open>delete_where\<close> is
  \<open>delete\<close> and \<open>deleteMany\<close>, \<open>insert_row\<close> is \<open>create\<close>.
\<close>

definition lookup_row :: "('r \<Rightarrow> 'k) \<Rightarrow> 'k \<Rightarrow> 'r list \<Rightarrow> 'r option" where
  "lookup_row key k t = find (\<lambda>r. key r = k) t"

definition insert_row :: "'r \<Rightarrow> 'r list \<Rightarrow> 'r list" where
  "insert_row r t = t @ [r]"

definition update_where :: "('r \<Rightarrow> bool) \<Rightarrow> ('r \<Rightarrow> 'r) \<Rightarrow> 'r list \<Rightarrow> 'r list" where
  "update_where P f t = map (\<lambda>r. if P r then f r else r) t"

definition delete_where :: "('r \<Rightarrow> bool) \<Rightarrow> 'r list \<Rightarrow> 'r list" where
  "delete_where P t = filter (\<lambda>r. \<not> P r) t"

definition count_where :: "('r \<Rightarrow> bool) \<Rightarrow> 'r list \<Rightarrow> nat" where
  "count_where P t = length (filter P t)"

text \<open>\<open>findMany\<close> with \<open>skip\<close> and \<open>take\<close>, newest first.\<close>

definition page_desc :: "('r \<Rightarrow> bool) \<Rightarrow> nat \<Rightarrow> nat \<Rightarrow> 'r list \<Rightarrow> 'r list" where
  "page_desc P skip n t = take n (drop skip (filter P (rev t)))"

lemma find_map_row:
  "(\<And>r. key (g r) = key r) \<Longrightarrow>
   find (\<lambda>r. key r = k) (map g t) = map_option g (find (\<lambda>r. key r = k) t)"
  by (induction t) auto

lemma find_SomeD: "find P xs = Some x \<Longrightarrow> x \<in> set xs \<and> P x"
  by (induction xs) (auto split: if_splits)

lemma find_None_iff': "find P xs = None \<longleftrightarrow> (\<forall>x \<in> set xs. \<not> P x)"
  by (induction xs) auto

lemma find_append: "find P (xs @ ys) = (case find P xs of None \<Rightarrow> find P ys | Some x \<Rightarrow> Some x)"
  by (induction xs) auto

lemma find_distinct_key:
  "distinct (map key t) \<Longrightarrow> r \<in> set t \<Longrightarrow> find (\<lambda>x. key x = key r) t = Some r"
  by (induction t) auto

lemma set_update_where: "set (update_where P f t) = (\<lambda>r. if P r then f r else r) ` set t"
  by (auto simp: update_where_def)

lemma length_update_where [simp]: "length (update_where P f t) = length t"
  by (simp add: update_where_def)

lemma map_key_update_where:
  "(\<And>r. key (f r) = key r) \<Longrightarrow> map key (update_where P f t) = map key t"
  by (simp add: update_where_def)

lemma update_where_none: "\<forall>r \<in> set t. \<not> P r \<Longrightarrow> update_where P f t = t"
  by (induction t) (auto simp: update_where_def)

lemma update_where_same:
  assumes "distinct (map key t)" and "find (\<lambda>r. key r = k) t = Some x" and "f x = x"
  shows "update_where (\<lambda>r. key r = k) f t = t"
proof -
  have "f r = r" if "r \<in> set t" "key r = k" for r
    using find_distinct_key [OF assms(1) that(1)] that(2) assms(2,3) by simp
  then show ?thesis by (auto simp: update_where_def intro: map_idI)
qed

lemma filter_update_where_other:
  "(\<And>r. P r \<Longrightarrow> \<not> Q r \<and> \<not> Q (f r)) \<Longrightarrow> filter Q (update_where P f t) = filter Q t"
  by (induction t) (auto simp: update_where_def)

text \<open>
  The interface a service uses: a table type with its row list, a unique key, and
  the laws of the operations over the row list. The facts services need (what a
  lookup returns after each operation, that the key stays unique) are proved once
  from the laws.
\<close>

locale keyed_table =
  fixes key :: "'r \<Rightarrow> 'k"
    and rows :: "'t \<Rightarrow> 'r list"
    and lookup :: "'k \<Rightarrow> 't \<Rightarrow> 'r option"
    and insert_r :: "'r \<Rightarrow> 't \<Rightarrow> 't"
    and update_r :: "('r \<Rightarrow> bool) \<Rightarrow> ('r \<Rightarrow> 'r) \<Rightarrow> 't \<Rightarrow> 't"
    and delete_r :: "('r \<Rightarrow> bool) \<Rightarrow> 't \<Rightarrow> 't"
  assumes lookup_rows: "lookup k t = find (\<lambda>r. key r = k) (rows t)"
    and rows_insert: "rows (insert_r r t) = rows t @ [r]"
    and rows_update: "rows (update_r P f t) = map (\<lambda>r. if P r then f r else r) (rows t)"
    and rows_delete: "rows (delete_r P t) = filter (\<lambda>r. \<not> P r) (rows t)"
begin

lemma lookup_SomeD: "lookup k t = Some r \<Longrightarrow> r \<in> set (rows t) \<and> key r = k"
  by (auto simp: lookup_rows dest: find_SomeD)

lemma lookup_None_iff: "lookup k t = None \<longleftrightarrow> k \<notin> key ` set (rows t)"
  by (auto simp: lookup_rows find_None_iff')

lemma lookup_update:
  "(\<And>r. key (f r) = key r) \<Longrightarrow>
   lookup k (update_r P f t) = map_option (\<lambda>r. if P r then f r else r) (lookup k t)"
  unfolding lookup_rows rows_update by (rule find_map_row) simp

lemma lookup_update_at:
  "(\<And>r. key (f r) = key r) \<Longrightarrow>
   lookup k (update_r (\<lambda>r. key r = j) f t) = (if k = j then map_option f (lookup k t) else lookup k t)"
  using lookup_SomeD [of k t] by (cases "lookup k t") (auto simp: lookup_update)

lemma lookup_insert:
  "lookup k (insert_r r t) = (case lookup k t of Some x \<Rightarrow> Some x | None \<Rightarrow> if key r = k then Some r else None)"
  by (simp add: lookup_rows rows_insert find_append split: option.split)

lemma lookup_insert_new: "lookup (key r) t = None \<Longrightarrow> lookup (key r) (insert_r r t) = Some r"
  by (simp add: lookup_insert)

lemma lookup_delete_at:
  "lookup k (delete_r (\<lambda>r. key r = j) t) = (if k = j then None else lookup k t)"
proof -
  have "find (\<lambda>r. key r = k) (filter (\<lambda>r. key r \<noteq> j) xs) =
      (if k = j then None else find (\<lambda>r. key r = k) xs)" for xs :: "'r list"
    by (induction xs) auto
  then show ?thesis by (simp add: lookup_rows rows_delete)
qed

lemma unique_insert:
  "distinct (map key (rows t)) \<Longrightarrow> lookup (key r) t = None \<Longrightarrow> distinct (map key (rows (insert_r r t)))"
  by (auto simp: lookup_None_iff rows_insert)

lemma unique_update:
  assumes "\<And>r. key (f r) = key r" and "distinct (map key (rows t))"
  shows "distinct (map key (rows (update_r P f t)))"
proof -
  have "map key (rows (update_r P f t)) = map key (rows t)"
    by (simp add: rows_update assms(1))
  then show ?thesis using assms(2) by simp
qed

lemma unique_delete:
  "distinct (map key (rows t)) \<Longrightarrow> distinct (map key (rows (delete_r P t)))"
  by (simp add: rows_delete distinct_map_filter)

lemma lookup_member:
  "distinct (map key (rows t)) \<Longrightarrow> r \<in> set (rows t) \<Longrightarrow> lookup (key r) t = Some r"
  by (simp add: lookup_rows find_distinct_key)

end

lemma keyed_rows: "keyed_table key (\<lambda>t. t) (lookup_row key) insert_row update_where delete_where"
  by unfold_locales (simp_all add: lookup_row_def insert_row_def update_where_def delete_where_def)

section \<open>Status machines\<close>

text \<open>
  A status machine is a relation of allowed transitions with a set of terminal
  statuses, from which only the status itself is allowed. A run is a list of
  statuses in which each step is allowed.
\<close>

locale status_machine =
  fixes allowed :: "'s \<Rightarrow> 's \<Rightarrow> bool"
    and terminal :: "'s \<Rightarrow> bool"
  assumes terminal_stays: "terminal a \<Longrightarrow> allowed a b \<Longrightarrow> b = a"
begin

primrec run :: "'s \<Rightarrow> 's list \<Rightarrow> bool" where
  "run a [] = True"
| "run a (b # bs) = (allowed a b \<and> run b bs)"

lemma run_terminal: "terminal a \<Longrightarrow> run a bs \<Longrightarrow> set bs \<subseteq> {a}"
proof (induction bs)
  case (Cons b bs)
  then have "b = a" by (auto dest: terminal_stays)
  with Cons show ?case by auto
qed simp

lemma reach_terminal: "allowed\<^sup>*\<^sup>* a b \<Longrightarrow> terminal a \<Longrightarrow> b = a"
  by (induction rule: rtranclp_induct) (auto dest: terminal_stays)

end

end
