(* ===== verification/App_Errors.thy ===== *)
theory App_Errors
  imports Prelude
begin

text \<open>
  The server's error classes (\<open>server/src/config/errors.ts\<close>) as one datatype,
  an exception of class \<open>Error\<close> being \<open>PlainError\<close>, and the central error
  middleware (\<open>server/src/middleware/error.middleware.ts\<close>) that maps an error to
  an HTTP status and a body. A service call returns \<open>error + value\<close> beside the
  state it leaves behind.
\<close>

section \<open>Errors\<close>

datatype app_error =
    NotFoundError string
  | UnauthorizedError string
  | ForbiddenError string
  | ConflictError string
  | ValidationError string
  | TooManyRequestsError string
  | PlainError string

fun err_message :: "app_error \<Rightarrow> string" where
  "err_message (NotFoundError m) = m"
| "err_message (UnauthorizedError m) = m"
| "err_message (ForbiddenError m) = m"
| "err_message (ConflictError m) = m"
| "err_message (ValidationError m) = m"
| "err_message (TooManyRequestsError m) = m"
| "err_message (PlainError m) = m"

text \<open>What a call returns, and the state it leaves (also when it throws).\<close>

type_synonym ('s, 'a) outcome = "(app_error + 'a) \<times> 's"

definition is_ok :: "('s, 'a) outcome \<Rightarrow> bool" where
  "is_ok r \<longleftrightarrow> (case fst r of Inl _ \<Rightarrow> False | Inr _ \<Rightarrow> True)"

lemma is_ok_simps [simp]: "is_ok (Inr x, s)" "\<not> is_ok (Inl e, s)"
  by (simp_all add: is_ok_def)

lemma is_okE: "is_ok r \<Longrightarrow> (\<And>x s. r = (Inr x, s) \<Longrightarrow> P) \<Longrightarrow> P"
  by (cases r) (auto simp: is_ok_def split: sum.splits)

text \<open>\<open>prisma.$transaction\<close>: when the body throws, its writes are rolled back.\<close>

definition transaction :: "('s \<Rightarrow> ('s, 'a) outcome) \<Rightarrow> 's \<Rightarrow> ('s, 'a) outcome" where
  "transaction body s = (case body s of (Inl e, _) \<Rightarrow> (Inl e, s) | (Inr x, s') \<Rightarrow> (Inr x, s'))"

lemma transaction_Inl: "transaction body s = (Inl e, s') \<Longrightarrow> s' = s"
  by (auto simp: transaction_def split: prod.splits sum.splits)

lemma transaction_Inr: "transaction body s = (Inr x, s') \<longleftrightarrow> body s = (Inr x, s')"
  by (auto simp: transaction_def split: prod.splits sum.splits)

section \<open>The error middleware\<close>

record http_response =
  http_status :: nat
  http_error :: string

fun error_status :: "app_error \<Rightarrow> nat" where
  "error_status (ValidationError _) = 400"
| "error_status (UnauthorizedError _) = 401"
| "error_status (ForbiddenError _) = 403"
| "error_status (NotFoundError _) = 404"
| "error_status (ConflictError _) = 409"
| "error_status (TooManyRequestsError _) = 429"
| "error_status (PlainError _) = 500"

definition errorMiddleware :: "app_error \<Rightarrow> http_response" where
  "errorMiddleware err = \<lparr>http_status = error_status err,
     http_error = (if err_message err = [] then ''Internal server error'' else err_message err)\<rparr>"

lemma error_status_cases:
  "error_status e \<in> {400, 401, 403, 404, 409, 429, 500}"
  by (cases e) simp_all

lemma error_status_500: "error_status e = 500 \<longleftrightarrow> (\<exists>m. e = PlainError m)"
  by (cases e) simp_all

text \<open>\<open>notFoundMiddleware\<close> passes this error on for every unmatched route.\<close>

definition notFoundMiddleware :: app_error where
  "notFoundMiddleware = NotFoundError ''Route not found''"

end
