(* ===== verification/Js_Number.thy ===== *)
theory Js_Number
  imports Prelude Complex_Main "HOL-Library.Log_Nat"
begin

text \<open>
  JavaScript numbers: the values \<open>NaN\<close>, the infinities and finite values (exact
  rationals), with the rounding of IEEE 754 binary64 to 53 significant bits (ties to
  even) as \<open>fl64\<close>. The exponent range is not bounded here: the amounts of the
  server are columns \<open>Decimal(20, 7)\<close>, so that quotients and products of them stay
  far inside the range of binary64. The interface \<open>rounding\<close> states what the
  services' bounds rest on (monotone, exact on 53-bit values) and is interpreted on
  \<open>fl64\<close>.
\<close>

section \<open>Values\<close>

datatype jsnum = NaN | Infinity | NegInfinity | Fin rat

text \<open>A request field that may be absent, a number or a string.\<close>

datatype num_input = NUndef | NNum jsnum | NStr string

text \<open>\<open>Number(v)\<close>; the conversion of a string is a parameter.\<close>

fun js_Number :: "(string \<Rightarrow> jsnum) \<Rightarrow> num_input \<Rightarrow> jsnum" where
  "js_Number parse NUndef = NaN"
| "js_Number parse (NNum x) = x"
| "js_Number parse (NStr s) = parse s"

text \<open>\<open>Math.round\<close>: to the nearest integer, halves upwards.\<close>

definition math_round :: "rat \<Rightarrow> int" where
  "math_round x = \<lfloor>x + 1 / 2\<rfloor>"

lemma math_round_mono: "x \<le> y \<Longrightarrow> math_round x \<le> math_round y"
  by (simp add: math_round_def floor_mono)

lemma math_round_int [simp]: "math_round (of_int n) = n"
  by (simp add: math_round_def floor_eq_iff)

section \<open>The rounding interface\<close>

locale rounding =
  fixes fl :: "rat \<Rightarrow> rat"
  assumes fl_mono: "x \<le> y \<Longrightarrow> fl x \<le> fl y"
    and fl_exact: "\<bar>m\<bar> \<le> 2 ^ 53 \<Longrightarrow> fl (of_int m * 2 powi e) = of_int m * 2 powi e"
begin

lemma fl_int: "\<bar>m\<bar> \<le> 2 ^ 53 \<Longrightarrow> fl (of_int m) = of_int m"
  using fl_exact [of m 0] by simp

lemma fl_0 [simp]: "fl 0 = 0"
  using fl_int [of 0] by simp

lemma fl_1 [simp]: "fl 1 = 1"
  using fl_int [of 1] by simp

lemma fl_nonneg: "0 \<le> x \<Longrightarrow> 0 \<le> fl x"
  using fl_mono [of 0 x] by simp

lemma fl_nonpos: "x \<le> 0 \<Longrightarrow> fl x \<le> 0"
  using fl_mono [of x 0] by simp

lemma fl_ge_int: "\<bar>m\<bar> \<le> 2 ^ 53 \<Longrightarrow> of_int m \<le> x \<Longrightarrow> of_int m \<le> fl x"
  using fl_mono [of "of_int m" x] by (simp add: fl_int)

lemma fl_le_int: "\<bar>m\<bar> \<le> 2 ^ 53 \<Longrightarrow> x \<le> of_int m \<Longrightarrow> fl x \<le> of_int m"
  using fl_mono [of x "of_int m"] by (simp add: fl_int)

text \<open>A product of a factor in \<open>[0, 1]\<close> with an integer stays in range.\<close>

lemma fl_scale_range:
  assumes "0 \<le> x" "x \<le> 1" "0 \<le> m" "m \<le> 2 ^ 53"
  shows "0 \<le> fl (x * of_int m) \<and> fl (x * of_int m) \<le> of_int m"
proof -
  have "x * of_int m \<le> 1 * of_int m"
    using assms by (intro mult_right_mono) auto
  then show ?thesis
    using assms fl_le_int [of m "x * of_int m"] fl_nonneg [of "x * of_int m"] by auto
qed

text \<open>
  The ceiling of a rounded quotient by a small divisor is the exact ceiling, for
  quotients below \<open>2 ^ 45\<close>: the page count of a list endpoint is exact.
\<close>

lemma ceiling_fl_div:
  fixes n d :: int
  assumes d: "0 < d" "d \<le> 100" and n: "0 \<le> n" "n < 2 ^ 45"
  shows "\<lceil>fl (of_int n / of_int d)\<rceil> = \<lceil>(of_int n / of_int d :: rat)\<rceil>"
proof -
  let ?x = "of_int n / of_int d :: rat"
  define q where "q = n div d"
  define r where "r = n mod d"
  have nqr: "n = q * d + r" by (simp add: q_def r_def)
  have r: "0 \<le> r" "r < d" using d by (auto simp: r_def)
  have q0: "0 \<le> q" using d n by (simp add: q_def pos_imp_zdiv_nonneg_iff)
  have "q \<le> n" using q0 d nqr r
    by (metis (no_types, opaque_lifting) add_increasing2 mult_left_mono mult.right_neutral
        int_one_le_iff_zero_less order_refl)
  then have q45: "q < 2 ^ 45" using n by simp
  have x: "?x = of_int q + of_int r / of_int d"
    using d by (simp add: nqr add_divide_distrib)
  show ?thesis
  proof (cases "r = 0")
    case True
    have "\<bar>q\<bar> \<le> 2 ^ 53" using q0 q45 by simp
    then show ?thesis using True x by (simp add: fl_int)
  next
    case False
    have "1 / 128 \<le> (1 / of_int d :: rat)"
        using d by (simp add: field_simps)
    also have "\<dots> \<le> of_int r / of_int d"
      using False r d by (simp add: divide_right_mono)
    finally have lo: "of_int q + 1 / 128 \<le> ?x" using x by simp
    have "fl (of_int (128 * q + 1) * 2 powi (-7)) = of_int (128 * q + 1) * 2 powi (-7)"
      using q0 q45 by (intro fl_exact) simp
    then have e: "fl (of_int q + 1 / 128) = of_int q + 1 / 128"
      by (simp add: power_int_minus field_simps)
    have "of_int q + 1 / 128 \<le> fl ?x"
      using fl_mono [OF lo] e by simp
    then have gt: "of_int q < fl ?x"
      by (rule less_le_trans [rotated]) simp
    have "of_int r / of_int d \<le> (1 :: rat)"
      using r d by simp
    then have hi: "?x \<le> of_int (q + 1)" using x by simp
    have le: "fl ?x \<le> of_int (q + 1)"
      using q0 q45 by (intro fl_le_int hi) simp
    have "of_int r / of_int d > (0 :: rat)"
      using False r d by simp
    then have gt': "of_int q < ?x" using x by simp
    have "\<lceil>fl ?x\<rceil> = q + 1" using gt le by (simp add: ceiling_eq_iff)
    moreover have "\<lceil>?x\<rceil> = q + 1" using gt' hi by (simp add: ceiling_eq_iff)
    ultimately show ?thesis by simp
  qed
qed

end

section \<open>Binary64 rounding\<close>

text \<open>The exponent \<open>k\<close> with \<open>2\<^sup>k \<le> x < 2\<^sup>k\<^sup>+\<^sup>1\<close> of a positive rational.\<close>

definition exponent_of :: "rat \<Rightarrow> int" where
  "exponent_of x = (case quotient_of x of (p, q) \<Rightarrow>
     let k = bitlen p - bitlen q in if 2 powi k \<le> x then k else k - 1)"

definition round_half_even :: "rat \<Rightarrow> int" where
  "round_half_even y = (let f = \<lfloor>y\<rfloor>; d = y - of_int f in
     if d < 1 / 2 then f else if d > 1 / 2 then f + 1 else if even f then f else f + 1)"

definition fl_pos :: "rat \<Rightarrow> rat" where
  "fl_pos x = (let e = exponent_of x - 52 in of_int (round_half_even (x * 2 powi (- e))) * 2 powi e)"

definition fl64 :: "rat \<Rightarrow> rat" where
  "fl64 x = (if x = 0 then 0 else if x > 0 then fl_pos x else - fl_pos (- x))"

lemma bitlen_rat_bounds:
  assumes "0 < p"
  shows "2 powi (bitlen p - 1) \<le> (of_int p :: rat)" "(of_int p :: rat) < 2 powi bitlen p"
proof -
  define n where "n = nat (bitlen p)"
  have b: "bitlen p = int n" by (simp add: n_def bitlen_nonneg)
  have bb: "2 ^ nat (bitlen p - 1) \<le> p \<and> p < 2 ^ nat (bitlen p)"
    using assms by (rule bitlen_bounds)
  have n: "0 < n"
  proof (rule ccontr)
    assume "\<not> 0 < n"
    then show False using bb assms by (simp add: n_def)
  qed
  have "2 ^ (n - 1) \<le> p \<and> p < 2 ^ n"
    using bb n by (simp add: n_def nat_diff_distrib)
  then have lo: "of_int (2 ^ (n - 1)) \<le> (of_int p :: rat)" and hi: "(of_int p :: rat) < of_int (2 ^ n)"
    using of_int_le_iff [where ?'a = rat] of_int_less_iff [where ?'a = rat] by blast+
  have "bitlen p - 1 = int (n - 1)" using b n by simp
  then have "(2 :: rat) powi (bitlen p - 1) = 2 ^ (n - 1)" by (simp add: power_int_of_nat)
  then show "2 powi (bitlen p - 1) \<le> (of_int p :: rat)" using lo by simp
  have "(2 :: rat) powi bitlen p = 2 ^ n" by (simp add: b power_int_of_nat)
  then show "(of_int p :: rat) < 2 powi bitlen p" using hi by simp
qed

lemma exponent_of_bounds:
  assumes "0 < x"
  shows "2 powi exponent_of x \<le> x" "x < 2 powi (exponent_of x + 1)"
proof -
  obtain p q where pq: "quotient_of x = (p, q)" by fastforce
  have q: "0 < q" using pq quotient_of_denom_pos by blast
  have x: "x = of_int p / of_int q" using pq by (rule quotient_of_div)
  have p: "0 < p" using assms q x by (simp add: zero_less_divide_iff)
  let ?k = "bitlen p - bitlen q"
  have "of_int p / of_int q < (2 powi bitlen p / 2 powi (bitlen q - 1) :: rat)"
    using bitlen_rat_bounds [OF p] bitlen_rat_bounds [OF q] p q
    by (intro frac_less) auto
  then have hi: "x < 2 powi (?k + 1)"
    by (simp add: x flip: power_int_diff) (simp add: algebra_simps)
  have "(2 powi (bitlen p - 1) / 2 powi bitlen q :: rat) < of_int p / of_int q"
    using bitlen_rat_bounds [OF p] bitlen_rat_bounds [OF q] p q
    by (intro frac_less2) auto
  then have lo: "2 powi (?k - 1) \<le> x"
    by (simp add: x flip: power_int_diff) (simp add: algebra_simps)
  show "2 powi exponent_of x \<le> x" "x < 2 powi (exponent_of x + 1)"
    using hi lo by (auto simp: exponent_of_def pq Let_def)
qed

lemma powi_mono2: "i \<le> j \<Longrightarrow> (2 :: rat) powi i \<le> 2 powi j"
  by (simp add: power_int_increasing)

lemma exponent_of_mono:
  assumes "0 < x" "x \<le> y"
  shows "exponent_of x \<le> exponent_of y"
proof (rule ccontr)
  assume "\<not> exponent_of x \<le> exponent_of y"
  then have "(2 :: rat) powi (exponent_of y + 1) \<le> 2 powi exponent_of x"
    by (intro powi_mono2) simp
  then show False
    using exponent_of_bounds [of x] exponent_of_bounds [of y] assms by simp
qed

lemma round_half_even_int [simp]: "round_half_even (of_int n) = n"
  by (simp add: round_half_even_def Let_def)

lemma round_half_even_bounds: "\<lfloor>y\<rfloor> \<le> round_half_even y" "round_half_even y \<le> \<lfloor>y\<rfloor> + 1"
  by (auto simp: round_half_even_def Let_def)

lemma round_half_even_mono:
  assumes "x \<le> y"
  shows "round_half_even x \<le> round_half_even y"
proof (cases "\<lfloor>x\<rfloor> = \<lfloor>y\<rfloor>")
  case True
  then show ?thesis using assms by (auto simp: round_half_even_def Let_def)
next
  case False
  then have "\<lfloor>x\<rfloor> + 1 \<le> \<lfloor>y\<rfloor>" using floor_mono [OF assms] by simp
  then show ?thesis using round_half_even_bounds [of x] round_half_even_bounds [of y] by linarith
qed

lemma round_half_even_le: "y \<le> of_int n \<Longrightarrow> round_half_even y \<le> n"
  using round_half_even_mono [of y "of_int n"] by simp

lemma round_half_even_ge: "of_int n \<le> y \<Longrightarrow> n \<le> round_half_even y"
  using round_half_even_mono [of "of_int n" y] by simp

lemma scaled_bounds:
  assumes "0 < x"
  shows "of_int (2 ^ 52) \<le> x * 2 powi (52 - exponent_of x)"
    and "x * 2 powi (52 - exponent_of x) \<le> of_int (2 ^ 53)"
proof -
  let ?k = "exponent_of x"
  have s: "(0 :: rat) < 2 powi (52 - ?k)" by simp
  have "2 powi ?k * 2 powi (52 - ?k) = (2 powi 52 :: rat)"
    by (simp flip: power_int_add)
  moreover have "2 powi (?k + 1) * 2 powi (52 - ?k) = (2 powi 53 :: rat)"
    by (simp flip: power_int_add)
  ultimately have e: "2 powi ?k * 2 powi (52 - ?k) = (of_int (2 ^ 52) :: rat)"
    "2 powi (?k + 1) * 2 powi (52 - ?k) = (of_int (2 ^ 53) :: rat)"
    by simp_all
  show "of_int (2 ^ 52) \<le> x * 2 powi (52 - ?k)"
    using mult_right_mono [OF exponent_of_bounds(1) [OF assms], of "2 powi (52 - ?k)"] s
    unfolding e by simp
  show "x * 2 powi (52 - ?k) \<le> of_int (2 ^ 53)"
    using mult_right_mono [OF less_imp_le [OF exponent_of_bounds(2) [OF assms]], of "2 powi (52 - ?k)"] s
    unfolding e by simp
qed

lemma fl_pos_bounds:
  assumes "0 < x"
  shows "2 powi exponent_of x \<le> fl_pos x" "fl_pos x \<le> 2 powi (exponent_of x + 1)"
proof -
  let ?k = "exponent_of x"
  let ?r = "round_half_even (x * 2 powi (52 - ?k))"
  have f: "fl_pos x = of_int ?r * 2 powi (?k - 52)"
    by (simp add: fl_pos_def Let_def)
  have "2 ^ 52 \<le> ?r" "?r \<le> 2 ^ 53"
    using scaled_bounds [OF assms] by (auto intro: round_half_even_ge round_half_even_le)
  then have r: "of_int (2 ^ 52) \<le> (of_int ?r :: rat)" "of_int ?r \<le> (of_int (2 ^ 53) :: rat)"
    by (simp_all only: of_int_le_iff)
  have s: "(0 :: rat) \<le> 2 powi (?k - 52)" by simp
  have e: "of_int (2 ^ 52) * 2 powi (?k - 52) = (2 powi ?k :: rat)"
    using power_int_add [of "2 :: rat" 52 "?k - 52"] by simp
  have e': "of_int (2 ^ 53) * 2 powi (?k - 52) = (2 powi (?k + 1) :: rat)"
    using power_int_add [of "2 :: rat" 53 "?k - 52"] by (simp add: algebra_simps)
  show "2 powi ?k \<le> fl_pos x"
    using mult_right_mono [OF r(1) s] unfolding e f .
  show "fl_pos x \<le> 2 powi (?k + 1)"
    using mult_right_mono [OF r(2) s] unfolding e' f .
qed

lemma fl_pos_gt_0: "0 < x \<Longrightarrow> 0 < fl_pos x"
  using fl_pos_bounds(1) [of x] by (meson less_le_trans zero_less_power_int zero_less_numeral)

lemma fl_pos_mono:
  assumes "0 < x" "x \<le> y"
  shows "fl_pos x \<le> fl_pos y"
proof (cases "exponent_of x = exponent_of y")
  case True
  have "x * 2 powi (52 - exponent_of x) \<le> y * 2 powi (52 - exponent_of x)"
    using assms by (intro mult_right_mono) auto
  then have "round_half_even (x * 2 powi (52 - exponent_of x))
      \<le> round_half_even (y * 2 powi (52 - exponent_of x))"
    by (rule round_half_even_mono)
  then show ?thesis
    by (simp add: fl_pos_def Let_def True mult_right_mono)
next
  case False
  then have "exponent_of x + 1 \<le> exponent_of y"
    using exponent_of_mono [OF assms] by simp
  then have "(2 :: rat) powi (exponent_of x + 1) \<le> 2 powi exponent_of y"
    by (rule powi_mono2)
  then show ?thesis
    using fl_pos_bounds(2) [of x] fl_pos_bounds(1) [of y] assms by linarith
qed

lemma fl_pos_exact:
  assumes m: "0 < m" "m \<le> 2 ^ 53"
  shows "fl_pos (of_int m * 2 powi e) = of_int m * 2 powi e"
proof -
  let ?x = "of_int m * 2 powi e :: rat"
  let ?k = "exponent_of ?x"
  have x0: "0 < ?x" using m by simp
  have mx: "(of_int m :: rat) \<le> 2 powi 53"
    using m of_int_le_iff [of m "2 ^ 53", where ?'a = rat] by simp
  have "2 powi ?k \<le> ?x" by (rule exponent_of_bounds(1) [OF x0])
  also have "?x \<le> 2 powi 53 * 2 powi e" using mx by (intro mult_right_mono) auto
  also have "\<dots> = 2 powi (53 + e)" by (simp add: power_int_add)
  finally have "?k \<le> 53 + e"
    by (metis not_le one_less_numeral_iff power_int_strict_increasing semiring_norm(76))
  have sc: "?x * 2 powi (52 - ?k) = of_int m * 2 powi (e + 52 - ?k)"
    by (simp add: mult.assoc flip: power_int_add) (simp add: algebra_simps)
  have "\<exists>n :: int. ?x * 2 powi (52 - ?k) = of_int n"
  proof (cases "?k = 53 + e")
    case False
    then have "0 \<le> e + 52 - ?k" using \<open>?k \<le> 53 + e\<close> by simp
    then have "of_int m * 2 powi (e + 52 - ?k) = (of_int (m * 2 ^ nat (e + 52 - ?k)) :: rat)"
      by (simp add: power_int_def)
    then show ?thesis using sc by metis
  next
    case True
    have "2 powi (53 + e) \<le> of_int m * (2 powi e :: rat)"
      using exponent_of_bounds(1) [OF x0] True by simp
    then have "2 powi 53 \<le> (of_int m :: rat)"
      by (simp add: power_int_add)
    then have "of_int m = (2 powi 53 :: rat)" using mx by simp
    then have "?x * 2 powi (52 - ?k) = of_int (2 ^ 52)"
      using sc True by (simp flip: power_int_add)
    then show ?thesis by metis
  qed
  then obtain n :: int where n: "?x * 2 powi (52 - ?k) = of_int n" by blast
  have "fl_pos ?x = of_int n * 2 powi (?k - 52)"
    unfolding fl_pos_def Let_def using n by simp
  also have "\<dots> = ?x * (2 powi (52 - ?k) * 2 powi (?k - 52))"
    using n by (simp add: mult.assoc)
  also have "\<dots> = ?x" by (simp flip: power_int_add)
  finally show ?thesis .
qed

interpretation js: rounding fl64
proof
  fix x y :: rat
  assume "x \<le> y"
  show "fl64 x \<le> fl64 y"
  proof (cases "x < 0 \<and> 0 < y")
    case True
    then show ?thesis using fl_pos_gt_0 [of y] fl_pos_gt_0 [of "- x"] by (simp add: fl64_def)
  next
    case False
    then show ?thesis
      using \<open>x \<le> y\<close> fl_pos_gt_0 [of y] fl_pos_gt_0 [of "- x"] fl_pos_mono [of x y] fl_pos_mono [of "- y" "- x"]
      by (auto simp: fl64_def)
  qed
next
  fix m e :: int
  assume m: "\<bar>m\<bar> \<le> 2 ^ 53"
  show "fl64 (of_int m * 2 powi e) = of_int m * 2 powi e"
  proof (cases m "0 :: int" rule: linorder_cases)
    case less
    have "(0 :: rat) < 2 powi e" by simp
    then have neg: "of_int m * 2 powi e < (0 :: rat)"
      using less by (simp add: mult_neg_pos)
    have "fl_pos (- (of_int m * 2 powi e)) = - (of_int m * 2 powi e)"
      using fl_pos_exact [of "- m" e] m less by simp
    then show ?thesis using neg by (simp add: fl64_def)
  next
    case equal
    then show ?thesis by (simp add: fl64_def)
  next
    case greater
    then show ?thesis using fl_pos_exact [of m e] m by (simp add: fl64_def)
  qed
qed

lemma fl64_0 [simp]: "fl64 0 = 0"
  by (rule js.fl_0)

lemma fl64_1 [simp]: "fl64 1 = 1"
  by (rule js.fl_1)

section \<open>Paging parameters\<close>

text \<open>
  \<open>coercePage\<close> and \<open>coerceLimit\<close> of the escrow and collateral services (the same
  text in both files), with their constants.
\<close>

definition MIN_PAGE :: int where "MIN_PAGE = 1"
definition DEFAULT_PAGE :: int where "DEFAULT_PAGE = 1"
definition DEFAULT_LIMIT :: int where "DEFAULT_LIMIT = 20"
definition MAX_LIMIT :: int where "MAX_LIMIT = 100"

lemmas paging_consts = MIN_PAGE_def DEFAULT_PAGE_def DEFAULT_LIMIT_def MAX_LIMIT_def

text \<open>\<open>v ?? d\<close> on such a field.\<close>

fun input_or :: "num_input \<Rightarrow> int \<Rightarrow> num_input" where
  "input_or NUndef d = NNum (Fin (of_int d))"
| "input_or (NNum x) d = NNum x"
| "input_or (NStr s) d = NStr s"

definition coercePage :: "(string \<Rightarrow> jsnum) \<Rightarrow> num_input \<Rightarrow> int" where
  "coercePage parse v = (case js_Number parse (input_or v DEFAULT_PAGE) of
     Fin page \<Rightarrow> if page < of_int MIN_PAGE then DEFAULT_PAGE else \<lfloor>page\<rfloor>
   | _ \<Rightarrow> DEFAULT_PAGE)"

definition coerceLimit :: "(string \<Rightarrow> jsnum) \<Rightarrow> num_input \<Rightarrow> int" where
  "coerceLimit parse v = (case js_Number parse (input_or v DEFAULT_LIMIT) of
     Fin limit \<Rightarrow> if limit < 1 then DEFAULT_LIMIT else min MAX_LIMIT \<lfloor>limit\<rfloor>
   | _ \<Rightarrow> DEFAULT_LIMIT)"

lemma coercePage_ge: "1 \<le> coercePage parse v"
  by (auto simp: coercePage_def paging_consts le_floor_iff not_less split: jsnum.splits)

lemma coerceLimit_range: "1 \<le> coerceLimit parse v" "coerceLimit parse v \<le> 100"
  by (auto simp: coerceLimit_def paging_consts le_floor_iff not_less split: jsnum.splits)

text \<open>\<open>Math.max(1, Math.ceil(tot / limit))\<close>.\<close>

definition total_pages :: "int \<Rightarrow> int \<Rightarrow> int" where
  "total_pages tot limit = max 1 \<lceil>fl64 (of_int tot / of_int limit)\<rceil>"

lemma total_pages_exact:
  assumes "1 \<le> limit" "limit \<le> 100" "0 \<le> tot" "tot < 2 ^ 45"
  shows "total_pages tot limit = max 1 ((tot + limit - 1) div limit)"
proof -
  have "\<lceil>fl64 (of_int tot / of_int limit)\<rceil> = \<lceil>(of_int tot / of_int limit :: rat)\<rceil>"
    using assms by (intro js.ceiling_fl_div) auto
  also have "\<dots> = - ((- tot) div limit)"
    by (rule ceiling_divide_eq_div)
  also have "\<dots> = (tot + limit - 1) div limit"
  proof (rule sym, rule int_div_pos_eq)
    show "tot + limit - 1 = limit * (- ((- tot) div limit)) + (limit - 1 - (- tot) mod limit)"
      using div_mult_mod_eq [of "- tot" limit] by (simp add: algebra_simps)
    show "0 \<le> limit - 1 - (- tot) mod limit" "limit - 1 - (- tot) mod limit < limit"
      using pos_mod_bound [of limit "- tot"] pos_mod_sign [of limit "- tot"] assms by linarith+
  qed
  finally show ?thesis by (simp add: total_pages_def)
qed

text \<open>
  Splitting a result into its pages loses and repeats nothing: the pages 1 to
  \<open>total_pages\<close> put together are the list.
\<close>

lemma pages_concat:
  "0 < n \<Longrightarrow> length xs \<le> k * n \<Longrightarrow> concat (map (\<lambda>p. take n (drop (p * n) xs)) [0..<k]) = xs"
proof (induction k arbitrary: xs)
  case (Suc k)
  have "[0..<Suc k] = 0 # map Suc [0..<k]"
    by (simp add: map_Suc_upt upt_conv_Cons del: upt_Suc)
  then have "concat (map (\<lambda>p. take n (drop (p * n) xs)) [0..<Suc k])
      = take n xs @ concat (map (\<lambda>p. take n (drop (p * n) (drop n xs))) [0..<k])"
    by (simp add: comp_def add.commute del: upt_Suc)
  also have "\<dots> = take n xs @ drop n xs"
    using Suc.prems by (subst Suc.IH) auto
  finally show ?case by simp
qed simp

text \<open>The pages 1 to \<open>totalPages\<close>, put together, are the whole list.\<close>

lemma pages_all:
  assumes "1 \<le> limit" "limit \<le> 100" "length xs < 2 ^ 45"
  shows "concat (map (\<lambda>p. take (nat limit) (drop (p * nat limit) xs)) [0..<nat (total_pages (int (length xs)) limit)]) = xs"
proof (rule pages_concat)
  let ?n = "int (length xs)" and ?k = "total_pages (int (length xs)) limit"
  have k: "?k = max 1 ((?n + limit - 1) div limit)"
    using assms by (intro total_pages_exact) auto
  have "?n + limit - 1 = ((?n + limit - 1) div limit) * limit + (?n + limit - 1) mod limit"
    by (rule div_mult_mod_eq [symmetric])
  moreover have "(?n + limit - 1) mod limit < limit" using assms(1) by simp
  ultimately have "?n \<le> ((?n + limit - 1) div limit) * limit" by linarith
  also have "\<dots> \<le> ?k * limit"
    unfolding k using assms(1) by (intro mult_right_mono) auto
  finally have "?n \<le> int (nat ?k * nat limit)"
    using assms(1) k by (simp add: nat_mult_distrib [symmetric])
  then show "length xs \<le> nat ?k * nat limit" by (simp only: of_nat_le_iff)
qed (use assms in simp)

lemma coercePage_nat: "coercePage parse (NNum (Fin (of_nat (Suc p)))) = int p + 1"
proof -
  have "\<lfloor>(of_nat (Suc p) :: rat)\<rfloor> = int (Suc p)" by (simp only: floor_of_nat)
  then show ?thesis by (simp add: coercePage_def paging_consts)
qed

end
