(* ===== verification/Loan_Types.thy ===== *)
theory Loan_Types
  imports Prelude
begin

text \<open>
  The payment status machine of \<open>server/src/types/loan.ts\<close>: the statuses, the
  transition table and the two helper functions.
\<close>

datatype payment_status = PAYMENT_PENDING | PAYMENT_PROCESSING | PAYMENT_COMPLETED | PAYMENT_FAILED

fun StatusTransitions :: "payment_status \<Rightarrow> payment_status list" where
  "StatusTransitions PAYMENT_PENDING = [PAYMENT_PROCESSING, PAYMENT_FAILED]"
| "StatusTransitions PAYMENT_PROCESSING = [PAYMENT_COMPLETED, PAYMENT_FAILED]"
| "StatusTransitions PAYMENT_COMPLETED = []"
| "StatusTransitions PAYMENT_FAILED = [PAYMENT_PENDING]"

definition isValidStatusTransition :: "payment_status \<Rightarrow> payment_status \<Rightarrow> bool" where
  "isValidStatusTransition currentStatus newStatus \<longleftrightarrow> newStatus \<in> set (StatusTransitions currentStatus)"

definition isTerminalStatus :: "payment_status \<Rightarrow> bool" where
  "isTerminalStatus status \<longleftrightarrow> length (StatusTransitions status) = 0"

interpretation payment_machine: status_machine isValidStatusTransition isTerminalStatus
  by unfold_locales (auto simp: isValidStatusTransition_def isTerminalStatus_def)

lemma isTerminalStatus_iff [simp]: "isTerminalStatus s \<longleftrightarrow> s = PAYMENT_COMPLETED"
  by (cases s) (simp_all add: isTerminalStatus_def)

lemma before_completed: "isValidStatusTransition a PAYMENT_COMPLETED \<Longrightarrow> a = PAYMENT_PROCESSING"
  by (cases a) (simp_all add: isValidStatusTransition_def)

text \<open>
  A payment is completed once, at the end, and only after processing: in every run
  of valid transitions that starts anywhere but in COMPLETED, each COMPLETED is the last
  status of the run and comes right after PROCESSING.
\<close>

theorem payment_completed_last:
  assumes "payment_machine.run a (xs @ PAYMENT_COMPLETED # ys)"
  shows "ys = [] \<and> last (a # xs) = PAYMENT_PROCESSING"
proof -
  have "payment_machine.run PAYMENT_COMPLETED ys \<and> isValidStatusTransition (last (a # xs)) PAYMENT_COMPLETED"
    using assms by (induction xs arbitrary: a) auto
  then show ?thesis
    by (cases ys) (auto simp: isValidStatusTransition_def [of PAYMENT_COMPLETED] dest: before_completed)
qed

theorem payment_completed_last_witness:
  "payment_machine.run PAYMENT_PENDING ([PAYMENT_FAILED, PAYMENT_PENDING, PAYMENT_PROCESSING] @ PAYMENT_COMPLETED # [])
   \<and> last [PAYMENT_PENDING, PAYMENT_FAILED, PAYMENT_PENDING, PAYMENT_PROCESSING] = PAYMENT_PROCESSING"
proof -
  have r: "payment_machine.run PAYMENT_PENDING ([PAYMENT_FAILED, PAYMENT_PENDING, PAYMENT_PROCESSING] @ PAYMENT_COMPLETED # [])"
    by (simp add: isValidStatusTransition_def)
  show ?thesis using r payment_completed_last [OF r] by simp
qed

end
