(* ===== verification/Database.thy ===== *)
theory Database
  imports App_Errors Js_Number Loan_Types
begin

text \<open>
  The database of \<open>server/prisma/schema.prisma\<close> as one record of tables, each table
  the list of its rows in creation order (so \<open>orderBy createdAt\<close> is list order;
  the columns \<open>createdAt\<close> and \<open>updatedAt\<close> themselves are not kept), together with
  what the server sends out: the websocket messages, the oracle emitter's events and
  the jobs added to the webhook queue. Every table with a unique key is an instance
  of the interface \<open>keyed_table\<close>.
\<close>

section \<open>JSON values\<close>

datatype json =
    JNull
  | JBool bool
  | JNum jsnum
  | JStr string
  | JArr "json list"
  | JObj "(string \<times> json) list"

section \<open>Enumerations\<close>

datatype user_role = BUYER | SELLER | LENDER | AUDITOR | ADMIN

datatype challenge_purpose = LOGIN | LINK_WALLET

datatype escrow_status =
    ESCROW_PENDING | ESCROW_FUNDED | ESCROW_RELEASED | ESCROW_REFUNDED | ESCROW_DISPUTED | ESCROW_CANCELLED

datatype collateral_status = COLLATERAL_LOCKED | COLLATERAL_RELEASED | COLLATERAL_LIQUIDATED

datatype loan_status = LOAN_PENDING | LOAN_ACTIVE | LOAN_REPAID | LOAN_DEFAULTED

datatype session_status = PS_PENDING | PS_COMPLETED | PS_CANCELLED | PS_EXPIRED

datatype governance_status = GOV_OPEN | GOV_PASSED | GOV_REJECTED | GOV_EXECUTED

datatype dispute_status = DISPUTE_OPEN | DISPUTE_RESOLVED | DISPUTE_CANCELLED

datatype webhook_auth = SIGNATURE | BEARER | BASIC | CUSTOM_HEADER | NO_AUTH

datatype delivery_status = DELIVERY_PENDING | DELIVERY_RETRYING | DELIVERY_SUCCESS | DELIVERY_FAILED

datatype signature_status = SIG_PENDING | SIG_COMPLETED | SIG_FAILED

text \<open>The stored text of a status, as messages and comparisons use it.\<close>

fun show_escrow_status :: "escrow_status \<Rightarrow> string" where
  "show_escrow_status ESCROW_PENDING = ''PENDING''"
| "show_escrow_status ESCROW_FUNDED = ''FUNDED''"
| "show_escrow_status ESCROW_RELEASED = ''RELEASED''"
| "show_escrow_status ESCROW_REFUNDED = ''REFUNDED''"
| "show_escrow_status ESCROW_DISPUTED = ''DISPUTED''"
| "show_escrow_status ESCROW_CANCELLED = ''CANCELLED''"

fun show_loan_status :: "loan_status \<Rightarrow> string" where
  "show_loan_status LOAN_PENDING = ''PENDING''"
| "show_loan_status LOAN_ACTIVE = ''ACTIVE''"
| "show_loan_status LOAN_REPAID = ''REPAID''"
| "show_loan_status LOAN_DEFAULTED = ''DEFAULTED''"

fun show_governance_status :: "governance_status \<Rightarrow> string" where
  "show_governance_status GOV_OPEN = ''OPEN''"
| "show_governance_status GOV_PASSED = ''PASSED''"
| "show_governance_status GOV_REJECTED = ''REJECTED''"
| "show_governance_status GOV_EXECUTED = ''EXECUTED''"

section \<open>Rows\<close>

record user_row =
  user_id :: string
  stellarAddress :: string
  user_name :: "string option"
  user_role :: user_role

record wallet_row =
  wallet_id :: string
  wallet_userId :: string
  wallet_address :: string
  isPrimary :: bool
  wallet_label :: "string option"

record session_row =
  session_userId :: string
  session_jti :: string
  revokedAt :: "int option"

record challenge_row =
  challenge_id :: string
  challenge_userId :: string
  challenge_wallet :: "string option"
  challenge_nonce :: string
  challenge_purpose :: challenge_purpose
  challenge_expiresAt :: int
  consumed :: bool

record escrow_row =
  escrow_id :: string
  buyerId :: string
  sellerId :: string
  escrow_amount :: rat
  escrow_assetCode :: string
  escrow_status :: escrow_status
  stellarTxHash :: "string option"
  escrowAddress :: "string option"
  escrow_expiresAt :: int

record collateral_row =
  collateral_id :: string
  collateral_escrowId :: string
  collateral_assetCode :: string
  collateral_amount :: rat
  metadataHash :: "string option"
  collateral_status :: collateral_status

record loan_row =
  loan_id :: string
  borrowerId :: string
  lenderId :: "string option"
  loan_amount :: rat
  loan_assetCode :: string
  interestRate :: rat
  loan_status :: loan_status
  loan_collateralId :: "string option"

record repayment_row =
  repayment_id :: string
  repayment_loanId :: string
  repayment_amount :: rat
  repayment_paidAt :: int

record payment_row =
  payment_id :: string
  payment_loanId :: string
  payment_amount :: rat
  payment_state :: payment_status

record payment_session_row =
  ps_id :: string
  ps_loanId :: string
  ps_repaymentId :: "string option"
  sessionToken :: string
  checkoutUrl :: string
  successUrl :: string
  cancelUrl :: string
  webhookUrl :: "string option"
  webhookSecret :: "string option"
  ps_status :: session_status
  ps_completedAt :: "int option"

record oracle_row =
  oracle_id :: string
  oracle_address :: string
  oracle_isActive :: bool
  deactivatedAt :: "int option"
  oracleType :: string
  oracle_metadata :: "json option"
  totalConfirmations :: nat
  successfulConfirmations :: nat
  failedConfirmations :: nat
  lastActiveAt :: "int option"

record rate_limit_row =
  rl_oracleId :: string
  minuteWindow :: int
  rl_count :: nat

record confirmation_row =
  conf_id :: string
  conf_oracleId :: string
  conf_escrowId :: string
  conf_eventType :: string
  conf_signature :: string
  conf_payload :: json
  conf_createdAt :: int

record dispute_row =
  dispute_id :: string
  dispute_escrowId :: string
  reporterAddress :: string
  dispute_reason :: string
  dispute_status :: dispute_status
  dispute_resolution :: "string option"
  resolvedAt :: "int option"

record reputation_row =
  rep_oracleId :: string
  rep_score :: int
  rep_accuracy :: rat
  rep_reliability :: rat
  totalVotes :: nat
  positiveVotes :: nat
  negativeVotes :: nat
  rep_lastUpdated :: int

record stake_row =
  stake_oracleId :: string
  stake_amount :: rat
  stake_assetCode :: string
  stakedAt :: int
  slashedAmount :: rat
  rewardAmount :: rat
  lastRewardAt :: "int option"

record reward_row =
  reward_id :: string
  reward_oracleId :: string
  reward_amount :: rat
  reward_assetCode :: string
  reward_reason :: string
  reward_confirmationId :: "string option"

record threshold_row =
  thr_id :: string
  thr_escrowId :: string
  thr_eventType :: string
  requiredSigs :: int
  collectedSigs :: int
  thr_signatures :: "(string \<times> string \<times> int) list"
  thr_status :: signature_status
  thr_completedAt :: "int option"

record proposal_row =
  proposal_id :: string
  proposal_title :: string
  proposal_description :: string
  proposerId :: string
  proposal_status :: governance_status
  proposal_endsAt :: int

record vote_row =
  vote_id :: string
  vote_proposalId :: string
  voterAddress :: string
  vote_choice :: string
  vote_weight :: rat

record webhook_row =
  webhook_id :: string
  webhook_userId :: string
  webhook_url :: string
  webhook_secret :: string
  webhook_events :: "string list"
  webhook_isActive :: bool
  authMethod :: webhook_auth
  authConfig :: "(string \<times> json) list option"
  encryptionEnabled :: bool
  encryptionKey :: "string option"
  rateLimitPerMinute :: int
  lastSuccessAt :: "int option"
  lastFailureAt :: "int option"
  consecutiveFailures :: nat

record delivery_row =
  delivery_id :: string
  delivery_webhookId :: string
  delivery_eventType :: string
  delivery_status :: delivery_status
  delivery_attempt :: nat
  requestBody :: "json option"
  responseStatus :: "int option"
  responseBody :: "string option"
  errorMessage :: "string option"
  nextRetryAt :: "int option"
  deliveredAt :: "int option"
  durationMs :: "int option"

text \<open>
  A row of \<open>UserPermission\<close> joined with its \<open>Permission\<close>: the user and the scope's
  text.
\<close>

record user_permission_row =
  up_userId :: string
  up_scope :: string

record risk_row =
  risk_wallet :: string
  risk_score :: int
  risk_grade :: string
  risk_components :: "int \<times> int \<times> int \<times> int"
  risk_computedAt :: int

section \<open>Messages\<close>

text \<open>The websocket messages of \<open>server/src/services/websocket.service.ts\<close>.\<close>

datatype ws_event =
    ESCROW_CREATED string string string
  | ESCROW_UPDATED string string
  | LOAN_UPDATED string string
  | GOVERNANCE_VOTE_CAST string int

section \<open>The database and the messages sent\<close>

record world =
  users :: "user_row list"
  wallets :: "wallet_row list"
  sessions :: "session_row list"
  challenges :: "challenge_row list"
  escrows :: "escrow_row list"
  collaterals :: "collateral_row list"
  loans :: "loan_row list"
  repayments :: "repayment_row list"
  payments :: "payment_row list"
  payment_sessions :: "payment_session_row list"
  oracles :: "oracle_row list"
  rate_limits :: "rate_limit_row list"
  confirmations :: "confirmation_row list"
  disputes :: "dispute_row list"
  reputations :: "reputation_row list"
  stakes :: "stake_row list"
  rewards :: "reward_row list"
  thresholds :: "threshold_row list"
  proposals :: "proposal_row list"
  votes :: "vote_row list"
  webhooks :: "webhook_row list"
  deliveries :: "delivery_row list"
  user_permissions :: "user_permission_row list"
  role_permissions :: "user_permission_row list" \<comment> \<open>the scopes of each user's assigned role\<close>
  risk_scores :: "risk_row list"
  ws_log :: "ws_event list"
  dispute_events :: "(string \<times> string) list"

definition empty_world :: world where
  "empty_world = \<lparr>users = [], wallets = [], sessions = [], challenges = [], escrows = [], collaterals = [],
     loans = [], repayments = [], payments = [], payment_sessions = [], oracles = [], rate_limits = [], confirmations = [],
     disputes = [], reputations = [], stakes = [], rewards = [], thresholds = [], proposals = [], votes = [],
     webhooks = [], deliveries = [], user_permissions = [], role_permissions = [], risk_scores = [], ws_log = [], dispute_events = []\<rparr>"

text \<open>\<open>websocketService.broadcast...\<close>: every open connection gets the message.\<close>

definition broadcast :: "ws_event \<Rightarrow> world \<Rightarrow> world" where
  "broadcast e w = w\<lparr>ws_log := ws_log w @ [e]\<rparr>"

text \<open>
  \<open>db.user.findMany({where: {id: {in: ids}}})\<close>: the users with one of the ids, each
  once.
\<close>

definition users_in :: "string list \<Rightarrow> world \<Rightarrow> user_row list" where
  "users_in ids w = filter (\<lambda>u. user_id u \<in> set ids) (users w)"

section \<open>The tables as keyed tables\<close>

interpretation user_tab: keyed_table user_id "\<lambda>t. t" "lookup_row user_id" insert_row update_where delete_where
  by (rule keyed_rows)

interpretation wallet_tab: keyed_table wallet_id "\<lambda>t. t" "lookup_row wallet_id" insert_row update_where delete_where
  by (rule keyed_rows)

interpretation session_tab: keyed_table session_jti "\<lambda>t. t" "lookup_row session_jti" insert_row update_where delete_where
  by (rule keyed_rows)

interpretation challenge_tab: keyed_table challenge_id "\<lambda>t. t" "lookup_row challenge_id" insert_row update_where delete_where
  by (rule keyed_rows)

interpretation escrow_tab: keyed_table escrow_id "\<lambda>t. t" "lookup_row escrow_id" insert_row update_where delete_where
  by (rule keyed_rows)

interpretation collateral_tab: keyed_table collateral_id "\<lambda>t. t" "lookup_row collateral_id" insert_row update_where delete_where
  by (rule keyed_rows)

interpretation loan_tab: keyed_table loan_id "\<lambda>t. t" "lookup_row loan_id" insert_row update_where delete_where
  by (rule keyed_rows)

interpretation payment_tab: keyed_table payment_id "\<lambda>t. t" "lookup_row payment_id" insert_row update_where delete_where
  by (rule keyed_rows)

interpretation oracle_tab: keyed_table oracle_id "\<lambda>t. t" "lookup_row oracle_id" insert_row update_where delete_where
  by (rule keyed_rows)

interpretation reputation_tab: keyed_table rep_oracleId "\<lambda>t. t" "lookup_row rep_oracleId" insert_row update_where delete_where
  by (rule keyed_rows)

interpretation stake_tab: keyed_table stake_oracleId "\<lambda>t. t" "lookup_row stake_oracleId" insert_row update_where delete_where
  by (rule keyed_rows)

interpretation threshold_tab: keyed_table thr_id "\<lambda>t. t" "lookup_row thr_id" insert_row update_where delete_where
  by (rule keyed_rows)

interpretation proposal_tab: keyed_table proposal_id "\<lambda>t. t" "lookup_row proposal_id" insert_row update_where delete_where
  by (rule keyed_rows)

interpretation webhook_tab: keyed_table webhook_id "\<lambda>t. t" "lookup_row webhook_id" insert_row update_where delete_where
  by (rule keyed_rows)

interpretation delivery_tab: keyed_table delivery_id "\<lambda>t. t" "lookup_row delivery_id" insert_row update_where delete_where
  by (rule keyed_rows)

section \<open>Broadcasting\<close>

lemma broadcast_simps [simp]:
  "escrows (broadcast e w) = escrows w" "users (broadcast e w) = users w" "loans (broadcast e w) = loans w"
  "repayments (broadcast e w) = repayments w" "payment_sessions (broadcast e w) = payment_sessions w"
  "proposals (broadcast e w) = proposals w" "votes (broadcast e w) = votes w" "ws_log (broadcast e w) = ws_log w @ [e]"
  by (simp_all add: broadcast_def)

lemma fold_broadcast_escrows [simp]: "escrows (fold (\<lambda>r. broadcast (f r)) rs w) = escrows w"
  by (induction rs arbitrary: w) simp_all

lemma fold_broadcast_log: "ws_log (fold (\<lambda>r. broadcast (f r)) rs w) = ws_log w @ map f rs"
  by (induction rs arbitrary: w) simp_all

lemma users_in_two:
  assumes "length (users_in [a, b] w) = 2" and "distinct (map user_id (users w))"
  shows "a \<in> user_id ` set (users w) \<and> b \<in> user_id ` set (users w)"
proof -
  let ?l = "map user_id (users_in [a, b] w)"
  have d: "distinct ?l" using assms(2) by (simp add: users_in_def distinct_map_filter)
  have s: "set ?l \<subseteq> {a, b}" by (auto simp: users_in_def)
  have "card (set ?l) = length ?l" using d by (rule distinct_card)
  then have "card (set ?l) = 2" using assms(1) by (simp only: length_map)
  moreover have "card {a, b} \<le> 2" by (simp add: card_insert_if)
  ultimately have "set ?l = {a, b}" using s by (metis card_seteq finite.emptyI finite.insertI)
  moreover have "set ?l \<subseteq> user_id ` set (users w)" by (auto simp: users_in_def)
  ultimately show ?thesis by auto
qed

end
