(* ===== verification/Platform.thy ===== *)
theory Platform
  imports Database
begin

text \<open>
  What the services take from outside the repository, as parameters: the
  JavaScript engine's conversions between text, numbers and dates, the rounding of
  a \<open>Decimal(20, 7)\<close> column, and the calls to the Stellar network. A service
  operation gets them as a record, so that each property holds for every instance.
\<close>

record platform =
  str_num :: "string \<Rightarrow> jsnum" \<comment> \<open>\<open>Number(s)\<close>\<close>
  num_str :: "rat \<Rightarrow> string" \<comment> \<open>\<open>x.toString()\<close>\<close>
  date_of :: "string \<Rightarrow> int option" \<comment> \<open>\<open>new Date(s)\<close>, \<open>None\<close> when invalid\<close>
  iso_date :: "int \<Rightarrow> string" \<comment> \<open>\<open>d.toISOString()\<close>\<close>
  base64 :: "string \<Rightarrow> string" \<comment> \<open>\<open>Buffer.from(s).toString("base64")\<close>\<close>
  col20_7 :: "rat \<Rightarrow> rat" \<comment> \<open>the value a \<open>Decimal(20, 7)\<close> column keeps\<close>

record chain =
  contract_loan :: string
  contract_escrow :: string
  fee_payer :: string
  build_xdr :: "string \<Rightarrow> string \<Rightarrow> string list \<Rightarrow> string \<Rightarrow> app_error + string"
  live_escrow :: "string \<Rightarrow> app_error + string option"

text \<open>A date field of a request: absent, a text, or a \<open>Date\<close> object (perhaps invalid).\<close>

datatype date_input = DUndef | DStr string | DDate "int option"

fun date_value :: "platform \<Rightarrow> date_input \<Rightarrow> int option" where
  "date_value P DUndef = None"
| "date_value P (DStr s) = date_of P s"
| "date_value P (DDate d) = d"

text \<open>A column value is stored exactly when it is a multiple of \<open>10\<^sup>-\<^sup>7\<close>.\<close>

definition on_grid :: "rat \<Rightarrow> bool" where
  "on_grid x \<longleftrightarrow> (\<exists>n :: int. x * 10 ^ 7 = of_int n)"

text \<open>
  The documented behaviour of the column: values on the grid are kept, the stored
  value is on the grid, and rounding is monotone.
\<close>

definition column_laws :: "(rat \<Rightarrow> rat) \<Rightarrow> bool" where
  "column_laws c \<longleftrightarrow> (\<forall>x. on_grid x \<longrightarrow> c x = x) \<and> (\<forall>x. on_grid (c x)) \<and> (\<forall>x y. x \<le> y \<longrightarrow> c x \<le> c y)"

text \<open>
  Writing a value: PostgreSQL rounds it to seven decimals and refuses it when more
  than thirteen digits are left before the point.
\<close>

definition store20_7 :: "platform \<Rightarrow> rat \<Rightarrow> app_error + rat" where
  "store20_7 P x = (if \<bar>col20_7 P x\<bar> < 10 ^ 13 then Inr (col20_7 P x) else Inl (PlainError ''numeric field overflow''))"

lemma store20_7_Inr: "store20_7 P x = Inr v \<longleftrightarrow> v = col20_7 P x \<and> \<bar>v\<bar> < 10 ^ 13"
  by (auto simp: store20_7_def)

text \<open>Rounding half away from zero to seven decimals, an instance of the laws.\<close>

definition round7 :: "rat \<Rightarrow> rat" where
  "round7 x = (if 0 \<le> x then of_int \<lfloor>x * 10 ^ 7 + 1 / 2\<rfloor> / 10 ^ 7 else - (of_int \<lfloor>- x * 10 ^ 7 + 1 / 2\<rfloor> / 10 ^ 7))"

lemma on_grid_0 [simp]: "on_grid 0"
  by (auto simp: on_grid_def intro: exI [of _ 0])

lemma on_grid_add: "on_grid x \<Longrightarrow> on_grid y \<Longrightarrow> on_grid (x + y)"
  unfolding on_grid_def by (metis distrib_right of_int_add)

lemma on_grid_diff: "on_grid x \<Longrightarrow> on_grid y \<Longrightarrow> on_grid (x - y)"
  unfolding on_grid_def by (metis left_diff_distrib of_int_diff)

lemma on_grid_sum_list: "(\<And>x. x \<in> set xs \<Longrightarrow> on_grid x) \<Longrightarrow> on_grid (sum_list xs)"
  by (induction xs) (auto intro: on_grid_add)

lemma on_gridI: "x * 10 ^ 7 = of_int n \<Longrightarrow> on_grid x"
  by (auto simp: on_grid_def)

lemma round7_on_grid: "on_grid (round7 x)"
proof (cases "0 \<le> x")
  case True
  then show ?thesis by (intro on_gridI [of _ "\<lfloor>x * 10 ^ 7 + 1 / 2\<rfloor>"]) (simp add: round7_def)
next
  case False
  then show ?thesis by (intro on_gridI [of _ "- \<lfloor>- x * 10 ^ 7 + 1 / 2\<rfloor>"]) (simp add: round7_def)
qed

lemma round7_fix:
  assumes "on_grid x"
  shows "round7 x = x"
proof -
  obtain n :: int where n: "x * 10 ^ 7 = of_int n" using assms by (auto simp: on_grid_def)
  have a: "\<lfloor>(of_int k :: rat) + 1 / 2\<rfloor> = k" for k by (simp add: floor_eq_iff)
  have x: "x = of_int n / 10 ^ 7" using n by (simp add: eq_divide_eq)
  have m: "- x * 10 ^ 7 = of_int (- n)" using n by simp
  show ?thesis unfolding round7_def n m a by (simp add: x)
qed

lemma round7_nonneg: "0 \<le> x \<Longrightarrow> 0 \<le> round7 x"
  by (simp add: round7_def)

lemma round7_nonpos: "x \<le> 0 \<Longrightarrow> round7 x \<le> 0"
proof -
  assume "x \<le> 0"
  then have "(0 :: int) \<le> \<lfloor>- x * 10 ^ 7 + 1 / 2\<rfloor>" by (simp add: le_floor_iff)
  then have "0 \<le> (of_int \<lfloor>- x * 10 ^ 7 + 1 / 2\<rfloor> / 10 ^ 7 :: rat)" by simp
  then show ?thesis using \<open>x \<le> 0\<close> by (simp add: round7_def)
qed

lemma round7_mono:
  assumes "x \<le> y"
  shows "round7 x \<le> round7 y"
proof -
  have mono: "of_int \<lfloor>u * 10 ^ 7 + 1 / 2\<rfloor> / 10 ^ 7 \<le> (of_int \<lfloor>v * 10 ^ 7 + 1 / 2\<rfloor> / 10 ^ 7 :: rat)"
    if "u \<le> v" for u v :: rat
    using that by (intro divide_right_mono) (auto intro: floor_mono)
  show ?thesis
  proof (cases "x < 0 \<and> 0 \<le> y")
    case True
    then show ?thesis using round7_nonpos [of x] round7_nonneg [of y] by simp
  next
    case False
    then show ?thesis
      using assms mono [of x y] mono [of "- y" "- x"] unfolding round7_def by auto
  qed
qed

lemma column_laws_round7: "column_laws round7"
  by (simp add: column_laws_def round7_fix round7_on_grid round7_mono)

lemma columnD:
  assumes "column_laws c"
  shows "on_grid x \<Longrightarrow> c x = x" "on_grid (c x)" "x \<le> y \<Longrightarrow> c x \<le> c y"
  using assms by (auto simp: column_laws_def)

section \<open>Small instances for concrete evaluations\<close>

definition demo_platform :: platform where
  "demo_platform = \<lparr>str_num = (\<lambda>s. if s = ''10'' then Fin 10 else NaN), num_str = (\<lambda>_. ''n''),
     date_of = (\<lambda>_. None), iso_date = (\<lambda>_. ''iso''), base64 = (\<lambda>s. s), col20_7 = round7\<rparr>"

definition demo_chain :: chain where
  "demo_chain = \<lparr>contract_loan = ''CL'', contract_escrow = ''CE'', fee_payer = ''GF'',
     build_xdr = (\<lambda>_ _ _ _. Inr ''AAAA''), live_escrow = (\<lambda>_. Inr (Some ''active''))\<rparr>"

lemmas demo_defs = demo_platform_def demo_chain_def

end
