(* ===== verification/Escrow_Service.thy ===== *)
theory Escrow_Service
  imports Platform
begin

text \<open>
  The escrow service (\<open>server/src/services/escrow.service.ts\<close>): request parsing,
  creation, lookup, the paged list, the on-chain event handler with its compare-and-set
  update, and the timeout sweep. The handlers that read, then write, take the
  interference of other requests between their database calls as functions on the
  world, so that their properties hold under interleaving.
\<close>

section \<open>Statuses and transitions\<close>

definition ESCROW_STATUSES :: "escrow_status list" where
  "ESCROW_STATUSES = [ESCROW_PENDING, ESCROW_FUNDED, ESCROW_RELEASED, ESCROW_REFUNDED, ESCROW_DISPUTED, ESCROW_CANCELLED]"

fun ESCROW_ALLOWED_TRANSITIONS :: "escrow_status \<Rightarrow> escrow_status list" where
  "ESCROW_ALLOWED_TRANSITIONS ESCROW_PENDING =
     [ESCROW_PENDING, ESCROW_FUNDED, ESCROW_RELEASED, ESCROW_REFUNDED, ESCROW_DISPUTED, ESCROW_CANCELLED]"
| "ESCROW_ALLOWED_TRANSITIONS ESCROW_FUNDED =
     [ESCROW_FUNDED, ESCROW_RELEASED, ESCROW_REFUNDED, ESCROW_DISPUTED, ESCROW_CANCELLED]"
| "ESCROW_ALLOWED_TRANSITIONS ESCROW_RELEASED = [ESCROW_RELEASED]"
| "ESCROW_ALLOWED_TRANSITIONS ESCROW_REFUNDED = [ESCROW_REFUNDED]"
| "ESCROW_ALLOWED_TRANSITIONS ESCROW_DISPUTED =
     [ESCROW_DISPUTED, ESCROW_FUNDED, ESCROW_RELEASED, ESCROW_CANCELLED]"
| "ESCROW_ALLOWED_TRANSITIONS ESCROW_CANCELLED = [ESCROW_CANCELLED]"

definition escrow_allowed :: "escrow_status \<Rightarrow> escrow_status \<Rightarrow> bool" where
  "escrow_allowed a b \<longleftrightarrow> b \<in> set (ESCROW_ALLOWED_TRANSITIONS a)"

definition escrow_terminal :: "escrow_status \<Rightarrow> bool" where
  "escrow_terminal s \<longleftrightarrow> s \<in> {ESCROW_RELEASED, ESCROW_REFUNDED, ESCROW_CANCELLED}"

interpretation escrow_machine: status_machine escrow_allowed escrow_terminal
  by unfold_locales (auto simp: escrow_allowed_def escrow_terminal_def)

section \<open>Request parsing\<close>

definition parsePositiveAmount :: "platform \<Rightarrow> num_input \<Rightarrow> string \<Rightarrow> app_error + rat" where
  "parsePositiveAmount P v fieldName = (case js_Number (str_num P) v of
     Fin amount \<Rightarrow> if amount \<le> 0 then Inl (ValidationError (fieldName @ '' must be a positive number'')) else Inr amount
   | _ \<Rightarrow> Inl (ValidationError (fieldName @ '' must be a positive number'')))"

definition parseDate :: "platform \<Rightarrow> date_input \<Rightarrow> string \<Rightarrow> app_error + int" where
  "parseDate P v fieldName =
     (if v = DUndef \<or> v = DStr [] then Inl (ValidationError (fieldName @ '' is required''))
      else case date_value P v of
        None \<Rightarrow> Inl (ValidationError (fieldName @ '' must be a valid date''))
      | Some t \<Rightarrow> Inr t)"

definition status_of_string :: "string \<Rightarrow> escrow_status option" where
  "status_of_string s = find (\<lambda>st. show_escrow_status st = s) ESCROW_STATUSES"

definition normalizeStatus :: "string option \<Rightarrow> string \<Rightarrow> app_error + escrow_status" where
  "normalizeStatus v fieldName = (case status_of_string (js_upper (opt_trim v)) of
     None \<Rightarrow> Inl (ValidationError (fieldName @ '' must be one of: PENDING, FUNDED, RELEASED, REFUNDED, DISPUTED, CANCELLED''))
   | Some s \<Rightarrow> Inr s)"

definition is_base64_char :: "char \<Rightarrow> bool" where
  "is_base64_char c \<longleftrightarrow> (let n = (of_char c :: nat) in
     (65 \<le> n \<and> n \<le> 90) \<or> (97 \<le> n \<and> n \<le> 122) \<or> (48 \<le> n \<and> n \<le> 57) \<or> c = CHR ''+'' \<or> c = CHR ''/'')"

definition ensureBase64 :: "platform \<Rightarrow> string \<Rightarrow> string" where
  "ensureBase64 P v = (let body = takeWhile is_base64_char v; pad = dropWhile is_base64_char v in
     if body \<noteq> [] \<and> pad \<in> {[], ''='', ''==''} \<and> length v mod 4 = 0 then v else base64 P v)"

definition normalizeLiveEscrowStatus :: "string option \<Rightarrow> escrow_status option" where
  "normalizeLiveEscrowStatus v = (let s = js_upper (opt_trim v) in
     if s = ''ACTIVE'' then Some ESCROW_FUNDED
     else if s = ''RELEASED'' then Some ESCROW_RELEASED
     else if s = ''REFUNDED'' then Some ESCROW_REFUNDED
     else if s = ''DISPUTED'' then Some ESCROW_DISPUTED
     else None)"

lemmas [guard_defs] = parsePositiveAmount_def parseDate_def normalizeStatus_def

lemma status_of_show [simp]: "status_of_string (show_escrow_status s) = Some s"
  by (cases s) (simp_all add: status_of_string_def ESCROW_STATUSES_def)

lemma status_of_string_Some: "status_of_string t = Some s \<Longrightarrow> t = show_escrow_status s"
  by (auto simp: status_of_string_def dest: find_SomeD)

section \<open>Creating an escrow\<close>

record create_escrow_request =
  ce_buyerId :: "string option"
  ce_sellerId :: "string option"
  ce_amount :: num_input
  ce_assetCode :: "string option"
  ce_expiresAt :: date_input

text \<open>The checks of \<open>createEscrow\<close> before it reads the database.\<close>

definition create_escrow_args ::
  "platform \<Rightarrow> int \<Rightarrow> create_escrow_request \<Rightarrow> app_error + (string \<times> string \<times> rat \<times> int)" where
  "create_escrow_args P now payload =
     (let buyer = opt_trim (ce_buyerId payload); seller = opt_trim (ce_sellerId payload) in
      if buyer = [] then Inl (ValidationError ''buyerId is required'')
      else if seller = [] then Inl (ValidationError ''sellerId is required'')
      else if buyer = seller then Inl (ValidationError ''buyerId and sellerId must be different'')
      else case parsePositiveAmount P (ce_amount payload) ''amount'' of
        Inl e \<Rightarrow> Inl e
      | Inr amount \<Rightarrow> (case parseDate P (ce_expiresAt payload) ''expiresAt'' of
          Inl e \<Rightarrow> Inl e
        | Inr expiresAt \<Rightarrow>
            if expiresAt \<le> now then Inl (ValidationError ''expiresAt must be in the future'')
            else Inr (buyer, seller, amount, expiresAt)))"

definition createEscrow ::
  "platform \<Rightarrow> chain \<Rightarrow> int \<Rightarrow> string \<Rightarrow> create_escrow_request \<Rightarrow> world \<Rightarrow> (world, string \<times> string) outcome" where
  "createEscrow P C now new_id payload w = (case create_escrow_args P now payload of
     Inl e \<Rightarrow> (Inl e, w)
   | Inr (buyer, seller, amount, expiresAt) \<Rightarrow>
       if length (users_in [buyer, seller] w) \<noteq> 2
       then (Inl (ValidationError ''buyerId or sellerId does not exist''), w)
       else let contract = js_trim (contract_escrow C) in
         if contract = [] then (Inl (PlainError ''Escrow contract ID not configured: contracts.escrow is empty''), w)
         else case build_xdr C contract ''create_escrow''
             [buyer, seller, num_str P amount, or_else (ce_assetCode payload) ''USDC'', iso_date P expiresAt] (fee_payer C) of
           Inl e \<Rightarrow> (Inl e, w)
         | Inr unsignedXdr \<Rightarrow> (case store20_7 P amount of
             Inl e \<Rightarrow> (Inl e, w)
           | Inr stored \<Rightarrow>
             let row = \<lparr>escrow_id = new_id, buyerId = buyer, sellerId = seller, escrow_amount = stored,
                   escrow_assetCode = or_else (ce_assetCode payload) ''USDC'', escrow_status = ESCROW_PENDING,
                   stellarTxHash = None, escrowAddress = None, escrow_expiresAt = expiresAt\<rparr>;
                 w' = w\<lparr>escrows := insert_row row (escrows w)\<rparr>
             in (Inr (new_id, ensureBase64 P unsignedXdr), broadcast (ESCROW_CREATED new_id buyer seller) w')))"

section \<open>Reading escrows\<close>

definition getEscrow :: "string \<Rightarrow> world \<Rightarrow> (world, escrow_row) outcome" where
  "getEscrow i w = (case lookup_row escrow_id i (escrows w) of
     None \<Rightarrow> (Inl (NotFoundError ''Escrow not found''), w)
   | Some e \<Rightarrow> (Inr e, w))"

record escrow_sync =
  es_escrowId :: string
  es_onChainEscrowId :: string
  es_databaseStatus :: escrow_status
  es_liveStatus :: "escrow_status option"
  es_synchronized :: bool
  es_liveEscrow :: "string option" \<comment> \<open>the status field of the state read\<close>

definition is_digit_char :: "char \<Rightarrow> bool" where
  "is_digit_char c \<longleftrightarrow> (let n = (of_char c :: nat) in 48 \<le> n \<and> n \<le> 57)"

definition all_digits :: "string \<Rightarrow> bool" where
  "all_digits s \<longleftrightarrow> s \<noteq> [] \<and> list_all is_digit_char s"

definition getEscrowStatus :: "chain \<Rightarrow> string \<Rightarrow> world \<Rightarrow> (world, escrow_sync) outcome" where
  "getEscrowStatus C i w = (case getEscrow i w of
     (Inl e, w') \<Rightarrow> (Inl e, w')
   | (Inr escrow, w') \<Rightarrow>
       let trimmed = opt_trim (escrowAddress escrow); ref = (if trimmed = [] then i else trimmed) in
       if \<not> all_digits ref
       then (Inl (ValidationError ''Escrow does not have a numeric on-chain identifier to query''), w')
       else case live_escrow C ref of
         Inl e \<Rightarrow> (Inl e, w')
       | Inr live \<Rightarrow>
           let ls = normalizeLiveEscrowStatus live in
           (Inr \<lparr>es_escrowId = escrow_id escrow, es_onChainEscrowId = ref, es_databaseStatus = escrow_status escrow,
                 es_liveStatus = ls, es_synchronized = (ls = Some (escrow_status escrow)), es_liveEscrow = live\<rparr>, w'))"

record escrow_list_query =
  elq_buyerId :: "string option"
  elq_sellerId :: "string option"
  elq_status :: "string option"
  elq_page :: num_input
  elq_limit :: num_input

record 'r page_result =
  items :: "'r list"
  page_no :: int
  page_limit :: int
  page_total :: int
  page_totalPages :: int

text \<open>The \<open>where\<close> object of \<open>listEscrows\<close>, as a predicate on rows.\<close>

definition escrow_where :: "escrow_list_query \<Rightarrow> escrow_status option \<Rightarrow> escrow_row \<Rightarrow> bool" where
  "escrow_where q st r \<longleftrightarrow>
     (opt_trim (elq_buyerId q) \<noteq> [] \<longrightarrow> buyerId r = opt_trim (elq_buyerId q)) \<and>
     (opt_trim (elq_sellerId q) \<noteq> [] \<longrightarrow> sellerId r = opt_trim (elq_sellerId q)) \<and>
     (case st of None \<Rightarrow> True | Some s \<Rightarrow> escrow_status r = s)"

definition status_filter :: "string option \<Rightarrow> app_error + escrow_status option" where
  "status_filter v = (if opt_trim v = [] then Inr None
     else case normalizeStatus v ''status'' of Inl e \<Rightarrow> Inl e | Inr s \<Rightarrow> Inr (Some s))"

definition listEscrows :: "platform \<Rightarrow> escrow_list_query \<Rightarrow> world \<Rightarrow> (world, escrow_row page_result) outcome" where
  "listEscrows P q w =
     (let page = coercePage (str_num P) (elq_page q); limit = coerceLimit (str_num P) (elq_limit q);
          skip = (page - 1) * limit in
      case status_filter (elq_status q) of
        Inl e \<Rightarrow> (Inl e, w)
      | Inr st \<Rightarrow>
          let tot = int (count_where (escrow_where q st) (escrows w)) in
          (Inr \<lparr>items = page_desc (escrow_where q st) (nat skip) (nat limit) (escrows w),
                page_no = page, page_limit = limit, page_total = tot,
                page_totalPages = total_pages tot limit\<rparr>, w))"

section \<open>On-chain events\<close>

record escrow_event =
  ev_escrowId :: "string option"
  ev_status :: "string option"
  ev_stellarTxHash :: "string option"

definition set_escrow_status :: "escrow_status \<Rightarrow> string option \<Rightarrow> escrow_row \<Rightarrow> escrow_row" where
  "set_escrow_status s tx r = (let r' = r\<lparr>escrow_status := s\<rparr> in
     case tx of None \<Rightarrow> r' | Some h \<Rightarrow> if h = [] then r' else r'\<lparr>stellarTxHash := Some h\<rparr>)"

text \<open>
  \<open>processEscrowEvent\<close>: \<open>env1\<close> is what other requests do between the first read and
  the \<open>updateMany\<close>, \<open>env2\<close> what they do between that and the second read.
\<close>

definition processEscrowEvent ::
  "(world \<Rightarrow> world) \<Rightarrow> (world \<Rightarrow> world) \<Rightarrow> escrow_event \<Rightarrow> world \<Rightarrow> (world, escrow_row) outcome" where
  "processEscrowEvent env1 env2 ev w =
     (let i = opt_trim (ev_escrowId ev) in
      if i = [] then (Inl (ValidationError ''escrowId is required''), w)
      else case normalizeStatus (ev_status ev) ''status'' of
        Inl e \<Rightarrow> (Inl e, w)
      | Inr status \<Rightarrow> (case lookup_row escrow_id i (escrows w) of
          None \<Rightarrow> (Inl (NotFoundError ''Escrow not found''), w)
        | Some existing \<Rightarrow>
            if status \<notin> set (ESCROW_ALLOWED_TRANSITIONS (escrow_status existing))
            then (Inl (ValidationError (''Illegal escrow status transition: '' @ show_escrow_status (escrow_status existing)
                    @ '' -> '' @ show_escrow_status status)), w)
            else let w1 = env1 w;
                     sel = (\<lambda>r. escrow_id r = i \<and> escrow_status r = escrow_status existing);
                     n = count_where sel (escrows w1);
                     w2 = w1\<lparr>escrows := update_where sel (set_escrow_status status (ev_stellarTxHash ev)) (escrows w1)\<rparr>
              in if n \<noteq> 1
                 then (Inl (ValidationError ''Escrow status changed concurrently. Please retry with latest state.''), w2)
                 else let w3 = env2 w2 in
                   case lookup_row escrow_id i (escrows w3) of
                     None \<Rightarrow> (Inl (NotFoundError ''Escrow not found''), w3)
                   | Some updated \<Rightarrow>
                       if escrow_status existing \<noteq> escrow_status updated
                       then (Inr updated, broadcast (ESCROW_UPDATED (escrow_id updated) (show_escrow_status (escrow_status updated))) w3)
                       else (Inr updated, w3)))"

section \<open>The timeout sweep\<close>

text \<open>
  One tick of \<open>timeoutDetector\<close> at time \<open>now\<close>: find the overdue funded escrows,
  cancel those that are still funded, read back the cancelled ones and announce them.
\<close>

definition timeoutTick :: "(world \<Rightarrow> world) \<Rightarrow> (world \<Rightarrow> world) \<Rightarrow> int \<Rightarrow> world \<Rightarrow> world" where
  "timeoutTick env1 env2 now w =
     (let ids = map escrow_id (filter (\<lambda>r. escrow_status r = ESCROW_FUNDED \<and> escrow_expiresAt r < now) (escrows w)) in
      if ids = [] then w
      else let w1 = env1 w;
               w2 = w1\<lparr>escrows := update_where (\<lambda>r. escrow_status r = ESCROW_FUNDED \<and> escrow_id r \<in> set ids)
                      (\<lambda>r. r\<lparr>escrow_status := ESCROW_CANCELLED\<rparr>) (escrows w1)\<rparr>;
               w3 = env2 w2;
               expired = filter (\<lambda>r. escrow_id r \<in> set ids \<and> escrow_status r = ESCROW_CANCELLED) (escrows w3)
           in fold (\<lambda>r. broadcast (ESCROW_UPDATED (escrow_id r) (show_escrow_status ESCROW_CANCELLED))) expired w3)"

lemmas [step_defs] = createEscrow_def getEscrow_def getEscrowStatus_def listEscrows_def processEscrowEvent_def timeoutTick_def

lemma set_escrow_status_simps [simp]:
  "escrow_id (set_escrow_status s tx r) = escrow_id r"
  "escrow_status (set_escrow_status s tx r) = s"
  by (simp_all add: set_escrow_status_def Let_def split: option.splits)

section \<open>Status changes under interleaving\<close>

text \<open>
  \<open>escrow_kept w w'\<close>: every escrow of \<open>w\<close> is still there in \<open>w'\<close>, and its status
  got there by allowed transitions. The operations of the service keep it whatever
  other requests that keep it do in between.
\<close>

definition escrow_kept :: "world \<Rightarrow> world \<Rightarrow> bool" where
  "escrow_kept w w' \<longleftrightarrow> (\<forall>i r. lookup_row escrow_id i (escrows w) = Some r \<longrightarrow>
     (\<exists>r'. lookup_row escrow_id i (escrows w') = Some r' \<and> escrow_allowed\<^sup>*\<^sup>* (escrow_status r) (escrow_status r')))"

lemma escrow_kept_refl [simp, intro]: "escrow_kept w w"
  by (auto simp: escrow_kept_def)

lemma escrow_kept_trans [trans]: "escrow_kept u v \<Longrightarrow> escrow_kept v w \<Longrightarrow> escrow_kept u w"
  unfolding escrow_kept_def by (meson rtranclp_trans)

lemma escrow_kept_cong: "escrows w' = escrows v \<Longrightarrow> escrow_kept w v \<Longrightarrow> escrow_kept w w'"
  by (simp add: escrow_kept_def)

lemma escrow_kept_update:
  assumes "\<And>r. escrow_id (f r) = escrow_id r"
    and "\<And>r. P r \<Longrightarrow> escrow_allowed (escrow_status r) (escrow_status (f r))"
  shows "escrow_kept w (w\<lparr>escrows := update_where P f (escrows w)\<rparr>)"
  using assms(2) by (auto simp: escrow_kept_def escrow_tab.lookup_update [OF assms(1)])

lemma escrow_kept_insert: "escrow_kept w (w\<lparr>escrows := insert_row r (escrows w)\<rparr>)"
  by (auto simp: escrow_kept_def escrow_tab.lookup_insert)

lemma escrow_kept_terminal:
  assumes "escrow_kept w w'" and "lookup_row escrow_id i (escrows w) = Some r" and "escrow_terminal (escrow_status r)"
  shows "\<exists>r'. lookup_row escrow_id i (escrows w') = Some r' \<and> escrow_status r' = escrow_status r"
  using assms escrow_machine.reach_terminal unfolding escrow_kept_def by blast

lemma createEscrow_kept [inv_intros]: "escrow_kept w (snd (createEscrow P C now i payload w))"
  by (auto simp: createEscrow_def Let_def intro!: escrow_kept_cong [OF _ escrow_kept_insert]
      split: sum.splits)

lemma processEscrowEvent_kept [inv_intros]:
  assumes "\<And>v. escrow_kept v (env1 v)" and "\<And>v. escrow_kept v (env2 v)"
  shows "escrow_kept w (snd (processEscrowEvent env1 env2 ev w))"
proof -
  have step: "escrow_kept w (env2 (env1 w\<lparr>escrows := update_where (\<lambda>r. escrow_id r = i \<and> escrow_status r = old)
      (set_escrow_status new tx) (escrows (env1 w))\<rparr>))"
    and part: "escrow_kept w (env1 w\<lparr>escrows := update_where (\<lambda>r. escrow_id r = i \<and> escrow_status r = old)
      (set_escrow_status new tx) (escrows (env1 w))\<rparr>)"
    if "new \<in> set (ESCROW_ALLOWED_TRANSITIONS old)" for i old new tx
  proof -
    have "escrow_kept (env1 w) (env1 w\<lparr>escrows := update_where (\<lambda>r. escrow_id r = i \<and> escrow_status r = old)
        (set_escrow_status new tx) (escrows (env1 w))\<rparr>)"
      using that by (intro escrow_kept_update) (auto simp: escrow_allowed_def)
    then show part: "escrow_kept w (env1 w\<lparr>escrows := update_where (\<lambda>r. escrow_id r = i \<and> escrow_status r = old)
        (set_escrow_status new tx) (escrows (env1 w))\<rparr>)"
      using assms(1) [of w] by (rule escrow_kept_trans [rotated])
    show "escrow_kept w (env2 (env1 w\<lparr>escrows := update_where (\<lambda>r. escrow_id r = i \<and> escrow_status r = old)
        (set_escrow_status new tx) (escrows (env1 w))\<rparr>))"
      by (rule escrow_kept_trans [OF part assms(2)])
  qed
  show ?thesis
    by (auto simp: processEscrowEvent_def Let_def intro: step part escrow_kept_cong [OF _ step]
        split: sum.splits option.splits)
qed

lemma timeoutTick_kept [inv_intros]:
  assumes "\<And>v. escrow_kept v (env1 v)" and "\<And>v. escrow_kept v (env2 v)"
  shows "escrow_kept w (timeoutTick env1 env2 now w)"
proof -
  have step: "escrow_kept w (env2 (env1 w\<lparr>escrows := update_where
      (\<lambda>r. escrow_status r = ESCROW_FUNDED \<and> escrow_id r \<in> ids) (\<lambda>r. r\<lparr>escrow_status := ESCROW_CANCELLED\<rparr>)
      (escrows (env1 w))\<rparr>))" for ids
  proof -
    have "escrow_kept (env1 w) (env1 w\<lparr>escrows := update_where
        (\<lambda>r. escrow_status r = ESCROW_FUNDED \<and> escrow_id r \<in> ids) (\<lambda>r. r\<lparr>escrow_status := ESCROW_CANCELLED\<rparr>)
        (escrows (env1 w))\<rparr>)"
      by (intro escrow_kept_update) (auto simp: escrow_allowed_def)
    then show ?thesis
      using assms escrow_kept_trans by blast
  qed
  show ?thesis
    by (auto simp: timeoutTick_def Let_def intro: escrow_kept_cong [OF _ step])
qed

text \<open>The requests of the service, and any interleaved run of them.\<close>

inductive escrow_env :: "platform \<Rightarrow> chain \<Rightarrow> (world \<Rightarrow> world) \<Rightarrow> bool" for P C where
  env_idle: "escrow_env P C (\<lambda>w. w)"
| env_create: "escrow_env P C f \<Longrightarrow> escrow_env P C (\<lambda>w. snd (createEscrow P C now i payload (f w)))"
| env_event: "escrow_env P C f \<Longrightarrow> escrow_env P C g \<Longrightarrow> escrow_env P C h \<Longrightarrow>
    escrow_env P C (\<lambda>w. snd (processEscrowEvent g h ev (f w)))"
| env_tick: "escrow_env P C f \<Longrightarrow> escrow_env P C g \<Longrightarrow> escrow_env P C h \<Longrightarrow>
    escrow_env P C (\<lambda>w. timeoutTick g h now (f w))"

lemma escrow_env_kept: "escrow_env P C f \<Longrightarrow> escrow_kept w (f w)"
proof (induction arbitrary: w rule: escrow_env.induct)
  case env_idle
  show ?case by simp
next
  case (env_create f now i payload)
  show ?case by (rule escrow_kept_trans [OF env_create.IH createEscrow_kept])
next
  case (env_event f g h ev)
  show ?case by (rule escrow_kept_trans [OF env_event.IH(1) processEscrowEvent_kept [OF env_event.IH(2,3)]])
next
  case (env_tick f g h now)
  show ?case by (rule escrow_kept_trans [OF env_tick.IH(1) timeoutTick_kept [OF env_tick.IH(2,3)]])
qed

section \<open>Properties\<close>

text \<open>
  C20. A successful \<open>processEscrowEvent\<close> commits an allowed transition even when other
  requests run between its read and its write: at the moment of the write exactly one
  row has the escrow's id and the status that was read, the transition from that
  status to the requested one is allowed, and that row's status (with the transaction
  hash) is the only thing the write changes.
\<close>

theorem processEscrowEvent_commit:
  assumes "processEscrowEvent env1 env2 ev w = (Inr u, w')"
  shows "\<exists>old new r. normalizeStatus (ev_status ev) ''status'' = Inr new
     \<and> lookup_row escrow_id (opt_trim (ev_escrowId ev)) (escrows w) = Some old
     \<and> filter (\<lambda>x. escrow_id x = opt_trim (ev_escrowId ev) \<and> escrow_status x = escrow_status old) (escrows (env1 w)) = [r]
     \<and> escrow_allowed (escrow_status r) new
     \<and> escrows w' = escrows (env2 (env1 w\<lparr>escrows := update_where (\<lambda>x. escrow_id x = escrow_id r \<and> escrow_status x = escrow_status r)
           (set_escrow_status new (ev_stellarTxHash ev)) (escrows (env1 w))\<rparr>))
     \<and> lookup_row escrow_id (escrow_id r) (escrows w') = Some u"
proof -
  let ?i = "opt_trim (ev_escrowId ev)"
  obtain new where new: "normalizeStatus (ev_status ev) ''status'' = Inr new"
    using assms by (auto simp: processEscrowEvent_def Let_def split: if_splits sum.splits)
  obtain old where old: "lookup_row escrow_id ?i (escrows w) = Some old"
    using assms new by (auto simp: processEscrowEvent_def Let_def split: if_splits option.splits)
  let ?sel = "\<lambda>x. escrow_id x = ?i \<and> escrow_status x = escrow_status old"
  let ?w2 = "env1 w\<lparr>escrows := update_where ?sel (set_escrow_status new (ev_stellarTxHash ev)) (escrows (env1 w))\<rparr>"
  have al: "new \<in> set (ESCROW_ALLOWED_TRANSITIONS (escrow_status old))"
    and one: "length (filter ?sel (escrows (env1 w))) = 1"
    and upd: "lookup_row escrow_id ?i (escrows (env2 ?w2)) = Some u"
    and esc: "escrows w' = escrows (env2 ?w2)"
    using assms new old
    by (auto simp: processEscrowEvent_def Let_def count_where_def split: if_splits option.splits)
  from one obtain r where r: "filter ?sel (escrows (env1 w)) = [r]"
    by (auto simp: length_Suc_conv)
  then have "r \<in> set (filter ?sel (escrows (env1 w)))" by simp
  then have rr: "escrow_id r = ?i" "escrow_status r = escrow_status old" by auto
  show ?thesis
    using new old r al upd esc rr by (intro exI [of _ old] exI [of _ new] exI [of _ r]) (simp add: escrow_allowed_def)
qed

definition demo_escrow :: escrow_row where
  "demo_escrow = \<lparr>escrow_id = ''e1'', buyerId = ''b'', sellerId = ''s'', escrow_amount = 10, escrow_assetCode = ''USDC'',
     escrow_status = ESCROW_FUNDED, stellarTxHash = None, escrowAddress = None, escrow_expiresAt = 100\<rparr>"

definition demo_escrow_world :: world where
  "demo_escrow_world = empty_world\<lparr>escrows := [demo_escrow]\<rparr>"

definition demo_release :: escrow_event where
  "demo_release = \<lparr>ev_escrowId = Some ''e1'', ev_status = Some ''released'', ev_stellarTxHash = Some ''h''\<rparr>"

lemma demo_release_status: "normalizeStatus (ev_status demo_release) ''status'' = Inr ESCROW_RELEASED"
  by code_simp

lemma demo_release_id: "opt_trim (ev_escrowId demo_release) = ''e1''"
  by code_simp

lemma demo_release_run:
  "processEscrowEvent (\<lambda>w. w) (\<lambda>w. w) demo_release demo_escrow_world
   = (Inr (set_escrow_status ESCROW_RELEASED (Some ''h'') demo_escrow),
      demo_escrow_world\<lparr>escrows := [set_escrow_status ESCROW_RELEASED (Some ''h'') demo_escrow],
        ws_log := [ESCROW_UPDATED ''e1'' ''RELEASED'']\<rparr>)"
  unfolding processEscrowEvent_def demo_release_status demo_release_id
  by (simp add: demo_escrow_world_def demo_escrow_def demo_release_def lookup_row_def count_where_def
      update_where_def empty_world_def broadcast_def set_escrow_status_def Let_def)

theorem processEscrowEvent_commit_witness:
  "\<exists>old new r. normalizeStatus (ev_status demo_release) ''status'' = Inr new
     \<and> lookup_row escrow_id (opt_trim (ev_escrowId demo_release)) (escrows demo_escrow_world) = Some old
     \<and> filter (\<lambda>x. escrow_id x = opt_trim (ev_escrowId demo_release) \<and> escrow_status x = escrow_status old)
         (escrows demo_escrow_world) = [r]
     \<and> escrow_allowed (escrow_status r) new
     \<and> [set_escrow_status ESCROW_RELEASED (Some ''h'') demo_escrow]
       = update_where (\<lambda>x. escrow_id x = escrow_id r \<and> escrow_status x = escrow_status r)
           (set_escrow_status new (ev_stellarTxHash demo_release)) (escrows demo_escrow_world)"
  using processEscrowEvent_commit [OF demo_release_run] by simp blast

text \<open>
  C21. A released, refunded or cancelled escrow keeps that status for ever under the
  escrow service: after any interleaved run of creations, on-chain events and timeout
  sweeps the escrow is still there with the same status.
\<close>

theorem escrow_terminal_forever:
  assumes "escrow_env P C f" and "lookup_row escrow_id i (escrows w) = Some r"
    and "escrow_status r \<in> {ESCROW_RELEASED, ESCROW_REFUNDED, ESCROW_CANCELLED}"
  shows "\<exists>r'. lookup_row escrow_id i (escrows (f w)) = Some r' \<and> escrow_status r' = escrow_status r"
  using escrow_kept_terminal [OF escrow_env_kept [OF assms(1)] assms(2)] assms(3)
  by (simp add: escrow_terminal_def)

theorem escrow_terminal_forever_witness:
  "\<exists>r'. lookup_row escrow_id ''e1''
        (escrows (timeoutTick (\<lambda>w. w) (\<lambda>w. w) 500 (demo_escrow_world\<lparr>escrows := [demo_escrow\<lparr>escrow_status := ESCROW_REFUNDED\<rparr>]\<rparr>))) = Some r'
     \<and> escrow_status r' = ESCROW_REFUNDED"
  using escrow_terminal_forever [OF env_tick [OF env_idle env_idle env_idle, where now = 500],
      where i = "''e1''" and w = "demo_escrow_world\<lparr>escrows := [demo_escrow\<lparr>escrow_status := ESCROW_REFUNDED\<rparr>]\<rparr>"
        and r = "demo_escrow\<lparr>escrow_status := ESCROW_REFUNDED\<rparr>"]
  by (simp add: lookup_row_def demo_escrow_def)

definition overdue :: "int \<Rightarrow> escrow_row \<Rightarrow> bool" where
  "overdue now r \<longleftrightarrow> escrow_status r = ESCROW_FUNDED \<and> escrow_expiresAt r < now"

lemma overdue_ids:
  assumes "distinct (map escrow_id t)" and "r \<in> set t"
  shows "escrow_id r \<in> escrow_id ` set (filter (overdue now) t) \<longleftrightarrow> overdue now r"
  using assms by (auto simp: distinct_map inj_on_def)

lemma filter_map_overdue:
  assumes "distinct (map escrow_id t)" and "set u \<subseteq> set t"
  shows "filter (\<lambda>r. escrow_id r \<in> escrow_id ` set (filter (overdue now) t) \<and> escrow_status r = ESCROW_CANCELLED)
       (map (\<lambda>r. if overdue now r then r\<lparr>escrow_status := ESCROW_CANCELLED\<rparr> else r) u)
     = map (\<lambda>r. r\<lparr>escrow_status := ESCROW_CANCELLED\<rparr>) (filter (overdue now) u)"
  using assms(2)
proof (induction u)
  case (Cons r u)
  then have "escrow_id r \<in> escrow_id ` set (filter (overdue now) t) \<longleftrightarrow> overdue now r"
    by (intro overdue_ids [OF assms(1)]) simp
  with Cons show ?case by (cases "overdue now r") (auto simp: overdue_def)
qed simp

text \<open>
  C22. The timeout sweep, run alone on a table with unique ids, cancels exactly the
  funded escrows whose expiry lies before \<open>now\<close>, leaves every other row as it is, and
  announces each cancelled escrow once, in creation order.
\<close>

theorem timeoutTick_exact:
  assumes "distinct (map escrow_id (escrows w))"
  shows "escrows (timeoutTick (\<lambda>w. w) (\<lambda>w. w) now w)
       = map (\<lambda>r. if overdue now r then r\<lparr>escrow_status := ESCROW_CANCELLED\<rparr> else r) (escrows w)
    \<and> ws_log (timeoutTick (\<lambda>w. w) (\<lambda>w. w) now w)
       = ws_log w @ map (\<lambda>r. ESCROW_UPDATED (escrow_id r) ''CANCELLED'') (filter (overdue now) (escrows w))"
proof -
  let ?t = "escrows w"
  let ?ids = "escrow_id ` set (filter (overdue now) ?t)"
  let ?g = "\<lambda>r. if overdue now r then r\<lparr>escrow_status := ESCROW_CANCELLED\<rparr> else r"
  have fold_od: "(\<lambda>r. escrow_status r = ESCROW_FUNDED \<and> escrow_expiresAt r < now) = overdue now"
    by (auto simp: overdue_def)
  have upd: "update_where (\<lambda>r. escrow_status r = ESCROW_FUNDED \<and> escrow_id r \<in> ?ids)
      (\<lambda>r. r\<lparr>escrow_status := ESCROW_CANCELLED\<rparr>) ?t = map ?g ?t"
    unfolding update_where_def using overdue_ids [OF assms] by (intro map_cong) (auto simp: overdue_def)
  show ?thesis
  proof (cases "filter (overdue now) ?t = []")
    case True
    then have "map ?g ?t = ?t" by (intro map_idI) (auto simp: filter_empty_conv)
    then show ?thesis using True by (simp add: timeoutTick_def fold_od)
  next
    case False
    then show ?thesis
      using upd filter_map_overdue [OF assms order_refl, of now]
      by (simp add: timeoutTick_def fold_od Let_def fold_broadcast_log comp_def)
  qed
qed

theorem timeoutTick_exact_witness:
  "escrows (timeoutTick (\<lambda>w. w) (\<lambda>w. w) 500 demo_escrow_world) = [demo_escrow\<lparr>escrow_status := ESCROW_CANCELLED\<rparr>]
   \<and> ws_log (timeoutTick (\<lambda>w. w) (\<lambda>w. w) 500 demo_escrow_world) = [ESCROW_UPDATED ''e1'' ''CANCELLED'']"
  using timeoutTick_exact [of demo_escrow_world 500]
  by (simp add: demo_escrow_world_def demo_escrow_def overdue_def empty_world_def)

lemma listEscrows_page:
  assumes "status_filter (elq_status q) = Inr st"
  shows "fst (listEscrows P (q\<lparr>elq_page := NNum (Fin (of_nat (Suc p)))\<rparr>) w)
    = Inr \<lparr>items = take (nat (coerceLimit (str_num P) (elq_limit q)))
             (drop (p * nat (coerceLimit (str_num P) (elq_limit q))) (filter (escrow_where q st) (rev (escrows w)))),
           page_no = int p + 1, page_limit = coerceLimit (str_num P) (elq_limit q),
           page_total = int (count_where (escrow_where q st) (escrows w)),
           page_totalPages = total_pages (int (count_where (escrow_where q st) (escrows w))) (coerceLimit (str_num P) (elq_limit q))\<rparr>"
proof -
  have ew: "escrow_where (q\<lparr>elq_page := x\<rparr>) st = escrow_where q st" for x
    by (auto simp: escrow_where_def fun_eq_iff)
  have "nat (int p * L) = p * nat L" for L :: int
    by (simp add: nat_mult_distrib)
  then show ?thesis
    using assms by (simp add: listEscrows_def Let_def coercePage_nat ew page_desc_def del: of_nat_Suc)
qed

text \<open>
  Paging loses and repeats nothing: the pages 1 to \<open>totalPages\<close> of a list request,
  put together, are the rows that match its filters, newest first, and \<open>limit\<close> lies
  between 1 and 100. (The page count is computed in binary64; the bound on the number
  of rows keeps it exact.)
\<close>

theorem listEscrows_pages:
  assumes "status_filter (elq_status q) = Inr st"
    and "count_where (escrow_where q st) (escrows w) < 2 ^ 45"
  shows "\<exists>page. (\<forall>p. fst (listEscrows P (q\<lparr>elq_page := NNum (Fin (of_nat (Suc p)))\<rparr>) w) = Inr (page p))
    \<and> concat (map (\<lambda>p. items (page p)) [0..<nat (page_totalPages (page 0))])
      = filter (escrow_where q st) (rev (escrows w))
    \<and> (\<forall>p. page_limit (page p) \<in> {1..100} \<and> length (items (page p)) \<le> nat (page_limit (page p)))"
proof -
  let ?L = "coerceLimit (str_num P) (elq_limit q)"
  let ?xs = "filter (escrow_where q st) (rev (escrows w))"
  let ?n = "count_where (escrow_where q st) (escrows w)"
  define page where "page p = \<lparr>items = take (nat ?L) (drop (p * nat ?L) ?xs), page_no = int p + 1, page_limit = ?L,
    page_total = int ?n, page_totalPages = total_pages (int ?n) ?L\<rparr>" for p
  have run: "fst (listEscrows P (q\<lparr>elq_page := NNum (Fin (of_nat (Suc p)))\<rparr>) w) = Inr (page p)" for p
    by (simp add: page_def listEscrows_page [OF assms(1)] del: of_nat_Suc)
  have L: "1 \<le> ?L" "?L \<le> 100" by (rule coerceLimit_range)+
  have len: "length ?xs = ?n" by (simp add: count_where_def rev_filter [symmetric])
  have "concat (map (\<lambda>p. items (page p)) [0..<nat (page_totalPages (page 0))]) = ?xs"
    using pages_all [OF L, of ?xs] assms(2) by (simp add: page_def len)
  then show ?thesis using run L by (intro exI [of _ page]) (auto simp: page_def)
qed

definition demo_list :: escrow_list_query where
  "demo_list = \<lparr>elq_buyerId = None, elq_sellerId = None, elq_status = None, elq_page = NUndef, elq_limit = NUndef\<rparr>"

theorem listEscrows_pages_witness:
  "\<exists>page. (\<forall>p. fst (listEscrows demo_platform (demo_list\<lparr>elq_page := NNum (Fin (of_nat (Suc p)))\<rparr>) demo_escrow_world) = Inr (page p))
    \<and> concat (map (\<lambda>p. items (page p)) [0..<nat (page_totalPages (page 0))])
      = filter (escrow_where demo_list None) (rev (escrows demo_escrow_world))
    \<and> (\<forall>p. page_limit (page p) \<in> {1..100} \<and> length (items (page p)) \<le> nat (page_limit (page p)))"
proof (rule listEscrows_pages)
  show "status_filter (elq_status demo_list) = Inr None"
    by (simp add: status_filter_def demo_list_def opt_trim_def)
  show "count_where (escrow_where demo_list None) (escrows demo_escrow_world) < 2 ^ 45"
    by (simp add: count_where_def demo_escrow_world_def)
qed

lemma create_escrow_args_Inr:
  "create_escrow_args P now payload = Inr (b, s, a, t) \<Longrightarrow>
   b = opt_trim (ce_buyerId payload) \<and> s = opt_trim (ce_sellerId payload) \<and> b \<noteq> [] \<and> s \<noteq> [] \<and> b \<noteq> s \<and> 0 < a \<and> now < t"
  by (auto simp: create_escrow_args_def parsePositiveAmount_def Let_def split: if_splits sum.splits jsnum.splits)

text \<open>
  What \<open>createEscrow\<close> guarantees when it succeeds: two different existing users, a
  positive amount, an expiry in the future, one new pending row at the end of the
  table, nothing else changed but one creation message; and when it fails, the world is
  unchanged.
\<close>

theorem createEscrow_spec:
  assumes "distinct (map user_id (users w))"
  shows "case createEscrow P C now i payload w of
      (Inl _, w') \<Rightarrow> w' = w
    | (Inr (i', x), w') \<Rightarrow> i' = i \<and> (\<exists>r. escrow_id r = i \<and> escrow_status r = ESCROW_PENDING
         \<and> buyerId r \<noteq> sellerId r \<and> {buyerId r, sellerId r} \<subseteq> user_id ` set (users w)
         \<and> (\<exists>a > 0. escrow_amount r = col20_7 P a) \<and> now < escrow_expiresAt r
         \<and> w' = w\<lparr>escrows := escrows w @ [r], ws_log := ws_log w @ [ESCROW_CREATED i (buyerId r) (sellerId r)]\<rparr>)"
proof (cases "create_escrow_args P now payload")
  case (Inl e)
  then show ?thesis by (simp add: createEscrow_def)
next
  case (Inr args)
  obtain b s a t where args: "args = (b, s, a, t)" by (cases args)
  note ok = create_escrow_args_Inr [OF Inr [unfolded args]]
  show ?thesis
  proof (cases "length (users_in [b, s] w) = 2")
    case False
    then show ?thesis using Inr args by (simp add: createEscrow_def)
  next
    case True
    note two = users_in_two [OF True assms]
    show ?thesis using True ok two
      by (auto simp: createEscrow_def Inr args Let_def insert_row_def broadcast_def store20_7_Inr split: sum.splits
          intro!: exI [of _ a] exI [of _ "\<lparr>escrow_id = i, buyerId = b, sellerId = s, escrow_amount = col20_7 P a,
            escrow_assetCode = or_else (ce_assetCode payload) ''USDC'', escrow_status = ESCROW_PENDING,
            stellarTxHash = None, escrowAddress = None, escrow_expiresAt = t\<rparr>"])
  qed
qed

definition demo_user_world :: world where
  "demo_user_world = empty_world\<lparr>users := [\<lparr>user_id = ''b'', stellarAddress = ''GB'', user_name = None, user_role = BUYER\<rparr>,
     \<lparr>user_id = ''s'', stellarAddress = ''GS'', user_name = None, user_role = SELLER\<rparr>]\<rparr>"

definition demo_create :: create_escrow_request where
  "demo_create = \<lparr>ce_buyerId = Some ''b'', ce_sellerId = Some ''s'', ce_amount = NStr ''10'', ce_assetCode = None,
     ce_expiresAt = DDate (Some 100)\<rparr>"

lemma demo_create_args: "create_escrow_args demo_platform 5 demo_create = Inr (''b'', ''s'', 10, 100)"
proof -
  have "opt_trim (Some ''b'') = ''b''" "opt_trim (Some ''s'') = ''s''" by code_simp+
  then show ?thesis
    by (simp add: create_escrow_args_def demo_create_def parsePositiveAmount_def parseDate_def demo_platform_def Let_def)
qed

lemma demo_store10: "store20_7 demo_platform 10 = Inr 10"
proof -
  have "round7 10 = 10" by (rule round7_fix) (rule on_gridI [of _ 100000000], simp)
  then show ?thesis by (simp add: store20_7_def demo_platform_def)
qed

theorem createEscrow_spec_witness:
  "\<exists>i x w'. createEscrow demo_platform demo_chain 5 ''e9'' demo_create demo_user_world = (Inr (i, x), w')
     \<and> i = ''e9'' \<and> (\<exists>r. escrow_id r = ''e9'' \<and> escrow_status r = ESCROW_PENDING \<and> w' = demo_user_world\<lparr>escrows := [r],
           ws_log := [ESCROW_CREATED ''e9'' (buyerId r) (sellerId r)]\<rparr>)"
proof -
  have cc: "js_trim ''CE'' = ''CE''" by code_simp
  obtain i x w' where run: "createEscrow demo_platform demo_chain 5 ''e9'' demo_create demo_user_world = (Inr (i, x), w')"
    by (simp add: createEscrow_def demo_create_args demo_user_world_def users_in_def demo_chain_def cc Let_def demo_store10)
  have "distinct (map user_id (users demo_user_world))" by (simp add: demo_user_world_def)
  from createEscrow_spec [OF this, where P = demo_platform and C = demo_chain and now = 5 and i = "''e9''" and payload = demo_create]
  show ?thesis unfolding run by (auto simp: demo_user_world_def empty_world_def)
qed

end
