(* ===== verification/Decimal_Js.thy ===== *)
theory Decimal_Js
  imports Platform
begin

text \<open>
  The decimal.js library, a parameter of the loan service: a constructor that may
  throw, arithmetic that rounds to twenty significant digits, and the decimal text of
  a value. \<open>decimal_laws\<close> states its documented behaviour: every operation is the
  exact result under one monotone rounding, which keeps each value of at most twenty
  significant digits and makes no other value zero. Comparisons are exact.
\<close>

record decimal =
  dec_new :: "num_input \<Rightarrow> jsnum option"
  dec_plus :: "rat \<Rightarrow> rat \<Rightarrow> rat"
  dec_minus :: "rat \<Rightarrow> rat \<Rightarrow> rat"
  dec_div :: "rat \<Rightarrow> rat \<Rightarrow> rat"
  dec_str :: "rat \<Rightarrow> string"

definition digits20 :: "rat \<Rightarrow> bool" where
  "digits20 x \<longleftrightarrow> (\<exists>n :: int. \<exists>k :: nat. \<bar>n\<bar> < 10 ^ 20 \<and> x * 10 ^ k = of_int n)"

definition decimal_laws :: "decimal \<Rightarrow> bool" where
  "decimal_laws D \<longleftrightarrow> (\<exists>rnd. (\<forall>x y. x \<le> y \<longrightarrow> rnd x \<le> rnd y) \<and> (\<forall>x. digits20 x \<longrightarrow> rnd x = x)
     \<and> (\<forall>x. rnd x = 0 \<longrightarrow> x = 0)
     \<and> dec_plus D = (\<lambda>x y. rnd (x + y)) \<and> dec_minus D = (\<lambda>x y. rnd (x - y))
     \<and> dec_div D = (\<lambda>x y. rnd (x / y)))"

text \<open>Values of a \<open>Decimal(20, 7)\<close> column have at most twenty digits.\<close>

lemma digits20_grid:
  assumes "on_grid x" and "\<bar>x\<bar> < 10 ^ 13"
  shows "digits20 x"
proof -
  obtain n :: int where n: "x * 10 ^ 7 = of_int n" using assms(1) by (auto simp: on_grid_def)
  have "\<bar>x\<bar> * 10 ^ 7 < 10 ^ 13 * 10 ^ 7" using assms(2) by (intro mult_strict_right_mono) auto
  then have "of_int \<bar>n\<bar> < (10 ^ 20 :: rat)"
    by (simp only: n [symmetric] of_int_abs abs_mult) simp
  then have "(of_int \<bar>n\<bar> :: rat) < of_int (10 ^ 20)" by simp
  then have "\<bar>n\<bar> < 10 ^ 20" by (simp only: of_int_less_iff)
  then show ?thesis unfolding digits20_def using n by (intro exI [of _ n] exI [of _ 7]) simp
qed

lemma decimalD:
  assumes "decimal_laws D"
  shows "digits20 (x + y) \<Longrightarrow> dec_plus D x y = x + y"
    and "digits20 (x - y) \<Longrightarrow> dec_minus D x y = x - y"
    and "digits20 q \<Longrightarrow> x / y \<le> q \<Longrightarrow> dec_div D x y \<le> q"
    and "digits20 q \<Longrightarrow> q \<le> x / y \<Longrightarrow> q \<le> dec_div D x y"
  using assms unfolding decimal_laws_def by force+

lemma digits20_0 [simp]: "digits20 0"
  unfolding digits20_def by (intro exI [of _ 0] exI [of _ 0]) simp

lemma dec_minus_zero: "decimal_laws D \<Longrightarrow> dec_minus D x y = 0 \<longleftrightarrow> x = y"
  unfolding decimal_laws_def by (metis digits20_0 eq_iff_diff_eq_0)

text \<open>Summing nonnegative column values whose sum fits the column is exact.\<close>

lemma dec_sum_exact:
  assumes "decimal_laws D" and "\<forall>x\<in>set xs. on_grid x \<and> 0 \<le> x" and "on_grid a" and "0 \<le> a"
    and "a + sum_list xs < 10 ^ 13"
  shows "fold (\<lambda>x s. dec_plus D s x) xs a = a + sum_list xs"
  using assms(2-)
proof (induction xs arbitrary: a)
  case (Cons x xs)
  have "0 \<le> sum_list xs" using Cons.prems(1) by (intro sum_list_nonneg) auto
  then have "dec_plus D a x = a + x"
    using Cons.prems by (intro decimalD [OF assms(1)] digits20_grid on_grid_add) auto
  then show ?case using Cons by (simp add: on_grid_add add.assoc)
qed simp

text \<open>Exact arithmetic is an instance.\<close>

definition demo_decimal :: decimal where
  "demo_decimal = \<lparr>dec_new = (\<lambda>v. case v of NUndef \<Rightarrow> None | NNum x \<Rightarrow> Some x | NStr _ \<Rightarrow> None),
     dec_plus = (+), dec_minus = (-), dec_div = (/), dec_str = (\<lambda>_. ''n'')\<rparr>"

lemma decimal_laws_demo: "decimal_laws demo_decimal"
  unfolding decimal_laws_def demo_decimal_def by (intro exI [of _ "\<lambda>x. x"]) auto

end
