(* ===== verification/Loan_Service.thy ===== *)
theory Loan_Service
  imports Decimal_Js
begin

text \<open>
  The loan service (\<open>server/src/services/loan.service.ts\<close>): issuing, reading and listing
  loans, opening payment sessions and recording repayments, with the invariant that
  relates a loan's status to the repayments stored for it.
\<close>

section \<open>Parsing\<close>

definition MIN_COLLATERAL_RATIO :: rat where
  "MIN_COLLATERAL_RATIO = 3 / 2"

definition VALID_LOAN_STATUSES :: "loan_status list" where
  "VALID_LOAN_STATUSES = [LOAN_PENDING, LOAN_ACTIVE, LOAN_REPAID, LOAN_DEFAULTED]"

definition parsePositiveDecimal :: "decimal \<Rightarrow> num_input \<Rightarrow> string \<Rightarrow> app_error + rat" where
  "parsePositiveDecimal D v fieldName = (case dec_new D v of
     Some (Fin parsed) \<Rightarrow> if parsed \<le> 0 then Inl (ValidationError (fieldName @ '' must be a positive number'')) else Inr parsed
   | _ \<Rightarrow> Inl (ValidationError (fieldName @ '' must be a positive number'')))"

text \<open>What the service takes from its environment beside the platform and the chain.\<close>

record loan_env =
  url_of :: "string \<Rightarrow> string option" \<comment> \<open>\<open>new URL(s).toString()\<close>, \<open>None\<close> when it throws\<close>
  appBaseUrl :: string
  env_webhookSignatureSecret :: "string option"
  env_webhookSecret :: "string option"

definition parseUrl :: "loan_env \<Rightarrow> string option \<Rightarrow> string \<Rightarrow> app_error + string" where
  "parseUrl V v fieldName =
     (if opt_trim v = [] then Inl (ValidationError (fieldName @ '' is required''))
      else case url_of V (the v) of
        None \<Rightarrow> Inl (ValidationError (fieldName @ '' must be a valid URL''))
      | Some u \<Rightarrow> Inr u)"

text \<open>\<open>a ?? b\<close>.\<close>

fun coalesce :: "'a option \<Rightarrow> 'a option \<Rightarrow> 'a option" where
  "coalesce None b = b"
| "coalesce (Some a) b = Some a"

section \<open>Issuing a loan\<close>

record issue_loan_request =
  il_requestingUserId :: "string option"
  il_borrowerId :: "string option"
  il_lenderId :: "string option"
  il_amount :: num_input
  il_assetCode :: "string option"
  il_collateralAmt :: num_input
  il_escrowAddress :: "string option"

text \<open>The checks of \<open>issueLoan\<close> before it reads the database.\<close>

definition issue_loan_args ::
  "decimal \<Rightarrow> issue_loan_request \<Rightarrow> app_error + (string \<times> string \<times> rat \<times> rat)" where
  "issue_loan_args D payload =
     (let requestingUserId = opt_trim (il_requestingUserId payload);
          borrower = opt_trim (il_borrowerId payload); lender = opt_trim (il_lenderId payload) in
      if requestingUserId = [] then Inl (ValidationError ''requestingUserId is required'')
      else if borrower = [] then Inl (ValidationError ''borrowerId is required'')
      else if lender = [] then Inl (ValidationError ''lenderId is required'')
      else if borrower = lender then Inl (ValidationError ''Borrower and lender must be different'')
      else if requestingUserId \<noteq> borrower \<and> requestingUserId \<noteq> lender
        then Inl (ForbiddenError ''Only the borrower or lender can create this loan'')
      else case parsePositiveDecimal D (il_amount payload) ''amount'' of
        Inl e \<Rightarrow> Inl e
      | Inr amount \<Rightarrow> (case parsePositiveDecimal D (il_collateralAmt payload) ''collateralAmt'' of
          Inl e \<Rightarrow> Inl e
        | Inr collateralAmt \<Rightarrow>
            if dec_div D collateralAmt amount < MIN_COLLATERAL_RATIO
            then Inl (ValidationError ''Collateral ratio must be at least 1.50'')
            else Inr (borrower, lender, amount, collateralAmt)))"

definition issueLoan ::
  "decimal \<Rightarrow> platform \<Rightarrow> chain \<Rightarrow> string \<Rightarrow> issue_loan_request \<Rightarrow> world \<Rightarrow> (world, string \<times> string \<times> loan_row) outcome" where
  "issueLoan D P C new_id payload w = (case issue_loan_args D payload of
     Inl e \<Rightarrow> (Inl e, w)
   | Inr (borrower, lender, amount, collateralAmt) \<Rightarrow>
       if length (users_in [borrower, lender] w) \<noteq> 2
       then (Inl (ValidationError ''borrowerId or lenderId does not exist''), w)
       else let contract = js_trim (contract_loan C) in
         if contract = [] then (Inl (ValidationError ''LOAN_CONTRACT_ID not configured''), w)
         else case build_xdr C contract ''issue_loan''
             [borrower, lender, dec_str D amount, dec_str D collateralAmt, or_else (il_assetCode payload) ''USDC'',
              or_else (il_escrowAddress payload) []] (fee_payer C) of
           Inl e \<Rightarrow> (Inl e, w)
         | Inr xdrResult \<Rightarrow> (case store20_7 P amount of
             Inl e \<Rightarrow> (Inl e, w)
           | Inr stored \<Rightarrow>
             let row = \<lparr>loan_id = new_id, borrowerId = borrower, lenderId = Some lender, loan_amount = stored,
                   loan_assetCode = or_else (il_assetCode payload) ''USDC'', interestRate = 0,
                   loan_status = LOAN_PENDING, loan_collateralId = None\<rparr>;
                 w' = w\<lparr>loans := insert_row row (loans w)\<rparr>
             in (Inr (new_id, xdrResult, row), broadcast (LOAN_UPDATED new_id (show_loan_status LOAN_PENDING)) w')))"

section \<open>Reading loans\<close>

definition repayments_of :: "string \<Rightarrow> world \<Rightarrow> repayment_row list" where
  "repayments_of i w = filter (\<lambda>r. repayment_loanId r = i) (repayments w)"

text \<open>A loan with its \<open>repayments\<close> relation; the joined user rows are left out.\<close>

definition getLoan :: "string \<Rightarrow> world \<Rightarrow> (world, loan_row \<times> repayment_row list) outcome" where
  "getLoan i w = (case lookup_row loan_id i (loans w) of
     None \<Rightarrow> (Inl (NotFoundError ''Loan not found''), w)
   | Some l \<Rightarrow> (Inr (l, repayments_of i w), w))"

definition loan_status_of_string :: "string \<Rightarrow> loan_status option" where
  "loan_status_of_string s = find (\<lambda>st. show_loan_status st = s) VALID_LOAN_STATUSES"

definition listLoans ::
  "string option \<Rightarrow> string option \<Rightarrow> string option \<Rightarrow> world \<Rightarrow> (world, (loan_row \<times> repayment_row list) list) outcome" where
  "listLoans borrower lender status w =
     (let normalizedStatus = js_upper (opt_trim status); st = loan_status_of_string normalizedStatus;
          sel = (\<lambda>l. (opt_trim borrower \<noteq> [] \<longrightarrow> borrowerId l = opt_trim borrower)
              \<and> (opt_trim lender \<noteq> [] \<longrightarrow> lenderId l = Some (opt_trim lender))
              \<and> (normalizedStatus \<noteq> [] \<longrightarrow> Some (loan_status l) = st)) in
      if normalizedStatus \<noteq> [] \<and> st = None
      then (Inl (ValidationError ''Invalid status. Use PENDING, ACTIVE, REPAID, or DEFAULTED''), w)
      else (Inr (map (\<lambda>l. (l, repayments_of (loan_id l) w)) (filter sel (rev (loans w)))), w))"

section \<open>Payment sessions\<close>

text \<open>\<open>repayments.reduce((sum, r) => sum.plus(r.amount), ZERO)\<close>.\<close>

definition total_repaid :: "decimal \<Rightarrow> repayment_row list \<Rightarrow> rat" where
  "total_repaid D rs = fold (\<lambda>x s. dec_plus D s x) (map repayment_amount rs) 0"

record create_payment_request =
  cp_requestingUserId :: "string option"
  cp_loanId :: "string option"
  cp_success_url :: "string option"
  cp_successUrl :: "string option"
  cp_cancel_url :: "string option"
  cp_cancelUrl :: "string option"
  cp_webhook_url :: "string option"
  cp_webhookUrl :: "string option"
  cp_webhook_secret :: "string option"
  cp_webhookSecret :: "string option"

record create_payment_result =
  cpr_paymentId :: string
  cpr_sessionId :: string
  cpr_checkoutUrl :: string
  cpr_successUrl :: string
  cpr_cancelUrl :: string
  cpr_outstandingAmount :: string

definition strip_slashes :: "string \<Rightarrow> string" where
  "strip_slashes s = rev (dropWhile (\<lambda>c. c = CHR ''/'') (rev s))"

definition createPayment ::
  "decimal \<Rightarrow> loan_env \<Rightarrow> string \<Rightarrow> string \<Rightarrow> create_payment_request \<Rightarrow> world \<Rightarrow> (world, create_payment_result) outcome" where
  "createPayment D V new_id uuid payload w =
     (let requestingUserId = opt_trim (cp_requestingUserId payload); loanId = opt_trim (cp_loanId payload) in
      if requestingUserId = [] then (Inl (ValidationError ''requestingUserId is required''), w)
      else if loanId = [] then (Inl (ValidationError ''loanId is required''), w)
      else case parseUrl V (coalesce (cp_success_url payload) (cp_successUrl payload)) ''success_url'' of
        Inl e \<Rightarrow> (Inl e, w)
      | Inr success \<Rightarrow> (case parseUrl V (coalesce (cp_cancel_url payload) (cp_cancelUrl payload)) ''cancel_url'' of
        Inl e \<Rightarrow> (Inl e, w)
      | Inr cancel \<Rightarrow>
        let hook = coalesce (cp_webhook_url payload) (cp_webhookUrl payload) in
        case (if opt_trim hook = [] then Inr None
              else case parseUrl V hook ''webhook_url'' of Inl e \<Rightarrow> Inl e | Inr u \<Rightarrow> Inr (Some u)) of
          Inl e \<Rightarrow> (Inl e, w)
        | Inr webhook \<Rightarrow>
          let secret = coalesce (cp_webhook_secret payload) (coalesce (cp_webhookSecret payload)
                (coalesce (env_webhookSignatureSecret V) (env_webhookSecret V))) in
          case lookup_row loan_id loanId (loans w) of
            None \<Rightarrow> (Inl (NotFoundError ''Loan not found''), w)
          | Some loan \<Rightarrow>
            if requestingUserId \<noteq> borrowerId loan \<and> Some requestingUserId \<noteq> lenderId loan
            then (Inl (ForbiddenError ''Only the borrower or lender can create payment sessions''), w)
            else let outstanding = dec_minus D (loan_amount loan) (total_repaid D (repayments_of loanId w)) in
              if outstanding \<le> 0 then (Inl (ValidationError ''Loan is already fully repaid''), w)
              else let url = strip_slashes (appBaseUrl V) @ ''/checkout/'' @ uuid;
                  row = \<lparr>ps_id = new_id, ps_loanId = loanId, ps_repaymentId = None, sessionToken = uuid, checkoutUrl = url,
                    successUrl = success, cancelUrl = cancel, webhookUrl = webhook, webhookSecret = secret,
                    ps_status = PS_PENDING, ps_completedAt = None\<rparr>
                in (Inr \<lparr>cpr_paymentId = new_id, cpr_sessionId = uuid, cpr_checkoutUrl = url, cpr_successUrl = success,
                      cpr_cancelUrl = cancel, cpr_outstandingAmount = dec_str D outstanding\<rparr>,
                    w\<lparr>payment_sessions := insert_row row (payment_sessions w)\<rparr>)))"

section \<open>Repayments\<close>

record repayment_request =
  rr_requestingUserId :: "string option"
  rr_loanId :: "string option"
  rr_amount :: num_input
  rr_paidAt :: date_input
  rr_sessionId :: "string option"

record repayment_result =
  res_repayment :: repayment_row
  res_paymentSession :: "payment_session_row option"
  res_outstandingBefore :: string
  res_outstandingAfter :: string
  res_fullyRepaid :: bool
  res_loan :: loan_row
  res_repayments :: "repayment_row list"

text \<open>The checks of \<open>recordRepayment\<close> before its transaction.\<close>

definition repayment_args ::
  "decimal \<Rightarrow> platform \<Rightarrow> repayment_request \<Rightarrow> app_error + (string \<times> string \<times> rat \<times> int option)" where
  "repayment_args D P payload =
     (let requestingUserId = opt_trim (rr_requestingUserId payload); loanId = opt_trim (rr_loanId payload) in
      if requestingUserId = [] then Inl (ValidationError ''requestingUserId is required'')
      else if loanId = [] then Inl (ValidationError ''loanId is required'')
      else case parsePositiveDecimal D (rr_amount payload) ''amount'' of
        Inl e \<Rightarrow> Inl e
      | Inr amount \<Rightarrow>
          if rr_paidAt payload = DUndef \<or> rr_paidAt payload = DStr [] then Inr (requestingUserId, loanId, amount, None)
          else (case date_value P (rr_paidAt payload) of
              None \<Rightarrow> Inl (ValidationError ''paidAt must be a valid date'')
            | Some t \<Rightarrow> Inr (requestingUserId, loanId, amount, Some t)))"

text \<open>\<open>findFirst\<close> on the pending sessions of the loan, newest first.\<close>

definition pending_session :: "string \<Rightarrow> string \<Rightarrow> world \<Rightarrow> payment_session_row option" where
  "pending_session loanId token w =
     find (\<lambda>s. ps_loanId s = loanId \<and> (token \<noteq> [] \<longrightarrow> sessionToken s = token) \<and> ps_status s = PS_PENDING)
       (rev (payment_sessions w))"

definition complete_session :: "string \<Rightarrow> int \<Rightarrow> payment_session_row option \<Rightarrow> world \<Rightarrow> world" where
  "complete_session repaymentId t sel w = (case sel of
     None \<Rightarrow> w
   | Some s \<Rightarrow> w\<lparr>payment_sessions := update_where (\<lambda>x. ps_id x = ps_id s)
        (\<lambda>x. x\<lparr>ps_repaymentId := Some repaymentId, ps_status := PS_COMPLETED, ps_completedAt := Some t\<rparr>)
        (payment_sessions w)\<rparr>)"

text \<open>The status a loan moves to, from its status and what is left to pay.\<close>

definition next_loan_status :: "loan_status \<Rightarrow> rat \<Rightarrow> loan_status" where
  "next_loan_status st outstandingAfter =
     (if outstandingAfter = 0 then LOAN_REPAID else if st = LOAN_PENDING then LOAN_ACTIVE else st)"

text \<open>
  The body of the serializable transaction: its writes, once the checks have passed,
  and the whole body.
\<close>

definition repayment_commit ::
  "decimal \<Rightarrow> int \<Rightarrow> repayment_row \<Rightarrow> loan_row \<Rightarrow> rat \<Rightarrow> rat \<Rightarrow> string \<Rightarrow> world \<Rightarrow> (world, repayment_result) outcome" where
  "repayment_commit D t repayment loan outstandingBefore amount token w =
     (let loanId = repayment_loanId repayment;
          w1 = w\<lparr>repayments := insert_row repayment (repayments w)\<rparr>;
          selected = pending_session loanId token w1;
          w2 = complete_session (repayment_id repayment) t selected w1;
          outstandingAfter = dec_minus D outstandingBefore amount;
          nextStatus = next_loan_status (loan_status loan) outstandingAfter;
          w3 = (if nextStatus \<noteq> loan_status loan
            then broadcast (LOAN_UPDATED loanId (show_loan_status nextStatus))
              (w2\<lparr>loans := update_where (\<lambda>l. loan_id l = loanId) (\<lambda>l. l\<lparr>loan_status := nextStatus\<rparr>) (loans w2)\<rparr>)
            else w2)
      in case lookup_row loan_id loanId (loans w3) of
        None \<Rightarrow> (Inl (NotFoundError ''Loan not found''), w3)
      | Some updatedLoan \<Rightarrow>
        (Inr \<lparr>res_repayment = repayment, res_paymentSession = selected,
           res_outstandingBefore = dec_str D outstandingBefore, res_outstandingAfter = dec_str D outstandingAfter,
           res_fullyRepaid = (outstandingAfter = 0), res_loan = updatedLoan,
           res_repayments = repayments_of loanId w3\<rparr>, w3))"

definition repayment_tx ::
  "decimal \<Rightarrow> platform \<Rightarrow> int \<Rightarrow> string \<Rightarrow> string \<times> string \<times> rat \<times> int option \<Rightarrow> string option \<Rightarrow> world
    \<Rightarrow> (world, repayment_result) outcome" where
  "repayment_tx D P now new_id args sessionId w = (case args of (requestingUserId, loanId, amount, paidAt) \<Rightarrow>
     case lookup_row loan_id loanId (loans w) of
       None \<Rightarrow> (Inl (NotFoundError ''Loan not found''), w)
     | Some loan \<Rightarrow>
       if requestingUserId \<noteq> borrowerId loan \<and> Some requestingUserId \<noteq> lenderId loan
       then (Inl (ForbiddenError ''Only the borrower or lender can record repayments''), w)
       else if loan_status loan = LOAN_DEFAULTED
       then (Inl (ValidationError ''Cannot record repayment for a defaulted loan''), w)
       else let outstandingBefore = dec_minus D (loan_amount loan) (total_repaid D (repayments_of loanId w)) in
         if outstandingBefore \<le> 0 then (Inl (ValidationError ''Loan is already fully repaid''), w)
         else if amount > outstandingBefore then (Inl (ValidationError ''Repayment exceeds outstanding balance''), w)
         else case store20_7 P amount of
           Inl e \<Rightarrow> (Inl e, w)
         | Inr stored \<Rightarrow>
           let t = (case paidAt of None \<Rightarrow> now | Some p \<Rightarrow> p);
               repayment = \<lparr>repayment_id = new_id, repayment_loanId = loanId, repayment_amount = stored, repayment_paidAt = t\<rparr>
           in repayment_commit D t repayment loan outstandingBefore amount (opt_trim sessionId) w)"

text \<open>
  The payload of the \<open>PaymentReceived\<close> event, and the operation: the event handler
  \<open>emit\<close> (\<open>eventMonitoringService.processEvent\<close>) runs after the transaction, and its
  failures are only logged.
\<close>

record payment_received =
  pe_loanId :: string
  pe_repaymentId :: string
  pe_paymentSessionId :: "string option"
  pe_checkoutUrl :: "string option"
  pe_webhookUrl :: "string option"
  pe_webhookSecret :: "string option"
  pe_amount :: string
  pe_outstandingAfter :: string
  pe_paidAt :: string
  pe_successUrl :: "string option"
  pe_cancelUrl :: "string option"

definition payment_received_of :: "decimal \<Rightarrow> platform \<Rightarrow> repayment_result \<Rightarrow> payment_received" where
  "payment_received_of D P res = (let s = res_paymentSession res in
     \<lparr>pe_loanId = loan_id (res_loan res), pe_repaymentId = repayment_id (res_repayment res),
      pe_paymentSessionId = map_option ps_id s, pe_checkoutUrl = map_option checkoutUrl s,
      pe_webhookUrl = Option.bind s webhookUrl, pe_webhookSecret = Option.bind s webhookSecret,
      pe_amount = dec_str D (repayment_amount (res_repayment res)),
      pe_outstandingAfter = res_outstandingAfter res,
      pe_paidAt = iso_date P (repayment_paidAt (res_repayment res)),
      pe_successUrl = map_option successUrl s, pe_cancelUrl = map_option cancelUrl s\<rparr>)"

definition recordRepayment ::
  "decimal \<Rightarrow> platform \<Rightarrow> (payment_received \<Rightarrow> world \<Rightarrow> world) \<Rightarrow> int \<Rightarrow> string \<Rightarrow> repayment_request \<Rightarrow> world
    \<Rightarrow> (world, repayment_result) outcome" where
  "recordRepayment D P emit now new_id payload w = (case repayment_args D P payload of
     Inl e \<Rightarrow> (Inl e, w)
   | Inr args \<Rightarrow> (case transaction (repayment_tx D P now new_id args (rr_sessionId payload)) w of
       (Inl e, w') \<Rightarrow> (Inl e, w')
     | (Inr res, w') \<Rightarrow> (Inr res, emit (payment_received_of D P res) w')))"

lemmas [step_defs] = issueLoan_def getLoan_def listLoans_def createPayment_def recordRepayment_def

section \<open>What a successful repayment does\<close>

definition paid :: "world \<Rightarrow> string \<Rightarrow> rat" where
  "paid w i = sum_list (map repayment_amount (repayments_of i w))"

definition loan_ok :: "world \<Rightarrow> loan_row \<Rightarrow> bool" where
  "loan_ok w l \<longleftrightarrow> on_grid (loan_amount l) \<and> \<bar>loan_amount l\<bar> < 10 ^ 13 \<and> paid w (loan_id l) \<le> loan_amount l
     \<and> (loan_status l = LOAN_PENDING \<longrightarrow> repayments_of (loan_id l) w = [])
     \<and> (loan_status l = LOAN_REPAID \<longrightarrow> paid w (loan_id l) = loan_amount l)"

definition repayment_ok :: "world \<Rightarrow> repayment_row \<Rightarrow> bool" where
  "repayment_ok w r \<longleftrightarrow> on_grid (repayment_amount r) \<and> 0 \<le> repayment_amount r \<and> repayment_loanId r \<in> loan_id ` set (loans w)"

definition loans_ok :: "world \<Rightarrow> bool" where
  "loans_ok w \<longleftrightarrow> distinct (map loan_id (loans w)) \<and> (\<forall>l\<in>set (loans w). loan_ok w l) \<and> (\<forall>r\<in>set (repayments w). repayment_ok w r)"

lemma paid_insert:
  "paid (w\<lparr>repayments := insert_row r (repayments w)\<rparr>) i
   = paid w i + (if repayment_loanId r = i then repayment_amount r else 0)"
  by (simp add: paid_def repayments_of_def insert_row_def)

lemma repayments_of_cong: "repayments w' = repayments w \<Longrightarrow> repayments_of i w' = repayments_of i w"
  by (simp add: repayments_of_def)

lemma paid_cong: "repayments w' = repayments w \<Longrightarrow> paid w' i = paid w i"
  by (simp add: paid_def repayments_of_def)

lemma loans_ok_cong: "loans w' = loans w \<Longrightarrow> repayments w' = repayments w \<Longrightarrow> loans_ok w' = loans_ok w"
  by (simp add: loans_ok_def loan_ok_def repayment_ok_def paid_def repayments_of_def)

lemma complete_session_simps [simp]:
  "loans (complete_session i t s w) = loans w" "repayments (complete_session i t s w) = repayments w"
  by (simp_all add: complete_session_def split: option.splits)

lemma paid_nonneg: "loans_ok w \<Longrightarrow> 0 \<le> paid w i"
  by (auto simp: paid_def repayments_of_def loans_ok_def repayment_ok_def intro!: sum_list_nonneg)

lemma paid_on_grid: "loans_ok w \<Longrightarrow> on_grid (paid w i)"
  by (auto simp: paid_def repayments_of_def loans_ok_def repayment_ok_def intro!: on_grid_sum_list)

text \<open>On the columns' values the library's arithmetic is exact.\<close>

lemma outstanding_exact:
  assumes "decimal_laws D" and "loans_ok w" and "lookup_row loan_id i (loans w) = Some l"
  shows "dec_minus D (loan_amount l) (total_repaid D (repayments_of i w)) = loan_amount l - paid w i"
proof -
  have l: "loan_ok w l" "loan_id l = i"
    using assms(2) loan_tab.lookup_SomeD [OF assms(3)] by (auto simp: loans_ok_def)
  have le: "paid w i \<le> loan_amount l" "\<bar>loan_amount l\<bar> < 10 ^ 13" "on_grid (loan_amount l)"
    using l by (auto simp: loan_ok_def)
  have "total_repaid D (repayments_of i w) = 0 + paid w i"
    unfolding total_repaid_def paid_def
  proof (rule dec_sum_exact [OF assms(1)])
    show "\<forall>x\<in>set (map repayment_amount (repayments_of i w)). on_grid x \<and> 0 \<le> x"
      using assms(2) by (auto simp: loans_ok_def repayment_ok_def repayments_of_def)
    show "0 + sum_list (map repayment_amount (repayments_of i w)) < 10 ^ 13"
      using le by (simp add: paid_def)
  qed simp_all
  moreover have "dec_minus D (loan_amount l) (paid w i) = loan_amount l - paid w i"
  proof (rule decimalD(2) [OF assms(1)], rule digits20_grid)
    show "on_grid (loan_amount l - paid w i)" using le(3) paid_on_grid [OF assms(2)] by (rule on_grid_diff)
    show "\<bar>loan_amount l - paid w i\<bar> < 10 ^ 13"
      using le paid_nonneg [OF assms(2), of i] by linarith
  qed
  ultimately show ?thesis by simp
qed

definition with_status :: "string \<Rightarrow> loan_status \<Rightarrow> loan_row list \<Rightarrow> loan_row list" where
  "with_status i st = update_where (\<lambda>l. loan_id l = i) (\<lambda>l. l\<lparr>loan_status := st\<rparr>)"

lemma pending_session_cong:
  "payment_sessions w' = payment_sessions w \<Longrightarrow> pending_session k tok w' = pending_session k tok w"
  by (simp add: pending_session_def)

lemma complete_session_cong:
  "payment_sessions w' = payment_sessions w \<Longrightarrow>
   payment_sessions (complete_session i t s w') = payment_sessions (complete_session i t s w)"
  by (simp add: complete_session_def split: option.splits)

lemma repayment_commit_Inr:
  fixes r l
  defines "k \<equiv> repayment_loanId r"
  assumes run: "repayment_commit D t r l ob a tok w = (Inr res, w')"
    and dist: "distinct (map loan_id (loans w))" and l: "lookup_row loan_id k (loans w) = Some l"
  shows "res_repayment res = r" "repayments w' = repayments w @ [r]"
    "loans w' = with_status k (next_loan_status (loan_status l) (dec_minus D ob a)) (loans w)"
    "res_paymentSession res = pending_session k tok w"
    "payment_sessions w' = payment_sessions (complete_session (repayment_id r) t (pending_session k tok w) w)"
    "res_fullyRepaid res = (dec_minus D ob a = 0)"
    "lookup_row loan_id k (loans w') = Some (res_loan res)"
proof -
  let ?st = "next_loan_status (loan_status l) (dec_minus D ob a)"
  let ?w1 = "w\<lparr>repayments := insert_row r (repayments w)\<rparr>"
  have ps: "pending_session k tok ?w1 = pending_session k tok w"
    by (rule pending_session_cong) simp
  let ?w2 = "complete_session (repayment_id r) t (pending_session k tok w) ?w1"
  have cs: "payment_sessions ?w2 = payment_sessions (complete_session (repayment_id r) t (pending_session k tok w) w)"
    by (rule complete_session_cong) simp
  define w3 where "w3 = (if ?st \<noteq> loan_status l
     then broadcast (LOAN_UPDATED k (show_loan_status ?st)) (?w2\<lparr>loans := with_status k ?st (loans ?w2)\<rparr>) else ?w2)"
  have same: "with_status k ?st (loans w) = loans w" if "?st = loan_status l"
    unfolding with_status_def using that l by (intro update_where_same [OF dist]) (auto simp: lookup_row_def)
  have w3: "loans w3 = with_status k ?st (loans w)" "repayments w3 = repayments w @ [r]"
    "payment_sessions w3 = payment_sessions ?w2"
    using same by (auto simp: w3_def insert_row_def)
  have "w' = w3 \<and> (\<exists>ul. lookup_row loan_id k (loans w3) = Some ul \<and> res = \<lparr>res_repayment = r, res_paymentSession = pending_session k tok w,
           res_outstandingBefore = dec_str D ob, res_outstandingAfter = dec_str D (dec_minus D ob a),
           res_fullyRepaid = (dec_minus D ob a = 0), res_loan = ul, res_repayments = repayments_of k w3\<rparr>)"
    using run ps unfolding repayment_commit_def k_def [symmetric] with_status_def [symmetric] Let_def w3_def [symmetric]
    by (simp only: w3_def [symmetric] split: option.splits) auto
  then show "res_repayment res = r" "repayments w' = repayments w @ [r]"
    "loans w' = with_status k ?st (loans w)"
    "res_paymentSession res = pending_session k tok w"
    "payment_sessions w' = payment_sessions (complete_session (repayment_id r) t (pending_session k tok w) w)"
    "res_fullyRepaid res = (dec_minus D ob a = 0)"
    "lookup_row loan_id k (loans w') = Some (res_loan res)"
    using w3 cs by auto
qed

lemma recordRepayment_InrE:
  assumes "recordRepayment D P emit now i payload w = (Inr res, w')"
    and dist: "distinct (map loan_id (loans w))"
  obtains u k a pd l ob v w1 where "repayment_args D P payload = Inr (u, k, a, pd)"
    "lookup_row loan_id k (loans w) = Some l"
    "u = borrowerId l \<or> Some u = lenderId l" "loan_status l \<noteq> LOAN_DEFAULTED"
    "ob = dec_minus D (loan_amount l) (total_repaid D (repayments_of k w))"
    "0 < ob" "a \<le> ob" "v = col20_7 P a" "\<bar>v\<bar> < 10 ^ 13"
    "res_repayment res = \<lparr>repayment_id = i, repayment_loanId = k, repayment_amount = v,
       repayment_paidAt = (case pd of None \<Rightarrow> now | Some p \<Rightarrow> p)\<rparr>"
    "repayments w1 = repayments w @ [res_repayment res]"
    "loans w1 = with_status k (next_loan_status (loan_status l) (dec_minus D ob a)) (loans w)"
    "res_paymentSession res = pending_session k (opt_trim (rr_sessionId payload)) w"
    "payment_sessions w1 = payment_sessions (complete_session i (case pd of None \<Rightarrow> now | Some p \<Rightarrow> p)
       (pending_session k (opt_trim (rr_sessionId payload)) w) w)"
    "res_fullyRepaid res = (dec_minus D ob a = 0)"
    "lookup_row loan_id k (loans w1) = Some (res_loan res)"
    "w' = emit (payment_received_of D P res) w1"
proof -
  obtain u k a pd where args: "repayment_args D P payload = Inr (u, k, a, pd)"
    using assms(1) by (cases "repayment_args D P payload") (auto simp: recordRepayment_def)
  obtain w1 where tx: "repayment_tx D P now i (u, k, a, pd) (rr_sessionId payload) w = (Inr res, w1)"
    and w': "w' = emit (payment_received_of D P res) w1"
    using assms(1) args by (auto simp: recordRepayment_def transaction_Inr split: prod.splits sum.splits)
  obtain l where l: "lookup_row loan_id k (loans w) = Some l"
    using tx by (auto simp: repayment_tx_def split: option.splits)
  define ob where "ob = dec_minus D (loan_amount l) (total_repaid D (repayments_of k w))"
  have g: "u = borrowerId l \<or> Some u = lenderId l" "loan_status l \<noteq> LOAN_DEFAULTED" "0 < ob" "a \<le> ob"
    using tx l by (auto simp: repayment_tx_def Let_def ob_def split: if_splits)
  obtain v where v: "store20_7 P a = Inr v"
    using tx l g by (cases "store20_7 P a") (auto simp: repayment_tx_def Let_def ob_def split: if_splits)
  let ?t = "case pd of None \<Rightarrow> now | Some p \<Rightarrow> p"
  let ?r = "\<lparr>repayment_id = i, repayment_loanId = k, repayment_amount = v, repayment_paidAt = ?t\<rparr>"
  have "repayment_commit D ?t ?r l ob a (opt_trim (rr_sessionId payload)) w = (Inr res, w1)"
    using tx l g v by (simp add: repayment_tx_def Let_def ob_def split: if_splits)
  from repayment_commit_Inr [OF this dist, simplified, OF l]
  show ?thesis using args l g v w' by (intro that) (auto simp: ob_def store20_7_Inr)
qed

lemma parsePositiveDecimal_Inr: "parsePositiveDecimal D v f = Inr a \<Longrightarrow> dec_new D v = Some (Fin a) \<and> 0 < a"
  by (auto simp: parsePositiveDecimal_def split: option.splits jsnum.splits if_splits)

lemma repayment_args_Inr:
  "repayment_args D P payload = Inr (u, k, a, pd) \<Longrightarrow>
   u = opt_trim (rr_requestingUserId payload) \<and> k = opt_trim (rr_loanId payload) \<and> dec_new D (rr_amount payload) = Some (Fin a) \<and> 0 < a"
  by (auto simp: repayment_args_def Let_def split: if_splits sum.splits option.splits dest!: parsePositiveDecimal_Inr)

lemma recordRepayment_Inl: "recordRepayment D P emit now i payload w = (Inl e, w') \<Longrightarrow> w' = w"
  by (auto simp: recordRepayment_def split: sum.splits prod.splits dest: transaction_Inl)

text \<open>The outcome of a successful repayment on a consistent database.\<close>

lemma repayment_outcome:
  assumes laws: "decimal_laws D" "column_laws (col20_7 P)" and ok: "loans_ok w"
    and run: "recordRepayment D P emit now i payload w = (Inr res, w')"
    and emit: "\<And>e v. loans (emit e v) = loans v \<and> repayments (emit e v) = repayments v"
  obtains k a l where "k = opt_trim (rr_loanId payload)" "dec_new D (rr_amount payload) = Some (Fin a)" "0 < a"
    "lookup_row loan_id k (loans w) = Some l" "loan_status l \<noteq> LOAN_DEFAULTED" "paid w k < loan_amount l"
    "a \<le> loan_amount l - paid w k" "col20_7 P a \<le> loan_amount l - paid w k"
    "repayments w' = repayments w @ [res_repayment res]"
    "repayment_loanId (res_repayment res) = k" "repayment_amount (res_repayment res) = col20_7 P a"
    "loans w' = with_status k (next_loan_status (loan_status l) (loan_amount l - paid w k - a)) (loans w)"
    "res_fullyRepaid res = (a = loan_amount l - paid w k)"
    "lookup_row loan_id k (loans w') = Some (res_loan res)"
proof -
  have dist: "distinct (map loan_id (loans w))" using ok by (simp add: loans_ok_def)
  from recordRepayment_InrE [OF run dist] obtain u k a pd l ob v w1
    where f: "repayment_args D P payload = Inr (u, k, a, pd)" "lookup_row loan_id k (loans w) = Some l"
      "loan_status l \<noteq> LOAN_DEFAULTED" "ob = dec_minus D (loan_amount l) (total_repaid D (repayments_of k w))"
      "0 < ob" "a \<le> ob" "v = col20_7 P a"
      "res_repayment res = \<lparr>repayment_id = i, repayment_loanId = k, repayment_amount = v,
         repayment_paidAt = (case pd of None \<Rightarrow> now | Some p \<Rightarrow> p)\<rparr>"
      "repayments w1 = repayments w @ [res_repayment res]"
      "loans w1 = with_status k (next_loan_status (loan_status l) (dec_minus D ob a)) (loans w)"
      "res_fullyRepaid res = (dec_minus D ob a = 0)" "lookup_row loan_id k (loans w1) = Some (res_loan res)"
      "w' = emit (payment_received_of D P res) w1"
    by metis
  have ob: "ob = loan_amount l - paid w k"
    unfolding f(4) by (rule outstanding_exact [OF laws(1) ok f(2)])
  have l: "loan_ok w l" "loan_id l = k"
    using ok loan_tab.lookup_SomeD [OF f(2)] by (auto simp: loans_ok_def)
  have grid: "on_grid ob"
    unfolding ob using l(1) paid_on_grid [OF ok] by (auto simp: loan_ok_def intro: on_grid_diff)
  have "col20_7 P a \<le> col20_7 P ob" using columnD(3) [OF laws(2)] f(6) .
  then have col: "col20_7 P a \<le> ob" using columnD(1) [OF laws(2) grid] by simp
  have zero: "dec_minus D ob a = 0 \<longleftrightarrow> a = ob"
    using dec_minus_zero [OF laws(1)] by auto
  then have nls: "next_loan_status st (dec_minus D ob a) = next_loan_status st (ob - a)" for st
    by (simp add: next_loan_status_def)
  have step: "loans w1 = with_status k (next_loan_status (loan_status l) (ob - a)) (loans w)"
    by (simp add: f(10) nls)
  show ?thesis
    using repayment_args_Inr [OF f(1)] f(1-3,5-9,11-13) step col ob zero emit
    by (intro that [of k a l]) simp_all
qed

lemma lookup_with_status:
  "lookup_row loan_id j (with_status k st t)
   = map_option (\<lambda>l. if loan_id l = k then l\<lparr>loan_status := st\<rparr> else l) (lookup_row loan_id j t)"
  unfolding with_status_def by (rule loan_tab.lookup_update) simp

lemma recordRepayment_loans_ok:
  assumes laws: "decimal_laws D" "column_laws (col20_7 P)" and ok: "loans_ok w"
    and emit: "\<And>e v. loans (emit e v) = loans v \<and> repayments (emit e v) = repayments v"
  shows "loans_ok (snd (recordRepayment D P emit now i payload w))"
proof (cases "recordRepayment D P emit now i payload w")
  case (Pair out w')
  show ?thesis
  proof (cases out)
    case (Inl e)
    then show ?thesis using Pair ok recordRepayment_Inl [of D P emit now i payload w e w'] by simp
  next
    case (Inr res)
    with Pair have run: "recordRepayment D P emit now i payload w = (Inr res, w')" by simp
    obtain k a l where f: "0 < a" "lookup_row loan_id k (loans w) = Some l" "loan_status l \<noteq> LOAN_DEFAULTED"
      "paid w k < loan_amount l" "a \<le> loan_amount l - paid w k" "col20_7 P a \<le> loan_amount l - paid w k"
      "repayments w' = repayments w @ [res_repayment res]"
      "repayment_loanId (res_repayment res) = k" "repayment_amount (res_repayment res) = col20_7 P a"
      "loans w' = with_status k (next_loan_status (loan_status l) (loan_amount l - paid w k - a)) (loans w)"
      using repayment_outcome [OF laws ok run emit] by metis
    let ?st = "next_loan_status (loan_status l) (loan_amount l - paid w k - a)"
    have l: "l \<in> set (loans w)" "loan_id l = k" using loan_tab.lookup_SomeD [OF f(2)] by auto
    have dist: "distinct (map loan_id (loans w))" using ok by (simp add: loans_ok_def)
    have paid: "paid w' j = paid w j + (if j = k then col20_7 P a else 0)" for j
      using f(7-9) by (simp add: paid_def repayments_of_def)
    have lok: "loan_ok w l" using ok l by (simp add: loans_ok_def)
    have col: "0 \<le> col20_7 P a" "on_grid (col20_7 P a)"
      using columnD(3) [OF laws(2), of 0 a] columnD(1) [OF laws(2), of 0] columnD(2) [OF laws(2)] f(1) by auto
    have full: "col20_7 P a = loan_amount l - paid w k" if "a = loan_amount l - paid w k"
      using that lok paid_on_grid [OF ok, of k] columnD(1) [OF laws(2)]
      by (simp add: loan_ok_def on_grid_diff)
    have others: "loan_ok w' m" if "m \<in> set (loans w)" "loan_id m \<noteq> k" for m
      using that ok f(7,8) by (auto simp: loans_ok_def loan_ok_def paid repayments_of_def)
    have "loan_ok w' (l\<lparr>loan_status := ?st\<rparr>)"
      using lok f(4,6) full l(2) \<open>loan_status l \<noteq> LOAN_DEFAULTED\<close>
      by (auto simp: loan_ok_def paid next_loan_status_def split: if_splits)
    moreover have "m = l" if "m \<in> set (loans w)" "loan_id m = k" for m
      using loan_tab.lookup_member [OF dist that(1)] f(2) that(2) by simp
    ultimately have "\<forall>m\<in>set (loans w'). loan_ok w' m"
      using others by (auto simp: f(10) with_status_def set_update_where)
    moreover have "distinct (map loan_id (loans w'))"
      using dist by (simp add: f(10) with_status_def map_key_update_where)
    moreover have "\<forall>r\<in>set (repayments w'). repayment_ok w' r"
    proof -
      have "loan_id ` set (loans w') = loan_id ` set (loans w)"
        by (simp add: f(10) with_status_def flip: set_map) (simp add: map_key_update_where)
      moreover have "k \<in> loan_id ` set (loans w)" using l by blast
      ultimately show ?thesis using ok col f(7-9) by (auto simp: loans_ok_def repayment_ok_def)
    qed
    ultimately show ?thesis using Pair by (simp add: loans_ok_def)
  qed
qed

lemma issueLoan_Inl: "issueLoan D P C i payload w = (Inl e, w') \<Longrightarrow> w' = w"
  by (auto simp: issueLoan_def Let_def split: sum.splits if_splits prod.splits)

lemma issue_loan_args_Inr:
  "issue_loan_args D payload = Inr (b, s, a, c) \<Longrightarrow>
   b = opt_trim (il_borrowerId payload) \<and> s = opt_trim (il_lenderId payload) \<and> b \<noteq> [] \<and> s \<noteq> [] \<and> b \<noteq> s
   \<and> opt_trim (il_requestingUserId payload) \<in> {b, s} \<and> dec_new D (il_amount payload) = Some (Fin a)
   \<and> dec_new D (il_collateralAmt payload) = Some (Fin c) \<and> 0 < a \<and> 0 < c \<and> MIN_COLLATERAL_RATIO \<le> dec_div D c a"
  by (auto simp: issue_loan_args_def Let_def split: if_splits sum.splits dest!: parsePositiveDecimal_Inr)

lemma issueLoan_InrE:
  assumes "issueLoan D P C i payload w = (Inr (j, x, row), w')"
  obtains b s a c where "issue_loan_args D payload = Inr (b, s, a, c)" "length (users_in [b, s] w) = 2"
    "j = i" "\<bar>col20_7 P a\<bar> < 10 ^ 13"
    "row = \<lparr>loan_id = i, borrowerId = b, lenderId = Some s, loan_amount = col20_7 P a,
       loan_assetCode = or_else (il_assetCode payload) ''USDC'', interestRate = 0,
       loan_status = LOAN_PENDING, loan_collateralId = None\<rparr>"
    "w' = broadcast (LOAN_UPDATED i ''PENDING'') (w\<lparr>loans := insert_row row (loans w)\<rparr>)"
proof -
  obtain b s a c where args: "issue_loan_args D payload = Inr (b, s, a, c)"
    using assms by (cases "issue_loan_args D payload") (auto simp: issueLoan_def)
  have two: "length (users_in [b, s] w) = 2"
    using assms args by (auto simp: issueLoan_def split: if_splits)
  then have "issueLoan D P C i payload w = (Inr (j, x, row), w') \<longrightarrow> thesis"
    using args by (auto simp: issueLoan_def Let_def store20_7_Inr intro!: that split: sum.splits)
  then show ?thesis using assms by simp
qed

lemma issueLoan_loans_ok:
  assumes laws: "column_laws (col20_7 P)" and ok: "loans_ok w" and fresh: "lookup_row loan_id i (loans w) = None"
  shows "loans_ok (snd (issueLoan D P C i payload w))"
proof -
  have none: "repayments_of i w = []"
    using ok fresh by (force simp: loans_ok_def repayment_ok_def repayments_of_def loan_tab.lookup_None_iff filter_empty_conv)
  have new: "loans_ok (w\<lparr>loans := insert_row l (loans w)\<rparr>)"
    if "loan_id l = i" "loan_status l = LOAN_PENDING" "on_grid (loan_amount l)" "0 \<le> loan_amount l" "loan_amount l < 10 ^ 13" for l
  proof -
    let ?w = "w\<lparr>loans := insert_row l (loans w)\<rparr>"
    have "loan_ok ?w l" using that none by (simp add: loan_ok_def paid_def repayments_of_def)
    moreover have "loan_ok ?w m = loan_ok w m" for m
      by (simp add: loan_ok_def paid_def repayments_of_def)
    ultimately show ?thesis
      using ok fresh that by (auto simp: loans_ok_def insert_row_def repayment_ok_def loan_tab.lookup_None_iff)
  qed
  have col: "0 \<le> col20_7 P a" if "0 < a" for a
    using columnD(3) [OF laws, of 0 a] columnD(1) [OF laws, of 0] that by auto
  show ?thesis
  proof (cases "fst (issueLoan D P C i payload w)")
    case (Inl e)
    then show ?thesis using ok issueLoan_Inl [of D P C i payload w e] by (metis prod.collapse)
  next
    case (Inr r)
    obtain j x row w' where run: "issueLoan D P C i payload w = (Inr (j, x, row), w')"
      using Inr by (metis prod.collapse)
    from issueLoan_InrE [OF run] obtain b s a c where f: "issue_loan_args D payload = Inr (b, s, a, c)"
      "\<bar>col20_7 P a\<bar> < 10 ^ 13" "loan_id row = i" "loan_status row = LOAN_PENDING" "loan_amount row = col20_7 P a"
      "w' = broadcast (LOAN_UPDATED i ''PENDING'') (w\<lparr>loans := insert_row row (loans w)\<rparr>)"
      by (metis loan_row.select_convs(1,4,7))
    then have "loans_ok (w\<lparr>loans := insert_row row (loans w)\<rparr>)"
      using columnD(2) [OF laws] col [of a] issue_loan_args_Inr [OF f(1)] by (intro new) auto
    moreover have "loans_ok w' = loans_ok (w\<lparr>loans := insert_row row (loans w)\<rparr>)"
      unfolding f(6) by (rule loans_ok_cong) simp_all
    ultimately show ?thesis using run by simp
  qed
qed

lemma createPayment_same:
  "loans (snd (createPayment D V i u payload w)) = loans w \<and> repayments (snd (createPayment D V i u payload w)) = repayments w"
  by (auto simp: createPayment_def Let_def split: sum.splits option.splits)

section \<open>Properties\<close>

text \<open>
  The steps of the loan service, between steps of other services, which leave loans
  and repayments alone.
\<close>

inductive loan_step :: "decimal \<Rightarrow> platform \<Rightarrow> chain \<Rightarrow> loan_env \<Rightarrow> world \<Rightarrow> world \<Rightarrow> bool" for D P C V where
  step_issue: "lookup_row loan_id i (loans w) = None \<Longrightarrow> loan_step D P C V w (snd (issueLoan D P C i payload w))"
| step_session: "loan_step D P C V w (snd (createPayment D V i uuid payload w))"
| step_repay: "(\<And>e v. loans (emit e v) = loans v \<and> repayments (emit e v) = repayments v) \<Longrightarrow>
    loan_step D P C V w (snd (recordRepayment D P emit now i payload w))"
| step_other: "loans w' = loans w \<Longrightarrow> repayments w' = repayments w \<Longrightarrow> loan_step D P C V w w'"

lemma loan_step_ok:
  assumes "decimal_laws D" "column_laws (col20_7 P)"
  shows "loan_step D P C V w w' \<Longrightarrow> loans_ok w \<Longrightarrow> loans_ok w'"
proof (induction rule: loan_step.induct)
  case (step_issue i w payload)
  then show ?case using assms by (intro issueLoan_loans_ok)
next
  case (step_session w i uuid payload)
  then show ?case using createPayment_same loans_ok_cong by blast
next
  case (step_repay emit w now i payload)
  then show ?case using assms by (intro recordRepayment_loans_ok)
next
  case (step_other w' w)
  then show ?case using loans_ok_cong by blast
qed

lemma loans_ok_empty: "loans_ok empty_world"
  by (simp add: loans_ok_def empty_world_def)

lemma loan_reachable_ok:
  assumes "decimal_laws D" "column_laws (col20_7 P)"
  shows "(loan_step D P C V)\<^sup>*\<^sup>* w w' \<Longrightarrow> loans_ok w \<Longrightarrow> loans_ok w'"
  by (induction rule: rtranclp_induct) (auto intro: loan_step_ok [OF assms])

text \<open>
  C1. In every state the loan service can reach from the empty database, the repayments
  of a loan never sum to more than its amount; a repaid loan has been repaid exactly;
  and a pending loan has no repayment.
\<close>

theorem loan_balance:
  assumes "decimal_laws D" "column_laws (col20_7 P)"
    and "(loan_step D P C V)\<^sup>*\<^sup>* empty_world w" and "l \<in> set (loans w)"
  shows "0 \<le> paid w (loan_id l) \<and> paid w (loan_id l) \<le> loan_amount l
    \<and> (loan_status l = LOAN_REPAID \<longrightarrow> paid w (loan_id l) = loan_amount l)
    \<and> (loan_status l = LOAN_PENDING \<longrightarrow> repayments_of (loan_id l) w = [])"
proof -
  have ok: "loans_ok w"
    by (rule loan_reachable_ok [OF assms(1,2,3) loans_ok_empty])
  then have "loan_ok w l" using assms(4) by (simp add: loans_ok_def)
  then show ?thesis using paid_nonneg [OF ok] by (simp add: loan_ok_def)
qed

definition demo_loan :: loan_row where
  "demo_loan = \<lparr>loan_id = ''l1'', borrowerId = ''b'', lenderId = Some ''s'', loan_amount = 1, loan_assetCode = ''USDC'',
     interestRate = 0, loan_status = LOAN_PENDING, loan_collateralId = None\<rparr>"

definition demo_people :: world where
  "demo_people = empty_world\<lparr>users := [\<lparr>user_id = ''b'', stellarAddress = ''GB'', user_name = None, user_role = BUYER\<rparr>,
     \<lparr>user_id = ''s'', stellarAddress = ''GS'', user_name = None, user_role = LENDER\<rparr>]\<rparr>"

definition demo_loan_world :: world where
  "demo_loan_world = demo_people\<lparr>loans := [demo_loan], ws_log := [LOAN_UPDATED ''l1'' ''PENDING'']\<rparr>"

definition demo_issue :: issue_loan_request where
  "demo_issue = \<lparr>il_requestingUserId = Some ''b'', il_borrowerId = Some ''b'', il_lenderId = Some ''s'',
     il_amount = NNum (Fin 1), il_assetCode = None, il_collateralAmt = NNum (Fin 2), il_escrowAddress = None\<rparr>"

definition demo_repay :: "rat \<Rightarrow> repayment_request" where
  "demo_repay x = \<lparr>rr_requestingUserId = Some ''b'', rr_loanId = Some ''l1'', rr_amount = NNum (Fin x),
     rr_paidAt = DUndef, rr_sessionId = None\<rparr>"

lemma demo_trim: "opt_trim (Some ''b'') = ''b''" "opt_trim (Some ''s'') = ''s''" "opt_trim (Some ''l1'') = ''l1''"
  "opt_trim None = []" "js_trim ''CL'' = ''CL''"
  by code_simp+

lemma demo_store: "n < 10 ^ 20 \<Longrightarrow> store20_7 demo_platform (of_nat n / 10 ^ 7) = Inr (of_nat n / 10 ^ 7)"
proof -
  assume n: "n < 10 ^ 20"
  have "round7 (of_nat n / 10 ^ 7) = of_nat n / 10 ^ 7"
    by (rule round7_fix) (rule on_gridI [of _ "int n"], simp)
  moreover have "of_nat n / 10 ^ 7 < (10 ^ 13 :: rat)"
  proof -
    have "of_nat n < (of_nat (10 ^ 20) :: rat)" using n by (simp only: of_nat_less_iff)
    then show ?thesis by (simp add: divide_less_eq)
  qed
  ultimately show ?thesis by (simp add: store20_7_def demo_platform_def)
qed

lemma demo_issue_fields: "il_assetCode demo_issue = None" "il_escrowAddress demo_issue = None"
  by (simp_all add: demo_issue_def)

lemma demo_issue_run:
  "issueLoan demo_decimal demo_platform demo_chain ''l1'' demo_issue demo_people
   = (Inr (''l1'', ''AAAA'', demo_loan), demo_loan_world)"
proof -
  have args: "issue_loan_args demo_decimal demo_issue = Inr (''b'', ''s'', 1, 2)"
    by (simp add: issue_loan_args_def demo_issue_def parsePositiveDecimal_def demo_decimal_def demo_trim MIN_COLLATERAL_RATIO_def)
  have "store20_7 demo_platform 1 = Inr 1" using demo_store [of "10 ^ 7"] by simp
  then show ?thesis
    by (simp add: issueLoan_def args demo_people_def users_in_def demo_chain_def demo_trim or_else_def demo_issue_fields
        insert_row_def demo_loan_world_def demo_loan_def broadcast_def empty_world_def Let_def)
qed

lemma demo_loan_reachable: "(loan_step demo_decimal demo_platform demo_chain V)\<^sup>*\<^sup>* empty_world demo_loan_world"
proof -
  have "loan_step demo_decimal demo_platform demo_chain V empty_world demo_people"
    by (rule step_other) (simp_all add: demo_people_def)
  moreover have "loan_step demo_decimal demo_platform demo_chain V demo_people demo_loan_world"
  proof -
    have "lookup_row loan_id ''l1'' (loans demo_people) = None"
      by (simp add: demo_people_def empty_world_def lookup_row_def)
    from step_issue [OF this, of demo_decimal demo_platform demo_chain V demo_issue]
    show ?thesis by (simp add: demo_issue_run)
  qed
  ultimately show ?thesis by (metis converse_rtranclp_into_rtranclp r_into_rtranclp)
qed

lemma column_laws_demo: "column_laws (col20_7 demo_platform)"
  by (simp add: demo_platform_def column_laws_round7)

theorem loan_balance_witness:
  "0 \<le> paid demo_loan_world ''l1'' \<and> paid demo_loan_world ''l1'' \<le> 1 \<and> repayments_of ''l1'' demo_loan_world = []"
  using loan_balance [OF decimal_laws_demo column_laws_demo demo_loan_reachable, of demo_loan]
  by (simp add: demo_loan_world_def demo_loan_def)


lemma demo_loans_ok: "loans_ok demo_loan_world"
  by (rule loan_reachable_ok [OF decimal_laws_demo column_laws_demo demo_loan_reachable loans_ok_empty])

lemma demo_repay_args: "0 < x \<Longrightarrow> repayment_args demo_decimal P (demo_repay x) = Inr (''b'', ''l1'', x, None)"
  by (simp add: repayment_args_def demo_repay_def demo_trim parsePositiveDecimal_def demo_decimal_def)

lemma demo_repay_fields [simp]: "rr_sessionId (demo_repay x) = None" "rr_loanId (demo_repay x) = Some ''l1''"
  "rr_amount (demo_repay x) = NNum (Fin x)"
  by (simp_all add: demo_repay_def)

lemma demo_arith: "dec_minus demo_decimal = (-)" "dec_plus demo_decimal = (+)"
  by (simp_all add: demo_decimal_def)

lemma demo_new: "dec_new demo_decimal (NNum (Fin x)) = Some (Fin x)"
  by (simp add: demo_decimal_def)

definition demo_loan_paid :: "rat \<Rightarrow> loan_status \<Rightarrow> world" where
  "demo_loan_paid x st = demo_loan_world\<lparr>loans := [demo_loan\<lparr>loan_status := st\<rparr>],
     repayments := [\<lparr>repayment_id = ''r1'', repayment_loanId = ''l1'', repayment_amount = x, repayment_paidAt = 0\<rparr>],
     ws_log := [LOAN_UPDATED ''l1'' ''PENDING'', LOAN_UPDATED ''l1'' (show_loan_status st)]\<rparr>"

lemma demo_repay_run:
  assumes "0 < x" "x \<le> 1" "store20_7 demo_platform x = Inr v"
  shows "\<exists>res. recordRepayment demo_decimal demo_platform (\<lambda>_ v. v) 0 ''r1'' (demo_repay x) demo_loan_world
    = (Inr res, demo_loan_paid v (if x = 1 then LOAN_REPAID else LOAN_ACTIVE)) \<and> res_fullyRepaid res = (x = 1)"
  using assms
  by (simp add: recordRepayment_def demo_repay_args repayment_tx_def repayment_commit_def demo_loan_world_def demo_people_def
      demo_loan_def lookup_row_def repayments_of_def total_repaid_def demo_arith demo_trim empty_world_def
      pending_session_def complete_session_def next_loan_status_def insert_row_def broadcast_def update_where_def
      transaction_def demo_loan_paid_def Let_def)


text \<open>
  The status is computed from the amount as sent, the balance from the amount as
  stored. A repayment of 0.99999996 on a loan of 1 is stored as 1, so nothing is left to
  pay, but the loan stays ACTIVE and the answer says it is not fully repaid; every later
  repayment of it is refused because the loan is already fully repaid.
\<close>

theorem repayment_rounding_sticks:
  "\<exists>res w1. recordRepayment demo_decimal demo_platform (\<lambda>_ v. v) 0 ''r1'' (demo_repay (99999996 / 10 ^ 8)) demo_loan_world = (Inr res, w1)
     \<and> \<not> res_fullyRepaid res \<and> loans w1 = [demo_loan\<lparr>loan_status := LOAN_ACTIVE\<rparr>] \<and> paid w1 ''l1'' = loan_amount demo_loan
     \<and> (\<forall>now i x. 0 < x \<longrightarrow> recordRepayment demo_decimal demo_platform (\<lambda>_ v. v) now i (demo_repay x) w1
           = (Inl (ValidationError ''Loan is already fully repaid''), w1))"
proof -
  have r: "round7 (99999996 / 10 ^ 8) = 1"
  proof -
    have "\<lfloor>(99999996 / 10 ^ 8) * 10 ^ 7 + 1 / 2 :: rat\<rfloor> = 10 ^ 7" by (simp add: floor_eq_iff)
    then show ?thesis by (simp add: round7_def)
  qed
  have s: "store20_7 demo_platform (99999996 / 10 ^ 8) = Inr 1"
    using r by (simp add: store20_7_def demo_platform_def)
  have x: "(0 :: rat) < 99999996 / 10 ^ 8" "(99999996 / 10 ^ 8 :: rat) \<le> 1" "(99999996 / 10 ^ 8 :: rat) \<noteq> 1" by simp_all
  obtain res where run: "recordRepayment demo_decimal demo_platform (\<lambda>_ v. v) 0 ''r1'' (demo_repay (99999996 / 10 ^ 8)) demo_loan_world
      = (Inr res, demo_loan_paid 1 LOAN_ACTIVE)" "\<not> res_fullyRepaid res"
    using demo_repay_run [OF x(1,2) s] unfolding if_not_P [OF x(3)] by (auto simp only: x(3))
  moreover have "loans (demo_loan_paid 1 LOAN_ACTIVE) = [demo_loan\<lparr>loan_status := LOAN_ACTIVE\<rparr>]"
    "paid (demo_loan_paid 1 LOAN_ACTIVE) ''l1'' = loan_amount demo_loan"
    by (simp_all add: demo_loan_paid_def paid_def repayments_of_def demo_loan_def)
  moreover have "recordRepayment demo_decimal demo_platform (\<lambda>_ v. v) now i (demo_repay x) (demo_loan_paid 1 LOAN_ACTIVE)
      = (Inl (ValidationError ''Loan is already fully repaid''), demo_loan_paid 1 LOAN_ACTIVE)" if "0 < x" for now i x
    using that
    by (simp add: recordRepayment_def demo_repay_args repayment_tx_def demo_loan_paid_def demo_loan_def lookup_row_def
        repayments_of_def total_repaid_def demo_arith transaction_def)
  ultimately show ?thesis by blast
qed

theorem repayment_rounding_sticks_witness:
  "\<exists>w1. paid w1 ''l1'' = loan_amount demo_loan
     \<and> recordRepayment demo_decimal demo_platform (\<lambda>_ v. v) 7 ''r2'' (demo_repay (1 / 2)) w1
         = (Inl (ValidationError ''Loan is already fully repaid''), w1)"
proof -
  have "(0 :: rat) < 1 / 2" by simp
  then show ?thesis using repayment_rounding_sticks by blast
qed

text \<open>
  A repayment completes at most one payment session, and only a pending one of its
  own loan (with the token, when one is given), which it links to the repayment: every
  other session, in particular every completed one, stays as it was.
\<close>

theorem repayment_completes_session:
  assumes "distinct (map loan_id (loans w))" and dist: "distinct (map ps_id (payment_sessions w))"
    and run: "recordRepayment D P emit now i payload w = (Inr res, w')"
    and "\<And>e v. payment_sessions (emit e v) = payment_sessions v"
  shows "\<forall>s\<in>set (payment_sessions w). \<exists>s'\<in>set (payment_sessions w'). ps_id s' = ps_id s \<and>
     (if res_paymentSession res = Some s
      then ps_status s = PS_PENDING \<and> ps_status s' = PS_COMPLETED \<and> ps_repaymentId s' = Some i
        \<and> ps_loanId s = repayment_loanId (res_repayment res)
        \<and> (opt_trim (rr_sessionId payload) \<noteq> [] \<longrightarrow> sessionToken s = opt_trim (rr_sessionId payload))
      else s' = s)"
proof -
  let ?tok = "opt_trim (rr_sessionId payload)"
  from recordRepayment_InrE [OF run assms(1)] obtain k v pd w1 where
    r: "res_repayment res = \<lparr>repayment_id = i, repayment_loanId = k, repayment_amount = v,
       repayment_paidAt = (case pd of None \<Rightarrow> now | Some p \<Rightarrow> p)\<rparr>"
      "res_paymentSession res = pending_session k ?tok w"
      "payment_sessions w1 = payment_sessions (complete_session i (case pd of None \<Rightarrow> now | Some p \<Rightarrow> p) (pending_session k ?tok w) w)"
      "w' = emit (payment_received_of D P res) w1"
    by metis
  define t where "t = (case pd of None \<Rightarrow> now | Some p \<Rightarrow> p)"
  have f: "repayment_loanId (res_repayment res) = k" "res_paymentSession res = pending_session k ?tok w"
    "payment_sessions w' = payment_sessions (complete_session i t (pending_session k ?tok w) w)"
    using r assms(4) by (simp_all add: t_def)
  show ?thesis
  proof (cases "pending_session k ?tok w")
    case None
    then show ?thesis using f by (auto simp: complete_session_def)
  next
    case (Some p)
    then have p: "p \<in> set (payment_sessions w)" "ps_loanId p = k" "?tok \<noteq> [] \<longrightarrow> sessionToken p = ?tok" "ps_status p = PS_PENDING"
      unfolding pending_session_def by (auto dest: find_SomeD)
    have same: "s = p" if "s \<in> set (payment_sessions w)" "ps_id s = ps_id p" for s
      using dist that p(1) by (auto simp: distinct_map inj_on_def)
    let ?f = "\<lambda>x. x\<lparr>ps_repaymentId := Some i, ps_status := PS_COMPLETED, ps_completedAt := Some t\<rparr>"
    have w': "set (payment_sessions w') = (\<lambda>x. if ps_id x = ps_id p then ?f x else x) ` set (payment_sessions w)"
      using f Some by (simp add: complete_session_def set_update_where)
    show ?thesis
    proof
      fix s assume s: "s \<in> set (payment_sessions w)"
      show "\<exists>s'\<in>set (payment_sessions w'). ps_id s' = ps_id s \<and> (if res_paymentSession res = Some s
          then ps_status s = PS_PENDING \<and> ps_status s' = PS_COMPLETED \<and> ps_repaymentId s' = Some i
            \<and> ps_loanId s = repayment_loanId (res_repayment res) \<and> (?tok \<noteq> [] \<longrightarrow> sessionToken s = ?tok)
          else s' = s)"
      proof (cases "s = p")
        case True
        then have "?f s \<in> set (payment_sessions w')" unfolding w' using s by force
        then show ?thesis using True f(1,2) Some p by (intro bexI [of _ "?f s"]) auto
      next
        case False
        then have "ps_id s \<noteq> ps_id p" using same s by blast
        then have "s \<in> set (payment_sessions w')" unfolding w' using s by force
        then show ?thesis using False f(2) Some by (intro bexI [of _ s]) auto
      qed
    qed
  qed
qed

definition demo_session :: payment_session_row where
  "demo_session = \<lparr>ps_id = ''p1'', ps_loanId = ''l1'', ps_repaymentId = None, sessionToken = ''t1'', checkoutUrl = ''u'',
     successUrl = ''u'', cancelUrl = ''u'', webhookUrl = None, webhookSecret = None, ps_status = PS_PENDING, ps_completedAt = None\<rparr>"

theorem repayment_completes_session_witness:
  "\<exists>w'. snd (recordRepayment demo_decimal demo_platform (\<lambda>_ v. v) 0 ''r1'' (demo_repay 1)
        (demo_loan_world\<lparr>payment_sessions := [demo_session]\<rparr>)) = w'
     \<and> (\<exists>s'\<in>set (payment_sessions w'). ps_id s' = ''p1'' \<and> ps_status s' = PS_COMPLETED \<and> ps_repaymentId s' = Some ''r1'')"
proof -
  let ?w = "demo_loan_world\<lparr>payment_sessions := [demo_session]\<rparr>"
  have s: "store20_7 demo_platform 1 = Inr 1" using demo_store [of "10 ^ 7"] by simp
  obtain res w' where run: "recordRepayment demo_decimal demo_platform (\<lambda>_ v. v) 0 ''r1'' (demo_repay 1) ?w = (Inr res, w')"
    and sel: "res_paymentSession res = Some demo_session"
    using s
    by (simp add: recordRepayment_def demo_repay_args repayment_tx_def repayment_commit_def demo_loan_world_def demo_people_def
        demo_loan_def lookup_row_def repayments_of_def total_repaid_def demo_arith demo_trim empty_world_def
        pending_session_def complete_session_def next_loan_status_def insert_row_def broadcast_def update_where_def
        transaction_def demo_session_def Let_def)
  have "distinct (map loan_id (loans ?w))" "distinct (map ps_id (payment_sessions ?w))"
    by (simp_all add: demo_loan_world_def)
  from repayment_completes_session [OF this run] sel show ?thesis
    using run by (auto simp: demo_session_def)
qed

text \<open>
  A loan is issued only to two different existing users, at the request of one of
  them, with positive amounts, and with collateral worth at least 1.5 times the amount up
  to the library's twentieth digit; a smaller ratio is refused. The new loan is pending
  and one message announces it.
\<close>

theorem issueLoan_collateral:
  assumes laws: "decimal_laws D" and dist: "distinct (map user_id (users w))"
    and run: "issueLoan D P C i payload w = (Inr (j, x, row), w')"
  shows "\<exists>a c. dec_new D (il_amount payload) = Some (Fin a) \<and> dec_new D (il_collateralAmt payload) = Some (Fin c)
    \<and> 0 < a \<and> 3 / 2 - 1 / 10 ^ 19 < c / a \<and> loan_amount row = col20_7 P a \<and> loan_status row = LOAN_PENDING
    \<and> (\<exists>lender. lenderId row = Some lender \<and> lender \<noteq> borrowerId row
        \<and> {borrowerId row, lender} \<subseteq> user_id ` set (users w) \<and> opt_trim (il_requestingUserId payload) \<in> {borrowerId row, lender})
    \<and> loans w' = loans w @ [row] \<and> ws_log w' = ws_log w @ [LOAN_UPDATED (loan_id row) ''PENDING'']"
proof -
  from issueLoan_InrE [OF run] obtain b s a c where f: "issue_loan_args D payload = Inr (b, s, a, c)"
    "length (users_in [b, s] w) = 2"
    "row = \<lparr>loan_id = i, borrowerId = b, lenderId = Some s, loan_amount = col20_7 P a,
       loan_assetCode = or_else (il_assetCode payload) ''USDC'', interestRate = 0,
       loan_status = LOAN_PENDING, loan_collateralId = None\<rparr>"
    "w' = broadcast (LOAN_UPDATED i ''PENDING'') (w\<lparr>loans := insert_row row (loans w)\<rparr>)"
    by metis
  note args = issue_loan_args_Inr [OF f(1)]
  let ?q = "3 / 2 - 1 / 10 ^ 19 :: rat"
  have "digits20 ?q"
    unfolding digits20_def
    by (rule exI [of _ "14999999999999999999 :: int"], rule exI [of _ "19 :: nat"]) (simp only: left_diff_distrib, simp)
  then have "?q < c / a"
    using decimalD(3) [OF laws, of ?q c a] args by (cases "c / a \<le> ?q") (auto simp: MIN_COLLATERAL_RATIO_def)
  then show ?thesis
    using args users_in_two [OF f(2) dist] by (intro exI [of _ a] exI [of _ c]) (auto simp: f(3,4) insert_row_def)
qed

theorem issueLoan_collateral_witness:
  "3 / 2 - 1 / 10 ^ 19 < 2 / (1 :: rat) \<and> loans demo_loan_world = loans demo_people @ [demo_loan]"
proof -
  have "distinct (map user_id (users demo_people))" by (simp add: demo_people_def)
  from issueLoan_collateral [OF decimal_laws_demo this demo_issue_run]
  show ?thesis by (simp add: demo_issue_def demo_new)
qed

end
