(* ===== verification/Auth_Service.thy ===== *)
theory Auth_Service
  imports Database
begin

text \<open>
  Wallet login, sessions and linked wallets (\<open>server/src/services/auth.service.ts\<close>, with
  \<open>server/src/config/jwt.ts\<close> and \<open>server/src/middleware/auth.middleware.ts\<close>). The Stellar
  key check, signature verification and JSON web tokens are the parameter \<open>crypto\<close>.
\<close>

section \<open>Configuration and helpers\<close>

record token_payload =
  tp_userId :: string
  tp_jti :: string
  tp_walletAddress :: string
  tp_role :: user_role

datatype token_secret = ACCESS | REFRESH

record crypto =
  stellar_key :: "string \<Rightarrow> bool" \<comment> \<open>\<open>Keypair.fromPublicKey\<close> does not throw\<close>
  sig_ok :: "string \<Rightarrow> string \<Rightarrow> string \<Rightarrow> bool" \<comment> \<open>\<open>verify\<close>: key, message, signature; \<open>False\<close> also when it throws\<close>
  jwt_sign :: "token_payload \<Rightarrow> token_secret \<Rightarrow> string \<Rightarrow> string"
  jwt_verify :: "string \<Rightarrow> token_secret \<Rightarrow> token_payload option"

record jwt_env =
  accessExpiresIn :: "string option"
  refreshExpiresIn :: "string option"

definition CHALLENGE_TTL_MS :: int where "CHALLENGE_TTL_MS = 5 * 60 * 1000"

definition ACCESS_TOKEN_EXPIRY :: string where "ACCESS_TOKEN_EXPIRY = ''15m''"

definition REFRESH_TOKEN_EXPIRY :: string where "REFRESH_TOKEN_EXPIRY = ''7d''"

definition normalizeAddress :: "string \<Rightarrow> app_error + string" where
  "normalizeAddress address = (if js_trim address = [] then Inl (ValidationError ''walletAddress is required'')
     else Inr (js_upper (js_trim address)))"

definition assertValidStellarAddress :: "crypto \<Rightarrow> string \<Rightarrow> app_error + unit" where
  "assertValidStellarAddress K address = (if stellar_key K address then Inr ()
     else Inl (ValidationError ''Invalid Stellar wallet address''))"

definition checked_address :: "crypto \<Rightarrow> string \<Rightarrow> app_error + string" where
  "checked_address K address = (case normalizeAddress address of
     Inl e \<Rightarrow> Inl e
   | Inr a \<Rightarrow> (case assertValidStellarAddress K a of Inl e \<Rightarrow> Inl e | Inr _ \<Rightarrow> Inr a))"

text \<open>\<open>SELECT ... FOR UPDATE\<close>: it throws when the user does not exist.\<close>

definition lockUserRow :: "string \<Rightarrow> world \<Rightarrow> app_error + unit" where
  "lockUserRow userId w = (if lookup_row user_id userId (users w) = None then Inl (NotFoundError ''User not found'') else Inr ())"

definition buildChallengeMessage :: "challenge_purpose \<Rightarrow> string \<Rightarrow> string" where
  "buildChallengeMessage purpose nonce =
     ''stellovault:'' @ (case purpose of LOGIN \<Rightarrow> ''login'' | LINK_WALLET \<Rightarrow> ''link-wallet'') @ '':'' @ nonce"

definition digit_value :: "char \<Rightarrow> nat" where
  "digit_value c = of_char c - 48"

definition parse_nat :: "string \<Rightarrow> nat" where
  "parse_nat s = foldl (\<lambda>n c. 10 * n + digit_value c) 0 s"

definition digit_char :: "char \<Rightarrow> bool" where
  "digit_char c \<longleftrightarrow> (let n = (of_char c :: nat) in 48 \<le> n \<and> n \<le> 57)"

definition parseExpiry :: "string \<Rightarrow> nat" where
  "parseExpiry s = (if s = [] then 900 else
     let digits = butlast s; suffix = last s in
     if digits = [] \<or> \<not> list_all digit_char digits then 900
     else if suffix = CHR ''s'' then parse_nat digits
     else if suffix = CHR ''m'' then parse_nat digits * 60
     else if suffix = CHR ''h'' then parse_nat digits * 3600
     else if suffix = CHR ''d'' then parse_nat digits * 86400
     else 900)"

section \<open>Challenges\<close>

definition challenge_open :: "int \<Rightarrow> string \<Rightarrow> challenge_row \<Rightarrow> bool" where
  "challenge_open now nonce c \<longleftrightarrow> challenge_nonce c = nonce \<and> \<not> consumed c \<and> now < challenge_expiresAt c"

text \<open>
  \<open>wallet.upsert\<close> with a nested \<open>user.create\<close>: when no wallet has the address, a user and
  a primary wallet are created together, and the unique \<open>stellarAddress\<close> may refuse them.
\<close>

definition upsert_wallet :: "string \<Rightarrow> string \<Rightarrow> string \<Rightarrow> world \<Rightarrow> (world, wallet_row) outcome" where
  "upsert_wallet new_user new_wallet address w = (case lookup_row wallet_address address (wallets w) of
     Some x \<Rightarrow> (Inr x, w)
   | None \<Rightarrow> if lookup_row stellarAddress address (users w) \<noteq> None
       then (Inl (PlainError ''Unique constraint failed on the fields: (stellarAddress)''), w)
       else let u = \<lparr>user_id = new_user, stellarAddress = address, user_name = None, user_role = BUYER\<rparr>;
                x = \<lparr>wallet_id = new_wallet, wallet_userId = new_user, wallet_address = address, isPrimary = True,
                  wallet_label = None\<rparr>
         in (Inr x, w\<lparr>users := insert_row u (users w), wallets := insert_row x (wallets w)\<rparr>))"

record new_ids =
  id_user :: string
  id_wallet :: string
  id_challenge :: string

definition generateChallenge ::
  "crypto \<Rightarrow> int \<Rightarrow> new_ids \<Rightarrow> string \<Rightarrow> string \<Rightarrow> challenge_purpose \<Rightarrow> string option \<Rightarrow> world
    \<Rightarrow> (world, string \<times> int \<times> string) outcome" where
  "generateChallenge K now ids nonce address purpose userId w = (case checked_address K address of
     Inl e \<Rightarrow> (Inl e, w)
   | Inr normalizedAddress \<Rightarrow>
       if purpose = LINK_WALLET \<and> (userId = None \<or> userId = Some [])
       then (Inl (ValidationError ''userId is required for wallet linking challenges''), w)
       else case upsert_wallet (id_user ids) (id_wallet ids) normalizedAddress w of
         (Inl e, w1) \<Rightarrow> (Inl e, w1)
       | (Inr wallet, w1) \<Rightarrow>
         let expiresAt = now + CHALLENGE_TTL_MS;
             c = \<lparr>challenge_id = id_challenge ids,
               challenge_userId = (case userId of None \<Rightarrow> wallet_userId wallet | Some u \<Rightarrow> u),
               challenge_wallet = Some normalizedAddress, challenge_nonce = nonce, challenge_purpose = purpose,
               challenge_expiresAt = expiresAt, consumed = False\<rparr>
         in if lookup_row user_id (challenge_userId c) (users w1) = None
            then (Inl (PlainError ''Foreign key constraint violated: WalletChallenge_userId_fkey''), w1)
            else (Inr (nonce, expiresAt, buildChallengeMessage purpose nonce), w1\<lparr>challenges := insert_row c (challenges w1)\<rparr>))"

definition consume_challenge :: "string \<Rightarrow> world \<Rightarrow> world" where
  "consume_challenge i w = w\<lparr>challenges := update_where (\<lambda>c. challenge_id c = i) (\<lambda>c. c\<lparr>consumed := True\<rparr>) (challenges w)\<rparr>"

section \<open>Login and sessions\<close>

record auth_result =
  accessToken :: string
  refreshToken :: string
  ar_id :: string
  ar_name :: "string option"
  ar_role :: user_role
  ar_stellarAddress :: string

definition issue_tokens :: "crypto \<Rightarrow> string \<Rightarrow> string \<Rightarrow> user_row \<Rightarrow> string \<Rightarrow> string \<Rightarrow> auth_result" where
  "issue_tokens K accessExp refreshExp user jti wallet =
     (let tp = \<lparr>tp_userId = user_id user, tp_jti = jti, tp_walletAddress = wallet, tp_role = user_role user\<rparr> in
      \<lparr>accessToken = jwt_sign K tp ACCESS accessExp, refreshToken = jwt_sign K tp REFRESH refreshExp,
       ar_id = user_id user, ar_name = user_name user, ar_role = user_role user, ar_stellarAddress = wallet\<rparr>)"

text \<open>
  \<open>verifySignature\<close>; \<open>env\<close> is what other requests do between the lookup of the
  challenge and the update that consumes it.
\<close>

definition verifySignature ::
  "crypto \<Rightarrow> jwt_env \<Rightarrow> (world \<Rightarrow> world) \<Rightarrow> int \<Rightarrow> string \<Rightarrow> string \<Rightarrow> string \<Rightarrow> string \<Rightarrow> world \<Rightarrow> (world, auth_result) outcome" where
  "verifySignature K J env now new_jti walletAddress nonce signature w = (case checked_address K walletAddress of
     Inl e \<Rightarrow> (Inl e, w)
   | Inr a \<Rightarrow> (case find (\<lambda>c. challenge_open now nonce c \<and> challenge_wallet c = Some a) (challenges w) of
       None \<Rightarrow> (Inl (UnauthorizedError ''Invalid or expired challenge''), w)
     | Some challenge \<Rightarrow>
         if \<not> sig_ok K a (buildChallengeMessage LOGIN nonce) signature
         then (Inl (UnauthorizedError ''Signature verification failed''), w)
         else let w1 = consume_challenge (challenge_id challenge) (env w) in
           case lookup_row user_id (challenge_userId challenge) (users w1) of
             None \<Rightarrow> (Inl (NotFoundError ''User not found for this wallet''), w1)
           | Some user \<Rightarrow>
             (Inr (issue_tokens K (or_else (accessExpiresIn J) ACCESS_TOKEN_EXPIRY) (or_else (refreshExpiresIn J) REFRESH_TOKEN_EXPIRY)
                user new_jti a),
              w1\<lparr>sessions := insert_row \<lparr>session_userId = user_id user, session_jti = new_jti, revokedAt = None\<rparr> (sessions w1)\<rparr>)))"

text \<open>\<open>refreshTokens\<close>; \<open>env\<close> runs between its reads and its transaction.\<close>

definition revoke_where :: "(session_row \<Rightarrow> bool) \<Rightarrow> int \<Rightarrow> world \<Rightarrow> world" where
  "revoke_where P now w = w\<lparr>sessions := update_where P (\<lambda>s. s\<lparr>revokedAt := Some now\<rparr>) (sessions w)\<rparr>"

definition refreshTokens ::
  "crypto \<Rightarrow> jwt_env \<Rightarrow> (world \<Rightarrow> world) \<Rightarrow> int \<Rightarrow> string \<Rightarrow> string \<Rightarrow> world \<Rightarrow> (world, auth_result) outcome" where
  "refreshTokens K J env now new_jti token w = (case jwt_verify K token REFRESH of
     None \<Rightarrow> (Inl (UnauthorizedError ''Invalid or expired refresh token''), w)
   | Some payload \<Rightarrow> (case lookup_row session_jti (tp_jti payload) (sessions w) of
       None \<Rightarrow> (Inl (UnauthorizedError ''Session revoked or expired''), w)
     | Some session \<Rightarrow>
         if revokedAt session \<noteq> None then (Inl (UnauthorizedError ''Session revoked or expired''), w)
         else case lookup_row user_id (session_userId session) (users w) of
           None \<Rightarrow> (Inl (NotFoundError ''User not found''), w)
         | Some user \<Rightarrow>
           let w1 = revoke_where (\<lambda>s. session_jti s = session_jti session) now (env w)
           in (Inr (issue_tokens K (or_else (accessExpiresIn J) ACCESS_TOKEN_EXPIRY) REFRESH_TOKEN_EXPIRY user new_jti (tp_walletAddress payload)),
               w1\<lparr>sessions := insert_row \<lparr>session_userId = user_id user, session_jti = new_jti, revokedAt = None\<rparr> (sessions w1)\<rparr>)))"

definition revokeSession :: "int \<Rightarrow> string \<Rightarrow> world \<Rightarrow> (world, unit) outcome" where
  "revokeSession now jti w = (case lookup_row session_jti jti (sessions w) of
     None \<Rightarrow> (Inl (NotFoundError ''Session not found''), w)
   | Some _ \<Rightarrow> (Inr (), revoke_where (\<lambda>s. session_jti s = jti) now w))"

definition revokeAllSessions :: "int \<Rightarrow> string \<Rightarrow> world \<Rightarrow> (world, nat) outcome" where
  "revokeAllSessions now userId w =
     (let sel = (\<lambda>s. session_userId s = userId \<and> revokedAt s = None) in
      (Inr (count_where sel (sessions w)), revoke_where sel now w))"

definition authMiddleware :: "crypto \<Rightarrow> string option \<Rightarrow> world \<Rightarrow> app_error + token_payload" where
  "authMiddleware K header w = (case header of
     None \<Rightarrow> Inl (UnauthorizedError ''Missing or malformed Authorization header'')
   | Some h \<Rightarrow>
       if take 7 h \<noteq> ''Bearer '' then Inl (UnauthorizedError ''Missing or malformed Authorization header'')
       else case jwt_verify K (drop 7 h) ACCESS of
         None \<Rightarrow> Inl (UnauthorizedError ''Invalid or expired access token'')
       | Some payload \<Rightarrow> (case lookup_row session_jti (tp_jti payload) (sessions w) of
           None \<Rightarrow> Inl (UnauthorizedError ''Session revoked or invalid'')
         | Some session \<Rightarrow> if revokedAt session \<noteq> None then Inl (UnauthorizedError ''Session revoked or invalid'')
             else Inr payload))"

section \<open>Users and wallets\<close>

definition wallets_of :: "string \<Rightarrow> world \<Rightarrow> wallet_row list" where
  "wallets_of u w = filter (\<lambda>x. wallet_userId x = u) (wallets w)"

definition auth_getUserById :: "string \<Rightarrow> world \<Rightarrow> (world, user_row \<times> wallet_row list) outcome" where
  "auth_getUserById userId w = (case lookup_row user_id userId (users w) of
     None \<Rightarrow> (Inl (NotFoundError ''User not found''), w)
   | Some u \<Rightarrow> (Inr (u, wallets_of userId w), w))"

text \<open>\<open>orderBy: [{isPrimary: "desc"}, {createdAt: "asc"}]\<close>.\<close>

definition getUserWallets :: "string \<Rightarrow> world \<Rightarrow> wallet_row list" where
  "getUserWallets userId w = filter isPrimary (wallets_of userId w) @ filter (\<lambda>x. \<not> isPrimary x) (wallets_of userId w)"

definition clean_label :: "string option \<Rightarrow> string option" where
  "clean_label label = (if opt_trim label = [] then None else Some (opt_trim label))"

definition linkWallet_tx ::
  "crypto \<Rightarrow> int \<Rightarrow> string \<Rightarrow> string \<Rightarrow> string \<Rightarrow> string \<Rightarrow> string \<Rightarrow> string option \<Rightarrow> world \<Rightarrow> (world, wallet_row) outcome" where
  "linkWallet_tx K now new_id userId a nonce signature label w = (case lockUserRow userId w of
     Inl e \<Rightarrow> (Inl e, w)
   | Inr _ \<Rightarrow>
       if lookup_row wallet_address a (wallets w) \<noteq> None
       then (Inl (ConflictError ''Wallet address is already linked''), w)
       else case find (\<lambda>c. challenge_open now nonce c \<and> challenge_userId c = userId) (challenges w) of
         None \<Rightarrow> (Inl (UnauthorizedError ''Invalid or expired linking challenge''), w)
       | Some challenge \<Rightarrow>
           if \<not> sig_ok K a (''stellovault:link-wallet:'' @ nonce) signature
           then (Inl (UnauthorizedError ''Invalid signature''), w)
           else let w1 = consume_challenge (challenge_id challenge) w;
                    row = \<lparr>wallet_id = new_id, wallet_userId = userId, wallet_address = a,
                      isPrimary = (length (wallets_of userId w1) = 0), wallet_label = clean_label label\<rparr>
             in (Inr row, w1\<lparr>wallets := insert_row row (wallets w1)\<rparr>))"

definition linkWallet ::
  "crypto \<Rightarrow> int \<Rightarrow> string \<Rightarrow> string \<Rightarrow> string \<Rightarrow> string \<Rightarrow> string \<Rightarrow> string option \<Rightarrow> world \<Rightarrow> (world, wallet_row) outcome" where
  "linkWallet K now new_id userId address nonce signature label w = (case checked_address K address of
     Inl e \<Rightarrow> (Inl e, w)
   | Inr a \<Rightarrow> transaction (linkWallet_tx K now new_id userId a nonce signature label) w)"

definition set_primary :: "(wallet_row \<Rightarrow> bool) \<Rightarrow> bool \<Rightarrow> world \<Rightarrow> world" where
  "set_primary P b w = w\<lparr>wallets := update_where P (\<lambda>x. x\<lparr>isPrimary := b\<rparr>) (wallets w)\<rparr>"

definition delete_wallet :: "string \<Rightarrow> world \<Rightarrow> world" where
  "delete_wallet i w = w\<lparr>wallets := delete_where (\<lambda>x. wallet_id x = i) (wallets w)\<rparr>"

definition unlinkWallet_tx :: "string \<Rightarrow> string \<Rightarrow> world \<Rightarrow> (world, unit) outcome" where
  "unlinkWallet_tx userId walletId w = (case lockUserRow userId w of
     Inl e \<Rightarrow> (Inl e, w)
   | Inr _ \<Rightarrow> let ws = wallets_of userId w in
       case find (\<lambda>x. wallet_id x = walletId) ws of
         None \<Rightarrow> (Inl (NotFoundError ''Wallet not found''), w)
       | Some wallet \<Rightarrow>
           if length ws \<le> 1 then (Inl (ValidationError ''Cannot unlink the only wallet''), w)
           else if isPrimary wallet
           then (case find (\<lambda>x. wallet_id x \<noteq> walletId) ws of
               None \<Rightarrow> (Inl (ValidationError ''No backup wallet found to promote to primary''), w)
             | Some replacement \<Rightarrow> (Inr (), delete_wallet walletId (set_primary (\<lambda>x. wallet_id x = wallet_id replacement) True w)))
           else (Inr (), delete_wallet walletId w))"

definition unlinkWallet :: "string \<Rightarrow> string \<Rightarrow> world \<Rightarrow> (world, unit) outcome" where
  "unlinkWallet userId walletId w = transaction (unlinkWallet_tx userId walletId) w"

definition setPrimaryWallet_tx :: "string \<Rightarrow> string \<Rightarrow> world \<Rightarrow> (world, wallet_row) outcome" where
  "setPrimaryWallet_tx userId walletId w = (case lockUserRow userId w of
     Inl e \<Rightarrow> (Inl e, w)
   | Inr _ \<Rightarrow> (case find (\<lambda>x. wallet_id x = walletId \<and> wallet_userId x = userId) (wallets w) of
         None \<Rightarrow> (Inl (NotFoundError ''Wallet not found''), w)
       | Some wallet \<Rightarrow> (Inr (wallet\<lparr>isPrimary := True\<rparr>),
           set_primary (\<lambda>x. wallet_id x = walletId) True (set_primary (\<lambda>x. wallet_userId x = userId) False w))))"

definition setPrimaryWallet :: "string \<Rightarrow> string \<Rightarrow> world \<Rightarrow> (world, wallet_row) outcome" where
  "setPrimaryWallet userId walletId w = transaction (setPrimaryWallet_tx userId walletId) w"

definition updateWalletLabel :: "string \<Rightarrow> string \<Rightarrow> string option \<Rightarrow> world \<Rightarrow> (world, wallet_row) outcome" where
  "updateWalletLabel userId walletId label w =
     (case find (\<lambda>x. wallet_id x = walletId \<and> wallet_userId x = userId) (wallets w) of
        None \<Rightarrow> (Inl (NotFoundError ''Wallet not found''), w)
      | Some wallet \<Rightarrow> (Inr (wallet\<lparr>wallet_label := clean_label label\<rparr>),
          w\<lparr>wallets := update_where (\<lambda>x. wallet_id x = walletId) (\<lambda>x. x\<lparr>wallet_label := clean_label label\<rparr>) (wallets w)\<rparr>))"

lemmas [step_defs] = generateChallenge_def verifySignature_def refreshTokens_def revokeSession_def revokeAllSessions_def
  linkWallet_def unlinkWallet_def setPrimaryWallet_def updateWalletLabel_def

section \<open>Steps and what they keep\<close>

text \<open>
  The operations of the service as steps, one request at a time. Nonces, token ids and
  row ids are random; the steps take them as not used before.
\<close>

inductive auth_step :: "crypto \<Rightarrow> jwt_env \<Rightarrow> world \<Rightarrow> world \<Rightarrow> bool" for K J where
  step_challenge: "nonce \<notin> challenge_nonce ` set (challenges w) \<Longrightarrow> id_user ids \<notin> user_id ` set (users w) \<Longrightarrow>
    id_wallet ids \<notin> wallet_id ` set (wallets w) \<Longrightarrow>
    auth_step K J w (snd (generateChallenge K now ids nonce address purpose userId w))"
| step_login: "auth_step K J w (snd (verifySignature K J (\<lambda>v. v) now jti address nonce signature w))"
| step_refresh: "auth_step K J w (snd (refreshTokens K J (\<lambda>v. v) now jti token w))"
| step_revoke: "auth_step K J w (snd (revokeSession now jti w))"
| step_revoke_all: "auth_step K J w (snd (revokeAllSessions now userId w))"
| step_link: "new_id \<notin> wallet_id ` set (wallets w) \<Longrightarrow>
    auth_step K J w (snd (linkWallet K now new_id userId address nonce signature label w))"
| step_unlink: "auth_step K J w (snd (unlinkWallet userId walletId w))"
| step_primary: "auth_step K J w (snd (setPrimaryWallet userId walletId w))"
| step_label: "auth_step K J w (snd (updateWalletLabel userId walletId label w))"

definition nonce_dead :: "string \<Rightarrow> world \<Rightarrow> bool" where
  "nonce_dead n w \<longleftrightarrow> n \<in> challenge_nonce ` set (challenges w)
     \<and> (\<forall>c\<in>set (challenges w). challenge_nonce c = n \<longrightarrow> consumed c)"

definition session_dead :: "string \<Rightarrow> world \<Rightarrow> bool" where
  "session_dead j w \<longleftrightarrow> (\<exists>s. lookup_row session_jti j (sessions w) = Some s \<and> revokedAt s \<noteq> None)"

text \<open>\<open>dead_kept\<close>: used challenges stay used, revoked sessions stay revoked.\<close>

definition dead_kept :: "world \<Rightarrow> world \<Rightarrow> bool" where
  "dead_kept w w' \<longleftrightarrow> (\<forall>n. nonce_dead n w \<longrightarrow> nonce_dead n w') \<and> (\<forall>j. session_dead j w \<longrightarrow> session_dead j w')"

lemma dead_kept_refl [simp, intro]: "dead_kept w w"
  by (simp add: dead_kept_def)

lemma dead_kept_trans: "dead_kept u v \<Longrightarrow> dead_kept v w \<Longrightarrow> dead_kept u w"
  by (simp add: dead_kept_def)

lemma dead_kept_same: "challenges w' = challenges w \<Longrightarrow> sessions w' = sessions w \<Longrightarrow> dead_kept w w'"
  by (simp add: dead_kept_def nonce_dead_def session_dead_def)

lemma nonce_dead_consume: "nonce_dead n w \<Longrightarrow> nonce_dead n (consume_challenge i w)"
proof -
  assume dead: "nonce_dead n w"
  have "challenge_nonce ` set (challenges (consume_challenge i w)) = challenge_nonce ` set (challenges w)"
    by (simp add: consume_challenge_def flip: set_map) (simp add: map_key_update_where)
  then show ?thesis using dead by (auto simp: nonce_dead_def consume_challenge_def set_update_where)
qed

lemma nonce_dead_consumed:
  assumes c: "c \<in> set (challenges w)" and only: "\<And>x. x \<in> set (challenges w) \<Longrightarrow> challenge_nonce x = challenge_nonce c \<Longrightarrow> x = c"
  shows "nonce_dead (challenge_nonce c) (consume_challenge (challenge_id c) w)"
proof -
  have "consumed y" if "y \<in> set (challenges (consume_challenge (challenge_id c) w))" "challenge_nonce y = challenge_nonce c" for y
  proof -
    obtain x where x: "x \<in> set (challenges w)" "y = (if challenge_id x = challenge_id c then x\<lparr>consumed := True\<rparr> else x)"
      using \<open>y \<in> _\<close> by (auto simp: consume_challenge_def set_update_where)
    then have "x = c" using only that(2) by (simp split: if_splits)
    then show ?thesis using x by simp
  qed
  moreover have "challenge_nonce ` set (challenges (consume_challenge (challenge_id c) w)) = challenge_nonce ` set (challenges w)"
    by (simp add: consume_challenge_def flip: set_map) (simp add: map_key_update_where)
  ultimately show ?thesis using c by (auto simp: nonce_dead_def)
qed

lemma dead_kept_consume: "dead_kept w (consume_challenge i w)"
  using nonce_dead_consume by (auto simp: dead_kept_def session_dead_def consume_challenge_def)

lemma dead_kept_insert_session: "dead_kept w (w\<lparr>sessions := insert_row s (sessions w)\<rparr>)"
  by (auto simp: dead_kept_def nonce_dead_def session_dead_def session_tab.lookup_insert split: option.splits)

lemma dead_kept_revoke: "dead_kept w (revoke_where P now w)"
proof -
  have "session_dead j (revoke_where P now w)" if dead: "session_dead j w" for j
  proof -
    obtain s where "lookup_row session_jti j (sessions w) = Some s" "revokedAt s \<noteq> None"
      using dead unfolding session_dead_def by blast
    then show ?thesis
      by (cases "P s") (simp_all add: session_dead_def revoke_where_def session_tab.lookup_update)
  qed
  then show ?thesis by (simp add: dead_kept_def nonce_dead_def revoke_where_def)
qed

lemma dead_kept_challenge:
  "challenge_nonce c \<notin> challenge_nonce ` set (challenges w) \<Longrightarrow> dead_kept w (w\<lparr>challenges := insert_row c (challenges w)\<rparr>)"
  by (auto simp: dead_kept_def nonce_dead_def session_dead_def insert_row_def)

lemma consume_simps [simp]:
  "users (consume_challenge i w) = users w" "wallets (consume_challenge i w) = wallets w" "sessions (consume_challenge i w) = sessions w"
  by (simp_all add: consume_challenge_def)

lemma revoke_simps [simp]:
  "users (revoke_where P n w) = users w" "wallets (revoke_where P n w) = wallets w" "challenges (revoke_where P n w) = challenges w"
  by (simp_all add: revoke_where_def)

lemma upsert_wallet_same:
  "challenges (snd (upsert_wallet a b c w)) = challenges w" "sessions (snd (upsert_wallet a b c w)) = sessions w"
  by (simp_all add: upsert_wallet_def Let_def split: option.splits)

lemma auth_step_dead_kept: "auth_step K J w w' \<Longrightarrow> dead_kept w w'"
proof (induction rule: auth_step.induct)
  case (step_challenge nonce w ids now address purpose userId)
  show ?case
  proof (cases "checked_address K address")
    case (Inr a)
    obtain r w1 where up: "upsert_wallet (id_user ids) (id_wallet ids) a w = (r, w1)" by fastforce
    then have same: "challenges w1 = challenges w" "sessions w1 = sessions w"
      using upsert_wallet_same [of "id_user ids" "id_wallet ids" a w] by simp_all
    have "dead_kept w (w1\<lparr>challenges := insert_row c (challenges w1)\<rparr>)" if "challenge_nonce c = nonce" for c
      by (rule dead_kept_trans [OF dead_kept_same [OF same] dead_kept_challenge])
        (use that step_challenge same in simp)
    then show ?thesis
      using up dead_kept_same [OF same] by (simp add: generateChallenge_def Inr Let_def split: sum.split)
  qed (simp add: generateChallenge_def)
next
  case (step_login w now jti address nonce signature)
  show ?case
    by (auto simp: verifySignature_def Let_def intro: dead_kept_consume
        dead_kept_trans [OF dead_kept_consume dead_kept_insert_session, simplified] split: sum.split option.split)
next
  case (step_refresh w now jti token)
  show ?case
    by (auto simp: refreshTokens_def Let_def
        intro: dead_kept_trans [OF dead_kept_revoke dead_kept_insert_session] split: option.split)
next
  case (step_revoke w now jti)
  show ?case by (auto simp: revokeSession_def intro: dead_kept_revoke split: option.split)
next
  case (step_revoke_all w now userId)
  show ?case by (simp add: revokeAllSessions_def Let_def dead_kept_revoke)
next
  case (step_link new_id w now userId address nonce signature label)
  show ?case
    by (auto simp: linkWallet_def transaction_def linkWallet_tx_def Let_def
        intro: dead_kept_trans [OF dead_kept_consume dead_kept_same] split: sum.split option.split)
next
  case (step_unlink w userId walletId)
  show ?case
    by (auto simp: unlinkWallet_def transaction_def unlinkWallet_tx_def Let_def set_primary_def delete_wallet_def
        intro!: dead_kept_same split: sum.split option.split)
next
  case (step_primary w userId walletId)
  show ?case
    by (auto simp: setPrimaryWallet_def transaction_def setPrimaryWallet_tx_def Let_def set_primary_def
        intro!: dead_kept_same split: sum.split option.split)
next
  case (step_label w userId walletId label)
  show ?case by (auto simp: updateWalletLabel_def intro!: dead_kept_same split: option.split)
qed

lemma auth_reach_dead_kept: "(auth_step K J)\<^sup>*\<^sup>* w w' \<Longrightarrow> dead_kept w w'"
  by (induction rule: rtranclp_induct) (auto intro: dead_kept_trans auth_step_dead_kept)

section \<open>Wallets\<close>

text \<open>
  The wallets are consistent: ids are unique, each belongs to a user, and every user with
  a wallet has exactly one primary wallet.
\<close>

definition primaries :: "world \<Rightarrow> string \<Rightarrow> wallet_row set" where
  "primaries w u = {x \<in> set (wallets w). wallet_userId x = u \<and> isPrimary x}"

definition wallets_ok :: "world \<Rightarrow> bool" where
  "wallets_ok w \<longleftrightarrow> distinct (map wallet_id (wallets w)) \<and> wallet_userId ` set (wallets w) \<subseteq> user_id ` set (users w)
     \<and> (\<forall>x\<in>set (wallets w). \<exists>p. primaries w (wallet_userId x) = {p})"

lemma wallets_ok_simps [simp]:
  "wallets_ok (w\<lparr>challenges := cs\<rparr>) = wallets_ok w" "wallets_ok (w\<lparr>sessions := ss\<rparr>) = wallets_ok w"
  "wallets_ok (consume_challenge i w) = wallets_ok w" "wallets_ok (revoke_where P n w) = wallets_ok w"
  by (simp_all add: wallets_ok_def primaries_def)

lemma wallets_ok_insert:
  assumes ok: "wallets_ok w" and fresh: "wallet_id x \<notin> wallet_id ` set (wallets w)"
    and prim: "isPrimary x \<longleftrightarrow> wallet_userId x \<notin> wallet_userId ` set (wallets w)"
    and wl: "wallets w' = insert_row x (wallets w)" and us: "set (users w) \<subseteq> set (users w')" "wallet_userId x \<in> user_id ` set (users w')"
  shows "wallets_ok w'"
proof -
  have new: "primaries w' u = (if u = wallet_userId x \<and> isPrimary x then insert x (primaries w u) else primaries w u)" for u
    by (auto simp: primaries_def wl insert_row_def)
  have none: "primaries w (wallet_userId x) = {}" if "isPrimary x"
  proof -
    have "wallet_userId y \<noteq> wallet_userId x" if "y \<in> set (wallets w)" for y
      using that prim \<open>isPrimary x\<close> by (metis image_eqI)
    then show ?thesis by (auto simp: primaries_def)
  qed
  have "\<exists>p. primaries w' u = {p}" if "u \<in> wallet_userId ` set (wallets w')" for u
  proof (cases "u \<in> wallet_userId ` set (wallets w)")
    case True
    then have "\<not> (u = wallet_userId x \<and> isPrimary x)" using prim by blast
    then have "primaries w' u = primaries w u" unfolding new by (rule if_not_P)
    then show ?thesis using ok True by (auto simp: wallets_ok_def)
  next
    case False
    then have u: "u = wallet_userId x" using that by (auto simp: wl insert_row_def)
    then have "isPrimary x" using False prim by simp
    then show ?thesis using new [of u] none u by simp
  qed
  then have "\<forall>y\<in>set (wallets w'). \<exists>p. primaries w' (wallet_userId y) = {p}" by blast
  moreover have "distinct (map wallet_id (wallets w'))" using ok fresh by (simp add: wallets_ok_def wl insert_row_def)
  moreover have "wallet_userId ` set (wallets w') \<subseteq> user_id ` set (users w')"
  proof -
    have "wallet_userId ` set (wallets w) \<subseteq> user_id ` set (users w')"
      using ok us(1) unfolding wallets_ok_def by blast
    then show ?thesis using us(2) by (simp add: wl insert_row_def)
  qed
  ultimately show ?thesis unfolding wallets_ok_def by blast
qed

lemma upsert_wallet_ok:
  assumes "wallets_ok w" "new_user \<notin> user_id ` set (users w)" "new_wallet \<notin> wallet_id ` set (wallets w)"
  shows "wallets_ok (snd (upsert_wallet new_user new_wallet a w))"
proof (cases "lookup_row wallet_address a (wallets w) = None \<and> lookup_row stellarAddress a (users w) = None")
  case True
  let ?u = "\<lparr>user_id = new_user, stellarAddress = a, user_name = None, user_role = BUYER\<rparr>"
  let ?x = "\<lparr>wallet_id = new_wallet, wallet_userId = new_user, wallet_address = a, isPrimary = True, wallet_label = None\<rparr>"
  have no: "new_user \<notin> wallet_userId ` set (wallets w)" using assms(1,2) unfolding wallets_ok_def by blast
  have "snd (upsert_wallet new_user new_wallet a w) = w\<lparr>users := insert_row ?u (users w), wallets := insert_row ?x (wallets w)\<rparr>"
    using True by (simp add: upsert_wallet_def Let_def)
  moreover have "wallets_ok (w\<lparr>users := insert_row ?u (users w), wallets := insert_row ?x (wallets w)\<rparr>)"
    by (rule wallets_ok_insert [OF assms(1), of ?x]) (use assms(3) no in \<open>auto simp: insert_row_def\<close>)
  ultimately show ?thesis by simp
next
  case False
  then show ?thesis using assms(1) by (auto simp: upsert_wallet_def split: option.split)
qed

lemma wallets_key_unique: "wallets_ok w \<Longrightarrow> x \<in> set (wallets w) \<Longrightarrow> y \<in> set (wallets w) \<Longrightarrow> wallet_id x = wallet_id y \<Longrightarrow> x = y"
  by (auto simp: wallets_ok_def distinct_map inj_on_def)

lemma set_primary_wallets: "set (wallets (set_primary P b w)) = (\<lambda>x. if P x then x\<lparr>isPrimary := b\<rparr> else x) ` set (wallets w)"
  by (simp add: set_primary_def set_update_where)

lemma set_primary_simps [simp]:
  "users (set_primary P b w) = users w" "map wallet_id (wallets (set_primary P b w)) = map wallet_id (wallets w)"
  "map wallet_userId (wallets (set_primary P b w)) = map wallet_userId (wallets w)"
  by (simp_all add: set_primary_def map_key_update_where)

lemma delete_wallet_simps [simp]:
  "users (delete_wallet i w) = users w" "set (wallets (delete_wallet i w)) = {x \<in> set (wallets w). wallet_id x \<noteq> i}"
  "distinct (map wallet_id (wallets w)) \<Longrightarrow> distinct (map wallet_id (wallets (delete_wallet i w)))"
  by (auto simp: delete_wallet_def delete_where_def distinct_map_filter)

text \<open>
  A change of the wallets of one user \<open>v\<close> that leaves \<open>v\<close> one primary wallet keeps the
  invariant.
\<close>

lemma wallets_ok_change:
  assumes ok: "wallets_ok w" and "distinct (map wallet_id (wallets w'))" "users w' = users w"
    and sub: "wallet_userId ` set (wallets w') \<subseteq> wallet_userId ` set (wallets w)"
    and own: "primaries w' v = {p}" and other: "\<And>u. u \<noteq> v \<Longrightarrow> primaries w' u = primaries w u"
  shows "wallets_ok w'"
proof -
  have "\<exists>q. primaries w' (wallet_userId x) = {q}" if x: "x \<in> set (wallets w')" for x
  proof (cases "wallet_userId x = v")
    case True
    then show ?thesis using own by auto
  next
    case False
    obtain y where "y \<in> set (wallets w)" "wallet_userId x = wallet_userId y" using sub x by blast
    then show ?thesis using ok other [OF False] unfolding wallets_ok_def by auto
  qed
  moreover have "wallet_userId ` set (wallets w') \<subseteq> user_id ` set (users w')"
    using sub ok unfolding assms(3) wallets_ok_def by blast
  ultimately show ?thesis using assms(2) unfolding wallets_ok_def by blast
qed

lemma owners_set_primary: "wallet_userId ` set (wallets (set_primary P b w)) = wallet_userId ` set (wallets w)"
  by (simp flip: set_map)

lemma wallets_ok_switch:
  assumes ok: "wallets_ok w" and p: "p \<in> set (wallets w)"
  shows "wallets_ok (set_primary (\<lambda>x. wallet_id x = wallet_id p) True (set_primary (\<lambda>x. wallet_userId x = wallet_userId p) False w))"
    (is "wallets_ok ?w")
proof (rule wallets_ok_change [OF ok])
  have set: "set (wallets ?w) = (\<lambda>x. if wallet_id x = wallet_id p then x\<lparr>isPrimary := True\<rparr>
      else if wallet_userId x = wallet_userId p then x\<lparr>isPrimary := False\<rparr> else x) ` set (wallets w)"
    unfolding set_primary_wallets image_image by (intro image_cong) auto
  have same: "x = p" if "x \<in> set (wallets w)" "wallet_id x = wallet_id p" for x
    using wallets_key_unique [OF ok that(1) p that(2)] .
  show "primaries ?w (wallet_userId p) = {p\<lparr>isPrimary := True\<rparr>}"
    using p unfolding primaries_def set by (auto split: if_splits intro!: rev_image_eqI dest: same)
  show "primaries ?w u = primaries w u" if "u \<noteq> wallet_userId p" for u
    using that unfolding primaries_def set by (auto split: if_splits intro!: rev_image_eqI dest: same)
  show "wallet_userId ` set (wallets ?w) \<subseteq> wallet_userId ` set (wallets w)" by (simp add: owners_set_primary)
qed (use ok in \<open>simp_all add: wallets_ok_def\<close>)

lemma wallets_ok_delete:
  assumes ok: "wallets_ok w" and p: "p \<in> set (wallets w)" "\<not> isPrimary p"
  shows "wallets_ok (delete_wallet (wallet_id p) w)"
proof -
  obtain q where q: "primaries w (wallet_userId p) = {q}" using ok p(1) unfolding wallets_ok_def by blast
  have same: "x = p" if "x \<in> set (wallets w)" "wallet_id x = wallet_id p" for x
    using wallets_key_unique [OF ok that(1) p(1) that(2)] .
  have prim: "primaries (delete_wallet (wallet_id p) w) u = primaries w u" for u
    using p(2) same by (auto simp: primaries_def)
  show ?thesis
    by (rule wallets_ok_change [OF ok, where v = "wallet_userId p" and p = q])
      (use ok q in \<open>auto simp: prim wallets_ok_def\<close>)
qed

lemma wallets_ok_promote_delete:
  assumes ok: "wallets_ok w" and p: "p \<in> set (wallets w)" "isPrimary p" and q: "q \<in> set (wallets w)"
    "wallet_userId q = wallet_userId p" "wallet_id q \<noteq> wallet_id p"
  shows "wallets_ok (delete_wallet (wallet_id p) (set_primary (\<lambda>x. wallet_id x = wallet_id q) True w))" (is "wallets_ok ?w")
proof (rule wallets_ok_change [OF ok])
  have same: "x = q" if "x \<in> set (wallets w)" "wallet_id x = wallet_id q" for x
    using wallets_key_unique [OF ok that(1) q(1) that(2)] .
  have "p \<in> primaries w (wallet_userId p)" using p by (simp add: primaries_def)
  then have only: "primaries w (wallet_userId p) = {p}" using ok p(1) unfolding wallets_ok_def by fastforce
  have set: "set (wallets ?w) = (\<lambda>x. if wallet_id x = wallet_id q then x\<lparr>isPrimary := True\<rparr> else x) `
      {x \<in> set (wallets w). wallet_id x \<noteq> wallet_id p}"
    by (auto simp: set_primary_wallets split: if_splits)
  show "primaries ?w (wallet_userId p) = {q\<lparr>isPrimary := True\<rparr>}"
  proof -
    have "x = p" if "x \<in> set (wallets w)" "wallet_userId x = wallet_userId p" "isPrimary x" for x
      using that only by (auto simp: primaries_def)
    then show ?thesis
      using q unfolding primaries_def set by (auto split: if_splits intro!: rev_image_eqI dest: same)
  qed
  show "primaries ?w u = primaries w u" if "u \<noteq> wallet_userId p" for u
  proof -
    have "wallet_id x \<noteq> wallet_id p" if "x \<in> set (wallets w)" "wallet_userId x = u" for x
      using that \<open>u \<noteq> wallet_userId p\<close> wallets_key_unique [OF ok that(1) p(1)] by auto
    then show ?thesis using that q(2) unfolding primaries_def set by (auto split: if_splits intro!: rev_image_eqI dest: same)
  qed
  show "wallet_userId ` set (wallets ?w) \<subseteq> wallet_userId ` set (wallets w)" unfolding set by auto
  show "distinct (map wallet_id (wallets ?w))" using ok by (simp add: wallets_ok_def)
qed simp

lemma lookup_user_in: "lockUserRow u w = Inr x \<Longrightarrow> u \<in> user_id ` set (users w)"
  by (auto simp: lockUserRow_def user_tab.lookup_None_iff split: if_splits)

lemma wallets_of_none: "length (wallets_of u w) = 0 \<longleftrightarrow> u \<notin> wallet_userId ` set (wallets w)"
  by (force simp: wallets_of_def filter_empty_conv)

lemma wallets_of_consume [simp]: "wallets_of u (consume_challenge i w) = wallets_of u w"
  by (simp add: wallets_of_def)

lemma link_ok:
  assumes ok: "wallets_ok w" and fresh: "new_id \<notin> wallet_id ` set (wallets w)"
  shows "wallets_ok (snd (linkWallet K now new_id u address nonce signature label w))"
proof -
  have ins: "wallets_ok ((consume_challenge i w)\<lparr>wallets := insert_row
      \<lparr>wallet_id = new_id, wallet_userId = u, wallet_address = a, isPrimary = (length (wallets_of u w) = 0),
        wallet_label = clean_label label\<rparr> (wallets w)\<rparr>)" (is "wallets_ok (_\<lparr>wallets := insert_row ?x _\<rparr>)")
    if "u \<in> user_id ` set (users w)" for i a
    by (rule wallets_ok_insert [OF ok, of ?x]) (use that fresh wallets_of_none [of u w] in simp_all)
  show ?thesis
    by (auto simp: linkWallet_def transaction_def linkWallet_tx_def Let_def ok simp del: length_0_conv
        intro!: ins dest: lookup_user_in split: sum.split option.split)
qed

lemma unlink_ok:
  assumes ok: "wallets_ok w"
  shows "wallets_ok (snd (unlinkWallet u i w))"
proof -
  have "wallets_ok (delete_wallet i w)" if "find (\<lambda>x. wallet_id x = i) (wallets_of u w) = Some p" "\<not> isPrimary p" for p
    using that wallets_ok_delete [OF ok, of p] find_SomeD [OF that(1)] by (auto simp: wallets_of_def)
  moreover have "wallets_ok (delete_wallet i (set_primary (\<lambda>x. wallet_id x = wallet_id q) True w))"
    if "find (\<lambda>x. wallet_id x = i) (wallets_of u w) = Some p" "isPrimary p" "find (\<lambda>x. wallet_id x \<noteq> i) (wallets_of u w) = Some q" for p q
    using that wallets_ok_promote_delete [OF ok, of p q] find_SomeD [OF that(1)] find_SomeD [OF that(3)]
    by (auto simp: wallets_of_def)
  ultimately show ?thesis
    by (auto simp: unlinkWallet_def transaction_def unlinkWallet_tx_def Let_def ok split: sum.split option.split)
qed

lemma setPrimary_ok:
  assumes ok: "wallets_ok w"
  shows "wallets_ok (snd (setPrimaryWallet u i w))"
proof -
  have "wallets_ok (set_primary (\<lambda>x. wallet_id x = i) True (set_primary (\<lambda>x. wallet_userId x = u) False w))"
    if "find (\<lambda>x. wallet_id x = i \<and> wallet_userId x = u) (wallets w) = Some p" for p
    using wallets_ok_switch [OF ok, of p] find_SomeD [OF that] by auto
  then show ?thesis
    by (auto simp: setPrimaryWallet_def transaction_def setPrimaryWallet_tx_def ok split: sum.split option.split)
qed

lemma image_keep: "(\<And>x. P (g x) = P x) \<Longrightarrow> {y \<in> g ` S. P y} = g ` {x \<in> S. P x}"
  by auto

lemma label_ok:
  assumes ok: "wallets_ok w"
  shows "wallets_ok (snd (updateWalletLabel u i label w))"
proof -
  let ?f = "\<lambda>x. x\<lparr>wallet_label := clean_label label\<rparr>"
  let ?g = "\<lambda>x. if wallet_id x = i then ?f x else x"
  let ?w = "w\<lparr>wallets := update_where (\<lambda>x. wallet_id x = i) ?f (wallets w)\<rparr>"
  have prim: "primaries ?w v = ?g ` primaries w v" for v
  proof -
    have "set (wallets ?w) = ?g ` set (wallets w)" by (simp add: set_update_where)
    moreover have "{y \<in> ?g ` set (wallets w). wallet_userId y = v \<and> isPrimary y} = ?g ` {x \<in> set (wallets w). wallet_userId x = v \<and> isPrimary x}"
      by (rule image_keep) simp
    ultimately show ?thesis unfolding primaries_def by (simp only:)
  qed
  have own: "wallet_userId ` set (wallets ?w) = wallet_userId ` set (wallets w)"
    by (simp flip: set_map) (simp add: map_key_update_where)
  have "\<exists>q. primaries ?w (wallet_userId x) = {q}" if "x \<in> set (wallets ?w)" for x
  proof -
    obtain y where "y \<in> set (wallets w)" "wallet_userId x = wallet_userId y" using \<open>x \<in> set (wallets ?w)\<close> own by blast
    then obtain q where "primaries w (wallet_userId x) = {q}" using ok unfolding wallets_ok_def by auto
    then have "primaries ?w (wallet_userId x) = {?g q}" unfolding prim by (simp only: image_insert image_empty)
    then show ?thesis by blast
  qed
  moreover have "distinct (map wallet_id (wallets ?w))"
    using ok by (simp add: wallets_ok_def map_key_update_where)
  ultimately have "wallets_ok ?w"
    using ok own unfolding wallets_ok_def by simp
  then show ?thesis by (auto simp: updateWalletLabel_def ok split: option.split)
qed

lemma auth_step_wallets_ok: "auth_step K J w w' \<Longrightarrow> wallets_ok w \<Longrightarrow> wallets_ok w'"
proof (induction rule: auth_step.induct)
  case (step_challenge nonce w ids now address purpose userId)
  have "wallets_ok (snd (upsert_wallet (id_user ids) (id_wallet ids) a w))" for a
    using step_challenge by (intro upsert_wallet_ok)
  then have "wallets_ok w1" if "upsert_wallet (id_user ids) (id_wallet ids) a w = (r, w1)" for a r w1
    using that by (metis snd_conv)
  then show ?case
    using step_challenge by (auto simp: generateChallenge_def Let_def split: sum.split prod.split)
next
  case (step_login w now jti address nonce signature)
  then show ?case by (auto simp: verifySignature_def Let_def split: sum.split option.split)
next
  case (step_refresh w now jti token)
  then show ?case by (auto simp: refreshTokens_def Let_def split: option.split)
next
  case (step_revoke w now jti)
  then show ?case by (auto simp: revokeSession_def split: option.split)
next
  case (step_revoke_all w now userId)
  then show ?case by (simp add: revokeAllSessions_def Let_def)
next
  case (step_link new_id w now userId address nonce signature label)
  then show ?case by (intro link_ok)
next
  case (step_unlink w userId walletId)
  then show ?case by (intro unlink_ok)
next
  case (step_primary w userId walletId)
  then show ?case by (intro setPrimary_ok)
next
  case (step_label w userId walletId label)
  then show ?case by (intro label_ok)
qed

lemma wallets_ok_empty: "wallets_ok empty_world"
  by (simp add: wallets_ok_def empty_world_def)

lemma auth_reach_wallets_ok: "(auth_step K J)\<^sup>*\<^sup>* w w' \<Longrightarrow> wallets_ok w \<Longrightarrow> wallets_ok w'"
  by (induction rule: rtranclp_induct) (auto intro: auth_step_wallets_ok)

section \<open>Properties\<close>

text \<open>Small instances for concrete evaluations.\<close>

definition demo_payload :: token_payload where
  "demo_payload = \<lparr>tp_userId = ''u1'', tp_jti = ''j1'', tp_walletAddress = ''GB'', tp_role = BUYER\<rparr>"

definition demo_crypto :: crypto where
  "demo_crypto = \<lparr>stellar_key = (\<lambda>_. True), sig_ok = (\<lambda>_ _ s. s = ''ok''), jwt_sign = (\<lambda>_ _ _. ''tok''),
     jwt_verify = (\<lambda>t _. if t = ''tok'' then Some demo_payload else None)\<rparr>"

definition demo_jwt :: jwt_env where
  "demo_jwt = \<lparr>accessExpiresIn = None, refreshExpiresIn = None\<rparr>"

definition demo_challenge :: challenge_row where
  "demo_challenge = \<lparr>challenge_id = ''c1'', challenge_userId = ''u1'', challenge_wallet = Some ''GB'', challenge_nonce = ''n1'',
     challenge_purpose = LOGIN, challenge_expiresAt = 300000, consumed = False\<rparr>"

definition demo_auth_world :: world where
  "demo_auth_world = empty_world\<lparr>users := [\<lparr>user_id = ''u1'', stellarAddress = ''GB'', user_name = None, user_role = BUYER\<rparr>],
     wallets := [\<lparr>wallet_id = ''w1'', wallet_userId = ''u1'', wallet_address = ''GB'', isPrimary = True, wallet_label = None\<rparr>],
     challenges := [demo_challenge]\<rparr>"

lemma demo_address: "checked_address demo_crypto ''GB'' = Inr ''GB''"
proof -
  have "normalizeAddress ''GB'' = Inr ''GB''" by code_simp
  then show ?thesis by (simp add: checked_address_def assertValidStellarAddress_def demo_crypto_def)
qed

definition demo_ids :: new_ids where
  "demo_ids = \<lparr>id_user = ''u9'', id_wallet = ''w9'', id_challenge = ''c9''\<rparr>"

definition demo_auth_user :: user_row where
  "demo_auth_user = \<lparr>user_id = ''u1'', stellarAddress = ''GB'', user_name = None, user_role = BUYER\<rparr>"

lemma demo_auth_users: "users demo_auth_world = [demo_auth_user]"
  by (simp add: demo_auth_world_def demo_auth_user_def)

lemma demo_auth_user_fields [simp]: "user_id demo_auth_user = ''u1''" "challenge_userId demo_challenge = ''u1''"
  "challenge_id demo_challenge = ''c1''"
  by (simp_all add: demo_auth_user_def demo_challenge_def)

lemma demo_find: "find (\<lambda>c. challenge_open 5 ''n1'' c \<and> challenge_wallet c = Some ''GB'') (challenges demo_auth_world) = Some demo_challenge"
  by (simp add: demo_auth_world_def challenge_open_def demo_challenge_def)

lemma demo_sig: "sig_ok demo_crypto a m ''ok''"
  by (simp add: demo_crypto_def)

lemma demo_login_run:
  assumes "users (env demo_auth_world) = users demo_auth_world"
  shows "\<exists>r. verifySignature demo_crypto demo_jwt env 5 jti ''GB'' ''n1'' ''ok'' demo_auth_world =
     (Inr r, (consume_challenge ''c1'' (env demo_auth_world))\<lparr>sessions := sessions (env demo_auth_world)
        @ [\<lparr>session_userId = ''u1'', session_jti = jti, revokedAt = None\<rparr>]\<rparr>)"
  using assms
  by (simp add: verifySignature_def demo_address demo_find demo_sig demo_auth_users lookup_row_def insert_row_def Let_def)

text \<open>
  C6. A login proves possession of the wallet and uses its challenge up: a successful
  \<open>verifySignature\<close> had an unexpired, unused challenge for that address and a valid
  signature of the login message, opens one session for the challenge's user, and the
  nonce is then worth nothing: after any later steps of the service every attempt to log
  in or to link a wallet with it is refused.
\<close>

theorem login_single_use:
  assumes uniq: "distinct (map challenge_id (challenges w))" "distinct (map challenge_nonce (challenges w))"
    and run: "verifySignature K J (\<lambda>v. v) now jti address nonce signature w = (Inr res, w')"
  shows "(\<exists>a c. checked_address K address = Inr a \<and> c \<in> set (challenges w) \<and> challenge_open now nonce c \<and> challenge_wallet c = Some a
       \<and> sig_ok K a (''stellovault:login:'' @ nonce) signature \<and> ar_id res = challenge_userId c
       \<and> sessions w' = sessions w @ [\<lparr>session_userId = challenge_userId c, session_jti = jti, revokedAt = None\<rparr>])
    \<and> (\<forall>v. (auth_step K J)\<^sup>*\<^sup>* w' v \<longrightarrow>
         (\<forall>env now' jti' address' signature'. \<not> is_ok (verifySignature K J env now' jti' address' nonce signature' v))
       \<and> (\<forall>now' i u address' signature' label. \<not> is_ok (linkWallet K now' i u address' nonce signature' label v)))"
proof -
  obtain a where a: "checked_address K address = Inr a"
    using run by (cases "checked_address K address") (auto simp: verifySignature_def)
  obtain c where c: "find (\<lambda>c. challenge_open now nonce c \<and> challenge_wallet c = Some a) (challenges w) = Some c"
    using run a by (auto simp: verifySignature_def split: option.splits)
  have sg: "sig_ok K a (''stellovault:login:'' @ nonce) signature"
    using run a c by (auto simp: verifySignature_def buildChallengeMessage_def split: if_splits)
  obtain u where u: "lookup_row user_id (challenge_userId c) (users w) = Some u"
    using run a c by (auto simp: verifySignature_def Let_def split: if_splits option.splits)
  have res: "ar_id res = user_id u" "sessions w' = sessions w @ [\<lparr>session_userId = user_id u, session_jti = jti, revokedAt = None\<rparr>]"
    "challenges w' = challenges (consume_challenge (challenge_id c) w)"
    using run a c u by (auto simp: verifySignature_def Let_def issue_tokens_def insert_row_def split: if_splits)
  have cs: "c \<in> set (challenges w)" "challenge_open now nonce c" "challenge_wallet c = Some a"
    using find_SomeD [OF c] by auto
  have "nonce_dead nonce w'"
  proof -
    have n: "challenge_nonce c = nonce" using cs(2) by (simp add: challenge_open_def)
    have "x = c" if "x \<in> set (challenges w)" "challenge_nonce x = challenge_nonce c" for x
      using uniq(2) cs(1) that by (auto simp: distinct_map inj_on_def)
    from nonce_dead_consumed [OF cs(1) this] show ?thesis by (simp add: n nonce_dead_def res(3))
  qed
  then have dead: "nonce_dead nonce v" if "(auth_step K J)\<^sup>*\<^sup>* w' v" for v
    using auth_reach_dead_kept [OF that] by (simp add: dead_kept_def)
  have no: "find (\<lambda>c. challenge_open t nonce c \<and> P c) (challenges v) = None" if "nonce_dead nonce v" for t P v
    using that by (auto simp: nonce_dead_def find_None_iff' challenge_open_def)
  have "\<not> is_ok (verifySignature K J env now' jti' address' nonce signature' v)"
    "\<not> is_ok (linkWallet K now' i x address' nonce signature' label v)" if "(auth_step K J)\<^sup>*\<^sup>* w' v"
    for v env now' jti' address' signature' i x label
    using no [OF dead [OF that]]
    by (auto simp: verifySignature_def linkWallet_def transaction_def linkWallet_tx_def split: sum.split option.split)
  moreover have "user_id u = challenge_userId c" using user_tab.lookup_SomeD [OF u] by simp
  ultimately show ?thesis using a cs sg res by auto
qed

theorem login_single_use_witness:
  "\<exists>r v. verifySignature demo_crypto demo_jwt (\<lambda>v. v) 5 ''j1'' ''GB'' ''n1'' ''ok'' demo_auth_world = (Inr r, v)
     \<and> ar_id r = ''u1'' \<and> \<not> is_ok (verifySignature demo_crypto demo_jwt (\<lambda>v. v) 6 ''j2'' ''GB'' ''n1'' ''ok'' v)"
proof -
  obtain r v where run: "verifySignature demo_crypto demo_jwt (\<lambda>v. v) 5 ''j1'' ''GB'' ''n1'' ''ok'' demo_auth_world = (Inr r, v)"
    using demo_login_run [of "\<lambda>v. v" "''j1''", OF refl] by blast
  have u: "distinct (map challenge_id (challenges demo_auth_world))" "distinct (map challenge_nonce (challenges demo_auth_world))"
    "c \<in> set (challenges demo_auth_world) \<Longrightarrow> challenge_userId c = ''u1''" for c
    by (simp_all add: demo_auth_world_def demo_challenge_def)
  note use = login_single_use [OF u(1,2) run]
  have "ar_id r = ''u1''" using use u(3) by auto
  moreover have "\<not> is_ok (verifySignature demo_crypto demo_jwt (\<lambda>v. v) 6 ''j2'' ''GB'' ''n1'' ''ok'' v)"
    using conjunct2 [OF use, rule_format, of v] by blast
  ultimately show ?thesis using run by blast
qed

text \<open>
  Two requests that race with the same challenge both log in: when the second runs
  entirely between the first one's lookup of the challenge and its update, both get
  tokens and two sessions exist for one signature.
\<close>

theorem login_race:
  "\<exists>r1 r2 w1 w2. verifySignature demo_crypto demo_jwt (\<lambda>v. v) 5 ''j2'' ''GB'' ''n1'' ''ok'' demo_auth_world = (Inr r2, w2)
     \<and> verifySignature demo_crypto demo_jwt (\<lambda>_. w2) 5 ''j1'' ''GB'' ''n1'' ''ok'' demo_auth_world = (Inr r1, w1)
     \<and> map session_jti (sessions w1) = [''j2'', ''j1''] \<and> map session_userId (sessions w1) = [''u1'', ''u1'']"
proof -
  obtain r2 w2 where 2: "verifySignature demo_crypto demo_jwt (\<lambda>v. v) 5 ''j2'' ''GB'' ''n1'' ''ok'' demo_auth_world = (Inr r2, w2)"
      "w2 = (consume_challenge ''c1'' demo_auth_world)\<lparr>sessions := sessions demo_auth_world
        @ [\<lparr>session_userId = ''u1'', session_jti = ''j2'', revokedAt = None\<rparr>]\<rparr>"
    using demo_login_run [of "\<lambda>v. v" "''j2''", OF refl] by blast
  have "users w2 = users demo_auth_world" by (simp add: 2(2))
  then obtain r1 where "verifySignature demo_crypto demo_jwt (\<lambda>_. w2) 5 ''j1'' ''GB'' ''n1'' ''ok'' demo_auth_world
      = (Inr r1, (consume_challenge ''c1'' w2)\<lparr>sessions := sessions w2 @ [\<lparr>session_userId = ''u1'', session_jti = ''j1'', revokedAt = None\<rparr>]\<rparr>)"
    using demo_login_run [of "\<lambda>_. w2" "''j1''"] by blast
  moreover have "sessions demo_auth_world = []" by (simp add: demo_auth_world_def empty_world_def)
  ultimately show ?thesis using 2 by auto
qed

text \<open>
  C7. Revoking is final: once a session is revoked, by logout, by logging out everywhere
  or because its refresh token was used, no later state of the service lets a request
  through with an access token of that session, or refreshes it.
\<close>

theorem revoked_for_ever:
  assumes "(is_ok (revokeSession now jti w) \<and> w' = snd (revokeSession now jti w))
    \<or> (\<exists>s. lookup_row session_jti jti (sessions w) = Some s \<and> w' = snd (revokeAllSessions now (session_userId s) w))
    \<or> (\<exists>t p. jwt_verify K t REFRESH = Some p \<and> tp_jti p = jti \<and> is_ok (refreshTokens K J (\<lambda>v. v) now new_jti t w)
         \<and> w' = snd (refreshTokens K J (\<lambda>v. v) now new_jti t w))"
    and "(auth_step K J)\<^sup>*\<^sup>* w' v"
  shows "(\<forall>h p. authMiddleware K h v = Inr p \<longrightarrow> tp_jti p \<noteq> jti)
    \<and> (\<forall>env t now' j' p. jwt_verify K t REFRESH = Some p \<longrightarrow> tp_jti p = jti \<longrightarrow> \<not> is_ok (refreshTokens K J env now' j' t v))"
proof -
  have "session_dead jti w'"
    using assms(1)
  proof (elim disjE exE conjE)
    assume "is_ok (revokeSession now jti w)" "w' = snd (revokeSession now jti w)"
    then show ?thesis
      by (auto simp: revokeSession_def session_dead_def revoke_where_def session_tab.lookup_update_at split: option.splits)
  next
    fix s assume "lookup_row session_jti jti (sessions w) = Some s" "w' = snd (revokeAllSessions now (session_userId s) w)"
    then show ?thesis
      by (cases "revokedAt s")
        (auto simp: revokeAllSessions_def session_dead_def revoke_where_def session_tab.lookup_update Let_def)
  next
    fix t p assume "jwt_verify K t REFRESH = Some p" "tp_jti p = jti" "is_ok (refreshTokens K J (\<lambda>v. v) now new_jti t w)"
      "w' = snd (refreshTokens K J (\<lambda>v. v) now new_jti t w)"
    then show ?thesis
      by (auto simp: refreshTokens_def session_dead_def revoke_where_def session_tab.lookup_update_at session_tab.lookup_insert Let_def
          split: option.splits if_splits dest: session_tab.lookup_SomeD)
  qed
  then obtain s where s: "lookup_row session_jti jti (sessions v) = Some s" "revokedAt s \<noteq> None"
    using auth_reach_dead_kept [OF assms(2)] unfolding dead_kept_def session_dead_def by blast
  then show ?thesis
    by (auto simp: authMiddleware_def refreshTokens_def split: option.splits if_splits)
qed

definition demo_sessions :: world where
  "demo_sessions = demo_auth_world\<lparr>sessions := [\<lparr>session_userId = ''u1'', session_jti = ''j1'', revokedAt = None\<rparr>]\<rparr>"

theorem revoked_for_ever_witness:
  "authMiddleware demo_crypto (Some ''Bearer tok'') demo_sessions = Inr demo_payload
   \<and> authMiddleware demo_crypto (Some ''Bearer tok'') (snd (revokeSession 9 ''j1'' demo_sessions)) \<noteq> Inr demo_payload"
proof -
  have "is_ok (revokeSession 9 ''j1'' demo_sessions) \<and> snd (revokeSession 9 ''j1'' demo_sessions) = snd (revokeSession 9 ''j1'' demo_sessions)"
    by (simp add: revokeSession_def demo_sessions_def lookup_row_def)
  then have "\<forall>h p. authMiddleware demo_crypto h (snd (revokeSession 9 ''j1'' demo_sessions)) = Inr p \<longrightarrow> tp_jti p \<noteq> ''j1''"
    using revoked_for_ever [OF disjI1, of 9 "''j1''" demo_sessions _ demo_crypto demo_jwt] by blast
  moreover have "authMiddleware demo_crypto (Some ''Bearer tok'') demo_sessions = Inr demo_payload" "tp_jti demo_payload = ''j1''"
    by (simp_all add: authMiddleware_def demo_crypto_def demo_payload_def demo_sessions_def lookup_row_def)
  ultimately show ?thesis by blast
qed

lemma another_wallet:
  assumes ok: "wallets_ok w" and x: "x \<in> set (wallets w)" "wallet_userId x = u" and len: "1 < length (wallets_of u' w)"
    and own: "\<exists>y\<in>set (wallets w). wallet_id y = i \<and> wallet_userId y = u'"
  shows "\<exists>z\<in>set (wallets w). wallet_userId z = u \<and> wallet_id z \<noteq> i"
proof (cases "u = u'")
  case False
  obtain y where y: "y \<in> set (wallets w)" "wallet_id y = i" "wallet_userId y = u'" using own by blast
  then have "wallet_id x \<noteq> i" using wallets_key_unique [OF ok x(1) y(1)] x(2) False by auto
  then show ?thesis using x by blast
next
  case True
  have dist: "distinct (map wallet_id (wallets_of u w))"
    using ok by (simp add: wallets_ok_def wallets_of_def distinct_map_filter)
  have "\<not> set (map wallet_id (wallets_of u w)) \<subseteq> {i}"
  proof
    assume "set (map wallet_id (wallets_of u w)) \<subseteq> {i}"
    then have "card (set (map wallet_id (wallets_of u w))) \<le> card {i}" by (intro card_mono) simp_all
    then show False using distinct_card [OF dist] len True by simp
  qed
  then show ?thesis by (auto simp: wallets_of_def)
qed

text \<open>
  C12. Every user who has a wallet has exactly one primary wallet, in every state the
  service can reach from the empty database, and unlinking never takes a user's last
  wallet.
\<close>

theorem one_primary_wallet:
  assumes "(auth_step K J)\<^sup>*\<^sup>* empty_world w" and "wallets_of u w \<noteq> []"
  shows "length (filter isPrimary (wallets_of u w)) = 1 \<and> wallets_of u (snd (unlinkWallet u' i w)) \<noteq> []
    \<and> (\<exists>r. lookup_row user_id u (users w) = Some r)"
proof -
  have ok: "wallets_ok w" using auth_reach_wallets_ok [OF assms(1) wallets_ok_empty] .
  then have ok': "wallets_ok (snd (unlinkWallet u' i w))" by (rule unlink_ok)
  obtain x where x: "x \<in> set (wallets w)" "wallet_userId x = u"
    using assms(2) by (auto simp: wallets_of_def filter_empty_conv)
  then obtain p where p: "primaries w u = {p}" using ok unfolding wallets_ok_def by blast
  have "distinct (filter isPrimary (wallets_of u w))"
    using ok by (auto simp: wallets_ok_def wallets_of_def distinct_map)
  then have "length (filter isPrimary (wallets_of u w)) = card (set (filter isPrimary (wallets_of u w)))"
    by (rule distinct_card [symmetric])
  also have "set (filter isPrimary (wallets_of u w)) = primaries w u" by (auto simp: primaries_def wallets_of_def)
  finally have one: "length (filter isPrimary (wallets_of u w)) = 1" by (simp add: p)
  have "u \<in> user_id ` set (users w)" using ok x unfolding wallets_ok_def by blast
  then have usr: "\<exists>r. lookup_row user_id u (users w) = Some r"
    using user_tab.lookup_None_iff [of u "users w"] by (cases "lookup_row user_id u (users w)") auto
  have "wallets_of u (snd (unlinkWallet u' i w)) \<noteq> []"
  proof (cases "unlinkWallet_tx u' i w")
    case (Pair out w1)
    show ?thesis
    proof (cases out)
      case (Inl e)
      then show ?thesis using Pair assms(2) by (simp add: unlinkWallet_def transaction_def)
    next
      case (Inr r)
      then have len: "1 < length (wallets_of u' w)" and w1: "w1 = delete_wallet i w \<or> (\<exists>P. w1 = delete_wallet i (set_primary P True w))"
        and own: "\<exists>y\<in>set (wallets w). wallet_id y = i \<and> wallet_userId y = u'"
        using Pair by (auto simp: unlinkWallet_tx_def Let_def wallets_of_def split: sum.splits option.splits if_splits dest!: find_SomeD)
      obtain z where z: "z \<in> set (wallets w)" "wallet_userId z = u" "wallet_id z \<noteq> i"
        using another_wallet [OF ok x len own] by blast
      then have "\<exists>y\<in>set (wallets w1). wallet_userId y = u"
        using w1
      proof (elim disjE exE)
        fix P assume "w1 = delete_wallet i (set_primary P True w)"
        then have "(if P z then z\<lparr>isPrimary := True\<rparr> else z) \<in> set (wallets w1)"
          using z by (auto simp: set_primary_wallets)
        then show ?thesis using z(2) by (intro bexI) (auto split: if_splits)
      qed auto
      then show ?thesis using Pair Inr by (auto simp: unlinkWallet_def transaction_def wallets_of_def filter_empty_conv)
    qed
  qed
  then show ?thesis using one usr by blast
qed

lemma demo_first_challenge:
  "\<exists>r. generateChallenge demo_crypto 5 demo_ids ''n9'' ''GB'' LOGIN None empty_world = (Inr r,
     empty_world\<lparr>users := [\<lparr>user_id = ''u9'', stellarAddress = ''GB'', user_name = None, user_role = BUYER\<rparr>],
       wallets := [\<lparr>wallet_id = ''w9'', wallet_userId = ''u9'', wallet_address = ''GB'', isPrimary = True, wallet_label = None\<rparr>],
       challenges := [\<lparr>challenge_id = ''c9'', challenge_userId = ''u9'', challenge_wallet = Some ''GB'', challenge_nonce = ''n9'',
         challenge_purpose = LOGIN, challenge_expiresAt = 300005, consumed = False\<rparr>]\<rparr>)"
proof -
  have ids: "id_user demo_ids = ''u9''" "id_wallet demo_ids = ''w9''" "id_challenge demo_ids = ''c9''"
    by (simp_all add: demo_ids_def)
  have e: "users empty_world = []" "wallets empty_world = []" "challenges empty_world = []" by (simp_all add: empty_world_def)
  have up: "upsert_wallet ''u9'' ''w9'' ''GB'' empty_world = (Inr \<lparr>wallet_id = ''w9'', wallet_userId = ''u9'', wallet_address = ''GB'',
      isPrimary = True, wallet_label = None\<rparr>, empty_world\<lparr>users := [\<lparr>user_id = ''u9'', stellarAddress = ''GB'', user_name = None, user_role = BUYER\<rparr>],
       wallets := [\<lparr>wallet_id = ''w9'', wallet_userId = ''u9'', wallet_address = ''GB'', isPrimary = True, wallet_label = None\<rparr>]\<rparr>)"
    by (simp add: upsert_wallet_def e lookup_row_def insert_row_def Let_def)
  show ?thesis
    by (simp add: generateChallenge_def demo_address ids up e Let_def CHALLENGE_TTL_MS_def lookup_row_def insert_row_def)
qed

theorem one_primary_wallet_witness:
  "\<exists>w. (auth_step demo_crypto demo_jwt)\<^sup>*\<^sup>* empty_world w \<and> length (filter isPrimary (wallets_of ''u9'' w)) = 1
     \<and> wallets_of ''u9'' (snd (unlinkWallet ''u9'' ''w9'' w)) \<noteq> []"
proof -
  obtain w where w: "w = snd (generateChallenge demo_crypto 5 demo_ids ''n9'' ''GB'' LOGIN None empty_world)"
    "wallets_of ''u9'' w \<noteq> []"
    using demo_first_challenge by (force simp: wallets_of_def)
  have "auth_step demo_crypto demo_jwt empty_world w"
    unfolding w(1) by (rule step_challenge) (simp_all add: empty_world_def)
  then have "(auth_step demo_crypto demo_jwt)\<^sup>*\<^sup>* empty_world w" by (rule r_into_rtranclp)
  then show ?thesis using one_primary_wallet [OF _ w(2)] by blast
qed

text \<open>
  Asking for a challenge to link a wallet defeats the link: creating the challenge
  creates a user and a wallet for the address, so that after a successful
  \<open>generateChallenge\<close> for an address every attempt to link that address, by any user and
  with any signature, is refused as already linked (or because the user is unknown).
\<close>

theorem link_challenge_blocks_link:
  assumes "generateChallenge K now ids nonce address purpose (Some u) w = (Inr r, w')"
  shows "linkWallet K now' i v address nonce' signature label w'
    = (Inl (if lookup_row user_id v (users w') = None then NotFoundError ''User not found''
         else ConflictError ''Wallet address is already linked''), w')"
proof -
  obtain a where a: "checked_address K address = Inr a"
    using assms by (cases "checked_address K address") (auto simp: generateChallenge_def)
  obtain x w1 where up: "upsert_wallet (id_user ids) (id_wallet ids) a w = (Inr x, w1)" and w': "wallets w' = wallets w1"
    using assms a by (auto simp: generateChallenge_def Let_def split: if_splits prod.splits sum.splits)
  have "lookup_row wallet_address a (wallets w1) \<noteq> None"
    using up by (auto simp: upsert_wallet_def Let_def lookup_row_def insert_row_def find_append split: option.splits if_splits)
  then show ?thesis
    by (simp add: linkWallet_def a transaction_def linkWallet_tx_def lockUserRow_def w')
qed

theorem link_challenge_blocks_link_witness:
  "\<exists>r w'. generateChallenge demo_crypto 5 demo_ids ''n9'' ''GX'' LINK_WALLET (Some ''u1'') demo_auth_world = (Inr r, w')
     \<and> linkWallet demo_crypto 6 ''w2'' ''u1'' ''GX'' ''n9'' ''ok'' None w' = (Inl (ConflictError ''Wallet address is already linked''), w')"
proof -
  have "normalizeAddress ''GX'' = Inr ''GX''" by code_simp
  then have "checked_address demo_crypto ''GX'' = Inr ''GX''"
    by (simp add: checked_address_def assertValidStellarAddress_def demo_crypto_def)
  then obtain r w' where run: "generateChallenge demo_crypto 5 demo_ids ''n9'' ''GX'' LINK_WALLET (Some ''u1'') demo_auth_world = (Inr r, w')"
    and u: "lookup_row user_id ''u1'' (users w') \<noteq> None"
    by (simp add: generateChallenge_def upsert_wallet_def demo_auth_world_def demo_ids_def lookup_row_def insert_row_def Let_def)
  have "linkWallet demo_crypto 6 ''w2'' ''u1'' ''GX'' ''n9'' ''ok'' None w' = (Inl (ConflictError ''Wallet address is already linked''), w')"
    using link_challenge_blocks_link [OF run, of 6 "''w2''" "''u1''"] u by simp
  with run show ?thesis by blast
qed

end
