(* ===== verification/Canonical_Json.thy ===== *)
theory Canonical_Json
  imports Database "HOL-Library.List_Lexorder" "HOL-Library.Char_ord" "HOL-Library.Multiset"
begin

text \<open>
  The canonical text an oracle signs: \<open>sortObjectKeys\<close> and \<open>canonicalStringify\<close> of
  \<open>server/src/services/oracle.service.ts\<close>, with what JavaScript does to the properties of
  an object: \<open>sort\<close> orders keys by code unit, assigning \<open>__proto__\<close> stores no property,
  and properties named by array indices are listed first, in numeric order.
\<close>

section \<open>Property order\<close>

definition digit_of :: "char \<Rightarrow> nat" where
  "digit_of c = of_char c - 48"

definition decimal_value :: "string \<Rightarrow> nat" where
  "decimal_value s = foldl (\<lambda>n c. 10 * n + digit_of c) 0 s"

definition is_index :: "string \<Rightarrow> bool" where
  "is_index s \<longleftrightarrow> s \<noteq> [] \<and> list_all (\<lambda>c. 48 \<le> (of_char c :: nat) \<and> (of_char c :: nat) \<le> 57) s
     \<and> (hd s \<noteq> CHR ''0'' \<or> s = ''0'') \<and> decimal_value s < 2 ^ 32 - 1"

text \<open>The order in which an object filled with these properties, in this order, lists them.\<close>

definition enumeration :: "(string \<times> 'v) list \<Rightarrow> (string \<times> 'v) list" where
  "enumeration kvs = sort_key (decimal_value \<circ> fst) (filter (is_index \<circ> fst) kvs) @ filter (Not \<circ> is_index \<circ> fst) kvs"

definition assignable :: "(string \<times> 'v) list \<Rightarrow> (string \<times> 'v) list" where
  "assignable kvs = filter (\<lambda>kv. fst kv \<noteq> ''__proto__'') kvs"

fun sortObjectKeys :: "json \<Rightarrow> json" where
  "sortObjectKeys (JArr xs) = JArr (map sortObjectKeys xs)"
| "sortObjectKeys (JObj kvs) = JObj (enumeration (assignable (map (\<lambda>kv. (fst kv, sortObjectKeys (snd kv))) (sort_key fst kvs))))"
| "sortObjectKeys JNull = JNull"
| "sortObjectKeys (JBool b) = JBool b"
| "sortObjectKeys (JNum x) = JNum x"
| "sortObjectKeys (JStr s) = JStr s"

text \<open>\<open>JSON.stringify\<close>, with the text of strings and numbers as parameters.\<close>

fun sep_by :: "string \<Rightarrow> string list \<Rightarrow> string" where
  "sep_by sep [] = []"
| "sep_by sep [x] = x"
| "sep_by sep (x # xs) = x @ sep @ sep_by sep xs"

fun stringify :: "(string \<Rightarrow> string) \<Rightarrow> (rat \<Rightarrow> string) \<Rightarrow> json \<Rightarrow> string" where
  "stringify qt nm JNull = ''null''"
| "stringify qt nm (JBool b) = (if b then ''true'' else ''false'')"
| "stringify qt nm (JNum x) = (case x of Fin q \<Rightarrow> nm q | _ \<Rightarrow> ''null'')"
| "stringify qt nm (JStr s) = qt s"
| "stringify qt nm (JArr xs) = ''['' @ sep_by '','' (map (stringify qt nm) xs) @ '']''"
| "stringify qt nm (JObj kvs) = ''{'' @ sep_by '','' (map (\<lambda>kv. qt (fst kv) @ '':'' @ stringify qt nm (snd kv)) kvs) @ ''}''"

definition canonicalStringify :: "(string \<Rightarrow> string) \<Rightarrow> (rat \<Rightarrow> string) \<Rightarrow> json \<Rightarrow> string" where
  "canonicalStringify qt nm data = stringify qt nm (sortObjectKeys data)"

section \<open>The canonical text does not depend on the order of properties\<close>

text \<open>
  Two values are the same up to the order of properties, at any depth. An object has each
  property once.
\<close>

inductive same_json :: "json \<Rightarrow> json \<Rightarrow> bool" where
  same_null: "same_json JNull JNull"
| same_bool: "same_json (JBool b) (JBool b)"
| same_num: "same_json (JNum x) (JNum x)"
| same_str: "same_json (JStr s) (JStr s)"
| same_arr: "list_all2 same_json xs ys \<Longrightarrow> same_json (JArr xs) (JArr ys)"
| same_obj: "distinct (map fst kvs) \<Longrightarrow> list_all2 (\<lambda>x y. fst x = fst y \<and> same_json (snd x) (snd y)) kvs mid \<Longrightarrow>
    mset mid = mset kvs' \<Longrightarrow> same_json (JObj kvs) (JObj kvs')"

lemma sort_keys_permuted:
  assumes "distinct (map fst xs)" and "mset xs = mset ys"
  shows "sort_key fst xs = sort_key fst ys"
proof (rule sort_key_inj_key_eq)
  show "mset xs = mset (sort_key fst ys)" using assms(2) by simp
qed (use assms in \<open>auto simp: distinct_map inj_on_subset\<close>)

lemma sort_key_map_snd: "sort_key fst (map (\<lambda>kv. (fst kv, g (snd kv))) xs) = map (\<lambda>kv. (fst kv, g (snd kv))) (sort_key fst xs)"
proof -
  have ins: "insort_key fst (fst a, g (snd a)) (map (\<lambda>kv. (fst kv, g (snd kv))) ys) = map (\<lambda>kv. (fst kv, g (snd kv))) (insort_key fst a ys)" for a ys
    by (induction ys) auto
  show ?thesis by (induction xs) (simp_all add: ins del: insort_key.simps)
qed

lemma list_all2_imp_map_eq: "list_all2 (\<lambda>x y. f x = g y) xs ys \<Longrightarrow> map f xs = map g ys"
  by (induction rule: list_all2_induct) simp_all

lemma same_json_sorted: "same_json a b \<Longrightarrow> sortObjectKeys a = sortObjectKeys b"
proof (induction rule: same_json.induct)
  case (same_arr xs ys)
  then have "list_all2 (\<lambda>x y. sortObjectKeys x = sortObjectKeys y) xs ys"
    by (rule list_all2_mono) simp
  then show ?case by (simp add: list_all2_imp_map_eq)
next
  case (same_obj kvs mid kvs')
  let ?s = "\<lambda>kv. (fst kv, sortObjectKeys (snd kv))"
  have "list_all2 (\<lambda>x y. ?s x = ?s y) kvs mid"
    by (rule list_all2_mono [OF same_obj.IH]) auto
  then have m: "map ?s kvs = map ?s mid" by (rule list_all2_imp_map_eq)
  have "map fst kvs = map fst mid"
    by (rule list_all2_imp_map_eq, rule list_all2_mono [OF same_obj.IH]) auto
  then have d: "distinct (map fst mid)" using same_obj.hyps(1) by simp
  have "map ?s (sort_key fst kvs) = sort_key fst (map ?s mid)"
    by (simp only: sort_key_map_snd m [symmetric])
  also have "\<dots> = map ?s (sort_key fst kvs')"
    unfolding sort_key_map_snd sort_keys_permuted [OF d same_obj.hyps(2)] ..
  finally show ?case by simp
qed simp_all

text \<open>
  C30. The text an oracle signs is canonical: two payloads that differ only in the order
  of their properties, at any depth, have the same canonical text.
\<close>

theorem canonicalStringify_order:
  assumes "same_json a b"
  shows "canonicalStringify qt nm a = canonicalStringify qt nm b"
  by (simp add: canonicalStringify_def same_json_sorted [OF assms])

theorem canonicalStringify_order_witness:
  "canonicalStringify (\<lambda>s. s) (\<lambda>_. ''1'') (JObj [(''b'', JNull), (''a'', JArr [JBool True])])
   = canonicalStringify (\<lambda>s. s) (\<lambda>_. ''1'') (JObj [(''a'', JArr [JBool True]), (''b'', JNull)])"
proof (rule canonicalStringify_order, rule same_obj)
  show "list_all2 (\<lambda>x y. fst x = fst y \<and> same_json (snd x) (snd y)) [(''b'', JNull), (''a'', JArr [JBool True])]
      [(''b'', JNull), (''a'', JArr [JBool True])]"
    by (auto intro: same_json.intros)
qed auto

lemma sort_key_remove: "filter P (sort_key f xs) = sort_key f (filter P xs)"
  by (rule filter_sort)

text \<open>
  A property named \<open>__proto__\<close> is not signed: adding one, with any value, to an object
  that has none leaves the canonical text as it was.
\<close>

theorem proto_not_signed:
  "canonicalStringify qt nm (JObj ((''__proto__'', v) # kvs)) = canonicalStringify qt nm (JObj kvs)"
proof -
  let ?s = "\<lambda>kv. (fst kv, sortObjectKeys (snd kv))"
  have keep: "assignable (map ?s (sort_key fst xs)) = map ?s (sort_key fst (assignable xs))" for xs
    by (simp add: assignable_def filter_map comp_def filter_sort)
  have "assignable (map ?s (sort_key fst ((''__proto__'', v) # kvs))) = assignable (map ?s (sort_key fst kvs))"
    unfolding keep by (simp add: assignable_def)
  then show ?thesis by (simp add: canonicalStringify_def del: sort_key_simps)
qed

end
