(* ===== verification/Governance.thy ===== *)
theory Governance
  imports Decimal_Js
begin

text \<open>
  Governance: proposals and votes (\<open>server/src/services/governance.service.ts\<close>) and the
  HTTP answers of \<open>server/src/controllers/governance.controller.ts\<close>. The unique key of a
  vote (proposal and voter) is enforced by the database.
\<close>

section \<open>The service\<close>

record proposal_filters =
  pf_status :: "governance_status option"
  pf_proposerId :: "string option"
  pf_limit :: "int option"
  pf_offset :: "int option"

definition proposal_where :: "proposal_filters \<Rightarrow> proposal_row \<Rightarrow> bool" where
  "proposal_where f r \<longleftrightarrow> (case pf_status f of None \<Rightarrow> True | Some s \<Rightarrow> proposal_status r = s)
     \<and> (case pf_proposerId f of None \<Rightarrow> True | Some p \<Rightarrow> p = [] \<or> proposerId r = p)"

text \<open>Proposals come with their votes; the joined proposer is left out.\<close>

definition votes_of :: "string \<Rightarrow> world \<Rightarrow> vote_row list" where
  "votes_of i w = filter (\<lambda>v. vote_proposalId v = i) (votes w)"

definition num_or :: "int option \<Rightarrow> int \<Rightarrow> int" where
  "num_or v d = (case v of None \<Rightarrow> d | Some n \<Rightarrow> n)"

text \<open>
  A page of the selected rows, newest first. A negative \<open>take\<close> counts from the other end,
  a negative \<open>skip\<close> is refused by the client.
\<close>

definition find_page :: "('r \<Rightarrow> bool) \<Rightarrow> int \<Rightarrow> int \<Rightarrow> 'r list \<Rightarrow> app_error + 'r list" where
  "find_page sel skip num t =
     (if skip < 0 then Inl (PlainError ''Invalid value for skip argument'')
      else if 0 \<le> num then Inr (page_desc sel (nat skip) (nat num) t)
      else Inr (rev (take (nat (- num)) (drop (nat skip) (filter sel t)))))"

definition getProposals :: "proposal_filters \<Rightarrow> world \<Rightarrow> (world, (proposal_row \<times> vote_row list) list \<times> nat) outcome" where
  "getProposals f w = (Inr (map (\<lambda>p. (p, votes_of (proposal_id p) w))
       (page_desc (proposal_where f) (nat (num_or (pf_offset f) 0)) (nat (num_or (pf_limit f) 20)) (proposals w)),
     count_where (proposal_where f) (proposals w)), w)"

record create_proposal_request =
  cprop_title :: string
  cprop_description :: string
  cprop_proposerId :: string
  cprop_endsAt :: int

definition createProposal :: "string \<Rightarrow> create_proposal_request \<Rightarrow> world \<Rightarrow> (world, proposal_row) outcome" where
  "createProposal new_id req w =
     (if lookup_row user_id (cprop_proposerId req) (users w) = None
      then (Inl (PlainError ''Foreign key constraint violated: GovernanceProposal_proposerId_fkey''), w)
      else let row = \<lparr>proposal_id = new_id, proposal_title = cprop_title req, proposal_description = cprop_description req,
               proposerId = cprop_proposerId req, proposal_status = GOV_OPEN, proposal_endsAt = cprop_endsAt req\<rparr>
        in (Inr row, w\<lparr>proposals := insert_row row (proposals w)\<rparr>))"

definition getProposalById :: "string \<Rightarrow> world \<Rightarrow> (world, proposal_row \<times> vote_row list) outcome" where
  "getProposalById i w = (case lookup_row proposal_id i (proposals w) of
     None \<Rightarrow> (Inl (PlainError ''Proposal not found''), w)
   | Some p \<Rightarrow> (Inr (p, votes_of i w), w))"

definition getProposalVotes ::
  "string \<Rightarrow> int option \<Rightarrow> int option \<Rightarrow> world \<Rightarrow> (world, vote_row list \<times> nat \<times> int \<times> int) outcome" where
  "getProposalVotes i lmt ofs w = (case lookup_row proposal_id i (proposals w) of
     None \<Rightarrow> (Inl (PlainError ''Proposal not found''), w)
   | Some p \<Rightarrow> let limit = num_or lmt 100; offset = num_or ofs 0 in
       (case find_page (\<lambda>v. vote_proposalId v = i) offset limit (votes w) of
          Inl e \<Rightarrow> (Inl e, w)
        | Inr vs \<Rightarrow> (Inr (vs, length (votes_of i w), limit, offset), w)))"

record cast_vote_request =
  cv_proposalId :: string
  cv_voterAddress :: string
  cv_vote :: string
  cv_weight :: string

text \<open>
  \<open>castVote\<close>; \<open>env\<close> is what other requests do between its check for an earlier vote
  and the insert.
\<close>

definition vote_key :: "vote_row \<Rightarrow> string \<times> string" where
  "vote_key v = (vote_proposalId v, voterAddress v)"

definition castVote ::
  "decimal \<Rightarrow> platform \<Rightarrow> (world \<Rightarrow> world) \<Rightarrow> int \<Rightarrow> string \<Rightarrow> cast_vote_request \<Rightarrow> world \<Rightarrow> (world, vote_row) outcome" where
  "castVote D P env now new_id req w = (case lookup_row proposal_id (cv_proposalId req) (proposals w) of
     None \<Rightarrow> (Inl (PlainError ''Proposal not found''), w)
   | Some proposal \<Rightarrow>
       if proposal_status proposal \<noteq> GOV_OPEN
       then (Inl (PlainError (''Cannot vote on proposal with status: '' @ show_governance_status (proposal_status proposal))), w)
       else if now > proposal_endsAt proposal then (Inl (PlainError ''Voting period has ended''), w)
       else if find (\<lambda>v. vote_proposalId v = cv_proposalId req \<and> voterAddress v = cv_voterAddress req) (votes w) \<noteq> None
       then (Inl (PlainError ''User has already voted on this proposal''), w)
       else let w1 = env w in
         case dec_new D (NStr (cv_weight req)) of
           Some (Fin weight) \<Rightarrow> (case store20_7 P weight of
               Inl e \<Rightarrow> (Inl e, w1)
             | Inr stored \<Rightarrow>
               let row = \<lparr>vote_id = new_id, vote_proposalId = cv_proposalId req, voterAddress = cv_voterAddress req,
                     vote_choice = cv_vote req, vote_weight = stored\<rparr> in
               if vote_key row \<in> vote_key ` set (votes w1)
               then (Inl (PlainError ''Unique constraint failed on the fields: (proposalId,voterAddress)''), w1)
               else (Inr row, w1\<lparr>votes := insert_row row (votes w1)\<rparr>))
         | _ \<Rightarrow> (Inl (PlainError ''[DecimalError] Invalid argument''), w1))"

definition getParameters :: "string \<times> int \<times> int" where
  "getParameters = (''0.5'', 7, 2)"

text \<open>The audit log, on the rows of its table, oldest first.\<close>

definition getAuditLog :: "int option \<Rightarrow> int option \<Rightarrow> 'a list \<Rightarrow> app_error + 'a list \<times> nat \<times> int \<times> int" where
  "getAuditLog lmt ofs rows = (let limit = num_or lmt 50; offset = num_or ofs 0 in
     (case find_page (\<lambda>_. True) offset limit rows of Inl e \<Rightarrow> Inl e | Inr rs \<Rightarrow> Inr (rs, length rows, limit, offset)))"

record governance_metrics =
  gm_total :: nat
  gm_open :: nat
  gm_passed :: nat
  gm_rejected :: nat
  gm_executed :: nat
  gm_totalVotes :: nat
  gm_avgVoteWeight :: rat
  gm_participationRate :: rat \<comment> \<open>before \<open>toFixed(2)\<close>\<close>

definition getMetrics :: "world \<Rightarrow> governance_metrics" where
  "getMetrics w = (let count = (\<lambda>s. count_where (\<lambda>p. proposal_status p = s) (proposals w));
       tot = length (proposals w); nv = length (votes w) in
     \<lparr>gm_total = tot, gm_open = count GOV_OPEN, gm_passed = count GOV_PASSED, gm_rejected = count GOV_REJECTED,
      gm_executed = count GOV_EXECUTED, gm_totalVotes = nv,
      gm_avgVoteWeight = (if nv = 0 then 0 else sum_list (map vote_weight (votes w)) / of_nat nv),
      gm_participationRate = (if 0 < tot then fl64 (of_nat nv / of_nat tot) else 0)\<rparr>)"

section \<open>The controller\<close>

record vote_body =
  vb_proposalId :: "string option"
  vb_voteFor :: "bool option"
  vb_weight :: num_input

definition truthy_num :: "num_input \<Rightarrow> bool" where
  "truthy_num v \<longleftrightarrow> (case v of NUndef \<Rightarrow> False | NStr s \<Rightarrow> s \<noteq> [] | NNum x \<Rightarrow> x \<noteq> NaN \<and> x \<noteq> Fin 0)"

fun num_text :: "platform \<Rightarrow> num_input \<Rightarrow> string" where
  "num_text P NUndef = ''undefined''"
| "num_text P (NStr s) = s"
| "num_text P (NNum (Fin x)) = num_str P x"
| "num_text P (NNum NaN) = ''NaN''"
| "num_text P (NNum Infinity) = ''Infinity''"
| "num_text P (NNum NegInfinity) = ''-Infinity''"

text \<open>The error branch of \<open>submitVote\<close>; no error of the service has a \<open>statusCode\<close>.\<close>

definition vote_error :: "app_error \<Rightarrow> http_response" where
  "vote_error e = (let m = err_message e in
     if m = ''Proposal not found'' then \<lparr>http_status = 404, http_error = ''Proposal not found''\<rparr>
     else if contains_text ''Cannot vote on proposal'' m \<or> contains_text ''deadline has passed'' m
     then \<lparr>http_status = 400, http_error = m\<rparr>
     else errorMiddleware e)"

definition submitVote ::
  "decimal \<Rightarrow> platform \<Rightarrow> (world \<Rightarrow> world) \<Rightarrow> int \<Rightarrow> string \<Rightarrow> string \<Rightarrow> vote_body \<Rightarrow> world \<Rightarrow> (http_response + vote_row) \<times> world" where
  "submitVote D P env now new_id voterId body w =
     (case (vb_proposalId body, vb_voteFor body) of
        (Some (c # i), Some voteFor) \<Rightarrow>
          if \<not> truthy_num (vb_weight body)
          then (Inl \<lparr>http_status = 400, http_error = ''Missing required fields: proposalId, voteFor, weight''\<rparr>, w)
          else (case castVote D P env now new_id \<lparr>cv_proposalId = c # i, cv_voterAddress = voterId,
                  cv_vote = (if voteFor then ''YES'' else ''NO''), cv_weight = num_text P (vb_weight body)\<rparr> w of
              (Inl e, w') \<Rightarrow> (Inl (vote_error e), w')
            | (Inr v, w') \<Rightarrow> (Inr v, w'))
      | _ \<Rightarrow> (Inl \<lparr>http_status = 400, http_error = ''Missing required fields: proposalId, voteFor, weight''\<rparr>, w))"

definition governance_status_of :: "string \<Rightarrow> governance_status option" where
  "governance_status_of s = find (\<lambda>g. show_governance_status g = s) [GOV_OPEN, GOV_PASSED, GOV_REJECTED, GOV_EXECUTED]"

text \<open>Query parameters of \<open>GET /proposals\<close>; \<open>parse_int\<close> is \<open>parseInt(s, 10)\<close>, \<open>None\<close> for \<open>NaN\<close>.\<close>

definition bounded_param :: "(string \<Rightarrow> int option) \<Rightarrow> int \<Rightarrow> string \<Rightarrow> string option \<Rightarrow> http_response + int option" where
  "bounded_param parse_int lo msg v = (if or_else v [] = [] then Inr None
     else case parse_int (or_else v []) of
       None \<Rightarrow> Inl \<lparr>http_status = 400, http_error = msg\<rparr>
     | Some n \<Rightarrow> if n < lo then Inl \<lparr>http_status = 400, http_error = msg\<rparr> else Inr (Some n))"

definition ctl_getProposals ::
  "(string \<Rightarrow> int option) \<Rightarrow> string option \<Rightarrow> string option \<Rightarrow> string option \<Rightarrow> string option \<Rightarrow> world
    \<Rightarrow> http_response + ((proposal_row \<times> vote_row list) list \<times> nat \<times> int \<times> int)" where
  "ctl_getProposals parse_int status proposer limit offset w =
     (let raw = or_else status [] in
      if raw \<noteq> [] \<and> governance_status_of raw = None
      then Inl \<lparr>http_status = 400, http_error = ''Invalid status. Must be one of: OPEN, PASSED, REJECTED, EXECUTED''\<rparr>
      else case bounded_param parse_int 1 ''limit must be a positive number'' limit of
        Inl r \<Rightarrow> Inl r
      | Inr lmt \<Rightarrow> (case bounded_param parse_int 0 ''offset must be a non-negative number'' offset of
          Inl r \<Rightarrow> Inl r
        | Inr ofs \<Rightarrow>
          let f = \<lparr>pf_status = (if raw = [] then None else governance_status_of raw), pf_proposerId = proposer,
                pf_limit = lmt, pf_offset = ofs\<rparr> in
          case fst (getProposals f w) of
            Inl e \<Rightarrow> Inl (errorMiddleware e)
          | Inr (ps, tot) \<Rightarrow> Inr (ps, tot, num_or lmt 20, num_or ofs 0)))"

record proposal_body =
  pb_title :: "string option"
  pb_description :: "string option"
  pb_quorum :: "string option"
  pb_deadline :: date_input

definition WEEK_MS :: int where "WEEK_MS = 7 * 24 * 60 * 60 * 1000"

definition ctl_createProposal ::
  "(string \<Rightarrow> jsnum) \<Rightarrow> platform \<Rightarrow> int \<Rightarrow> string \<Rightarrow> string \<Rightarrow> proposal_body \<Rightarrow> world \<Rightarrow> (http_response + proposal_row) \<times> world" where
  "ctl_createProposal parse_float P now new_id proposer body w =
     (let bad = (\<lambda>m. (Inl \<lparr>http_status = 400, http_error = m\<rparr>, w)) in
      if or_else (pb_title body) [] = [] \<or> or_else (pb_description body) [] = [] \<or> or_else (pb_quorum body) [] = []
      then bad ''Missing required fields: title, description, quorum''
      else if (case parse_float (or_else (pb_quorum body) []) of NaN \<Rightarrow> True | Fin q \<Rightarrow> q \<le> 0 | NegInfinity \<Rightarrow> True | Infinity \<Rightarrow> False)
      then bad ''quorum must be a positive decimal number''
      else case (if pb_deadline body = DUndef \<or> pb_deadline body = DStr [] then Inr (now + WEEK_MS)
          else case date_value P (pb_deadline body) of
            None \<Rightarrow> Inl ''deadline must be a valid date string''
          | Some t \<Rightarrow> if t \<le> now then Inl ''deadline must be in the future'' else Inr t) of
        Inl m \<Rightarrow> bad m
      | Inr endsAt \<Rightarrow> (case createProposal new_id \<lparr>cprop_title = or_else (pb_title body) [], cprop_description = or_else (pb_description body) [],
            cprop_proposerId = proposer, cprop_endsAt = endsAt\<rparr> w of
          (Inl e, w') \<Rightarrow> (Inl (errorMiddleware e), w')
        | (Inr p, w') \<Rightarrow> (Inr p, w')))"

text \<open>The error branch of \<open>getProposal\<close> and of \<open>getProposalVotes\<close>.\<close>

definition lookup_error :: "app_error \<Rightarrow> http_response" where
  "lookup_error e = (if err_message e = ''Proposal not found'' then \<lparr>http_status = 404, http_error = ''Proposal not found''\<rparr>
     else errorMiddleware e)"

lemmas [step_defs] = createProposal_def castVote_def submitVote_def ctl_createProposal_def

section \<open>Properties\<close>

lemma castVote_InrE:
  assumes "castVote D P env now i req w = (Inr v, w')"
  obtains p x where "lookup_row proposal_id (cv_proposalId req) (proposals w) = Some p" "proposal_status p = GOV_OPEN"
    "now \<le> proposal_endsAt p" "dec_new D (NStr (cv_weight req)) = Some (Fin x)" "\<bar>col20_7 P x\<bar> < 10 ^ 13"
    "v = \<lparr>vote_id = i, vote_proposalId = cv_proposalId req, voterAddress = cv_voterAddress req, vote_choice = cv_vote req,
       vote_weight = col20_7 P x\<rparr>"
    "vote_key v \<notin> vote_key ` set (votes w)" "vote_key v \<notin> vote_key ` set (votes (env w))"
    "w' = (env w)\<lparr>votes := insert_row v (votes (env w))\<rparr>"
proof -
  obtain p where p: "lookup_row proposal_id (cv_proposalId req) (proposals w) = Some p"
    using assms by (auto simp: castVote_def split: option.splits)
  have g: "proposal_status p = GOV_OPEN" "now \<le> proposal_endsAt p"
    "find (\<lambda>v. vote_proposalId v = cv_proposalId req \<and> voterAddress v = cv_voterAddress req) (votes w) = None"
    using assms p by (auto simp: castVote_def split: if_splits)
  obtain x where x: "dec_new D (NStr (cv_weight req)) = Some (Fin x)" "\<bar>col20_7 P x\<bar> < 10 ^ 13"
    "v = \<lparr>vote_id = i, vote_proposalId = cv_proposalId req, voterAddress = cv_voterAddress req, vote_choice = cv_vote req,
       vote_weight = col20_7 P x\<rparr>" "vote_key v \<notin> vote_key ` set (votes (env w))"
    "w' = (env w)\<lparr>votes := insert_row v (votes (env w))\<rparr>"
    using assms p g
    by (auto simp: castVote_def Let_def store20_7_Inr split: option.splits jsnum.splits sum.splits if_splits)
  have "vote_key v \<notin> vote_key ` set (votes w)"
    using g(3) by (auto simp: find_None_iff' vote_key_def x(3))
  with p g x show ?thesis by (intro that)
qed

inductive vote_env :: "decimal \<Rightarrow> platform \<Rightarrow> (world \<Rightarrow> world) \<Rightarrow> bool" for D P where
  vote_idle: "vote_env D P (\<lambda>w. w)"
| vote_cast: "vote_env D P f \<Longrightarrow> vote_env D P g \<Longrightarrow> vote_env D P (\<lambda>w. snd (castVote D P g now i req (f w)))"
| vote_propose: "vote_env D P f \<Longrightarrow> vote_env D P (\<lambda>w. snd (createProposal i r (f w)))"

lemma castVote_distinct:
  assumes "distinct (map vote_key (votes w))" and "\<And>v. distinct (map vote_key (votes v)) \<Longrightarrow> distinct (map vote_key (votes (env v)))"
  shows "distinct (map vote_key (votes (snd (castVote D P env now i req w))))"
  using assms by (auto simp: castVote_def Let_def insert_row_def split: option.split jsnum.split sum.split)

lemma vote_env_distinct: "vote_env D P f \<Longrightarrow> distinct (map vote_key (votes w)) \<Longrightarrow> distinct (map vote_key (votes (f w)))"
proof (induction arbitrary: w rule: vote_env.induct)
  case (vote_cast f g now i req)
  then show ?case by (intro castVote_distinct)
next
  case (vote_propose f i r)
  then show ?case by (simp add: createProposal_def Let_def)
qed simp

text \<open>
  C13. One vote each, also when requests race: a vote is only stored for an open proposal
  whose deadline has not passed, by a voter with no vote on it when the request looked
  and when it wrote, and in any run of racing requests no two votes have the same
  proposal and voter.
\<close>

theorem castVote_once:
  assumes "distinct (map vote_key (votes w0))" "vote_env D P f" "vote_env D P env"
    and "castVote D P env now i req (f w0) = (Inr v, w')"
  shows "distinct (map vote_key (votes w')) \<and> v \<in> set (votes w')
    \<and> vote_key v = (cv_proposalId req, cv_voterAddress req)
    \<and> vote_key v \<notin> vote_key ` set (votes (f w0)) \<and> vote_key v \<notin> vote_key ` set (votes (env (f w0)))
    \<and> (\<exists>p. lookup_row proposal_id (cv_proposalId req) (proposals (f w0)) = Some p \<and> proposal_status p = GOV_OPEN
         \<and> now \<le> proposal_endsAt p)"
proof -
  have "distinct (map vote_key (votes (f w0)))"
    by (rule vote_env_distinct [OF assms(2,1)])
  then have "distinct (map vote_key (votes (snd (castVote D P env now i req (f w0)))))"
    using vote_env_distinct [OF assms(3)] by (rule castVote_distinct)
  then have d: "distinct (map vote_key (votes w'))" by (simp add: assms(4))
  show ?thesis
    by (rule castVote_InrE [OF assms(4)]) (use d in \<open>auto simp: insert_row_def vote_key_def\<close>)
qed

definition demo_weights :: decimal where
  "demo_weights = demo_decimal\<lparr>dec_new := (\<lambda>v. if v = NStr ''1'' then Some (Fin 1) else None)\<rparr>"

definition demo_vote :: "string \<Rightarrow> cast_vote_request" where
  "demo_vote a = \<lparr>cv_proposalId = ''p1'', cv_voterAddress = a, cv_vote = ''YES'', cv_weight = ''1''\<rparr>"

definition demo_open :: world where
  "demo_open = empty_world\<lparr>proposals := [\<lparr>proposal_id = ''p1'', proposal_title = ''t'', proposal_description = ''d'',
     proposerId = ''u'', proposal_status = GOV_OPEN, proposal_endsAt = 100\<rparr>],
     votes := [\<lparr>vote_id = ''v0'', vote_proposalId = ''p1'', voterAddress = ''a0'', vote_choice = ''NO'', vote_weight = 1\<rparr>]\<rparr>"

lemma demo_store_one: "store20_7 demo_platform 1 = Inr 1"
proof -
  have "round7 1 = 1" by (rule round7_fix) (rule on_gridI [of _ 10000000], simp)
  then show ?thesis by (simp add: store20_7_def demo_platform_def)
qed

lemma demo_weight: "dec_new demo_weights (NStr ''1'') = Some (Fin 1)"
  by (simp add: demo_weights_def)

theorem castVote_once_witness:
  "\<exists>v w'. castVote demo_weights demo_platform (\<lambda>w. w) 5 ''v1'' (demo_vote ''a1'') demo_open = (Inr v, w')
     \<and> distinct (map vote_key (votes w')) \<and> vote_key v = (''p1'', ''a1'')"
proof -
  obtain v w' where run: "castVote demo_weights demo_platform (\<lambda>w. w) 5 ''v1'' (demo_vote ''a1'') demo_open = (Inr v, w')"
    by (simp add: castVote_def demo_open_def demo_vote_def lookup_row_def demo_weight demo_store_one vote_key_def Let_def)
  have "distinct (map vote_key (votes demo_open))" by (simp add: demo_open_def)
  from castVote_once [OF this vote_idle vote_idle run] run show ?thesis by (auto simp: demo_vote_def)
qed

text \<open>
  What a refused vote answers: 404 for an unknown proposal and 400 for a proposal
  that is not open, but 500 once the deadline has passed and 500 for a second vote,
  because the controller looks for the words "deadline has passed" and for a
  \<open>statusCode\<close>, which the service's errors do not have.
\<close>

theorem vote_refusal_status:
  assumes "vb_proposalId body = Some i" "i \<noteq> []" "vb_voteFor body \<noteq> None" "truthy_num (vb_weight body)"
  shows "(lookup_row proposal_id i (proposals w) = None
        \<longrightarrow> submitVote D P env now j u body w = (Inl \<lparr>http_status = 404, http_error = ''Proposal not found''\<rparr>, w))
    \<and> (\<forall>p. lookup_row proposal_id i (proposals w) = Some p \<longrightarrow>
        (proposal_status p \<noteq> GOV_OPEN \<longrightarrow> (\<exists>m. submitVote D P env now j u body w = (Inl \<lparr>http_status = 400, http_error = m\<rparr>, w)))
      \<and> (proposal_status p = GOV_OPEN \<and> proposal_endsAt p < now
          \<longrightarrow> submitVote D P env now j u body w = (Inl \<lparr>http_status = 500, http_error = ''Voting period has ended''\<rparr>, w))
      \<and> (proposal_status p = GOV_OPEN \<and> now \<le> proposal_endsAt p \<and> (i, u) \<in> vote_key ` set (votes w)
          \<longrightarrow> submitVote D P env now j u body w
            = (Inl \<lparr>http_status = 500, http_error = ''User has already voted on this proposal''\<rparr>, w)))"
proof -
  obtain c s b where f: "i = c # s" "vb_voteFor body = Some b" using assms(2,3) by (cases i) auto
  let ?req = "\<lparr>cv_proposalId = i, cv_voterAddress = u, cv_vote = (if b then ''YES'' else ''NO''), cv_weight = num_text P (vb_weight body)\<rparr>"
  have run: "submitVote D P env now j u body w = (case castVote D P env now j ?req w of
      (Inl e, w') \<Rightarrow> (Inl (vote_error e), w') | (Inr v, w') \<Rightarrow> (Inr v, w'))"
    using assms f by (simp add: submitVote_def)
  have e404: "vote_error (PlainError ''Proposal not found'') = \<lparr>http_status = 404, http_error = ''Proposal not found''\<rparr>"
    by (simp add: vote_error_def)
  have e400: "\<exists>m. vote_error (PlainError (''Cannot vote on proposal with status: '' @ x)) = \<lparr>http_status = 400, http_error = m\<rparr>" for x
    by (simp add: vote_error_def)
  have e1: "vote_error (PlainError ''Voting period has ended'') = \<lparr>http_status = 500, http_error = ''Voting period has ended''\<rparr>"
    by (simp add: vote_error_def errorMiddleware_def)
  have e2: "vote_error (PlainError ''User has already voted on this proposal'')
      = \<lparr>http_status = 500, http_error = ''User has already voted on this proposal''\<rparr>"
    by (simp add: vote_error_def errorMiddleware_def)
  have dup: "find (\<lambda>v. vote_proposalId v = i \<and> voterAddress v = u) (votes w) \<noteq> None" if "(i, u) \<in> vote_key ` set (votes w)"
    using that by (auto simp: find_None_iff' vote_key_def)
  show ?thesis
    using e400 dup
    by (auto simp: run castVote_def e404 e1 e2 simp del: append.simps)
qed

theorem vote_refusal_status_witness:
  "submitVote demo_weights demo_platform (\<lambda>w. w) 200 ''v1'' ''a1''
      \<lparr>vb_proposalId = Some ''p1'', vb_voteFor = Some True, vb_weight = NStr ''1''\<rparr> demo_open
    = (Inl \<lparr>http_status = 500, http_error = ''Voting period has ended''\<rparr>, demo_open)"
proof -
  let ?b = "\<lparr>vb_proposalId = Some ''p1'', vb_voteFor = Some True, vb_weight = NStr ''1''\<rparr>"
  have h: "vb_proposalId ?b = Some ''p1''" "''p1'' \<noteq> []" "vb_voteFor ?b \<noteq> None" "truthy_num (vb_weight ?b)"
    by (simp_all add: truthy_num_def)
  show ?thesis
    using vote_refusal_status [OF h, where w = demo_open and now = 200 and D = demo_weights and P = demo_platform
        and env = "\<lambda>w. w" and j = "''v1''" and u = "''a1''"]
    by (simp add: demo_open_def lookup_row_def)
qed

lemma count_status_sum:
  "length xs = count_where (\<lambda>p. proposal_status p = GOV_OPEN) xs + count_where (\<lambda>p. proposal_status p = GOV_PASSED) xs
    + count_where (\<lambda>p. proposal_status p = GOV_REJECTED) xs + count_where (\<lambda>p. proposal_status p = GOV_EXECUTED) xs"
proof (induction xs)
  case (Cons p xs)
  then show ?case by (cases "proposal_status p") (simp_all add: count_where_def)
qed (simp add: count_where_def)

lemma metrics_partition:
  "gm_total (getMetrics w) = gm_open (getMetrics w) + gm_passed (getMetrics w) + gm_rejected (getMetrics w) + gm_executed (getMetrics w)"
  using count_status_sum [of "proposals w"] by (simp add: getMetrics_def Let_def)

end
