(* ===== verification/Oracle_Service.thy ===== *)
theory Oracle_Service
  imports Escrow_Service Canonical_Json
begin

text \<open>
  The oracle service (\<open>server/src/services/oracle.service.ts\<close>): registration, signed
  confirmations with a rate limit per clock minute, disputes, reputation, rewards and
  slashing, threshold signatures and the metrics.
\<close>

section \<open>Environment and parsing\<close>

record oracle_env =
  key_ok :: "string \<Rightarrow> bool" \<comment> \<open>\<open>Keypair.fromPublicKey\<close> does not throw\<close>
  verify_sig :: "string \<Rightarrow> string \<Rightarrow> string \<Rightarrow> bool" \<comment> \<open>key, message, signature bytes\<close>
  from_hex :: "string \<Rightarrow> string" \<comment> \<open>\<open>Buffer.from(s, "hex")\<close>\<close>
  from_base64 :: "string \<Rightarrow> string"
  json_quote :: "string \<Rightarrow> string" \<comment> \<open>\<open>JSON.stringify\<close> of a string and of a number\<close>
  json_num :: "rat \<Rightarrow> string"
  minute_window :: "int \<Rightarrow> int" \<comment> \<open>\<open>new Date(y, m, d, h, min)\<close> of the local time\<close>
  col5_2 :: "rat \<Rightarrow> rat" \<comment> \<open>the value a \<open>Decimal(5, 2)\<close> column keeps\<close>

definition MAX_CONFIRMATIONS_PER_MINUTE :: nat where "MAX_CONFIRMATIONS_PER_MINUTE = 10"

definition oracle_types :: "string list" where
  "oracle_types = [''GENERAL'', ''PRICE'', ''WEATHER'', ''SHIPPING'', ''QUALITY'']"

definition reward_reasons :: "string list" where
  "reward_reasons = [''CONFIRMATION'', ''ACCURACY_BONUS'', ''RELIABILITY_BONUS'', ''PARTICIPATION'']"

definition requireNonEmptyString :: "string option \<Rightarrow> string \<Rightarrow> app_error + string" where
  "requireNonEmptyString v fieldName = (if opt_trim v = [] then Inl (ValidationError (fieldName @ '' is required'')) else Inr (opt_trim v))"

definition oracle_normalizeAddress :: "string option \<Rightarrow> app_error + string" where
  "oracle_normalizeAddress a = (case requireNonEmptyString a ''address'' of Inl e \<Rightarrow> Inl e | Inr s \<Rightarrow> Inr (js_upper s))"

text \<open>\<open>normalizeAddress\<close>, then \<open>assertValidStellarAddress\<close>.\<close>

definition valid_address :: "oracle_env \<Rightarrow> string option \<Rightarrow> app_error + string" where
  "valid_address V a = (case oracle_normalizeAddress a of
     Inl e \<Rightarrow> Inl e
   | Inr s \<Rightarrow> if key_ok V s then Inr s else Inl (ValidationError ''Invalid Stellar wallet address''))"

definition hex_char :: "char \<Rightarrow> bool" where
  "hex_char c \<longleftrightarrow> (let n = (of_char c :: nat) in (48 \<le> n \<and> n \<le> 57) \<or> (65 \<le> n \<and> n \<le> 70) \<or> (97 \<le> n \<and> n \<le> 102))"

definition base64_text :: "string \<Rightarrow> bool" where
  "base64_text v \<longleftrightarrow> takeWhile is_base64_char v \<noteq> [] \<and> dropWhile is_base64_char v \<in> {[], ''='', ''==''}"

definition decodeSignature :: "oracle_env \<Rightarrow> string option \<Rightarrow> app_error + string" where
  "decodeSignature V signature = (case requireNonEmptyString signature ''signature'' of
     Inl e \<Rightarrow> Inl e
   | Inr v \<Rightarrow>
       if list_all hex_char v \<and> length v mod 2 = 0 \<and> length (from_hex V v) = 64 then Inr (from_hex V v)
       else if base64_text v \<and> length (from_base64 V v) = 64 then Inr (from_base64 V v)
       else Inl (ValidationError ''Signature must be a 64-byte hex or base64 value''))"

section \<open>Registration\<close>

record create_oracle_input =
  co_address :: "string option"
  co_oracleType :: "string option"
  co_metadata :: "json option"
  co_stakeAmount :: "jsnum option"
  co_assetCode :: "string option"

text \<open>The stake of a registration: \<open>None\<close> when absent, zero, negative or \<open>NaN\<close>.\<close>

definition stake_of :: "platform \<Rightarrow> jsnum option \<Rightarrow> app_error + rat option" where
  "stake_of P v = (case v of
     Some (Fin q) \<Rightarrow> if 0 < q then (case store20_7 P q of Inl e \<Rightarrow> Inl e | Inr x \<Rightarrow> Inr (Some x)) else Inr None
   | Some Infinity \<Rightarrow> Inl (PlainError ''Invalid Decimal value'')
   | _ \<Rightarrow> Inr None)"

definition new_reputation :: "string \<Rightarrow> int \<Rightarrow> reputation_row" where
  "new_reputation i now = \<lparr>rep_oracleId = i, rep_score = 100, rep_accuracy = 100, rep_reliability = 100, totalVotes = 0,
     positiveVotes = 0, negativeVotes = 0, rep_lastUpdated = now\<rparr>"

definition new_stake :: "string \<Rightarrow> rat \<Rightarrow> string \<Rightarrow> int \<Rightarrow> stake_row" where
  "new_stake i amount asset now = \<lparr>stake_oracleId = i, stake_amount = amount, stake_assetCode = asset, stakedAt = now,
     slashedAmount = 0, rewardAmount = 0, lastRewardAt = None\<rparr>"

definition put_stake :: "string \<Rightarrow> rat option \<Rightarrow> string \<Rightarrow> int \<Rightarrow> world \<Rightarrow> world" where
  "put_stake i stake asset now w = (case stake of
     None \<Rightarrow> w
   | Some amount \<Rightarrow> (case lookup_row stake_oracleId i (stakes w) of
       None \<Rightarrow> w\<lparr>stakes := insert_row (new_stake i amount asset now) (stakes w)\<rparr>
     | Some _ \<Rightarrow> w\<lparr>stakes := update_where (\<lambda>s. stake_oracleId s = i)
         (\<lambda>s. s\<lparr>stake_amount := amount, stake_assetCode := asset, stakedAt := now\<rparr>) (stakes w)\<rparr>))"

definition put_reputation :: "string \<Rightarrow> int \<Rightarrow> world \<Rightarrow> world" where
  "put_reputation i now w = (case lookup_row rep_oracleId i (reputations w) of
     None \<Rightarrow> w\<lparr>reputations := insert_row (new_reputation i now) (reputations w)\<rparr>
   | Some _ \<Rightarrow> w)"

definition registerOracle ::
  "oracle_env \<Rightarrow> platform \<Rightarrow> int \<Rightarrow> string \<Rightarrow> create_oracle_input \<Rightarrow> world \<Rightarrow> (world, oracle_row) outcome" where
  "registerOracle V P now new_id input w = (case valid_address V (co_address input) of
     Inl e \<Rightarrow> (Inl e, w)
   | Inr address \<Rightarrow>
     let existing = lookup_row oracle_address address (oracles w);
         otype = or_else (co_oracleType input) ''GENERAL''; asset = or_else (co_assetCode input) ''USDC'' in
     case existing of
       Some o' \<Rightarrow>
         if oracle_isActive o' then (Inl (ConflictError ''Oracle already registered and active''), w)
         else if otype \<notin> set oracle_types then (Inl (PlainError ''Invalid value for argument oracleType''), w)
         else (case stake_of P (co_stakeAmount input) of
           Inl e \<Rightarrow> (Inl e, w)
         | Inr stake \<Rightarrow>
           let o'' = o'\<lparr>oracle_isActive := True, deactivatedAt := None, oracleType := otype,
                 oracle_metadata := (case co_metadata input of None \<Rightarrow> oracle_metadata o' | Some m \<Rightarrow> Some m)\<rparr>;
               w1 = w\<lparr>oracles := update_where (\<lambda>r. oracle_address r = address) (\<lambda>_. o'') (oracles w)\<rparr>
           in (Inr o'', put_reputation (oracle_id o') now (put_stake (oracle_id o') stake asset now w1)))
     | None \<Rightarrow>
         if otype \<notin> set oracle_types then (Inl (PlainError ''Invalid value for argument oracleType''), w)
         else (case stake_of P (co_stakeAmount input) of
           Inl e \<Rightarrow> (Inl e, w)
         | Inr stake \<Rightarrow>
           let o' = \<lparr>oracle_id = new_id, oracle_address = address, oracle_isActive = True, deactivatedAt = None, oracleType = otype,
                 oracle_metadata = co_metadata input, totalConfirmations = 0, successfulConfirmations = 0, failedConfirmations = 0,
                 lastActiveAt = None\<rparr>;
               w1 = w\<lparr>oracles := insert_row o' (oracles w)\<rparr>
           in (Inr o', put_reputation new_id now (put_stake new_id stake asset now w1))))"

definition deactivateOracle :: "oracle_env \<Rightarrow> int \<Rightarrow> string option \<Rightarrow> world \<Rightarrow> (world, oracle_row) outcome" where
  "deactivateOracle V now a w = (case valid_address V a of
     Inl e \<Rightarrow> (Inl e, w)
   | Inr address \<Rightarrow> (case lookup_row oracle_address address (oracles w) of
       None \<Rightarrow> (Inl (NotFoundError ''Oracle not found''), w)
     | Some o' \<Rightarrow>
         if \<not> oracle_isActive o' then (Inl (ValidationError ''Oracle is already deactivated''), w)
         else (Inr (o'\<lparr>oracle_isActive := False, deactivatedAt := Some now\<rparr>),
           w\<lparr>oracles := update_where (\<lambda>r. oracle_address r = address)
             (\<lambda>r. r\<lparr>oracle_isActive := False, deactivatedAt := Some now\<rparr>) (oracles w)\<rparr>)))"

section \<open>Confirmations\<close>

definition window_key :: "rate_limit_row \<Rightarrow> string \<times> int" where
  "window_key r = (rl_oracleId r, minuteWindow r)"

definition checkRateLimit :: "oracle_env \<Rightarrow> int \<Rightarrow> string \<Rightarrow> world \<Rightarrow> app_error + unit" where
  "checkRateLimit V now oracleId w = (case lookup_row window_key (oracleId, minute_window V now) (rate_limits w) of
     Some r \<Rightarrow> if MAX_CONFIRMATIONS_PER_MINUTE \<le> rl_count r
       then Inl (TooManyRequestsError ''Rate limit exceeded for oracle confirmations'') else Inr ()
   | None \<Rightarrow> Inr ())"

definition incrementRateLimit :: "oracle_env \<Rightarrow> int \<Rightarrow> string \<Rightarrow> world \<Rightarrow> world" where
  "incrementRateLimit V now oracleId w = (let k = (oracleId, minute_window V now) in
     case lookup_row window_key k (rate_limits w) of
       None \<Rightarrow> w\<lparr>rate_limits := insert_row \<lparr>rl_oracleId = oracleId, minuteWindow = minute_window V now, rl_count = 1\<rparr> (rate_limits w)\<rparr>
     | Some _ \<Rightarrow> w\<lparr>rate_limits := update_where (\<lambda>r. window_key r = k) (\<lambda>r. r\<lparr>rl_count := rl_count r + 1\<rparr>) (rate_limits w)\<rparr>)"

record confirm_input =
  ci_oracleAddress :: "string option"
  ci_escrowId :: "string option"
  ci_eventType :: "string option"
  ci_signature :: "string option"
  ci_payload :: json
  ci_nonce :: "string option"

definition confirmation_key :: "confirmation_row \<Rightarrow> string \<times> string \<times> string" where
  "confirmation_key c = (conf_oracleId c, conf_escrowId c, conf_eventType c)"

definition signed_message :: "oracle_env \<Rightarrow> string \<Rightarrow> string \<Rightarrow> string \<Rightarrow> json \<Rightarrow> string" where
  "signed_message V escrowId eventType nonce payload = canonicalStringify (json_quote V) (json_num V)
     (JObj [(''escrowId'', JStr escrowId), (''eventType'', JStr eventType), (''nonce'', JStr nonce), (''payload'', payload)])"

definition confirm_tx :: "oracle_env \<Rightarrow> int \<Rightarrow> confirmation_row \<Rightarrow> world \<Rightarrow> (world, confirmation_row) outcome" where
  "confirm_tx V now row w = (case checkRateLimit V now (conf_oracleId row) w of
     Inl e \<Rightarrow> (Inl e, w)
   | Inr _ \<Rightarrow> let w1 = incrementRateLimit V now (conf_oracleId row) w in
       if lookup_row confirmation_key (confirmation_key row) (confirmations w1) \<noteq> None
       then (Inl (PlainError ''Unique constraint failed on the fields: (oracleId,escrowId,eventType)''), w1)
       else (Inr row, w1\<lparr>confirmations := insert_row row (confirmations w1)\<rparr>))"

definition confirmOracleEvent ::
  "oracle_env \<Rightarrow> int \<Rightarrow> string \<Rightarrow> confirm_input \<Rightarrow> world \<Rightarrow> (world, confirmation_row) outcome" where
  "confirmOracleEvent V now new_id input w =
     (case oracle_normalizeAddress (ci_oracleAddress input) of Inl e \<Rightarrow> (Inl e, w) | Inr address \<Rightarrow>
      case requireNonEmptyString (ci_escrowId input) ''escrowId'' of Inl e \<Rightarrow> (Inl e, w) | Inr escrowId \<Rightarrow>
      case requireNonEmptyString (ci_eventType input) ''eventType'' of Inl e \<Rightarrow> (Inl e, w) | Inr eventType \<Rightarrow>
      case requireNonEmptyString (ci_nonce input) ''nonce'' of Inl e \<Rightarrow> (Inl e, w) | Inr nonce \<Rightarrow>
      if \<not> key_ok V address then (Inl (ValidationError ''Invalid Stellar wallet address''), w)
      else case lookup_row oracle_address address (oracles w) of
        None \<Rightarrow> (Inl (UnauthorizedError ''Unknown oracle address''), w)
      | Some o' \<Rightarrow>
        if \<not> oracle_isActive o' then (Inl (UnauthorizedError ''Oracle is not active''), w)
        else if lookup_row escrow_id escrowId (escrows w) = None then (Inl (NotFoundError ''Escrow not found''), w)
        else if lookup_row confirmation_key (oracle_id o', escrowId, eventType) (confirmations w) \<noteq> None
        then (Inl (ConflictError ''Duplicate confirmation for this event''), w)
        else (case decodeSignature V (ci_signature input) of
          Inl e \<Rightarrow> (Inl e, w)
        | Inr bytes \<Rightarrow>
          if \<not> verify_sig V address (signed_message V escrowId eventType nonce (ci_payload input)) bytes
          then (Inl (UnauthorizedError ''Invalid oracle signature''), w)
          else transaction (confirm_tx V now \<lparr>conf_id = new_id, conf_oracleId = oracle_id o', conf_escrowId = escrowId,
              conf_eventType = eventType, conf_signature = the (ci_signature input), conf_payload = ci_payload input,
              conf_createdAt = now\<rparr>) w))"

text \<open>\<open>validateConfirmation\<close>: the same checks on data taken as it comes.\<close>

definition validateConfirmation ::
  "oracle_env \<Rightarrow> string \<Rightarrow> string \<Rightarrow> string \<Rightarrow> string option \<Rightarrow> json \<Rightarrow> string \<Rightarrow> world \<Rightarrow> (world, bool) outcome" where
  "validateConfirmation V address escrowId eventType signature payload nonce w =
     (case lookup_row oracle_address address (oracles w) of
        None \<Rightarrow> (Inl (UnauthorizedError ''Unknown oracle address''), w)
      | Some o' \<Rightarrow>
        if \<not> oracle_isActive o' then (Inl (UnauthorizedError ''Oracle is not active''), w)
        else (case decodeSignature V signature of
          Inl e \<Rightarrow> (Inl e, w)
        | Inr bytes \<Rightarrow>
          if \<not> verify_sig V address (signed_message V escrowId eventType nonce payload) bytes
          then (Inl (UnauthorizedError ''Invalid oracle signature''), w)
          else (Inr True, w)))"

section \<open>Queries\<close>

definition num_default :: "int option \<Rightarrow> int \<Rightarrow> int" where
  "num_default v d = (case v of None \<Rightarrow> d | Some n \<Rightarrow> n)"

definition listOracles :: "bool option \<Rightarrow> int option \<Rightarrow> int option \<Rightarrow> world \<Rightarrow> (world, oracle_row list \<times> nat \<times> int \<times> int) outcome" where
  "listOracles active lmt ofs w =
     (let limit = num_default lmt 50; offset = num_default ofs 0;
          sel = (\<lambda>r. case active of None \<Rightarrow> True | Some b \<Rightarrow> oracle_isActive r = b) in
      (Inr (page_desc sel (nat offset) (nat limit) (oracles w), count_where sel (oracles w), limit, offset), w))"

definition getOracle :: "oracle_env \<Rightarrow> string option \<Rightarrow> world \<Rightarrow> (world, oracle_row \<times> nat) outcome" where
  "getOracle V a w = (case valid_address V a of
     Inl e \<Rightarrow> (Inl e, w)
   | Inr address \<Rightarrow> (case lookup_row oracle_address address (oracles w) of
       None \<Rightarrow> (Inl (NotFoundError ''Oracle not found''), w)
     | Some o' \<Rightarrow> (Inr (o', count_where (\<lambda>c. conf_oracleId c = oracle_id o') (confirmations w)), w)))"

definition getConfirmations ::
  "string \<Rightarrow> int option \<Rightarrow> int option \<Rightarrow> world \<Rightarrow> (world, (confirmation_row \<times> oracle_row option) list \<times> nat \<times> int \<times> int) outcome" where
  "getConfirmations escrowId lmt ofs w =
     (let limit = num_default lmt 50; offset = num_default ofs 0; sel = (\<lambda>c. conf_escrowId c = escrowId) in
      if lookup_row escrow_id escrowId (escrows w) = None then (Inl (NotFoundError ''Escrow not found''), w)
      else (Inr (map (\<lambda>c. (c, lookup_row oracle_id (conf_oracleId c) (oracles w)))
          (page_desc sel (nat offset) (nat limit) (confirmations w)), count_where sel (confirmations w), limit, offset), w))"

section \<open>Disputes\<close>

definition flag_tx :: "string \<Rightarrow> dispute_row \<Rightarrow> world \<Rightarrow> (world, escrow_row option) outcome" where
  "flag_tx escrowId d w =
     (let sel = (\<lambda>r. escrow_id r = escrowId \<and> escrow_status r \<noteq> ESCROW_DISPUTED);
          w1 = w\<lparr>escrows := update_where sel (\<lambda>r. r\<lparr>escrow_status := ESCROW_DISPUTED\<rparr>) (escrows w)\<rparr> in
      if count_where sel (escrows w) = 0 then (Inl (ConflictError ''Escrow is already disputed''), w1)
      else let w2 = w1\<lparr>disputes := insert_row d (disputes w1)\<rparr> in
        (Inr (lookup_row escrow_id escrowId (escrows w2)), w2))"

text \<open>\<open>flagDispute\<close>; \<open>env\<close> runs between its first read and its transaction.\<close>

definition flagDispute ::
  "oracle_env \<Rightarrow> (world \<Rightarrow> world) \<Rightarrow> string \<Rightarrow> string \<Rightarrow> string option \<Rightarrow> string option \<Rightarrow> world
    \<Rightarrow> (world, escrow_row option \<times> dispute_row) outcome" where
  "flagDispute V env new_id escrowId reasonText disputer w =
     (case valid_address V disputer of Inl e \<Rightarrow> (Inl e, w) | Inr address \<Rightarrow>
      case requireNonEmptyString reasonText ''reason'' of Inl e \<Rightarrow> (Inl e, w) | Inr disputeReason \<Rightarrow>
      case lookup_row escrow_id escrowId (escrows w) of
        None \<Rightarrow> (Inl (NotFoundError ''Escrow not found''), w)
      | Some escrow \<Rightarrow>
        if escrow_status escrow = ESCROW_DISPUTED then (Inl (ConflictError ''Escrow is already disputed''), w)
        else let d = \<lparr>dispute_id = new_id, dispute_escrowId = escrowId, reporterAddress = address, dispute_reason = disputeReason,
              dispute_status = DISPUTE_OPEN, dispute_resolution = None, resolvedAt = None\<rparr> in
          case transaction (flag_tx escrowId d) (env w) of
            (Inl e, w') \<Rightarrow> (Inl e, w')
          | (Inr updated, w') \<Rightarrow> (Inr (updated, d), w'\<lparr>dispute_events := dispute_events w' @ [(new_id, escrowId)]\<rparr>))"

section \<open>Reputation, rewards and slashing\<close>

definition clamp100 :: "'a::linordered_idom \<Rightarrow> 'a" where
  "clamp100 x = max 0 (min 100 x)"

text \<open>The new reputation row; \<open>ok\<close> is the outcome \<open>success\<close>.\<close>

definition next_reputation :: "oracle_env \<Rightarrow> int \<Rightarrow> bool \<Rightarrow> reputation_row \<Rightarrow> reputation_row" where
  "next_reputation V now ok r =
     (let votes' = totalVotes r + 1; pos = (if ok then positiveVotes r + 1 else positiveVotes r) in
      r\<lparr>rep_score := clamp100 (rep_score r + (if ok then 2 else -5)),
        rep_accuracy := col5_2 V (clamp100 (fl64 (fl64 (rep_accuracy r) + (if ok then 1 else -2)))),
        rep_reliability := col5_2 V (fl64 (fl64 (of_nat pos / of_nat votes') * 100)),
        totalVotes := votes', positiveVotes := pos,
        negativeVotes := (if ok then negativeVotes r else negativeVotes r + 1), rep_lastUpdated := now\<rparr>)"

definition count_outcome :: "int \<Rightarrow> bool \<Rightarrow> oracle_row \<Rightarrow> oracle_row" where
  "count_outcome now ok r = r\<lparr>totalConfirmations := totalConfirmations r + 1,
     successfulConfirmations := (if ok then successfulConfirmations r + 1 else successfulConfirmations r),
     failedConfirmations := (if ok then failedConfirmations r else failedConfirmations r + 1), lastActiveAt := Some now\<rparr>"

definition updateReputation :: "oracle_env \<Rightarrow> int \<Rightarrow> string \<Rightarrow> bool \<Rightarrow> world \<Rightarrow> (world, reputation_row) outcome" where
  "updateReputation V now oracleId ok w =
     (case (lookup_row oracle_id oracleId (oracles w), lookup_row rep_oracleId oracleId (reputations w)) of
        (Some o', Some r) \<Rightarrow> (Inr (next_reputation V now ok r),
          w\<lparr>reputations := update_where (\<lambda>r. rep_oracleId r = oracleId) (next_reputation V now ok) (reputations w),
            oracles := update_where (\<lambda>r. oracle_id r = oracleId) (count_outcome now ok) (oracles w)\<rparr>)
      | _ \<Rightarrow> (Inl (NotFoundError ''Oracle or reputation not found''), w))"

definition getOracleReputation ::
  "string \<Rightarrow> world \<Rightarrow> (world, oracle_row \<times> reputation_row option \<times> stake_row option) outcome" where
  "getOracleReputation oracleId w = (case lookup_row oracle_id oracleId (oracles w) of
     None \<Rightarrow> (Inl (NotFoundError ''Oracle not found''), w)
   | Some o' \<Rightarrow> (Inr (o', lookup_row rep_oracleId oracleId (reputations w), lookup_row stake_oracleId oracleId (stakes w)), w))"

definition distributeReward ::
  "platform \<Rightarrow> int \<Rightarrow> string \<Rightarrow> string \<Rightarrow> rat \<Rightarrow> string \<Rightarrow> string option \<Rightarrow> world \<Rightarrow> (world, reward_row) outcome" where
  "distributeReward P now new_id oracleId amount why confirmationId w = (case lookup_row oracle_id oracleId (oracles w) of
     None \<Rightarrow> (Inl (NotFoundError ''Oracle not found''), w)
   | Some o' \<Rightarrow>
       if why \<notin> set reward_reasons then (Inl (PlainError ''Invalid value for argument reason''), w)
       else case store20_7 P amount of
         Inl e \<Rightarrow> (Inl e, w)
       | Inr stored \<Rightarrow>
         let row = \<lparr>reward_id = new_id, reward_oracleId = oracleId, reward_amount = stored, reward_assetCode = ''USDC'',
               reward_reason = why, reward_confirmationId = confirmationId\<rparr>;
             w1 = w\<lparr>rewards := insert_row row (rewards w)\<rparr> in
         case lookup_row stake_oracleId oracleId (stakes w) of
           None \<Rightarrow> (Inr row, w1)
         | Some s \<Rightarrow> (case store20_7 P (rewardAmount s + amount) of
             Inl e \<Rightarrow> (Inl e, w1)
           | Inr v \<Rightarrow> (Inr row, w1\<lparr>stakes := update_where (\<lambda>s. stake_oracleId s = oracleId)
               (\<lambda>s. s\<lparr>rewardAmount := v, lastRewardAt := Some now\<rparr>) (stakes w1)\<rparr>)))"

definition slashStake ::
  "oracle_env \<Rightarrow> platform \<Rightarrow> int \<Rightarrow> string \<Rightarrow> rat \<Rightarrow> world \<Rightarrow> (world, stake_row) outcome" where
  "slashStake V P now oracleId amount w =
     (case (lookup_row oracle_id oracleId (oracles w), lookup_row stake_oracleId oracleId (stakes w)) of
        (Some o', Some s) \<Rightarrow>
          if fl64 (stake_amount s) < amount then (Inl (ValidationError ''Insufficient stake to slash''), w)
          else (case (store20_7 P (stake_amount s - amount), store20_7 P (slashedAmount s + amount)) of
              (Inr left', Inr slashed) \<Rightarrow>
                let s' = s\<lparr>stake_amount := left', slashedAmount := slashed\<rparr>;
                    w1 = w\<lparr>stakes := update_where (\<lambda>r. stake_oracleId r = oracleId)
                      (\<lambda>r. r\<lparr>stake_amount := left', slashedAmount := slashed\<rparr>) (stakes w)\<rparr> in
                (case updateReputation V now oracleId False w1 of
                   (Inl e, w2) \<Rightarrow> (Inl e, w2)
                 | (Inr _, w2) \<Rightarrow> (Inr s', w2))
            | _ \<Rightarrow> (Inl (PlainError ''numeric field overflow''), w))
      | _ \<Rightarrow> (Inl (NotFoundError ''Oracle or stake not found''), w))"

text \<open>
  The loop of \<open>resolveDispute\<close> over the escrow's confirmations. Its calls use the plain
  database client, not the transaction's.
\<close>

fun settle_confirmations ::
  "oracle_env \<Rightarrow> platform \<Rightarrow> int \<Rightarrow> bool \<Rightarrow> string list \<Rightarrow> world \<Rightarrow> (world, unit) outcome" where
  "settle_confirmations V P now favor_reporter [] w = (Inr (), w)"
| "settle_confirmations V P now favor_reporter (i # is) w =
     (case updateReputation V now i (\<not> favor_reporter) w of
        (Inl e, w1) \<Rightarrow> (Inl e, w1)
      | (Inr _, w1) \<Rightarrow>
        if favor_reporter
        then (case slashStake V P now i 100 w1 of
            (Inl e, w2) \<Rightarrow> (Inl e, w2)
          | (Inr _, w2) \<Rightarrow> settle_confirmations V P now favor_reporter is w2)
        else settle_confirmations V P now favor_reporter is w1)"

definition resolve_row :: "int \<Rightarrow> string \<Rightarrow> dispute_row \<Rightarrow> dispute_row" where
  "resolve_row now text d = d\<lparr>dispute_status := DISPUTE_RESOLVED, dispute_resolution := Some text, resolvedAt := Some now\<rparr>"

text \<open>
  When the loop throws, the transaction undoes the update of the dispute, and only that:
  what the loop wrote before stays.
\<close>

definition resolveDispute ::
  "oracle_env \<Rightarrow> platform \<Rightarrow> int \<Rightarrow> string \<Rightarrow> string \<Rightarrow> bool \<Rightarrow> world \<Rightarrow> (world, dispute_row) outcome" where
  "resolveDispute V P now disputeId text favor_reporter w = (case lookup_row dispute_id disputeId (disputes w) of
     None \<Rightarrow> (Inl (NotFoundError ''Dispute not found''), w)
   | Some d \<Rightarrow>
       if dispute_status d \<noteq> DISPUTE_OPEN then (Inl (ValidationError ''Dispute is not open''), w)
       else case settle_confirmations V P now favor_reporter
           (map conf_oracleId (filter (\<lambda>c. conf_escrowId c = dispute_escrowId d) (confirmations w))) w of
         (Inl e, w1) \<Rightarrow> (Inl e, w1)
       | (Inr _, w1) \<Rightarrow> (Inr (resolve_row now text d),
           w1\<lparr>disputes := update_where (\<lambda>x. dispute_id x = disputeId) (resolve_row now text) (disputes w1)\<rparr>))"

section \<open>Threshold signatures\<close>

definition createThresholdSignature ::
  "string \<Rightarrow> string \<Rightarrow> string \<Rightarrow> int \<Rightarrow> world \<Rightarrow> (world, threshold_row) outcome" where
  "createThresholdSignature new_id escrowId eventType required w =
     (if lookup_row escrow_id escrowId (escrows w) = None then (Inl (NotFoundError ''Escrow not found''), w)
      else let row = \<lparr>thr_id = new_id, thr_escrowId = escrowId, thr_eventType = eventType, requiredSigs = required,
             collectedSigs = 0, thr_signatures = [], thr_status = SIG_PENDING, thr_completedAt = None\<rparr>
        in (Inr row, w\<lparr>thresholds := insert_row row (thresholds w)\<rparr>))"

definition addThresholdSignature ::
  "int \<Rightarrow> string \<Rightarrow> string \<Rightarrow> string \<Rightarrow> world \<Rightarrow> (world, threshold_row) outcome" where
  "addThresholdSignature now thresholdId address signature w = (case lookup_row thr_id thresholdId (thresholds w) of
     None \<Rightarrow> (Inl (NotFoundError ''Threshold signature not found''), w)
   | Some t \<Rightarrow>
       if thr_status t \<noteq> SIG_PENDING then (Inl (ValidationError ''Threshold signature is not pending''), w)
       else if find (\<lambda>s. fst s = address) (thr_signatures t) \<noteq> None then (Inl (ConflictError ''Oracle already signed''), w)
       else let sigs = thr_signatures t @ [(address, signature, now)]; done' = requiredSigs t \<le> int (length sigs);
            t' = t\<lparr>thr_signatures := sigs, collectedSigs := int (length sigs),
              thr_status := (if done' then SIG_COMPLETED else SIG_PENDING),
              thr_completedAt := (if done' then Some now else None)\<rparr>
         in (Inr t', w\<lparr>thresholds := update_where (\<lambda>x. thr_id x = thresholdId) (\<lambda>_. t') (thresholds w)\<rparr>))"

definition getThresholdSignature :: "string \<Rightarrow> world \<Rightarrow> (world, threshold_row) outcome" where
  "getThresholdSignature i w = (case lookup_row thr_id i (thresholds w) of
     None \<Rightarrow> (Inl (NotFoundError ''Threshold signature not found''), w)
   | Some t \<Rightarrow> (Inr t, w))"

section \<open>Metrics\<close>

record oracle_metrics =
  om_activeOracles :: nat
  om_totalOracles :: nat
  om_inactiveOracles :: int
  om_totalConfirmations :: nat
  om_confirmationsLast30Days :: nat
  om_avgConfirmationsPerOracle :: rat
  om_escrowCounts :: "escrow_status \<Rightarrow> nat option"

definition getOracleMetrics :: "int \<Rightarrow> world \<Rightarrow> oracle_metrics" where
  "getOracleMetrics now w =
     (let active = count_where oracle_isActive (oracles w); tot = length (oracles w);
          avg = (if 0 < tot then fl64 (of_nat (length (confirmations w)) / of_nat tot) else 0) in
      \<lparr>om_activeOracles = active, om_totalOracles = tot, om_inactiveOracles = int tot - int active,
       om_totalConfirmations = length (confirmations w),
       om_confirmationsLast30Days = count_where (\<lambda>c. now - 30 * 24 * 60 * 60 * 1000 \<le> conf_createdAt c) (confirmations w),
       om_avgConfirmationsPerOracle = fl64 (of_int (math_round (fl64 (avg * 100))) / 100),
       om_escrowCounts = (\<lambda>s. let n = count_where (\<lambda>r. escrow_status r = s) (escrows w) in if n = 0 then None else Some n)\<rparr>)"

definition average :: "rat list \<Rightarrow> rat" where
  "average xs = (if xs = [] then 0 else sum_list xs / of_nat (length xs))"

record network_status =
  ns_activeOracles :: nat
  ns_totalOracles :: nat
  ns_networkHealth :: rat
  ns_recentActivity :: nat
  ns_score :: rat
  ns_accuracy :: rat
  ns_reliability :: rat
  ns_oraclesByType :: "string \<Rightarrow> nat option"

definition getOracleNetworkStatus :: "int \<Rightarrow> world \<Rightarrow> network_status" where
  "getOracleNetworkStatus now w =
     (let active = count_where oracle_isActive (oracles w);
          recent = count_where (\<lambda>c. now - 60 * 60 * 1000 \<le> conf_createdAt c) (confirmations w);
          health = (if 0 < active then fl64 (fl64 (of_nat recent / of_nat active) * 100) else 0) in
      \<lparr>ns_activeOracles = active, ns_totalOracles = length (oracles w), ns_networkHealth = min 100 health,
       ns_recentActivity = recent, ns_score = average (map (\<lambda>r. of_int (rep_score r)) (reputations w)),
       ns_accuracy = average (map rep_accuracy (reputations w)), ns_reliability = average (map rep_reliability (reputations w)),
       ns_oraclesByType = (\<lambda>t. let n = count_where (\<lambda>r. oracle_isActive r \<and> oracleType r = t) (oracles w) in
          if n = 0 then None else Some n)\<rparr>)"

lemmas [step_defs] = registerOracle_def deactivateOracle_def confirmOracleEvent_def flagDispute_def updateReputation_def
  distributeReward_def slashStake_def resolveDispute_def createThresholdSignature_def addThresholdSignature_def

section \<open>The rate limit of confirmations\<close>

definition confirmed_in :: "oracle_env \<Rightarrow> string \<Rightarrow> int \<Rightarrow> world \<Rightarrow> nat" where
  "confirmed_in V i m w = count_where (\<lambda>c. conf_oracleId c = i \<and> minute_window V (conf_createdAt c) = m) (confirmations w)"

definition window_count :: "string \<Rightarrow> int \<Rightarrow> world \<Rightarrow> nat" where
  "window_count i m w = (case lookup_row window_key (i, m) (rate_limits w) of None \<Rightarrow> 0 | Some r \<Rightarrow> rl_count r)"

interpretation window_tab: keyed_table window_key "\<lambda>t. t" "lookup_row window_key" insert_row update_where delete_where
  by (rule keyed_rows)

interpretation confirmation_tab: keyed_table confirmation_key "\<lambda>t. t" "lookup_row confirmation_key" insert_row update_where delete_where
  by (rule keyed_rows)

definition confirmations_ok :: "oracle_env \<Rightarrow> world \<Rightarrow> bool" where
  "confirmations_ok V w \<longleftrightarrow> distinct (map confirmation_key (confirmations w))
     \<and> (\<forall>i m. confirmed_in V i m w = window_count i m w \<and> window_count i m w \<le> MAX_CONFIRMATIONS_PER_MINUTE)"

lemma window_count_increment:
  "window_count i m (incrementRateLimit V now j w) = window_count i m w + (if i = j \<and> m = minute_window V now then 1 else 0)"
proof (cases "lookup_row window_key (j, minute_window V now) (rate_limits w)")
  case None
  then show ?thesis
    by (auto simp: window_count_def incrementRateLimit_def window_tab.lookup_insert window_key_def Let_def split: option.split)
next
  case (Some r)
  have "window_key (x\<lparr>rl_count := n\<rparr>) = window_key x" for x n by (simp add: window_key_def)
  then show ?thesis
    using Some by (auto simp: window_count_def incrementRateLimit_def window_tab.lookup_update_at Let_def split: option.split)
qed

lemma increment_simps [simp]:
  "confirmations (incrementRateLimit V now j w) = confirmations w" "oracles (incrementRateLimit V now j w) = oracles w"
  by (simp_all add: incrementRateLimit_def Let_def split: option.split)

lemma confirm_tx_ok:
  assumes "confirmations_ok V w" and run: "confirm_tx V (conf_createdAt row) row w = (Inr x, w')"
  shows "confirmations_ok V w' \<and> x = row"
proof -
  let ?i = "conf_oracleId row" and ?m = "minute_window V (conf_createdAt row)"
  have free: "window_count ?i ?m w < MAX_CONFIRMATIONS_PER_MINUTE"
    using run by (auto simp: confirm_tx_def checkRateLimit_def window_count_def MAX_CONFIRMATIONS_PER_MINUTE_def
        split: sum.splits option.splits if_splits)
  have w': "w' = (incrementRateLimit V (conf_createdAt row) ?i w)\<lparr>confirmations := confirmations w @ [row]\<rparr>" "x = row"
    and new: "lookup_row confirmation_key (confirmation_key row) (confirmations w) = None"
    using run by (auto simp: confirm_tx_def Let_def insert_row_def split: sum.splits if_splits)
  have "window_count i m w' = window_count i m (incrementRateLimit V (conf_createdAt row) ?i w)" for i m
    by (simp add: window_count_def w')
  moreover have "confirmed_in V i m w' = confirmed_in V i m w + (if i = ?i \<and> m = ?m then 1 else 0)" for i m
    by (auto simp: confirmed_in_def count_where_def w')
  ultimately show ?thesis
    using assms(1) free new w'
    by (auto simp: confirmations_ok_def window_count_increment confirmation_tab.lookup_None_iff)
qed

lemma confirmOracleEvent_tx:
  assumes "confirmOracleEvent V now i input w = (Inr c, w')"
  obtains o' escrowId eventType nonce bytes row where "lookup_row oracle_address (oracle_address o') (oracles w) = Some o'" "oracle_isActive o'"
    "lookup_row escrow_id escrowId (escrows w) \<noteq> None" "decodeSignature V (ci_signature input) = Inr bytes"
    "verify_sig V (oracle_address o') (signed_message V escrowId eventType nonce (ci_payload input)) bytes"
    "conf_oracleId row = oracle_id o'" "conf_escrowId row = escrowId" "conf_eventType row = eventType" "conf_createdAt row = now"
    "conf_payload row = ci_payload input" "confirm_tx V now row w = (Inr c, w')"
proof -
  note * = assms [unfolded confirmOracleEvent_def]
  obtain a where a: "oracle_normalizeAddress (ci_oracleAddress input) = Inr a" using * by (auto split: sum.splits)
  obtain e where e: "requireNonEmptyString (ci_escrowId input) ''escrowId'' = Inr e" using * a by (auto split: sum.splits)
  obtain t where t: "requireNonEmptyString (ci_eventType input) ''eventType'' = Inr t" using * a e by (auto split: sum.splits)
  obtain n where n: "requireNonEmptyString (ci_nonce input) ''nonce'' = Inr n" using * a e t by (auto split: sum.splits)
  note ** = * [simplified a e t n sum.case]
  obtain o' where o': "lookup_row oracle_address a (oracles w) = Some o'" using ** by (auto split: if_splits option.splits)
  have act: "oracle_isActive o'" and esc: "lookup_row escrow_id e (escrows w) \<noteq> None"
    using ** o' by (auto split: if_splits)
  obtain b where b: "decodeSignature V (ci_signature input) = Inr b"
    using ** o' by (auto split: if_splits sum.splits)
  let ?row = "\<lparr>conf_id = i, conf_oracleId = oracle_id o', conf_escrowId = e, conf_eventType = t,
     conf_signature = the (ci_signature input), conf_payload = ci_payload input, conf_createdAt = now\<rparr>"
  have v: "verify_sig V a (signed_message V e t n (ci_payload input)) b" and tx: "transaction (confirm_tx V now ?row) w = (Inr c, w')"
    using ** o' b by (auto split: if_splits)
  have "a = oracle_address o'" using o' by (auto simp: lookup_row_def dest: find_SomeD)
  then show ?thesis
    using o' act esc b v tx by (intro that [of o' e b t n ?row]) (simp_all add: transaction_Inr)
qed

lemma confirmOracleEvent_ok:
  assumes "confirmations_ok V w"
  shows "confirmations_ok V (snd (confirmOracleEvent V now i input w))"
proof (cases "fst (confirmOracleEvent V now i input w)")
  case (Inl e)
  then have "snd (confirmOracleEvent V now i input w) = w"
    by (auto simp: confirmOracleEvent_def transaction_def split: sum.splits option.splits if_splits prod.splits)
  then show ?thesis using assms by simp
next
  case (Inr c)
  then have run: "confirmOracleEvent V now i input w = (Inr c, snd (confirmOracleEvent V now i input w))"
    by (metis prod.collapse)
  show ?thesis
    by (rule confirmOracleEvent_tx [OF run]) (use confirm_tx_ok [OF assms] in blast)
qed

text \<open>Steps of the confirmation handler, between steps that touch neither table.\<close>

inductive confirmation_step :: "oracle_env \<Rightarrow> world \<Rightarrow> world \<Rightarrow> bool" for V where
  step_confirm: "confirmation_step V w (snd (confirmOracleEvent V now i input w))"
| step_elsewhere: "confirmations w' = confirmations w \<Longrightarrow> rate_limits w' = rate_limits w \<Longrightarrow> confirmation_step V w w'"

lemma confirmation_reach_ok:
  "(confirmation_step V)\<^sup>*\<^sup>* w w' \<Longrightarrow> confirmations_ok V w \<Longrightarrow> confirmations_ok V w'"
proof (induction rule: rtranclp_induct)
  case (step u v)
  from step.hyps(2) show ?case
  proof cases
    case (step_confirm now i input)
    then show ?thesis using confirmOracleEvent_ok step.IH step.prems by simp
  next
    case step_elsewhere
    then show ?thesis using step.IH step.prems by (simp add: confirmations_ok_def confirmed_in_def window_count_def)
  qed
qed


definition demo_oracle_env :: oracle_env where
  "demo_oracle_env = \<lparr>key_ok = (\<lambda>_. True), verify_sig = (\<lambda>_ _ _. True), from_hex = (\<lambda>_. []),
     from_base64 = (\<lambda>_. replicate 64 (CHR ''x'')), json_quote = (\<lambda>s. s), json_num = (\<lambda>_. ''1''), minute_window = (\<lambda>t. t div 60000),
     col5_2 = (\<lambda>x. x)\<rparr>"

definition demo_oracle :: oracle_row where
  "demo_oracle = \<lparr>oracle_id = ''o1'', oracle_address = ''GO'', oracle_isActive = True, deactivatedAt = None, oracleType = ''GENERAL'',
     oracle_metadata = None, totalConfirmations = 0, successfulConfirmations = 0, failedConfirmations = 0, lastActiveAt = None\<rparr>"

definition demo_oracle_world :: world where
  "demo_oracle_world = empty_world\<lparr>oracles := [demo_oracle], escrows := [demo_escrow], reputations := [new_reputation ''o1'' 0]\<rparr>"

definition demo_confirm :: confirm_input where
  "demo_confirm = \<lparr>ci_oracleAddress = Some ''go'', ci_escrowId = Some ''e1'', ci_eventType = Some ''t'', ci_signature = Some ''c2ln'',
     ci_payload = JNull, ci_nonce = Some ''n''\<rparr>"

definition demo_confirmation :: confirmation_row where
  "demo_confirmation = \<lparr>conf_id = ''k1'', conf_oracleId = ''o1'', conf_escrowId = ''e1'', conf_eventType = ''t'', conf_signature = ''c2ln'',
     conf_payload = JNull, conf_createdAt = 5\<rparr>"

lemma demo_confirm_run:
  "confirmOracleEvent demo_oracle_env 5 ''k1'' demo_confirm demo_oracle_world
   = (Inr demo_confirmation, demo_oracle_world\<lparr>rate_limits := [\<lparr>rl_oracleId = ''o1'', minuteWindow = 0, rl_count = 1\<rparr>],
        confirmations := [demo_confirmation]\<rparr>)"
proof -
  have p: "oracle_normalizeAddress (Some ''go'') = Inr ''GO''" "requireNonEmptyString (Some ''e1'') ''escrowId'' = Inr ''e1''"
    "requireNonEmptyString (Some ''t'') ''eventType'' = Inr ''t''" "requireNonEmptyString (Some ''n'') ''nonce'' = Inr ''n''"
    "requireNonEmptyString (Some ''c2ln'') ''signature'' = Inr ''c2ln''" "base64_text ''c2ln''"
    by code_simp+
  then have d: "decodeSignature demo_oracle_env (Some ''c2ln'') = Inr (replicate 64 (CHR ''x''))"
    by (simp add: decodeSignature_def demo_oracle_env_def)
  have e: "key_ok demo_oracle_env a" "verify_sig demo_oracle_env a m b" "minute_window demo_oracle_env 5 = 0" for a m b
    by (simp_all add: demo_oracle_env_def)
  show ?thesis
    by (simp add: confirmOracleEvent_def demo_confirm_def p d e demo_oracle_world_def demo_oracle_def demo_escrow_def lookup_row_def
        empty_world_def transaction_def confirm_tx_def checkRateLimit_def incrementRateLimit_def insert_row_def
        demo_confirmation_def Let_def)
qed


section \<open>Reputation\<close>

definition reputation_ok :: "reputation_row \<Rightarrow> bool" where
  "reputation_ok r \<longleftrightarrow> rep_score r \<in> {0..100} \<and> rep_accuracy r \<in> {0..100} \<and> rep_reliability r \<in> {0..100}
     \<and> totalVotes r = positiveVotes r + negativeVotes r"

lemma clamp100_range [simp]: "0 \<le> clamp100 x" "clamp100 x \<le> 100"
  by (simp_all add: clamp100_def)

lemma reliability_range:
  assumes "p \<le> n" "0 < n"
  shows "0 \<le> fl64 (fl64 (of_nat p / of_nat n) * 100) \<and> fl64 (fl64 (of_nat p / of_nat n) * 100) \<le> 100"
proof -
  have "of_nat p / of_nat n \<le> (1 :: rat)" using assms by (simp add: divide_le_eq)
  then have "fl64 (of_nat p / of_nat n) \<le> 1" using js.fl_mono [of "of_nat p / of_nat n" 1] by simp
  then have "fl64 (of_nat p / of_nat n) * 100 \<le> of_int 100" by simp
  moreover have "0 \<le> fl64 (of_nat p / of_nat n)" by (intro js.fl_nonneg) simp
  ultimately show ?thesis
    using js.fl_le_int [of 100 "fl64 (of_nat p / of_nat n) * 100"] js.fl_nonneg [of "fl64 (of_nat p / of_nat n) * 100"] by simp
qed

lemma next_reputation_fields [simp]:
  "totalVotes (next_reputation V now ok r) = totalVotes r + 1"
  "positiveVotes (next_reputation V now ok r) = positiveVotes r + (if ok then 1 else 0)"
  "negativeVotes (next_reputation V now ok r) = negativeVotes r + (if ok then 0 else 1)"
  "rep_score (next_reputation V now ok r) = max 0 (min 100 (rep_score r + (if ok then 2 else -5)))"
  "rep_oracleId (next_reputation V now ok r) = rep_oracleId r"
  by (simp_all add: next_reputation_def clamp100_def Let_def)

definition percent_column :: "(rat \<Rightarrow> rat) \<Rightarrow> bool" where
  "percent_column c \<longleftrightarrow> (\<forall>x. 0 \<le> x \<and> x \<le> 100 \<longrightarrow> 0 \<le> c x \<and> c x \<le> 100)"

lemma next_reputation_ok:
  assumes "percent_column (col5_2 V)" and "reputation_ok r"
  shows "reputation_ok (next_reputation V now ok r)"
proof -
  let ?p = "if ok then positiveVotes r + 1 else positiveVotes r"
  let ?x = "fl64 (fl64 (of_nat ?p / of_nat (totalVotes r + 1)) * 100)"
  have "?p \<le> totalVotes r + 1" using assms(2) by (simp add: reputation_ok_def)
  then have rel: "0 \<le> ?x \<and> ?x \<le> 100" by (rule reliability_range) simp
  have acc: "rep_accuracy (next_reputation V now ok r) = col5_2 V (clamp100 (fl64 (fl64 (rep_accuracy r) + (if ok then 1 else -2))))"
    and rl: "rep_reliability (next_reputation V now ok r) = col5_2 V ?x"
    by (simp_all add: next_reputation_def Let_def)
  have "0 \<le> col5_2 V x \<and> col5_2 V x \<le> 100" if "0 \<le> x" "x \<le> 100" for x
    using assms(1) that by (simp add: percent_column_def)
  then have "rep_accuracy (next_reputation V now ok r) \<in> {0..100}" "rep_reliability (next_reputation V now ok r) \<in> {0..100}"
    unfolding acc rl using rel by (simp_all only: atLeastAtMost_iff clamp100_range)
  then show ?thesis using assms(2) by (simp add: reputation_ok_def)
qed


lemma percent_column_demo: "percent_column (col5_2 demo_oracle_env)"
  by (simp add: percent_column_def demo_oracle_env_def)


lemma updateReputation_run:
  assumes "lookup_row oracle_id i (oracles w) = Some o'" "lookup_row rep_oracleId i (reputations w) = Some r"
  shows "\<exists>w'. updateReputation V now i ok w = (Inr (next_reputation V now ok r), w')
    \<and> lookup_row rep_oracleId i (reputations w') = Some (next_reputation V now ok r)
    \<and> lookup_row oracle_id i (oracles w') = Some (count_outcome now ok o')
    \<and> stakes w' = stakes w \<and> disputes w' = disputes w \<and> confirmations w' = confirmations w"
proof -
  have "rep_oracleId (next_reputation V now ok r) = rep_oracleId r" "oracle_id (count_outcome now ok q) = oracle_id q" for r q
    by (simp_all add: next_reputation_def count_outcome_def Let_def)
  then show ?thesis
    using assms by (simp add: updateReputation_def reputation_tab.lookup_update_at oracle_tab.lookup_update_at)
qed

text \<open>
  A dispute lost by an oracle costs it two failures, not one: \<open>resolveDispute\<close> in
  favour of the reporter records a failure itself and slashing the stake records another,
  so one lost dispute takes ten points and counts two negative votes.
\<close>

theorem lost_dispute_counts_twice:
  assumes "lookup_row dispute_id d (disputes w) = Some dr" "dispute_status dr = DISPUTE_OPEN"
    and "map conf_oracleId (filter (\<lambda>c. conf_escrowId c = dispute_escrowId dr) (confirmations w)) = [i]"
    and o': "lookup_row oracle_id i (oracles w) = Some o'" and r: "lookup_row rep_oracleId i (reputations w) = Some r"
    and s: "lookup_row stake_oracleId i (stakes w) = Some s" "100 \<le> stake_amount s"
    and col: "store20_7 P (stake_amount s - 100) = Inr x" "store20_7 P (slashedAmount s + 100) = Inr y"
  shows "\<exists>w' r'. resolveDispute V P now d msg True w = (Inr (resolve_row now msg dr), w')
    \<and> lookup_row rep_oracleId i (reputations w') = Some r'
    \<and> negativeVotes r' = negativeVotes r + 2 \<and> totalVotes r' = totalVotes r + 2
    \<and> (10 \<le> rep_score r \<and> rep_score r \<le> 100 \<longrightarrow> rep_score r' = rep_score r - 10)
    \<and> (\<exists>q. lookup_row oracle_id i (oracles w') = Some q \<and> failedConfirmations q = failedConfirmations o' + 2)"
proof -
  obtain w1 where w1: "updateReputation V now i False w = (Inr (next_reputation V now False r), w1)"
    "lookup_row rep_oracleId i (reputations w1) = Some (next_reputation V now False r)"
    "lookup_row oracle_id i (oracles w1) = Some (count_outcome now False o')" "stakes w1 = stakes w"
    "disputes w1 = disputes w" "confirmations w1 = confirmations w"
    using updateReputation_run [OF o' r] by metis
  let ?w = "w1\<lparr>stakes := update_where (\<lambda>r. stake_oracleId r = i) (\<lambda>r. r\<lparr>stake_amount := x, slashedAmount := y\<rparr>) (stakes w1)\<rparr>"
  have a: "lookup_row oracle_id i (oracles ?w) = Some (count_outcome now False o')"
    "lookup_row rep_oracleId i (reputations ?w) = Some (next_reputation V now False r)" and dw: "disputes ?w = disputes w"
    using w1 by simp_all
  obtain w2 where w2: "updateReputation V now i False ?w
      = (Inr (next_reputation V now False (next_reputation V now False r)), w2)"
    "lookup_row rep_oracleId i (reputations w2) = Some (next_reputation V now False (next_reputation V now False r))"
    "lookup_row oracle_id i (oracles w2) = Some (count_outcome now False (count_outcome now False o'))"
    "disputes w2 = disputes w"
    using updateReputation_run [OF a, of V now False] unfolding dw by blast
  have fl: "\<not> fl64 (stake_amount s) < 100"
    using js.fl_ge_int [of 100 "stake_amount s"] s(2) by simp
  have sl: "\<exists>s'. slashStake V P now i 100 w1 = (Inr s', w2)"
    using w1 s col fl w2(1) by (simp add: slashStake_def Let_def)
  have run: "resolveDispute V P now d msg True w = (Inr (resolve_row now msg dr),
      w2\<lparr>disputes := update_where (\<lambda>x. dispute_id x = d) (resolve_row now msg) (disputes w2)\<rparr>)"
    using assms(1-3) w1(1) sl by (auto simp: resolveDispute_def)
  show ?thesis
    unfolding run using w2(2,3) by (auto simp: count_outcome_def)
qed

definition demo_dispute :: dispute_row where
  "demo_dispute = \<lparr>dispute_id = ''d1'', dispute_escrowId = ''e1'', reporterAddress = ''GR'',
       dispute_reason = ''r'', dispute_status = DISPUTE_OPEN, dispute_resolution = None, resolvedAt = None\<rparr>"

lemma demo_dispute_fields [simp]: "dispute_id demo_dispute = ''d1''" "dispute_escrowId demo_dispute = ''e1''"
  "dispute_status demo_dispute = DISPUTE_OPEN"
  by (simp_all add: demo_dispute_def)

definition demo_dispute_world :: world where
  "demo_dispute_world = demo_oracle_world\<lparr>confirmations := [demo_confirmation], stakes := [new_stake ''o1'' 250 ''USDC'' 0],
     disputes := [demo_dispute]\<rparr>"

lemma demo_dispute_world:
  "lookup_row dispute_id ''d1'' (disputes demo_dispute_world) = Some demo_dispute"
  "map conf_oracleId (filter (\<lambda>c. conf_escrowId c = dispute_escrowId demo_dispute) (confirmations demo_dispute_world)) = [''o1'']"
  "lookup_row oracle_id ''o1'' (oracles demo_dispute_world) = Some demo_oracle"
  "lookup_row rep_oracleId ''o1'' (reputations demo_dispute_world) = Some (new_reputation ''o1'' 0)"
  "lookup_row stake_oracleId ''o1'' (stakes demo_dispute_world) = Some (new_stake ''o1'' 250 ''USDC'' 0)"
  by (simp_all add: demo_dispute_world_def demo_oracle_world_def demo_confirmation_def demo_oracle_def lookup_row_def
      new_reputation_def new_stake_def)

theorem lost_dispute_counts_twice_witness:
  "\<exists>(w :: world) w' r'. resolveDispute demo_oracle_env demo_platform 9 ''d1'' ''t'' True w
       = (Inr (resolve_row 9 ''t'' demo_dispute), w')
     \<and> lookup_row rep_oracleId ''o1'' (reputations w') = Some r' \<and> rep_score r' = 90 \<and> negativeVotes r' = 2"
proof -
  have "round7 150 = 150" "round7 100 = 100"
    by (rule round7_fix, rule on_gridI [of _ 1500000000], simp) (rule round7_fix, rule on_gridI [of _ 1000000000], simp)
  then have col: "store20_7 demo_platform (stake_amount (new_stake ''o1'' 250 ''USDC'' 0) - 100) = Inr 150"
    "store20_7 demo_platform (slashedAmount (new_stake ''o1'' 250 ''USDC'' 0) + 100) = Inr 100"
    by (simp_all add: store20_7_def demo_platform_def new_stake_def)
  have s: "100 \<le> stake_amount (new_stake ''o1'' 250 ''USDC'' 0)" by (simp add: new_stake_def)
  have new: "rep_score (new_reputation ''o1'' 0) = 100" "negativeVotes (new_reputation ''o1'' 0) = 0"
    by (simp_all add: new_reputation_def)
  obtain w' r' where "resolveDispute demo_oracle_env demo_platform 9 ''d1'' ''t'' True demo_dispute_world = (Inr (resolve_row 9 ''t'' demo_dispute), w')"
    "lookup_row rep_oracleId ''o1'' (reputations w') = Some r'"
    "negativeVotes r' = negativeVotes (new_reputation ''o1'' 0) + 2"
    "10 \<le> rep_score (new_reputation ''o1'' 0) \<and> rep_score (new_reputation ''o1'' 0) \<le> 100
       \<longrightarrow> rep_score r' = rep_score (new_reputation ''o1'' 0) - 10"
    using lost_dispute_counts_twice [OF demo_dispute_world(1) demo_dispute_fields(3) demo_dispute_world(2-5) s col,
      of demo_oracle_env 9 "''t''"]
    by blast
  then show ?thesis using new by (intro exI [of _ demo_dispute_world] exI [of _ w'] exI [of _ r']) simp
qed

text \<open>
  A dispute that cannot be settled punishes the oracle again at every attempt: when
  the first oracle that confirmed has no stake, \<open>resolveDispute\<close> in favour of the reporter
  fails and the dispute stays open, but the reputation loss is already committed, because
  the loop does not use the transaction's client.
\<close>

theorem failed_settlement_not_undone:
  assumes "lookup_row dispute_id d (disputes w) = Some dr" "dispute_status dr = DISPUTE_OPEN"
    and "map conf_oracleId (filter (\<lambda>c. conf_escrowId c = dispute_escrowId dr) (confirmations w)) = i # is"
    and o': "lookup_row oracle_id i (oracles w) = Some o'" and r: "lookup_row rep_oracleId i (reputations w) = Some r"
    and s: "lookup_row stake_oracleId i (stakes w) = None"
  shows "\<exists>w'. resolveDispute V P now d msg True w = (Inl (NotFoundError ''Oracle or stake not found''), w')
    \<and> disputes w' = disputes w \<and> lookup_row rep_oracleId i (reputations w') = Some (next_reputation V now False r)
    \<and> (\<exists>w''. resolveDispute V P now' d msg True w' = (Inl (NotFoundError ''Oracle or stake not found''), w'')
         \<and> lookup_row rep_oracleId i (reputations w'') = Some (next_reputation V now' False (next_reputation V now False r)))"
proof -
  have fail: "\<exists>w'. resolveDispute V P t d msg True v = (Inl (NotFoundError ''Oracle or stake not found''), w')
      \<and> disputes w' = disputes v \<and> confirmations w' = confirmations v \<and> stakes w' = stakes v
      \<and> lookup_row rep_oracleId i (reputations w') = Some (next_reputation V t False q)
      \<and> lookup_row oracle_id i (oracles w') = Some (count_outcome t False p)"
    if v: "lookup_row dispute_id d (disputes v) = Some dr"
      "map conf_oracleId (filter (\<lambda>c. conf_escrowId c = dispute_escrowId dr) (confirmations v)) = i # is"
      "lookup_row oracle_id i (oracles v) = Some p" "lookup_row rep_oracleId i (reputations v) = Some q"
      "lookup_row stake_oracleId i (stakes v) = None" for v t p q
  proof -
    obtain w1 where w1: "updateReputation V t i False v = (Inr (next_reputation V t False q), w1)"
      "lookup_row rep_oracleId i (reputations w1) = Some (next_reputation V t False q)"
      "lookup_row oracle_id i (oracles w1) = Some (count_outcome t False p)" "stakes w1 = stakes v" "disputes w1 = disputes v"
      "confirmations w1 = confirmations v"
      using updateReputation_run [OF v(3,4)] by metis
    then have "slashStake V P t i 100 w1 = (Inl (NotFoundError ''Oracle or stake not found''), w1)"
      using v(5) by (simp add: slashStake_def)
    then show ?thesis using v(1,2) w1 assms(2) by (simp add: resolveDispute_def)
  qed
  obtain w' where w': "resolveDispute V P now d msg True w = (Inl (NotFoundError ''Oracle or stake not found''), w')"
    "disputes w' = disputes w" "confirmations w' = confirmations w" "stakes w' = stakes w"
    "lookup_row rep_oracleId i (reputations w') = Some (next_reputation V now False r)"
    "lookup_row oracle_id i (oracles w') = Some (count_outcome now False o')"
    using fail [OF assms(1,3) o' r s] by metis
  moreover have "\<exists>w''. resolveDispute V P now' d msg True w' = (Inl (NotFoundError ''Oracle or stake not found''), w'')
      \<and> lookup_row rep_oracleId i (reputations w'') = Some (next_reputation V now' False (next_reputation V now False r))"
    using fail [of w' "count_outcome now False o'" "next_reputation V now False r" now'] assms(1,3) s w' by auto
  ultimately show ?thesis by blast
qed

theorem failed_settlement_not_undone_witness:
  "\<exists>w w'. resolveDispute demo_oracle_env demo_platform 9 ''d1'' ''t'' True w = (Inl (NotFoundError ''Oracle or stake not found''), w')
     \<and> disputes w' = disputes w \<and> lookup_row rep_oracleId ''o1'' (reputations w') = Some (next_reputation demo_oracle_env 9 False (new_reputation ''o1'' 0))"
proof -
  let ?w = "demo_dispute_world\<lparr>stakes := []\<rparr>"
  have h: "lookup_row dispute_id ''d1'' (disputes ?w) = Some demo_dispute"
    "map conf_oracleId (filter (\<lambda>c. conf_escrowId c = dispute_escrowId demo_dispute) (confirmations ?w)) = [''o1'']"
    "lookup_row oracle_id ''o1'' (oracles ?w) = Some demo_oracle" "lookup_row rep_oracleId ''o1'' (reputations ?w) = Some (new_reputation ''o1'' 0)"
    "lookup_row stake_oracleId ''o1'' (stakes ?w) = None"
    using demo_dispute_world by (simp_all add: lookup_row_def)
  show ?thesis
    using failed_settlement_not_undone [OF h(1) demo_dispute_fields(3) h(2-5), of demo_oracle_env demo_platform 9 "''t''"]
    by blast
qed

section \<open>Disputes against finished escrows\<close>

lemma flagDispute_Inr:
  assumes "valid_address V disputer = Inr a" and "requireNonEmptyString why ''reason'' = Inr t"
    and "lookup_row escrow_id i (escrows w) = Some e" and "escrow_status e \<noteq> ESCROW_DISPUTED"
  shows "\<exists>x w'. flagDispute V (\<lambda>v. v) k i why disputer w = (Inr x, w')
    \<and> lookup_row escrow_id i (escrows w') = Some (e\<lparr>escrow_status := ESCROW_DISPUTED\<rparr>)
    \<and> map escrow_id (escrows w') = map escrow_id (escrows w)"
proof -
  let ?sel = "\<lambda>r. escrow_id r = i \<and> escrow_status r \<noteq> ESCROW_DISPUTED"
  have e: "e \<in> set (escrows w)" "escrow_id e = i" using escrow_tab.lookup_SomeD [OF assms(3)] by auto
  then have "e \<in> set (filter ?sel (escrows w))" using assms(4) by simp
  then have "count_where ?sel (escrows w) \<noteq> 0" by (auto simp: count_where_def filter_empty_conv)
  then show ?thesis
    using assms e
    by (simp add: flagDispute_def transaction_def flag_tx_def escrow_tab.lookup_update map_key_update_where Let_def)
qed

lemma count_lookup_one:
  assumes "distinct (map key rs)" and "lookup_row key i rs = Some r" and "Q r"
  shows "count_where (\<lambda>x. key x = i \<and> Q x) rs = 1"
  using assms
proof (induction rs)
  case (Cons a rs)
  show ?case
  proof (cases "key a = i")
    case True
    then have "filter (\<lambda>x. key x = i \<and> Q x) rs = []" using Cons.prems(1) by (auto simp: filter_empty_conv image_iff)
    then show ?thesis using True Cons.prems by (simp add: lookup_row_def count_where_def)
  next
    case False
    then show ?thesis using Cons by (simp add: lookup_row_def count_where_def)
  qed
qed (simp add: lookup_row_def)

lemma processEscrowEvent_alone:
  assumes ev: "opt_trim (ev_escrowId ev) = i" "i \<noteq> []" "normalizeStatus (ev_status ev) ''status'' = Inr new"
    and l: "lookup_row escrow_id i (escrows w) = Some e" and al: "new \<in> set (ESCROW_ALLOWED_TRANSITIONS (escrow_status e))"
    and one: "count_where (\<lambda>r. escrow_id r = i \<and> escrow_status r = escrow_status e) (escrows w) = 1"
  shows "\<exists>u w'. processEscrowEvent (\<lambda>v. v) (\<lambda>v. v) ev w = (Inr u, w') \<and> lookup_row escrow_id i (escrows w') = Some u
    \<and> escrow_status u = new"
proof -
  let ?u = "set_escrow_status new (ev_stellarTxHash ev) e"
  let ?w = "w\<lparr>escrows := update_where (\<lambda>r. escrow_id r = i \<and> escrow_status r = escrow_status e)
      (set_escrow_status new (ev_stellarTxHash ev)) (escrows w)\<rparr>"
  have "escrow_id e = i" using escrow_tab.lookup_SomeD [OF l] by simp
  then have u: "lookup_row escrow_id i (escrows ?w) = Some ?u" using l by (simp add: escrow_tab.lookup_update)
  have run: "processEscrowEvent (\<lambda>v. v) (\<lambda>v. v) ev w = (Inr ?u,
      if escrow_status e \<noteq> new then broadcast (ESCROW_UPDATED (escrow_id ?u) (show_escrow_status new)) ?w else ?w)"
    unfolding processEscrowEvent_def Let_def ev sum.case l option.case one
    using al ev(2) u by simp
  let ?w' = "if escrow_status e \<noteq> new then broadcast (ESCROW_UPDATED (escrow_id ?u) (show_escrow_status new)) ?w else ?w"
  have "escrows ?w' = escrows ?w"
    by (simp only: broadcast_simps if_cancel split: if_split) simp
  then have "lookup_row escrow_id i (escrows ?w') = Some ?u" using u by (simp only:)
  moreover have "escrow_status ?u = new" by simp
  ultimately show ?thesis using run by blast
qed

text \<open>
  C29. Flagging a dispute does not respect the escrow's transition table: it moves a
  released, refunded or cancelled escrow to DISPUTED, from where the on-chain event
  handler accepts FUNDED, RELEASED and CANCELLED again, so those statuses are final for
  the escrow service but not for the server.
\<close>

theorem dispute_reopens_escrow:
  assumes "distinct (map escrow_id (escrows w))" and "lookup_row escrow_id i (escrows w) = Some e"
    and "escrow_status e \<in> {ESCROW_RELEASED, ESCROW_REFUNDED, ESCROW_CANCELLED}"
    and "valid_address V disputer = Inr a" "requireNonEmptyString why ''reason'' = Inr t"
    and ev: "opt_trim (ev_escrowId ev) = i" "i \<noteq> []" "normalizeStatus (ev_status ev) ''status'' = Inr ESCROW_FUNDED"
  shows "\<exists>x w1 u w2. flagDispute V (\<lambda>v. v) k i why disputer w = (Inr x, w1)
    \<and> processEscrowEvent (\<lambda>v. v) (\<lambda>v. v) ev w1 = (Inr u, w2)
    \<and> lookup_row escrow_id i (escrows w2) = Some u \<and> escrow_status u = ESCROW_FUNDED"
proof -
  have "escrow_status e \<noteq> ESCROW_DISPUTED" using assms(3) by auto
  then obtain x w1 where fl: "flagDispute V (\<lambda>v. v) k i why disputer w = (Inr x, w1)"
    and l: "lookup_row escrow_id i (escrows w1) = Some (e\<lparr>escrow_status := ESCROW_DISPUTED\<rparr>)"
    and ids: "map escrow_id (escrows w1) = map escrow_id (escrows w)"
    using flagDispute_Inr [OF assms(4,5,2)] by blast
  let ?e = "e\<lparr>escrow_status := ESCROW_DISPUTED\<rparr>"
  have d: "distinct (map escrow_id (escrows w1))" using assms(1) ids by simp
  have one: "count_where (\<lambda>r. escrow_id r = i \<and> escrow_status r = escrow_status ?e) (escrows w1) = 1"
    by (rule count_lookup_one [OF d l]) simp
  have al: "ESCROW_FUNDED \<in> set (ESCROW_ALLOWED_TRANSITIONS (escrow_status ?e))"
    by (simp add: ESCROW_ALLOWED_TRANSITIONS.simps)
  obtain u w2 where "processEscrowEvent (\<lambda>v. v) (\<lambda>v. v) ev w1 = (Inr u, w2)" "lookup_row escrow_id i (escrows w2) = Some u"
    "escrow_status u = ESCROW_FUNDED"
    using processEscrowEvent_alone [OF ev l al one] by (elim exE conjE)
  with fl show ?thesis by (intro exI conjI)
qed

theorem dispute_reopens_escrow_witness:
  "\<exists>x w1 u w2. flagDispute demo_oracle_env (\<lambda>v. v) ''d1'' ''e1'' (Some ''late'') (Some ''gd'')
       (empty_world\<lparr>escrows := [demo_escrow\<lparr>escrow_status := ESCROW_RELEASED\<rparr>]\<rparr>) = (Inr x, w1)
     \<and> processEscrowEvent (\<lambda>v. v) (\<lambda>v. v) \<lparr>ev_escrowId = Some ''e1'', ev_status = Some ''funded'', ev_stellarTxHash = None\<rparr> w1 = (Inr u, w2)
     \<and> lookup_row escrow_id ''e1'' (escrows w2) = Some u \<and> escrow_status u = ESCROW_FUNDED"
proof (rule dispute_reopens_escrow)
  have "oracle_normalizeAddress (Some ''gd'') = Inr ''GD''" by code_simp
  then show "valid_address demo_oracle_env (Some ''gd'') = Inr ''GD''" by (simp add: valid_address_def demo_oracle_env_def)
  show "requireNonEmptyString (Some ''late'') ''reason'' = Inr ''late''" by code_simp
  show "opt_trim (ev_escrowId \<lparr>ev_escrowId = Some ''e1'', ev_status = Some ''funded'', ev_stellarTxHash = None\<rparr>) = ''e1''" by code_simp
  show "normalizeStatus (ev_status \<lparr>ev_escrowId = Some ''e1'', ev_status = Some ''funded'', ev_stellarTxHash = None\<rparr>) ''status'' = Inr ESCROW_FUNDED"
    by code_simp
  show "escrow_status (demo_escrow\<lparr>escrow_status := ESCROW_RELEASED\<rparr>) \<in> {ESCROW_RELEASED, ESCROW_REFUNDED, ESCROW_CANCELLED}"
    by simp
qed (simp_all add: lookup_row_def demo_escrow_def)

section \<open>Threshold signatures\<close>

definition threshold_ok :: "threshold_row \<Rightarrow> bool" where
  "threshold_ok t \<longleftrightarrow> distinct (map fst (thr_signatures t)) \<and> collectedSigs t = int (length (thr_signatures t))
     \<and> (thr_status t = SIG_COMPLETED \<longrightarrow> requiredSigs t \<le> collectedSigs t \<and> thr_completedAt t \<noteq> None)
     \<and> (thr_status t = SIG_PENDING \<longrightarrow> thr_signatures t = [] \<or> collectedSigs t < requiredSigs t)"

inductive threshold_step :: "world \<Rightarrow> world \<Rightarrow> bool" where
  step_create: "threshold_step w (snd (createThresholdSignature i e t n w))"
| step_add: "threshold_step w (snd (addThresholdSignature now i a s w))"
| step_rest: "thresholds w' = thresholds w \<Longrightarrow> threshold_step w w'"

lemma threshold_step_ok:
  "threshold_step w w' \<Longrightarrow> \<forall>t\<in>set (thresholds w). threshold_ok t \<Longrightarrow> \<forall>t\<in>set (thresholds w'). threshold_ok t"
proof (induction rule: threshold_step.induct)
  case (step_create w i e t n)
  then show ?case by (auto simp: createThresholdSignature_def insert_row_def threshold_ok_def Let_def)
next
  case (step_add w now i a s)
  show ?case
  proof (cases "lookup_row thr_id i (thresholds w)")
    case (Some t)
    then have "threshold_ok t" using step_add threshold_tab.lookup_SomeD [OF Some] by auto
    let ?t = "t\<lparr>thr_signatures := thr_signatures t @ [(a, s, now)], collectedSigs := int (length (thr_signatures t @ [(a, s, now)])),
        thr_status := (if requiredSigs t \<le> int (length (thr_signatures t @ [(a, s, now)])) then SIG_COMPLETED else SIG_PENDING),
        thr_completedAt := (if requiredSigs t \<le> int (length (thr_signatures t @ [(a, s, now)])) then Some now else None)\<rparr>"
    show ?thesis
    proof (cases "thr_status t = SIG_PENDING \<and> find (\<lambda>s. fst s = a) (thr_signatures t) = None")
      case True
      then have "threshold_ok ?t" using \<open>threshold_ok t\<close> by (auto simp: threshold_ok_def find_None_iff')
      moreover have "thresholds (snd (addThresholdSignature now i a s w)) = update_where (\<lambda>x. thr_id x = i) (\<lambda>_. ?t) (thresholds w)"
        using True Some by (simp add: addThresholdSignature_def Let_def)
      ultimately show ?thesis using step_add by (auto simp only: set_update_where image_iff split: if_splits)
    next
      case False
      then show ?thesis using step_add Some by (auto simp: addThresholdSignature_def Let_def)
    qed
  qed (use step_add in \<open>simp add: addThresholdSignature_def\<close>)
qed simp



end
