(* ===== verification/Rbac.thy ===== *)
theory Rbac
  imports Database
begin

text \<open>
  Role based access control: the roles, scopes and tables of
  \<open>server/src/types/rbac.ts\<close>, the decisions of \<open>server/src/services/rbac.service.ts\<close> and
  the guards of \<open>server/src/middleware/rbac.middleware.ts\<close>.
\<close>

section \<open>Roles and scopes\<close>

datatype permission_scope =
    LOAN_READ | LOAN_WRITE | LOAN_DELETE | LOAN_APPROVE
  | ESCROW_READ | ESCROW_WRITE | ESCROW_RELEASE | ESCROW_REFUND
  | PAYMENT_READ | PAYMENT_WRITE | PAYMENT_PROCESS
  | USER_READ | USER_WRITE | USER_DELETE
  | AUDIT_READ | RISK_OVERRIDE | ADMIN_ALL

fun scope_text :: "permission_scope \<Rightarrow> string" where
  "scope_text LOAN_READ = ''loan:read''" | "scope_text LOAN_WRITE = ''loan:write''"
| "scope_text LOAN_DELETE = ''loan:delete''" | "scope_text LOAN_APPROVE = ''loan:approve''"
| "scope_text ESCROW_READ = ''escrow:read''" | "scope_text ESCROW_WRITE = ''escrow:write''"
| "scope_text ESCROW_RELEASE = ''escrow:release''" | "scope_text ESCROW_REFUND = ''escrow:refund''"
| "scope_text PAYMENT_READ = ''payment:read''" | "scope_text PAYMENT_WRITE = ''payment:write''"
| "scope_text PAYMENT_PROCESS = ''payment:process''"
| "scope_text USER_READ = ''user:read''" | "scope_text USER_WRITE = ''user:write''"
| "scope_text USER_DELETE = ''user:delete''" | "scope_text AUDIT_READ = ''audit:read''"
| "scope_text RISK_OVERRIDE = ''risk:override''" | "scope_text ADMIN_ALL = ''admin:all''"

definition all_scopes :: "permission_scope list" where
  "all_scopes = [LOAN_READ, LOAN_WRITE, LOAN_DELETE, LOAN_APPROVE, ESCROW_READ, ESCROW_WRITE, ESCROW_RELEASE,
     ESCROW_REFUND, PAYMENT_READ, PAYMENT_WRITE, PAYMENT_PROCESS, USER_READ, USER_WRITE, USER_DELETE, AUDIT_READ,
     RISK_OVERRIDE, ADMIN_ALL]"

datatype resource_type = LOAN | ESCROW | PAYMENT | USER | AUDIT

datatype rbac_action = READ | WRITE | DELETE | APPROVE | RELEASE | REFUND | PROCESS | OVERRIDE

fun ROLE_PERMISSIONS :: "user_role \<Rightarrow> permission_scope list" where
  "ROLE_PERMISSIONS BUYER = [ESCROW_WRITE, ESCROW_READ, PAYMENT_WRITE, PAYMENT_READ, USER_READ, USER_WRITE]"
| "ROLE_PERMISSIONS SELLER = [ESCROW_READ, ESCROW_RELEASE, PAYMENT_READ, USER_READ, USER_WRITE]"
| "ROLE_PERMISSIONS LENDER = [LOAN_WRITE, LOAN_READ, LOAN_APPROVE, PAYMENT_READ, USER_READ, USER_WRITE]"
| "ROLE_PERMISSIONS AUDITOR = [LOAN_READ, ESCROW_READ, PAYMENT_READ, USER_READ, AUDIT_READ]"
| "ROLE_PERMISSIONS ADMIN = [ADMIN_ALL]"

text \<open>A scope may be \<open>undefined\<close> at run time (\<open>None\<close>): see \<open>buildPermissionScope\<close>.\<close>

definition hasPermission :: "user_role \<Rightarrow> permission_scope option \<Rightarrow> bool" where
  "hasPermission role permission \<longleftrightarrow> (if role = ADMIN then True
     else case permission of None \<Rightarrow> False | Some p \<Rightarrow> p \<in> set (ROLE_PERMISSIONS role))"

definition getRolePermissions :: "user_role \<Rightarrow> permission_scope list" where
  "getRolePermissions role = (if role = ADMIN then all_scopes else ROLE_PERMISSIONS role)"

definition isResourceOwner :: "string \<Rightarrow> string \<Rightarrow> bool" where
  "isResourceOwner userWalletAddress resourceOwnerId \<longleftrightarrow> js_lower userWalletAddress = js_lower resourceOwnerId"

section \<open>The service\<close>

record auth_user =
  au_userId :: string
  au_jti :: string
  au_walletAddress :: string
  au_role :: user_role

record permission_result =
  allowed :: bool
  reason :: "string option"
  requiredRole :: "user_role option"
  requiredPermission :: "permission_scope option"

fun buildPermissionScope :: "resource_type \<Rightarrow> rbac_action \<Rightarrow> permission_scope option" where
  "buildPermissionScope LOAN READ = Some LOAN_READ"
| "buildPermissionScope LOAN WRITE = Some LOAN_WRITE"
| "buildPermissionScope LOAN DELETE = Some LOAN_DELETE"
| "buildPermissionScope LOAN APPROVE = Some LOAN_APPROVE"
| "buildPermissionScope ESCROW READ = Some ESCROW_READ"
| "buildPermissionScope ESCROW WRITE = Some ESCROW_WRITE"
| "buildPermissionScope ESCROW RELEASE = Some ESCROW_RELEASE"
| "buildPermissionScope ESCROW REFUND = Some ESCROW_REFUND"
| "buildPermissionScope PAYMENT READ = Some PAYMENT_READ"
| "buildPermissionScope PAYMENT WRITE = Some PAYMENT_WRITE"
| "buildPermissionScope PAYMENT PROCESS = Some PAYMENT_PROCESS"
| "buildPermissionScope USER READ = Some USER_READ"
| "buildPermissionScope USER WRITE = Some USER_WRITE"
| "buildPermissionScope USER DELETE = Some USER_DELETE"
| "buildPermissionScope AUDIT READ = Some AUDIT_READ"
| "buildPermissionScope _ _ = None"

definition isAdminLevelPermission :: "permission_scope option \<Rightarrow> bool" where
  "isAdminLevelPermission permission \<longleftrightarrow> permission \<in> Some ` {LOAN_DELETE, LOAN_APPROVE, ESCROW_RELEASE, ESCROW_REFUND,
     PAYMENT_PROCESS, USER_DELETE, RISK_OVERRIDE, ADMIN_ALL}"

fun getRequiredRole :: "resource_type \<Rightarrow> rbac_action \<Rightarrow> user_role" where
  "getRequiredRole LOAN WRITE = LENDER"
| "getRequiredRole LOAN APPROVE = LENDER"
| "getRequiredRole LOAN DELETE = ADMIN"
| "getRequiredRole ESCROW WRITE = BUYER"
| "getRequiredRole ESCROW RELEASE = SELLER"
| "getRequiredRole ESCROW REFUND = ADMIN"
| "getRequiredRole PAYMENT WRITE = BUYER"
| "getRequiredRole PAYMENT PROCESS = LENDER"
| "getRequiredRole USER WRITE = ADMIN"
| "getRequiredRole USER DELETE = ADMIN"
| "getRequiredRole AUDIT READ = AUDITOR"
| "getRequiredRole _ _ = ADMIN"

text \<open>
  The query \<open>where: {userId, permission: {scope}}\<close>: Prisma leaves out a condition whose
  value is \<open>undefined\<close>, so any permission of the user matches then.
\<close>

definition checkUserPermission :: "string \<Rightarrow> permission_scope option \<Rightarrow> world \<Rightarrow> bool" where
  "checkUserPermission userId scope w \<longleftrightarrow> find (\<lambda>r. up_userId r = userId
     \<and> (case scope of None \<Rightarrow> True | Some s \<Rightarrow> up_scope r = scope_text s)) (user_permissions w) \<noteq> None"

definition checkPermission ::
  "auth_user \<Rightarrow> resource_type \<Rightarrow> rbac_action \<Rightarrow> string option \<Rightarrow> world \<Rightarrow> permission_result" where
  "checkPermission user resourceType action resourceOwnerId w =
     (if au_role user = ADMIN then \<lparr>allowed = True, reason = None, requiredRole = None, requiredPermission = None\<rparr>
      else let requiredScope = buildPermissionScope resourceType action;
               hasRolePermission = hasPermission (au_role user) requiredScope;
               hasUserPermission = checkUserPermission (au_userId user) requiredScope w;
               isOwner = (case resourceOwnerId of None \<Rightarrow> False
                 | Some o' \<Rightarrow> o' \<noteq> [] \<and> isResourceOwner (au_walletAddress user) o');
               decision = (if hasRolePermission \<or> hasUserPermission
                 then if action = READ then (True, None)
                   else if isOwner \<or> isAdminLevelPermission requiredScope then (True, None)
                   else (False, Some ''Resource ownership required for write operations'')
                 else (False, Some ''Insufficient permissions''))
        in \<lparr>allowed = fst decision, reason = (if fst decision then None else snd decision),
             requiredRole = (if fst decision then None else Some (getRequiredRole resourceType action)),
             requiredPermission = (if fst decision then None else requiredScope)\<rparr>)"

definition getResourceInfo :: "resource_type \<Rightarrow> string \<Rightarrow> world \<Rightarrow> string option" where
  "getResourceInfo resourceType resourceId w = (case resourceType of
     LOAN \<Rightarrow> map_option borrowerId (lookup_row loan_id resourceId (loans w))
   | ESCROW \<Rightarrow> map_option buyerId (lookup_row escrow_id resourceId (escrows w))
   | PAYMENT \<Rightarrow> Option.bind (lookup_row payment_id resourceId (payments w))
       (\<lambda>p. map_option borrowerId (lookup_row loan_id (payment_loanId p) (loans w)))
   | USER \<Rightarrow> map_option stellarAddress (lookup_row user_id resourceId (users w))
   | AUDIT \<Rightarrow> None)"

definition canAccessResource :: "auth_user \<Rightarrow> resource_type \<Rightarrow> string \<Rightarrow> rbac_action \<Rightarrow> world \<Rightarrow> permission_result" where
  "canAccessResource user resourceType resourceId action w = (case getResourceInfo resourceType resourceId w of
     None \<Rightarrow> \<lparr>allowed = False, reason = Some ''Resource not found'', requiredRole = None, requiredPermission = None\<rparr>
   | Some ownerId \<Rightarrow> checkPermission user resourceType action (Some ownerId) w)"

text \<open>\<open>[...new Set(xs)]\<close>: the first occurrence of each element, in order.\<close>

definition unique_list :: "'a list \<Rightarrow> 'a list" where
  "unique_list xs = rev (remdups (rev xs))"

definition getUserPermissions :: "string \<Rightarrow> world \<Rightarrow> (world, string list) outcome" where
  "getUserPermissions userId w = (case lookup_row user_id userId (users w) of
     None \<Rightarrow> (Inl (NotFoundError ''User not found''), w)
   | Some u \<Rightarrow> (Inr (unique_list (map up_scope (filter (\<lambda>r. up_userId r = userId) (role_permissions w))
       @ map up_scope (filter (\<lambda>r. up_userId r = userId) (user_permissions w)))), w))"

text \<open>The three operations that only log: granting, revoking and assigning change nothing.\<close>

definition grantUserPermission :: "string \<Rightarrow> permission_scope \<Rightarrow> string \<Rightarrow> world \<Rightarrow> (world, unit) outcome" where
  "grantUserPermission userId permissionScope grantedBy w = (Inr (), w)"

definition revokeUserPermission :: "string \<Rightarrow> permission_scope \<Rightarrow> world \<Rightarrow> (world, unit) outcome" where
  "revokeUserPermission userId permissionScope w = (Inr (), w)"

definition assignRole :: "string \<Rightarrow> user_role \<Rightarrow> world \<Rightarrow> (world, unit) outcome" where
  "assignRole userId roleName w = (Inr (), w)"

section \<open>The middleware\<close>

text \<open>
  A middleware gets the request's user and fields and answers with an error, or with
  nothing when it passes the request on. Request fields that are absent are \<open>None\<close>.
\<close>

record rbac_request =
  req_user :: "auth_user option"
  req_params :: "string \<Rightarrow> string option"
  req_body :: "string \<Rightarrow> string option"

definition guard_checkPermission :: "resource_type \<Rightarrow> rbac_action \<Rightarrow> rbac_request \<Rightarrow> world \<Rightarrow> app_error + unit" where
  "guard_checkPermission resourceType action req w = (case req_user req of
     None \<Rightarrow> Inl (UnauthorizedError ''Authentication required'')
   | Some user \<Rightarrow> let result = checkPermission user resourceType action None w in
       if \<not> allowed result then Inl (ForbiddenError (or_else (reason result) ''Insufficient permissions''))
       else Inr ())"

definition first_truthy :: "string option list \<Rightarrow> string option" where
  "first_truthy vs = (case find (\<lambda>v. v \<noteq> None \<and> v \<noteq> Some []) vs of None \<Rightarrow> None | Some v \<Rightarrow> v)"

definition guard_checkOwnership :: "resource_type \<Rightarrow> rbac_request \<Rightarrow> world \<Rightarrow> app_error + unit" where
  "guard_checkOwnership resourceType req w = (case req_user req of
     None \<Rightarrow> Inl (UnauthorizedError ''Authentication required'')
   | Some user \<Rightarrow> (case first_truthy [req_params req ''id'', req_body req ''id''] of
       None \<Rightarrow> Inl (ForbiddenError ''Resource ID required'')
     | Some resourceId \<Rightarrow> let result = canAccessResource user resourceType resourceId WRITE w in
         if \<not> allowed result then Inl (ForbiddenError (or_else (reason result) ''Resource ownership required''))
         else Inr ()))"

fun role_text :: "user_role \<Rightarrow> string" where
  "role_text BUYER = ''BUYER''" | "role_text SELLER = ''SELLER''" | "role_text LENDER = ''LENDER''"
| "role_text AUDITOR = ''AUDITOR''" | "role_text ADMIN = ''ADMIN''"

fun join_with :: "string \<Rightarrow> string list \<Rightarrow> string" where
  "join_with sep [] = []"
| "join_with sep [x] = x"
| "join_with sep (x # xs) = x @ sep @ join_with sep xs"

definition requireRole :: "user_role \<Rightarrow> rbac_request \<Rightarrow> app_error + unit" where
  "requireRole required req = (case req_user req of
     None \<Rightarrow> Inl (UnauthorizedError ''Authentication required'')
   | Some user \<Rightarrow> if au_role user \<noteq> required \<and> au_role user \<noteq> ADMIN
       then Inl (ForbiddenError (''Access denied. Required role: '' @ role_text required)) else Inr ())"

definition requireAnyRole :: "user_role list \<Rightarrow> rbac_request \<Rightarrow> app_error + unit" where
  "requireAnyRole allowedRoles req = (case req_user req of
     None \<Rightarrow> Inl (UnauthorizedError ''Authentication required'')
   | Some user \<Rightarrow> if au_role user \<notin> set allowedRoles \<and> au_role user \<noteq> ADMIN
       then Inl (ForbiddenError (''Access denied. Required one of: '' @ join_with '', '' (map role_text allowedRoles))) else Inr ())"

definition checkSelfAccess :: "string \<Rightarrow> rbac_request \<Rightarrow> app_error + unit" where
  "checkSelfAccess userIdField req = (case req_user req of
     None \<Rightarrow> Inl (UnauthorizedError ''Authentication required'')
   | Some user \<Rightarrow>
       let target = (case first_truthy [req_params req userIdField] of Some t \<Rightarrow> Some t | None \<Rightarrow> req_body req userIdField) in
       if au_role user = ADMIN then Inr ()
       else if target \<noteq> Some (au_userId user) then Inl (ForbiddenError ''Access denied: Can only access own resources'')
       else Inr ())"

definition checkLenderSelfApproval :: "rbac_request \<Rightarrow> app_error + unit" where
  "checkLenderSelfApproval req = (case req_user req of
     None \<Rightarrow> Inl (UnauthorizedError ''Authentication required'')
   | Some user \<Rightarrow> if au_role user \<noteq> LENDER then Inr ()
       else case first_truthy [req_params req ''id'', req_body req ''loanId'', req_body req ''id''] of
         None \<Rightarrow> Inl (ForbiddenError ''Loan ID required'')
       | Some _ \<Rightarrow> Inr ())"

lemmas [guard_defs] = guard_checkPermission_def guard_checkOwnership_def requireRole_def requireAnyRole_def
  checkSelfAccess_def checkLenderSelfApproval_def

section \<open>Properties\<close>

lemma scope_text_inj [simp]: "scope_text a = scope_text b \<longleftrightarrow> a = b"
  by (cases a; cases b; simp)

lemma checkPermission_allowed:
  "allowed (checkPermission u rt a own w) \<longleftrightarrow> au_role u = ADMIN
     \<or> ((hasPermission (au_role u) (buildPermissionScope rt a) \<or> checkUserPermission (au_userId u) (buildPermissionScope rt a) w)
        \<and> (a = READ \<or> (\<exists>x. own = Some x \<and> x \<noteq> [] \<and> isResourceOwner (au_walletAddress u) x)
            \<or> isAdminLevelPermission (buildPermissionScope rt a)))"
  by (simp add: checkPermission_def Let_def split: option.split)

text \<open>
  The permission middleware, for users without permissions of their own, decides
  by this table: an administrator passes, and otherwise a request passes only if it reads
  a kind of resource the role may read, or releases an escrow as a seller, or approves a
  loan as a lender. As the middleware passes no owner, no one else can ever write, delete,
  refund, process or override, whatever resource they own.
\<close>

theorem rbac_middleware_table:
  assumes "req_user req = Some u" and "\<forall>r\<in>set (user_permissions w). up_userId r \<noteq> au_userId u"
  shows "guard_checkPermission rt a req w = Inr () \<longleftrightarrow>
     (au_role u, rt, a) \<in> {ADMIN} \<times> UNIV \<times> UNIV
       \<union> {BUYER, SELLER} \<times> {ESCROW, PAYMENT, USER} \<times> {READ}
       \<union> {LENDER} \<times> {LOAN, PAYMENT, USER} \<times> {READ}
       \<union> {AUDITOR} \<times> {LOAN, ESCROW, PAYMENT, USER, AUDIT} \<times> {READ}
       \<union> {(SELLER, ESCROW, RELEASE), (LENDER, LOAN, APPROVE)}"
proof -
  have "\<not> checkUserPermission (au_userId u) s w" for s
    using assms(2) by (auto simp: checkUserPermission_def find_None_iff')
  then have "guard_checkPermission rt a req w = Inr () \<longleftrightarrow> au_role u = ADMIN \<or> (hasPermission (au_role u) (buildPermissionScope rt a)
        \<and> (a = READ \<or> isAdminLevelPermission (buildPermissionScope rt a)))"
    using assms(1) by (simp add: guard_checkPermission_def Let_def checkPermission_allowed)
  then show ?thesis
    by (cases "au_role u"; cases rt; cases a) (simp_all add: hasPermission_def isAdminLevelPermission_def)
qed

definition demo_seller :: auth_user where
  "demo_seller = \<lparr>au_userId = ''s'', au_jti = ''j'', au_walletAddress = ''GS'', au_role = SELLER\<rparr>"

definition demo_request :: rbac_request where
  "demo_request = \<lparr>req_user = Some demo_seller, req_params = (\<lambda>_. None), req_body = (\<lambda>_. None)\<rparr>"

theorem rbac_middleware_table_witness:
  "guard_checkPermission ESCROW RELEASE demo_request empty_world = Inr ()
   \<and> guard_checkPermission ESCROW REFUND demo_request empty_world \<noteq> Inr ()"
proof -
  have r: "req_user demo_request = Some demo_seller" by (simp add: demo_request_def)
  have n: "\<forall>r\<in>set (user_permissions empty_world). up_userId r \<noteq> au_userId demo_seller" by (simp add: empty_world_def)
  show ?thesis
    using rbac_middleware_table [OF r n, of ESCROW RELEASE] rbac_middleware_table [OF r n, of ESCROW REFUND]
    by (simp add: demo_seller_def)
qed

text \<open>
  Whenever a permission check is refused and names the role that would be required,
  that role does have the scope that was asked for, with one exception: for processing a
  payment it names LENDER, a role without that scope.
\<close>

theorem requiredRole_sound:
  assumes "requiredRole (checkPermission u rt a own w) = Some r"
  shows "hasPermission r (requiredPermission (checkPermission u rt a own w)) \<longleftrightarrow> (rt, a) \<noteq> (PAYMENT, PROCESS)"
proof -
  have f: "r = getRequiredRole rt a" "requiredPermission (checkPermission u rt a own w) = buildPermissionScope rt a"
    using assms by (auto simp: checkPermission_def Let_def split: if_splits)
  show ?thesis unfolding f by (cases rt; cases a) (simp_all add: hasPermission_def)
qed

theorem requiredRole_sound_witness:
  "\<not> hasPermission LENDER (requiredPermission (checkPermission demo_seller PAYMENT PROCESS None empty_world))"
proof -
  have "requiredRole (checkPermission demo_seller PAYMENT PROCESS None empty_world) = Some LENDER"
    by (simp add: checkPermission_def demo_seller_def hasPermission_def checkUserPermission_def empty_world_def)
  from requiredRole_sound [OF this] show ?thesis by simp
qed

lemma ownership_refused:
  assumes "au_role u \<noteq> ADMIN" and "rt \<in> {LOAN, ESCROW, PAYMENT}"
    and "\<forall>l\<in>set (loans w). js_lower (borrowerId l) \<noteq> js_lower (au_walletAddress u)"
    and "\<forall>e\<in>set (escrows w). js_lower (buyerId e) \<noteq> js_lower (au_walletAddress u)"
  shows "\<not> allowed (canAccessResource u rt i WRITE w)"
proof -
  have "\<not> isResourceOwner (au_walletAddress u) x" if "getResourceInfo rt i w = Some x" for x
    using that assms(2-4)
    by (auto simp: getResourceInfo_def isResourceOwner_def bind_eq_Some_conv dest!: loan_tab.lookup_SomeD escrow_tab.lookup_SomeD)
  then show ?thesis
    using assms(1,2) by (auto simp: canAccessResource_def checkPermission_allowed isAdminLevelPermission_def split: option.split)
qed

text \<open>
  Owning a loan, an escrow or a payment grants nothing through
  \<open>canAccessResource\<close>: the check compares the requester's wallet address with the owner's
  user id, so as long as no user id equals a wallet address, every write of a user who is
  no administrator is refused, also the borrower's or the buyer's own.
\<close>

theorem ownership_never_matches:
  assumes "au_role u \<noteq> ADMIN" and "rt \<in> {LOAN, ESCROW, PAYMENT}"
    and "\<forall>l\<in>set (loans w). js_lower (borrowerId l) \<noteq> js_lower (au_walletAddress u)"
    and "\<forall>e\<in>set (escrows w). js_lower (buyerId e) \<noteq> js_lower (au_walletAddress u)"
  shows "\<not> allowed (canAccessResource u rt i WRITE w)"
  using assms by (rule ownership_refused)

theorem ownership_never_matches_witness:
  "\<not> allowed (canAccessResource \<lparr>au_userId = ''b'', au_jti = ''j'', au_walletAddress = ''GB'', au_role = BUYER\<rparr> ESCROW ''e1'' WRITE
      (empty_world\<lparr>escrows := [\<lparr>escrow_id = ''e1'', buyerId = ''b'', sellerId = ''s'', escrow_amount = 1, escrow_assetCode = ''USDC'',
         escrow_status = ESCROW_FUNDED, stellarTxHash = None, escrowAddress = None, escrow_expiresAt = 1\<rparr>]\<rparr>))"
proof (rule ownership_never_matches)
  have "js_lower ''b'' \<noteq> js_lower ''GB''" by (simp add: js_lower_def)
  then show "\<forall>e\<in>set (escrows (empty_world\<lparr>escrows := [\<lparr>escrow_id = ''e1'', buyerId = ''b'', sellerId = ''s'', escrow_amount = 1,
        escrow_assetCode = ''USDC'', escrow_status = ESCROW_FUNDED, stellarTxHash = None, escrowAddress = None, escrow_expiresAt = 1\<rparr>]\<rparr>)).
      js_lower (buyerId e) \<noteq> js_lower (au_walletAddress \<lparr>au_userId = ''b'', au_jti = ''j'', au_walletAddress = ''GB'', au_role = BUYER\<rparr>)"
    by simp
qed (simp_all add: empty_world_def)

end
