(* ===== verification/User_Payment.thy ===== *)
theory User_Payment
  imports Auth_Service
begin

text \<open>
  The user service (\<open>server/src/services/user.service.ts\<close>) and the in-memory payment
  service (\<open>server/src/services/payment.service.ts\<close>).
\<close>

section \<open>Users\<close>

record user_view =
  uv_user :: user_row
  uv_primaryWallet :: "wallet_row option"
  uv_wallets :: "wallet_row list"

definition getUserById :: "string \<Rightarrow> world \<Rightarrow> (world, user_view) outcome" where
  "getUserById i w = (case lookup_row user_id i (users w) of
     None \<Rightarrow> (Inl (NotFoundError ''User not found''), w)
   | Some u \<Rightarrow> let ws = getUserWallets i w in
       (Inr \<lparr>uv_user = u, uv_primaryWallet = find isPrimary ws, uv_wallets = ws\<rparr>, w))"

definition createUser :: "crypto \<Rightarrow> string \<Rightarrow> string \<Rightarrow> world \<Rightarrow> (world, user_row) outcome" where
  "createUser K new_id address w =
     (if js_trim address = [] then (Inl (ValidationError ''stellarAddress is required''), w)
      else let normalised = js_upper (js_trim address) in
        if \<not> stellar_key K normalised then (Inl (ValidationError ''Invalid Stellar wallet address''), w)
        else case lookup_row stellarAddress normalised (users w) of
          Some u \<Rightarrow> (Inr u, w)
        | None \<Rightarrow> let u = \<lparr>user_id = new_id, stellarAddress = normalised, user_name = None, user_role = BUYER\<rparr>
            in (Inr u, w\<lparr>users := insert_row u (users w)\<rparr>))"

text \<open>
  \<open>createUser\<close> is idempotent: the second call with the same address, however it is
  spaced or cased, changes nothing and returns the user of the first.
\<close>

theorem createUser_idempotent:
  assumes "createUser K i address w = (Inr u, w')"
    and "js_upper (js_trim address') = js_upper (js_trim address)"
  shows "createUser K j address' w' = (Inr u, w') \<and> stellarAddress u = js_upper (js_trim address)"
proof -
  have ne: "js_trim address \<noteq> []" and key: "stellar_key K (js_upper (js_trim address))"
    using assms(1) by (auto simp: createUser_def Let_def split: if_splits)
  have "js_trim address' \<noteq> []" using ne assms(2) by (auto simp: js_upper_def)
  moreover have "lookup_row stellarAddress (js_upper (js_trim address)) (users w') = Some u"
    using assms(1) ne key
    by (auto simp: createUser_def Let_def lookup_row_def insert_row_def find_append split: option.splits)
  moreover from this have "stellarAddress u = js_upper (js_trim address)"
    by (auto simp: lookup_row_def dest: find_SomeD)
  ultimately show ?thesis using key assms(2) by (simp add: createUser_def Let_def)
qed

theorem createUser_idempotent_witness:
  "\<exists>u w'. createUser demo_crypto ''u1'' ''gb'' empty_world = (Inr u, w') \<and> createUser demo_crypto ''u2'' '' GB '' w' = (Inr u, w')"
proof -
  have e: "js_upper (js_trim '' GB '') = js_upper (js_trim ''gb'')" "js_trim ''gb'' = ''gb''" by code_simp+
  obtain u w' where run: "createUser demo_crypto ''u1'' ''gb'' empty_world = (Inr u, w')"
    by (simp add: createUser_def e Let_def demo_crypto_def empty_world_def lookup_row_def)
  from createUser_idempotent [OF run e(1), of "''u2''"] run show ?thesis by blast
qed

text \<open>
  A user made by \<open>createUser\<close> cannot log in: no wallet has the address yet, and the
  login challenge tries to create the user again, which the unique address refuses; the
  answer is an internal error and nothing is stored.
\<close>

theorem created_user_locked_out:
  assumes "createUser K i address w = (Inr u, w')" and "lookup_row wallet_address (stellarAddress u) (wallets w) = None"
  shows "generateChallenge K now ids nonce address LOGIN v w'
      = (Inl (PlainError ''Unique constraint failed on the fields: (stellarAddress)''), w')
    \<and> error_status (PlainError ''Unique constraint failed on the fields: (stellarAddress)'') = 500"
proof -
  have ne: "js_trim address \<noteq> []" and key: "stellar_key K (js_upper (js_trim address))"
    using assms(1) by (auto simp: createUser_def Let_def split: if_splits)
  have a: "checked_address K address = Inr (js_upper (js_trim address))"
    using ne key by (simp add: checked_address_def normalizeAddress_def assertValidStellarAddress_def)
  have u: "lookup_row stellarAddress (js_upper (js_trim address)) (users w') = Some u" and ws: "wallets w' = wallets w"
    using assms(1) ne key
    by (auto simp: createUser_def Let_def lookup_row_def insert_row_def find_append split: option.splits)
  then have "stellarAddress u = js_upper (js_trim address)" by (auto simp: lookup_row_def dest: find_SomeD)
  then show ?thesis
    using assms(2) a u ws by (simp add: generateChallenge_def upsert_wallet_def)
qed

theorem created_user_locked_out_witness:
  "\<exists>u w'. createUser demo_crypto ''u1'' ''GB'' empty_world = (Inr u, w')
     \<and> \<not> is_ok (generateChallenge demo_crypto 5 demo_ids ''n'' ''GB'' LOGIN None w')"
proof -
  have e: "js_trim ''GB'' = ''GB''" by code_simp
  obtain u w' where run: "createUser demo_crypto ''u1'' ''GB'' empty_world = (Inr u, w')"
    by (simp add: createUser_def e Let_def demo_crypto_def empty_world_def lookup_row_def)
  have "lookup_row wallet_address (stellarAddress u) (wallets empty_world) = None"
    by (simp add: empty_world_def lookup_row_def)
  from created_user_locked_out [OF run this] run show ?thesis by (auto simp: is_ok_def)
qed

section \<open>Payments in memory\<close>

datatype live_status = LIVE_PENDING | LIVE_PROCESSING | LIVE_PAID | LIVE_FAILED

datatype payment_event = PAYMENT_UPDATED string live_status | PAYMENT_FINALIZED string live_status

record payment_store =
  live_payments :: "string \<rightharpoonup> live_status"
  emitted :: "payment_event list"

definition getStatus :: "string \<Rightarrow> payment_store \<Rightarrow> (string \<times> live_status) option" where
  "getStatus i s = map_option (\<lambda>st. (i, st)) (live_payments s i)"

definition updateStatus :: "string \<Rightarrow> live_status \<Rightarrow> payment_store \<Rightarrow> payment_store" where
  "updateStatus i status s = s\<lparr>live_payments := (live_payments s)(i \<mapsto> status),
     emitted := emitted s @ PAYMENT_UPDATED i status
       # (if status = LIVE_PAID \<or> status = LIVE_FAILED then [PAYMENT_FINALIZED i status] else [])\<rparr>"

lemma getStatus_update: "getStatus j (updateStatus i st s) = (if j = i then Some (i, st) else getStatus j s)"
  by (simp add: getStatus_def updateStatus_def)

lemma finalized_iff:
  "PAYMENT_FINALIZED i st \<in> set (drop (length (emitted s)) (emitted (updateStatus j st' s)))
   \<longleftrightarrow> i = j \<and> st = st' \<and> st \<in> {LIVE_PAID, LIVE_FAILED}"
  by (auto simp: updateStatus_def)

end
