(* ===== verification/Webhook_Service.thy ===== *)
theory Webhook_Service
  imports Rbac Canonical_Json Loan_Service
begin

text \<open>
  Webhooks: \<open>server/src/services/webhook.service.ts\<close>, \<open>webhook-signature.service.ts\<close>,
  \<open>event-monitoring.service.ts\<close> and \<open>controllers/webhook.controller.ts\<close>. A user
  registers an endpoint for some event types; a triggered event makes one delivery row and
  one queue job per subscribed endpoint; the worker sends a job's request, and a failed
  delivery is put back into the queue with a growing delay until it has had five attempts.

  The queue (BullMQ) is the list of the jobs that were added, in order: which of them the
  worker runs, when and how often is left open, so that the lemmas hold for every schedule.
  The HTTP client, the keyed hash, the cipher, \<open>URL\<close> and the clock are parameters;
  \<open>clk i\<close> is the \<open>i\<close>-th reading of the clock within one operation.
\<close>

section \<open>Parameters and state\<close>

datatype fetch_result =
    FetchError "string option" \<comment> \<open>the call throws: an \<open>Error\<close> with its message, or something else\<close>
  | Response int string string \<comment> \<open>status, status text, body\<close>

record http_request =
  rq_url :: string
  rq_headers :: "(string \<times> string) list"
  rq_body :: string

record webhook_env =
  hmac_sha256 :: "string \<Rightarrow> string \<Rightarrow> string" \<comment> \<open>secret and payload to the hexadecimal digest\<close>
  url_protocol :: "string \<Rightarrow> string option" \<comment> \<open>\<open>new URL(url).protocol\<close>, \<open>None\<close> when it throws\<close>
  probe :: "string \<Rightarrow> string \<Rightarrow> fetch_result" \<comment> \<open>method and URL\<close>
  aes_gcm :: "string \<Rightarrow> string \<Rightarrow> string \<times> string \<times> string" \<comment> \<open>key text and plain text to iv, tag and cipher text, base64\<close>
  js_quote :: "string \<Rightarrow> string"
  js_num_text :: "rat \<Rightarrow> string"
  to_base64 :: "string \<Rightarrow> string"
  iso_time :: "int \<Rightarrow> string"

record webhook_job =
  job_id :: string
  job_delay :: int
  job_deliveryId :: "string option"
  job_webhookId :: "string option"
  job_eventType :: string
  job_payload :: json
  job_direct :: "(string \<times> string) option" \<comment> \<open>\<open>directDelivery\<close>: URL and secret\<close>

record webhook_state =
  wh_db :: world
  wh_jobs :: "webhook_job list"
  rateWindow :: "string \<rightharpoonup> int \<times> int" \<comment> \<open>window start and count\<close>
  wh_sent :: "http_request list"

definition MAX_RETRY_ATTEMPTS :: nat where "MAX_RETRY_ATTEMPTS = 5"

definition RETRY_BASE_DELAY_MS :: int where "RETRY_BASE_DELAY_MS = 1000"

definition RETRY_MAX_DELAY_MS :: int where "RETRY_MAX_DELAY_MS = 5 * 60 * 1000"

definition json_stringify :: "webhook_env \<Rightarrow> json \<Rightarrow> string" where
  "json_stringify V = stringify (js_quote V) (js_num_text V)"

definition queue_add :: "webhook_job \<Rightarrow> webhook_state \<Rightarrow> webhook_state" where
  "queue_add j s = s\<lparr>wh_jobs := wh_jobs s @ [j]\<rparr>"

definition on_webhooks :: "(webhook_row list \<Rightarrow> webhook_row list) \<Rightarrow> webhook_state \<Rightarrow> webhook_state" where
  "on_webhooks f s = s\<lparr>wh_db := (wh_db s)\<lparr>webhooks := f (webhooks (wh_db s))\<rparr>\<rparr>"

definition on_deliveries :: "(delivery_row list \<Rightarrow> delivery_row list) \<Rightarrow> webhook_state \<Rightarrow> webhook_state" where
  "on_deliveries f s = s\<lparr>wh_db := (wh_db s)\<lparr>deliveries := f (deliveries (wh_db s))\<rparr>\<rparr>"

section \<open>Signatures\<close>

definition signWebhookPayload :: "webhook_env \<Rightarrow> string \<Rightarrow> string \<Rightarrow> string" where
  "signWebhookPayload V payload secret = ''sha256='' @ hmac_sha256 V secret payload"

definition verifyWebhookSignature :: "webhook_env \<Rightarrow> string \<Rightarrow> string option \<Rightarrow> string \<Rightarrow> bool" where
  "verifyWebhookSignature V payload receivedSignature secret = (case receivedSignature of
     None \<Rightarrow> False
   | Some received \<Rightarrow> if received = [] then False
       else let expected = signWebhookPayload V payload secret in
         if length expected \<noteq> length received then False else expected = received)"

section \<open>Request checks\<close>

definition normalizeRateLimit :: "num_input \<Rightarrow> app_error + int" where
  "normalizeRateLimit v = (case v of
     NUndef \<Rightarrow> Inr 60
   | NNum (Fin q) \<Rightarrow> if q \<notin> \<int> \<or> q < 1 then Inl (ValidationError ''rateLimitPerMinute must be a positive integer'')
       else Inr (min \<lfloor>q\<rfloor> 6000)
   | _ \<Rightarrow> Inl (ValidationError ''rateLimitPerMinute must be a positive integer''))"

definition normalizeEvents :: "string list \<Rightarrow> app_error + string list" where
  "normalizeEvents events =
     (let normalized = unique_list (filter (\<lambda>e. e \<noteq> []) (map (\<lambda>e. js_lower (js_trim e)) events))
      in if normalized = [] then Inl (ValidationError ''At least one webhook event is required'') else Inr normalized)"

definition normalizeAuthMethod :: "string option \<Rightarrow> app_error + webhook_auth" where
  "normalizeAuthMethod m = (case m of
     None \<Rightarrow> Inr SIGNATURE
   | Some t \<Rightarrow> if t = ''SIGNATURE'' then Inr SIGNATURE
       else if t = ''BEARER'' then Inr BEARER
       else if t = ''BASIC'' then Inr BASIC
       else if t = ''CUSTOM_HEADER'' then Inr CUSTOM_HEADER
       else if t = ''NONE'' then Inr NO_AUTH
       else Inl (ValidationError ''Invalid authMethod''))"

definition validateWebhookUrl :: "webhook_env \<Rightarrow> string \<Rightarrow> app_error + unit" where
  "validateWebhookUrl V url = (case url_protocol V url of
     None \<Rightarrow> Inl (ValidationError ''Invalid webhook URL'')
   | Some p \<Rightarrow> if p \<notin> {''http:'', ''https:''} then Inl (ValidationError ''Webhook URL must use http or https'') else Inr ())"

fun reachable :: "fetch_result \<Rightarrow> bool" where
  "reachable (FetchError m) = False"
| "reachable (Response status t b) = (status < 400)"

definition validateEndpointAccessibility :: "webhook_env \<Rightarrow> string \<Rightarrow> app_error + unit" where
  "validateEndpointAccessibility V url =
     (if reachable (probe V ''HEAD'' url) then Inr ()
      else if reachable (probe V ''GET'' url) then Inr ()
      else Inl (ValidationError ''Webhook endpoint is not accessible (HEAD/GET check failed)''))"

definition checked_url :: "webhook_env \<Rightarrow> string \<Rightarrow> app_error + unit" where
  "checked_url V url = (case validateWebhookUrl V url of
     Inl e \<Rightarrow> Inl e
   | Inr _ \<Rightarrow> validateEndpointAccessibility V url)"

lemmas [guard_defs] = normalizeRateLimit_def normalizeEvents_def normalizeAuthMethod_def validateWebhookUrl_def
  validateEndpointAccessibility_def checked_url_def

section \<open>Registration\<close>

record webhook_options =
  opt_authMethod :: "string option"
  opt_authConfig :: "(string \<times> json) list option option" \<comment> \<open>absent, \<open>null\<close> or an object\<close>
  opt_encryptionEnabled :: "bool option"
  opt_encryptionKey :: "string option"
  opt_rateLimit :: num_input
  opt_isActive :: "bool option"

definition registerWebhook ::
  "webhook_env \<Rightarrow> string \<Rightarrow> string \<Rightarrow> string \<Rightarrow> string \<Rightarrow> string list \<Rightarrow> string option \<Rightarrow> webhook_options \<Rightarrow> webhook_state
    \<Rightarrow> (webhook_state, webhook_row) outcome" where
  "registerWebhook V new_id random_hex userId url events secret opts s =
     (case checked_url V url of Inl e \<Rightarrow> (Inl e, s) | Inr _ \<Rightarrow>
      case normalizeEvents events of Inl e \<Rightarrow> (Inl e, s) | Inr evs \<Rightarrow>
      case normalizeAuthMethod (opt_authMethod opts) of Inl e \<Rightarrow> (Inl e, s) | Inr am \<Rightarrow>
      case normalizeRateLimit (opt_rateLimit opts) of Inl e \<Rightarrow> (Inl e, s) | Inr rl \<Rightarrow>
      let enc = (case opt_encryptionEnabled opts of None \<Rightarrow> False | Some b \<Rightarrow> b);
          key = (if opt_trim (opt_encryptionKey opts) = [] then None else Some (opt_trim (opt_encryptionKey opts)))
      in if enc \<and> key = None then (Inl (ValidationError ''encryptionKey is required when encryptionEnabled is true''), s)
      else if lookup_row user_id userId (users (wh_db s)) = None
      then (Inl (PlainError ''Foreign key constraint violated: Webhook_userId_fkey''), s)
      else let row = \<lparr>webhook_id = new_id, webhook_userId = userId, webhook_url = url,
             webhook_secret = (if opt_trim secret = [] then random_hex else opt_trim secret), webhook_events = evs,
             webhook_isActive = (case opt_isActive opts of None \<Rightarrow> True | Some b \<Rightarrow> b), authMethod = am,
             authConfig = (case opt_authConfig opts of None \<Rightarrow> None | Some c \<Rightarrow> c), encryptionEnabled = enc,
             encryptionKey = key, rateLimitPerMinute = rl, lastSuccessAt = None, lastFailureAt = None, consecutiveFailures = 0\<rparr>
        in (Inr row, on_webhooks (insert_row row) s))"

definition listWebhooks :: "string \<Rightarrow> webhook_state \<Rightarrow> webhook_row list" where
  "listWebhooks userId s = filter (\<lambda>r. webhook_userId r = userId) (rev (webhooks (wh_db s)))"

definition getOwnedWebhook :: "string \<Rightarrow> string \<Rightarrow> webhook_state \<Rightarrow> app_error + webhook_row" where
  "getOwnedWebhook userId webhookId s =
     (case find (\<lambda>r. webhook_id r = webhookId \<and> webhook_userId r = userId) (webhooks (wh_db s)) of
        None \<Rightarrow> Inl (NotFoundError ''Webhook not found'')
      | Some r \<Rightarrow> Inr r)"

record webhook_update =
  up_url :: "string option"
  up_events :: "string list option"
  up_secret :: "string option"
  up_options :: webhook_options

text \<open>\<open>f\<close> applied to a present value; an absent one leaves the old value.\<close>

definition optional :: "'b option \<Rightarrow> ('b \<Rightarrow> app_error + 'a) \<Rightarrow> 'a \<Rightarrow> app_error + 'a" where
  "optional v f old = (case v of None \<Rightarrow> Inr old | Some x \<Rightarrow> f x)"

definition updateWebhook ::
  "webhook_env \<Rightarrow> string \<Rightarrow> string \<Rightarrow> webhook_update \<Rightarrow> webhook_state \<Rightarrow> (webhook_state, webhook_row) outcome" where
  "updateWebhook V userId webhookId input s =
     (case getOwnedWebhook userId webhookId s of Inl e \<Rightarrow> (Inl e, s) | Inr webhook \<Rightarrow>
      case optional (up_url input) (\<lambda>u. case checked_url V u of Inl e \<Rightarrow> Inl e | Inr _ \<Rightarrow> Inr u) (webhook_url webhook) of
        Inl e \<Rightarrow> (Inl e, s) | Inr url \<Rightarrow>
      case optional (up_events input) normalizeEvents (webhook_events webhook) of Inl e \<Rightarrow> (Inl e, s) | Inr evs \<Rightarrow>
      case optional (up_secret input) (\<lambda>x. if js_trim x = [] then Inl (ValidationError ''secret cannot be empty'') else Inr (js_trim x))
          (webhook_secret webhook) of Inl e \<Rightarrow> (Inl e, s) | Inr sec \<Rightarrow>
      case optional (opt_authMethod (up_options input)) (\<lambda>x. normalizeAuthMethod (Some x)) (authMethod webhook) of
        Inl e \<Rightarrow> (Inl e, s) | Inr am \<Rightarrow>
      case (if opt_rateLimit (up_options input) = NUndef then Inr (rateLimitPerMinute webhook)
            else normalizeRateLimit (opt_rateLimit (up_options input))) of Inl e \<Rightarrow> (Inl e, s) | Inr rl \<Rightarrow>
      let enc = (case opt_encryptionEnabled (up_options input) of None \<Rightarrow> encryptionEnabled webhook | Some b \<Rightarrow> b);
          key = (case opt_encryptionKey (up_options input) of None \<Rightarrow> encryptionKey webhook | Some k \<Rightarrow> Some (js_trim k))
      in if enc \<and> (key = None \<or> key = Some [])
         then (Inl (ValidationError ''encryptionKey is required when encryptionEnabled is true''), s)
         else let new = (\<lambda>r. r\<lparr>webhook_url := url, webhook_events := evs, webhook_secret := sec,
                webhook_isActive := (case opt_isActive (up_options input) of None \<Rightarrow> webhook_isActive r | Some b \<Rightarrow> b),
                authMethod := am, authConfig := (case opt_authConfig (up_options input) of None \<Rightarrow> authConfig r | Some c \<Rightarrow> c),
                rateLimitPerMinute := rl, encryptionEnabled := enc, encryptionKey := key\<rparr>)
              in (Inr (new webhook), on_webhooks (update_where (\<lambda>r. webhook_id r = webhookId) new) s))"

text \<open>Deleting an endpoint deletes its deliveries (\<open>onDelete: Cascade\<close>).\<close>

definition deleteWebhook :: "string \<Rightarrow> string \<Rightarrow> webhook_state \<Rightarrow> (webhook_state, unit) outcome" where
  "deleteWebhook userId webhookId s =
     (let sel = (\<lambda>r. webhook_id r = webhookId \<and> webhook_userId r = userId) in
      if count_where sel (webhooks (wh_db s)) = 0 then (Inl (NotFoundError ''Webhook not found''), s)
      else (Inr (), on_deliveries (delete_where (\<lambda>d. delivery_webhookId d = webhookId)) (on_webhooks (delete_where sel) s)))"

section \<open>Triggering\<close>

definition queueWebhookDelivery :: "string \<Rightarrow> webhook_row \<Rightarrow> string \<Rightarrow> json \<Rightarrow> webhook_state \<Rightarrow> webhook_state" where
  "queueWebhookDelivery new_id webhook eventType payload s =
     (let d = \<lparr>delivery_id = new_id, delivery_webhookId = webhook_id webhook, delivery_eventType = eventType,
            delivery_status = DELIVERY_PENDING, delivery_attempt = 0, requestBody = Some payload, responseStatus = None,
            responseBody = None, errorMessage = None, nextRetryAt = None, deliveredAt = None, durationMs = None\<rparr>
      in queue_add \<lparr>job_id = ''delivery:'' @ new_id, job_delay = 0, job_deliveryId = Some new_id,
           job_webhookId = Some (webhook_id webhook), job_eventType = eventType, job_payload = payload, job_direct = None\<rparr>
         (on_deliveries (insert_row d) s))"

definition testWebhook ::
  "webhook_env \<Rightarrow> int \<Rightarrow> string \<Rightarrow> string \<Rightarrow> string \<Rightarrow> webhook_state \<Rightarrow> (webhook_state, string) outcome" where
  "testWebhook V now new_id userId webhookId s = (case getOwnedWebhook userId webhookId s of
     Inl e \<Rightarrow> (Inl e, s)
   | Inr webhook \<Rightarrow> (Inr new_id, queueWebhookDelivery new_id webhook ''webhook.test''
       (JObj [(''event'', JStr ''webhook.test''), (''webhookId'', JStr (webhook_id webhook)), (''sentAt'', JStr (iso_time V now)),
         (''message'', JStr ''Test webhook delivery from StelloVault'')]) s))"

definition getWebhookLogs :: "string \<Rightarrow> string \<Rightarrow> int \<Rightarrow> webhook_state \<Rightarrow> app_error + delivery_row list" where
  "getWebhookLogs userId webhookId n s = (case getOwnedWebhook userId webhookId s of
     Inl e \<Rightarrow> Inl e
   | Inr _ \<Rightarrow> Inr (page_desc (\<lambda>d. delivery_webhookId d = webhookId) 0 (nat (max 1 (min n 200))) (deliveries (wh_db s))))"

definition subscribed :: "string \<Rightarrow> string option \<Rightarrow> webhook_row \<Rightarrow> bool" where
  "subscribed eventType userId r \<longleftrightarrow> webhook_isActive r \<and> eventType \<in> set (webhook_events r)
     \<and> (userId = None \<or> userId = Some [] \<or> userId = Some (webhook_userId r))"

definition trigger_payload :: "webhook_env \<Rightarrow> string \<Rightarrow> int \<Rightarrow> json \<Rightarrow> json" where
  "trigger_payload V eventType now payload =
     JObj [(''event'', JStr eventType), (''timestamp'', JStr (iso_time V now)), (''data'', payload)]"

text \<open>\<open>new_ids\<close> gives the ids of the new delivery rows, \<open>clk\<close> the times in the payloads.\<close>

definition triggerEvent ::
  "webhook_env \<Rightarrow> (nat \<Rightarrow> int) \<Rightarrow> (nat \<Rightarrow> string) \<Rightarrow> string \<Rightarrow> json \<Rightarrow> string option \<Rightarrow> webhook_state
    \<Rightarrow> (webhook_state, string list) outcome" where
  "triggerEvent V clk ids eventType payload userId s =
     (let ev = js_lower (js_trim eventType) in
      if ev = [] then (Inl (ValidationError ''eventType is required''), s)
      else let hooks = filter (subscribed ev userId) (webhooks (wh_db s)) in
        (Inr (map webhook_id hooks),
         fold (\<lambda>(i, r). queueWebhookDelivery (ids i) r ev (trigger_payload V ev (clk i) payload)) (enumerate 0 hooks) s))"

definition payload_or_empty :: "json option \<Rightarrow> json" where
  "payload_or_empty b = (case b of Some j \<Rightarrow> j | None \<Rightarrow> JObj [])"

definition due_for_retry :: "int \<Rightarrow> delivery_row \<Rightarrow> bool" where
  "due_for_retry now d \<longleftrightarrow> delivery_status d \<in> {DELIVERY_RETRYING, DELIVERY_FAILED}
     \<and> (case nextRetryAt d of None \<Rightarrow> False | Some t \<Rightarrow> t \<le> now)"

definition retry_delivery :: "(nat \<Rightarrow> string) \<Rightarrow> nat \<times> delivery_row \<Rightarrow> webhook_state \<Rightarrow> webhook_state" where
  "retry_delivery stamp = (\<lambda>(i, d) s. queue_add
     \<lparr>job_id = ''retry:'' @ delivery_id d @ '':'' @ stamp i, job_delay = 0, job_deliveryId = Some (delivery_id d),
      job_webhookId = Some (delivery_webhookId d), job_eventType = delivery_eventType d,
      job_payload = payload_or_empty (requestBody d), job_direct = None\<rparr>
     (on_deliveries (update_where (\<lambda>x. delivery_id x = delivery_id d) (\<lambda>x. x\<lparr>delivery_status := DELIVERY_RETRYING\<rparr>)) s))"

definition retryFailedWebhooks :: "int \<Rightarrow> (nat \<Rightarrow> string) \<Rightarrow> webhook_state \<Rightarrow> (webhook_state, nat) outcome" where
  "retryFailedWebhooks now stamp s =
     (let due = take 200 (filter (due_for_retry now) (deliveries (wh_db s)))
      in (Inr (length due), fold (retry_delivery stamp) (enumerate 0 due) s))"

section \<open>Sending\<close>

text \<open>
  \<open>headers[name] = value\<close>: an existing property keeps its place, and \<open>__proto__\<close> takes
  no string.
\<close>

definition set_header :: "string \<Rightarrow> string \<Rightarrow> (string \<times> string) list \<Rightarrow> (string \<times> string) list" where
  "set_header k v hs = (if k = ''__proto__'' then hs
     else if k \<in> fst ` set hs then map (\<lambda>(a, b). if a = k then (a, v) else (a, b)) hs else hs @ [(k, v)])"

definition config_text :: "string \<Rightarrow> webhook_row \<Rightarrow> string" where
  "config_text k r = (case authConfig r of
     None \<Rightarrow> []
   | Some c \<Rightarrow> (case map_of c k of Some (JStr t) \<Rightarrow> t | _ \<Rightarrow> []))"

definition encryptPayload :: "webhook_env \<Rightarrow> json \<Rightarrow> string \<Rightarrow> app_error + json" where
  "encryptPayload V payload key = (if key = [] then Inl (ValidationError ''Missing encryption key'')
     else case aes_gcm V key (json_stringify V payload) of (iv, tag, c) \<Rightarrow>
       Inr (JObj [(''encrypted'', JBool True), (''algorithm'', JStr ''aes-256-gcm''), (''iv'', JStr iv), (''tag'', JStr tag),
         (''payload'', JStr c)]))"

definition auth_headers :: "webhook_env \<Rightarrow> webhook_row \<Rightarrow> string \<Rightarrow> (string \<times> string) list \<Rightarrow> (string \<times> string) list" where
  "auth_headers V webhook body hs = (case authMethod webhook of
     SIGNATURE \<Rightarrow> set_header ''x-webhook-signature'' (signWebhookPayload V body (webhook_secret webhook)) hs
   | BEARER \<Rightarrow> if config_text ''token'' webhook \<noteq> []
       then set_header ''authorization'' (''Bearer '' @ config_text ''token'' webhook) hs else hs
   | BASIC \<Rightarrow> if config_text ''username'' webhook \<noteq> [] \<or> config_text ''password'' webhook \<noteq> []
       then set_header ''authorization''
         (''Basic '' @ to_base64 V (config_text ''username'' webhook @ '':'' @ config_text ''password'' webhook)) hs else hs
   | CUSTOM_HEADER \<Rightarrow> if config_text ''headerName'' webhook \<noteq> [] \<and> config_text ''headerValue'' webhook \<noteq> []
       then set_header (js_lower (config_text ''headerName'' webhook)) (config_text ''headerValue'' webhook) hs else hs
   | NO_AUTH \<Rightarrow> hs)"

definition buildWebhookRequest ::
  "webhook_env \<Rightarrow> string \<Rightarrow> int \<Rightarrow> webhook_row \<Rightarrow> string \<Rightarrow> json \<Rightarrow> app_error + (http_request \<times> json)" where
  "buildWebhookRequest V uuid now webhook eventType payload =
     (case (if encryptionEnabled webhook then encryptPayload V payload (case encryptionKey webhook of None \<Rightarrow> [] | Some k \<Rightarrow> k)
            else Inr payload) of
        Inl e \<Rightarrow> Inl e
      | Inr transformed \<Rightarrow>
        let body = json_stringify V transformed;
            headers = [(''content-type'', ''application/json''), (''x-webhook-event'', eventType), (''x-webhook-id'', uuid),
              (''x-webhook-timestamp'', iso_time V now)]
        in Inr (\<lparr>rq_url = webhook_url webhook, rq_headers = auth_headers V webhook body headers, rq_body = body\<rparr>, transformed))"

definition calculateRetryDelay :: "nat \<Rightarrow> int" where
  "calculateRetryDelay attempt = min (RETRY_BASE_DELAY_MS * 2 ^ (attempt - 1)) RETRY_MAX_DELAY_MS"

definition getRateLimitDelayMs :: "int \<Rightarrow> webhook_row \<Rightarrow> webhook_state \<Rightarrow> int \<times> webhook_state" where
  "getRateLimitDelayMs now webhook s = (case rateWindow s (webhook_id webhook) of
     None \<Rightarrow> (0, s\<lparr>rateWindow := (rateWindow s)(webhook_id webhook \<mapsto> (now, 1))\<rparr>)
   | Some (start, n) \<Rightarrow>
       if 60000 \<le> now - start then (0, s\<lparr>rateWindow := (rateWindow s)(webhook_id webhook \<mapsto> (now, 1))\<rparr>)
       else if rateLimitPerMinute webhook \<le> n then (max 1 (60000 - (now - start)), s)
       else (0, s\<lparr>rateWindow := (rateWindow s)(webhook_id webhook \<mapsto> (start, n + 1))\<rparr>))"

definition on_delivery :: "string \<Rightarrow> (delivery_row \<Rightarrow> delivery_row) \<Rightarrow> webhook_state \<Rightarrow> webhook_state" where
  "on_delivery i f = on_deliveries (update_where (\<lambda>d. delivery_id d = i) f)"

definition handleDeliveryFailure ::
  "int \<Rightarrow> int \<Rightarrow> (nat \<Rightarrow> string) \<Rightarrow> delivery_row \<Rightarrow> nat \<Rightarrow> string option \<Rightarrow> webhook_state \<Rightarrow> webhook_state" where
  "handleDeliveryFailure now now' nat_text delivery attempt err s =
     (let reason = (case err of Some m \<Rightarrow> m | None \<Rightarrow> ''Unknown webhook error'');
          s1 = on_webhooks (update_where (\<lambda>r. webhook_id r = delivery_webhookId delivery)
            (\<lambda>r. r\<lparr>lastFailureAt := Some now, consecutiveFailures := consecutiveFailures r + 1\<rparr>)) s
      in if MAX_RETRY_ATTEMPTS \<le> attempt
         then on_delivery (delivery_id delivery) (\<lambda>d. d\<lparr>delivery_status := DELIVERY_FAILED, delivery_attempt := attempt,
           errorMessage := Some reason, nextRetryAt := None\<rparr>) s1
         else let retryDelay = calculateRetryDelay attempt in
           queue_add \<lparr>job_id = ''retry:'' @ delivery_id delivery @ '':'' @ nat_text attempt, job_delay = retryDelay,
             job_deliveryId = Some (delivery_id delivery), job_webhookId = Some (delivery_webhookId delivery),
             job_eventType = delivery_eventType delivery, job_payload = payload_or_empty (requestBody delivery), job_direct = None\<rparr>
           (on_delivery (delivery_id delivery) (\<lambda>d. d\<lparr>delivery_status := DELIVERY_RETRYING, delivery_attempt := attempt,
             errorMessage := Some reason, nextRetryAt := Some (now' + retryDelay)\<rparr>) s1))"

text \<open>
  \<open>processWebhookJob\<close>: \<open>net\<close> answers the request (with the whole body read).
\<close>

definition delivery_succeeded ::
  "delivery_row \<Rightarrow> nat \<Rightarrow> json \<Rightarrow> int \<Rightarrow> string \<Rightarrow> int \<Rightarrow> int \<Rightarrow> int \<Rightarrow> webhook_state \<Rightarrow> webhook_state" where
  "delivery_succeeded delivery attempt logPayload status body deliveredAt' dur successAt s =
     on_webhooks (update_where (\<lambda>r. webhook_id r = delivery_webhookId delivery)
       (\<lambda>r. r\<lparr>lastSuccessAt := Some successAt, consecutiveFailures := 0\<rparr>))
     (on_delivery (delivery_id delivery) (\<lambda>d. d\<lparr>delivery_status := DELIVERY_SUCCESS, delivery_attempt := attempt,
        requestBody := Some logPayload, responseStatus := Some status, responseBody := Some body,
        deliveredAt := Some deliveredAt', durationMs := Some dur, errorMessage := None, nextRetryAt := None\<rparr>) s)"

definition http_error :: "int \<Rightarrow> string \<Rightarrow> (int \<Rightarrow> string) \<Rightarrow> string" where
  "http_error status body int_text = ''HTTP '' @ int_text status @ (if body = [] then [] else '': '' @ body)"

definition attempt_delivery ::
  "webhook_env \<Rightarrow> (nat \<Rightarrow> int) \<Rightarrow> string \<Rightarrow> (nat \<Rightarrow> string) \<Rightarrow> (int \<Rightarrow> string) \<Rightarrow> (http_request \<Rightarrow> fetch_result)
    \<Rightarrow> delivery_row \<Rightarrow> webhook_row \<Rightarrow> json \<Rightarrow> webhook_state \<Rightarrow> webhook_state" where
  "attempt_delivery V clk uuid nat_text int_text net delivery webhook requestPayload s =
     (let attempt = delivery_attempt delivery + 1;
          fail = handleDeliveryFailure (clk 5) (clk 6) nat_text delivery attempt
      in case buildWebhookRequest V uuid (clk 2) webhook (delivery_eventType delivery) requestPayload of
        Inl e \<Rightarrow> fail (Some (err_message e)) s
      | Inr (request, logPayload) \<Rightarrow>
        let s1 = s\<lparr>wh_sent := wh_sent s @ [request]\<rparr> in
        (case net request of
          FetchError m \<Rightarrow> fail m s1
        | Response status st body \<Rightarrow>
            if status < 200 \<or> 299 < status then fail (Some (http_error status body int_text)) s1
            else delivery_succeeded delivery attempt logPayload status body (clk 4) (clk 3 - clk 1) (clk 5) s1))"

definition sendDirectWebhook ::
  "webhook_env \<Rightarrow> string \<Rightarrow> (int \<Rightarrow> string) \<Rightarrow> (http_request \<Rightarrow> fetch_result) \<Rightarrow> string \<Rightarrow> string \<Rightarrow> string \<Rightarrow> json
    \<Rightarrow> webhook_state \<Rightarrow> (webhook_state, unit) outcome" where
  "sendDirectWebhook V uuid int_text net url secret eventType payload s =
     (let body = json_stringify V payload;
          request = \<lparr>rq_url = url, rq_headers = [(''content-type'', ''application/json''), (''x-webhook-event'', eventType),
            (''x-webhook-id'', uuid), (''x-webhook-signature'', signWebhookPayload V body secret)], rq_body = body\<rparr>;
          s1 = s\<lparr>wh_sent := wh_sent s @ [request]\<rparr>
      in case net request of
        FetchError m \<Rightarrow> (Inl (PlainError (case m of None \<Rightarrow> [] | Some t \<Rightarrow> t)), s1)
      | Response status st body' \<Rightarrow>
          if 200 \<le> status \<and> status \<le> 299 then (Inr (), s1)
          else (Inl (PlainError (''Webhook delivery failed with status '' @ int_text status @ '': '' @
            (if body' = [] then st else body'))), s1))"

text \<open>The public form of it, for the payment of a loan.\<close>

definition sendWebhook ::
  "webhook_env \<Rightarrow> string \<Rightarrow> (int \<Rightarrow> string) \<Rightarrow> (http_request \<Rightarrow> fetch_result) \<Rightarrow> string \<Rightarrow> string \<Rightarrow> json
    \<Rightarrow> webhook_state \<Rightarrow> (webhook_state, unit) outcome" where
  "sendWebhook V uuid int_text net url secret payload s =
     sendDirectWebhook V uuid int_text net url secret ''payment.received'' payload s"

definition processWebhookJob ::
  "webhook_env \<Rightarrow> (nat \<Rightarrow> int) \<Rightarrow> string \<Rightarrow> (nat \<Rightarrow> string) \<Rightarrow> (int \<Rightarrow> string) \<Rightarrow> (http_request \<Rightarrow> fetch_result)
    \<Rightarrow> webhook_job \<Rightarrow> webhook_state \<Rightarrow> (webhook_state, unit) outcome" where
  "processWebhookJob V clk uuid nat_text int_text net job s = (case job_direct job of
     Some (url, secret) \<Rightarrow> sendDirectWebhook V uuid int_text net url secret (job_eventType job) (job_payload job) s
   | None \<Rightarrow> (case job_deliveryId job of
       None \<Rightarrow> (Inr (), s)
     | Some i \<Rightarrow> if i = [] then (Inr (), s) else (case lookup_row delivery_id i (deliveries (wh_db s)) of
         None \<Rightarrow> (Inr (), s)
       | Some delivery \<Rightarrow> (case lookup_row webhook_id (delivery_webhookId delivery) (webhooks (wh_db s)) of
           None \<Rightarrow> (Inr (), s)
         | Some webhook \<Rightarrow>
           if \<not> webhook_isActive webhook
           then (Inr (), on_delivery (delivery_id delivery) (\<lambda>d. d\<lparr>delivery_status := DELIVERY_FAILED,
             errorMessage := Some ''Webhook disabled'', nextRetryAt := None\<rparr>) s)
           else let requestPayload = (case requestBody delivery of Some b \<Rightarrow> b | None \<Rightarrow> job_payload job) in
             (case getRateLimitDelayMs (clk 0) webhook s of (rateDelay, s1) \<Rightarrow>
               if 0 < rateDelay
               then (Inr (), queue_add \<lparr>job_id = ''rate-limit:'' @ delivery_id delivery @ '':'' @ int_text (clk 2),
                   job_delay = rateDelay, job_deliveryId = Some (delivery_id delivery), job_webhookId = Some (webhook_id webhook),
                   job_eventType = delivery_eventType delivery, job_payload = requestPayload, job_direct = None\<rparr>
                 (on_delivery (delivery_id delivery) (\<lambda>d. d\<lparr>delivery_status := DELIVERY_RETRYING,
                   errorMessage := Some (''Rate limited. Retrying in '' @ int_text rateDelay @ ''ms''),
                   nextRetryAt := Some (clk 1 + rateDelay)\<rparr>) s1))
               else (Inr (), attempt_delivery V clk uuid nat_text int_text net delivery webhook requestPayload s1))))))"

section \<open>Payments\<close>

definition enqueuePaymentReceivedWebhook ::
  "string \<Rightarrow> string \<Rightarrow> string \<Rightarrow> string \<Rightarrow> json \<Rightarrow> webhook_state \<Rightarrow> webhook_state" where
  "enqueuePaymentReceivedWebhook sessionId repaymentId url secret payload s =
     queue_add \<lparr>job_id = ''payment:'' @ sessionId @ '':'' @ repaymentId, job_delay = 0, job_deliveryId = None, job_webhookId = None,
       job_eventType = ''payment.received'', job_payload = payload, job_direct = Some (url, secret)\<rparr> s"

definition json_opt :: "string option \<Rightarrow> json" where
  "json_opt v = (case v of None \<Rightarrow> JNull | Some t \<Rightarrow> JStr t)"

definition payment_data :: "payment_received \<Rightarrow> (string \<times> json) list" where
  "payment_data e = [(''loanId'', JStr (pe_loanId e)), (''repaymentId'', JStr (pe_repaymentId e)),
     (''paymentSessionId'', json_opt (pe_paymentSessionId e)), (''checkoutUrl'', json_opt (pe_checkoutUrl e)),
     (''amount'', JStr (pe_amount e)), (''outstandingAfter'', JStr (pe_outstandingAfter e)), (''paidAt'', JStr (pe_paidAt e)),
     (''successUrl'', json_opt (pe_successUrl e)), (''cancelUrl'', json_opt (pe_cancelUrl e))]"

text \<open>\<open>EventMonitoringService.handlePaymentReceived\<close>, called by \<open>processEvent\<close>.\<close>

definition handlePaymentReceived ::
  "webhook_env \<Rightarrow> (nat \<Rightarrow> int) \<Rightarrow> (nat \<Rightarrow> string) \<Rightarrow> payment_received \<Rightarrow> webhook_state \<Rightarrow> webhook_state" where
  "handlePaymentReceived V clk ids e s = (case pe_webhookUrl e of
     None \<Rightarrow> s
   | Some url \<Rightarrow> if url = [] \<or> opt_trim (pe_webhookSecret e) = [] then s
       else let s1 = enqueuePaymentReceivedWebhook
                (case pe_paymentSessionId e of Some i \<Rightarrow> i | None \<Rightarrow> pe_repaymentId e) (pe_repaymentId e) url
                (opt_trim (pe_webhookSecret e)) (JObj ((''event'', JStr ''payment.received'') # payment_data e)) s
         in snd (triggerEvent V clk ids ''payment.received'' (JObj (payment_data e)) None s1))"

text \<open>The handler as the loan service runs it after a repayment, on the same database.\<close>

definition payment_emit ::
  "webhook_env \<Rightarrow> (nat \<Rightarrow> int) \<Rightarrow> (nat \<Rightarrow> string) \<Rightarrow> webhook_state \<Rightarrow> payment_received \<Rightarrow> world \<Rightarrow> world" where
  "payment_emit V clk ids s e w = wh_db (handlePaymentReceived V clk ids e (s\<lparr>wh_db := w\<rparr>))"

section \<open>Metrics\<close>

datatype webhook_health = HEALTH_UNKNOWN | HEALTHY | DEGRADED | WARNING

record webhook_metrics =
  totalDeliveries :: nat
  successfulDeliveries :: nat
  failedDeliveries :: nat
  pendingDeliveries :: nat
  retryingDeliveries :: nat
  successRate :: rat
  averageDeliveryMs :: "rat option"
  health :: webhook_health

text \<open>\<open>Number(x.toFixed(2))\<close>.\<close>

definition to_fixed2 :: "rat \<Rightarrow> rat" where
  "to_fixed2 x = fl64 (of_int (math_round (x * 100)) / 100)"

definition success_rate :: "nat \<Rightarrow> nat \<Rightarrow> rat" where
  "success_rate successful total_count =
     (if total_count = 0 then 0 else to_fixed2 (fl64 (fl64 (of_nat successful / of_nat total_count) * 100)))"

definition health_of :: "delivery_status list \<Rightarrow> webhook_health" where
  "health_of latest = (if latest = [] then HEALTH_UNKNOWN
     else if list_all (\<lambda>x. x = DELIVERY_SUCCESS) (take 5 latest) then HEALTHY
     else if list_all (\<lambda>x. x \<noteq> DELIVERY_SUCCESS) (take 3 latest) then DEGRADED
     else WARNING)"

definition average_ms :: "int list \<Rightarrow> rat option" where
  "average_ms ds = (if ds = [] then None
     else let a = fl64 (of_int (sum_list ds) / of_nat (length ds)) in if a = 0 then None else Some a)"

definition getWebhookMetrics :: "string \<Rightarrow> string option \<Rightarrow> webhook_state \<Rightarrow> app_error + webhook_metrics" where
  "getWebhookMetrics webhookId userId s =
     (case (if userId = None \<or> userId = Some [] then Inr ()
            else case getOwnedWebhook (the userId) webhookId s of Inl e \<Rightarrow> Inl e | Inr _ \<Rightarrow> Inr ()) of
        Inl e \<Rightarrow> Inl e
      | Inr _ \<Rightarrow>
        let rows = filter (\<lambda>d. delivery_webhookId d = webhookId) (deliveries (wh_db s));
            number = (\<lambda>st. count_where (\<lambda>d. delivery_status d = st) rows)
        in Inr \<lparr>totalDeliveries = length rows, successfulDeliveries = number DELIVERY_SUCCESS,
             failedDeliveries = number DELIVERY_FAILED, pendingDeliveries = number DELIVERY_PENDING,
             retryingDeliveries = number DELIVERY_RETRYING,
             successRate = success_rate (number DELIVERY_SUCCESS) (length rows),
             averageDeliveryMs = average_ms (List.map_filter durationMs (filter (\<lambda>d. delivery_status d = DELIVERY_SUCCESS) rows)),
             health = health_of (map delivery_status (take 20 (rev rows)))\<rparr>)"

section \<open>The controller\<close>

text \<open>What a client sees of an endpoint: the secrets are replaced by whether they are set.\<close>

record safe_webhook =
  safe_row :: webhook_row \<comment> \<open>with both secrets removed\<close>
  hasSecret :: bool
  hasEncryptionKey :: bool

definition sanitizeWebhook :: "webhook_row \<Rightarrow> safe_webhook" where
  "sanitizeWebhook r = \<lparr>safe_row = r\<lparr>webhook_secret := [], encryptionKey := None\<rparr>, hasSecret = (webhook_secret r \<noteq> []),
     hasEncryptionKey = (encryptionKey r \<noteq> None \<and> encryptionKey r \<noteq> Some [])\<rparr>"

definition requireUserId :: "string option \<Rightarrow> app_error + string" where
  "requireUserId u = (if u = None \<or> u = Some [] then Inl (UnauthorizedError ''Authentication required'') else Inr (the u))"

definition logs_limit :: "(string \<Rightarrow> jsnum) \<Rightarrow> num_input \<Rightarrow> rat" where
  "logs_limit parse q = (case q of NStr t \<Rightarrow> (case parse t of Fin x \<Rightarrow> x | _ \<Rightarrow> 50) | _ \<Rightarrow> 50)"

section \<open>Rows under the operations\<close>

lemma db_simps [simp]:
  "wh_db (queue_add j s) = wh_db s" "wh_jobs (queue_add j s) = wh_jobs s @ [j]" "rateWindow (queue_add j s) = rateWindow s"
  "wh_sent (queue_add j s) = wh_sent s"
  "webhooks (wh_db (on_webhooks f s)) = f (webhooks (wh_db s))" "deliveries (wh_db (on_webhooks f s)) = deliveries (wh_db s)"
  "wh_jobs (on_webhooks f s) = wh_jobs s" "rateWindow (on_webhooks f s) = rateWindow s" "wh_sent (on_webhooks f s) = wh_sent s"
  "deliveries (wh_db (on_deliveries g s)) = g (deliveries (wh_db s))" "webhooks (wh_db (on_deliveries g s)) = webhooks (wh_db s)"
  "wh_jobs (on_deliveries g s) = wh_jobs s" "rateWindow (on_deliveries g s) = rateWindow s" "wh_sent (on_deliveries g s) = wh_sent s"
  by (simp_all add: queue_add_def on_webhooks_def on_deliveries_def)

lemma on_delivery_simps [simp]:
  "deliveries (wh_db (on_delivery i f s)) = update_where (\<lambda>d. delivery_id d = i) f (deliveries (wh_db s))"
  "webhooks (wh_db (on_delivery i f s)) = webhooks (wh_db s)" "wh_jobs (on_delivery i f s) = wh_jobs s"
  "rateWindow (on_delivery i f s) = rateWindow s" "wh_sent (on_delivery i f s) = wh_sent s"
  by (simp_all add: on_delivery_def)

lemma rate_limit_db [simp]: "wh_db (snd (getRateLimitDelayMs t r s)) = wh_db s"
  by (simp add: getRateLimitDelayMs_def split: option.split)

text \<open>What holds of a delivery row at all times.\<close>

definition delivery_ok :: "delivery_row \<Rightarrow> bool" where
  "delivery_ok d \<longleftrightarrow> (nextRetryAt d \<noteq> None \<longleftrightarrow> delivery_status d = DELIVERY_RETRYING)
     \<and> (delivery_status d = DELIVERY_PENDING \<longrightarrow> delivery_attempt d = 0)
     \<and> (delivery_status d = DELIVERY_SUCCESS \<longrightarrow> deliveredAt d \<noteq> None \<and> errorMessage d = None)
     \<and> (delivery_status d = DELIVERY_FAILED \<longrightarrow> errorMessage d \<noteq> None)"

definition deliveries_ok :: "webhook_state \<Rightarrow> bool" where
  "deliveries_ok s \<longleftrightarrow> (\<forall>d\<in>set (deliveries (wh_db s)). delivery_ok d)"

lemma deliveries_ok_same: "deliveries (wh_db s') = deliveries (wh_db s) \<Longrightarrow> deliveries_ok s \<Longrightarrow> deliveries_ok s'"
  by (simp add: deliveries_ok_def)

lemma deliveries_ok_update:
  "deliveries_ok s \<Longrightarrow> (\<And>d. d \<in> set (deliveries (wh_db s)) \<Longrightarrow> P d \<Longrightarrow> delivery_ok (f d)) \<Longrightarrow>
   deliveries (wh_db s') = update_where P f (deliveries (wh_db s)) \<Longrightarrow> deliveries_ok s'"
  by (auto simp: deliveries_ok_def set_update_where)

lemma queue_delivery_rows:
  "deliveries (wh_db (queueWebhookDelivery i r ev p s)) = deliveries (wh_db s) @
     [\<lparr>delivery_id = i, delivery_webhookId = webhook_id r, delivery_eventType = ev, delivery_status = DELIVERY_PENDING,
       delivery_attempt = 0, requestBody = Some p, responseStatus = None, responseBody = None, errorMessage = None,
       nextRetryAt = None, deliveredAt = None, durationMs = None\<rparr>]"
  "webhooks (wh_db (queueWebhookDelivery i r ev p s)) = webhooks (wh_db s)"
  by (simp_all add: queueWebhookDelivery_def Let_def insert_row_def)

lemma queue_delivery_ok: "deliveries_ok s \<Longrightarrow> deliveries_ok (queueWebhookDelivery i r ev p s)"
  by (auto simp: deliveries_ok_def queue_delivery_rows delivery_ok_def)

lemma trigger_ok:
  assumes "deliveries_ok s"
  shows "deliveries_ok (snd (triggerEvent V clk ids ev p u s))"
proof -
  have "deliveries_ok (fold (\<lambda>(i, r). queueWebhookDelivery (ids i) r e (f i)) xs s)" for e f xs
    using assms by (induction xs arbitrary: s) (auto intro: queue_delivery_ok)
  then show ?thesis using assms by (simp add: triggerEvent_def Let_def)
qed

text \<open>The retry sweep finds only rows that wait for a retry, and changes none.\<close>

lemma due_is_retrying: "delivery_ok d \<Longrightarrow> due_for_retry now d \<longleftrightarrow> delivery_status d = DELIVERY_RETRYING \<and> the (nextRetryAt d) \<le> now"
  by (auto simp: delivery_ok_def due_for_retry_def split: option.splits)

lemma mark_retrying_same:
  assumes "\<And>x. x \<in> set ds \<Longrightarrow> delivery_id x = i \<Longrightarrow> delivery_status x = DELIVERY_RETRYING"
  shows "update_where (\<lambda>x. delivery_id x = i) (\<lambda>x. x\<lparr>delivery_status := DELIVERY_RETRYING\<rparr>) ds = ds"
  using assms by (induction ds) (auto simp: update_where_def)

lemma retry_fold:
  assumes "distinct (map delivery_id (deliveries (wh_db s)))"
    and "\<forall>x\<in>set xs. snd x \<in> set (deliveries (wh_db s)) \<and> delivery_status (snd x) = DELIVERY_RETRYING"
  shows "wh_db (fold (retry_delivery stamp) xs s) = wh_db s
    \<and> map job_deliveryId (wh_jobs (fold (retry_delivery stamp) xs s)) = map job_deliveryId (wh_jobs s) @ map (Some \<circ> delivery_id \<circ> snd) xs
    \<and> wh_sent (fold (retry_delivery stamp) xs s) = wh_sent s"
  using assms
proof (induction xs arbitrary: s)
  case (Cons x xs)
  obtain i d where x: "x = (i, d)" by (cases x)
  let ?s = "retry_delivery stamp x s"
  have d: "d \<in> set (deliveries (wh_db s))" "delivery_status d = DELIVERY_RETRYING" using Cons.prems(2) x by auto
  have "delivery_status y = DELIVERY_RETRYING" if "y \<in> set (deliveries (wh_db s))" "delivery_id y = delivery_id d" for y
    using Cons.prems(1) d that by (auto simp: distinct_map inj_on_def)
  then have "wh_db ?s = wh_db s"
    by (simp add: x retry_delivery_def on_deliveries_def mark_retrying_same)
  moreover have "map job_deliveryId (wh_jobs ?s) = map job_deliveryId (wh_jobs s) @ [Some (delivery_id d)]" "wh_sent ?s = wh_sent s"
    by (simp_all add: x retry_delivery_def)
  ultimately show ?case using Cons.IH [of ?s] Cons.prems by (simp add: x)
qed simp

section \<open>Small instances\<close>

definition demo_webhook_env :: webhook_env where
  "demo_webhook_env = \<lparr>hmac_sha256 = (\<lambda>k m. ''ab''), url_protocol = (\<lambda>_. Some ''https:''), probe = (\<lambda>_ _. Response 200 [] []),
     aes_gcm = (\<lambda>_ m. ([], [], m)), js_quote = (\<lambda>t. t), js_num_text = (\<lambda>_. []), to_base64 = (\<lambda>t. t), iso_time = (\<lambda>_. [])\<rparr>"

definition demo_hook :: webhook_row where
  "demo_hook = \<lparr>webhook_id = ''h1'', webhook_userId = ''u1'', webhook_url = ''u'', webhook_secret = ''s'',
     webhook_events = [''payment.received''], webhook_isActive = True, authMethod = SIGNATURE, authConfig = None,
     encryptionEnabled = False, encryptionKey = None, rateLimitPerMinute = 60, lastSuccessAt = None, lastFailureAt = None,
     consecutiveFailures = 0\<rparr>"

definition demo_delivery :: delivery_row where
  "demo_delivery = \<lparr>delivery_id = ''d1'', delivery_webhookId = ''h1'', delivery_eventType = ''payment.received'',
     delivery_status = DELIVERY_PENDING, delivery_attempt = 0, requestBody = Some JNull, responseStatus = None,
     responseBody = None, errorMessage = None, nextRetryAt = None, deliveredAt = None, durationMs = None\<rparr>"

definition demo_webhooks :: webhook_state where
  "demo_webhooks = \<lparr>wh_db = empty_world\<lparr>webhooks := [demo_hook], deliveries := [demo_delivery]\<rparr>,
     wh_jobs = [\<lparr>job_id = ''delivery:d1'', job_delay = 0, job_deliveryId = Some ''d1'', job_webhookId = Some ''h1'',
       job_eventType = ''payment.received'', job_payload = JNull, job_direct = None\<rparr>], rateWindow = Map.empty, wh_sent = []\<rparr>"

lemma demo_hook_fields [simp]: "webhook_id demo_hook = ''h1''" "rateLimitPerMinute demo_hook = 60"
  by (simp_all add: demo_hook_def)

section \<open>Steps\<close>

inductive webhook_step :: "webhook_env \<Rightarrow> webhook_state \<Rightarrow> webhook_state \<Rightarrow> bool" for V where
  step_register: "webhook_step V s (snd (registerWebhook V i hex u url evs sec opts s))"
| step_update: "webhook_step V s (snd (updateWebhook V u i input s))"
| step_delete: "webhook_step V s (snd (deleteWebhook u i s))"
| step_test: "i \<notin> delivery_id ` set (deliveries (wh_db s)) \<Longrightarrow> webhook_step V s (snd (testWebhook V now i u w s))"
| step_trigger: "inj ids \<Longrightarrow> range ids \<inter> delivery_id ` set (deliveries (wh_db s)) = {} \<Longrightarrow>
    webhook_step V s (snd (triggerEvent V clk ids ev p u s))"
| step_sweep: "webhook_step V s (snd (retryFailedWebhooks now stamp s))"
| step_job: "job \<in> set (wh_jobs s) \<Longrightarrow> webhook_step V s (snd (processWebhookJob V clk uuid nt it net job s))"
| step_payment: "inj ids \<Longrightarrow> range ids \<inter> delivery_id ` set (deliveries (wh_db s)) = {} \<Longrightarrow>
    webhook_step V s (handlePaymentReceived V clk ids e s)"

definition webhook_inv :: "webhook_state \<Rightarrow> bool" where
  "webhook_inv s \<longleftrightarrow> deliveries_ok s \<and> distinct (map delivery_id (deliveries (wh_db s)))"

lemma webhook_inv_same: "deliveries (wh_db s') = deliveries (wh_db s) \<Longrightarrow> webhook_inv s \<Longrightarrow> webhook_inv s'"
  by (simp add: webhook_inv_def deliveries_ok_def)

lemma webhook_inv_on_delivery:
  assumes "webhook_inv s" and "\<And>d. delivery_ok d \<Longrightarrow> delivery_ok (f d)" and "\<And>d. delivery_id (f d) = delivery_id d"
  shows "webhook_inv (on_delivery i f s)"
  using assms by (auto simp: webhook_inv_def deliveries_ok_def set_update_where map_key_update_where)

lemma webhook_inv_on_webhooks: "webhook_inv s \<Longrightarrow> webhook_inv (on_webhooks f s)"
  by (simp add: webhook_inv_def deliveries_ok_def)

lemma failure_inv: "webhook_inv s \<Longrightarrow> webhook_inv (handleDeliveryFailure t t' nt d a e s)"
proof -
  assume inv: "webhook_inv s"
  define s1 where "s1 = on_webhooks (update_where (\<lambda>r. webhook_id r = delivery_webhookId d)
            (\<lambda>r. r\<lparr>lastFailureAt := Some t, consecutiveFailures := consecutiveFailures r + 1\<rparr>)) s"
  have 1: "webhook_inv s1" using inv by (simp add: s1_def webhook_inv_def deliveries_ok_def)
  have "webhook_inv (queue_add j v)" if "webhook_inv v" for j v
    using that by (simp add: webhook_inv_def deliveries_ok_def)
  then show ?thesis
    using webhook_inv_on_delivery [OF 1]
    unfolding handleDeliveryFailure_def Let_def s1_def [symmetric]
    by (simp add: delivery_ok_def)
qed

lemma attempt_inv: "webhook_inv s \<Longrightarrow> webhook_inv (attempt_delivery V clk uuid nt it net d r p s)"
proof -
  assume inv: "webhook_inv s"
  have sent: "webhook_inv (s\<lparr>wh_sent := x\<rparr>)" for x using inv by (simp add: webhook_inv_def deliveries_ok_def)
  have succ: "webhook_inv (delivery_succeeded d a lp st b t1 du t2 v)" if "webhook_inv v" for a lp st b t1 du t2 v
    unfolding delivery_succeeded_def
    by (intro webhook_inv_on_webhooks webhook_inv_on_delivery that) (simp_all add: delivery_ok_def)
  show ?thesis
    using inv sent succ failure_inv
    by (simp add: attempt_delivery_def Let_def split: sum.split prod.split fetch_result.split)
qed

lemma job_inv: "webhook_inv s \<Longrightarrow> webhook_inv (snd (processWebhookJob V clk uuid nt it net job s))"
proof -
  assume inv: "webhook_inv s"
  have rl: "webhook_inv v" if "getRateLimitDelayMs t r s = (dl, v)" for t r dl v
    using rate_limit_db [of t r s] that inv by (simp add: webhook_inv_def deliveries_ok_def)
  have dir: "webhook_inv (snd (sendDirectWebhook V uuid it net u sec ev p s))" for u sec ev p
    using inv by (simp add: sendDirectWebhook_def Let_def webhook_inv_def deliveries_ok_def split: fetch_result.split)
  have add: "webhook_inv (queue_add j (on_delivery i f v))" if "webhook_inv v" "\<And>d. delivery_ok d \<Longrightarrow> delivery_ok (f d)"
      "\<And>d. delivery_id (f d) = delivery_id d" for j i f v
    using webhook_inv_on_delivery [OF that] by (simp add: webhook_inv_def deliveries_ok_def)
  show ?thesis
    using inv dir
    by (auto simp: processWebhookJob_def Let_def delivery_ok_def intro!: attempt_inv webhook_inv_on_delivery add
        split: option.split prod.split dest: rl)
qed

lemma fold_queue_ids:
  "map delivery_id (deliveries (wh_db (fold (\<lambda>(i, r). queueWebhookDelivery (ids i) r e (f i)) xs s)))
     = map delivery_id (deliveries (wh_db s)) @ map (ids \<circ> fst) xs"
  by (induction xs arbitrary: s) (auto simp: queue_delivery_rows)

lemma trigger_inv:
  assumes "webhook_inv s" and "inj ids" and "range ids \<inter> delivery_id ` set (deliveries (wh_db s)) = {}"
  shows "webhook_inv (snd (triggerEvent V clk ids ev p u s))"
proof -
  have "distinct (map (ids \<circ> fst) (enumerate 0 xs))" for xs :: "webhook_row list"
    using assms(2) by (metis distinct_enumerate distinct_map distinct_upt inj_on_subset map_fst_enumerate map_map subset_UNIV)
  then have "distinct (map delivery_id (deliveries (wh_db s)) @ map (ids \<circ> fst) (enumerate 0 xs))" for xs :: "webhook_row list"
    using assms by (auto simp: webhook_inv_def)
  then show ?thesis
    using assms(1) trigger_ok [of s] by (simp add: webhook_inv_def triggerEvent_def Let_def fold_queue_ids)
qed

text \<open>The rows that wait for a retry and are due, oldest first, 200 at most.\<close>

definition waiting_rows :: "int \<Rightarrow> webhook_state \<Rightarrow> delivery_row list" where
  "waiting_rows now s =
     take 200 (filter (\<lambda>d. delivery_status d = DELIVERY_RETRYING \<and> the (nextRetryAt d) \<le> now) (deliveries (wh_db s)))"

lemma sweep_result:
  assumes "webhook_inv s"
  shows "fst (retryFailedWebhooks now stamp s) = Inr (length (waiting_rows now s))"
    "wh_db (snd (retryFailedWebhooks now stamp s)) = wh_db s"
    "map job_deliveryId (wh_jobs (snd (retryFailedWebhooks now stamp s))) = map job_deliveryId (wh_jobs s) @ map (Some \<circ> delivery_id) (waiting_rows now s)"
proof -
  have "filter (due_for_retry now) (deliveries (wh_db s))
      = filter (\<lambda>d. delivery_status d = DELIVERY_RETRYING \<and> the (nextRetryAt d) \<le> now) (deliveries (wh_db s))"
    using assms(1) by (intro filter_cong refl due_is_retrying) (simp add: webhook_inv_def deliveries_ok_def)
  then have sel: "take 200 (filter (due_for_retry now) (deliveries (wh_db s))) = waiting_rows now s" by (simp add: waiting_rows_def)
  have "\<forall>x\<in>set (enumerate 0 (waiting_rows now s)). snd x \<in> set (deliveries (wh_db s)) \<and> delivery_status (snd x) = DELIVERY_RETRYING"
    by (auto simp: waiting_rows_def in_set_enumerate_eq dest!: nth_mem dest: in_set_takeD)
  moreover have "map (Some \<circ> delivery_id \<circ> snd) (enumerate 0 (waiting_rows now s)) = map (Some \<circ> delivery_id) (waiting_rows now s)"
    by (simp only: comp_assoc [symmetric] map_map [symmetric] map_snd_enumerate)
  ultimately show "fst (retryFailedWebhooks now stamp s) = Inr (length (waiting_rows now s))"
    "wh_db (snd (retryFailedWebhooks now stamp s)) = wh_db s"
    "map job_deliveryId (wh_jobs (snd (retryFailedWebhooks now stamp s))) = map job_deliveryId (wh_jobs s) @ map (Some \<circ> delivery_id) (waiting_rows now s)"
    using retry_fold [of s "enumerate 0 (waiting_rows now s)" stamp] assms(1)
    by (simp_all add: retryFailedWebhooks_def Let_def sel webhook_inv_def)
qed

lemma inv_sum: "(\<And>e. webhook_inv (snd (g e))) \<Longrightarrow> (\<And>x. webhook_inv (snd (h x))) \<Longrightarrow>
    webhook_inv (snd (case v of Inl e \<Rightarrow> g e | Inr x \<Rightarrow> h x))"
  by (cases v) simp_all

lemma inv_if: "webhook_inv (snd x) \<Longrightarrow> webhook_inv (snd y) \<Longrightarrow> webhook_inv (snd (if b then x else y))"
  by simp

lemma inv_pair: "webhook_inv s \<Longrightarrow> webhook_inv (snd (x, s))"
  by simp

lemma webhook_step_inv: "webhook_step V s s' \<Longrightarrow> webhook_inv s \<Longrightarrow> webhook_inv s'"
proof (induction rule: webhook_step.induct)
  case (step_register s i hex u url evs sec opts)
  then show ?case
    unfolding registerWebhook_def Let_def by (intro inv_sum inv_if inv_pair webhook_inv_on_webhooks)
next
  case (step_update s u i input)
  then show ?case
    unfolding updateWebhook_def Let_def by (intro inv_sum inv_if inv_pair webhook_inv_on_webhooks)
next
  case (step_delete s u i)
  have "webhook_inv (on_deliveries (delete_where P) v)" if "webhook_inv v" for P v
    using that by (auto simp: webhook_inv_def deliveries_ok_def delete_where_def distinct_map_filter)
  then show ?case using step_delete by (simp add: deleteWebhook_def Let_def webhook_inv_on_webhooks)
next
  case (step_test i s now u w)
  then show ?case
    unfolding testWebhook_def
    by (intro inv_sum inv_pair) (simp_all add: webhook_inv_def queue_delivery_rows queue_delivery_ok)
next
  case (step_sweep s now stamp)
  have "deliveries (wh_db (snd (retryFailedWebhooks now stamp s))) = deliveries (wh_db s)"
    by (simp only: sweep_result(2) [OF step_sweep])
  then show ?case using step_sweep by (rule webhook_inv_same)
next
  case (step_payment ids s clk e)
  have "webhook_inv (enqueuePaymentReceivedWebhook a b c d j s)" for a b c d j
    using step_payment.prems by (simp add: enqueuePaymentReceivedWebhook_def webhook_inv_def deliveries_ok_def)
  moreover have "deliveries (wh_db (enqueuePaymentReceivedWebhook a b c d j s)) = deliveries (wh_db s)" for a b c d j
    by (simp add: enqueuePaymentReceivedWebhook_def)
  ultimately show ?case
    using step_payment by (simp add: handlePaymentReceived_def Let_def trigger_inv split: option.split)
qed (simp_all add: trigger_inv job_inv)

definition empty_webhooks :: "world \<Rightarrow> webhook_state" where
  "empty_webhooks w = \<lparr>wh_db = w\<lparr>webhooks := [], deliveries := []\<rparr>, wh_jobs = [], rateWindow = Map.empty, wh_sent = []\<rparr>"

lemma webhook_reach_inv: "(webhook_step V)\<^sup>*\<^sup>* (empty_webhooks w) s \<Longrightarrow> webhook_inv s"
proof (induction rule: rtranclp_induct)
  case base
  then show ?case by (simp add: empty_webhooks_def webhook_inv_def deliveries_ok_def)
next
  case (step y z)
  then show ?case by (blast intro: webhook_step_inv)
qed

text \<open>
  The retry sweep never touches a delivery that failed: in every state the webhook
  service can reach, \<open>retryFailedWebhooks\<close> queues one job for each of the first 200 rows
  that are RETRYING and due, counts them and leaves the database as it is; the rows with
  status FAILED have no retry time, so the half of its query that asks for them finds
  none.
\<close>

theorem sweep_never_retries_failed:
  assumes "(webhook_step V)\<^sup>*\<^sup>* (empty_webhooks w0) s"
  shows "(\<forall>d\<in>set (deliveries (wh_db s)). delivery_status d = DELIVERY_FAILED \<longrightarrow> nextRetryAt d = None \<and> \<not> due_for_retry now d)
    \<and> fst (retryFailedWebhooks now stamp s)
        = Inr (length (waiting_rows now s))
    \<and> wh_db (snd (retryFailedWebhooks now stamp s)) = wh_db s
    \<and> map job_deliveryId (wh_jobs (snd (retryFailedWebhooks now stamp s))) = map job_deliveryId (wh_jobs s)
        @ map (Some \<circ> delivery_id) (waiting_rows now s)"
proof -
  have inv: "webhook_inv s" using webhook_reach_inv [OF assms] .
  then have "nextRetryAt d = None \<and> \<not> due_for_retry now d" if "d \<in> set (deliveries (wh_db s))" "delivery_status d = DELIVERY_FAILED" for d
    using that by (auto simp: webhook_inv_def deliveries_ok_def delivery_ok_def due_for_retry_def)
  then show ?thesis using sweep_result [OF inv] by blast
qed

theorem sweep_never_retries_failed_witness:
  "(webhook_step demo_webhook_env)\<^sup>*\<^sup>* (empty_webhooks empty_world) (empty_webhooks empty_world)
   \<and> fst (retryFailedWebhooks 5 (\<lambda>_. []) (empty_webhooks empty_world)) = Inr 0"
proof -
  have r: "(webhook_step demo_webhook_env)\<^sup>*\<^sup>* (empty_webhooks empty_world) (empty_webhooks empty_world)" by simp
  have "waiting_rows 5 (empty_webhooks empty_world) = []" by (simp add: waiting_rows_def empty_webhooks_def)
  then show ?thesis using sweep_never_retries_failed [OF r, of 5 "\<lambda>_. []"] r by simp
qed

section \<open>The schedule of retries\<close>

lemma delay_table: "k < MAX_RETRY_ATTEMPTS \<Longrightarrow> calculateRetryDelay k = 1000 * 2 ^ (k - 1)"
proof -
  assume "k < MAX_RETRY_ATTEMPTS"
  then have "(2 :: int) ^ (k - 1) \<le> 2 ^ 4" by (intro power_increasing) (simp_all add: MAX_RETRY_ATTEMPTS_def)
  then show ?thesis by (simp add: calculateRetryDelay_def RETRY_BASE_DELAY_MS_def RETRY_MAX_DELAY_MS_def)
qed

text \<open>An answer that makes the attempt fail.\<close>

fun bad_answer :: "fetch_result \<Rightarrow> bool" where
  "bad_answer (FetchError m) = True"
| "bad_answer (Response st t b) = (st < 200 \<or> 299 < st)"

lemma failing_attempt:
  assumes "\<And>r. bad_answer (net r)"
  shows "\<exists>e v. attempt_delivery V clk uuid nt it net d r p s = handleDeliveryFailure (clk 5) (clk 6) nt d (delivery_attempt d + 1) e v
    \<and> wh_db v = wh_db s \<and> wh_jobs v = wh_jobs s \<and> rateWindow v = rateWindow s"
proof (cases "buildWebhookRequest V uuid (clk 2) r (delivery_eventType d) p")
  case (Inl e)
  then show ?thesis by (auto simp: attempt_delivery_def)
next
  case (Inr x)
  obtain q j where x: "x = (q, j)" by (cases x)
  have "bad_answer (net q)" by (rule assms)
  then show ?thesis
    unfolding attempt_delivery_def Let_def Inr x sum.case prod.case
    by (cases "net q") (force intro!: exI [of _ "s\<lparr>wh_sent := wh_sent s @ [q]\<rparr>"])+
qed

lemma failure_rows:
  assumes "lookup_row delivery_id i (deliveries (wh_db s)) = Some d" and "delivery_id d = i"
  shows "lookup_row delivery_id i (deliveries (wh_db (handleDeliveryFailure t t' nt d a e s))) = Some (d\<lparr>
      delivery_status := if MAX_RETRY_ATTEMPTS \<le> a then DELIVERY_FAILED else DELIVERY_RETRYING, delivery_attempt := a,
      errorMessage := Some (case e of Some m \<Rightarrow> m | None \<Rightarrow> ''Unknown webhook error''),
      nextRetryAt := if MAX_RETRY_ATTEMPTS \<le> a then None else Some (t' + calculateRetryDelay a)\<rparr>)"
    "map (\<lambda>j. (job_deliveryId j, job_direct j, job_delay j)) (wh_jobs (handleDeliveryFailure t t' nt d a e s)) =
      map (\<lambda>j. (job_deliveryId j, job_direct j, job_delay j)) (wh_jobs s)
        @ (if MAX_RETRY_ATTEMPTS \<le> a then [] else [(Some i, None, calculateRetryDelay a)])"
    "rateWindow (handleDeliveryFailure t t' nt d a e s) = rateWindow s"
    "lookup_row webhook_id j (webhooks (wh_db (handleDeliveryFailure t t' nt d a e s)))
      = map_option (\<lambda>r. if webhook_id r = delivery_webhookId d
          then r\<lparr>lastFailureAt := Some t, consecutiveFailures := Suc (consecutiveFailures r)\<rparr> else r) (lookup_row webhook_id j (webhooks (wh_db s)))"
  using assms by (simp_all add: handleDeliveryFailure_def Let_def delivery_tab.lookup_update_at webhook_tab.lookup_update)

text \<open>The worker that runs the job added last, \<open>k\<close> times.\<close>

primrec run_last_job ::
  "webhook_env \<Rightarrow> (nat \<Rightarrow> nat \<Rightarrow> int) \<Rightarrow> (nat \<Rightarrow> string) \<Rightarrow> (int \<Rightarrow> string) \<Rightarrow> (http_request \<Rightarrow> fetch_result) \<Rightarrow> nat
    \<Rightarrow> webhook_state \<Rightarrow> webhook_state" where
  "run_last_job V clks nt it net 0 s = s"
| "run_last_job V clks nt it net (Suc k) s = (let v = run_last_job V clks nt it net k s
     in snd (processWebhookJob V (clks k) [] nt it net (last (wh_jobs v)) v))"

text \<open>The delivery \<open>i\<close> of endpoint \<open>e\<close> has failed \<open>k\<close> times, and the last job is its next attempt.\<close>

definition window_le :: "string \<Rightarrow> int \<Rightarrow> webhook_state \<Rightarrow> bool" where
  "window_le e n s \<longleftrightarrow> (case rateWindow s e of None \<Rightarrow> True | Some (t, m) \<Rightarrow> m \<le> n)"

definition failed_times :: "string \<Rightarrow> string \<Rightarrow> nat \<Rightarrow> webhook_state \<Rightarrow> bool" where
  "failed_times i e k s \<longleftrightarrow> (\<exists>d r. lookup_row delivery_id i (deliveries (wh_db s)) = Some d \<and> delivery_webhookId d = e
     \<and> delivery_attempt d = k \<and> lookup_row webhook_id e (webhooks (wh_db s)) = Some r \<and> webhook_isActive r
     \<and> 5 \<le> rateLimitPerMinute r \<and> window_le e (int k) s
     \<and> (k < MAX_RETRY_ATTEMPTS \<longrightarrow> wh_jobs s \<noteq> [] \<and> job_direct (last (wh_jobs s)) = None
          \<and> job_deliveryId (last (wh_jobs s)) = Some i)
     \<and> delivery_status d = (if k = 0 then DELIVERY_PENDING else if k < MAX_RETRY_ATTEMPTS then DELIVERY_RETRYING else DELIVERY_FAILED)
     \<and> (nextRetryAt d = None \<longleftrightarrow> k = 0 \<or> MAX_RETRY_ATTEMPTS \<le> k))"

lemma rate_allows:
  assumes "window_le (webhook_id r) (int k) s" and "int k < rateLimitPerMinute r"
  obtains s1 where "getRateLimitDelayMs t r s = (0, s1)" "wh_db s1 = wh_db s" "wh_jobs s1 = wh_jobs s"
    "window_le (webhook_id r) (int (Suc k)) s1"
proof (rule that)
  let ?s1 = "snd (getRateLimitDelayMs t r s)"
  show "getRateLimitDelayMs t r s = (0, ?s1)" "wh_db ?s1 = wh_db s" "wh_jobs ?s1 = wh_jobs s"
    "window_le (webhook_id r) (int (Suc k)) ?s1"
    using assms by (auto simp: getRateLimitDelayMs_def window_le_def split: option.splits)
qed

lemma failure_last_job:
  assumes "\<not> MAX_RETRY_ATTEMPTS \<le> a"
  shows "wh_jobs (handleDeliveryFailure t t' nt d a e s) \<noteq> []"
    "job_direct (last (wh_jobs (handleDeliveryFailure t t' nt d a e s))) = None"
    "job_deliveryId (last (wh_jobs (handleDeliveryFailure t t' nt d a e s))) = Some (delivery_id d)"
  using assms by (simp_all add: handleDeliveryFailure_def Let_def)

lemma failed_once_more:
  assumes bad: "\<And>q. bad_answer (net q)" and i: "i \<noteq> []" and k: "k < MAX_RETRY_ATTEMPTS" and st: "failed_times i e k s"
    and s'_def: "s' = snd (processWebhookJob V clk uuid nt it net (last (wh_jobs s)) s)"
  shows "failed_times i e (Suc k) s'"
    "map job_delay (wh_jobs s') = map job_delay (wh_jobs s) @ (if Suc k < MAX_RETRY_ATTEMPTS then [1000 * 2 ^ k] else [])"
proof -
  obtain d r where d: "lookup_row delivery_id i (deliveries (wh_db s)) = Some d" "delivery_webhookId d = e" "delivery_attempt d = k"
    and r: "lookup_row webhook_id e (webhooks (wh_db s)) = Some r" "webhook_isActive r" "5 \<le> rateLimitPerMinute r"
    and w: "window_le e (int k) s"
    and j: "job_direct (last (wh_jobs s)) = None" "job_deliveryId (last (wh_jobs s)) = Some i"
    using st k unfolding failed_times_def by blast
  have ids: "delivery_id d = i" "webhook_id r = e"
    using delivery_tab.lookup_SomeD [OF d(1)] webhook_tab.lookup_SomeD [OF r(1)] by auto
  have "int k < rateLimitPerMinute r" using k r(3) by (simp add: MAX_RETRY_ATTEMPTS_def)
  then obtain s1 where s1: "getRateLimitDelayMs (clk 0) r s = (0, s1)" "wh_db s1 = wh_db s" "wh_jobs s1 = wh_jobs s"
    "window_le e (int (Suc k)) s1"
    using rate_allows [of r k s "clk 0"] w ids by blast
  let ?p = "case requestBody d of Some b \<Rightarrow> b | None \<Rightarrow> job_payload (last (wh_jobs s))"
  obtain er v where v: "attempt_delivery V clk uuid nt it net d r ?p s1 = handleDeliveryFailure (clk 5) (clk 6) nt d (Suc k) er v"
    "wh_db v = wh_db s" "wh_jobs v = wh_jobs s" "rateWindow v = rateWindow s1"
    using failing_attempt [where net = net and V = V and clk = clk and uuid = uuid and nt = nt and it = it and d = d and r = r
        and p = ?p and s = s1, OF bad] d(3) s1 by auto
  have run: "s' = handleDeliveryFailure (clk 5) (clk 6) nt d (Suc k) er v"
    using j i d r s1(1) v(1) by (simp add: s'_def processWebhookJob_def)
  note rows = failure_rows [of i v d, unfolded v(2), OF d(1) ids(1)]
  have "lookup_row webhook_id e (webhooks (wh_db s')) = Some (r\<lparr>lastFailureAt := Some (clk 5), consecutiveFailures := Suc (consecutiveFailures r)\<rparr>)"
    unfolding run rows(4) using r(1) ids d(2) by simp
  moreover have "window_le e (int (Suc k)) s'" using s1(4) v(4) unfolding run window_le_def rows(3) by simp
  moreover have "wh_jobs s' \<noteq> [] \<and> job_direct (last (wh_jobs s')) = None \<and> job_deliveryId (last (wh_jobs s')) = Some i"
    if "Suc k < MAX_RETRY_ATTEMPTS"
    using failure_last_job [of "Suc k"] that ids by (simp add: run)
  ultimately show "failed_times i e (Suc k) s'"
    unfolding failed_times_def run rows(1) using d(2) r(2,3) by auto
  have "map job_delay (wh_jobs s') = map (\<lambda>x. snd (snd x)) (map (\<lambda>j. (job_deliveryId j, job_direct j, job_delay j)) (wh_jobs s'))"
    by simp
  also have "\<dots> = map job_delay (wh_jobs s) @ (if Suc k < MAX_RETRY_ATTEMPTS then [1000 * 2 ^ k] else [])"
    unfolding run rows(2) using delay_table [of "Suc k"] v(3) by (simp add: comp_def)
  finally show "map job_delay (wh_jobs s') = map job_delay (wh_jobs s) @ (if Suc k < MAX_RETRY_ATTEMPTS then [1000 * 2 ^ k] else [])" .
qed


lemma demo_pending: "failed_times ''d1'' ''h1'' 0 demo_webhooks"
  by (simp add: failed_times_def demo_webhooks_def lookup_row_def window_le_def)
    (simp add: demo_delivery_def demo_hook_def)


section \<open>The rate of one endpoint\<close>

primrec sends :: "webhook_row \<Rightarrow> int list \<Rightarrow> webhook_state \<Rightarrow> nat" where
  "sends r [] s = 0"
| "sends r (t # ts) s = (case getRateLimitDelayMs t r s of (d, s') \<Rightarrow> (if d = 0 then 1 else 0) + sends r ts s')"

lemma delay_pos: "rateWindow s (webhook_id r) = Some (a, n) \<Longrightarrow> t < a + 60000 \<Longrightarrow>
  getRateLimitDelayMs t r s = (if rateLimitPerMinute r \<le> n then (max 1 (60000 - (t - a)), s)
    else (0, s\<lparr>rateWindow := (rateWindow s)(webhook_id r \<mapsto> (a, n + 1))\<rparr>))"
  by (simp add: getRateLimitDelayMs_def)

lemma sends_in_window:
  assumes "rateWindow s (webhook_id r) = Some (a, n)" and "n \<le> rateLimitPerMinute r" and "\<forall>t\<in>set ts. t < a + 60000"
  shows "int (sends r ts s) \<le> rateLimitPerMinute r - n"
  using assms
proof (induction ts arbitrary: s n)
  case (Cons t ts)
  then have t: "t < a + 60000" by simp
  show ?case
  proof (cases "rateLimitPerMinute r \<le> n")
    case True
    then have "sends r (t # ts) s = sends r ts s"
      using delay_pos [OF Cons.prems(1) t] by simp
    then show ?thesis using Cons.IH [OF Cons.prems(1,2)] Cons.prems(3) by simp
  next
    case False
    let ?s = "s\<lparr>rateWindow := (rateWindow s)(webhook_id r \<mapsto> (a, n + 1))\<rparr>"
    have "sends r (t # ts) s = Suc (sends r ts ?s)" using delay_pos [OF Cons.prems(1) t] False by simp
    moreover have "int (sends r ts ?s) \<le> rateLimitPerMinute r - (n + 1)"
      using Cons.IH [of ?s "n + 1"] False Cons.prems(3) by simp
    ultimately show ?thesis by simp
  qed
qed simp

definition window_ok :: "webhook_row \<Rightarrow> webhook_state \<Rightarrow> bool" where
  "window_ok r s \<longleftrightarrow> (\<forall>a n. rateWindow s (webhook_id r) = Some (a, n) \<longrightarrow> 1 \<le> n \<and> n \<le> rateLimitPerMinute r)"

lemma window_ok_kept: "1 \<le> rateLimitPerMinute r \<Longrightarrow> window_ok r s \<Longrightarrow> window_ok r (snd (getRateLimitDelayMs t r s))"
  by (auto simp: window_ok_def getRateLimitDelayMs_def split: option.splits)

text \<open>
  The rate limit of an endpoint: among any sends the limiter lets through within the
  same 60 seconds, at whatever times and in whatever order the worker asks, there are at
  most twice \<open>rateLimitPerMinute\<close>, and at most \<open>rateLimitPerMinute\<close> in one window of the
  limiter.
\<close>

theorem sends_bound:
  assumes "1 \<le> rateLimitPerMinute r" and "window_ok r s" and "\<forall>t\<in>set ts. a \<le> t \<and> t < a + 60000"
  shows "int (sends r ts s) \<le> 2 * rateLimitPerMinute r
    \<and> (rateWindow s (webhook_id r) = None \<longrightarrow> int (sends r ts s) \<le> rateLimitPerMinute r)"
proof -
  have fresh: "int (sends r (t # us) v) \<le> rateLimitPerMinute r"
    if "getRateLimitDelayMs t r v = (0, v\<lparr>rateWindow := (rateWindow v)(webhook_id r \<mapsto> (t, 1))\<rparr>)"
      "\<forall>u\<in>set us. u < a + 60000" "a \<le> t" for t us v
  proof -
    let ?v = "v\<lparr>rateWindow := (rateWindow v)(webhook_id r \<mapsto> (t, 1))\<rparr>"
    have "int (sends r us ?v) \<le> rateLimitPerMinute r - 1"
      by (rule sends_in_window [of _ _ t]) (use that assms(1) in auto)
    then show ?thesis using that(1) by simp
  qed
  have first: "int (sends r ts s) \<le> rateLimitPerMinute r" if "rateWindow s (webhook_id r) = None"
  proof (cases ts)
    case (Cons t us)
    then show ?thesis unfolding Cons using assms(3) Cons that by (intro fresh) (auto simp: getRateLimitDelayMs_def)
  qed (use assms(1) in simp)
  have "int (sends r us v) \<le> (rateLimitPerMinute r - n) + rateLimitPerMinute r"
    if "rateWindow v (webhook_id r) = Some (b, n)" "n \<le> rateLimitPerMinute r" "\<forall>t\<in>set us. a \<le> t \<and> t < a + 60000" for us v b n
    using that
  proof (induction us arbitrary: v n)
    case Nil
    then show ?case using assms(1) by simp
  next
    case (Cons t us)
    show ?case
    proof (cases "60000 \<le> t - b")
      case True
      then have "int (sends r (t # us) v) \<le> rateLimitPerMinute r"
        using Cons.prems by (intro fresh) (auto simp: getRateLimitDelayMs_def)
      then show ?thesis using Cons.prems(2) by simp
    next
      case False
      then have t: "t < b + 60000" by simp
      show ?thesis
      proof (cases "rateLimitPerMinute r \<le> n")
        case True
        then have "sends r (t # us) v = sends r us v" using delay_pos [OF Cons.prems(1) t] by (simp add: max_def)
        then show ?thesis using Cons.IH [OF Cons.prems(1,2)] Cons.prems(3) by simp
      next
        case False
        let ?v = "v\<lparr>rateWindow := (rateWindow v)(webhook_id r \<mapsto> (b, n + 1))\<rparr>"
        have "int (sends r us ?v) \<le> (rateLimitPerMinute r - (n + 1)) + rateLimitPerMinute r"
          using Cons.IH [of ?v "n + 1"] False Cons.prems(3) by simp
        then show ?thesis using delay_pos [OF Cons.prems(1) t] False by simp
      qed
    qed
  qed
  note known = this
  have "int (sends r ts s) \<le> 2 * rateLimitPerMinute r"
  proof (cases "rateWindow s (webhook_id r)")
    case None
    then show ?thesis using first assms(1) by fastforce
  next
    case (Some x)
    obtain b n where x: "x = (b, n)" by (cases x)
    have "1 \<le> n" "n \<le> rateLimitPerMinute r" using assms(2) Some x by (auto simp: window_ok_def)
    then show ?thesis using known [of s b n ts] Some x assms(3) by fastforce
  qed
  then show ?thesis using first by blast
qed

theorem sends_bound_witness: "int (sends demo_hook [0, 1, 2] demo_webhooks) \<le> 60"
proof -
  have "window_ok demo_hook demo_webhooks" "rateWindow demo_webhooks (webhook_id demo_hook) = None"
    by (simp_all add: window_ok_def demo_webhooks_def)
  then show ?thesis using sends_bound [of demo_hook demo_webhooks "[0, 1, 2]" 0] by simp
qed

section \<open>Payments reach every subscriber\<close>

lemma fold_queue_webhooks:
  "map (\<lambda>d. (delivery_webhookId d, delivery_eventType d, delivery_status d))
     (deliveries (wh_db (fold (\<lambda>(i, r). queueWebhookDelivery (ids i) r e (f i)) xs s)))
   = map (\<lambda>d. (delivery_webhookId d, delivery_eventType d, delivery_status d)) (deliveries (wh_db s))
     @ map (\<lambda>x. (webhook_id (snd x), e, DELIVERY_PENDING)) xs"
  by (induction xs arbitrary: s) (auto simp: queue_delivery_rows)

lemma payment_event_text: "js_lower (js_trim ''payment.received'') = ''payment.received''"
  by code_simp

text \<open>The handler leaves the ledger alone, as the loan service's properties need.\<close>

lemma on_world_queue:
  "f (wh_db (fold (\<lambda>(i, r). queueWebhookDelivery (ids i) r e (g i)) xs s)) = f (wh_db s)"
  if "\<And>w ds. f (w\<lparr>deliveries := ds\<rparr>) = f w"
proof (induction xs arbitrary: s)
  case (Cons x xs)
  obtain i r where x: "x = (i, r)" by (cases x)
  have "f (wh_db (queueWebhookDelivery (ids i) r e (g i) s)) = f (wh_db s)"
    by (simp add: queueWebhookDelivery_def Let_def on_deliveries_def queue_add_def that)
  then show ?case using Cons x by simp
qed simp

lemma queue_ledger:
  "loans (wh_db (fold (\<lambda>(i, r). queueWebhookDelivery (ids i) r e (g i)) xs s)) = loans (wh_db s)"
  "repayments (wh_db (fold (\<lambda>(i, r). queueWebhookDelivery (ids i) r e (g i)) xs s)) = repayments (wh_db s)"
  "payment_sessions (wh_db (fold (\<lambda>(i, r). queueWebhookDelivery (ids i) r e (g i)) xs s)) = payment_sessions (wh_db s)"
  by (rule on_world_queue, simp)+

lemma payment_emit_ledger:
  "loans (payment_emit V clk ids s e w) = loans w" "repayments (payment_emit V clk ids s e w) = repayments w"
  "payment_sessions (payment_emit V clk ids s e w) = payment_sessions w"
  by (simp_all add: payment_emit_def handlePaymentReceived_def Let_def triggerEvent_def payment_event_text
      queue_ledger enqueuePaymentReceivedWebhook_def queue_add_def split: option.split)

text \<open>
  A payment is announced to strangers: when a repayment completes a session with a
  webhook and a secret, one delivery of \<open>payment.received\<close>, with the loan, the amounts and
  the checkout URL, is queued for every active endpoint subscribed to that event, whoever
  owns it; a repayment without such a session is announced to nobody.
\<close>

theorem payment_broadcast:
  assumes "pe_webhookUrl e = Some url" and "url \<noteq> []" and "opt_trim (pe_webhookSecret e) \<noteq> []"
  shows "map (\<lambda>d. (delivery_webhookId d, delivery_eventType d, delivery_status d)) (deliveries (wh_db (handlePaymentReceived V clk ids e s)))
      = map (\<lambda>d. (delivery_webhookId d, delivery_eventType d, delivery_status d)) (deliveries (wh_db s))
        @ map (\<lambda>r. (webhook_id r, ''payment.received'', DELIVERY_PENDING))
            (filter (\<lambda>r. webhook_isActive r \<and> ''payment.received'' \<in> set (webhook_events r)) (webhooks (wh_db s)))
    \<and> (\<forall>e'. pe_webhookUrl e' = None \<or> opt_trim (pe_webhookSecret e') = [] \<longrightarrow> handlePaymentReceived V clk ids e' s = s)"
proof -
  let ?s = "enqueuePaymentReceivedWebhook (case pe_paymentSessionId e of Some i \<Rightarrow> i | None \<Rightarrow> pe_repaymentId e) (pe_repaymentId e) url
      (opt_trim (pe_webhookSecret e)) (JObj ((''event'', JStr ''payment.received'') # payment_data e)) s"
  have db: "wh_db ?s = wh_db s" by (simp add: enqueuePaymentReceivedWebhook_def)
  have sub: "subscribed ''payment.received'' None = (\<lambda>r. webhook_isActive r \<and> ''payment.received'' \<in> set (webhook_events r))"
    by (simp add: fun_eq_iff subscribed_def)
  have snds: "map (\<lambda>x. (webhook_id (snd x), e', DELIVERY_PENDING)) (enumerate 0 xs) = map (\<lambda>r. (webhook_id r, e', DELIVERY_PENDING)) xs"
    for e' and xs :: "webhook_row list"
    by (metis (no_types, lifting) map_map map_snd_enumerate comp_apply map_cong)
  have "handlePaymentReceived V clk ids e s = snd (triggerEvent V clk ids ''payment.received'' (JObj (payment_data e)) None ?s)"
    using assms by (simp add: handlePaymentReceived_def Let_def)
  then show ?thesis
    by (auto simp: triggerEvent_def Let_def payment_event_text fold_queue_webhooks snds sub db handlePaymentReceived_def split: option.split)
qed

definition demo_payment :: payment_received where
  "demo_payment = \<lparr>pe_loanId = ''l1'', pe_repaymentId = ''r1'', pe_paymentSessionId = Some ''p1'', pe_checkoutUrl = None,
     pe_webhookUrl = Some ''u'', pe_webhookSecret = Some ''x'', pe_amount = ''10'', pe_outstandingAfter = ''0'', pe_paidAt = ''t'',
     pe_successUrl = None, pe_cancelUrl = None\<rparr>"

theorem payment_broadcast_witness:
  "map (\<lambda>d. (delivery_webhookId d, delivery_eventType d, delivery_status d))
      (deliveries (wh_db (handlePaymentReceived demo_webhook_env (\<lambda>_. 0) (\<lambda>_. ''d2'') demo_payment demo_webhooks)))
   = [(''h1'', ''payment.received'', DELIVERY_PENDING), (''h1'', ''payment.received'', DELIVERY_PENDING)]"
proof -
  have "opt_trim (Some ''x'') = ''x''" by code_simp
  then have p: "pe_webhookUrl demo_payment = Some ''u''" "''u'' \<noteq> []" "opt_trim (pe_webhookSecret demo_payment) \<noteq> []"
    by (simp_all add: demo_payment_def)
  have w: "webhooks (wh_db demo_webhooks) = [demo_hook]" "deliveries (wh_db demo_webhooks) = [demo_delivery]"
    by (simp_all add: demo_webhooks_def)
  show ?thesis
    using conjunct1 [OF payment_broadcast [OF p, of demo_webhook_env "\<lambda>_. 0" "\<lambda>_. ''d2''" demo_webhooks]]
    by (simp add: w) (simp add: demo_hook_def demo_delivery_def)
qed

end
