(* ===== verification/Rate_Limit.thy ===== *)
theory Rate_Limit
  imports Auth_Service
begin

text \<open>
  Request limits: \<open>server/src/middleware/rate-limit.middleware.ts\<close>. Addresses with many
  failed logins are kept in a map and sent to a stricter limiter for a while; a timer
  removes entries that have run out; requests from sanctioned countries are refused. The
  limiters themselves (\<open>express-rate-limit\<close>) and the country database are parameters: the
  middleware decides which limiter counts a request, and under which key.
\<close>

section \<open>Suspicious addresses\<close>

record suspicious_entry =
  failures :: nat
  firstFailureAt :: int
  throttledUntil :: "int option"

type_synonym suspicious = "string \<rightharpoonup> suspicious_entry"

definition SUSPICIOUS_THRESHOLD :: nat where "SUSPICIOUS_THRESHOLD = 5"

definition SUSPICIOUS_WINDOW_MS :: int where "SUSPICIOUS_WINDOW_MS = 10 * 60 * 1000"

definition THROTTLE_DURATION_MS :: int where "THROTTLE_DURATION_MS = 15 * 60 * 1000"

text \<open>The timer: \<open>evictable\<close> is the condition under which it deletes an entry.\<close>

definition evictable :: "int \<Rightarrow> suspicious_entry \<Rightarrow> bool" where
  "evictable now e \<longleftrightarrow> SUSPICIOUS_WINDOW_MS < now - firstFailureAt e
     \<and> (case throttledUntil e of None \<Rightarrow> True | Some t \<Rightarrow> t = 0 \<or> t < now)"

definition evict :: "int \<Rightarrow> suspicious \<Rightarrow> suspicious" where
  "evict now s = (\<lambda>ip. case s ip of None \<Rightarrow> None | Some e \<Rightarrow> if evictable now e then None else Some e)"

definition recordFailedAuthChallenge :: "int \<Rightarrow> string \<Rightarrow> suspicious \<Rightarrow> suspicious" where
  "recordFailedAuthChallenge now ip s = (if ip = [] then s else
     let entry = (case s ip of Some e \<Rightarrow> e | None \<Rightarrow> \<lparr>failures = 0, firstFailureAt = now, throttledUntil = None\<rparr>);
         e1 = (if SUSPICIOUS_WINDOW_MS < now - firstFailureAt entry then entry\<lparr>failures := 0, firstFailureAt := now\<rparr> else entry);
         e2 = e1\<lparr>failures := failures e1 + 1\<rparr>;
         e3 = (if SUSPICIOUS_THRESHOLD \<le> failures e2 then e2\<lparr>throttledUntil := Some (now + THROTTLE_DURATION_MS)\<rparr> else e2)
     in s(ip \<mapsto> e3))"

definition isThrottled :: "int \<Rightarrow> string \<Rightarrow> suspicious \<Rightarrow> bool" where
  "isThrottled now ip s = (case s ip of
     None \<Rightarrow> False
   | Some e \<Rightarrow> (case throttledUntil e of None \<Rightarrow> False | Some t \<Rightarrow> t \<noteq> 0 \<and> now < t))"

section \<open>The middlewares\<close>

definition SANCTIONED_COUNTRIES :: "string list" where
  "SANCTIONED_COUNTRIES = [''CU'', ''IR'', ''KP'', ''SY'', ''RU'', ''BY'', ''SD'', ''MM'', ''SS'', ''CF'', ''YE'', ''ZW'', ''VE'']"

text \<open>\<open>geoIpBlockMiddleware\<close>; the lookup is \<open>None\<close> when the package is not installed.\<close>

definition geoIpBlockMiddleware :: "(string \<Rightarrow> string option) option \<Rightarrow> string option \<Rightarrow> http_response option" where
  "geoIpBlockMiddleware geoipLookup req_ip = (case geoipLookup of
     None \<Rightarrow> None
   | Some lookup \<Rightarrow>
       let ip = (case req_ip of None \<Rightarrow> [] | Some i \<Rightarrow> i) in
       if ip = [] \<or> ip = ''::1'' \<or> ip = ''127.0.0.1'' \<or> take 11 ip = ''::ffff:127.'' then None
       else (case lookup ip of
           None \<Rightarrow> None
         | Some country \<Rightarrow> if country \<in> set SANCTIONED_COUNTRIES
             then Some \<lparr>http_status = 403, http_error = ''Access from your region is not permitted''\<rparr> else None))"

datatype tier = SUSPICIOUS_TIER | AUTHENTICATED_TIER | PUBLIC_TIER

fun tier_max :: "tier \<Rightarrow> nat" where
  "tier_max SUSPICIOUS_TIER = 10"
| "tier_max AUTHENTICATED_TIER = 500"
| "tier_max PUBLIC_TIER = 100"

text \<open>
  \<open>tieredRateLimitMiddleware\<close>: the limiter that counts the request, and its key. The
  limiters without a key function count by \<open>req.ip\<close>.
\<close>

definition tieredRateLimit :: "crypto \<Rightarrow> int \<Rightarrow> string option \<Rightarrow> string option \<Rightarrow> suspicious \<Rightarrow> tier \<times> string option" where
  "tieredRateLimit K now req_ip header s =
     (let ip = (case req_ip of None \<Rightarrow> ''unknown'' | Some i \<Rightarrow> i) in
      if isThrottled now ip s then (SUSPICIOUS_TIER, req_ip)
      else case header of
        None \<Rightarrow> (PUBLIC_TIER, req_ip)
      | Some h \<Rightarrow> if take 7 h = ''Bearer '' then
          (case jwt_verify K (drop 7 h) ACCESS of
             Some payload \<Rightarrow> (AUTHENTICATED_TIER, Some (tp_userId payload))
           | None \<Rightarrow> (PUBLIC_TIER, req_ip))
        else (PUBLIC_TIER, req_ip))"

section \<open>The timer is not observable\<close>

text \<open>
  What the middleware does with the map over time. A trace lists its operations with the
  clock reading of each; \<open>answers\<close> are the answers to the queries, and \<open>without_timer\<close>
  leaves the timer out.
\<close>

datatype ip_event = Failure string | Query string | Timer

primrec answers :: "(int \<times> ip_event) list \<Rightarrow> suspicious \<Rightarrow> bool list" where
  "answers [] s = []"
| "answers (x # xs) s = (case x of
     (now, Failure ip) \<Rightarrow> answers xs (recordFailedAuthChallenge now ip s)
   | (now, Query ip) \<Rightarrow> isThrottled now ip s # answers xs s
   | (now, Timer) \<Rightarrow> answers xs (evict now s))"

definition without_timer :: "(int \<times> ip_event) list \<Rightarrow> (int \<times> ip_event) list" where
  "without_timer = filter (\<lambda>x. snd x \<noteq> Timer)"

text \<open>
  Simulation: the map with the timer agrees with the map without it, except that an entry
  may be missing, or have lost its throttle, when it has run out.
\<close>

definition ran_out :: "int \<Rightarrow> int option \<Rightarrow> bool" where
  "ran_out now t \<longleftrightarrow> (case t of None \<Rightarrow> True | Some u \<Rightarrow> u = 0 \<or> u < now)"

definition entry_sim :: "int \<Rightarrow> suspicious_entry option \<Rightarrow> suspicious_entry option \<Rightarrow> bool" where
  "entry_sim now a b \<longleftrightarrow> (case b of
     None \<Rightarrow> a = None
   | Some eb \<Rightarrow> (case a of
       None \<Rightarrow> evictable now eb
     | Some ea \<Rightarrow> failures ea = failures eb \<and> firstFailureAt ea = firstFailureAt eb
         \<and> (throttledUntil ea = throttledUntil eb \<or> throttledUntil ea = None \<and> ran_out now (throttledUntil eb))))"

definition map_sim :: "int \<Rightarrow> suspicious \<Rightarrow> suspicious \<Rightarrow> bool" where
  "map_sim now s t \<longleftrightarrow> (\<forall>ip. entry_sim now (s ip) (t ip))"

lemma evictable_later: "evictable now e \<Longrightarrow> now \<le> now' \<Longrightarrow> evictable now' e"
  by (auto simp: evictable_def split: option.splits)

lemma ran_out_later: "ran_out now t \<Longrightarrow> now \<le> now' \<Longrightarrow> ran_out now' t"
  by (auto simp: ran_out_def split: option.splits)

lemma map_sim_later: "map_sim now s t \<Longrightarrow> now \<le> now' \<Longrightarrow> map_sim now' s t"
proof -
  assume "map_sim now s t" "now \<le> now'"
  moreover have "entry_sim now' a b" if "entry_sim now a b" "now \<le> now'" for a b
    using that evictable_later [OF _ that(2)] ran_out_later [OF _ that(2)]
    by (cases a; cases b) (auto simp: entry_sim_def)
  ultimately show ?thesis unfolding map_sim_def by blast
qed

lemma entry_sim_refl [simp]: "entry_sim now a a"
  by (simp add: entry_sim_def split: option.split)

lemma sim_evict: "map_sim now s t \<Longrightarrow> map_sim now (evict now s) t"
  unfolding map_sim_def
proof (intro allI)
  fix ip assume "\<forall>ip. entry_sim now (s ip) (t ip)"
  then have "entry_sim now (s ip) (t ip)" by blast
  then show "entry_sim now (evict now s ip) (t ip)"
    by (auto simp: entry_sim_def evict_def evictable_def ran_out_def split: option.splits)
qed

lemma sim_query: "map_sim now s t \<Longrightarrow> isThrottled now ip s = isThrottled now ip t"
  unfolding map_sim_def isThrottled_def
  by (drule spec [of _ ip]) (auto simp: entry_sim_def evictable_def ran_out_def split: option.splits)

lemma sim_failure:
  assumes "map_sim now s t"
  shows "map_sim now (recordFailedAuthChallenge now ip s) (recordFailedAuthChallenge now ip t)"
proof -
  have "entry_sim now (s ip) (t ip)" using assms by (simp add: map_sim_def)
  then have "entry_sim now (recordFailedAuthChallenge now ip s ip) (recordFailedAuthChallenge now ip t ip)"
    by (auto simp: entry_sim_def recordFailedAuthChallenge_def Let_def evictable_def ran_out_def SUSPICIOUS_THRESHOLD_def
        SUSPICIOUS_WINDOW_MS_def split: option.splits)
  then show ?thesis
    using assms by (auto simp: map_sim_def recordFailedAuthChallenge_def Let_def)
qed

lemma answers_sim:
  "sorted (map fst xs) \<Longrightarrow> (\<forall>x\<in>set xs. now \<le> fst x) \<Longrightarrow> map_sim now s t \<Longrightarrow> answers xs s = answers (without_timer xs) t"
proof (induction xs arbitrary: now s t)
  case (Cons x xs)
  obtain n e where x: "x = (n, e)" by (cases x)
  have st: "map_sim n s t" using map_sim_later [OF Cons.prems(3)] Cons.prems(2) x by simp
  have IH: "answers xs s' = answers (without_timer xs) t'" if "map_sim n s' t'" for s' t'
    using Cons.IH [OF _ _ that] Cons.prems(1) x by auto
  show ?case
    using st IH x by (cases e) (auto simp: without_timer_def sim_query sim_failure sim_evict)
qed (simp add: without_timer_def)

text \<open>
  C28. Removing old entries changes nothing a client can see: whatever sequence of failed
  logins, requests and timer runs happens, as long as the clock does not go backwards,
  every request is throttled exactly when it would be if the timer never ran.
\<close>

theorem eviction_unobservable:
  assumes "sorted (map fst xs)"
  shows "answers xs s = answers (without_timer xs) s"
proof (cases xs)
  case (Cons x ys)
  then have "\<forall>y\<in>set xs. fst x \<le> fst y" using assms by auto
  then show ?thesis using answers_sim [OF assms, of "fst x" s s] by (simp add: map_sim_def)
qed (simp add: without_timer_def)

theorem eviction_unobservable_witness:
  "answers [(0, Failure ''a''), (700000, Timer), (700001, Query ''a'')] Map.empty
     = answers [(0, Failure ''a''), (700001, Query ''a'')] Map.empty"
  using eviction_unobservable [of "[(0, Failure ''a''), (700000, Timer), (700001, Query ''a'')]" Map.empty]
  by (simp add: without_timer_def)

section \<open>When an address is throttled\<close>

primrec fail_at :: "string \<Rightarrow> int list \<Rightarrow> suspicious \<Rightarrow> suspicious" where
  "fail_at ip [] s = s"
| "fail_at ip (t # ts) s = fail_at ip ts (recordFailedAuthChallenge t ip s)"

lemma fail_at_append: "fail_at ip (xs @ ys) s = fail_at ip ys (fail_at ip xs s)"
  by (induction xs arbitrary: s) simp_all

lemma other_address: "ip' \<noteq> ip \<Longrightarrow> fail_at ip ts s ip' = s ip'"
  by (induction ts arbitrary: s) (simp_all add: recordFailedAuthChallenge_def Let_def)

lemma fails_in_window:
  assumes "ip \<noteq> []" and "s ip = None" and "ts \<noteq> []" and "\<forall>t\<in>set ts. t \<le> hd ts + SUSPICIOUS_WINDOW_MS"
  shows "\<exists>e. fail_at ip ts s ip = Some e \<and> failures e = length ts \<and> firstFailureAt e = hd ts
    \<and> throttledUntil e = (if SUSPICIOUS_THRESHOLD \<le> length ts then Some (last ts + THROTTLE_DURATION_MS) else None)"
  using assms(3,4)
proof (induction ts rule: rev_induct)
  case (snoc t ts)
  show ?case
  proof (cases "ts = []")
    case True
    then show ?thesis
      using assms(1,2) by (auto simp: recordFailedAuthChallenge_def Let_def SUSPICIOUS_THRESHOLD_def SUSPICIOUS_WINDOW_MS_def)
  next
    case False
    then obtain e where e: "fail_at ip ts s ip = Some e" "failures e = length ts" "firstFailureAt e = hd ts"
      "throttledUntil e = (if SUSPICIOUS_THRESHOLD \<le> length ts then Some (last ts + THROTTLE_DURATION_MS) else None)"
      using snoc by auto
    have "\<not> SUSPICIOUS_WINDOW_MS < t - hd ts" using snoc.prems(2) False by simp
    then show ?thesis
      using e assms(1) False by (auto simp: fail_at_append recordFailedAuthChallenge_def Let_def)
  qed
qed simp

text \<open>
  An address without an entry is throttled exactly from its fifth failed login on, when
  all of them fall within ten minutes: until fifteen minutes after the last one its requests
  count against the limit of 10 per minute, even with a valid token, and other addresses
  are not affected.
\<close>

theorem throttled_after_five:
  assumes "ip \<noteq> []" and "s ip = None" and "ts \<noteq> []" and "\<forall>t\<in>set ts. t \<le> hd ts + SUSPICIOUS_WINDOW_MS"
    and "0 \<le> last ts"
  shows "(isThrottled now ip (fail_at ip ts s) \<longleftrightarrow> 5 \<le> length ts \<and> now < last ts + 900000)
    \<and> (isThrottled now ip (fail_at ip ts s)
         \<longrightarrow> tieredRateLimit K now (Some ip) header (fail_at ip ts s) = (SUSPICIOUS_TIER, Some ip))
    \<and> (ip' \<noteq> ip \<longrightarrow> isThrottled now ip' (fail_at ip ts s) = isThrottled now ip' s)"
proof -
  obtain e where e: "fail_at ip ts s ip = Some e"
    "throttledUntil e = (if SUSPICIOUS_THRESHOLD \<le> length ts then Some (last ts + THROTTLE_DURATION_MS) else None)"
    using fails_in_window [of ip s ts, OF assms(1-4)] by blast
  then have "isThrottled now ip (fail_at ip ts s) \<longleftrightarrow> 5 \<le> length ts \<and> now < last ts + 900000"
    using assms(5) by (auto simp: isThrottled_def SUSPICIOUS_THRESHOLD_def THROTTLE_DURATION_MS_def)
  then show ?thesis using other_address [of ip' ip ts s] by (simp add: tieredRateLimit_def isThrottled_def [of now ip'])
qed

theorem throttled_after_five_witness:
  "isThrottled 900003 ''a'' (fail_at ''a'' [0, 1, 2, 3, 4] Map.empty) \<and> \<not> isThrottled 5 ''a'' (fail_at ''a'' [0, 1, 2, 3] Map.empty)"
  using throttled_after_five [of "''a''" Map.empty "[0, 1, 2, 3, 4]" 900003]
    throttled_after_five [of "''a''" Map.empty "[0, 1, 2, 3]" 5]
  by (simp add: SUSPICIOUS_WINDOW_MS_def)

end
