(* ===== verification/Contract_Service.thy ===== *)
theory Contract_Service
  imports Platform
begin

text \<open>
  The calls to the Stellar network: \<open>server/src/services/contract.service.ts\<close> (building,
  simulating and submitting contract invocations) and
  \<open>server/src/services/blockchain.service.ts\<close> (balances and payments). The SDK and the
  network are the parameters of one record, over the SDK's own types of accounts,
  transactions and simulation results; an answer of the network is a value or the error
  the call throws. The state is the list of the transactions the network accepted.
\<close>

section \<open>Parameters\<close>

datatype send_answer = SendError "string option" | SendAccepted string \<comment> \<open>error result, or the hash\<close>

datatype get_answer = TX_NOT_FOUND | TX_FAILED "string option" | TX_SUCCESS

record balance_line =
  asset_type :: string
  asset_code :: "string option"
  balance :: string

record ('acc, 'tx, 'sim) stellar =
  load_account :: "string \<Rightarrow> app_error + 'acc"
  balances :: "'acc \<Rightarrow> balance_line list"
  invoke_tx :: "'acc \<Rightarrow> string \<Rightarrow> string \<Rightarrow> string list \<Rightarrow> string \<Rightarrow> int \<Rightarrow> app_error + 'tx"
    \<comment> \<open>payer, contract, function, arguments, operation source, timeout\<close>
  call_tx :: "'acc \<Rightarrow> string \<Rightarrow> string \<Rightarrow> string list \<Rightarrow> int \<Rightarrow> app_error + 'tx"
  payment_tx :: "'acc \<Rightarrow> string \<Rightarrow> (string \<times> string) option \<Rightarrow> string \<Rightarrow> string \<Rightarrow> int \<Rightarrow> app_error + 'tx"
    \<comment> \<open>payer, destination, asset (\<open>None\<close> for native), amount, operation source, timeout\<close>
  simulate :: "'tx \<Rightarrow> app_error + 'sim"
  sim_restore :: "'sim \<Rightarrow> bool"
  sim_error :: "'sim \<Rightarrow> string option"
  sim_success :: "'sim \<Rightarrow> bool"
  sim_retval :: "'sim \<Rightarrow> string option"
  to_native :: "string \<Rightarrow> json"
  assemble :: "'tx \<Rightarrow> 'sim \<Rightarrow> app_error + 'tx"
  keypair_of :: "string \<Rightarrow> app_error + string"
  sign_tx :: "string \<Rightarrow> 'tx \<Rightarrow> 'tx"
  to_xdr :: "'tx \<Rightarrow> string"
  from_xdr :: "string \<Rightarrow> app_error + 'tx"
  send_tx :: "'tx \<Rightarrow> app_error + send_answer"
  get_tx :: "string \<Rightarrow> nat \<Rightarrow> app_error + get_answer" \<comment> \<open>the \<open>n\<close>-th query for a hash\<close>
  u64_arg :: "nat \<Rightarrow> app_error + string"

record payer =
  payer_public :: string
  payer_secret :: string

definition MAX_POLL_ATTEMPTS :: nat where "MAX_POLL_ATTEMPTS = 30"

section \<open>Building\<close>

definition check_simulation :: "('acc, 'tx, 'sim) stellar \<Rightarrow> 'sim \<Rightarrow> app_error + unit" where
  "check_simulation S sim = (if sim_restore S sim then Inl (PlainError ''Contract state needs restoration before invocation'')
     else case sim_error S sim of
       Some m \<Rightarrow> Inl (PlainError (''Simulation failed: '' @ m))
     | None \<Rightarrow> Inr ())"

text \<open>The code signs \<open>tx\<close>, not the transaction \<open>assembled\<close> that it returns.\<close>

definition buildContractInvokeXDR ::
  "('acc, 'tx, 'sim) stellar \<Rightarrow> payer \<Rightarrow> string \<Rightarrow> string \<Rightarrow> string list \<Rightarrow> string \<Rightarrow> app_error + string" where
  "buildContractInvokeXDR S F contractId fn_name args sourcePublicKey =
     (case load_account S (payer_public F) of Inl e \<Rightarrow> Inl e | Inr account \<Rightarrow>
      case invoke_tx S account contractId fn_name args sourcePublicKey 300 of Inl e \<Rightarrow> Inl e | Inr tx \<Rightarrow>
      case simulate S tx of Inl e \<Rightarrow> Inl e | Inr sim \<Rightarrow>
      case check_simulation S sim of Inl e \<Rightarrow> Inl e | Inr _ \<Rightarrow>
      case assemble S tx sim of Inl e \<Rightarrow> Inl e | Inr assembled \<Rightarrow>
      case keypair_of S (payer_secret F) of Inl e \<Rightarrow> Inl e | Inr k \<Rightarrow>
      let signed_tx = sign_tx S k tx in Inr (to_xdr S assembled))"

definition simulateCall ::
  "('acc, 'tx, 'sim) stellar \<Rightarrow> payer \<Rightarrow> string \<Rightarrow> string \<Rightarrow> string list \<Rightarrow> app_error + json" where
  "simulateCall S F contractId fn_name args =
     (case load_account S (payer_public F) of Inl e \<Rightarrow> Inl e | Inr account \<Rightarrow>
      case call_tx S account contractId fn_name args 30 of Inl e \<Rightarrow> Inl e | Inr tx \<Rightarrow>
      case simulate S tx of Inl e \<Rightarrow> Inl e | Inr sim \<Rightarrow>
      (case sim_error S sim of
         Some m \<Rightarrow> Inl (PlainError (''Simulation failed: '' @ m))
       | None \<Rightarrow> if \<not> sim_success S sim then Inl (PlainError ''Simulation did not return a successful result'')
           else case sim_retval S sim of None \<Rightarrow> Inr JNull | Some v \<Rightarrow> Inr (to_native S v)))"

definition getEscrowState ::
  "('acc, 'tx, 'sim) stellar \<Rightarrow> payer \<Rightarrow> (string \<Rightarrow> jsnum) \<Rightarrow> string \<Rightarrow> num_input \<Rightarrow> app_error + json" where
  "getEscrowState S F parse escrow_contract escrowId =
     (if js_trim escrow_contract = [] then Inl (PlainError ''ESCROW_CONTRACT_ID not configured'')
      else case js_Number parse escrowId of
        Fin q \<Rightarrow> if q \<notin> \<int> \<or> q < 0
          then Inl (PlainError ''Escrow on-chain identifier must be a non-negative integer'')
          else (case u64_arg S (nat \<lfloor>q\<rfloor>) of
              Inl e \<Rightarrow> Inl e
            | Inr arg \<Rightarrow> simulateCall S F (js_trim escrow_contract) ''get_escrow'' [arg])
      | _ \<Rightarrow> Inl (PlainError ''Escrow on-chain identifier must be a non-negative integer''))"

definition getAccountBalance :: "('acc, 'tx, 'sim) stellar \<Rightarrow> string \<Rightarrow> string \<Rightarrow> app_error + string" where
  "getAccountBalance S address code = (case load_account S address of
     Inl e \<Rightarrow> Inl e
   | Inr account \<Rightarrow>
       let line = (if code = ''native'' \<or> code = ''XLM'' then find (\<lambda>b. asset_type b = ''native'') (balances S account)
         else find (\<lambda>b. asset_code b = Some code) (balances S account))
       in Inr (case line of None \<Rightarrow> ''0'' | Some b \<Rightarrow> balance b))"

definition signed_by_payer :: "('acc, 'tx, 'sim) stellar \<Rightarrow> payer \<Rightarrow> 'tx \<Rightarrow> app_error + string" where
  "signed_by_payer S F tx = (case keypair_of S (payer_secret F) of
     Inl e \<Rightarrow> Inl e
   | Inr k \<Rightarrow> Inr (to_xdr S (sign_tx S k tx)))"

definition buildNativePayment ::
  "('acc, 'tx, 'sim) stellar \<Rightarrow> payer \<Rightarrow> string \<Rightarrow> string \<Rightarrow> string \<Rightarrow> app_error + string" where
  "buildNativePayment S F src dest amount =
     (case load_account S (payer_public F) of Inl e \<Rightarrow> Inl e | Inr account \<Rightarrow>
      case payment_tx S account dest None amount src 30 of Inl e \<Rightarrow> Inl e | Inr tx \<Rightarrow> signed_by_payer S F tx)"

definition buildSponsoredPaymentXDR ::
  "('acc, 'tx, 'sim) stellar \<Rightarrow> payer \<Rightarrow> string \<Rightarrow> string \<Rightarrow> string \<Rightarrow> string \<Rightarrow> string option \<Rightarrow> app_error + string" where
  "buildSponsoredPaymentXDR S F src dest amount code issuer =
     (case load_account S (payer_public F) of Inl e \<Rightarrow> Inl e | Inr account \<Rightarrow>
      if code \<noteq> ''native'' \<and> code \<noteq> ''XLM'' \<and> (issuer = None \<or> issuer = Some [])
      then Inl (PlainError (''assetIssuer is required for non-native asset \"'' @ code @ ''\"''))
      else let asset = (if code = ''native'' \<or> code = ''XLM'' then None else Some (code, the issuer)) in
        case payment_tx S account dest asset amount src 30 of Inl e \<Rightarrow> Inl e | Inr tx \<Rightarrow> signed_by_payer S F tx)"

section \<open>Submitting\<close>

text \<open>
  The loop that waits for a terminal status: \<open>n\<close> is the number of queries answered with
  NOT_FOUND so far.
\<close>

function poll :: "(nat \<Rightarrow> app_error + get_answer) \<Rightarrow> nat \<Rightarrow> app_error + get_answer" where
  "poll get n = (case get n of
     Inl e \<Rightarrow> Inl e
   | Inr a \<Rightarrow> if a \<noteq> TX_NOT_FOUND then Inr a
       else if MAX_POLL_ATTEMPTS \<le> Suc n then Inl (PlainError ''Transaction confirmation timed out after 30s'')
       else poll get (Suc n))"
  by pat_completeness auto
termination by (relation "measure (\<lambda>(get, n). MAX_POLL_ATTEMPTS - n)") auto

declare poll.simps [simp del]

definition submitXDR :: "('acc, 'tx, 'sim) stellar \<Rightarrow> string \<Rightarrow> string list \<Rightarrow> (string list, string \<times> get_answer) outcome" where
  "submitXDR S signedXDR net = (case from_xdr S signedXDR of Inl e \<Rightarrow> (Inl e, net) | Inr tx \<Rightarrow>
     case send_tx S tx of Inl e \<Rightarrow> (Inl e, net)
     | Inr (SendError r) \<Rightarrow>
         (Inl (PlainError (''Transaction rejected by network: '' @ (case r of Some m \<Rightarrow> m | None \<Rightarrow> ''unknown error''))), net)
     | Inr (SendAccepted hash) \<Rightarrow> (let net' = net @ [hash] in
         case poll (get_tx S hash) 0 of Inl e \<Rightarrow> (Inl e, net')
         | Inr (TX_FAILED r) \<Rightarrow>
             (Inl (PlainError (''Transaction failed on-chain: '' @ (case r of Some m \<Rightarrow> m | None \<Rightarrow> ''no result XDR available''))), net')
         | Inr a \<Rightarrow> (Inr (hash, a), net')))"

definition submitSignedTransaction :: "('acc, 'tx, 'sim) stellar \<Rightarrow> string \<Rightarrow> string list \<Rightarrow> (string list, string) outcome" where
  "submitSignedTransaction S signedXDR net = (case submitXDR S signedXDR net of
     (Inl e, net') \<Rightarrow> (Inl e, net')
   | (Inr (hash, a), net') \<Rightarrow> (Inr hash, net'))"

section \<open>Properties\<close>

lemma poll_first:
  "n < MAX_POLL_ATTEMPTS \<Longrightarrow> poll get n = (case find (\<lambda>i. get i \<noteq> Inr TX_NOT_FOUND) [n..<MAX_POLL_ATTEMPTS] of
     None \<Rightarrow> Inl (PlainError ''Transaction confirmation timed out after 30s'')
   | Some i \<Rightarrow> get i)"
proof (induction "MAX_POLL_ATTEMPTS - n" arbitrary: n)
  case (Suc k)
  have split: "[n..<MAX_POLL_ATTEMPTS] = n # [Suc n..<MAX_POLL_ATTEMPTS]" using Suc.prems by (rule upt_conv_Cons)
  show ?case
  proof (cases "get n = Inr TX_NOT_FOUND")
    case True
    show ?thesis
    proof (cases "Suc n < MAX_POLL_ATTEMPTS")
      case more: True
      have "poll get (Suc n) = (case find (\<lambda>i. get i \<noteq> Inr TX_NOT_FOUND) [Suc n..<MAX_POLL_ATTEMPTS] of
          None \<Rightarrow> Inl (PlainError ''Transaction confirmation timed out after 30s'') | Some i \<Rightarrow> get i)"
        using Suc more by (intro Suc.hyps(1)) simp_all
      then show ?thesis using True more split by (simp add: poll.simps [of get n])
    next
      case False
      then have "[Suc n..<MAX_POLL_ATTEMPTS] = []" by simp
      then show ?thesis using True False split by (simp add: poll.simps [of get n])
    qed
  next
    case False
    then show ?thesis unfolding split by (simp add: poll.simps [of get n] split: sum.split)
  qed
qed simp

text \<open>
  Waiting for a transaction always ends: the loop asks for the status at most thirty
  times and answers with the first answer that is not NOT_FOUND (a status, or the error
  the query threw), or with a time-out when there is none among them.
\<close>

theorem poll_answers:
  "poll get 0 = (case find (\<lambda>i. get i \<noteq> Inr TX_NOT_FOUND) [0..<30] of
     None \<Rightarrow> Inl (PlainError ''Transaction confirmation timed out after 30s'')
   | Some i \<Rightarrow> get i)"
  using poll_first [of 0 get] by (simp add: MAX_POLL_ATTEMPTS_def)

text \<open>
  The transaction the server builds for a contract call does not carry the fee payer's
  signature: the text it returns is the same whatever the fee payer's secret key is, as
  long as it is a key, while the text of a payment is that of the transaction signed with
  it.
\<close>

theorem invocation_not_signed:
  assumes "keypair_of S sk = Inr k" and "keypair_of S sk' = Inr k'"
  shows "buildContractInvokeXDR S \<lparr>payer_public = p, payer_secret = sk\<rparr> c f args src
      = buildContractInvokeXDR S \<lparr>payer_public = p, payer_secret = sk'\<rparr> c f args src
    \<and> (\<forall>acc tx. load_account S p = Inr acc \<longrightarrow> payment_tx S acc dest None amount src 30 = Inr tx \<longrightarrow>
        buildNativePayment S \<lparr>payer_public = p, payer_secret = sk\<rparr> src dest amount = Inr (to_xdr S (sign_tx S k tx)))"
  using assms by (simp add: buildContractInvokeXDR_def buildNativePayment_def signed_by_payer_def split: sum.split)

text \<open>A small network: a transaction is its text and its signatures.\<close>

definition demo_stellar :: "(unit, string \<times> string list, unit) stellar" where
  "demo_stellar = \<lparr>load_account = (\<lambda>_. Inr ()), balances = (\<lambda>_. []), invoke_tx = (\<lambda>_ c f _ _ _. Inr (c @ f, [])),
     call_tx = (\<lambda>_ c f _ _. Inr (c @ f, [])), payment_tx = (\<lambda>_ d _ a _ _. Inr (d @ a, [])), simulate = (\<lambda>_. Inr ()),
     sim_restore = (\<lambda>_. False), sim_error = (\<lambda>_. None), sim_success = (\<lambda>_. True), sim_retval = (\<lambda>_. None),
     to_native = (\<lambda>_. JNull), assemble = (\<lambda>tx _. Inr (fst tx, [])), keypair_of = (\<lambda>k. Inr k), sign_tx = (\<lambda>k tx. (fst tx, k # snd tx)),
     to_xdr = (\<lambda>tx. fst tx @ concat (snd tx)), from_xdr = (\<lambda>x. Inr (x, [])), send_tx = (\<lambda>tx. Inr (SendAccepted (fst tx))),
     get_tx = (\<lambda>_ _. Inr TX_SUCCESS), u64_arg = (\<lambda>_. Inr [])\<rparr>"

theorem invocation_not_signed_witness:
  "buildContractInvokeXDR demo_stellar \<lparr>payer_public = ''P'', payer_secret = ''S1''\<rparr> ''C'' ''f'' [] ''G''
     = buildContractInvokeXDR demo_stellar \<lparr>payer_public = ''P'', payer_secret = ''S2''\<rparr> ''C'' ''f'' [] ''G''
   \<and> buildNativePayment demo_stellar \<lparr>payer_public = ''P'', payer_secret = ''S1''\<rparr> ''G'' ''D'' ''1'' = Inr ''D1S1''"
proof -
  have k: "keypair_of demo_stellar ''S1'' = Inr ''S1''" "keypair_of demo_stellar ''S2'' = Inr ''S2''"
    and tx: "load_account demo_stellar ''P'' = Inr ()" "payment_tx demo_stellar () ''D'' None ''1'' ''G'' 30 = Inr (''D1'', [])"
    and x: "to_xdr demo_stellar (sign_tx demo_stellar ''S1'' (''D1'', [])) = ''D1S1''"
    by (simp_all add: demo_stellar_def)
  show ?thesis using invocation_not_signed [OF k, of "''P''" "''C''" "''f''" "[]" "''G''" "''D''" "''1''"] tx x by auto
qed

end
