(* ===== verification/Tx_Queue.thy ===== *)
theory Tx_Queue
  imports Contract_Service
begin

text \<open>
  The transaction queue, \<open>server/src/services/transaction-queue.service.ts\<close>: a worker builds
  and submits a transaction for a job, keeps the result for a day under the job's
  idempotency key, and leaves retrying to the queue (BullMQ), which calls the worker again
  after an exception until the job has had five attempts. The queue's own data is a
  parameter where it is only read; what the worker does is modelled attempt by attempt.
\<close>

section \<open>State\<close>

record tx_job =
  idempotencyKey :: string
  tj_contractId :: string
  tj_method :: string
  tj_args :: "string list"
  tj_source :: string
  userSignedXdr :: "string option"

record tx_result =
  tr_success :: bool
  tr_txHash :: "string option"
  tr_error :: "string option"
  tr_attempts :: nat

record tx_state =
  idem_cache :: "string \<rightharpoonup> tx_result \<times> int" \<comment> \<open>the result and when Redis drops it\<close>
  tx_net :: "string list" \<comment> \<open>transactions the network accepted\<close>
  dead_letters :: "(string \<times> tx_job) list"

definition MAX_RETRIES :: nat where "MAX_RETRIES = 5"

definition IDEMPOTENCY_TTL_MS :: int where "IDEMPOTENCY_TTL_MS = 86400 * 1000"

definition retryablePatterns :: "string list" where
  "retryablePatterns = [''timeout'', ''network'', ''connection'', ''ECONNREFUSED'', ''ETIMEDOUT'', ''sequence'', ''tx_bad_seq'',
     ''congestion'', ''rate limit'']"

definition isRetryableError :: "string \<Rightarrow> bool" where
  "isRetryableError m \<longleftrightarrow> list_ex (\<lambda>p. contains_text (js_lower p) (js_lower m)) retryablePatterns"

definition checkIdempotency :: "int \<Rightarrow> string \<Rightarrow> tx_state \<Rightarrow> tx_result option" where
  "checkIdempotency now key s = (case idem_cache s key of
     None \<Rightarrow> None
   | Some (r, expiry) \<Rightarrow> if now < expiry then Some r else None)"

definition storeIdempotencyResult :: "int \<Rightarrow> string \<Rightarrow> tx_result \<Rightarrow> tx_state \<Rightarrow> tx_state" where
  "storeIdempotencyResult now key r s = s\<lparr>idem_cache := (idem_cache s)(key \<mapsto> (r, now + IDEMPOTENCY_TTL_MS))\<rparr>"

section \<open>One attempt\<close>

definition submit_job :: "('acc, 'tx, 'sim) stellar \<Rightarrow> payer \<Rightarrow> tx_job \<Rightarrow> string list \<Rightarrow> (string list, string) outcome" where
  "submit_job S F job net = (case userSignedXdr job of
     Some x \<Rightarrow> if x \<noteq> [] then submitSignedTransaction S x net
       else (case buildContractInvokeXDR S F (tj_contractId job) (tj_method job) (tj_args job) (tj_source job) of
         Inl e \<Rightarrow> (Inl e, net) | Inr x' \<Rightarrow> submitSignedTransaction S x' net)
   | None \<Rightarrow> (case buildContractInvokeXDR S F (tj_contractId job) (tj_method job) (tj_args job) (tj_source job) of
       Inl e \<Rightarrow> (Inl e, net) | Inr x' \<Rightarrow> submitSignedTransaction S x' net))"

text \<open>\<open>error.message || String(error)\<close>.\<close>

definition error_text :: "app_error \<Rightarrow> string" where
  "error_text e = (if err_message e = [] then ''Error'' else err_message e)"

text \<open>\<open>now\<close> is the time of the lookup, \<open>now'\<close> that of the store; \<open>made\<close> is \<open>attemptsMade\<close>.\<close>

definition processTransaction ::
  "('acc, 'tx, 'sim) stellar \<Rightarrow> payer \<Rightarrow> int \<Rightarrow> int \<Rightarrow> nat \<Rightarrow> tx_job \<Rightarrow> tx_state \<Rightarrow> (tx_state, tx_result) outcome" where
  "processTransaction S F now now' made job s = (case checkIdempotency now (idempotencyKey job) s of
     Some r \<Rightarrow> (Inr r, s)
   | None \<Rightarrow> (case submit_job S F job (tx_net s) of
       (Inr txHash, net) \<Rightarrow>
         let r = \<lparr>tr_success = True, tr_txHash = Some txHash, tr_error = None, tr_attempts = made + 1\<rparr>
         in (Inr r, storeIdempotencyResult now' (idempotencyKey job) r (s\<lparr>tx_net := net\<rparr>))
     | (Inl e, net) \<Rightarrow>
         let m = error_text e in
         if isRetryableError m then (Inl e, s\<lparr>tx_net := net\<rparr>)
         else let r = \<lparr>tr_success = False, tr_txHash = None, tr_error = Some m, tr_attempts = made + 1\<rparr>
           in (Inl (PlainError m), storeIdempotencyResult now' (idempotencyKey job) r (s\<lparr>tx_net := net\<rparr>))))"

text \<open>The handler of the worker's \<open>failed\<close> event, which runs after every failed attempt.\<close>

definition onFailed :: "string \<Rightarrow> nat \<Rightarrow> tx_job \<Rightarrow> tx_state \<Rightarrow> tx_state" where
  "onFailed i attemptsMade job s =
     (if MAX_RETRIES \<le> attemptsMade then s\<lparr>dead_letters := dead_letters s @ [(i, job)]\<rparr> else s)"

section \<open>Enqueuing and status\<close>

datatype queue_status = Q_COMPLETED | Q_FAILED | Q_ACTIVE | Q_WAITING | Q_OTHER

datatype transaction_status = TS_PENDING | TS_PROCESSING | TS_COMPLETED | TS_FAILED

fun status_of_queue :: "queue_status \<Rightarrow> transaction_status" where
  "status_of_queue Q_COMPLETED = TS_COMPLETED"
| "status_of_queue Q_FAILED = TS_FAILED"
| "status_of_queue Q_ACTIVE = TS_PROCESSING"
| "status_of_queue Q_WAITING = TS_PENDING"
| "status_of_queue Q_OTHER = TS_PENDING"

text \<open>\<open>getJob\<close> is the queue's answer: the job's state and return value, if the job is there.\<close>

definition getTransactionStatus ::
  "(string \<Rightarrow> (queue_status \<times> tx_result option) option) \<Rightarrow> int \<Rightarrow> string \<Rightarrow> tx_state \<Rightarrow> transaction_status \<times> tx_result option" where
  "getTransactionStatus getJob now key s = (case getJob key of
     None \<Rightarrow> (case checkIdempotency now key s of
         Some r \<Rightarrow> (if tr_success r then TS_COMPLETED else TS_FAILED, Some r)
       | None \<Rightarrow> (TS_PENDING, None))
   | Some (st, v) \<Rightarrow> (status_of_queue st, v))"

text \<open>
  \<open>add_job\<close> is the queue's \<open>add\<close> with the idempotency key as job id, on the jobs it holds by id.
\<close>

definition enqueueTransaction :: "(string \<Rightarrow> tx_job \<Rightarrow> (string \<rightharpoonup> tx_job) \<Rightarrow> (string \<rightharpoonup> tx_job)) \<Rightarrow> tx_job \<Rightarrow> (string \<rightharpoonup> tx_job) \<Rightarrow> (string \<rightharpoonup> tx_job)" where
  "enqueueTransaction add_job job q = add_job (idempotencyKey job) job q"

text \<open>\<open>get_jobs\<close> is the dead letter queue's answer for the completed, failed and waiting jobs of a range.\<close>

definition getDLQJobs :: "(int \<Rightarrow> int \<Rightarrow> (string \<times> tx_job) list) \<Rightarrow> int option \<Rightarrow> (string \<times> tx_job) list" where
  "getDLQJobs get_jobs n = get_jobs 0 ((case n of None \<Rightarrow> 50 | Some k \<Rightarrow> k) - 1)"

definition retryDLQJob ::
  "(string \<Rightarrow> tx_job \<Rightarrow> (string \<rightharpoonup> tx_job) \<Rightarrow> (string \<rightharpoonup> tx_job)) \<Rightarrow> string \<Rightarrow> (string \<rightharpoonup> tx_job) \<times> tx_state
    \<Rightarrow> ((string \<rightharpoonup> tx_job) \<times> tx_state, unit) outcome" where
  "retryDLQJob add_job jobId = (\<lambda>(q, s). case find (\<lambda>x. fst x = jobId) (dead_letters s) of
     None \<Rightarrow> (Inl (PlainError (''Job '' @ jobId @ '' not found in DLQ'')), (q, s))
   | Some (i, job) \<Rightarrow> (Inr (), (enqueueTransaction add_job job q,
       s\<lparr>dead_letters := filter (\<lambda>x. fst x \<noteq> jobId) (dead_letters s)\<rparr>)))"

section \<open>All attempts of a job\<close>

text \<open>
  The queue's option \<open>attempts: 5\<close>: the worker is called until it returns, five times at
  most. \<open>E n\<close> is the network as attempt \<open>n\<close> finds it and \<open>t n\<close>, \<open>t' n\<close> the times of its
  lookup and store. The result is \<open>None\<close> when all attempts failed; then the \<open>failed\<close>
  handler has put the job into the dead letters.
\<close>

function run_attempts ::
  "(nat \<Rightarrow> ('acc, 'tx, 'sim) stellar) \<Rightarrow> payer \<Rightarrow> (nat \<Rightarrow> int) \<Rightarrow> (nat \<Rightarrow> int) \<Rightarrow> string \<Rightarrow> tx_job \<Rightarrow> nat \<Rightarrow> tx_state
    \<Rightarrow> tx_result option \<times> tx_state" where
  "run_attempts E F t t' i job n s = (if MAX_RETRIES \<le> n then (None, s) else
     case processTransaction (E n) F (t n) (t' n) n job s of
       (Inr r, s') \<Rightarrow> (Some r, s')
     | (Inl e, s') \<Rightarrow> run_attempts E F t t' i job (Suc n) (onFailed i (Suc n) job s'))"
  by pat_completeness auto
termination by (relation "measure (\<lambda>(E, F, t, t', i, job, n, s). MAX_RETRIES - n)") auto

declare run_attempts.simps [simp del]

section \<open>Properties\<close>

lemma check_store: "now' < now + IDEMPOTENCY_TTL_MS \<Longrightarrow> checkIdempotency now' key (storeIdempotencyResult now key r s) = Some r"
  by (simp add: checkIdempotency_def storeIdempotencyResult_def)

lemma store_net [simp]: "tx_net (storeIdempotencyResult now key r s) = tx_net s"
  "dead_letters (storeIdempotencyResult now key r s) = dead_letters s"
  by (simp_all add: storeIdempotencyResult_def)

lemma onFailed_simps [simp]: "idem_cache (onFailed i n job s) = idem_cache s" "tx_net (onFailed i n job s) = tx_net s"
  by (simp_all add: onFailed_def)

text \<open>What an attempt leaves behind.\<close>

lemma attempt_Inr:
  assumes "processTransaction S F now now' n job s = (Inr r, s')" and "checkIdempotency now (idempotencyKey job) s = None"
  shows "tr_success r \<and> idem_cache s' (idempotencyKey job) = Some (r, now' + IDEMPOTENCY_TTL_MS)"
  using assms
  by (auto simp: processTransaction_def Let_def storeIdempotencyResult_def split: prod.splits sum.splits if_splits)

lemma attempt_refused:
  assumes "checkIdempotency now (idempotencyKey job) s = None" and "submit_job S F job (tx_net s) = (Inl e, net)"
    and "\<not> isRetryableError (error_text e)"
  shows "\<exists>s'. processTransaction S F now now' n job s = (Inl (PlainError (error_text e)), s')
    \<and> idem_cache s' (idempotencyKey job) = Some (\<lparr>tr_success = False, tr_txHash = None, tr_error = Some (error_text e), tr_attempts = n + 1\<rparr>,
        now' + IDEMPOTENCY_TTL_MS)
    \<and> tx_net s' = net \<and> dead_letters s' = dead_letters s"
  using assms by (simp add: processTransaction_def Let_def) (simp add: storeIdempotencyResult_def)

text \<open>
  C17. A successful transaction is submitted once: after an attempt with a fresh key that
  returns, every later attempt with that key within 24 hours returns the same result and
  sends nothing.
\<close>

theorem submitted_once:
  assumes "processTransaction S F now now' n job s = (Inr r, s')" and "checkIdempotency now (idempotencyKey job) s = None"
    and "u < now' + 86400000" and "idempotencyKey job' = idempotencyKey job"
  shows "tr_success r \<and> (\<exists>h. tr_txHash r = Some h) \<and> processTransaction S' F' u u' m job' s' = (Inr r, s')"
proof -
  have c: "idem_cache s' (idempotencyKey job) = Some (r, now' + IDEMPOTENCY_TTL_MS)" and ok: "tr_success r"
    using attempt_Inr [OF assms(1,2)] by auto
  have "\<exists>h. tr_txHash r = Some h"
    using assms(1,2) by (auto simp: processTransaction_def Let_def split: prod.splits sum.splits if_splits)
  moreover have "checkIdempotency u (idempotencyKey job') s' = Some r"
    using c assms(3,4) by (simp add: checkIdempotency_def IDEMPOTENCY_TTL_MS_def)
  ultimately show ?thesis using ok by (simp add: processTransaction_def)
qed

text \<open>
  A transaction that fails for good is reported as completed: when an attempt before
  the last is refused with an error that is not to be retried, the next attempt returns the
  stored failure as its result, so the job completes, its status is COMPLETED and it never
  reaches the dead letters; nothing is sent again.
\<close>

theorem failure_completes:
  assumes "n + 1 < MAX_RETRIES" and "checkIdempotency (t n) (idempotencyKey job) s = None"
    and "submit_job (E n) F job (tx_net s) = (Inl e, net)" and "\<not> isRetryableError (error_text e)"
    and "t (n + 1) < t' n + 86400000"
  shows "\<exists>r s'. run_attempts E F t t' i job n s = (Some r, s') \<and> \<not> tr_success r \<and> tr_error r = Some (error_text e)
    \<and> tx_net s' = net \<and> dead_letters s' = dead_letters s
    \<and> (\<forall>getJob now. getJob (idempotencyKey job) = Some (Q_COMPLETED, Some r)
        \<longrightarrow> getTransactionStatus getJob now (idempotencyKey job) s' = (TS_COMPLETED, Some r))"
proof -
  let ?r = "\<lparr>tr_success = False, tr_txHash = None, tr_error = Some (error_text e), tr_attempts = n + 1\<rparr>"
  obtain s1 where s1: "processTransaction (E n) F (t n) (t' n) n job s = (Inl (PlainError (error_text e)), s1)"
    "idem_cache s1 (idempotencyKey job) = Some (?r, t' n + IDEMPOTENCY_TTL_MS)" "tx_net s1 = net" "dead_letters s1 = dead_letters s"
    using attempt_refused [OF assms(2-4), of "t' n" n] by blast
  have keep: "onFailed i (Suc n) job s1 = s1" using assms(1) by (simp add: onFailed_def)
  have "checkIdempotency (t (Suc n)) (idempotencyKey job) s1 = Some ?r"
    using s1(2) assms(5) by (simp add: checkIdempotency_def IDEMPOTENCY_TTL_MS_def)
  then have "processTransaction (E (Suc n)) F (t (Suc n)) (t' (Suc n)) (Suc n) job s1 = (Inr ?r, s1)"
    by (simp add: processTransaction_def)
  then have "run_attempts E F t t' i job n s = (Some ?r, s1)"
    using s1(1) keep assms(1) by (simp add: run_attempts.simps [of E F t t' i job n] run_attempts.simps [of E F t t' i job "Suc n"])
  then show ?thesis using s1 by (intro exI [of _ ?r] exI [of _ s1]) (simp add: getTransactionStatus_def)
qed

text \<open>
  Retrying can send a transaction twice: when the network accepted a transaction but
  the query for its status threw an error that is to be retried, the next attempt builds
  and sends another one for the same job.
\<close>

theorem retry_sends_again:
  assumes "n + 1 < MAX_RETRIES" and "checkIdempotency (t n) (idempotencyKey job) s = None"
    and "checkIdempotency (t (n + 1)) (idempotencyKey job) s = None"
    and "submit_job (E n) F job (tx_net s) = (Inl e, tx_net s @ [h])" and "isRetryableError (error_text e)"
    and "submit_job (E (n + 1)) F job (tx_net s @ [h]) = (Inr h', tx_net s @ [h, h'])"
  shows "\<exists>r s'. run_attempts E F t t' i job n s = (Some r, s') \<and> tr_success r \<and> tr_txHash r = Some h' \<and> tx_net s' = tx_net s @ [h, h']"
proof -
  have "processTransaction (E n) F (t n) (t' n) n job s = (Inl e, s\<lparr>tx_net := tx_net s @ [h]\<rparr>)"
    using assms by (simp add: processTransaction_def Let_def)
  moreover have "onFailed i (Suc n) job v = v" for v using assms(1) by (simp add: onFailed_def)
  moreover have "checkIdempotency (t (Suc n)) (idempotencyKey job) (s\<lparr>tx_net := tx_net s @ [h]\<rparr>) = None"
    using assms(3) by (simp add: checkIdempotency_def)
  ultimately show ?thesis
    using assms by (simp add: run_attempts.simps [of E F t t' i job n] run_attempts.simps [of E F t t' i job "Suc n"]
        processTransaction_def Let_def)
qed

text \<open>Concrete runs on a small network.\<close>

definition demo_job :: tx_job where
  "demo_job = \<lparr>idempotencyKey = ''k'', tj_contractId = ''C'', tj_method = ''f'', tj_args = [], tj_source = ''G'', userSignedXdr = Some ''X''\<rparr>"

definition demo_tx_state :: tx_state where
  "demo_tx_state = \<lparr>idem_cache = Map.empty, tx_net = [], dead_letters = []\<rparr>"

definition demo_payer :: payer where
  "demo_payer = \<lparr>payer_public = ''P'', payer_secret = ''S''\<rparr>"

definition demo_failing :: "(unit, string \<times> string list, unit) stellar" where
  "demo_failing = demo_stellar\<lparr>get_tx := (\<lambda>_ _. Inr (TX_FAILED None))\<rparr>"

definition demo_lossy :: "(unit, string \<times> string list, unit) stellar" where
  "demo_lossy = demo_stellar\<lparr>get_tx := (\<lambda>_ _. Inl (PlainError ''network down''))\<rparr>"

lemma demo_submit:
  "submit_job demo_stellar demo_payer demo_job net = (Inr ''X'', net @ [''X''])"
  "submit_job demo_failing demo_payer demo_job net = (Inl (PlainError ''Transaction failed on-chain: no result XDR available''), net @ [''X''])"
  "submit_job demo_lossy demo_payer demo_job net = (Inl (PlainError ''network down''), net @ [''X''])"
  by (simp_all add: submit_job_def demo_job_def submitSignedTransaction_def submitXDR_def demo_failing_def demo_lossy_def demo_stellar_def
      Let_def poll.simps)

lemma demo_check: "checkIdempotency now key demo_tx_state = None"
  by (simp add: checkIdempotency_def demo_tx_state_def)

theorem submitted_once_witness:
  "\<exists>r s'. processTransaction demo_stellar demo_payer 0 1 0 demo_job demo_tx_state = (Inr r, s')
     \<and> processTransaction demo_lossy demo_payer 5 6 1 demo_job s' = (Inr r, s')"
proof -
  obtain r s' where run: "processTransaction demo_stellar demo_payer 0 1 0 demo_job demo_tx_state = (Inr r, s')"
    by (simp add: processTransaction_def demo_check demo_submit Let_def)
  have "tr_success r \<and> (\<exists>h. tr_txHash r = Some h) \<and> processTransaction demo_lossy demo_payer 5 6 1 demo_job s' = (Inr r, s')"
    by (rule submitted_once [OF run demo_check]) simp_all
  then show ?thesis using run by blast
qed

lemma demo_retryable: "\<not> isRetryableError ''Transaction failed on-chain: no result XDR available''" "isRetryableError ''network down''"
  by code_simp+

theorem failure_completes_witness:
  "\<exists>r s'. run_attempts (\<lambda>_. demo_failing) demo_payer int int ''k'' demo_job 0 demo_tx_state = (Some r, s') \<and> \<not> tr_success r
     \<and> dead_letters s' = []"
proof -
  have "submit_job demo_failing demo_payer demo_job (tx_net demo_tx_state)
      = (Inl (PlainError ''Transaction failed on-chain: no result XDR available''), [''X''])"
    by (simp add: demo_submit demo_tx_state_def)
  moreover have "\<not> isRetryableError (error_text (PlainError ''Transaction failed on-chain: no result XDR available''))"
    by (simp add: error_text_def demo_retryable)
  moreover have "dead_letters demo_tx_state = []" by (simp add: demo_tx_state_def)
  ultimately show ?thesis
    using failure_completes [of 0 int demo_job demo_tx_state "\<lambda>_. demo_failing" demo_payer _ _ int "''k''"] demo_check
    by (fastforce simp: MAX_RETRIES_def)
qed

theorem retry_sends_again_witness:
  "\<exists>r s'. run_attempts (\<lambda>n. if n = 0 then demo_lossy else demo_stellar) demo_payer int int ''k'' demo_job 0 demo_tx_state = (Some r, s')
     \<and> tr_success r \<and> tx_net s' = [''X'', ''X'']"
proof -
  let ?E = "\<lambda>n :: nat. if n = 0 then demo_lossy else demo_stellar"
  have "submit_job (?E 0) demo_payer demo_job (tx_net demo_tx_state) = (Inl (PlainError ''network down''), tx_net demo_tx_state @ [''X''])"
    "submit_job (?E (0 + 1)) demo_payer demo_job (tx_net demo_tx_state @ [''X'']) = (Inr ''X'', tx_net demo_tx_state @ [''X'', ''X''])"
    by (simp_all add: demo_submit)
  moreover have "isRetryableError (error_text (PlainError ''network down''))" by (simp add: error_text_def demo_retryable)
  moreover have "0 + 1 < MAX_RETRIES" "tx_net demo_tx_state = []" by (simp_all add: MAX_RETRIES_def demo_tx_state_def)
  ultimately show ?thesis
    using retry_sends_again [of 0 int demo_job demo_tx_state ?E demo_payer "PlainError ''network down''" "''X''" "''X''" int "''k''"] demo_check
    by auto
qed

section \<open>Which errors are retried\<close>

lemma contains_text_append: "contains_text p (xs @ p @ ys)"
proof (induction xs)
  case Nil
  then show ?case by (cases p; cases ys) simp_all
next
  case (Cons x xs)
  then show ?case by simp
qed

text \<open>
  A rejection by the network is always retried, because the message of the exception
  contains the word, and waiting in vain for a transaction never is.
\<close>

lemma rejection_retried: "isRetryableError (''Transaction rejected by network: '' @ x)"
proof -
  have p: "js_lower ''Transaction rejected by network: '' = ''transaction rejected by '' @ ''network'' @ '': ''"
    and n: "js_lower ''network'' = ''network''" by code_simp+
  have "js_lower (''Transaction rejected by network: '' @ x) = js_lower ''Transaction rejected by network: '' @ js_lower x"
    by (simp only: js_lower_def map_append)
  then have "contains_text (js_lower ''network'') (js_lower (''Transaction rejected by network: '' @ x))"
    unfolding p n append_assoc by (simp only: contains_text_append)
  then show ?thesis unfolding isRetryableError_def retryablePatterns_def by simp
qed

lemma confirmation_timeout_not_retried: "\<not> isRetryableError ''Transaction confirmation timed out after 30s''"
  by code_simp

text \<open>
  Retrying a dead letter loses it when the queue still holds the failed job: the queue
  (as BullMQ documents) does not add a job whose id it has.
\<close>

lemma dlq_retry_loses_job:
  assumes "\<And>i j q. q i \<noteq> None \<Longrightarrow> add_job i j q = q"
    and "find (\<lambda>x. fst x = k) (dead_letters s) = Some (k, job)" and "q (idempotencyKey job) \<noteq> None"
  shows "\<exists>s'. retryDLQJob add_job k (q, s) = (Inr (), (q, s')) \<and> k \<notin> fst ` set (dead_letters s')"
  using assms by (auto simp: retryDLQJob_def enqueueTransaction_def)

end
