(* ===== verification/Risk_Engine.thy ===== *)
theory Risk_Engine
  imports Platform "HOL-Library.Multiset"
begin

text \<open>
  Risk scores of wallets: \<open>server/src/services/risk-engine.service.ts\<close> and
  \<open>controllers/risk.controller.ts\<close>. A score is the sum of four components of at most 250
  points (transaction history, repayments, collateral, disputes); it is stored with a
  grade, and a hypothetical scenario can be scored without storing anything. Numbers are
  binary64 as in \<open>Js_Number\<close>; the account's history on the network is a parameter.
\<close>

section \<open>Grades\<close>

datatype risk_grade = Grade_A | Grade_B | Grade_C | Grade_D | Grade_F

fun grade_text :: "risk_grade \<Rightarrow> string" where
  "grade_text Grade_A = ''A''"
| "grade_text Grade_B = ''B''"
| "grade_text Grade_C = ''C''"
| "grade_text Grade_D = ''D''"
| "grade_text Grade_F = ''F''"

text \<open>Grades are ordered from the worst, F, to the best, A.\<close>

fun grade_rank :: "risk_grade \<Rightarrow> nat" where
  "grade_rank Grade_F = 0"
| "grade_rank Grade_D = 1"
| "grade_rank Grade_C = 2"
| "grade_rank Grade_B = 3"
| "grade_rank Grade_A = 4"

instantiation risk_grade :: linorder
begin

definition less_eq_risk_grade :: "risk_grade \<Rightarrow> risk_grade \<Rightarrow> bool" where
  "less_eq_risk_grade a b \<longleftrightarrow> grade_rank a \<le> grade_rank b"

definition less_risk_grade :: "risk_grade \<Rightarrow> risk_grade \<Rightarrow> bool" where
  "less_risk_grade a b \<longleftrightarrow> grade_rank a < grade_rank b"

instance
proof
  fix a b :: risk_grade
  assume "a \<le> b" "b \<le> a"
  then have "grade_rank a = grade_rank b" by (simp add: less_eq_risk_grade_def)
  then show "a = b" by (cases a; cases b) simp_all
qed (auto simp: less_eq_risk_grade_def less_risk_grade_def)

end

definition COMPONENT_MAX :: int where "COMPONENT_MAX = 250"

definition scoreToGrade :: "int \<Rightarrow> risk_grade" where
  "scoreToGrade score = (if 800 \<le> score then Grade_A
     else if 600 \<le> score then Grade_B
     else if 400 \<le> score then Grade_C
     else if 200 \<le> score then Grade_D
     else Grade_F)"

definition toComponent :: "rat \<Rightarrow> int" where
  "toComponent factor = math_round (fl64 (max 0 (min 1 factor) * of_int COMPONENT_MAX))"

section \<open>Components\<close>

text \<open>
  \<open>history\<close> gives the times, in milliseconds, of the last 200 transactions of an account,
  or \<open>None\<close> when the call throws.
\<close>

definition seconds :: "int \<Rightarrow> rat" where
  "seconds t = fl64 (of_int t / 1000)"

definition computeTransactionHistoryComponent :: "(string \<Rightarrow> int list option) \<Rightarrow> int \<Rightarrow> string \<Rightarrow> int" where
  "computeTransactionHistoryComponent history now wallet = (case history wallet of
     None \<Rightarrow> 0
   | Some [] \<Rightarrow> 0
   | Some (r # rs) \<Rightarrow>
       let oldest = foldl (\<lambda>m t. min m (seconds t)) (seconds r) rs;
           ageYears = fl64 (fl64 (seconds now - oldest) / 31557600);
           volumeScore = min 1 (fl64 (of_nat (length (r # rs)) / 100));
           ageScore = min 1 (fl64 (ageYears / 2))
       in toComponent (fl64 (fl64 (1 / 2 * volumeScore) + fl64 (1 / 2 * ageScore))))"

definition user_by_address :: "string \<Rightarrow> world \<Rightarrow> user_row option" where
  "user_by_address wallet w = lookup_row stellarAddress wallet (users w)"

definition finished_loans :: "string \<Rightarrow> world \<Rightarrow> loan_row list" where
  "finished_loans u w = filter (\<lambda>l. borrowerId l = u \<and> loan_status l \<in> {LOAN_REPAID, LOAN_DEFAULTED}) (loans w)"

definition count_status :: "loan_status \<Rightarrow> loan_row list \<Rightarrow> nat" where
  "count_status st ls = length (filter (\<lambda>l. loan_status l = st) ls)"

definition computeRepaymentRecordComponent :: "string \<Rightarrow> world \<Rightarrow> int" where
  "computeRepaymentRecordComponent wallet w = (case user_by_address wallet w of
     None \<Rightarrow> COMPONENT_MAX
   | Some u \<Rightarrow>
       let ls = finished_loans (user_id u) w;
           repaid = count_status LOAN_REPAID ls;
           n = repaid + count_status LOAN_DEFAULTED ls
       in if n = 0 then COMPONENT_MAX else toComponent (fl64 (of_nat repaid / of_nat n)))"

text \<open>\<open>Number(amount)\<close> of a loan and of the collateral joined to it.\<close>

definition loan_pair :: "world \<Rightarrow> loan_row \<Rightarrow> rat \<times> rat" where
  "loan_pair w l = (fl64 (loan_amount l),
     case Option.bind (loan_collateralId l) (\<lambda>i. lookup_row collateral_id i (collaterals w)) of
       None \<Rightarrow> 0 | Some c \<Rightarrow> fl64 (collateral_amount c))"

definition loans_of :: "string \<Rightarrow> world \<Rightarrow> (rat \<times> rat) list" where
  "loans_of u w = map (loan_pair w) (filter (\<lambda>l. borrowerId l = u) (loans w))"

definition sum_ratios :: "(rat \<times> rat) list \<Rightarrow> rat" where
  "sum_ratios ps = foldl (\<lambda>s (amt, coll). fl64 (s + (if 0 < amt then fl64 (coll / amt) else 0))) 0 ps"

definition coverage_factor :: "rat \<Rightarrow> int" where
  "coverage_factor ratio = toComponent (min 1 (fl64 (ratio / (3 / 2))))"

definition computeCollateralCoverageComponent :: "string \<Rightarrow> world \<Rightarrow> int" where
  "computeCollateralCoverageComponent wallet w = (case user_by_address wallet w of
     None \<Rightarrow> COMPONENT_MAX
   | Some u \<Rightarrow>
       let ps = filter (\<lambda>(amt, coll). 0 < amt) (loans_of (user_id u) w)
       in if ps = [] then COMPONENT_MAX else coverage_factor (fl64 (sum_ratios ps / of_nat (length ps))))"

definition computeDisputeHistoryComponent :: "string \<Rightarrow> int" where
  "computeDisputeHistoryComponent wallet = COMPONENT_MAX"

section \<open>Scores\<close>

record risk_scenario =
  addLoan :: "(rat option \<times> rat option) option" \<comment> \<open>amount and collateral\<close>
  addDefault :: bool
  addRepayment :: bool
  collateralRatioChange :: "rat option"
  addDispute :: bool

record risk_parts =
  transactionHistory :: int
  repaymentRecord :: int
  collateralCoverage :: int
  disputeHistory :: int

definition finished_of_wallet :: "string \<Rightarrow> world \<Rightarrow> loan_row list" where
  "finished_of_wallet wallet w = (case user_by_address wallet w of None \<Rightarrow> [] | Some u \<Rightarrow> finished_loans (user_id u) w)"

definition pairs_of_wallet :: "string \<Rightarrow> world \<Rightarrow> (rat \<times> rat) list" where
  "pairs_of_wallet wallet w = (case user_by_address wallet w of None \<Rightarrow> [] | Some u \<Rightarrow> loans_of (user_id u) w)"

definition with_default :: "string \<Rightarrow> world \<Rightarrow> int" where
  "with_default wallet w = (let ls = finished_of_wallet wallet w in
     toComponent (fl64 (1 - fl64 (of_nat (count_status LOAN_DEFAULTED ls + 1) / of_nat (length ls + 1)))))"

definition with_repayment :: "string \<Rightarrow> world \<Rightarrow> int" where
  "with_repayment wallet w = (let ls = finished_of_wallet wallet w in
     toComponent (fl64 (of_nat (count_status LOAN_REPAID ls + 1) / of_nat (length ls + 1))))"

definition with_loan :: "rat \<Rightarrow> rat \<Rightarrow> string \<Rightarrow> world \<Rightarrow> int" where
  "with_loan amount coll wallet w = (let ps = pairs_of_wallet wallet w @ [(amount, coll)] in
     coverage_factor (fl64 (sum_ratios ps / of_nat (length ps))))"

definition with_ratio :: "rat \<Rightarrow> string \<Rightarrow> world \<Rightarrow> int" where
  "with_ratio change wallet w = (let ps = pairs_of_wallet wallet w;
       currentAvg = (if ps = [] then 0 else fl64 (sum_ratios ps / of_nat (length ps)))
     in coverage_factor (fl64 (currentAvg * change)))"

definition risk_parts_of ::
  "(string \<Rightarrow> int list option) \<Rightarrow> int \<Rightarrow> string \<Rightarrow> risk_scenario option \<Rightarrow> world \<Rightarrow> risk_parts" where
  "risk_parts_of history now wallet scenario w =
     (let th = computeTransactionHistoryComponent history now wallet;
          rr = computeRepaymentRecordComponent wallet w;
          cc = computeCollateralCoverageComponent wallet w;
          dh = computeDisputeHistoryComponent wallet
      in case scenario of
        None \<Rightarrow> \<lparr>transactionHistory = th, repaymentRecord = rr, collateralCoverage = cc, disputeHistory = dh\<rparr>
      | Some sc \<Rightarrow>
        let rr1 = (if addDefault sc then with_default wallet w else rr);
            rr2 = (if addRepayment sc then with_repayment wallet w else rr1);
            cc1 = (case addLoan sc of Some (Some a, Some c) \<Rightarrow> with_loan a c wallet w | _ \<Rightarrow> cc);
            cc2 = (case collateralRatioChange sc of Some x \<Rightarrow> with_ratio x wallet w | None \<Rightarrow> cc1);
            dh1 = (if addDispute sc then toComponent 0 else dh)
        in \<lparr>transactionHistory = th, repaymentRecord = rr2, collateralCoverage = cc2, disputeHistory = dh1\<rparr>)"

definition parts_sum :: "risk_parts \<Rightarrow> int" where
  "parts_sum p = transactionHistory p + repaymentRecord p + collateralCoverage p + disputeHistory p"

definition computeScore ::
  "(string \<Rightarrow> int list option) \<Rightarrow> int \<Rightarrow> string \<Rightarrow> risk_scenario option \<Rightarrow> world \<Rightarrow> int \<times> risk_grade \<times> risk_parts" where
  "computeScore history now wallet scenario w =
     (let p = risk_parts_of history now wallet scenario w;
          clampedScore = max 0 (min 1000 (parts_sum p))
      in (clampedScore, scoreToGrade clampedScore, p))"

section \<open>The service\<close>

definition parts_tuple :: "risk_parts \<Rightarrow> int \<times> int \<times> int \<times> int" where
  "parts_tuple p = (transactionHistory p, repaymentRecord p, collateralCoverage p, disputeHistory p)"

definition calculateRiskScore ::
  "(string \<Rightarrow> int list option) \<Rightarrow> int \<Rightarrow> int \<Rightarrow> string \<Rightarrow> world \<Rightarrow> (world, risk_row) outcome" where
  "calculateRiskScore history now computedAt wallet w =
     (case computeScore history now wallet None w of (score, grade, p) \<Rightarrow>
        let row = \<lparr>risk_wallet = wallet, risk_score = score, risk_grade = grade_text grade, risk_components = parts_tuple p,
             risk_computedAt = computedAt\<rparr>
        in (Inr row, w\<lparr>risk_scores := insert_row row (risk_scores w)\<rparr>))"

definition getHistoricalScores :: "string \<Rightarrow> int \<Rightarrow> int \<Rightarrow> world \<Rightarrow> risk_row list" where
  "getHistoricalScores wallet startDate endDate w =
     sort_key risk_computedAt
       (filter (\<lambda>r. risk_wallet r = wallet \<and> startDate \<le> risk_computedAt r \<and> risk_computedAt r \<le> endDate) (risk_scores w))"

definition simulateScoreImpact ::
  "(string \<Rightarrow> int list option) \<Rightarrow> int \<Rightarrow> int \<Rightarrow> string \<Rightarrow> risk_scenario \<Rightarrow> world \<Rightarrow> int \<times> int \<times> int" where
  "simulateScoreImpact history now now' wallet scenario w =
     (let current = fst (computeScore history now wallet None w);
          projected = fst (computeScore history now' wallet (Some scenario) w)
      in (current, projected, projected - current))"

section \<open>The controller\<close>

definition wallet_char :: "char \<Rightarrow> bool" where
  "wallet_char c \<longleftrightarrow> (let n = (of_char c :: nat) in 65 \<le> n \<and> n \<le> 90 \<or> 50 \<le> n \<and> n \<le> 55)"

definition STELLAR_ADDRESS_REGEX :: "string \<Rightarrow> bool" where
  "STELLAR_ADDRESS_REGEX t \<longleftrightarrow> length t = 56 \<and> (hd t = CHR ''G'' \<or> hd t = CHR ''C'') \<and> list_all wallet_char (tl t)"

definition parseDateParam :: "platform \<Rightarrow> string option \<Rightarrow> string \<Rightarrow> app_error + int option" where
  "parseDateParam P v fieldName = (if v = None \<or> v = Some [] then Inr None
     else case date_of P (the v) of
       None \<Rightarrow> Inl (ValidationError (''Invalid '' @ fieldName @ '': not a valid date''))
     | Some d \<Rightarrow> Inr (Some d))"

definition ctl_getRiskScore ::
  "(string \<Rightarrow> int list option) \<Rightarrow> int \<Rightarrow> int \<Rightarrow> string \<Rightarrow> world \<Rightarrow> (world, risk_row) outcome" where
  "ctl_getRiskScore history now computedAt wallet w =
     (if \<not> STELLAR_ADDRESS_REGEX wallet
      then (Inl (ValidationError ''Invalid wallet: must be a valid Stellar account address (G... or C...)''), w)
      else calculateRiskScore history now computedAt wallet w)"

definition ctl_getRiskHistory :: "platform \<Rightarrow> int \<Rightarrow> string \<Rightarrow> string option \<Rightarrow> string option \<Rightarrow> world \<Rightarrow> app_error + risk_row list" where
  "ctl_getRiskHistory P now wallet start_date end_date w =
     (if \<not> STELLAR_ADDRESS_REGEX wallet
      then Inl (ValidationError ''Invalid wallet: must be a valid Stellar account address (G... or C...)'')
      else case parseDateParam P start_date ''start_date'' of Inl e \<Rightarrow> Inl e | Inr s \<Rightarrow>
      case parseDateParam P end_date ''end_date'' of Inl e \<Rightarrow> Inl e | Inr e \<Rightarrow>
      let start = (case s of None \<Rightarrow> 0 | Some t \<Rightarrow> t); end' = (case e of None \<Rightarrow> now | Some t \<Rightarrow> t)
      in if end' < start then Inl (ValidationError ''start_date must be before or equal to end_date'')
         else Inr (getHistoricalScores wallet start end' w))"

definition ctl_simulateRiskScore ::
  "(string \<Rightarrow> int list option) \<Rightarrow> int \<Rightarrow> int \<Rightarrow> string \<Rightarrow> risk_scenario \<Rightarrow> world \<Rightarrow> app_error + int \<times> int \<times> int" where
  "ctl_simulateRiskScore history now now' wallet scenario w =
     (if \<not> STELLAR_ADDRESS_REGEX wallet
      then Inl (ValidationError ''Invalid wallet: must be a valid Stellar account address (G... or C...)'')
      else Inr (simulateScoreImpact history now now' wallet scenario w))"

text \<open>The override answers with success and stores nothing.\<close>

definition overrideRiskScore :: "string \<Rightarrow> num_input \<Rightarrow> string option \<Rightarrow> app_error + string \<times> rat \<times> string" where
  "overrideRiskScore wallet score why =
     (if \<not> STELLAR_ADDRESS_REGEX wallet then Inl (ValidationError ''Invalid wallet address'')
      else case score of
        NNum (Fin q) \<Rightarrow> if q < 0 \<or> 100 < q then Inl (ValidationError ''Invalid score: must be between 0 and 100'')
          else if why = None \<or> why = Some [] then Inl (ValidationError ''Reason is required for manual override'')
          else Inr (wallet, q, the why)
      | _ \<Rightarrow> Inl (ValidationError ''Invalid score: must be between 0 and 100''))"

section \<open>Bounds\<close>

lemma toComponent_range: "0 \<le> toComponent x \<and> toComponent x \<le> 250"
proof -
  let ?f = "max 0 (min 1 x)"
  have "0 \<le> fl64 (?f * of_int 250) \<and> fl64 (?f * of_int 250) \<le> of_int 250"
    by (rule js.fl_scale_range) simp_all
  then have "math_round (of_int 0) \<le> math_round (fl64 (?f * of_int 250))" "math_round (fl64 (?f * of_int 250)) \<le> math_round (of_int 250)"
    by (intro math_round_mono; simp)+
  then show ?thesis by (simp only: toComponent_def COMPONENT_MAX_def math_round_int)
qed

lemma toComponent_mono: "x \<le> y \<Longrightarrow> toComponent x \<le> toComponent y"
  unfolding toComponent_def COMPONENT_MAX_def by (intro math_round_mono js.fl_mono mult_right_mono) auto

lemma toComponent_1: "toComponent 1 = 250"
proof -
  have "fl64 (of_int 250) = of_int 250" by (rule js.fl_int) simp
  then have "math_round (fl64 (of_int 250)) = 250" by (simp only: math_round_int)
  then show ?thesis by (simp add: toComponent_def COMPONENT_MAX_def)
qed

lemma grade_mono: "s \<le> s' \<Longrightarrow> scoreToGrade s \<le> scoreToGrade s'"
  by (auto simp: scoreToGrade_def less_eq_risk_grade_def)

definition parts_ok :: "risk_parts \<Rightarrow> bool" where
  "parts_ok p \<longleftrightarrow> (\<forall>c\<in>{transactionHistory p, repaymentRecord p, collateralCoverage p, disputeHistory p}. 0 \<le> c \<and> c \<le> 250)"

lemma component_ranges:
  "0 \<le> computeTransactionHistoryComponent h now wl" "computeTransactionHistoryComponent h now wl \<le> 250"
  "0 \<le> computeRepaymentRecordComponent wl w" "computeRepaymentRecordComponent wl w \<le> 250"
  "0 \<le> computeCollateralCoverageComponent wl w" "computeCollateralCoverageComponent wl w \<le> 250"
  using toComponent_range
  by (simp_all add: computeTransactionHistoryComponent_def computeRepaymentRecordComponent_def computeCollateralCoverageComponent_def
      coverage_factor_def COMPONENT_MAX_def Let_def split: option.split list.split)

lemma scenario_ranges:
  "0 \<le> with_default wl w" "with_default wl w \<le> 250" "0 \<le> with_repayment wl w" "with_repayment wl w \<le> 250"
  "0 \<le> with_loan a c wl w" "with_loan a c wl w \<le> 250" "0 \<le> with_ratio x wl w" "with_ratio x wl w \<le> 250"
  using toComponent_range by (simp_all add: with_default_def with_repayment_def with_loan_def with_ratio_def coverage_factor_def Let_def)

lemma parts_ok_all: "parts_ok (risk_parts_of h now wl sc w)"
  using component_ranges scenario_ranges toComponent_range
  by (simp add: parts_ok_def risk_parts_of_def computeDisputeHistoryComponent_def COMPONENT_MAX_def Let_def split: option.split prod.split)


section \<open>Scenarios\<close>

text \<open>A rounded number of the unit interval is less than \<open>2\<^sup>-\<^sup>5\<^sup>3\<close> below the number.\<close>

lemma fl64_below:
  assumes "0 \<le> q" "q \<le> 1"
  shows "q - 1 / 2 ^ 53 \<le> fl64 q"
proof -
  let ?k = "\<lfloor>q * 2 ^ 53\<rfloor>"
  have "0 \<le> ?k" using assms by (simp add: le_floor_iff)
  moreover have "q * 2 ^ 53 \<le> 1 * 2 ^ 53" using assms(2) by (rule mult_right_mono) simp
  then have "?k \<le> 2 ^ 53" by (simp add: floor_le_iff)
  ultimately have k: "\<bar>?k\<bar> \<le> 2 ^ 53" by simp
  have e: "of_int ?k * 2 powi (-53) = (of_int ?k / 2 ^ 53 :: rat)" by (simp add: power_int_minus field_simps)
  have "of_int ?k \<le> q * 2 ^ 53" by simp
  then have "of_int ?k / 2 ^ 53 \<le> q" by (simp add: divide_le_eq)
  then have "fl64 (of_int ?k / 2 ^ 53) \<le> fl64 q" by (rule js.fl_mono)
  then have "of_int ?k / 2 ^ 53 \<le> fl64 q" using js.fl_exact [OF k, of "-53"] unfolding e by simp
  moreover have "q * 2 ^ 53 < of_int ?k + 1" by linarith
  then have "q - 1 / 2 ^ 53 \<le> of_int ?k / 2 ^ 53" by (simp add: field_simps)
  ultimately show ?thesis by linarith
qed

lemma count_finished:
  "\<forall>l\<in>set ls. loan_status l \<in> {LOAN_REPAID, LOAN_DEFAULTED} \<Longrightarrow> count_status LOAN_REPAID ls + count_status LOAN_DEFAULTED ls = length ls"
  by (induction ls) (auto simp: count_status_def)

lemma finished_total:
  "count_status LOAN_REPAID (finished_loans u w) + count_status LOAN_DEFAULTED (finished_loans u w) = length (finished_loans u w)"
  by (rule count_finished) (simp add: finished_loans_def)

lemma repayment_record_value:
  "computeRepaymentRecordComponent wl w = (let ls = finished_of_wallet wl w in
     if ls = [] then 250 else toComponent (fl64 (of_nat (count_status LOAN_REPAID ls) / of_nat (length ls))))"
proof (cases "user_by_address wl w")
  case None
  then show ?thesis by (simp add: computeRepaymentRecordComponent_def finished_of_wallet_def COMPONENT_MAX_def)
next
  case (Some u)
  have "length ls = 0 \<longleftrightarrow> ls = []" for ls :: "loan_row list" by simp
  then show ?thesis
    unfolding computeRepaymentRecordComponent_def finished_of_wallet_def Some option.case Let_def finished_total COMPONENT_MAX_def
    by (simp only:)
qed

lemma wallet_total:
  "count_status LOAN_REPAID (finished_of_wallet wl w) + count_status LOAN_DEFAULTED (finished_of_wallet wl w) = length (finished_of_wallet wl w)"
  by (cases "user_by_address wl w") (simp_all add: finished_of_wallet_def finished_total, simp add: count_status_def)

lemma repayment_helps: "computeRepaymentRecordComponent wl w \<le> with_repayment wl w"
proof (cases "finished_of_wallet wl w = []")
  case True
  then show ?thesis by (simp add: repayment_record_value with_repayment_def count_status_def Let_def toComponent_1)
next
  case False
  let ?r = "count_status LOAN_REPAID (finished_of_wallet wl w)" and ?n = "length (finished_of_wallet wl w)"
  have n: "0 < ?n" "?r \<le> ?n" using False wallet_total [of wl w] by auto
  have "of_nat ?r / of_nat ?n \<le> (of_nat (?r + 1) / of_nat (?n + 1) :: rat)"
    using n by (simp add: divide_simps algebra_simps)
  then show ?thesis
    using False by (simp add: repayment_record_value with_repayment_def Let_def toComponent_mono js.fl_mono)
qed

lemma default_hurts:
  assumes "length (finished_of_wallet wl w) < 2 ^ 26"
  shows "with_default wl w \<le> computeRepaymentRecordComponent wl w"
proof (cases "finished_of_wallet wl w = []")
  case True
  then show ?thesis using scenario_ranges(2) [of wl w] by (simp add: repayment_record_value)
next
  case False
  define r where "r = count_status LOAN_REPAID (finished_of_wallet wl w)"
  define d where "d = count_status LOAN_DEFAULTED (finished_of_wallet wl w)"
  define n where "n = length (finished_of_wallet wl w)"
  have n: "0 < n" "r + d = n" "n < 2 ^ 26"
    using False assms wallet_total [of wl w] by (auto simp: r_def d_def n_def)
  let ?q = "of_nat (d + 1) / of_nat (n + 1) :: rat"
  have q: "0 \<le> ?q" "?q \<le> 1" using n by (simp_all add: divide_simps)
  have "1 - fl64 ?q \<le> of_nat r / of_nat n"
  proof (cases "r = 0")
    case True
    then have "?q = 1" using n by simp
    then show ?thesis using True by simp
  next
    case False
    have "n * (n + 1) \<le> 2 ^ 26 * 2 ^ 26" using n(3) by (intro mult_le_mono) simp_all
    then have "rat_of_nat (n * (n + 1)) \<le> rat_of_nat (2 ^ 26 * 2 ^ 26)" by (simp only: of_nat_le_iff)
    then have b: "of_nat (n * (n + 1)) \<le> (2 ^ 53 :: rat)" by simp
    have "1 / 2 ^ 53 \<le> 1 / (of_nat (n * (n + 1)) :: rat)"
      using b n(1) by (intro frac_le) (simp_all only: of_nat_0_less_iff zero_le_one order_refl nat_0_less_mult_iff, simp)
    also have "\<dots> \<le> of_nat r / of_nat (n * (n + 1))" using False by (intro divide_right_mono) simp_all
    also have "\<dots> = of_nat r / of_nat n - of_nat r / of_nat (n + 1)" using n(1) by (simp add: field_simps)
    finally have "of_nat r / of_nat (n + 1) + 1 / 2 ^ 53 \<le> (of_nat r / of_nat n :: rat)" by linarith
    moreover have "(1 :: rat) - ?q = of_nat r / of_nat (n + 1)"
      using n(2) by (auto simp: field_simps)
    ultimately show ?thesis using fl64_below [OF q] by linarith
  qed
  then have "fl64 (1 - fl64 ?q) \<le> fl64 (of_nat r / of_nat n)" by (rule js.fl_mono)
  then show ?thesis
    using False by (simp add: repayment_record_value with_default_def Let_def toComponent_mono r_def d_def n_def)
qed

lemma score_is_sum: "fst (computeScore h now wl sc w) = parts_sum (risk_parts_of h now wl sc w)"
  using parts_ok_all [of h now wl sc w] by (simp add: computeScore_def Let_def parts_ok_def parts_sum_def)

text \<open>
  Scenarios move a score the right way: one more repaid loan never lowers it, and,
  for wallets with fewer than \<open>2\<^sup>2\<^sup>6\<close> finished loans, one more defaulted loan never raises
  it, in the rounded arithmetic of the code; nothing is stored.
\<close>

theorem simulate_direction:
  assumes "length (finished_of_wallet wl w) < 2 ^ 26"
  defines "none \<equiv> \<lparr>addLoan = None, addDefault = False, addRepayment = False, collateralRatioChange = None, addDispute = False\<rparr>"
  shows "0 \<le> snd (snd (simulateScoreImpact h now now wl (none\<lparr>addRepayment := True\<rparr>) w))
    \<and> snd (snd (simulateScoreImpact h now now wl (none\<lparr>addDefault := True\<rparr>) w)) \<le> 0
    \<and> snd (snd (simulateScoreImpact h now now wl none w)) = 0"
  using repayment_helps [of wl w] default_hurts [OF assms(1)]
  by (simp add: simulateScoreImpact_def score_is_sum risk_parts_of_def parts_sum_def none_def Let_def)

definition demo_risk_world :: world where
  "demo_risk_world = empty_world\<lparr>users := [\<lparr>user_id = ''u1'', stellarAddress = ''GB'', user_name = None, user_role = BUYER\<rparr>],
     loans := [\<lparr>loan_id = ''l1'', borrowerId = ''u1'', lenderId = None, loan_amount = 10, loan_assetCode = ''USDC'', interestRate = 0,
       loan_status = LOAN_REPAID, loan_collateralId = None\<rparr>]\<rparr>"

theorem simulate_direction_witness:
  "snd (snd (simulateScoreImpact (\<lambda>_. None) 0 0 ''GB''
      \<lparr>addLoan = None, addDefault = True, addRepayment = False, collateralRatioChange = None, addDispute = False\<rparr> demo_risk_world)) \<le> 0"
proof -
  have "length (finished_of_wallet ''GB'' demo_risk_world) < 2 ^ 26"
    by (simp add: finished_of_wallet_def user_by_address_def demo_risk_world_def lookup_row_def finished_loans_def)
  from simulate_direction [OF this, of "\<lambda>_. None" 0] show ?thesis by simp
qed

section \<open>History\<close>

text \<open>
  A stored score is found again: after \<open>calculateRiskScore\<close> at some time, the history
  of the wallet over any range that contains the time holds the returned row, its other
  rows are those of before, it is sorted by time, and the history of other wallets and of
  ranges without the time is unchanged.
\<close>

theorem risk_history_roundtrip:
  assumes "calculateRiskScore h now t wl w = (Inr row, w')"
  shows "(s \<le> t \<and> t \<le> e \<longrightarrow> mset (getHistoricalScores wl s e w') = add_mset row (mset (getHistoricalScores wl s e w)))
    \<and> (v \<noteq> wl \<or> t < s \<or> e < t \<longrightarrow> getHistoricalScores v s e w' = getHistoricalScores v s e w)
    \<and> sorted (map risk_computedAt (getHistoricalScores v s e w'))"
proof -
  have row: "risk_wallet row = wl" "risk_computedAt row = t" "risk_scores w' = risk_scores w @ [row]"
    using assms by (auto simp: calculateRiskScore_def Let_def insert_row_def split: prod.splits)
  then show ?thesis by (auto simp: getHistoricalScores_def)
qed

theorem risk_history_roundtrip_witness:
  "\<exists>row w'. calculateRiskScore (\<lambda>_. None) 0 7 ''GB'' demo_risk_world = (Inr row, w')
     \<and> mset (getHistoricalScores ''GB'' 0 9 w') = {#row#}"
proof -
  obtain row w' where run: "calculateRiskScore (\<lambda>_. None) 0 7 ''GB'' demo_risk_world = (Inr row, w')"
    by (simp add: calculateRiskScore_def computeScore_def Let_def)
  have "getHistoricalScores ''GB'' 0 9 demo_risk_world = []"
    by (simp add: getHistoricalScores_def demo_risk_world_def empty_world_def)
  then show ?thesis using run risk_history_roundtrip [OF run, of 0 9 "''GB''"] by simp
qed

end
