(* ===== verification/Collateral_Service.thy ===== *)
theory Collateral_Service
  imports Escrow_Service Canonical_Json
begin

text \<open>
  Collateral: \<open>server/src/services/collateral.service.ts\<close>. Collateral is recorded for an
  escrow with a hash of its documents, revalued and verified later, and limits the loans
  that may be given on it by a ratio of its kind. The checks of amounts, pages and limits
  have the same text as in the escrow service and share its definitions. The indexer's
  timer only reads rows and is left out.
\<close>

section \<open>Request checks\<close>

definition uuid_hex :: "char \<Rightarrow> bool" where
  "uuid_hex c \<longleftrightarrow> (let n = (of_char c :: nat) in 48 \<le> n \<and> n \<le> 57 \<or> 65 \<le> n \<and> n \<le> 70 \<or> 97 \<le> n \<and> n \<le> 102)"

definition UUID_REGEX :: "string \<Rightarrow> bool" where
  "UUID_REGEX t \<longleftrightarrow> length t = 36
     \<and> list_all (\<lambda>(i, c). if i \<in> {8, 13, 18, 23} then c = CHR ''-'' else uuid_hex c) (enumerate 0 t)"

fun show_collateral_status :: "collateral_status \<Rightarrow> string" where
  "show_collateral_status COLLATERAL_LOCKED = ''LOCKED''"
| "show_collateral_status COLLATERAL_RELEASED = ''RELEASED''"
| "show_collateral_status COLLATERAL_LIQUIDATED = ''LIQUIDATED''"

definition normalizeCollateralStatus :: "string option \<Rightarrow> string \<Rightarrow> app_error + collateral_status" where
  "normalizeCollateralStatus v fieldName =
     (case find (\<lambda>st. show_collateral_status st = js_upper (opt_trim v)) [COLLATERAL_LOCKED, COLLATERAL_RELEASED, COLLATERAL_LIQUIDATED] of
        None \<Rightarrow> Inl (ValidationError (fieldName @ '' must be one of: LOCKED, RELEASED, LIQUIDATED''))
      | Some st \<Rightarrow> Inr st)"

definition SUPPORTED_TYPES :: "string list" where
  "SUPPORTED_TYPES = [''INVOICE'', ''COMMODITY'', ''RECEIVABLE'', ''INVENTORY'', ''REAL_ESTATE'']"

definition DEFAULT_LTV_RATIOS :: "string \<Rightarrow> rat option" where
  "DEFAULT_LTV_RATIOS = map_of [(''INVOICE'', fl64 (8 / 10)), (''COMMODITY'', fl64 (7 / 10)), (''RECEIVABLE'', fl64 (75 / 100)),
     (''INVENTORY'', fl64 (6 / 10)), (''REAL_ESTATE'', fl64 (65 / 100))]"

definition ltv_ratio :: "string \<Rightarrow> rat" where
  "ltv_ratio assetType = (case DEFAULT_LTV_RATIOS assetType of Some r \<Rightarrow> r | None \<Rightarrow> fl64 (7 / 10))"

section \<open>Creating\<close>

record tokenize_request =
  tk_userId :: "string option"
  tk_escrowId :: "string option"
  tk_assetType :: "string option"
  tk_assetCode :: "string option"
  tk_amount :: num_input
  tk_documents :: "json list"
  tk_description :: "string option"
  tk_issuer :: "string option"

record tokenized_asset =
  ta_collateral :: collateral_row
  ta_assetType :: string
  ta_documents :: "json list"
  ta_description :: "string option"
  ta_issuer :: "string option"
  ta_stellarAssetCode :: string

definition asset_code_of :: "string \<Rightarrow> string \<Rightarrow> string" where
  "asset_code_of kind i = take 4 kind @ js_upper (take 4 i)"

definition new_collateral :: "platform \<Rightarrow> string \<Rightarrow> string \<Rightarrow> rat \<Rightarrow> string \<Rightarrow> string \<Rightarrow> app_error + collateral_row" where
  "new_collateral P new_id escrowId amount code hash = (case store20_7 P amount of
     Inl e \<Rightarrow> Inl e
   | Inr stored \<Rightarrow> Inr \<lparr>collateral_id = new_id, collateral_escrowId = escrowId, collateral_assetCode = code,
       collateral_amount = stored, metadataHash = Some hash, collateral_status = COLLATERAL_LOCKED\<rparr>)"

definition tokenizeAsset ::
  "platform \<Rightarrow> (string \<Rightarrow> string) \<Rightarrow> int \<Rightarrow> string \<Rightarrow> tokenize_request \<Rightarrow> world \<Rightarrow> (world, tokenized_asset) outcome" where
  "tokenizeAsset P qt now new_id input w =
     (if opt_trim (tk_userId input) = [] then (Inl (ValidationError ''userId is required''), w)
      else if opt_trim (tk_escrowId input) = [] then (Inl (ValidationError ''escrowId is required''), w)
      else if opt_trim (tk_assetType input) = [] then (Inl (ValidationError ''assetType is required''), w)
      else case parsePositiveAmount P (tk_amount input) ''amount'' of
        Inl e \<Rightarrow> (Inl e, w)
      | Inr amount \<Rightarrow>
        let assetType = js_upper (opt_trim (tk_assetType input)); escrowId = the (tk_escrowId input) in
        if assetType \<notin> set SUPPORTED_TYPES
        then (Inl (ValidationError (''assetType must be one of: '' @ sep_by '', '' SUPPORTED_TYPES)), w)
        else if lookup_row escrow_id escrowId (escrows w) = None
        then (Inl (ValidationError ''escrowId does not exist''), w)
        else let hash = base64 P (stringify qt (num_str P) (JObj [(''userId'', JStr (the (tk_userId input))), (''assetType'', JStr assetType),
               (''amount'', JNum (Fin amount)), (''documents'', JArr (tk_documents input)), (''ts'', JNum (Fin (of_int now)))]))
          in case new_collateral P new_id escrowId amount (or_else (tk_assetCode input) assetType) hash of
            Inl e \<Rightarrow> (Inl e, w)
          | Inr row \<Rightarrow> (Inr \<lparr>ta_collateral = row, ta_assetType = assetType, ta_documents = tk_documents input,
                ta_description = tk_description input, ta_issuer = tk_issuer input, ta_stellarAssetCode = asset_code_of assetType new_id\<rparr>,
              w\<lparr>collaterals := insert_row row (collaterals w)\<rparr>))"

record create_collateral_request =
  cc_escrowId :: "string option"
  cc_assetCode :: "string option"
  cc_amount :: num_input
  cc_metadataHash :: "string option"

definition createCollateral ::
  "platform \<Rightarrow> string \<Rightarrow> create_collateral_request \<Rightarrow> world \<Rightarrow> (world, collateral_row) outcome" where
  "createCollateral P new_id payload w =
     (let escrowId = opt_trim (cc_escrowId payload); hash = opt_trim (cc_metadataHash payload) in
      if escrowId = [] then (Inl (ValidationError ''escrowId is required''), w)
      else if hash = [] then (Inl (ValidationError ''metadataHash is required''), w)
      else case parsePositiveAmount P (cc_amount payload) ''amount'' of
        Inl e \<Rightarrow> (Inl e, w)
      | Inr amount \<Rightarrow>
        if lookup_row escrow_id escrowId (escrows w) = None then (Inl (ValidationError ''escrowId does not exist''), w)
        else case new_collateral P new_id escrowId amount (or_else (cc_assetCode payload) ''USDC'') hash of
          Inl e \<Rightarrow> (Inl e, w)
        | Inr row \<Rightarrow> (Inr row, w\<lparr>collaterals := insert_row row (collaterals w)\<rparr>))"

section \<open>Changing\<close>

text \<open>The format is checked on the trimmed id, the row is looked up with the id as given.\<close>

definition find_collateral :: "string option \<Rightarrow> world \<Rightarrow> app_error + collateral_row" where
  "find_collateral i w = (if \<not> UUID_REGEX (opt_trim i) then Inl (ValidationError ''Invalid collateral ID format'')
     else case lookup_row collateral_id (the i) (collaterals w) of
       None \<Rightarrow> Inl (NotFoundError ''Collateral not found'')
     | Some c \<Rightarrow> Inr c)"

definition on_collateral :: "string \<Rightarrow> (collateral_row \<Rightarrow> collateral_row) \<Rightarrow> world \<Rightarrow> world" where
  "on_collateral i f w = w\<lparr>collaterals := update_where (\<lambda>c. collateral_id c = i) f (collaterals w)\<rparr>"

definition updateValuation :: "platform \<Rightarrow> string option \<Rightarrow> jsnum \<Rightarrow> world \<Rightarrow> (world, collateral_row) outcome" where
  "updateValuation P i newUSDValue w =
     (if \<not> UUID_REGEX (opt_trim i) then (Inl (ValidationError ''Invalid collateral ID format''), w)
      else case newUSDValue of
        Fin v \<Rightarrow> if v \<le> 0 then (Inl (ValidationError ''newUSDValue must be a positive number''), w)
          else (case find_collateral i w of Inl e \<Rightarrow> (Inl e, w) | Inr c \<Rightarrow>
            case store20_7 P v of Inl e \<Rightarrow> (Inl e, w) | Inr stored \<Rightarrow>
              (Inr (c\<lparr>collateral_amount := stored\<rparr>), on_collateral (collateral_id c) (\<lambda>x. x\<lparr>collateral_amount := stored\<rparr>) w))
      | _ \<Rightarrow> (Inl (ValidationError ''newUSDValue must be a positive number''), w))"

record verification_data =
  vd_verifier :: "string option"
  vd_method :: "string option"
  vd_result :: "string option"

text \<open>\<open>blob\<close> is the text of the verification object, whose properties the client chooses.\<close>

definition verifyCollateral ::
  "platform \<Rightarrow> string \<Rightarrow> string option \<Rightarrow> verification_data \<Rightarrow> world \<Rightarrow> (world, collateral_row \<times> bool) outcome" where
  "verifyCollateral P blob i vd w =
     (if \<not> UUID_REGEX (opt_trim i) then (Inl (ValidationError ''Invalid collateral ID format''), w)
      else if opt_trim (vd_verifier vd) = [] then (Inl (ValidationError ''verifier is required''), w)
      else if opt_trim (vd_method vd) = [] then (Inl (ValidationError ''method is required''), w)
      else case find_collateral i w of Inl e \<Rightarrow> (Inl e, w) | Inr c \<Rightarrow>
        let f = (\<lambda>x. x\<lparr>metadataHash := Some (base64 P blob)\<rparr>) in
        (Inr (f c, vd_result vd = Some ''PASS''), on_collateral (collateral_id c) f w))"

section \<open>Reading\<close>

record ltv_info =
  ltv_collateralValue :: rat
  ltv_totalLoanAmount :: rat
  ltv_currentLtv :: rat
  ltv_maxLtvRatio :: rat
  ltv_maxLoanAmount :: rat
  ltv_availableCredit :: rat

definition open_loans :: "string \<Rightarrow> world \<Rightarrow> loan_row list" where
  "open_loans i w = filter (\<lambda>l. loan_collateralId l = Some i \<and> loan_status l \<in> {LOAN_PENDING, LOAN_ACTIVE}) (loans w)"

definition ltv_of :: "collateral_row \<Rightarrow> loan_row list \<Rightarrow> ltv_info" where
  "ltv_of c ls =
     (let v = fl64 (collateral_amount c);
          total_loans = foldl (\<lambda>s l. fl64 (s + fl64 (loan_amount l))) 0 ls;
          ratio = ltv_ratio (js_upper (collateral_assetCode c));
          current = (if 0 < v then fl64 (total_loans / v) else 0);
          maxLoan = fl64 (v * ratio)
      in \<lparr>ltv_collateralValue = v, ltv_totalLoanAmount = total_loans,
          ltv_currentLtv = fl64 (of_int (math_round (fl64 (current * 10000))) / 100), ltv_maxLtvRatio = fl64 (ratio * 100),
          ltv_maxLoanAmount = maxLoan, ltv_availableCredit = max 0 (fl64 (maxLoan - total_loans))\<rparr>)"

definition calculateLTV :: "string option \<Rightarrow> world \<Rightarrow> app_error + ltv_info" where
  "calculateLTV i w = (case find_collateral i w of
     Inl e \<Rightarrow> Inl e
   | Inr c \<Rightarrow> Inr (ltv_of c (open_loans (collateral_id c) w)))"

definition getCollateralMetadata :: "string option \<Rightarrow> world \<Rightarrow> app_error + collateral_row \<times> escrow_row option \<times> ltv_info \<times> string" where
  "getCollateralMetadata i w = (case find_collateral i w of
     Inl e \<Rightarrow> Inl e
   | Inr c \<Rightarrow> (case calculateLTV i w of
       Inl e \<Rightarrow> Inl e
     | Inr ltv \<Rightarrow> Inr (c, lookup_row escrow_id (collateral_escrowId c) (escrows w), ltv,
         asset_code_of (collateral_assetCode c) (collateral_id c))))"

definition getCollateralById :: "string option \<Rightarrow> world \<Rightarrow> app_error + collateral_row" where
  "getCollateralById i w = (if opt_trim i = [] \<or> \<not> UUID_REGEX (opt_trim i) then Inl (ValidationError ''Invalid collateral ID format'')
     else case lookup_row collateral_id (opt_trim i) (collaterals w) of
       None \<Rightarrow> Inl (NotFoundError ''Collateral not found'')
     | Some c \<Rightarrow> Inr c)"

definition getCollateralByMetadataHash :: "string option \<Rightarrow> world \<Rightarrow> app_error + collateral_row" where
  "getCollateralByMetadataHash hash w = (if opt_trim hash = [] then Inl (ValidationError ''Metadata hash is required'')
     else case find (\<lambda>c. metadataHash c = Some (opt_trim hash)) (collaterals w) of
       None \<Rightarrow> Inl (NotFoundError ''Collateral not found'')
     | Some c \<Rightarrow> Inr c)"

record collateral_query =
  cq_escrowId :: "string option"
  cq_status :: "string option"
  cq_page :: num_input
  cq_limit :: num_input

definition collateral_where :: "collateral_query \<Rightarrow> collateral_status option \<Rightarrow> collateral_row \<Rightarrow> bool" where
  "collateral_where q st r \<longleftrightarrow> (opt_trim (cq_escrowId q) \<noteq> [] \<longrightarrow> collateral_escrowId r = opt_trim (cq_escrowId q))
     \<and> (case st of None \<Rightarrow> True | Some s \<Rightarrow> collateral_status r = s)"

definition listCollateral :: "platform \<Rightarrow> collateral_query \<Rightarrow> world \<Rightarrow> app_error + collateral_row page_result" where
  "listCollateral P q w =
     (let page = coercePage (str_num P) (cq_page q); limit = coerceLimit (str_num P) (cq_limit q); skip = (page - 1) * limit in
      case (if opt_trim (cq_status q) = [] then Inr None
            else case normalizeCollateralStatus (cq_status q) ''status'' of Inl e \<Rightarrow> Inl e | Inr s \<Rightarrow> Inr (Some s)) of
        Inl e \<Rightarrow> Inl e
      | Inr st \<Rightarrow>
          let tot = int (count_where (collateral_where q st) (collaterals w)) in
          Inr \<lparr>items = page_desc (collateral_where q st) (nat skip) (nat limit) (collaterals w),
               page_no = page, page_limit = limit, page_total = tot, page_totalPages = total_pages tot limit\<rparr>)"

fun type_description :: "string \<Rightarrow> string" where
  "type_description t = (case map_of [(''INVOICE'', ''Trade invoices and receivables''),
       (''COMMODITY'', ''Physical commodities (metals, agricultural goods)''), (''RECEIVABLE'', ''Accounts receivable''),
       (''INVENTORY'', ''Warehouse inventory''), (''REAL_ESTATE'', ''Real estate assets'')] t of Some d \<Rightarrow> d | None \<Rightarrow> t)"

definition getCollateralTypes :: "(string \<times> rat \<times> string) list" where
  "getCollateralTypes = map (\<lambda>t. (t, fl64 (ltv_ratio t * 100), type_description t)) SUPPORTED_TYPES"

section \<open>Properties\<close>

lemma new_collateral_Inr:
  "new_collateral P i e a c h = Inr row \<Longrightarrow> row = \<lparr>collateral_id = i, collateral_escrowId = e, collateral_assetCode = c,
     collateral_amount = col20_7 P a, metadataHash = Some h, collateral_status = COLLATERAL_LOCKED\<rparr>"
  by (auto simp: new_collateral_def store20_7_Inr split: sum.splits)

lemma createCollateral_Inr:
  assumes "createCollateral P i p w = (Inr row, w')"
  obtains amount where "parsePositiveAmount P (cc_amount p) ''amount'' = Inr amount" "opt_trim (cc_metadataHash p) \<noteq> []"
    "lookup_row escrow_id (opt_trim (cc_escrowId p)) (escrows w) \<noteq> None"
    "row = \<lparr>collateral_id = i, collateral_escrowId = opt_trim (cc_escrowId p), collateral_assetCode = or_else (cc_assetCode p) ''USDC'',
       collateral_amount = col20_7 P amount, metadataHash = Some (opt_trim (cc_metadataHash p)), collateral_status = COLLATERAL_LOCKED\<rparr>"
    "w' = w\<lparr>collaterals := insert_row row (collaterals w)\<rparr>"
  using assms by (auto simp: createCollateral_def Let_def dest: new_collateral_Inr split: if_splits sum.splits)

text \<open>
  Collateral that was created is found again: after a successful \<open>createCollateral\<close>
  with a fresh id, the row returned is what \<open>getCollateralById\<close> finds, locked, for an
  existing escrow and with the amount the column keeps; but a document hash does not
  identify it: creating it a second time with the same hash succeeds (the conflict the
  code prepares for never occurs), and \<open>getCollateralByMetadataHash\<close> goes on answering
  with the oldest row that has the hash.
\<close>

theorem collateral_roundtrip:
  assumes "createCollateral P i p w = (Inr row, w')" and "lookup_row collateral_id i (collaterals w) = None"
    and "UUID_REGEX i" "js_trim i = i"
  shows "getCollateralById (Some i) w' = Inr row \<and> collateral_status row = COLLATERAL_LOCKED
    \<and> lookup_row escrow_id (collateral_escrowId row) (escrows w) \<noteq> None
    \<and> (\<exists>amount>0. parsePositiveAmount P (cc_amount p) ''amount'' = Inr amount \<and> collateral_amount row = col20_7 P amount)
    \<and> (\<forall>j. \<exists>row2. createCollateral P j p w' = (Inr row2, w'\<lparr>collaterals := collaterals w' @ [row2]\<rparr>)
         \<and> metadataHash row2 = metadataHash row
         \<and> getCollateralByMetadataHash (metadataHash row2) (w'\<lparr>collaterals := collaterals w' @ [row2]\<rparr>)
           = getCollateralByMetadataHash (metadataHash row) w')"
proof -
  obtain amount where a: "parsePositiveAmount P (cc_amount p) ''amount'' = Inr amount" "opt_trim (cc_metadataHash p) \<noteq> []"
    "lookup_row escrow_id (opt_trim (cc_escrowId p)) (escrows w) \<noteq> None"
    and row: "row = \<lparr>collateral_id = i, collateral_escrowId = opt_trim (cc_escrowId p), collateral_assetCode = or_else (cc_assetCode p) ''USDC'',
       collateral_amount = col20_7 P amount, metadataHash = Some (opt_trim (cc_metadataHash p)), collateral_status = COLLATERAL_LOCKED\<rparr>"
    and w': "w' = w\<lparr>collaterals := insert_row row (collaterals w)\<rparr>"
    using createCollateral_Inr [OF assms(1)] by metis
  have pos: "0 < amount"
    using a(1) by (auto simp: parsePositiveAmount_def split: jsnum.splits if_splits)
  have "i \<noteq> []" using assms(3) by (auto simp: UUID_REGEX_def)
  moreover have "lookup_row collateral_id i (collaterals w') = Some row"
    using assms(2) row by (simp add: w' collateral_tab.lookup_insert)
  ultimately have "getCollateralById (Some i) w' = Inr row"
    using assms(3,4) by (simp add: getCollateralById_def opt_trim_def)
  have esc: "escrows w' = escrows w" "\<exists>s. store20_7 P amount = Inr s" "opt_trim (cc_escrowId p) \<noteq> []"
    using assms(1) a by (auto simp: w' createCollateral_def Let_def new_collateral_def split: if_splits sum.splits)
  have st: "store20_7 P amount = Inr (col20_7 P amount)"
    using esc(2) by (auto simp: store20_7_Inr)
  have new: "new_collateral P j (opt_trim (cc_escrowId p)) amount (or_else (cc_assetCode p) ''USDC'') (opt_trim (cc_metadataHash p))
      = Inr (row\<lparr>collateral_id := j\<rparr>)" for j
    by (simp add: new_collateral_def st row)
  have again: "createCollateral P j p w' = (Inr (row\<lparr>collateral_id := j\<rparr>), w'\<lparr>collaterals := collaterals w' @ [row\<lparr>collateral_id := j\<rparr>]\<rparr>)" for j
    using a(1) esc(3) a(2,3) esc(1) new [of j] by (auto simp: createCollateral_def Let_def insert_row_def split: option.splits)
  have "find (\<lambda>c. metadataHash c = metadataHash row) (collaterals w') \<noteq> None"
    by (auto simp: w' insert_row_def find_append split: option.split)
  then have "getCollateralByMetadataHash (metadataHash row) (w'\<lparr>collaterals := collaterals w' @ [row\<lparr>collateral_id := j\<rparr>]\<rparr>)
      = getCollateralByMetadataHash (metadataHash row) w'" for j
    using a(2) by (auto simp: getCollateralByMetadataHash_def find_append row opt_trim_def split: option.splits)
  with again have "\<exists>row2. createCollateral P j p w' = (Inr row2, w'\<lparr>collaterals := collaterals w' @ [row2]\<rparr>)
      \<and> metadataHash row2 = metadataHash row
      \<and> getCollateralByMetadataHash (metadataHash row2) (w'\<lparr>collaterals := collaterals w' @ [row2]\<rparr>)
        = getCollateralByMetadataHash (metadataHash row) w'" for j
    by (intro exI [of _ "row\<lparr>collateral_id := j\<rparr>"]) simp
  moreover have "collateral_status row = COLLATERAL_LOCKED" "collateral_escrowId row = opt_trim (cc_escrowId p)"
    "collateral_amount row = col20_7 P amount" by (simp_all add: row)
  ultimately show ?thesis using \<open>getCollateralById (Some i) w' = Inr row\<close> a pos by auto
qed

definition demo_uuid :: string where
  "demo_uuid = ''01234567-0123-0123-0123-0123456789ab''"

definition demo_collateral :: create_collateral_request where
  "demo_collateral = \<lparr>cc_escrowId = Some ''e1'', cc_assetCode = None, cc_amount = NStr ''10'', cc_metadataHash = Some ''h''\<rparr>"

lemma demo_createCollateral:
  "createCollateral demo_platform demo_uuid demo_collateral demo_escrow_world
   = (Inr \<lparr>collateral_id = demo_uuid, collateral_escrowId = ''e1'', collateral_assetCode = ''USDC'', collateral_amount = 10,
        metadataHash = Some ''h'', collateral_status = COLLATERAL_LOCKED\<rparr>,
      demo_escrow_world\<lparr>collaterals := [\<lparr>collateral_id = demo_uuid, collateral_escrowId = ''e1'', collateral_assetCode = ''USDC'',
        collateral_amount = 10, metadataHash = Some ''h'', collateral_status = COLLATERAL_LOCKED\<rparr>]\<rparr>)"
proof -
  have "parsePositiveAmount demo_platform (NStr ''10'') ''amount'' = Inr 10"
    by (simp add: parsePositiveAmount_def demo_platform_def)
  moreover have "opt_trim (Some ''e1'') = ''e1''" "opt_trim (Some ''h'') = ''h''"
    by code_simp+
  moreover have "lookup_row escrow_id ''e1'' (escrows demo_escrow_world) = Some demo_escrow" "collaterals demo_escrow_world = []"
    by (simp_all add: lookup_row_def demo_escrow_world_def demo_escrow_def empty_world_def)
  ultimately show ?thesis
    by (simp add: createCollateral_def demo_collateral_def new_collateral_def demo_store10 insert_row_def or_else_def Let_def)
qed

lemma collateral_roundtrip_witness:
  "\<exists>row w'. createCollateral demo_platform demo_uuid demo_collateral demo_escrow_world = (Inr row, w')
     \<and> getCollateralById (Some demo_uuid) w' = Inr row
     \<and> (\<exists>amount>0. parsePositiveAmount demo_platform (cc_amount demo_collateral) ''amount'' = Inr amount)"
proof -
  have "lookup_row collateral_id demo_uuid (collaterals demo_escrow_world) = None"
    by (simp add: lookup_row_def demo_escrow_world_def empty_world_def)
  moreover have "UUID_REGEX demo_uuid" "js_trim demo_uuid = demo_uuid"
    by code_simp+
  ultimately show ?thesis
    using collateral_roundtrip [OF demo_createCollateral] demo_createCollateral by blast
qed

end
