(* ===== verification/Http_Routes.thy ===== *)
theory Http_Routes
  imports Rbac Auth_Service
begin

text \<open>
  The routes of the server (\<open>server/src/app.ts\<close> and \<open>server/src/routes\<close>) with the
  middlewares in front of each handler, and what a request has to pass before its handler
  runs. The routers are lists in the order of the code. How a path is matched against a
  pattern, and the counting limiters, are the packages' and parameters; what is modelled of
  Express is its order: a request walks through the mounted routers, runs every
  middleware a router puts in front of all its routes, and ends at the first route that
  matches.
\<close>

section \<open>Routers\<close>

datatype http_method = M_GET | M_POST | M_PUT | M_PATCH | M_DELETE

text \<open>The handlers, by controller.\<close>

datatype auth_handler = H_requestChallenge | H_verifySignature | H_refreshToken | H_logout | H_logoutAll | H_getMe

datatype wallet_handler = H_listWallets | H_walletChallenge | H_linkWallet | H_unlinkWallet | H_setPrimaryWallet | H_updateWallet

datatype user_handler = H_getUser | H_createUser

datatype escrow_handler = H_createEscrow | H_listEscrows | H_getEscrow | H_getEscrowStatus | H_webhookEscrowUpdate

datatype collateral_handler = H_getCollateralTypes | H_tokenizeAsset | H_listCollateral | H_getCollateralByMetadata | H_getCollateral | H_getCollateralMetadata | H_calculateLTV | H_updateValuation | H_verifyCollateral

datatype loan_handler = H_createLoan | H_listLoans | H_getLoan | H_createPayment | H_recordRepayment

datatype oracle_handler = H_registerOracle | H_flagDispute | H_listOracles | H_getOracleMetrics | H_getOracleNetworkStatus | H_getOracle | H_getOracleReputation | H_deactivateOracle | H_distributeReward | H_slashStake | H_resolveDispute | H_createThresholdSignature | H_addThresholdSignature | H_getThresholdSignature | H_submitConfirmation | H_getConfirmations

datatype governance_handler = H_getProposals | H_createProposal | H_getProposal | H_getProposalVotes | H_submitVote | H_getMetrics | H_getParameters | H_getAuditLog

datatype risk_handler = H_getRiskHistory | H_simulateRiskScore | H_overrideRiskScore | H_getRiskScore

datatype analytics_handler = H_getPlatformStats | H_getProtocolAnalytics

datatype webhook_handler = H_registerWebhook | H_listWebhooks | H_updateWebhook | H_deleteWebhook | H_testWebhook | H_getWebhookLogs | H_getWebhookMetrics

datatype payment_handler = H_getStatus | H_streamStatus

datatype app_handler = H_health | H_metrics

datatype handler =
    Auth auth_handler
  | Wallet wallet_handler
  | User user_handler
  | Escrow escrow_handler
  | Collateral collateral_handler
  | Loan loan_handler
  | Oracle oracle_handler
  | Governance governance_handler
  | Risk risk_handler
  | Analytics analytics_handler
  | Webhook webhook_handler
  | Payment payment_handler
  | App app_handler

datatype guard =
    AUTHENTICATED
  | PERMISSION resource_type rbac_action
  | OWNERSHIP resource_type
  | ROLE user_role
  | AUDITED string
  | LIMITED nat

datatype route_item =
    Use guard
  | Route http_method string "guard list" handler \<comment> \<open>pattern, middlewares and handler\<close>

definition authRoutes :: "route_item list" where
  "authRoutes =
    [Route M_POST ''/challenge'' [] (Auth H_requestChallenge),
     Route M_POST ''/verify'' [] (Auth H_verifySignature),
     Route M_POST ''/refresh'' [] (Auth H_refreshToken),
     Route M_POST ''/logout'' [AUTHENTICATED] (Auth H_logout),
     Route M_POST ''/logout-all'' [AUTHENTICATED] (Auth H_logoutAll),
     Route M_GET ''/me'' [AUTHENTICATED] (Auth H_getMe)]"

definition walletRoutes :: "route_item list" where
  "walletRoutes =
    [Use AUTHENTICATED,
     Route M_GET ''/'' [] (Wallet H_listWallets),
     Route M_POST ''/challenge'' [] (Wallet H_walletChallenge),
     Route M_POST ''/'' [] (Wallet H_linkWallet),
     Route M_DELETE ''/:id'' [] (Wallet H_unlinkWallet),
     Route M_PUT ''/:id/primary'' [] (Wallet H_setPrimaryWallet),
     Route M_PATCH ''/:id'' [] (Wallet H_updateWallet)]"

definition userRoutes :: "route_item list" where
  "userRoutes =
    [Route M_GET ''/:id'' [] (User H_getUser),
     Route M_POST ''/'' [] (User H_createUser)]"

definition escrowRoutes :: "route_item list" where
  "escrowRoutes =
    [Use AUTHENTICATED,
     Route M_POST ''/'' [PERMISSION ESCROW WRITE, ROLE BUYER] (Escrow H_createEscrow),
     Route M_GET ''/'' [PERMISSION ESCROW READ] (Escrow H_listEscrows),
     Route M_GET ''/:id'' [PERMISSION ESCROW READ, OWNERSHIP ESCROW] (Escrow H_getEscrow),
     Route M_GET ''/:id/status'' [PERMISSION ESCROW READ] (Escrow H_getEscrowStatus),
     Route M_POST ''/webhook'' [] (Escrow H_webhookEscrowUpdate)]"

definition collateralRoutes :: "route_item list" where
  "collateralRoutes =
    [Route M_GET ''/types'' [] (Collateral H_getCollateralTypes),
     Route M_POST ''/'' [AUTHENTICATED] (Collateral H_tokenizeAsset),
     Route M_GET ''/'' [] (Collateral H_listCollateral),
     Route M_GET ''/metadata/:hash'' [] (Collateral H_getCollateralByMetadata),
     Route M_GET ''/:id'' [] (Collateral H_getCollateral),
     Route M_GET ''/:id/metadata'' [] (Collateral H_getCollateralMetadata),
     Route M_GET ''/:id/ltv'' [] (Collateral H_calculateLTV),
     Route M_PUT ''/:id/valuation'' [AUTHENTICATED] (Collateral H_updateValuation),
     Route M_POST ''/:id/verify'' [AUTHENTICATED] (Collateral H_verifyCollateral)]"

definition loanRoutes :: "route_item list" where
  "loanRoutes =
    [Use AUTHENTICATED,
     Route M_POST ''/'' [PERMISSION LOAN WRITE, ROLE LENDER, AUDITED ''LOAN_CREATION''] (Loan H_createLoan),
     Route M_GET ''/'' [PERMISSION LOAN READ] (Loan H_listLoans),
     Route M_GET ''/:id'' [PERMISSION LOAN READ, OWNERSHIP LOAN] (Loan H_getLoan),
     Route M_POST ''/:id/payments'' [PERMISSION PAYMENT WRITE, OWNERSHIP LOAN, AUDITED ''PAYMENT_SESSION_CREATED''] (Loan H_createPayment),
     Route M_POST ''/repay'' [PERMISSION PAYMENT WRITE, AUDITED ''LOAN_REPAYMENT''] (Loan H_recordRepayment)]"

definition oracleRoutes :: "route_item list" where
  "oracleRoutes =
    [Route M_POST ''/'' [AUTHENTICATED] (Oracle H_registerOracle),
     Route M_POST ''/dispute'' [AUTHENTICATED] (Oracle H_flagDispute),
     Route M_GET ''/'' [] (Oracle H_listOracles),
     Route M_GET ''/metrics'' [] (Oracle H_getOracleMetrics),
     Route M_GET ''/network-status'' [] (Oracle H_getOracleNetworkStatus),
     Route M_GET ''/:address'' [] (Oracle H_getOracle),
     Route M_GET ''/:id/reputation'' [] (Oracle H_getOracleReputation),
     Route M_POST ''/:address/deactivate'' [AUTHENTICATED] (Oracle H_deactivateOracle),
     Route M_POST ''/rewards/distribute'' [AUTHENTICATED] (Oracle H_distributeReward),
     Route M_POST ''/stakes/slash'' [AUTHENTICATED] (Oracle H_slashStake),
     Route M_POST ''/disputes/:id/resolve'' [AUTHENTICATED] (Oracle H_resolveDispute),
     Route M_POST ''/threshold-signatures'' [AUTHENTICATED] (Oracle H_createThresholdSignature),
     Route M_POST ''/threshold-signatures/:id/sign'' [AUTHENTICATED] (Oracle H_addThresholdSignature),
     Route M_GET ''/threshold-signatures/:id'' [] (Oracle H_getThresholdSignature)]"

definition confirmationRoutes :: "route_item list" where
  "confirmationRoutes =
    [Route M_POST ''/'' [] (Oracle H_submitConfirmation),
     Route M_GET ''/:escrowId'' [] (Oracle H_getConfirmations)]"

definition governanceRoutes :: "route_item list" where
  "governanceRoutes =
    [Route M_GET ''/proposals'' [] (Governance H_getProposals),
     Route M_POST ''/proposals'' [AUTHENTICATED, AUDITED ''GOVERNANCE_PROPOSAL_CREATION''] (Governance H_createProposal),
     Route M_GET ''/proposals/:id'' [] (Governance H_getProposal),
     Route M_GET ''/proposals/:id/votes'' [] (Governance H_getProposalVotes),
     Route M_POST ''/votes'' [AUTHENTICATED, AUDITED ''GOVERNANCE_VOTE_SUBMISSION''] (Governance H_submitVote),
     Route M_GET ''/metrics'' [] (Governance H_getMetrics),
     Route M_GET ''/parameters'' [] (Governance H_getParameters),
     Route M_GET ''/audit'' [] (Governance H_getAuditLog)]"

definition riskRoutes :: "route_item list" where
  "riskRoutes =
    [Route M_GET ''/:wallet/history'' [] (Risk H_getRiskHistory),
     Route M_POST ''/:wallet/simulate'' [] (Risk H_simulateRiskScore),
     Route M_POST ''/:wallet/override'' [AUTHENTICATED, AUDITED ''RISK_SCORE_OVERRIDE''] (Risk H_overrideRiskScore),
     Route M_GET ''/:wallet'' [] (Risk H_getRiskScore)]"

definition analyticsRoutes :: "route_item list" where
  "analyticsRoutes =
    [Route M_GET ''/'' [] (Analytics H_getPlatformStats),
     Route M_GET ''/protocol'' [] (Analytics H_getProtocolAnalytics)]"

definition webhookRoutes :: "route_item list" where
  "webhookRoutes =
    [Use AUTHENTICATED,
     Route M_POST ''/'' [LIMITED 30] (Webhook H_registerWebhook),
     Route M_GET ''/'' [] (Webhook H_listWebhooks),
     Route M_PUT ''/:id'' [LIMITED 30] (Webhook H_updateWebhook),
     Route M_DELETE ''/:id'' [LIMITED 30] (Webhook H_deleteWebhook),
     Route M_POST ''/:id/test'' [LIMITED 10] (Webhook H_testWebhook),
     Route M_GET ''/:id/logs'' [] (Webhook H_getWebhookLogs),
     Route M_GET ''/:id/metrics'' [] (Webhook H_getWebhookMetrics)]"

definition paymentRoutes :: "route_item list" where
  "paymentRoutes =
    [Route M_GET ''/payments/:id/status'' [] (Payment H_getStatus),
     Route M_GET ''/payments/:id/stream'' [] (Payment H_streamStatus)]"

definition app_routes :: "(string \<times> route_item list) list" where
  "app_routes =
    [('''', [Route M_GET ''/health'' [] (App H_health), Route M_GET ''/metrics'' [] (App H_metrics)]),
     (''/api'', paymentRoutes),
     (''/api/auth'', authRoutes),
     (''/api/wallets'', walletRoutes),
     (''/api/users'', userRoutes),
     (''/api/escrows'', escrowRoutes),
     (''/api/collateral'', collateralRoutes),
     (''/api/loans'', loanRoutes),
     (''/api/oracles'', oracleRoutes),
     (''/api/confirmations'', confirmationRoutes),
     (''/api/governance'', governanceRoutes),
     (''/api/risk'', riskRoutes),
     (''/api/analytics'', analyticsRoutes),
     (''/api/v1/analytics'', analyticsRoutes),
     (''/api/v1/webhooks'', webhookRoutes)]"

lemmas routers = authRoutes_def walletRoutes_def userRoutes_def escrowRoutes_def collateralRoutes_def loanRoutes_def
  oracleRoutes_def confirmationRoutes_def governanceRoutes_def riskRoutes_def analyticsRoutes_def webhookRoutes_def paymentRoutes_def

section \<open>Requests\<close>

text \<open>\<open>under prefix path\<close> and \<open>matches pattern path\<close> are the answers of Express.\<close>

record express =
  under :: "string \<Rightarrow> string \<Rightarrow> bool"
  matches :: "string \<Rightarrow> string \<Rightarrow> bool"
  limiter :: "nat \<Rightarrow> string option \<Rightarrow> app_error + unit" \<comment> \<open>requests per minute, address\<close>

record api_request =
  rq_method :: http_method
  rq_path :: string
  rq_authorization :: "string option"
  rq_ip :: "string option"
  rq_params :: "string \<Rightarrow> string option"
  rq_fields :: "string \<Rightarrow> string option" \<comment> \<open>the texts of body fields\<close>
  rq_body :: "(string \<times> json) list"

record audit_row =
  audit_userId :: "string option"
  audit_action :: string
  audit_resourceId :: "string option"
  audit_ipAddress :: "string option"
  audit_payload :: "(string \<times> json) list"

definition user_of :: "token_payload \<Rightarrow> auth_user" where
  "user_of p = \<lparr>au_userId = tp_userId p, au_jti = tp_jti p, au_walletAddress = tp_walletAddress p, au_role = tp_role p\<rparr>"

text \<open>What the middlewares leave for the handler: \<open>req.user\<close> and the audit log.\<close>

record api_state =
  api_user :: "auth_user option"
  api_audit :: "audit_row list"

definition sensitiveFields :: "string list" where
  "sensitiveFields = [''password'', ''privateKey'', ''secret'', ''token'']"

text \<open>\<open>auditLog\<close>: \<open>stored\<close> tells whether the insertion succeeds; a failure is swallowed.\<close>

definition auditLog :: "(audit_row \<Rightarrow> bool) \<Rightarrow> string \<Rightarrow> api_request \<Rightarrow> api_state \<Rightarrow> api_state" where
  "auditLog stored action req st =
     (let row = \<lparr>audit_userId = map_option au_userId (api_user st), audit_action = action,
         audit_resourceId = (case first_truthy [rq_params req ''id''] of Some i \<Rightarrow> Some i | None \<Rightarrow> rq_fields req ''id''), audit_ipAddress = rq_ip req,
         audit_payload = filter (\<lambda>(k, v). k \<notin> set sensitiveFields) (rq_body req)\<rparr>
      in if stored row then st\<lparr>api_audit := api_audit st @ [row]\<rparr> else st)"

definition rbac_view :: "api_request \<Rightarrow> api_state \<Rightarrow> rbac_request" where
  "rbac_view req st = \<lparr>req_user = api_user st, req_params = rq_params req, req_body = rq_fields req\<rparr>"

fun run_guard :: "express \<Rightarrow> crypto \<Rightarrow> (audit_row \<Rightarrow> bool) \<Rightarrow> api_request \<Rightarrow> world \<Rightarrow> guard \<Rightarrow> api_state \<Rightarrow> app_error + api_state" where
  "run_guard X K stored req w AUTHENTICATED st = (case authMiddleware K (rq_authorization req) w of
     Inl e \<Rightarrow> Inl e | Inr p \<Rightarrow> Inr (st\<lparr>api_user := Some (user_of p)\<rparr>))"
| "run_guard X K stored req w (PERMISSION rt a) st = (case guard_checkPermission rt a (rbac_view req st) w of Inl e \<Rightarrow> Inl e | Inr _ \<Rightarrow> Inr st)"
| "run_guard X K stored req w (OWNERSHIP rt) st = (case guard_checkOwnership rt (rbac_view req st) w of Inl e \<Rightarrow> Inl e | Inr _ \<Rightarrow> Inr st)"
| "run_guard X K stored req w (ROLE r) st = (case requireRole r (rbac_view req st) of Inl e \<Rightarrow> Inl e | Inr _ \<Rightarrow> Inr st)"
| "run_guard X K stored req w (AUDITED action) st = Inr (auditLog stored action req st)"
| "run_guard X K stored req w (LIMITED n) st = (case limiter X n (rq_ip req) of Inl e \<Rightarrow> Inl e | Inr _ \<Rightarrow> Inr st)"

fun run_guards :: "express \<Rightarrow> crypto \<Rightarrow> (audit_row \<Rightarrow> bool) \<Rightarrow> api_request \<Rightarrow> world \<Rightarrow> guard list \<Rightarrow> api_state \<Rightarrow> app_error + api_state" where
  "run_guards X K stored req w [] st = Inr st"
| "run_guards X K stored req w (g # gs) st = (case run_guard X K stored req w g st of
     Inl e \<Rightarrow> Inl e
   | Inr st' \<Rightarrow> run_guards X K stored req w gs st')"

text \<open>The middlewares a request meets, in order, and the handler it ends at, if any.\<close>

fun router_chain :: "express \<Rightarrow> string \<Rightarrow> http_method \<Rightarrow> string \<Rightarrow> route_item list \<Rightarrow> guard list \<times> handler option" where
  "router_chain X base m path [] = ([], None)"
| "router_chain X base m path (Use g # items) = (case router_chain X base m path items of (gs, h) \<Rightarrow> (g # gs, h))"
| "router_chain X base m path (Route m' pat gs h # items) =
     (if m' = m \<and> matches X (base @ pat) path then (gs, Some h) else router_chain X base m path items)"

fun app_chain :: "express \<Rightarrow> http_method \<Rightarrow> string \<Rightarrow> (string \<times> route_item list) list \<Rightarrow> guard list \<times> handler option" where
  "app_chain X m path [] = ([], None)"
| "app_chain X m path ((base, items) # rest) =
     (if under X base path then
        (case router_chain X base m path items of
           (gs, Some h) \<Rightarrow> (gs, Some h)
         | (gs, None) \<Rightarrow> (case app_chain X m path rest of (gs', h) \<Rightarrow> (gs @ gs', h)))
      else app_chain X m path rest)"

text \<open>
  A request up to its handler: the handler that runs and what it finds, or
  the error passed to the error middleware.
\<close>

definition serve ::
  "express \<Rightarrow> crypto \<Rightarrow> (audit_row \<Rightarrow> bool) \<Rightarrow> api_request \<Rightarrow> world \<Rightarrow> audit_row list \<Rightarrow> app_error + handler \<times> api_state" where
  "serve X K stored req w logged = (case app_chain X (rq_method req) (rq_path req) app_routes of (gs, h) \<Rightarrow>
     (case run_guards X K stored req w gs \<lparr>api_user = None, api_audit = logged\<rparr> of
        Inl e \<Rightarrow> Inl e
      | Inr st \<Rightarrow> (case h of None \<Rightarrow> Inl notFoundMiddleware | Some handler \<Rightarrow> Inr (handler, st))))"

section \<open>What a request has passed\<close>

text \<open>Every route with all middlewares in front of it.\<close>

fun flat_router :: "guard list \<Rightarrow> route_item list \<Rightarrow> (http_method \<times> guard list \<times> handler) list" where
  "flat_router gs [] = []"
| "flat_router gs (Use g # items) = flat_router (gs @ [g]) items"
| "flat_router gs (Route m pat gs' h # items) = (m, gs @ gs', h) # flat_router gs items"

definition flat_routes :: "(http_method \<times> guard list \<times> handler) list" where
  "flat_routes = concat (map (\<lambda>(base, items). flat_router [] items) app_routes)"

lemma router_chain_flat:
  assumes "router_chain X base m path items = (gs, Some h)"
  shows "(m, pre @ gs, h) \<in> set (flat_router pre items)"
  using assms
proof (induction items arbitrary: gs pre)
  case (Cons i items)
  then show ?case
  proof (cases i)
    case (Use g)
    then obtain gs' where gs': "router_chain X base m path items = (gs', Some h)" "gs = g # gs'"
      using Cons.prems by (auto split: prod.splits)
    show ?thesis using Cons.IH [OF gs'(1), of "pre @ [g]"] gs'(2) Use by simp
  next
    case (Route m' pat gs' h')
    then show ?thesis using Cons by (auto split: if_splits)
  qed
qed simp

lemma app_chain_flat:
  assumes "app_chain X m path rs = (gs, Some h)"
  shows "\<exists>gs0. (m, gs0, h) \<in> set (concat (map (\<lambda>(base, items). flat_router [] items) rs)) \<and> set gs0 \<subseteq> set gs"
  using assms
proof (induction rs arbitrary: gs)
  case (Cons r rs)
  obtain base items where r: "r = (base, items)" by (cases r)
  obtain gs1 h1 where c: "router_chain X base m path items = (gs1, h1)" by (cases "router_chain X base m path items")
  show ?case
  proof (cases "under X base path \<and> h1 \<noteq> None")
    case True
    then have "h1 = Some h" "gs = gs1" using Cons.prems r c by auto
    then show ?thesis using router_chain_flat [of X base m path items gs h "[]"] c r by auto
  next
    case False
    then obtain gs2 where "app_chain X m path rs = (gs2, Some h)" "set gs2 \<subseteq> set gs"
      using Cons.prems r c by (auto split: if_splits prod.splits)
    then show ?thesis using Cons.IH [of gs2] r by auto
  qed
qed simp

lemma run_guard_user:
  assumes "run_guard X K stored req w g st = Inr st'"
  shows "(g = AUTHENTICATED \<longrightarrow> (\<exists>p. authMiddleware K (rq_authorization req) w = Inr p \<and> api_user st' = Some (user_of p)))
    \<and> (g \<noteq> AUTHENTICATED \<longrightarrow> api_user st' = api_user st)"
  using assms by (cases g) (auto simp: auditLog_def Let_def split: sum.splits if_splits)

text \<open>The user at the end is the one every guard of the chain saw, when it saw one.\<close>

lemma run_guards_user:
  assumes "run_guards X K stored req w gs st = Inr st'"
    and "api_user st = None \<or> (\<exists>p. authMiddleware K (rq_authorization req) w = Inr p \<and> api_user st = Some (user_of p))"
  shows "(api_user st' = None \<or> (\<exists>p. authMiddleware K (rq_authorization req) w = Inr p \<and> api_user st' = Some (user_of p)))
    \<and> (AUTHENTICATED \<in> set gs \<or> api_user st \<noteq> None \<longrightarrow> api_user st' \<noteq> None)"
  using assms
proof (induction gs arbitrary: st)
  case (Cons g gs)
  then obtain st1 where st1: "run_guard X K stored req w g st = Inr st1" "run_guards X K stored req w gs st1 = Inr st'"
    by (auto split: sum.splits)
  note u = run_guard_user [OF st1(1)]
  have "api_user st1 = None \<or> (\<exists>p. authMiddleware K (rq_authorization req) w = Inr p \<and> api_user st1 = Some (user_of p))"
    using u Cons.prems(2) by (cases "g = AUTHENTICATED") auto
  then show ?case using Cons.IH [OF st1(2)] u by auto
qed auto

lemma run_guards_passed:
  assumes "run_guards X K stored req w gs st = Inr st'" and "g \<in> set gs"
    and "api_user st = None \<or> (\<exists>p. authMiddleware K (rq_authorization req) w = Inr p \<and> api_user st = Some (user_of p))"
  shows "\<exists>s s'. run_guard X K stored req w g s = Inr s' \<and> (api_user s = None \<or> api_user s = api_user st')"
  using assms
proof (induction gs arbitrary: st)
  case (Cons g' gs)
  then obtain st1 where st1: "run_guard X K stored req w g' st = Inr st1" "run_guards X K stored req w gs st1 = Inr st'"
    by (auto split: sum.splits)
  note u = run_guard_user [OF st1(1)]
  have inv: "api_user st1 = None \<or> (\<exists>p. authMiddleware K (rq_authorization req) w = Inr p \<and> api_user st1 = Some (user_of p))"
    using u Cons.prems(3) by (cases "g' = AUTHENTICATED") auto
  show ?case
  proof (cases "g = g'")
    case True
    have "api_user st = None \<or> api_user st = api_user st'"
      using run_guards_user [OF Cons.prems(1,3)] Cons.prems(3) by auto
    then show ?thesis using st1(1) True by blast
  next
    case False
    then show ?thesis using Cons.IH [OF st1(2) _ inv] Cons.prems(2) by auto
  qed
qed simp

lemma serve_passed:
  assumes "serve X K stored req w logged = Inr (h, st)"
  shows "\<exists>gs. (rq_method req, gs, h) \<in> set flat_routes
    \<and> (AUTHENTICATED \<in> set gs \<longrightarrow> (\<exists>p. authMiddleware K (rq_authorization req) w = Inr p \<and> api_user st = Some (user_of p)))
    \<and> (\<forall>g\<in>set gs. \<exists>s s'. run_guard X K stored req w g s = Inr s' \<and> (api_user s = None \<or> api_user s = api_user st))"
proof -
  obtain gs1 where c: "app_chain X (rq_method req) (rq_path req) app_routes = (gs1, Some h)"
    and r: "run_guards X K stored req w gs1 \<lparr>api_user = None, api_audit = logged\<rparr> = Inr st"
    using assms by (auto simp: serve_def split: prod.splits sum.splits option.splits)
  obtain gs0 where g: "(rq_method req, gs0, h) \<in> set flat_routes" "set gs0 \<subseteq> set gs1"
    using app_chain_flat [OF c] unfolding flat_routes_def by blast
  have u: "AUTHENTICATED \<in> set gs1 \<longrightarrow> (\<exists>p. authMiddleware K (rq_authorization req) w = Inr p \<and> api_user st = Some (user_of p))"
    using run_guards_user [OF r] by auto
  have "\<exists>s s'. run_guard X K stored req w g s = Inr s' \<and> (api_user s = None \<or> api_user s = api_user st)" if "g \<in> set gs1" for g
    using run_guards_passed [OF r that] by simp
  with g u show ?thesis by (intro exI [of _ gs0]) blast
qed

section \<open>Properties\<close>

definition public_posts :: "handler list" where
  "public_posts = [(Auth H_requestChallenge), (Auth H_verifySignature), (Auth H_refreshToken), (User H_createUser),
     (Oracle H_submitConfirmation), (Risk H_simulateRiskScore)]"

lemma flat_routes_authenticated:
  "\<forall>(m, gs, h)\<in>set flat_routes. m = M_GET \<or> AUTHENTICATED \<in> set gs \<or> h \<in> set public_posts"
  unfolding flat_routes_def app_routes_def routers public_posts_def by simp

text \<open>A small instance: paths are matched literally.\<close>

definition demo_express :: express where
  "demo_express = \<lparr>under = (\<lambda>b p. take (length b) p = b), matches = (\<lambda>pat p. pat = p), limiter = (\<lambda>_ _. Inr ())\<rparr>"

definition demo_api_request :: "http_method \<Rightarrow> string \<Rightarrow> api_request" where
  "demo_api_request m path = \<lparr>rq_method = m, rq_path = path, rq_authorization = Some ''Bearer tok'', rq_ip = Some ''1.2.3.4'',
     rq_params = (\<lambda>_. None), rq_fields = (\<lambda>_. None), rq_body = []\<rparr>"

definition demo_admin_crypto :: crypto where
  "demo_admin_crypto = demo_crypto\<lparr>jwt_verify := (\<lambda>t _. if t = ''tok'' then Some (demo_payload\<lparr>tp_role := ADMIN\<rparr>) else None)\<rparr>"

definition demo_session_world :: world where
  "demo_session_world = empty_world\<lparr>sessions := [\<lparr>session_userId = ''u1'', session_jti = ''j1'', revokedAt = None\<rparr>]\<rparr>"

lemma demo_admin_auth: "authMiddleware demo_admin_crypto (Some ''Bearer tok'') demo_session_world = Inr (demo_payload\<lparr>tp_role := ADMIN\<rparr>)"
  by (simp add: authMiddleware_def demo_admin_crypto_def demo_session_world_def demo_payload_def lookup_row_def)

lemma demo_chain_escrow:
  "app_chain demo_express M_POST ''/api/escrows/'' app_routes = ([AUTHENTICATED, PERMISSION ESCROW WRITE, ROLE BUYER], Some (Escrow H_createEscrow))"
  by (simp add: app_routes_def routers demo_express_def)

lemma demo_serve_escrow:
  "serve demo_express demo_admin_crypto (\<lambda>_. True) (demo_api_request M_POST ''/api/escrows/'') demo_session_world []
   = Inr (Escrow H_createEscrow, \<lparr>api_user = Some (user_of (demo_payload\<lparr>tp_role := ADMIN\<rparr>)), api_audit = []\<rparr>)"
  by (simp add: serve_def demo_api_request_def demo_chain_escrow demo_admin_auth guard_checkPermission_def rbac_view_def
      checkPermission_allowed requireRole_def user_of_def Let_def)



definition guarded_handlers :: "(handler \<times> guard) list" where
  "guarded_handlers = [((Escrow H_createEscrow), PERMISSION ESCROW WRITE), ((Loan H_createLoan), PERMISSION LOAN WRITE),
     ((Loan H_createPayment), PERMISSION PAYMENT WRITE), ((Loan H_recordRepayment), PERMISSION PAYMENT WRITE),
     ((Loan H_getLoan), OWNERSHIP LOAN), ((Escrow H_getEscrow), OWNERSHIP ESCROW)]"

lemma flat_routes_guarded:
  "list_all (\<lambda>(m, gs, h). list_all (\<lambda>(h', g). h = h' \<longrightarrow> g \<in> set gs \<and> AUTHENTICATED \<in> set gs) guarded_handlers) flat_routes"
  unfolding flat_routes_def app_routes_def routers guarded_handlers_def by simp

lemma served_handler:
  assumes "serve X K stored req w logged = Inr (h, st)" and "(h, g) \<in> set guarded_handlers"
    and "authMiddleware K (rq_authorization req) w = Inr p"
  shows "api_user st = Some (user_of p)
    \<and> (\<exists>s s'. run_guard X K stored req w g s = Inr s' \<and> (api_user s = None \<or> api_user s = Some (user_of p)))"
proof -
  obtain gs where gs: "(rq_method req, gs, h) \<in> set flat_routes"
    "AUTHENTICATED \<in> set gs \<longrightarrow> (\<exists>p. authMiddleware K (rq_authorization req) w = Inr p \<and> api_user st = Some (user_of p))"
    "\<forall>g\<in>set gs. \<exists>s s'. run_guard X K stored req w g s = Inr s' \<and> (api_user s = None \<or> api_user s = api_user st)"
    using serve_passed [OF assms(1)] by (elim exE conjE)
  have in_gs: "g \<in> set gs" "AUTHENTICATED \<in> set gs"
    using flat_routes_guarded gs(1) assms(2) by (fastforce simp: list_all_iff)+
  then have "api_user st = Some (user_of p)" using gs(2) assms(3) by auto
  then show ?thesis using bspec [OF gs(3) in_gs(1)] by auto
qed

text \<open>The write permission alone already lets nobody else through.\<close>

lemma served_writer:
  assumes "serve X K stored req w logged = Inr (h, st)" and "(h, PERMISSION rt WRITE) \<in> set guarded_handlers"
    and "authMiddleware K (rq_authorization req) w = Inr p" and "\<forall>r\<in>set (user_permissions w). up_userId r \<noteq> tp_userId p"
  shows "tp_role p = ADMIN"
proof (rule ccontr)
  assume no: "tp_role p \<noteq> ADMIN"
  let ?u = "user_of p"
  have rt: "rt \<in> {ESCROW, LOAN, PAYMENT}" using assms(2) by (auto simp: guarded_handlers_def)
  obtain s s' where s: "run_guard X K stored req w (PERMISSION rt WRITE) s = Inr s'" "api_user s = None \<or> api_user s = Some ?u"
    using served_handler [OF assms(1-3)] by blast
  have "\<not> checkUserPermission (au_userId ?u) c w" for c
    using assms(4) by (auto simp: checkUserPermission_def find_None_iff' user_of_def)
  moreover have "allowed (checkPermission ?u rt WRITE None w)"
    using s by (auto simp: guard_checkPermission_def rbac_view_def Let_def split: sum.splits if_splits)
  ultimately show False
    using no rt by (auto simp: checkPermission_allowed isAdminLevelPermission_def user_of_def)
qed

lemma served_owner:
  assumes "serve X K stored req w logged = Inr (h, st)" and "(h, OWNERSHIP rt) \<in> set guarded_handlers"
    and "authMiddleware K (rq_authorization req) w = Inr p"
    and "\<forall>l\<in>set (loans w). js_lower (borrowerId l) \<noteq> js_lower (tp_walletAddress p)"
    and "\<forall>e\<in>set (escrows w). js_lower (buyerId e) \<noteq> js_lower (tp_walletAddress p)"
  shows "tp_role p = ADMIN"
proof (rule ccontr)
  assume no: "tp_role p \<noteq> ADMIN"
  have rt: "rt \<in> {LOAN, ESCROW}" using assms(2) by (auto simp: guarded_handlers_def)
  obtain s s' where s: "run_guard X K stored req w (OWNERSHIP rt) s = Inr s'" "api_user s = None \<or> api_user s = Some (user_of p)"
    using served_handler [OF assms(1-3)] by blast
  obtain i where "allowed (canAccessResource (user_of p) rt i WRITE w)"
    using s by (auto simp: guard_checkOwnership_def rbac_view_def Let_def split: sum.splits if_splits option.splits)
  moreover have "\<not> allowed (canAccessResource (user_of p) rt i WRITE w)"
    using rt no assms(4,5) by (intro ownership_refused) (auto simp: user_of_def)
  ultimately show False by simp
qed

text \<open>
  C4. Of all users without permissions of their own, only administrators can create
  an escrow, a loan or a payment session, record a repayment, or read a single loan or
  escrow through the API, although the routes ask for the roles BUYER and LENDER: the
  permission check in front refuses every write without an owner, and passes none; and the
  ownership check compares a wallet address with a user id.
\<close>

theorem only_administrators:
  assumes "serve X K stored req w logged = Inr (h, st)"
    and "h \<in> {(Escrow H_createEscrow), (Loan H_createLoan), (Loan H_createPayment), (Loan H_recordRepayment), (Loan H_getLoan), (Escrow H_getEscrow)}"
    and "authMiddleware K (rq_authorization req) w = Inr p"
    and "\<forall>r\<in>set (user_permissions w). up_userId r \<noteq> tp_userId p"
    and "\<forall>l\<in>set (loans w). js_lower (borrowerId l) \<noteq> js_lower (tp_walletAddress p)"
    and "\<forall>e\<in>set (escrows w). js_lower (buyerId e) \<noteq> js_lower (tp_walletAddress p)"
  shows "tp_role p = ADMIN"
proof -
  obtain g where g: "(h, g) \<in> set guarded_handlers" using assms(2) by (auto simp: guarded_handlers_def)
  then have "g \<in> {PERMISSION ESCROW WRITE, PERMISSION LOAN WRITE, PERMISSION PAYMENT WRITE, OWNERSHIP LOAN, OWNERSHIP ESCROW}"
    by (auto simp: guarded_handlers_def)
  then consider rt where "g = PERMISSION rt WRITE" | rt where "g = OWNERSHIP rt" by blast
  then show ?thesis
    using g served_writer [OF assms(1) _ assms(3,4)] served_owner [OF assms(1) _ assms(3,5,6)] by cases blast+
qed

theorem only_administrators_witness:
  "\<exists>st. serve demo_express demo_admin_crypto (\<lambda>_. True) (demo_api_request M_POST ''/api/escrows/'') demo_session_world []
       = Inr (Escrow H_createEscrow, st) \<and> tp_role (demo_payload\<lparr>tp_role := ADMIN\<rparr>) = ADMIN"
proof -
  have "authMiddleware demo_admin_crypto (rq_authorization (demo_api_request M_POST ''/api/escrows/'')) demo_session_world
      = Inr (demo_payload\<lparr>tp_role := ADMIN\<rparr>)" by (simp add: demo_api_request_def demo_admin_auth)
  moreover have "user_permissions demo_session_world = []" "loans demo_session_world = []" "escrows demo_session_world = []"
    by (simp_all add: demo_session_world_def empty_world_def)
  ultimately have "tp_role (demo_payload\<lparr>tp_role := ADMIN\<rparr>) = ADMIN"
    by (intro only_administrators [OF demo_serve_escrow]) simp_all
  then show ?thesis using demo_serve_escrow by blast
qed

end
