(* ===== verification/Http_Api.thy ===== *)
theory Http_Api
  imports Http_Routes Rate_Limit Escrow_Service Loan_Service Webhook_Service User_Payment
begin

text \<open>
  The handlers of \<open>server/src/controllers\<close> for authentication, wallets, escrows, loans,
  users and payments, over the services they call, and what holds of a whole request: its
  route, its middlewares, its handler and the service together.
\<close>

section \<open>Replies\<close>

text \<open>A handler replies itself, with data or an error text, or passes an error on.\<close>

datatype 'a reply = Reply nat 'a | Refused nat string | Failed app_error

definition reply :: "nat \<Rightarrow> app_error + 'a \<Rightarrow> 'a reply" where
  "reply code r = (case r of Inl e \<Rightarrow> Failed e | Inr x \<Rightarrow> Reply code x)"

lemma reply_simps [simp]: "reply c (Inl e) = Failed e" "reply c (Inr x) = Reply c x"
  by (simp_all add: reply_def)

definition truthy :: "string option \<Rightarrow> bool" where
  "truthy v \<longleftrightarrow> v \<noteq> None \<and> v \<noteq> Some []"

definition api_userId :: "api_state \<Rightarrow> string option" where
  "api_userId st = map_option au_userId (api_user st)"

section \<open>Authentication\<close>

definition ctl_requestChallenge ::
  "crypto \<Rightarrow> int \<Rightarrow> new_ids \<Rightarrow> string \<Rightarrow> string option \<Rightarrow> world \<Rightarrow> (string \<times> int \<times> string) reply \<times> world" where
  "ctl_requestChallenge K now ids nonce walletAddress w =
     (if \<not> truthy walletAddress then (Refused 400 ''walletAddress is required'', w)
      else case generateChallenge K now ids nonce (the walletAddress) LOGIN None w of (r, w') \<Rightarrow> (reply 200 r, w'))"

text \<open>\<open>now'\<close> is the time at which a failure is recorded.\<close>

definition ctl_verifySignature ::
  "crypto \<Rightarrow> jwt_env \<Rightarrow> (world \<Rightarrow> world) \<Rightarrow> int \<Rightarrow> int \<Rightarrow> string \<Rightarrow> string option \<Rightarrow> string option \<Rightarrow> string option \<Rightarrow> string option
    \<Rightarrow> world \<times> suspicious \<Rightarrow> auth_result reply \<times> world \<times> suspicious" where
  "ctl_verifySignature K J env now now' new_jti ip walletAddress nonce signature = (\<lambda>(w, sus).
     if \<not> truthy walletAddress \<or> \<not> truthy nonce \<or> \<not> truthy signature
     then (Refused 400 ''walletAddress, nonce, and signature are required'', w, sus)
     else case verifySignature K J env now new_jti (the walletAddress) (the nonce) (the signature) w of
       (Inr tokens, w') \<Rightarrow> (Reply 200 tokens, w', sus)
     | (Inl e, w') \<Rightarrow> (Failed e, w', recordFailedAuthChallenge now' (case ip of None \<Rightarrow> [] | Some i \<Rightarrow> i) sus))"

definition ctl_refreshToken ::
  "crypto \<Rightarrow> jwt_env \<Rightarrow> (world \<Rightarrow> world) \<Rightarrow> int \<Rightarrow> string \<Rightarrow> string option \<Rightarrow> world \<Rightarrow> auth_result reply \<times> world" where
  "ctl_refreshToken K J env now new_jti token w =
     (if \<not> truthy token then (Refused 400 ''refreshToken is required'', w)
      else case refreshTokens K J env now new_jti (the token) w of (r, w') \<Rightarrow> (reply 200 r, w'))"

definition ctl_logout :: "int \<Rightarrow> api_state \<Rightarrow> world \<Rightarrow> unit reply \<times> world" where
  "ctl_logout now st w = (let jti = map_option au_jti (api_user st) in
     if \<not> truthy jti then (Refused 401 ''Unauthorized'', w)
     else case revokeSession now (the jti) w of (r, w') \<Rightarrow> (reply 204 r, w'))"

definition ctl_logoutAll :: "int \<Rightarrow> api_state \<Rightarrow> world \<Rightarrow> nat reply \<times> world" where
  "ctl_logoutAll now st w =
     (if \<not> truthy (api_userId st) then (Refused 401 ''Unauthorized'', w)
      else case revokeAllSessions now (the (api_userId st)) w of (r, w') \<Rightarrow> (reply 200 r, w'))"

section \<open>Wallets\<close>

definition getUserId :: "api_state \<Rightarrow> app_error + string" where
  "getUserId st = (if \<not> truthy (api_userId st) then Inl (UnauthorizedError ''Unauthorized'') else Inr (the (api_userId st)))"

definition requireNonEmptyString :: "json option \<Rightarrow> string \<Rightarrow> app_error + string" where
  "requireNonEmptyString v field = (case v of
     Some (JStr s) \<Rightarrow> if js_trim s = [] then Inl (ValidationError (field @ '' is required'')) else Inr (js_trim s)
   | _ \<Rightarrow> Inl (ValidationError (field @ '' is required'')))"

definition ctl_listWallets :: "api_state \<Rightarrow> world \<Rightarrow> wallet_row list reply" where
  "ctl_listWallets st w = (case getUserId st of Inl e \<Rightarrow> Failed e | Inr u \<Rightarrow> Reply 200 (getUserWallets u w))"

definition ctl_walletChallenge ::
  "crypto \<Rightarrow> int \<Rightarrow> new_ids \<Rightarrow> string \<Rightarrow> json option \<Rightarrow> api_state \<Rightarrow> world \<Rightarrow> (string \<times> int \<times> string) reply \<times> world" where
  "ctl_walletChallenge K now ids nonce walletAddress st w = (case requireNonEmptyString walletAddress ''walletAddress'' of
     Inl e \<Rightarrow> (Failed e, w)
   | Inr a \<Rightarrow> (case getUserId st of Inl e \<Rightarrow> (Failed e, w)
     | Inr u \<Rightarrow> (case generateChallenge K now ids nonce a LINK_WALLET (Some u) w of (r, w') \<Rightarrow> (reply 200 r, w'))))"

definition ctl_linkWallet ::
  "crypto \<Rightarrow> int \<Rightarrow> string \<Rightarrow> json option \<Rightarrow> json option \<Rightarrow> json option \<Rightarrow> json option \<Rightarrow> api_state \<Rightarrow> world \<Rightarrow> wallet_row reply \<times> world" where
  "ctl_linkWallet K now new_id walletAddress nonce signature label st w =
     (case requireNonEmptyString walletAddress ''walletAddress'' of Inl e \<Rightarrow> (Failed e, w) | Inr a \<Rightarrow>
      case requireNonEmptyString nonce ''nonce'' of Inl e \<Rightarrow> (Failed e, w) | Inr n \<Rightarrow>
      case requireNonEmptyString signature ''signature'' of Inl e \<Rightarrow> (Failed e, w) | Inr s \<Rightarrow>
      case (case label of None \<Rightarrow> Inr None | Some (JStr l) \<Rightarrow> Inr (Some l) | Some _ \<Rightarrow> Inl (ValidationError ''label must be a string'')) of
        Inl e \<Rightarrow> (Failed e, w)
      | Inr l \<Rightarrow> (case getUserId st of Inl e \<Rightarrow> (Failed e, w)
        | Inr u \<Rightarrow> (case linkWallet K now new_id u a n s l w of (r, w') \<Rightarrow> (reply 201 r, w'))))"

definition ctl_unlinkWallet :: "string \<Rightarrow> api_state \<Rightarrow> world \<Rightarrow> unit reply \<times> world" where
  "ctl_unlinkWallet i st w = (case getUserId st of Inl e \<Rightarrow> (Failed e, w)
     | Inr u \<Rightarrow> (case unlinkWallet u i w of (r, w') \<Rightarrow> (reply 204 r, w')))"

definition ctl_setPrimaryWallet :: "string \<Rightarrow> api_state \<Rightarrow> world \<Rightarrow> wallet_row reply \<times> world" where
  "ctl_setPrimaryWallet i st w = (case getUserId st of Inl e \<Rightarrow> (Failed e, w)
     | Inr u \<Rightarrow> (case setPrimaryWallet u i w of (r, w') \<Rightarrow> (reply 200 r, w')))"

definition ctl_updateWallet :: "string \<Rightarrow> string option \<Rightarrow> api_state \<Rightarrow> world \<Rightarrow> wallet_row reply \<times> world" where
  "ctl_updateWallet i label st w = (case getUserId st of Inl e \<Rightarrow> (Failed e, w)
     | Inr u \<Rightarrow> (case updateWalletLabel u i label w of (r, w') \<Rightarrow> (reply 200 r, w')))"

section \<open>Escrows\<close>

definition ctl_createEscrow ::
  "platform \<Rightarrow> chain \<Rightarrow> int \<Rightarrow> string \<Rightarrow> create_escrow_request \<Rightarrow> world \<Rightarrow> (string \<times> string) reply \<times> world" where
  "ctl_createEscrow P C now new_id body w = (case createEscrow P C now new_id body w of (r, w') \<Rightarrow> (reply 201 r, w'))"

text \<open>
  The callback of the oracles: the two configured secrets, the signature header (the first
  of several), and the raw text of the body, which the JSON parser keeps.
\<close>

definition ctl_webhookEscrowUpdate ::
  "webhook_env \<Rightarrow> string \<Rightarrow> string \<Rightarrow> string list \<Rightarrow> string \<Rightarrow> (world \<Rightarrow> world) \<Rightarrow> (world \<Rightarrow> world) \<Rightarrow> escrow_event \<Rightarrow> world
    \<Rightarrow> escrow_row reply \<times> world" where
  "ctl_webhookEscrowUpdate V signatureSecret webhookSecret' signatureHeader rawBody env1 env2 body w =
     (let configuredSecret = (if signatureSecret \<noteq> [] then signatureSecret else webhookSecret');
          signature = (case signatureHeader of [] \<Rightarrow> None | x # _ \<Rightarrow> Some x)
      in if configuredSecret = [] then (Refused 503 ''Webhook not configured'', w)
         else if \<not> verifyWebhookSignature V rawBody signature configuredSecret then (Refused 401 ''Invalid webhook signature'', w)
         else case processEscrowEvent env1 env2 body w of (r, w') \<Rightarrow> (reply 200 r, w'))"

section \<open>Loans\<close>

definition ctl_createLoan ::
  "decimal \<Rightarrow> platform \<Rightarrow> chain \<Rightarrow> string \<Rightarrow> api_state \<Rightarrow> issue_loan_request \<Rightarrow> world \<Rightarrow> (string \<times> string \<times> loan_row) reply \<times> world" where
  "ctl_createLoan D P C new_id st body w =
     (if \<not> truthy (api_userId st) then (Failed (UnauthorizedError ''Authentication required''), w)
      else case issueLoan D P C new_id (body\<lparr>il_requestingUserId := api_userId st\<rparr>) w of (r, w') \<Rightarrow> (reply 201 r, w'))"

definition ctl_createPayment ::
  "decimal \<Rightarrow> loan_env \<Rightarrow> string \<Rightarrow> string \<Rightarrow> string \<Rightarrow> api_state \<Rightarrow> create_payment_request \<Rightarrow> world \<Rightarrow> create_payment_result reply \<times> world" where
  "ctl_createPayment D V new_id uuid i st body w =
     (if \<not> truthy (api_userId st) then (Failed (UnauthorizedError ''Authentication required''), w)
      else case createPayment D V new_id uuid (body\<lparr>cp_loanId := Some i, cp_requestingUserId := api_userId st\<rparr>) w of
        (r, w') \<Rightarrow> (reply 201 r, w'))"

definition ctl_recordRepayment ::
  "decimal \<Rightarrow> platform \<Rightarrow> (payment_received \<Rightarrow> world \<Rightarrow> world) \<Rightarrow> int \<Rightarrow> string \<Rightarrow> api_state \<Rightarrow> repayment_request \<Rightarrow> world
    \<Rightarrow> repayment_result reply \<times> world" where
  "ctl_recordRepayment D P emit now new_id st body w =
     (if \<not> truthy (api_userId st) then (Failed (UnauthorizedError ''Authentication required''), w)
      else case recordRepayment D P emit now new_id (body\<lparr>rr_requestingUserId := api_userId st\<rparr>) w of (r, w') \<Rightarrow> (reply 200 r, w'))"

section \<open>Users and payments\<close>

definition ctl_getUser :: "string \<Rightarrow> world \<Rightarrow> user_view reply" where
  "ctl_getUser i w = reply 200 (fst (getUserById i w))"

definition ctl_createUser :: "crypto \<Rightarrow> string \<Rightarrow> string \<Rightarrow> world \<Rightarrow> user_row reply \<times> world" where
  "ctl_createUser K new_id address w = (case createUser K new_id address w of (r, w') \<Rightarrow> (reply 201 r, w'))"

definition ctl_getStatus :: "string \<Rightarrow> payment_store \<Rightarrow> (string \<times> live_status) reply" where
  "ctl_getStatus i s = (case getStatus i s of None \<Rightarrow> Refused 404 ''Payment not found'' | Some p \<Rightarrow> Reply 200 p)"

text \<open>
  The listeners of a status stream, as what they do with the emitted events: each
  matching event is written, and a final one also ends the response.
\<close>

fun streamStatus :: "string \<Rightarrow> payment_event list \<Rightarrow> (string \<times> live_status) list \<times> bool \<Rightarrow> (string \<times> live_status) list \<times> bool" where
  "streamStatus i [] out = out"
| "streamStatus i (PAYMENT_UPDATED j st # es) (sent, ended) = streamStatus i es (if j = i then sent @ [(j, st)] else sent, ended)"
| "streamStatus i (PAYMENT_FINALIZED j st # es) (sent, ended) =
     streamStatus i es (if j = i then (sent @ [(j, st)], True) else (sent, ended))"

section \<open>A repayment through the API\<close>

lemma recordRepayment_party:
  assumes "recordRepayment D P emit now i payload w = (Inr res, w')"
  shows "\<exists>l. lookup_row loan_id (opt_trim (rr_loanId payload)) (loans w) = Some l
    \<and> (opt_trim (rr_requestingUserId payload) = borrowerId l \<or> Some (opt_trim (rr_requestingUserId payload)) = lenderId l)"
  using assms
  by (auto simp: recordRepayment_def transaction_def repayment_tx_def repayment_args_def Let_def
      split: sum.splits prod.splits option.splits if_splits)

text \<open>
  C5. Who can repay: when a repayment request gets through its route, its middlewares,
  its handler and the service, and the requester has no permissions of their own, then the
  reply is 200, the requester is an administrator, and at the same time the borrower or the
  lender of the loan. So a borrower who is no administrator cannot repay through the API.
\<close>

theorem repayment_through_api:
  assumes "serve X K stored req w logged = Inr (Loan H_recordRepayment, st)"
    and "authMiddleware K (rq_authorization req) w = Inr p" and "\<forall>r\<in>set (user_permissions w). up_userId r \<noteq> tp_userId p"
    and "ctl_recordRepayment D P emit now i st body w = (Reply c res, w')"
  shows "c = 200 \<and> tp_role p = ADMIN
    \<and> (\<exists>l. lookup_row loan_id (opt_trim (rr_loanId body)) (loans w) = Some l
         \<and> (js_trim (tp_userId p) = borrowerId l \<or> Some (js_trim (tp_userId p)) = lenderId l))"
proof -
  have g: "(Loan H_recordRepayment, PERMISSION PAYMENT WRITE) \<in> set guarded_handlers" by (simp add: guarded_handlers_def)
  have u: "api_userId st = Some (tp_userId p)"
    using served_handler [OF assms(1) g assms(2)] by (simp add: api_userId_def user_of_def)
  obtain r v where run: "recordRepayment D P emit now i (body\<lparr>rr_requestingUserId := api_userId st\<rparr>) w = (r, v)"
    by (cases "recordRepayment D P emit now i (body\<lparr>rr_requestingUserId := api_userId st\<rparr>) w")
  then have "r = Inr res" "c = 200" using assms(4) by (auto simp: ctl_recordRepayment_def reply_def split: if_splits sum.splits)
  moreover have "\<exists>l. lookup_row loan_id (opt_trim (rr_loanId body)) (loans w) = Some l
      \<and> (js_trim (tp_userId p) = borrowerId l \<or> Some (js_trim (tp_userId p)) = lenderId l)"
    using recordRepayment_party [OF run [unfolded \<open>r = Inr res\<close>]] u by (simp add: opt_trim_def [of "Some _"])
  ultimately show ?thesis
    using served_writer [OF assms(1) g assms(2,3)] by simp
qed

text \<open>A borrower who is an administrator.\<close>

definition demo_borrower_token :: token_payload where
  "demo_borrower_token = \<lparr>tp_userId = ''b'', tp_jti = ''j1'', tp_walletAddress = ''GB'', tp_role = ADMIN\<rparr>"

definition demo_borrower_crypto :: crypto where
  "demo_borrower_crypto = demo_crypto\<lparr>jwt_verify := (\<lambda>t _. if t = ''tok'' then Some demo_borrower_token else None)\<rparr>"

definition demo_api_world :: world where
  "demo_api_world = demo_loan_world\<lparr>sessions := [\<lparr>session_userId = ''b'', session_jti = ''j1'', revokedAt = None\<rparr>]\<rparr>"

lemma demo_chain_repay:
  "app_chain demo_express M_POST ''/api/loans/repay'' app_routes
   = ([AUTHENTICATED, PERMISSION PAYMENT WRITE, AUDITED ''LOAN_REPAYMENT''], Some (Loan H_recordRepayment))"
  by (simp add: app_routes_def routers demo_express_def)

lemma demo_borrower_auth: "authMiddleware demo_borrower_crypto (Some ''Bearer tok'') demo_api_world = Inr demo_borrower_token"
  by (simp add: authMiddleware_def demo_borrower_crypto_def demo_api_world_def demo_borrower_token_def lookup_row_def)

lemma demo_serve_repay:
  "\<exists>st. serve demo_express demo_borrower_crypto (\<lambda>_. True) (demo_api_request M_POST ''/api/loans/repay'') demo_api_world []
     = Inr (Loan H_recordRepayment, st) \<and> api_userId st = Some ''b''"
  by (simp add: serve_def demo_api_request_def demo_chain_repay demo_borrower_auth guard_checkPermission_def rbac_view_def
      checkPermission_allowed user_of_def Let_def auditLog_def api_userId_def demo_borrower_token_def first_truthy_def)

theorem repayment_through_api_witness:
  "\<exists>st res w'. serve demo_express demo_borrower_crypto (\<lambda>_. True) (demo_api_request M_POST ''/api/loans/repay'') demo_api_world []
       = Inr (Loan H_recordRepayment, st)
     \<and> ctl_recordRepayment demo_decimal demo_platform (\<lambda>_ v. v) 0 ''r1'' st (demo_repay 1) demo_api_world = (Reply 200 res, w')
     \<and> tp_role demo_borrower_token = ADMIN"
proof -
  obtain st where st: "serve demo_express demo_borrower_crypto (\<lambda>_. True) (demo_api_request M_POST ''/api/loans/repay'') demo_api_world []
      = Inr (Loan H_recordRepayment, st)" "api_userId st = Some ''b''"
    using demo_serve_repay by blast
  have s: "store20_7 demo_platform 1 = Inr 1" using demo_store [of "10 ^ 7"] by simp
  have "\<exists>res w'. recordRepayment demo_decimal demo_platform (\<lambda>_ v. v) 0 ''r1'' (demo_repay 1) demo_api_world = (Inr res, w')"
    using s
    by (simp add: recordRepayment_def demo_repay_args repayment_tx_def repayment_commit_def demo_api_world_def demo_loan_world_def demo_people_def
      demo_loan_def lookup_row_def repayments_of_def total_repaid_def demo_arith demo_trim empty_world_def
      insert_row_def update_where_def broadcast_def pending_session_def complete_session_def next_loan_status_def transaction_def Let_def)
  moreover have "demo_repay 1\<lparr>rr_requestingUserId := Some ''b''\<rparr> = demo_repay 1" by (simp add: demo_repay_def)
  ultimately obtain res w' where run: "ctl_recordRepayment demo_decimal demo_platform (\<lambda>_ v. v) 0 ''r1'' st (demo_repay 1) demo_api_world = (Reply 200 res, w')"
    by (auto simp: ctl_recordRepayment_def st(2) truthy_def)
  have "authMiddleware demo_borrower_crypto (rq_authorization (demo_api_request M_POST ''/api/loans/repay'')) demo_api_world = Inr demo_borrower_token"
    by (simp add: demo_api_request_def demo_borrower_auth)
  moreover have "user_permissions demo_api_world = []"
    by (simp add: demo_api_world_def demo_loan_world_def demo_people_def empty_world_def)
  ultimately have "tp_role demo_borrower_token = ADMIN"
    using repayment_through_api [OF st(1) _ _ run, of demo_borrower_token] by simp
  then show ?thesis using st(1) run by blast
qed

section \<open>Logins that fail\<close>

record login_try =
  lt_before :: "world \<Rightarrow> world" \<comment> \<open>what other requests did before\<close>
  lt_during :: "world \<Rightarrow> world"
  lt_now :: int
  lt_recorded :: int
  lt_jti :: string
  lt_wallet :: "string option"
  lt_nonce :: "string option"
  lt_signature :: "string option"

fun login_tries ::
  "crypto \<Rightarrow> jwt_env \<Rightarrow> string \<Rightarrow> login_try list \<Rightarrow> world \<times> suspicious \<Rightarrow> auth_result reply list \<times> world \<times> suspicious" where
  "login_tries K J ip [] s = ([], s)"
| "login_tries K J ip (x # xs) (w, sus) =
     (case ctl_verifySignature K J (lt_during x) (lt_now x) (lt_recorded x) (lt_jti x) (Some ip) (lt_wallet x) (lt_nonce x) (lt_signature x)
         (lt_before x w, sus) of
        (r, s) \<Rightarrow> (case login_tries K J ip xs s of (rs, s') \<Rightarrow> (r # rs, s')))"

lemma login_tries_failed:
  assumes "login_tries K J ip xs (w, sus) = (rs, w', sus')" and "\<forall>r\<in>set rs. \<exists>e. r = Failed e"
  shows "sus' = fail_at ip (map lt_recorded xs) sus \<and> length rs = length xs"
  using assms
proof (induction xs arbitrary: w sus rs)
  case (Cons x xs)
  obtain r w1 s1 where c: "ctl_verifySignature K J (lt_during x) (lt_now x) (lt_recorded x) (lt_jti x) (Some ip) (lt_wallet x)
      (lt_nonce x) (lt_signature x) (lt_before x w, sus) = (r, w1, s1)"
    by (metis prod_cases3)
  obtain rs1 where rs1: "login_tries K J ip xs (w1, s1) = (rs1, w', sus')" "rs = r # rs1"
    using Cons.prems(1) c by (auto split: prod.splits)
  have "s1 = recordFailedAuthChallenge (lt_recorded x) ip sus"
    using c Cons.prems(2) rs1(2) by (auto simp: ctl_verifySignature_def split: if_splits sum.splits prod.splits)
  then show ?case using Cons.IH [OF rs1(1)] Cons.prems(2) rs1(2) by auto
qed auto


definition demo_try :: login_try where
  "demo_try = \<lparr>lt_before = (\<lambda>v. v), lt_during = (\<lambda>v. v), lt_now = 5, lt_recorded = 6, lt_jti = ''j'',
     lt_wallet = Some ''GB'', lt_nonce = Some ''n'', lt_signature = Some ''x''\<rparr>"

lemma demo_try_fails:
  "ctl_verifySignature demo_crypto demo_jwt (lt_during demo_try) (lt_now demo_try) (lt_recorded demo_try) (lt_jti demo_try) (Some ''a'')
      (lt_wallet demo_try) (lt_nonce demo_try) (lt_signature demo_try) (lt_before demo_try empty_world, sus)
   = (Failed (UnauthorizedError ''Invalid or expired challenge''), empty_world, recordFailedAuthChallenge 6 ''a'' sus)"
  by (simp add: ctl_verifySignature_def demo_try_def truthy_def verifySignature_def demo_address empty_world_def)


end
