(* ===== verification/Ws_State.thy ===== *)
theory Ws_State
  imports Database
begin

text \<open>
  The connections of the live updates, \<open>server/src/services/websocket.service.ts\<close>: who is
  connected, the timer that drops clients which stay silent, and who receives a broadcast.
  A socket is named by a number; what the socket library does on its own (becoming closed,
  answering a ping) is an event.
\<close>

section \<open>State and operations\<close>

record ws_state =
  connections :: "nat list" \<comment> \<open>the Set, in the order of insertion\<close>
  isAlive :: "nat \<Rightarrow> bool"
  ws_open :: "nat \<Rightarrow> bool" \<comment> \<open>\<open>readyState === OPEN\<close>\<close>
  received :: "nat \<Rightarrow> ws_event list"
  pings :: "nat \<Rightarrow> nat"

definition addConnection :: "nat \<Rightarrow> ws_state \<Rightarrow> ws_state" where
  "addConnection i s = s\<lparr>connections := (if i \<in> set (connections s) then connections s else connections s @ [i]),
     isAlive := (isAlive s)(i := True)\<rparr>"

definition on_pong :: "nat \<Rightarrow> ws_state \<Rightarrow> ws_state" where
  "on_pong i s = s\<lparr>isAlive := (isAlive s)(i := True)\<rparr>"

definition delete_connection :: "nat \<Rightarrow> ws_state \<Rightarrow> ws_state" where
  "delete_connection i s = s\<lparr>connections := filter (\<lambda>j. j \<noteq> i) (connections s)\<rparr>"

text \<open>The \<open>close\<close> and the \<open>error\<close> listener; a closed socket is no longer open.\<close>

definition on_close :: "nat \<Rightarrow> ws_state \<Rightarrow> ws_state" where
  "on_close i s = (delete_connection i s)\<lparr>ws_open := (ws_open s)(i := False)\<rparr>"

definition on_error :: "nat \<Rightarrow> ws_state \<Rightarrow> ws_state" where
  "on_error i s = delete_connection i s"

definition ping_one :: "nat \<Rightarrow> ws_state \<Rightarrow> ws_state" where
  "ping_one i s = (if \<not> isAlive s i then delete_connection i (s\<lparr>ws_open := (ws_open s)(i := False)\<rparr>)
     else s\<lparr>isAlive := (isAlive s)(i := False), pings := (pings s)(i := pings s i + 1)\<rparr>)"

definition ping_tick :: "ws_state \<Rightarrow> ws_state" where
  "ping_tick s = fold ping_one (connections s) s"

definition send_one :: "ws_event \<Rightarrow> nat \<Rightarrow> ws_state \<Rightarrow> ws_state" where
  "send_one e i s = (if ws_open s i then s\<lparr>received := (received s)(i := received s i @ [e])\<rparr> else s)"

definition broadcastEvent :: "ws_event \<Rightarrow> ws_state \<Rightarrow> ws_state" where
  "broadcastEvent e s = fold (send_one e) (connections s) s"

definition getConnectionCount :: "ws_state \<Rightarrow> nat" where
  "getConnectionCount s = length (connections s)"

definition cleanup :: "ws_state \<Rightarrow> ws_state" where
  "cleanup s = s\<lparr>connections := [], ws_open := (\<lambda>i. ws_open s i \<and> i \<notin> set (connections s))\<rparr>"

definition broadcastEscrowCreated :: "string \<Rightarrow> string \<Rightarrow> string \<Rightarrow> ws_state \<Rightarrow> ws_state" where
  "broadcastEscrowCreated escrowId buyer seller = broadcastEvent (ESCROW_CREATED escrowId buyer seller)"

definition broadcastEscrowUpdated :: "string \<Rightarrow> string \<Rightarrow> ws_state \<Rightarrow> ws_state" where
  "broadcastEscrowUpdated escrowId status = broadcastEvent (ESCROW_UPDATED escrowId status)"

definition broadcastLoanUpdated :: "string \<Rightarrow> string \<Rightarrow> ws_state \<Rightarrow> ws_state" where
  "broadcastLoanUpdated loanId status = broadcastEvent (LOAN_UPDATED loanId status)"

definition broadcastGovernanceVoteCast :: "string \<Rightarrow> int \<Rightarrow> ws_state \<Rightarrow> ws_state" where
  "broadcastGovernanceVoteCast proposalId newTally = broadcastEvent (GOVERNANCE_VOTE_CAST proposalId newTally)"

section \<open>Events\<close>

datatype ws_input = Add nat | Pong nat | Close nat | Error nat | Tick | Broadcast ws_event | Cleanup

fun ws_do :: "ws_input \<Rightarrow> ws_state \<Rightarrow> ws_state" where
  "ws_do (Add i) s = addConnection i s"
| "ws_do (Pong i) s = on_pong i s"
| "ws_do (Close i) s = on_close i s"
| "ws_do (Error i) s = on_error i s"
| "ws_do Tick s = ping_tick s"
| "ws_do (Broadcast e) s = broadcastEvent e s"
| "ws_do Cleanup s = cleanup s"

section \<open>The abstract contract\<close>

text \<open>Each client on its own: not connected, connected, or connected and waited for.\<close>

datatype client = GONE | FRESH | PINGED

fun client_step :: "nat \<Rightarrow> ws_input \<Rightarrow> client \<Rightarrow> client" where
  "client_step i (Add j) c = (if j = i then FRESH else c)"
| "client_step i (Pong j) c = (if j = i \<and> c = PINGED then FRESH else c)"
| "client_step i (Close j) c = (if j = i then GONE else c)"
| "client_step i (Error j) c = (if j = i then GONE else c)"
| "client_step i Tick c = (if c = FRESH then PINGED else GONE)"
| "client_step i (Broadcast e) c = c"
| "client_step i Cleanup c = GONE"

definition client_of :: "ws_state \<Rightarrow> nat \<Rightarrow> client" where
  "client_of s i = (if i \<notin> set (connections s) then GONE else if isAlive s i then FRESH else PINGED)"

definition ws_ok :: "ws_state \<Rightarrow> bool" where
  "ws_ok s \<longleftrightarrow> distinct (connections s)"

lemma ping_tick_state:
  assumes "distinct is" and "set is \<subseteq> set (connections s)"
  shows "connections (fold ping_one is s) = filter (\<lambda>i. i \<in> set is \<longrightarrow> isAlive s i) (connections s)
    \<and> (\<forall>i. isAlive (fold ping_one is s) i \<longleftrightarrow> isAlive s i \<and> i \<notin> set is)
    \<and> received (fold ping_one is s) = received s"
  using assms
proof (induction "is" arbitrary: s)
  case (Cons j js)
  show ?case
  proof (cases "isAlive s j")
    case True
    then have "ping_one j s = s\<lparr>isAlive := (isAlive s)(j := False), pings := (pings s)(j := pings s j + 1)\<rparr>" (is "_ = ?s")
      by (simp add: ping_one_def)
    then show ?thesis
      using Cons.IH [of ?s] Cons.prems True by (auto intro!: filter_cong)
  next
    case False
    then have "ping_one j s = delete_connection j (s\<lparr>ws_open := (ws_open s)(j := False)\<rparr>)" (is "_ = ?s")
      by (simp add: ping_one_def)
    moreover have "set js \<subseteq> set (connections ?s)" using Cons.prems by (auto simp: delete_connection_def)
    ultimately show ?thesis
      using Cons.IH [of ?s] Cons.prems False by (auto simp: delete_connection_def intro!: filter_cong)
  qed
qed simp

lemma send_state:
  "connections (fold (send_one e) is s) = connections s \<and> isAlive (fold (send_one e) is s) = isAlive s
    \<and> ws_open (fold (send_one e) is s) = ws_open s"
  by (induction "is" arbitrary: s) (simp_all add: send_one_def)

lemma send_received:
  "distinct is \<Longrightarrow> received (fold (send_one e) is s) i = received s i @ (if i \<in> set is \<and> ws_open s i then [e] else [])"
  by (induction "is" arbitrary: s) (auto simp: send_one_def)

lemma ws_ok_do: "ws_ok s \<Longrightarrow> ws_ok (ws_do x s)"
  using ping_tick_state [of "connections s" s]
  by (cases x) (auto simp: ws_ok_def addConnection_def on_pong_def on_close_def on_error_def delete_connection_def
      ping_tick_def broadcastEvent_def send_state cleanup_def)

lemma client_step_refines: "ws_ok s \<Longrightarrow> client_of (ws_do x s) i = client_step i x (client_of s i)"
  using ping_tick_state [of "connections s" s]
  by (cases x) (auto simp: ws_ok_def client_of_def addConnection_def on_pong_def on_close_def on_error_def delete_connection_def
      ping_tick_def broadcastEvent_def send_state cleanup_def)

text \<open>
  C23. The connection table implements one small machine per client: for every
  operation, event and client, what the table says of the client afterwards is the
  machine's step from what it said before (a timer tick waits for a client it heard of
  since the last tick and drops one it did not); and a broadcast reaches exactly the
  connected clients whose socket is open, once each, while nothing else delivers anything.
\<close>

theorem ws_refines_clients:
  assumes "ws_ok s"
  shows "client_of (ws_do x s) i = client_step i x (client_of s i)
    \<and> received (ws_do x s) i = received s i @ (case x of Broadcast e \<Rightarrow> if client_of s i \<noteq> GONE \<and> ws_open s i then [e] else [] | _ \<Rightarrow> [])
    \<and> ws_ok (ws_do x s)"
proof -
  have d: "distinct (connections s)" using assms by (simp add: ws_ok_def)
  note t = ping_tick_state [OF d subset_refl]
  have "received (ws_do x s) i = received s i @ (case x of Broadcast e \<Rightarrow> if client_of s i \<noteq> GONE \<and> ws_open s i then [e] else [] | _ \<Rightarrow> [])"
    using t by (cases x) (auto simp: client_of_def addConnection_def on_pong_def on_close_def on_error_def delete_connection_def
        ping_tick_def broadcastEvent_def send_received [OF d] cleanup_def)
  then show ?thesis using client_step_refines [OF assms] ws_ok_do [OF assms] by blast
qed

definition empty_ws :: ws_state where
  "empty_ws = \<lparr>connections = [], isAlive = (\<lambda>_. False), ws_open = (\<lambda>_. True), received = (\<lambda>_. []), pings = (\<lambda>_. 0)\<rparr>"

theorem ws_refines_clients_witness:
  "client_of (ws_do (Add 1) empty_ws) 1 = FRESH
   \<and> received (ws_do (Broadcast (LOAN_UPDATED ''l'' ''ACTIVE'')) (ws_do (Add 1) empty_ws)) 1 = [LOAN_UPDATED ''l'' ''ACTIVE'']"
proof -
  have e: "ws_ok empty_ws" "client_of empty_ws 1 = GONE" "ws_open (ws_do (Add 1) empty_ws) 1" "received empty_ws 1 = []"
    by (simp_all add: ws_ok_def empty_ws_def client_of_def addConnection_def)
  note a = ws_refines_clients [OF e(1), of "Add 1" 1]
  then have "ws_ok (ws_do (Add 1) empty_ws)" by blast
  from ws_refines_clients [OF this, of "Broadcast (LOAN_UPDATED ''l'' ''ACTIVE'')" 1] a e show ?thesis by simp
qed

section \<open>Silent clients\<close>

text \<open>
  \<open>waiting i xs\<close>: there was a tick and no pong of the client since; \<open>silent i xs\<close>: there
  were two ticks and no pong of the client between them.
\<close>

definition waiting :: "nat \<Rightarrow> ws_input list \<Rightarrow> bool" where
  "waiting i xs \<longleftrightarrow> (\<exists>us vs. xs = us @ Tick # vs \<and> Pong i \<notin> set vs)"

definition silent :: "nat \<Rightarrow> ws_input list \<Rightarrow> bool" where
  "silent i xs \<longleftrightarrow> (\<exists>us vs zs. xs = us @ Tick # vs @ Tick # zs \<and> Pong i \<notin> set vs)"

lemma waiting_snoc: "waiting i (xs @ [x]) \<longleftrightarrow> x = Tick \<or> x \<noteq> Pong i \<and> waiting i xs"
proof
  assume "waiting i (xs @ [x])"
  then obtain us vs where v: "xs @ [x] = us @ Tick # vs" "Pong i \<notin> set vs" by (auto simp: waiting_def)
  show "x = Tick \<or> x \<noteq> Pong i \<and> waiting i xs"
  proof (cases vs rule: rev_cases)
    case (snoc vs' y)
    then have "xs = us @ Tick # vs'" "x = y" using v(1) by auto
    then show ?thesis using v(2) snoc by (auto simp: waiting_def)
  qed (use v in auto)
next
  assume "x = Tick \<or> x \<noteq> Pong i \<and> waiting i xs"
  then show "waiting i (xs @ [x])"
  proof
    assume "x = Tick"
    then show ?thesis unfolding waiting_def by (intro exI [of _ xs] exI [of _ "[]"]) simp
  next
    assume "x \<noteq> Pong i \<and> waiting i xs"
    then obtain us vs where "xs = us @ Tick # vs" "Pong i \<notin> set vs" "x \<noteq> Pong i" by (auto simp: waiting_def)
    then show ?thesis unfolding waiting_def by (intro exI [of _ us] exI [of _ "vs @ [x]"]) auto
  qed
qed

lemma silent_snoc: "silent i (xs @ [x]) \<longleftrightarrow> silent i xs \<or> x = Tick \<and> waiting i xs"
proof
  assume "silent i (xs @ [x])"
  then obtain us vs zs where v: "xs @ [x] = us @ Tick # vs @ Tick # zs" "Pong i \<notin> set vs" by (auto simp: silent_def)
  show "silent i xs \<or> x = Tick \<and> waiting i xs"
  proof (cases zs rule: rev_cases)
    case Nil
    then have "xs = us @ Tick # vs" "x = Tick" using v(1) by auto
    then show ?thesis using v(2) by (auto simp: waiting_def)
  next
    case (snoc zs' y)
    then have "xs = us @ Tick # vs @ Tick # zs'" using v(1) by auto
    then show ?thesis using v(2) by (auto simp: silent_def)
  qed
next
  assume "silent i xs \<or> x = Tick \<and> waiting i xs"
  then show "silent i (xs @ [x])"
  proof
    assume "silent i xs"
    then obtain us vs zs where "xs = us @ Tick # vs @ Tick # zs" "Pong i \<notin> set vs" by (auto simp: silent_def)
    then show ?thesis unfolding silent_def by (intro exI [of _ us] exI [of _ vs] exI [of _ "zs @ [x]"]) simp
  next
    assume "x = Tick \<and> waiting i xs"
    then obtain us vs where "xs @ [x] = us @ Tick # vs @ Tick # []" "Pong i \<notin> set vs" by (auto simp: waiting_def)
    then show ?thesis unfolding silent_def by (intro exI [of _ us] exI [of _ vs] exI [of _ "[]"]) simp
  qed
qed

lemma client_run:
  assumes "ws_ok s" and "\<forall>x\<in>set xs. x \<notin> {Add i, Close i, Error i, Cleanup}" and "client_of s i = FRESH"
  shows "ws_ok (fold ws_do xs s) \<and> client_of (fold ws_do xs s) i = (if silent i xs then GONE else if waiting i xs then PINGED else FRESH)"
  using assms(2)
proof (induction xs rule: rev_induct)
  case Nil
  then show ?case using assms(1,3) by (simp add: silent_def waiting_def)
next
  case (snoc x xs)
  then have ok: "ws_ok (fold ws_do xs s)" and c: "client_of (fold ws_do xs s) i = (if silent i xs then GONE else if waiting i xs then PINGED else FRESH)"
    by simp_all
  have "client_step i x (client_of (fold ws_do xs s) i)
      = (if silent i (xs @ [x]) then GONE else if waiting i (xs @ [x]) then PINGED else FRESH)"
    unfolding c silent_snoc waiting_snoc using snoc.prems by (cases x) auto
  then show ?case using ok by (simp add: client_step_refines ws_ok_do)
qed

text \<open>
  The timer drops exactly the silent: a client that was just added stays in the table
  through any run of pings, answers, broadcasts and other clients' events as long as there
  is an answer of its own between any two ticks, and is gone as soon as there were two
  ticks without one.
\<close>

theorem silent_clients_dropped:
  assumes "ws_ok s" and "\<forall>x\<in>set xs. x \<notin> {Add i, Close i, Error i, Cleanup}"
  shows "i \<in> set (connections (fold ws_do (Add i # xs) s))
    \<longleftrightarrow> (\<nexists>us vs zs. xs = us @ [Tick] @ vs @ [Tick] @ zs \<and> Pong i \<notin> set vs)"
proof -
  have f: "client_of (ws_do (Add i) s) i = FRESH" using client_step_refines [OF assms(1), of "Add i" i] by simp
  have "client_of (fold ws_do xs (ws_do (Add i) s)) i = (if silent i xs then GONE else if waiting i xs then PINGED else FRESH)"
    using client_run [OF ws_ok_do [OF assms(1)] assms(2) f] by blast
  then have "i \<in> set (connections (fold ws_do xs (ws_do (Add i) s))) \<longleftrightarrow> \<not> silent i xs"
    by (auto simp: client_of_def split: if_splits)
  then show ?thesis by (simp add: silent_def)
qed

theorem silent_clients_dropped_witness:
  "1 \<notin> set (connections (fold ws_do [Add 1, Tick, Add 2, Tick] empty_ws))
   \<and> 1 \<in> set (connections (fold ws_do [Add 1, Tick, Pong 1, Tick, Pong 1] empty_ws))"
proof -
  have ok: "ws_ok empty_ws" by (simp add: ws_ok_def empty_ws_def)
  have "\<exists>us vs zs. [Tick, Add 2, Tick] = us @ [Tick] @ vs @ [Tick] @ zs \<and> Pong 1 \<notin> set vs"
    by (intro exI [of _ "[]"] exI [of _ "[Add 2]"]) simp
  moreover have "\<not> silent 1 ([] @ [Tick] @ [Pong 1] @ [Tick] @ [Pong 1])"
    unfolding append_assoc [symmetric] silent_snoc waiting_snoc by (simp add: silent_def waiting_def)
  then have "\<nexists>us vs zs. [Tick, Pong 1, Tick, Pong 1] = us @ [Tick] @ vs @ [Tick] @ zs \<and> Pong 1 \<notin> set vs"
    by (simp add: silent_def)
  ultimately show ?thesis
    using silent_clients_dropped [OF ok, of "[Tick, Add 2, Tick]" 1] silent_clients_dropped [OF ok, of "[Tick, Pong 1, Tick, Pong 1]" 1]
    by simp
qed

end
