(* ===== verification/Analytics.thy ===== *)
theory Analytics
  imports Platform
begin

text \<open>
  The platform statistics, \<open>server/src/services/analytics.service.ts\<close>: two reports over
  the database, each kept for a while. The sums are exact decimals of the database; turning
  them into numbers rounds to a double. Which wallets are verified is a parameter, because
  no other modelled operation reads that column.
\<close>

section \<open>Keeping an answer\<close>

text \<open>
  The code around both reports: an answer younger than \<open>ttl\<close> is given again, otherwise it
  is computed and kept with the time at which the call began; an error is not kept.
\<close>

definition cached :: "int \<Rightarrow> ('w \<Rightarrow> app_error + 'a) \<Rightarrow> int \<Rightarrow> 'w \<Rightarrow> (int \<times> 'a) option \<Rightarrow> (app_error + 'a) \<times> (int \<times> 'a) option" where
  "cached ttl compute now w cache = (case cache of
     Some (ts, data) \<Rightarrow> if now - ts < ttl then (Inr data, cache)
       else (case compute w of Inl e \<Rightarrow> (Inl e, cache) | Inr d \<Rightarrow> (Inr d, Some (now, d)))
   | None \<Rightarrow> (case compute w of Inl e \<Rightarrow> (Inl e, cache) | Inr d \<Rightarrow> (Inr d, Some (now, d))))"

section \<open>The reports\<close>

record platform_stats =
  totalEscrows :: nat
  fundedEscrows :: nat
  releasedEscrows :: nat
  disputedEscrows :: nat
  totalLoans :: nat
  activeLoans :: nat
  defaultedLoans :: nat
  totalVolumeUSDC :: string
  totalUsers :: nat
  activeWallets :: nat
  governanceProposals :: nat
  participationRate :: nat

record protocol_analytics =
  tvl :: string
  totalVolume :: string
  avgInterestRate :: string
  defaultRate :: rat

text \<open>\<open>_sum\<close> is null when no row is selected.\<close>

definition sum_of :: "('r \<Rightarrow> rat) \<Rightarrow> 'r list \<Rightarrow> rat option" where
  "sum_of f rs = (if rs = [] then None else Some (sum_list (map f rs)))"

definition usdc_escrows :: "world \<Rightarrow> rat option" where
  "usdc_escrows w = sum_of escrow_amount (filter (\<lambda>r. escrow_assetCode r = ''USDC'') (escrows w))"

definition usdc_loans :: "world \<Rightarrow> rat option" where
  "usdc_loans w = sum_of loan_amount (filter (\<lambda>r. loan_assetCode r = ''USDC'') (loans w))"

text \<open>
  A missing sum becomes the number 0. When the sum of the escrows is such a number, both are
  converted with \<open>Number\<close>; otherwise \<open>toNumber\<close> is called on both, which a number does not have.
\<close>

definition total_volume :: "rat option \<Rightarrow> rat option \<Rightarrow> app_error + rat" where
  "total_volume escrowSum loanSum = (case escrowSum of
     None \<Rightarrow> Inr (fl64 (0 + (case loanSum of None \<Rightarrow> 0 | Some l \<Rightarrow> fl64 l)))
   | Some e \<Rightarrow> (case loanSum of
       None \<Rightarrow> Inl (PlainError ''loanSum.toNumber is not a function'')
     | Some l \<Rightarrow> Inr (fl64 (fl64 e + fl64 l))))"

definition platform_stats_of :: "platform \<Rightarrow> (wallet_row \<Rightarrow> bool) \<Rightarrow> world \<Rightarrow> app_error + platform_stats" where
  "platform_stats_of P verified w = (case total_volume (usdc_escrows w) (usdc_loans w) of
     Inl e \<Rightarrow> Inl e
   | Inr v \<Rightarrow> Inr \<lparr>totalEscrows = length (escrows w),
       fundedEscrows = count_where (\<lambda>r. escrow_status r = ESCROW_FUNDED) (escrows w),
       releasedEscrows = count_where (\<lambda>r. escrow_status r = ESCROW_RELEASED) (escrows w),
       disputedEscrows = count_where (\<lambda>r. escrow_status r = ESCROW_DISPUTED) (escrows w),
       totalLoans = length (loans w),
       activeLoans = count_where (\<lambda>r. loan_status r = LOAN_ACTIVE) (loans w),
       defaultedLoans = count_where (\<lambda>r. loan_status r = LOAN_DEFAULTED) (loans w),
       totalVolumeUSDC = num_str P v, totalUsers = length (users w),
       activeWallets = count_where verified (wallets w),
       governanceProposals = length (proposals w), participationRate = 0\<rparr>)"

definition STATS_TTL :: int where "STATS_TTL = 60 * 1000"

definition getPlatformStats ::
  "platform \<Rightarrow> (wallet_row \<Rightarrow> bool) \<Rightarrow> int \<Rightarrow> world \<Rightarrow> (int \<times> platform_stats) option \<Rightarrow> (app_error + platform_stats) \<times> (int \<times> platform_stats) option" where
  "getPlatformStats P verified = cached STATS_TTL (platform_stats_of P verified)"

definition issued_loans :: "world \<Rightarrow> loan_row list" where
  "issued_loans w = filter (\<lambda>r. loan_status r \<noteq> LOAN_PENDING) (loans w)"

definition protocol_analytics_of :: "platform \<Rightarrow> world \<Rightarrow> app_error + protocol_analytics" where
  "protocol_analytics_of P w =
     (let tvlSum = sum_of escrow_amount (filter (\<lambda>r. escrow_status r \<in> {ESCROW_FUNDED, ESCROW_DISPUTED}) (escrows w));
          issuedCount = length (issued_loans w);
          defaultedCount = count_where (\<lambda>r. loan_status r = LOAN_DEFAULTED) (loans w);
          sumAmount = sum_list (map loan_amount (issued_loans w));
          sumAmountTimesRate = sum_list (map (\<lambda>r. loan_amount r * interestRate r) (issued_loans w));
          tvlNum = (case tvlSum of None \<Rightarrow> 0 | Some x \<Rightarrow> fl64 x);
          volumeNum = fl64 sumAmount;
          weightedRateNum = (if 0 < volumeNum then fl64 (fl64 sumAmountTimesRate / volumeNum) else 0)
      in Inr \<lparr>tvl = num_str P tvlNum, totalVolume = num_str P volumeNum, avgInterestRate = num_str P weightedRateNum,
           defaultRate = (if 0 < issuedCount then fl64 (of_nat defaultedCount / of_nat issuedCount) else 0)\<rparr>)"

definition PROTOCOL_TTL :: int where "PROTOCOL_TTL = 24 * 60 * 60 * 1000"

definition getProtocolAnalytics ::
  "platform \<Rightarrow> int \<Rightarrow> world \<Rightarrow> (int \<times> protocol_analytics) option \<Rightarrow> (app_error + protocol_analytics) \<times> (int \<times> protocol_analytics) option" where
  "getProtocolAnalytics P = cached PROTOCOL_TTL (protocol_analytics_of P)"

section \<open>Properties\<close>

text \<open>A run of calls: when each one began, and the database it found.\<close>

primrec cached_run :: "int \<Rightarrow> ('w \<Rightarrow> app_error + 'a) \<Rightarrow> (int \<times> 'w) list \<Rightarrow> (int \<times> 'a) option \<Rightarrow> (app_error + 'a) list" where
  "cached_run ttl compute [] c = []"
| "cached_run ttl compute (x # xs) c = (case cached ttl compute (fst x) (snd x) c of (r, c') \<Rightarrow> r # cached_run ttl compute xs c')"

lemma cached_fresh:
  assumes "cached ttl compute now w c = (r, c')" and "0 < ttl"
  shows "(r = compute w \<and> (c' = c \<or> (\<exists>d. c' = Some (now, d) \<and> compute w = Inr d)))
    \<or> (\<exists>ts d. c = Some (ts, d) \<and> c' = c \<and> r = Inr d \<and> now - ts < ttl)"
  using assms by (auto simp: cached_def split: option.splits if_splits sum.splits)

lemma cached_run_recent:
  assumes "0 < ttl" and "k < length xs"
    and "case c of None \<Rightarrow> True | Some (ts, d) \<Rightarrow> (ts, d) \<in> set old"
  shows "(\<exists>j\<le>k. fst (xs ! k) - fst (xs ! j) < ttl \<and> cached_run ttl compute xs c ! k = compute (snd (xs ! j)))
    \<or> (\<exists>(ts, d)\<in>set old. fst (xs ! k) - ts < ttl \<and> cached_run ttl compute xs c ! k = Inr d)"
  using assms(2,3)
proof (induction xs arbitrary: c k old)
  case (Cons x xs)
  obtain r c' where rc: "cached ttl compute (fst x) (snd x) c = (r, c')" by (cases "cached ttl compute (fst x) (snd x) c")
  note f = cached_fresh [OF rc assms(1)]
  show ?case
  proof (cases k)
    case 0
    then show ?thesis using f rc assms(1) Cons.prems(2) by (fastforce split: option.splits)
  next
    case (Suc k')
    let ?old = "old @ (case compute (snd x) of Inr d \<Rightarrow> [(fst x, d)] | Inl e \<Rightarrow> [])"
    have "case c' of None \<Rightarrow> True | Some (ts, d) \<Rightarrow> (ts, d) \<in> set ?old"
      using f Cons.prems(2) by (auto split: option.splits)
    from Cons.IH [OF _ this, of k'] Cons.prems(1) Suc
    consider j where "j \<le> k'" "fst (xs ! k') - fst (xs ! j) < ttl" "cached_run ttl compute xs c' ! k' = compute (snd (xs ! j))"
      | ts d where "(ts, d) \<in> set ?old" "fst (xs ! k') - ts < ttl" "cached_run ttl compute xs c' ! k' = Inr d"
      by auto
    then show ?thesis
    proof cases
      case (1 j)
      then show ?thesis using rc Suc by (intro disjI1 exI [of _ "Suc j"]) simp
    next
      case (2 ts d)
      show ?thesis
      proof (cases "(ts, d) \<in> set old")
        case True
        then show ?thesis using 2 rc Suc by (intro disjI2) auto
      next
        case False
        then have "ts = fst x" "compute (snd x) = Inr d" using 2(1) by (auto split: sum.splits)
        then show ?thesis using 2 rc Suc by (intro disjI1 exI [of _ 0]) simp
      qed
    qed
  qed
qed simp

text \<open>
  How old an answer can be: in any run of calls, every answer is the report of the
  database as this call or an earlier one found it, and that call began less than 60
  seconds (for the protocol report: 24 hours) before this one. Errors are never kept.
\<close>

theorem stats_are_recent:
  assumes "k < length xs"
  shows "(\<exists>j\<le>k. fst (xs ! k) - fst (xs ! j) < 60000
      \<and> cached_run STATS_TTL (platform_stats_of P verified) xs None ! k = platform_stats_of P verified (snd (xs ! j)))
    \<and> (\<exists>j\<le>k. fst (xs ! k) - fst (xs ! j) < 86400000
      \<and> cached_run PROTOCOL_TTL (protocol_analytics_of P) xs None ! k = protocol_analytics_of P (snd (xs ! j)))"
  using cached_run_recent [of STATS_TTL k xs "[]" None "platform_stats_of P verified"]
    cached_run_recent [of PROTOCOL_TTL k xs "[]" None "protocol_analytics_of P"] assms
  by (simp add: STATS_TTL_def PROTOCOL_TTL_def)

theorem stats_are_recent_witness:
  "cached_run PROTOCOL_TTL (protocol_analytics_of demo_platform) [(5, empty_world)] None ! 0 = protocol_analytics_of demo_platform empty_world"
  using stats_are_recent [of 0 "[(5, empty_world)]" demo_platform "\<lambda>_. True"] by simp

text \<open>
  The statistics fail on a platform without loans: as soon as there is an escrow in
  USDC and no loan in USDC, every call that finds no recent answer throws, and the reply
  is an internal error; with no USDC escrow at all, or with a loan, it succeeds.
\<close>

theorem stats_fail_without_loans:
  assumes "case c of None \<Rightarrow> True | Some (ts, d) \<Rightarrow> STATS_TTL \<le> now - ts"
  shows "if (\<exists>r\<in>set (escrows w). escrow_assetCode r = ''USDC'') \<and> (\<forall>l\<in>set (loans w). loan_assetCode l \<noteq> ''USDC'')
    then (\<exists>e. getPlatformStats P verified now w c = (Inl e, c) \<and> error_status e = 500)
    else (\<exists>d. getPlatformStats P verified now w c = (Inr d, Some (now, d)))"
proof -
  have c: "getPlatformStats P verified now w c = (case platform_stats_of P verified w of Inl e \<Rightarrow> (Inl e, c) | Inr d \<Rightarrow> (Inr d, Some (now, d)))"
    using assms by (auto simp: getPlatformStats_def cached_def split: option.splits)
  have e: "usdc_escrows w = None \<longleftrightarrow> \<not> (\<exists>r\<in>set (escrows w). escrow_assetCode r = ''USDC'')"
    and l: "usdc_loans w = None \<longleftrightarrow> (\<forall>r\<in>set (loans w). loan_assetCode r \<noteq> ''USDC'')"
    by (auto simp: usdc_escrows_def usdc_loans_def sum_of_def filter_empty_conv)
  show ?thesis
  proof (cases "usdc_escrows w \<noteq> None \<and> usdc_loans w = None")
    case True
    then have "platform_stats_of P verified w = Inl (PlainError ''loanSum.toNumber is not a function'')"
      by (auto simp: platform_stats_of_def total_volume_def)
    then show ?thesis using True unfolding c e l by simp
  next
    case False
    then have "\<exists>v. total_volume (usdc_escrows w) (usdc_loans w) = Inr v"
      by (cases "usdc_escrows w"; cases "usdc_loans w") (simp_all add: total_volume_def)
    then obtain v where "total_volume (usdc_escrows w) (usdc_loans w) = Inr v" ..
    then have "\<exists>d. platform_stats_of P verified w = Inr d" by (simp add: platform_stats_of_def)
    then show ?thesis using False unfolding c e l by auto
  qed
qed

theorem stats_fail_without_loans_witness:
  "\<exists>e. getPlatformStats demo_platform (\<lambda>_. True) 5 (empty_world\<lparr>escrows := [\<lparr>escrow_id = ''e1'', buyerId = ''b'', sellerId = ''s'',
      escrow_amount = 10, escrow_assetCode = ''USDC'', escrow_status = ESCROW_FUNDED, stellarTxHash = None, escrowAddress = None,
      escrow_expiresAt = 100\<rparr>]\<rparr>) None = (Inl e, None) \<and> error_status e = 500"
  using stats_fail_without_loans [where c = None and now = 5 and P = demo_platform and verified = "\<lambda>_. True" and w = "empty_world\<lparr>escrows := [\<lparr>escrow_id = ''e1'', buyerId = ''b'', sellerId = ''s'',
      escrow_amount = 10, escrow_assetCode = ''USDC'', escrow_status = ESCROW_FUNDED, stellarTxHash = None, escrowAddress = None,
      escrow_expiresAt = 100\<rparr>]\<rparr>"]
  by (simp add: empty_world_def)

end
