(* ===== verification/Csv_Export.thy ===== *)
theory Csv_Export
  imports Prelude
begin

text \<open>
  The CSV export of the dashboard, \<open>frontend/src/utils/dashboardExport.ts\<close>, with a reader
  of CSV texts as RFC 4180 describes them, against which the writer is proved. A row is
  the list of its own properties in the order of \<open>Object.keys\<close>; the decimal text of a
  number is a parameter. Property names that every JavaScript object inherits are not
  considered.
\<close>

section \<open>Writing\<close>

datatype 'n cell = Cell_Text string | Cell_Number 'n | Cell_Bool bool | Cell_Null | Cell_Undefined

type_synonym 'n export_row = "(string \<times> 'n cell) list"

text \<open>The set of all keys, in the order in which they are first met.\<close>

definition add_key :: "string \<Rightarrow> string list \<Rightarrow> string list" where
  "add_key k acc = (if k \<in> set acc then acc else acc @ [k])"

definition csv_headers :: "'n export_row list \<Rightarrow> string list" where
  "csv_headers rows = fold (\<lambda>row acc. fold add_key (map fst row) acc) rows []"

abbreviation "DQUOTE \<equiv> CHR 0x22"
abbreviation "COMMA \<equiv> CHR 0x2C"
abbreviation "CR \<equiv> CHR 0x0D"
abbreviation "LF \<equiv> CHR 0x0A"

definition formula_trigger :: "char \<Rightarrow> bool" where
  "formula_trigger c \<longleftrightarrow> c \<in> {CHR ''='', CHR ''+'', CHR ''-'', CHR ''@'', CHR 0x09, CR}"

definition csv_special :: "char \<Rightarrow> bool" where
  "csv_special c \<longleftrightarrow> c \<in> {DQUOTE, COMMA, LF, CR}"

definition guard_formula :: "string \<Rightarrow> string" where
  "guard_formula s = (if s \<noteq> [] \<and> formula_trigger (hd s) then CHR 0x27 # s else s)"

definition double_quotes :: "string \<Rightarrow> string" where
  "double_quotes s = concat (map (\<lambda>c. if c = DQUOTE then [DQUOTE, DQUOTE] else [c]) s)"

definition quote_field :: "string \<Rightarrow> string" where
  "quote_field s = (if list_ex csv_special s then DQUOTE # double_quotes s @ [DQUOTE] else s)"

definition cell_text :: "('n \<Rightarrow> string) \<Rightarrow> 'n cell option \<Rightarrow> string" where
  "cell_text num_text v = (case v of
     None \<Rightarrow> [] | Some Cell_Null \<Rightarrow> [] | Some Cell_Undefined \<Rightarrow> []
   | Some (Cell_Text s) \<Rightarrow> guard_formula s
   | Some (Cell_Number n) \<Rightarrow> guard_formula (num_text n)
   | Some (Cell_Bool b) \<Rightarrow> guard_formula (if b then ''true'' else ''false''))"

definition escape_cell :: "('n \<Rightarrow> string) \<Rightarrow> 'n cell option \<Rightarrow> string" where
  "escape_cell num_text v = quote_field (cell_text num_text v)"

fun join_by :: "string \<Rightarrow> string list \<Rightarrow> string" where
  "join_by sep [] = []"
| "join_by sep [x] = x"
| "join_by sep (x # y # xs) = x @ sep @ join_by sep (y # xs)"

definition rowsToCsv :: "('n \<Rightarrow> string) \<Rightarrow> 'n export_row list \<Rightarrow> string" where
  "rowsToCsv num_text rows = (if rows = [] then [] else
     let headers = csv_headers rows in
     join_by [CR, LF] (join_by [COMMA] headers # map (\<lambda>row. join_by [COMMA] (map (\<lambda>h. escape_cell num_text (map_of row h)) headers)) rows))"

section \<open>Files\<close>

datatype export_format = FMT_CSV | FMT_JSON

text \<open>\<open>json_text\<close> is \<open>JSON.stringify(data, null, 2)\<close>.\<close>

definition serialiseExport ::
  "('n \<Rightarrow> string) \<Rightarrow> ('n export_row list \<Rightarrow> string) \<Rightarrow> 'n export_row list \<Rightarrow> export_format \<Rightarrow> string" where
  "serialiseExport num_text json_text data format = (case format of FMT_CSV \<Rightarrow> rowsToCsv num_text data | FMT_JSON \<Rightarrow> json_text data)"

definition slug_char :: "char \<Rightarrow> bool" where
  "slug_char c \<longleftrightarrow> (let n = (of_char c :: nat) in 97 \<le> n \<and> n \<le> 122 \<or> 65 \<le> n \<and> n \<le> 90 \<or> 48 \<le> n \<and> n \<le> 57) \<or> c = CHR ''-'' \<or> c = CHR ''_''"

text \<open>Each run of other characters becomes one hyphen.\<close>

fun safe_slug :: "bool \<Rightarrow> string \<Rightarrow> string" where
  "safe_slug inside [] = []"
| "safe_slug inside (c # s) = (if slug_char c then c # safe_slug False s
     else if inside then safe_slug True s else CHR ''-'' # safe_slug True s)"

definition buildExportFilename :: "string \<Rightarrow> string \<Rightarrow> export_format \<Rightarrow> string" where
  "buildExportFilename iso_now slug format =
     js_lower (safe_slug False slug) @ ''-'' @ map (\<lambda>c. if c = CHR '':'' \<or> c = CHR ''.'' then CHR ''-'' else c) iso_now
       @ ''.'' @ (case format of FMT_CSV \<Rightarrow> ''csv'' | FMT_JSON \<Rightarrow> ''json'')"

lemma safe_slug_chars: "c \<in> set (safe_slug b s) \<Longrightarrow> slug_char c"
  by (induction s arbitrary: b) (auto simp: slug_char_def split: if_splits)

section \<open>Reading\<close>

text \<open>The rest of a quoted field after its opening quote: its value and what follows.\<close>

fun unquote :: "string \<Rightarrow> (string \<times> string) option" where
  "unquote [] = None"
| "unquote (c # s) = (if c = DQUOTE
     then (case s of
         [] \<Rightarrow> Some ([], [])
       | d # s' \<Rightarrow> if d = DQUOTE then map_option (\<lambda>(v, r). (DQUOTE # v, r)) (unquote s') else Some ([], s))
     else map_option (\<lambda>(v, r). (c # v, r)) (unquote s))"

definition read_field :: "string \<Rightarrow> (string \<times> string) option" where
  "read_field s = (case s of
     [] \<Rightarrow> Some ([], [])
   | c # s' \<Rightarrow> if c = DQUOTE then unquote s'
       else Some (takeWhile (\<lambda>c. \<not> csv_special c) s, dropWhile (\<lambda>c. \<not> csv_special c) s))"

lemma unquote_length: "unquote s = Some (v, r) \<Longrightarrow> length r \<le> length s"
proof (induction s arbitrary: v r rule: unquote.induct)
  case (2 c s)
  then show ?case by (fastforce split: if_splits list.splits)
qed simp

lemma read_field_length: "read_field s = Some (v, r) \<Longrightarrow> length r \<le> length s"
  by (auto simp: read_field_def le_SucI [OF length_dropWhile_le] le_SucI dest: unquote_length split: list.splits if_splits)

function read_csv :: "string \<Rightarrow> string list list option" where
  "read_csv s = (case read_field s of
     None \<Rightarrow> None
   | Some (f, r) \<Rightarrow> (case r of
       [] \<Rightarrow> Some [[f]]
     | c # r' \<Rightarrow> if c = COMMA
         then (case read_csv r' of Some (rec # recs) \<Rightarrow> Some ((f # rec) # recs) | _ \<Rightarrow> None)
         else if c = CR \<and> r' \<noteq> [] \<and> hd r' = LF
         then (case read_csv (tl r') of Some recs \<Rightarrow> Some ([f] # recs) | None \<Rightarrow> None)
         else None))"
  by pat_completeness auto
termination
  by (relation "measure length") (auto dest!: read_field_length simp: Suc_le_eq less_diff_conv)

declare read_csv.simps [simp del]

section \<open>Reading what was written\<close>

definition stops :: "string \<Rightarrow> bool" where
  "stops r \<longleftrightarrow> r = [] \<or> hd r \<in> {COMMA, CR}"

lemma unquote_double: "r = [] \<or> hd r \<noteq> DQUOTE \<Longrightarrow> unquote (double_quotes s @ DQUOTE # r) = Some (s, r)"
proof (induction s)
  case Nil
  then show ?case by (cases r) (simp_all add: double_quotes_def)
next
  case (Cons c s)
  then show ?case by (simp add: double_quotes_def)
qed

lemma read_quoted:
  assumes "stops r"
  shows "read_field (quote_field s @ r) = Some (s, r)"
proof (cases "list_ex csv_special s")
  case True
  have "r = [] \<or> hd r \<noteq> DQUOTE" using assms by (auto simp: stops_def)
  then show ?thesis using True unquote_double [of r s] by (simp add: quote_field_def read_field_def)
next
  case False
  then have plain: "\<forall>c\<in>set s. \<not> csv_special c" by (auto simp: list_ex_iff)
  have r: "r = [] \<or> csv_special (hd r)" using assms by (auto simp: stops_def csv_special_def)
  have "takeWhile (\<lambda>c. \<not> csv_special c) (s @ r) = s" "dropWhile (\<lambda>c. \<not> csv_special c) (s @ r) = r"
    using plain r by (cases r; simp)+
  moreover have "s @ r = [] \<or> hd (s @ r) \<noteq> DQUOTE"
    using plain assms by (cases s) (auto simp: csv_special_def stops_def)
  ultimately show ?thesis using False by (cases "s @ r") (auto simp: quote_field_def read_field_def)
qed

lemma read_last: "read_csv (quote_field f) = Some [[f]]"
  using read_quoted [of "[]" f] by (simp add: stops_def read_csv.simps [of "quote_field f"])

lemma read_comma:
  "read_csv (quote_field f @ COMMA # s) = (case read_csv s of Some (rec # recs) \<Rightarrow> Some ((f # rec) # recs) | _ \<Rightarrow> None)"
  using read_quoted [of "COMMA # s" f] by (simp add: stops_def read_csv.simps [of "quote_field f @ COMMA # s"])

lemma read_newline: "read_csv (quote_field f @ CR # LF # s) = map_option (\<lambda>recs. [f] # recs) (read_csv s)"
  using read_quoted [of "CR # LF # s" f]
  by (simp add: stops_def read_csv.simps [of "quote_field f @ CR # LF # s"] split: option.split)

lemma join_by_Cons: "xs \<noteq> [] \<Longrightarrow> join_by sep (x # xs) = x @ sep @ join_by sep xs"
  by (cases xs) simp_all

lemma read_record:
  "fs \<noteq> [] \<Longrightarrow> read_csv (join_by [COMMA] (map quote_field fs)) = Some [fs]
    \<and> read_csv (join_by [COMMA] (map quote_field fs) @ CR # LF # s) = map_option (\<lambda>recs. fs # recs) (read_csv s)"
proof (induction fs)
  case (Cons f fs)
  show ?case
  proof (cases "fs = []")
    case True
    then show ?thesis by (simp add: read_last read_newline)
  next
    case False
    then show ?thesis
      using Cons by (auto simp: join_by_Cons read_comma split: option.split)
  qed
qed simp

lemma read_records:
  assumes "recs \<noteq> []" and "\<forall>fs\<in>set recs. fs \<noteq> []"
  shows "read_csv (join_by [CR, LF] (map (\<lambda>fs. join_by [COMMA] (map quote_field fs)) recs)) = Some recs"
  using assms
proof (induction recs)
  case (Cons fs recs)
  then show ?case using read_record [of fs] by (cases "recs = []") (simp_all add: join_by_Cons)
qed simp

text \<open>
  C36. What the export writes can be read back: for rows with at least one key, when no
  key contains a quote, a comma or a line break, a CSV reader gets one record with the keys
  and then one record per row with the text of each cell under its key, empty where the row
  has none; and no cell of them begins with a character that makes a spreadsheet take it
  for a formula. The keys themselves are written as they are: with a comma in a key the
  header has a field more than the rows.
\<close>

theorem csv_roundtrip:
  assumes "csv_headers rows \<noteq> []" and "\<forall>h\<in>set (csv_headers rows). \<not> list_ex csv_special h"
  shows "read_csv (rowsToCsv num_text rows)
      = Some (csv_headers rows # map (\<lambda>row. map (\<lambda>h. cell_text num_text (map_of row h)) (csv_headers rows)) rows)
    \<and> (\<forall>row\<in>set rows. \<forall>h. cell_text num_text (map_of row h) = [] \<or> \<not> formula_trigger (hd (cell_text num_text (map_of row h))))"
proof -
  let ?recs = "csv_headers rows # map (\<lambda>row. map (\<lambda>h. cell_text num_text (map_of row h)) (csv_headers rows)) rows"
  have "rows \<noteq> []" using assms(1) by (auto simp: csv_headers_def)
  moreover have "map quote_field (csv_headers rows) = csv_headers rows"
    using assms(2) by (intro map_idI) (simp add: quote_field_def)
  ultimately have "rowsToCsv num_text rows = join_by [CR, LF] (map (\<lambda>fs. join_by [COMMA] (map quote_field fs)) ?recs)"
    by (simp add: rowsToCsv_def Let_def escape_cell_def o_def)
  moreover have "read_csv (join_by [CR, LF] (map (\<lambda>fs. join_by [COMMA] (map quote_field fs)) ?recs)) = Some ?recs"
    using assms(1) by (intro read_records) auto
  moreover have "guard_formula s = [] \<or> \<not> formula_trigger (hd (guard_formula s))" for s
    by (auto simp: guard_formula_def formula_trigger_def)
  then have "cell_text num_text v = [] \<or> \<not> formula_trigger (hd (cell_text num_text v))" for v
    by (auto simp: cell_text_def split: option.splits cell.splits)
  ultimately show ?thesis by simp
qed

definition demo_rows :: "unit export_row list" where
  "demo_rows = [[(''a'', Cell_Text [CHR ''='', COMMA, DQUOTE])], [(''b'', Cell_Bool True)]]"

lemma demo_headers: "csv_headers demo_rows = [''a'', ''b'']"
  by (simp add: csv_headers_def demo_rows_def add_key_def)

theorem csv_roundtrip_witness:
  "read_csv (rowsToCsv (\<lambda>_. ''0'') demo_rows) = Some [[''a'', ''b''], [[CHR 0x27, CHR ''='', COMMA, DQUOTE], []], [[], ''true'']]"
proof -
  have "csv_headers demo_rows \<noteq> []" "\<forall>h\<in>set (csv_headers demo_rows). \<not> list_ex csv_special h"
    by (simp_all add: demo_headers csv_special_def)
  then have "read_csv (rowsToCsv (\<lambda>_. ''0'') demo_rows)
      = Some ([''a'', ''b''] # map (\<lambda>row. map (\<lambda>h. cell_text (\<lambda>_. ''0'') (map_of row h)) [''a'', ''b'']) demo_rows)"
    using csv_roundtrip [of demo_rows "\<lambda>_. ''0''"] unfolding demo_headers by blast
  moreover have "map (\<lambda>row. map (\<lambda>h. cell_text (\<lambda>_. ''0'') (map_of row h)) [''a'', ''b'']) demo_rows
      = [[[CHR 0x27, CHR ''='', COMMA, DQUOTE], []], [[], ''true'']]"
    by (simp add: demo_rows_def cell_text_def guard_formula_def formula_trigger_def)
  ultimately show ?thesis by simp
qed

lemma comma_in_key:
  "read_csv (rowsToCsv (\<lambda>_ :: unit. ''0'') [[([CHR ''a'', COMMA], Cell_Bool True)]]) = Some [[''a'', []], [''true'']]"
  by code_simp

end
