(* ===== verification/Proxy_Guard.thy ===== *)
theory Proxy_Guard
  imports Prelude
begin

text \<open>
  The proxy in front of the web application, \<open>frontend/src/proxy.ts\<close>: it decides for every
  page request whether the page is served (rewritten to its path without the locale),
  passed through, or redirected to the login, to the dashboard or to a path with a locale.
  Verifying and signing tokens (\<open>frontend/src/lib/auth.ts\<close>) rests on the parameters of
  \<open>tokens\<close>.
\<close>

section \<open>Tokens\<close>

datatype token_type = TYPE_ACCESS | TYPE_REFRESH | TYPE_NONE

record tokens =
  verify_jwt :: "string \<Rightarrow> (string \<times> token_type) option" \<comment> \<open>\<open>jwtVerify\<close>: subject and type\<close>
  sign_jwt :: "string \<Rightarrow> token_type \<Rightarrow> string"

definition verifyToken :: "tokens \<Rightarrow> string \<Rightarrow> (string \<times> token_type) option" where
  "verifyToken T token = verify_jwt T token"

definition refreshAccessToken :: "tokens \<Rightarrow> string \<Rightarrow> string option" where
  "refreshAccessToken T token = (case verifyToken T token of
     None \<Rightarrow> None
   | Some (sub, ty) \<Rightarrow> if ty \<noteq> TYPE_REFRESH then None else Some (sign_jwt T sub TYPE_ACCESS))"

section \<open>Paths and locales\<close>

definition locales :: "string list" where
  "locales = [''en'', ''es'', ''fr'', ''ar'', ''he'', ''zh'', ''ja'']"

definition defaultLocale :: string where "defaultLocale = ''en''"

definition rtlLocales :: "string list" where "rtlLocales = [''ar'', ''he'']"

definition starts_with :: "string \<Rightarrow> string \<Rightarrow> bool" where
  "starts_with p s \<longleftrightarrow> take (length p) s = p"

text \<open>\<open>split\<close> at one character.\<close>

fun split_at :: "char \<Rightarrow> string \<Rightarrow> string list" where
  "split_at d [] = [[]]"
| "split_at d (c # s) = (case split_at d s of
     [] \<Rightarrow> [[c]]
   | x # xs \<Rightarrow> if c = d then [] # x # xs else (c # x) # xs)"

definition getLocaleFromHeader :: "string option \<Rightarrow> string" where
  "getLocaleFromHeader acceptLanguage = (case acceptLanguage of
     None \<Rightarrow> defaultLocale
   | Some h \<Rightarrow> if h = [] then defaultLocale else
       (let preferred = map (\<lambda>lang. take 2 (js_trim (hd (split_at (CHR '';'') lang)))) (split_at (CHR '','') h) in
        case find (\<lambda>m. m \<noteq> None) (map (\<lambda>pref. find (starts_with pref) locales) preferred) of
          Some (Some l) \<Rightarrow> l
        | _ \<Rightarrow> defaultLocale))"

definition getLocaleFromCookie :: "string option \<Rightarrow> string option" where
  "getLocaleFromCookie cookie = (if cookie = Some [] then None else cookie)"

text \<open>\<open>r\<close> is the name or continues with a slash after it: \<open>name(\/.*)?$\<close>.\<close>

definition route_tail :: "string \<Rightarrow> string \<Rightarrow> bool" where
  "route_tail name r \<longleftrightarrow> r = name \<or> starts_with (name @ ''/'') r"

text \<open>The pattern \<open>^\/([^\/]+\/)?name(\/.*)?$\<close>.\<close>

definition is_route :: "string \<Rightarrow> string \<Rightarrow> bool" where
  "is_route name p \<longleftrightarrow> (case p of
     [] \<Rightarrow> False
   | c # r \<Rightarrow> c = CHR ''/'' \<and> (route_tail name r
       \<or> (let seg = takeWhile (\<lambda>c. c \<noteq> CHR ''/'') r; rest = dropWhile (\<lambda>c. c \<noteq> CHR ''/'') r in
            seg \<noteq> [] \<and> rest \<noteq> [] \<and> route_tail name (tl rest))))"

definition in_locale :: "string \<Rightarrow> string \<Rightarrow> bool" where
  "in_locale pathname l \<longleftrightarrow> starts_with (''/'' @ l @ ''/'') pathname \<or> pathname = ''/'' @ l"

section \<open>The proxy\<close>

record page_request =
  pr_path :: string
  pr_query :: "(string \<times> string) list"
  pr_accessToken :: "string option"
  pr_refreshToken :: "string option"
  pr_localeCookie :: "string option"
  pr_acceptLanguage :: "string option"

datatype page_kind = REDIRECT | REWRITE | PASS

record page_response =
  ps_kind :: page_kind
  ps_path :: string
  ps_query :: "(string \<times> string) list"
  ps_locale :: "string option"
  ps_dir :: "string option"
  ps_newToken :: "string option" \<comment> \<open>the access token set as a cookie\<close>

definition session_of :: "tokens \<Rightarrow> page_request \<Rightarrow> bool \<times> string option" where
  "session_of T req =
     (let valid = (case pr_accessToken req of None \<Rightarrow> False | Some t \<Rightarrow> t \<noteq> [] \<and> verifyToken T t \<noteq> None) in
      if valid then (True, None)
      else case pr_refreshToken req of
        None \<Rightarrow> (False, None)
      | Some t \<Rightarrow> if t = [] then (False, None)
          else (case refreshAccessToken T t of None \<Rightarrow> (False, None) | Some new \<Rightarrow> (True, Some new)))"

definition redirect_to :: "string \<Rightarrow> (string \<times> string) list \<Rightarrow> page_response" where
  "redirect_to path query = \<lparr>ps_kind = REDIRECT, ps_path = path, ps_query = query, ps_locale = None, ps_dir = None, ps_newToken = None\<rparr>"

definition dir_of :: "string \<Rightarrow> string" where
  "dir_of l = (if l \<in> set rtlLocales then ''rtl'' else ''ltr'')"

text \<open>\<open>pathname.replace("/" + locale, "")\<close> with the locale the path begins with.\<close>

definition without_locale :: "string \<Rightarrow> string \<Rightarrow> string" where
  "without_locale l pathname = (let r = drop (length l + 1) pathname in if r = [] then ''/'' else r)"

definition localized :: "page_request \<Rightarrow> page_response" where
  "localized req =
     (let pathname = pr_path req in
      case find (in_locale pathname) locales of
        Some _ \<Rightarrow>
          let locale = (case split_at (CHR ''/'') pathname of _ # l # _ \<Rightarrow> if l = [] then defaultLocale else l | _ \<Rightarrow> defaultLocale)
          in \<lparr>ps_kind = REWRITE, ps_path = without_locale locale pathname, ps_query = pr_query req,
               ps_locale = Some locale, ps_dir = Some (dir_of locale), ps_newToken = None\<rparr>
      | None \<Rightarrow>
          if starts_with ''/_next'' pathname \<or> starts_with ''/api'' pathname \<or> CHR ''.'' \<in> set pathname \<or> pathname = ''/favicon.ico''
          then \<lparr>ps_kind = PASS, ps_path = pathname, ps_query = pr_query req, ps_locale = None, ps_dir = None, ps_newToken = None\<rparr>
          else let l = (case getLocaleFromCookie (pr_localeCookie req) of Some c \<Rightarrow> c | None \<Rightarrow> getLocaleFromHeader (pr_acceptLanguage req));
                   locale = (if l \<in> set locales then l else defaultLocale)
               in \<lparr>ps_kind = REDIRECT, ps_path = ''/'' @ locale @ pathname, ps_query = pr_query req,
                    ps_locale = Some locale, ps_dir = Some (dir_of locale), ps_newToken = None\<rparr>)"

definition proxy :: "tokens \<Rightarrow> page_request \<Rightarrow> page_response" where
  "proxy T req =
     (case session_of T req of (isValid, newAccessToken) \<Rightarrow>
      let pathname = pr_path req;
          currentLocale = (case find (in_locale pathname) locales of Some l \<Rightarrow> l | None \<Rightarrow> defaultLocale)
      in if is_route ''dashboard'' pathname \<and> \<not> isValid
         then redirect_to (''/'' @ currentLocale @ ''/login'') [(''from'', pathname)]
         else if is_route ''login'' pathname \<and> isValid
         then redirect_to (''/'' @ currentLocale @ ''/dashboard'') []
         else (localized req)\<lparr>ps_newToken := newAccessToken\<rparr>)"

section \<open>Properties\<close>

text \<open>What counts as a session: an access token that verifies, or a refresh token that does and is one.\<close>

definition has_session :: "tokens \<Rightarrow> page_request \<Rightarrow> bool" where
  "has_session T req \<longleftrightarrow>
     (case pr_accessToken req of None \<Rightarrow> False | Some t \<Rightarrow> t \<noteq> [] \<and> verify_jwt T t \<noteq> None)
     \<or> (case pr_refreshToken req of None \<Rightarrow> False | Some t \<Rightarrow> t \<noteq> [] \<and> map_option snd (verify_jwt T t) = Some TYPE_REFRESH)"

lemma session_valid: "fst (session_of T req) \<longleftrightarrow> has_session T req"
  by (auto simp: session_of_def has_session_def refreshAccessToken_def verifyToken_def Let_def split: option.splits prod.splits)

lemma current_locale: "(case find (in_locale p) locales of Some l \<Rightarrow> l | None \<Rightarrow> defaultLocale) \<in> set locales"
  by (auto simp: defaultLocale_def locales_def dest: find_SomeD split: option.split)

text \<open>
  The dashboard is only for visitors with a session: a page of the dashboard, with or
  without a locale in front, is served only when the access token verifies, or the refresh
  token verifies and is one; otherwise the visitor is sent to the login page of a supported
  locale, which gets to know where to return to. A visitor with a session who asks for the
  login page is sent to the dashboard instead.
\<close>

theorem proxy_guards_pages:
  assumes "is_route ''dashboard'' (pr_path req) \<or> is_route ''login'' (pr_path req)"
  shows "if is_route ''dashboard'' (pr_path req) \<and> \<not> has_session T req
      then \<exists>l\<in>set locales. proxy T req = redirect_to (''/'' @ l @ ''/login'') [(''from'', pr_path req)]
      else if has_session T req \<and> is_route ''login'' (pr_path req)
      then \<exists>l\<in>set locales. proxy T req = redirect_to (''/'' @ l @ ''/dashboard'') []
      else proxy T req = (localized req)\<lparr>ps_newToken := snd (session_of T req)\<rparr>"
proof -
  obtain v n where s: "session_of T req = (v, n)" by (cases "session_of T req")
  then have "v = has_session T req" using session_valid [of T req] by simp
  then show ?thesis using s current_locale [of "pr_path req"] by (auto simp: proxy_def Let_def)
qed

definition demo_tokens :: tokens where
  "demo_tokens = \<lparr>verify_jwt = (\<lambda>t. if t = ''good'' then Some (''u'', TYPE_ACCESS) else None), sign_jwt = (\<lambda>s _. s)\<rparr>"

definition demo_page :: "string \<Rightarrow> string option \<Rightarrow> page_request" where
  "demo_page p t = \<lparr>pr_path = p, pr_query = [], pr_accessToken = t, pr_refreshToken = None, pr_localeCookie = None, pr_acceptLanguage = None\<rparr>"

theorem proxy_guards_pages_witness:
  "\<exists>l\<in>set locales. proxy demo_tokens (demo_page ''/es/dashboard/loans'' (Some ''bad''))
     = redirect_to (''/'' @ l @ ''/login'') [(''from'', ''/es/dashboard/loans'')]"
proof -
  have r: "is_route ''dashboard'' (pr_path (demo_page ''/es/dashboard/loans'' (Some ''bad'')))"
    by (simp add: demo_page_def is_route_def route_tail_def starts_with_def)
  moreover have "\<not> has_session demo_tokens (demo_page ''/es/dashboard/loans'' (Some ''bad''))"
    by (simp add: has_session_def demo_page_def demo_tokens_def)
  ultimately show ?thesis
    using proxy_guards_pages [of "demo_page ''/es/dashboard/loans'' (Some ''bad'')" demo_tokens] by (simp add: demo_page_def)
qed

lemma localized_with_locale:
  assumes "l \<in> set locales" and "in_locale (pr_path req) l"
  shows "ps_kind (localized req) = REWRITE"
proof -
  have "find (in_locale (pr_path req)) locales \<noteq> None" using assms by (auto simp: find_None_iff)
  then show ?thesis by (auto simp: localized_def Let_def)
qed

lemma locale_prefix_route:
  assumes "l \<in> set locales" and "name \<in> {''dashboard'', ''login''}" and "is_route name (''/'' @ l @ CHR ''/'' # r)"
  shows "is_route name (CHR ''/'' # r)"
proof -
  have "\<not> route_tail name (l @ CHR ''/'' # r)"
    using assms(1,2) by (auto simp: locales_def route_tail_def starts_with_def)
  moreover have "takeWhile (\<lambda>c. c \<noteq> CHR ''/'') (l @ CHR ''/'' # r) = l" "dropWhile (\<lambda>c. c \<noteq> CHR ''/'') (l @ CHR ''/'' # r) = CHR ''/'' # r"
    using assms(1) by (auto simp: locales_def)
  ultimately show ?thesis using assms(3) by (simp add: is_route_def)
qed

lemma login_page: "l \<in> set locales \<Longrightarrow> \<not> is_route ''dashboard'' (''/'' @ l @ ''/login'') \<and> in_locale (''/'' @ l @ ''/login'') l"
  by (auto simp: locales_def is_route_def route_tail_def starts_with_def in_locale_def)

lemma dashboard_page: "l \<in> set locales \<Longrightarrow> \<not> is_route ''login'' (''/'' @ l @ ''/dashboard'') \<and> in_locale (''/'' @ l @ ''/dashboard'') l"
  by (auto simp: locales_def is_route_def route_tail_def starts_with_def in_locale_def)

text \<open>
  C37. There are no redirect loops: when the proxy redirects a request, the request for
  the new address, as long as it has a session exactly when the first one had, is answered
  by serving the page.
\<close>

theorem one_redirect_suffices:
  assumes "pr_path req = CHR ''/'' # r" and "ps_kind (proxy T req) = REDIRECT"
    and "pr_path req' = ps_path (proxy T req)" and "fst (session_of T req') = fst (session_of T req)"
  shows "ps_kind (proxy T req') = REWRITE"
proof -
  obtain v n where s: "session_of T req = (v, n)" by (cases "session_of T req")
  obtain n' where s': "session_of T req' = (v, n')" using assms(4) s by (cases "session_of T req'") auto
  let ?l = "case find (in_locale (pr_path req)) locales of Some l \<Rightarrow> l | None \<Rightarrow> defaultLocale"
  have l: "?l \<in> set locales" by (rule current_locale)
  consider (login) "is_route ''dashboard'' (pr_path req)" "\<not> v"
    | (dashboard) "is_route ''login'' (pr_path req)" "v"
    | (other) "is_route ''dashboard'' (pr_path req) \<longrightarrow> v" "is_route ''login'' (pr_path req) \<longrightarrow> \<not> v"
    by blast
  then show ?thesis
  proof cases
    case login
    then have "pr_path req' = ''/'' @ ?l @ ''/login''" using assms(3) s by (simp add: proxy_def redirect_to_def Let_def)
    then show ?thesis using login_page [OF l] localized_with_locale [OF l, of req'] login(2) s' by (simp add: proxy_def Let_def)
  next
    case dashboard
    then have "pr_path req' = ''/'' @ ?l @ ''/dashboard''" using assms(3) s by (simp add: proxy_def redirect_to_def Let_def)
    then show ?thesis using dashboard_page [OF l] localized_with_locale [OF l, of req'] dashboard(2) s' by (simp add: proxy_def Let_def)
  next
    case other
    then have "proxy T req = (localized req)\<lparr>ps_newToken := n\<rparr>" using s by (auto simp: proxy_def Let_def)
    then have "ps_kind (localized req) = REDIRECT" "pr_path req' = ps_path (localized req)" using assms(2,3) by simp_all
    then obtain k where k: "k \<in> set locales" "pr_path req' = ''/'' @ k @ CHR ''/'' # r"
      using assms(1) by (auto simp: localized_def Let_def locales_def defaultLocale_def split: option.splits if_splits)
    have "in_locale (pr_path req') k" using k by (simp add: in_locale_def starts_with_def)
    moreover have "is_route name (pr_path req') \<Longrightarrow> is_route name (pr_path req)" if "name \<in> {''dashboard'', ''login''}" for name
      using locale_prefix_route [OF k(1) that] k(2) assms(1) by simp
    then have "is_route ''dashboard'' (pr_path req') \<longrightarrow> v" "is_route ''login'' (pr_path req') \<longrightarrow> \<not> v"
      using other by blast+
    ultimately show ?thesis using localized_with_locale [OF k(1), of req'] s' by (auto simp: proxy_def Let_def)
  qed
qed

theorem one_redirect_suffices_witness:
  "ps_kind (proxy demo_tokens (demo_page ''/dashboard'' None)) = REDIRECT
   \<and> ps_kind (proxy demo_tokens (demo_page ''/en/login'' None)) = REWRITE"
proof -
  have k: "ps_kind (proxy demo_tokens (demo_page ''/dashboard'' None)) = REDIRECT"
    "ps_path (proxy demo_tokens (demo_page ''/dashboard'' None)) = ''/en/login''" by code_simp+
  have "fst (session_of demo_tokens (demo_page p None)) = False" for p
    by (simp add: session_of_def demo_page_def)
  then show ?thesis
    using one_redirect_suffices [of "demo_page ''/dashboard'' None" "''dashboard''" demo_tokens "demo_page ''/en/login'' None"] k
    by (simp add: demo_page_def)
qed

text \<open>
  A double slash after the locale makes the address of the rewrite begin with two slashes,
  which a URL takes for the name of another host.
\<close>

lemma rewrite_network_path:
  "ps_kind (proxy demo_tokens (demo_page ''/en//host/x'' None)) = REWRITE \<and> ps_path (proxy demo_tokens (demo_page ''/en//host/x'' None)) = ''//host/x''"
  by code_simp

end
