(* ===== verification/Web_Auth.thy ===== *)
theory Web_Auth
  imports Proxy_Guard Database
begin

text \<open>
  Logging in to the web application: the routes \<open>challenge\<close>, \<open>verify\<close>, \<open>refresh\<close> and
  \<open>logout\<close> under \<open>frontend/src/app/api/v1/auth\<close>. They keep no state of their own: the
  challenge and the tokens are in cookies, so a request is its body and its cookies. The
  library of Stellar keys, JSON texts, byte buffers and URLs are the parameters of
  \<open>web_env\<close>; that the key of the tokens is configured is assumed.
\<close>

section \<open>Requests\<close>

record web_env =
  valid_key :: "string \<Rightarrow> bool" \<comment> \<open>\<open>StrKey.isValidEd25519PublicKey\<close>\<close>
  check_signature :: "string \<Rightarrow> string \<Rightarrow> string \<Rightarrow> bool option" \<comment> \<open>\<open>Keypair.fromPublicKey(key).verify(data, signature)\<close>; none when it throws\<close>
  json_parse :: "string \<Rightarrow> json option"
  json_text :: "json \<Rightarrow> string"
  buffer_of :: "json option \<Rightarrow> string option" \<comment> \<open>\<open>Buffer.from(v)\<close>\<close>
  base64_buffer :: "json \<Rightarrow> string option" \<comment> \<open>\<open>Buffer.from(v, "base64")\<close>\<close>
  url_host :: "string \<Rightarrow> string option" \<comment> \<open>\<open>new URL(v).host\<close>\<close>

record jar =
  nonceCookie :: "string option"
  accessCookie :: "string option"
  refreshCookie :: "string option"

datatype web_reply = Web_OK "string option" | Web_Error nat string

text \<open>Destructuring: \<open>null\<close> throws; what is no object has no properties.\<close>

definition prop_of :: "json \<Rightarrow> string \<Rightarrow> json option" where
  "prop_of j k = (case j of JObj kvs \<Rightarrow> map_of kvs k | _ \<Rightarrow> None)"

definition destructured :: "json option \<Rightarrow> json option" where
  "destructured v = (if v = Some JNull then None else v)"

definition json_truthy :: "json option \<Rightarrow> bool" where
  "json_truthy v = (case v of
     None \<Rightarrow> False | Some JNull \<Rightarrow> False | Some (JBool b) \<Rightarrow> b
   | Some (JNum x) \<Rightarrow> x \<noteq> NaN \<and> x \<noteq> Fin 0 | Some (JStr s) \<Rightarrow> s \<noteq> [] | _ \<Rightarrow> True)"

text \<open>\<open>===\<close> of two values of different texts: objects and lists are never the same.\<close>

definition strict_eq :: "json option \<Rightarrow> json option \<Rightarrow> bool" where
  "strict_eq a b \<longleftrightarrow> a = b \<and> (case a of Some (JArr _) \<Rightarrow> False | Some (JObj _) \<Rightarrow> False | Some (JNum NaN) \<Rightarrow> False | _ \<Rightarrow> True)"

section \<open>The routes\<close>

definition internal_error :: web_reply where
  "internal_error = Web_Error 500 ''Internal Server Error''"

text \<open>\<open>body\<close> is none when the text of the request is no JSON.\<close>

definition web_challenge :: "web_env \<Rightarrow> string \<Rightarrow> json option \<Rightarrow> jar \<Rightarrow> web_reply \<times> jar" where
  "web_challenge W nonce body c = (case destructured body of
     None \<Rightarrow> (internal_error, c)
   | Some j \<Rightarrow>
       (case prop_of j ''publicKey'' of
          Some (JStr k) \<Rightarrow>
            if k = [] \<or> \<not> valid_key W k then (Web_Error 400 ''Invalid public key'', c)
            else (Web_OK (Some nonce),
              c\<lparr>nonceCookie := Some (json_text W (JObj [(''nonce'', JStr nonce), (''publicKey'', JStr k)]))\<rparr>)
        | _ \<Rightarrow> (Web_Error 400 ''Invalid public key'', c)))"

definition setAuthCookies :: "string \<Rightarrow> string \<Rightarrow> jar \<Rightarrow> jar" where
  "setAuthCookies accessToken refreshToken c = c\<lparr>accessCookie := Some accessToken, refreshCookie := Some refreshToken\<rparr>"

definition clearAuthCookies :: "jar \<Rightarrow> jar" where
  "clearAuthCookies c = c\<lparr>accessCookie := None, refreshCookie := None\<rparr>"

text \<open>\<open>Keypair.fromPublicKey\<close> throws on what is no text, as \<open>Buffer.from\<close> does on what it cannot take.\<close>

definition signature_of_request :: "web_env \<Rightarrow> json option \<Rightarrow> json option \<Rightarrow> json option \<Rightarrow> (string \<times> bool) option" where
  "signature_of_request W publicKey nonce signedMessage = (case publicKey of
     Some (JStr k) \<Rightarrow>
       (case (buffer_of W nonce, base64_buffer W (the signedMessage)) of
          (Some m, Some sg) \<Rightarrow> map_option (Pair k) (check_signature W k m sg)
        | _ \<Rightarrow> None)
   | _ \<Rightarrow> None)"

text \<open>The rest of \<open>verify\<close> for the body \<open>j\<close> and the content \<open>d\<close> of the cookie.\<close>

definition verify_bound :: "web_env \<Rightarrow> tokens \<Rightarrow> json \<Rightarrow> json \<Rightarrow> jar \<Rightarrow> web_reply \<times> jar" where
  "verify_bound W T j d c =
     (let publicKey = prop_of j ''publicKey''; signedMessage = prop_of j ''signedMessage''; signerPublicKey = prop_of j ''signerPublicKey'' in
      if \<not> strict_eq publicKey (prop_of d ''publicKey'') \<or> json_truthy signerPublicKey \<and> \<not> strict_eq publicKey signerPublicKey
      then (Web_Error 400 ''Public key mismatch'', c)
      else if \<not> json_truthy publicKey \<or> \<not> json_truthy signedMessage
      then (Web_Error 400 ''Missing credentials'', c)
      else (case signature_of_request W publicKey (prop_of d ''nonce'') signedMessage of
          None \<Rightarrow> (internal_error, c)
        | Some (k, isValid) \<Rightarrow>
            if \<not> isValid then (Web_Error 401 ''Invalid signature'', c)
            else (Web_OK None,
              (setAuthCookies (sign_jwt T k TYPE_ACCESS) (sign_jwt T k TYPE_REFRESH) c)\<lparr>nonceCookie := None\<rparr>)))"

definition web_verify :: "web_env \<Rightarrow> tokens \<Rightarrow> json option \<Rightarrow> jar \<Rightarrow> web_reply \<times> jar" where
  "web_verify W T body c = (case destructured body of
     None \<Rightarrow> (internal_error, c)
   | Some j \<Rightarrow>
       (case nonceCookie c of
          None \<Rightarrow> (Web_Error 400 ''No active challenge found'', c)
        | Some storedNonceData \<Rightarrow>
            if storedNonceData = [] then (Web_Error 400 ''No active challenge found'', c)
            else (case destructured (json_parse W storedNonceData) of
                None \<Rightarrow> (internal_error, c)
              | Some d \<Rightarrow> verify_bound W T j d c)))"

definition web_refresh :: "tokens \<Rightarrow> jar \<Rightarrow> web_reply \<times> jar" where
  "web_refresh T c = (case refreshCookie c of
     None \<Rightarrow> (Web_Error 401 ''No refresh token'', c)
   | Some token \<Rightarrow>
       if token = [] then (Web_Error 401 ''No refresh token'', c)
       else (case refreshAccessToken T token of
           None \<Rightarrow> (Web_Error 401 ''Invalid or expired refresh token'', c)
         | Some accessToken \<Rightarrow> (Web_OK None, setAuthCookies accessToken token c)))"

definition web_logout :: "web_env \<Rightarrow> string option \<Rightarrow> string option \<Rightarrow> jar \<Rightarrow> web_reply \<times> jar" where
  "web_logout W origin host c =
     (let o' = (case origin of None \<Rightarrow> [] | Some s \<Rightarrow> s); h = (case host of None \<Rightarrow> [] | Some s \<Rightarrow> s) in
      if o' \<noteq> [] \<and> h \<noteq> [] \<and> url_host W o' \<noteq> Some h then (Web_Error 403 ''Forbidden'', c)
      else (Web_OK None, clearAuthCookies c))"

section \<open>What a login needs\<close>

lemma destructured_Some: "destructured v = Some j \<longleftrightarrow> v = Some j \<and> j \<noteq> JNull"
  and destructured_None: "destructured v = None \<longleftrightarrow> v = None \<or> v = Some JNull"
  by (auto simp: destructured_def)

lemma strict_eq_text [simp]: "strict_eq (Some (JStr k)) v \<longleftrightarrow> v = Some (JStr k)"
  by (auto simp: strict_eq_def)

lemma signature_of_request_Some:
  "signature_of_request W publicKey nonce sm = Some (k, v) \<longleftrightarrow>
     publicKey = Some (JStr k) \<and> (\<exists>m sg. buffer_of W nonce = Some m \<and> base64_buffer W (the sm) = Some sg \<and> check_signature W k m sg = Some v)"
  by (cases publicKey) (auto simp: signature_of_request_def split: option.splits json.splits)

text \<open>What the request and its cookie, whose content is \<open>d\<close>, have to show for a login as \<open>k\<close>.\<close>

definition proves_key :: "web_env \<Rightarrow> json \<Rightarrow> json \<Rightarrow> string \<Rightarrow> bool" where
  "proves_key W j d k \<longleftrightarrow>
     k \<noteq> [] \<and> prop_of j ''publicKey'' = Some (JStr k) \<and> prop_of d ''publicKey'' = Some (JStr k)
     \<and> (json_truthy (prop_of j ''signerPublicKey'') \<longrightarrow> prop_of j ''signerPublicKey'' = Some (JStr k))
     \<and> json_truthy (prop_of j ''signedMessage'')
     \<and> (\<exists>m sg. buffer_of W (prop_of d ''nonce'') = Some m \<and> base64_buffer W (the (prop_of j ''signedMessage'')) = Some sg
          \<and> check_signature W k m sg = Some True)"

lemma proves_key_null [simp]: "\<not> proves_key W JNull d k" "\<not> proves_key W j JNull k"
  by (simp_all add: proves_key_def prop_of_def)

definition logged_in :: "tokens \<Rightarrow> string \<Rightarrow> jar" where
  "logged_in T k = \<lparr>nonceCookie = None, accessCookie = Some (sign_jwt T k TYPE_ACCESS), refreshCookie = Some (sign_jwt T k TYPE_REFRESH)\<rparr>"

lemma verify_bound_OK:
  "verify_bound W T j d c = (Web_OK r, c') \<longleftrightarrow> r = None \<and> (\<exists>k. proves_key W j d k \<and> c' = logged_in T k)"
proof (cases "signature_of_request W (prop_of j ''publicKey'') (prop_of d ''nonce'') (prop_of j ''signedMessage'')")
  case None
  then have "\<not> proves_key W j d k" for k
    using signature_of_request_Some [of W "prop_of j ''publicKey''" "prop_of d ''nonce''" "prop_of j ''signedMessage''" k True]
    by (auto simp: proves_key_def)
  then show ?thesis using None by (simp add: verify_bound_def internal_error_def Let_def)
next
  case (Some kv)
  obtain k v where kv: "kv = (k, v)" by fastforce
  have k: "prop_of j ''publicKey'' = Some (JStr k)" using Some unfolding kv signature_of_request_Some by (rule conjunct1)
  have "proves_key W j d k' \<Longrightarrow> k' = k \<and> v" for k'
    using Some kv signature_of_request_Some [of W "prop_of j ''publicKey''" "prop_of d ''nonce''" "prop_of j ''signedMessage''" k v]
    by (auto simp: proves_key_def)
  then show ?thesis
    using Some kv k signature_of_request_Some [of W "prop_of j ''publicKey''" "prop_of d ''nonce''" "prop_of j ''signedMessage''" k v]
    by (auto simp: verify_bound_def proves_key_def logged_in_def setAuthCookies_def json_truthy_def Let_def)
qed

lemma verify_bound_error:
  "verify_bound W T j d c = (Web_Error code msg, c') \<Longrightarrow> 400 \<le> code \<and> c' = c"
  by (auto simp: verify_bound_def internal_error_def Let_def split: option.splits if_splits)

lemma web_verify_OK:
  "web_verify W T body c = (Web_OK r, c') \<longleftrightarrow> r = None \<and>
     (\<exists>j s d k. body = Some j \<and> nonceCookie c = Some s \<and> s \<noteq> [] \<and> json_parse W s = Some d \<and> proves_key W j d k \<and> c' = logged_in T k)"
  unfolding web_verify_def
  by (auto simp: internal_error_def verify_bound_OK destructured_Some destructured_None split: option.split)

lemma web_verify_error: "web_verify W T body c = (Web_Error code msg, c') \<Longrightarrow> 400 \<le> code \<and> c' = c"
  by (auto simp: web_verify_def internal_error_def dest: verify_bound_error split: option.splits if_splits)

text \<open>
  C8. A login in the web application succeeds exactly for a body and a challenge cookie
  that name the same public key (and no other signer), with a signature of that key over
  the nonce of the cookie; it then leaves an access and a refresh token of this key and
  no challenge. In every other case an error is answered and no cookie changes.
\<close>

theorem web_login_exact:
  "case web_verify W T body c of
     (Web_OK r, c') \<Rightarrow>
       \<exists>j s d k. body = Some j \<and> nonceCookie c = Some s \<and> json_parse W s = Some d \<and> proves_key W j d k \<and> c' = logged_in T k
   | (Web_Error code msg, c') \<Rightarrow>
       400 \<le> code \<and> c' = c \<and> (\<nexists>j s d k. body = Some j \<and> nonceCookie c = Some s \<and> s \<noteq> [] \<and> json_parse W s = Some d \<and> proves_key W j d k)"
proof (cases "web_verify W T body c")
  case (Pair reply c')
  show ?thesis
  proof (cases reply)
    case (Web_OK r)
    then show ?thesis using web_verify_OK [of W T body c r c'] Pair by auto
  next
    case (Web_Error code msg)
    have "\<nexists>j s d k. body = Some j \<and> nonceCookie c = Some s \<and> s \<noteq> [] \<and> json_parse W s = Some d \<and> proves_key W j d k"
    proof
      assume "\<exists>j s d k. body = Some j \<and> nonceCookie c = Some s \<and> s \<noteq> [] \<and> json_parse W s = Some d \<and> proves_key W j d k"
      then obtain k where "web_verify W T body c = (Web_OK None, logged_in T k)" using web_verify_OK by blast
      then show False using Pair Web_Error by simp
    qed
    then show ?thesis using Pair Web_Error web_verify_error [of W T body c code msg c'] by simp
  qed
qed

section \<open>Challenges that were never issued\<close>


text \<open>An environment in which the text \<open>s\<close> is the signature of every text by every key.\<close>

definition demo_challenge :: json where
  "demo_challenge = JObj [(''nonce'', JStr ''n''), (''publicKey'', JStr ''k'')]"

definition demo_web :: web_env where
  "demo_web = \<lparr>valid_key = (\<lambda>k. k = ''k''), check_signature = (\<lambda>k m sg. Some (sg = ''s'')),
     json_parse = (\<lambda>s. if s = ''c'' then Some demo_challenge else None), json_text = (\<lambda>_. ''c''),
     buffer_of = (\<lambda>v. case v of Some (JStr s) \<Rightarrow> Some s | _ \<Rightarrow> None),
     base64_buffer = (\<lambda>v. case v of JStr s \<Rightarrow> Some s | _ \<Rightarrow> None), url_host = Some\<rparr>"


section \<open>A browser\<close>

text \<open>
  A browser keeps the cookies it is given. It uses the routes and asks for pages, each time
  with the tokens as they can be signed and verified at that time. The second part of the
  state is the key it is logged in with, as its history has it: set by a login that
  succeeded, cleared by a logout that did.
\<close>

datatype browser_event =
    B_Challenge string "json option"
  | B_Verify "json option"
  | B_Refresh
  | B_Logout "string option" "string option"
  | B_Page page_request

definition with_cookies :: "jar \<Rightarrow> page_request \<Rightarrow> page_request" where
  "with_cookies c q = q\<lparr>pr_accessToken := accessCookie c, pr_refreshToken := refreshCookie c\<rparr>"

definition key_named :: "json option \<Rightarrow> string" where
  "key_named body = (case prop_of (the body) ''publicKey'' of Some (JStr k) \<Rightarrow> k | _ \<Rightarrow> [])"

fun browser_step :: "web_env \<Rightarrow> tokens \<Rightarrow> browser_event \<Rightarrow> jar \<times> string option \<Rightarrow> jar \<times> string option" where
  "browser_step W T (B_Challenge nonce body) (c, who) = (snd (web_challenge W nonce body c), who)"
| "browser_step W T (B_Verify body) (c, who) = (case web_verify W T body c of
     (Web_OK _, c') \<Rightarrow> (c', Some (key_named body)) | (Web_Error _ _, c') \<Rightarrow> (c', who))"
| "browser_step W T B_Refresh (c, who) = (snd (web_refresh T c), who)"
| "browser_step W T (B_Logout origin host) (c, who) = (case web_logout W origin host c of
     (Web_OK _, c') \<Rightarrow> (c', None) | (Web_Error _ _, c') \<Rightarrow> (c', who))"
| "browser_step W T (B_Page q) (c, who) = (case ps_newToken (proxy T (with_cookies c q)) of
     None \<Rightarrow> (c, who) | Some t \<Rightarrow> (c\<lparr>accessCookie := Some t\<rparr>, who))"

definition empty_jar :: jar where
  "empty_jar = \<lparr>nonceCookie = None, accessCookie = None, refreshCookie = None\<rparr>"

definition browse :: "web_env \<Rightarrow> (int \<Rightarrow> tokens) \<Rightarrow> (int \<times> browser_event) list \<Rightarrow> jar \<times> string option" where
  "browse W T evs = fold (\<lambda>(t, e). browser_step W (T t) e) evs (empty_jar, None)"

text \<open>What tokens promise: one that was signed is, at any time, that of its subject and type or not valid.\<close>

definition token_laws :: "(int \<Rightarrow> tokens) \<Rightarrow> bool" where
  "token_laws T \<longleftrightarrow> (\<forall>t t' k ty. verify_jwt (T t') (sign_jwt (T t) k ty) \<in> {None, Some (k, ty)})"

definition jar_of :: "(int \<Rightarrow> tokens) \<Rightarrow> jar \<Rightarrow> string option \<Rightarrow> bool" where
  "jar_of T c who \<longleftrightarrow> (case who of
     None \<Rightarrow> accessCookie c = None \<and> refreshCookie c = None
   | Some k \<Rightarrow> (\<exists>t. accessCookie c = Some (sign_jwt (T t) k TYPE_ACCESS)) \<and> (\<exists>t. refreshCookie c = Some (sign_jwt (T t) k TYPE_REFRESH)))"

lemma refreshed_token:
  assumes "token_laws T" and "refreshAccessToken (T t) (sign_jwt (T t') k TYPE_REFRESH) = Some a"
  shows "a = sign_jwt (T t) k TYPE_ACCESS"
proof -
  have "verify_jwt (T t) (sign_jwt (T t') k TYPE_REFRESH) \<in> {None, Some (k, TYPE_REFRESH)}"
    using assms(1) by (auto simp: token_laws_def)
  then show ?thesis using assms(2) by (auto simp: refreshAccessToken_def verifyToken_def)
qed

lemma challenge_keeps_tokens: "accessCookie (snd (web_challenge W n body c)) = accessCookie c"
  "refreshCookie (snd (web_challenge W n body c)) = refreshCookie c"
  by (auto simp: web_challenge_def internal_error_def split: option.split json.split)

lemma proves_key_named: "proves_key W j d k \<Longrightarrow> key_named (Some j) = k"
  by (simp add: proves_key_def key_named_def)

lemma jar_of_login: "jar_of T (logged_in (T t) k) (Some k)"
  by (auto simp: jar_of_def logged_in_def)

lemma new_token: "ps_newToken (proxy T req) = Some a \<Longrightarrow> \<exists>r. pr_refreshToken req = Some r \<and> refreshAccessToken T r = Some a"
  by (auto simp: proxy_def session_of_def redirect_to_def Let_def split: prod.splits option.splits if_splits)

lemma jar_of_step:
  assumes "token_laws T" and "jar_of T c who"
  shows "case browser_step W (T t) e (c, who) of (c', who') \<Rightarrow> jar_of T c' who'"
proof (cases e)
  case (B_Challenge n body)
  then show ?thesis using assms(2) by (auto simp: jar_of_def challenge_keeps_tokens split: option.splits)
next
  case (B_Verify body)
  show ?thesis
  proof (cases "web_verify W (T t) body c")
    case (Pair reply c')
    show ?thesis
    proof (cases reply)
      case (Web_OK r)
      then have "\<exists>k. c' = logged_in (T t) k \<and> key_named body = k"
        using Pair web_verify_OK [of W "T t" body c r c'] proves_key_named by blast
      then show ?thesis using B_Verify Pair Web_OK jar_of_login [of T t] by auto
    next
      case (Web_Error code msg)
      then show ?thesis using B_Verify Pair assms(2) web_verify_error [of W "T t" body c code msg c'] by simp
    qed
  qed
next
  case B_Refresh
  then show ?thesis
    using assms by (auto simp: web_refresh_def jar_of_def setAuthCookies_def dest!: refreshed_token [OF assms(1)] split: option.splits)
next
  case (B_Logout origin host)
  then show ?thesis using assms(2) by (auto simp: web_logout_def jar_of_def clearAuthCookies_def Let_def split: option.splits)
next
  case (B_Page q)
  show ?thesis
  proof (cases "ps_newToken (proxy (T t) (with_cookies c q))")
    case None
    then show ?thesis using B_Page assms(2) by simp
  next
    case (Some a)
    then obtain r where "refreshCookie c = Some r" "refreshAccessToken (T t) r = Some a"
      using new_token [of "T t" "with_cookies c q" a] by (auto simp: with_cookies_def)
    then show ?thesis
      using B_Page Some assms by (auto simp: jar_of_def dest!: refreshed_token [OF assms(1)] split: option.splits)
  qed
qed

lemma jar_of_browse:
  assumes "token_laws T"
  shows "case browse W T evs of (c, who) \<Rightarrow> jar_of T c who"
proof (induction evs rule: rev_induct)
  case Nil
  then show ?case by (simp add: browse_def empty_jar_def jar_of_def)
next
  case (snoc te evs)
  obtain t e where "te = (t, e)" by fastforce
  then show ?case
    using snoc jar_of_step [OF assms, of "fst (browse W T evs)" "snd (browse W T evs)" W t e] by (simp add: browse_def case_prod_beta)
qed

lemma login_redirect:
  assumes "is_route ''dashboard'' (pr_path req)" and "\<not> has_session T req"
  shows "\<exists>l. proxy T req = redirect_to (''/'' @ l @ ''/login'') [(''from'', pr_path req)]"
proof -
  obtain n where "session_of T req = (False, n)" using session_valid [of T req] assms(2) by (cases "session_of T req") auto
  then show ?thesis using assms(1) by (auto simp: proxy_def Let_def)
qed

text \<open>
  C10. A browser sees the dashboard only while it is logged in: whatever it did before, if
  a page of the dashboard is not redirected to the login, then it has logged in with some
  key and has not logged out since, the tokens it holds are of this key, and one of them is
  still valid.
\<close>

theorem dashboard_needs_login:
  assumes "token_laws T" and "browse W T evs = (c, who)" and "is_route ''dashboard'' (pr_path q)"
    and "\<forall>l. proxy (T t) (with_cookies c q) \<noteq> redirect_to (''/'' @ l @ ''/login'') [(''from'', pr_path q)]"
  shows "\<exists>k. who = Some k \<and> (verify_jwt (T t) (the (accessCookie c)) = Some (k, TYPE_ACCESS)
     \<or> verify_jwt (T t) (the (refreshCookie c)) = Some (k, TYPE_REFRESH))"
proof -
  have j: "jar_of T c who" using jar_of_browse [OF assms(1), of W evs] assms(2) by simp
  have "has_session (T t) (with_cookies c q)"
    using assms(3,4) login_redirect [of "with_cookies c q" "T t"] by (auto simp: with_cookies_def)
  then have s: "(\<exists>a. accessCookie c = Some a \<and> verify_jwt (T t) a \<noteq> None)
      \<or> (\<exists>r. refreshCookie c = Some r \<and> map_option snd (verify_jwt (T t) r) = Some TYPE_REFRESH)"
    by (auto simp: has_session_def with_cookies_def split: option.splits)
  have law: "verify_jwt (T t) (sign_jwt (T t') k ty) \<in> {None, Some (k, ty)}" for t' k ty
    using assms(1) by (auto simp: token_laws_def)
  show ?thesis
  proof (cases who)
    case None
    then show ?thesis using j s by (simp add: jar_of_def)
  next
    case (Some k)
    then obtain t1 t2 where "accessCookie c = Some (sign_jwt (T t1) k TYPE_ACCESS)" "refreshCookie c = Some (sign_jwt (T t2) k TYPE_REFRESH)"
      using j by (auto simp: jar_of_def)
    then show ?thesis using s Some law [of t1 k TYPE_ACCESS] law [of t2 k TYPE_REFRESH] by auto
  qed
qed

text \<open>Tokens that carry their type and subject; an access token is valid until the time 3600.\<close>

definition timed_tokens :: "int \<Rightarrow> tokens" where
  "timed_tokens t = \<lparr>verify_jwt = (\<lambda>s. case s of
       c # k \<Rightarrow> if c = CHR ''a'' \<and> t < 3600 then Some (k, TYPE_ACCESS) else if c = CHR ''r'' then Some (k, TYPE_REFRESH) else None
     | [] \<Rightarrow> None),
     sign_jwt = (\<lambda>k ty. (case ty of TYPE_ACCESS \<Rightarrow> CHR ''a'' | TYPE_REFRESH \<Rightarrow> CHR ''r'' | TYPE_NONE \<Rightarrow> CHR ''n'') # k)\<rparr>"

definition demo_history :: "(int \<times> browser_event) list" where
  "demo_history = [(0, B_Challenge ''n'' (Some (JObj [(''publicKey'', JStr ''k'')]))),
     (1, B_Verify (Some (JObj [(''publicKey'', JStr ''k''), (''signedMessage'', JStr ''s'')])))]"

lemma demo_browse: "browse demo_web timed_tokens demo_history = (\<lparr>nonceCookie = None, accessCookie = Some ''ak'', refreshCookie = Some ''rk''\<rparr>, Some ''k'')"
  by (simp add: browse_def demo_history_def web_challenge_def web_verify_def verify_bound_def destructured_def prop_of_def demo_web_def
      demo_challenge_def json_truthy_def signature_of_request_def setAuthCookies_def key_named_def empty_jar_def timed_tokens_def Let_def)

theorem dashboard_needs_login_witness:
  "token_laws timed_tokens \<and> (\<exists>k. snd (browse demo_web timed_tokens demo_history) = Some k
     \<and> (verify_jwt (timed_tokens 9000) ''ak'' = Some (k, TYPE_ACCESS) \<or> verify_jwt (timed_tokens 9000) ''rk'' = Some (k, TYPE_REFRESH)))"
proof -
  let ?c = "\<lparr>nonceCookie = None, accessCookie = Some ''ak'', refreshCookie = Some ''rk''\<rparr>"
  let ?q = "demo_page ''/dashboard'' None"
  have laws: "token_laws timed_tokens"
    by (auto simp: token_laws_def timed_tokens_def split: token_type.split)
  have d: "is_route ''dashboard'' (pr_path ?q)" by (simp add: demo_page_def is_route_def route_tail_def)
  have "ps_kind (proxy (timed_tokens 9000) (with_cookies ?c ?q)) = REDIRECT"
    "ps_path (proxy (timed_tokens 9000) (with_cookies ?c ?q)) = ''/en/dashboard''" by code_simp+
  then have "proxy (timed_tokens 9000) (with_cookies ?c ?q) \<noteq> redirect_to (''/'' @ l @ ''/login'') [(''from'', pr_path ?q)]" for l
    by (auto simp: redirect_to_def dest: arg_cong [of _ _ ps_query] arg_cong [of _ _ ps_path])
  then show ?thesis
    using dashboard_needs_login [OF laws demo_browse d, of 9000] laws by (simp add: demo_browse)
qed

end
