(* ===== verification/Contact_Form.thy ===== *)
theory Contact_Form
  imports Database
begin

text \<open>
  The contact form of the web application, \<open>frontend/src/app/api/contact/route.ts\<close>: a
  limiter per address in the memory of the process, and the validation of a submission.
\<close>

section \<open>The limiter\<close>

record contact_entry =
  ce_count :: nat
  ce_resetAt :: int

type_synonym contact_map = "string \<rightharpoonup> contact_entry"

definition contact_window :: int where "contact_window = 15 * 60 * 1000"

definition contact_limit :: nat where "contact_limit = 5"

definition contact_checkRateLimit :: "int \<Rightarrow> string \<Rightarrow> contact_map \<Rightarrow> bool \<times> contact_map" where
  "contact_checkRateLimit now ip m =
     (let fresh = (True, m(ip \<mapsto> \<lparr>ce_count = 1, ce_resetAt = now + contact_window\<rparr>)) in
      case m ip of
        None \<Rightarrow> fresh
      | Some e \<Rightarrow>
          if ce_resetAt e < now then fresh
          else if contact_limit \<le> ce_count e then (False, m)
          else (True, m(ip \<mapsto> e\<lparr>ce_count := ce_count e + 1\<rparr>)))"

section \<open>A submission\<close>

definition SUBJECTS :: "string list" where
  "SUBJECTS = [''General'', ''Partnership'', ''Bug Report'', ''Oracle Registration'']"

text \<open>\<open>/^[^\s@]+@[^\s@]+\.[^\s@]+$/\<close>: a part without spaces and signs, a sign, and a domain with a dot inside.\<close>

definition email_part :: "string \<Rightarrow> bool" where
  "email_part s \<longleftrightarrow> s \<noteq> [] \<and> list_all (\<lambda>c. \<not> js_space c \<and> c \<noteq> CHR ''@'') s"

definition valid_email :: "string \<Rightarrow> bool" where
  "valid_email s \<longleftrightarrow>
     (let user = takeWhile (\<lambda>c. c \<noteq> CHR ''@'') s; rest = dropWhile (\<lambda>c. c \<noteq> CHR ''@'') s in
      email_part user \<and> rest \<noteq> [] \<and> email_part (tl rest) \<and> CHR ''.'' \<in> set (butlast (tl (tl rest))))"

definition body_text :: "json \<Rightarrow> string \<Rightarrow> string option" where
  "body_text j k = (case j of JObj kvs \<Rightarrow> (case map_of kvs k of Some (JStr s) \<Rightarrow> Some s | _ \<Rightarrow> None) | _ \<Rightarrow> None)"

datatype contact_reply = Contact_OK | Contact_Error nat string | Contact_Throws

definition long_text :: "nat \<Rightarrow> string option \<Rightarrow> bool" where
  "long_text n v = (case v of None \<Rightarrow> False | Some s \<Rightarrow> n \<le> length (js_trim s))"

definition contact_validate :: "json \<Rightarrow> contact_reply" where
  "contact_validate j =
     (if \<not> long_text 2 (body_text j ''name'') then Contact_Error 400 ''Name must be at least 2 characters''
      else if \<not> (case body_text j ''email'' of None \<Rightarrow> False | Some s \<Rightarrow> valid_email s) then Contact_Error 400 ''Valid email address is required''
      else if \<not> (case body_text j ''subject'' of None \<Rightarrow> False | Some s \<Rightarrow> s \<in> set SUBJECTS)
      then Contact_Error 400 ''Subject must be one of: General, Partnership, Bug Report, Oracle Registration''
      else if \<not> long_text 10 (body_text j ''message'') then Contact_Error 400 ''Message must be at least 10 characters''
      else Contact_OK)"

text \<open>\<open>body\<close> is none when the text is no JSON; destructuring \<open>null\<close> throws out of the handler.\<close>

definition contact_POST ::
  "int \<Rightarrow> string option \<Rightarrow> string option \<Rightarrow> json option \<Rightarrow> contact_map \<Rightarrow> contact_reply \<times> contact_map" where
  "contact_POST now forwardedFor realIp body m =
     (let ip = (case forwardedFor of Some i \<Rightarrow> i | None \<Rightarrow> (case realIp of Some i \<Rightarrow> i | None \<Rightarrow> ''unknown'')) in
      case contact_checkRateLimit now ip m of
        (False, m') \<Rightarrow> (Contact_Error 429 ''Too many requests. Please try again later.'', m')
      | (True, m') \<Rightarrow>
          (case body of
             None \<Rightarrow> (Contact_Error 400 ''Invalid JSON body'', m')
           | Some JNull \<Rightarrow> (Contact_Throws, m')
           | Some j \<Rightarrow> (contact_validate j, m')))"

section \<open>How many requests pass\<close>

text \<open>The requests of all addresses, in the order of their times: which of them pass the limiter.\<close>

fun passed :: "(int \<times> string) list \<Rightarrow> contact_map \<Rightarrow> bool list" where
  "passed [] m = []"
| "passed ((now, ip) # rs) m = (case contact_checkRateLimit now ip m of (b, m') \<Rightarrow> b # passed rs m')"

definition passed_of :: "string \<Rightarrow> int \<Rightarrow> int \<Rightarrow> (int \<times> string) list \<Rightarrow> contact_map \<Rightarrow> nat" where
  "passed_of ip lo hi rs m = length (filter (\<lambda>((now, i), b). b \<and> i = ip \<and> lo \<le> now \<and> now \<le> hi) (zip rs (passed rs m)))"

lemma passed_of_Cons:
  "passed_of ip lo hi ((now, i) # rs) m =
     (if fst (contact_checkRateLimit now i m) \<and> i = ip \<and> lo \<le> now \<and> now \<le> hi then 1 else 0)
     + passed_of ip lo hi rs (snd (contact_checkRateLimit now i m))"
  by (auto simp: passed_of_def split: prod.split)

lemma passed_of_Nil [simp]: "passed_of ip lo hi [] m = 0"
  by (simp add: passed_of_def)

text \<open>How many more of its requests pass before the window of the address ends, and afterwards.\<close>

definition left :: "contact_entry option \<Rightarrow> nat" where
  "left e = (case e of None \<Rightarrow> 0 | Some e \<Rightarrow> 5 - ce_count e)"

definition counts_ok :: "contact_map \<Rightarrow> bool" where
  "counts_ok m \<longleftrightarrow> (\<forall>ip e. m ip = Some e \<longrightarrow> 1 \<le> ce_count e \<and> ce_count e \<le> 5)"

lemma counts_ok_step: "counts_ok m \<Longrightarrow> counts_ok (snd (contact_checkRateLimit now ip m))"
  by (auto simp: counts_ok_def contact_checkRateLimit_def contact_limit_def Let_def split: option.split)

lemma other_sender: "i \<noteq> ip \<Longrightarrow> snd (contact_checkRateLimit now i m) ip = m ip"
  by (auto simp: contact_checkRateLimit_def Let_def split: option.split)

text \<open>Within a window that is still open for the address.\<close>

lemma passed_in_window:
  assumes "sorted (map fst rs)" and "counts_ok m" and "m ip = Some e" and "hi \<le> ce_resetAt e"
  shows "passed_of ip lo hi rs m \<le> 5 - ce_count e"
  using assms
proof (induction rs arbitrary: m e)
  case (Cons r rs)
  obtain now i where r: "r = (now, i)" by fastforce
  let ?m = "snd (contact_checkRateLimit now i m)"
  have ok: "counts_ok ?m" using Cons.prems(2) by (rule counts_ok_step)
  consider (late) "hi < now" | (other) "now \<le> hi" "i \<noteq> ip" | (own) "now \<le> hi" "i = ip" by linarith
  then show ?case
  proof cases
    case late
    then have "\<And>n j. (n, j) \<in> set (r # rs) \<Longrightarrow> hi < n" using Cons.prems(1) r by fastforce
    then have "filter (\<lambda>((now, i), b). b \<and> i = ip \<and> lo \<le> now \<and> now \<le> hi) (zip (r # rs) bs) = []" for bs
      by (fastforce simp: filter_empty_conv dest!: set_zip_leftD)
    then show ?thesis by (simp add: passed_of_def)
  next
    case other
    then show ?thesis
      using Cons.IH [of ?m e] Cons.prems ok r by (simp add: passed_of_Cons other_sender)
  next
    case own
    then have "\<not> ce_resetAt e < now" using Cons.prems(4) by simp
    then show ?thesis
      using Cons.IH [OF _ ok] Cons.prems own r
      by (auto simp: passed_of_Cons contact_checkRateLimit_def contact_limit_def Let_def split: if_splits)
  qed
qed simp

lemma passed_from:
  assumes "sorted (map fst rs)" and "counts_ok m" and "\<forall>r\<in>set rs. lo \<le> fst r" and "hi \<le> lo + contact_window"
  shows "passed_of ip lo hi rs m \<le> left (m ip) + 5"
  using assms
proof (induction rs arbitrary: m)
  case (Cons r rs)
  obtain now i where r: "r = (now, i)" by fastforce
  let ?m = "snd (contact_checkRateLimit now i m)"
  have ok: "counts_ok ?m" using Cons.prems(2) by (rule counts_ok_step)
  have IH: "passed_of ip lo hi rs ?m \<le> left (?m ip) + 5" using Cons ok by simp
  show ?case
  proof (cases "i = ip")
    case False
    then show ?thesis using IH r by (simp add: passed_of_Cons other_sender)
  next
    case True
    show ?thesis
    proof (cases "\<exists>e. m ip = Some e \<and> now \<le> ce_resetAt e")
      case True
      then obtain e where e: "m ip = Some e" "now \<le> ce_resetAt e" by blast
      then show ?thesis
        using IH r \<open>i = ip\<close> Cons.prems(2)
        by (auto simp: passed_of_Cons contact_checkRateLimit_def contact_limit_def left_def Let_def split: if_splits)
    next
      case False
      then have new: "?m ip = Some \<lparr>ce_count = 1, ce_resetAt = now + contact_window\<rparr>"
        using \<open>i = ip\<close> by (auto simp: contact_checkRateLimit_def Let_def split: option.split)
      have "hi \<le> now + contact_window" using Cons.prems(3,4) r by simp
      then have "passed_of ip lo hi rs ?m \<le> 4"
        using passed_in_window [OF _ ok new, of rs hi lo] Cons.prems(1) r by simp
      then show ?thesis using r \<open>i = ip\<close> by (simp add: passed_of_Cons)
    qed
  qed
qed simp

text \<open>
  Within any 15 minutes at most nine submissions of one address pass the limiter of
  the contact form. It can be nine although the limit is five: a window starts with its
  first submission, so that two windows may meet.
\<close>

theorem contact_limited:
  assumes "sorted (map fst rs)" and "hi \<le> lo + contact_window"
  shows "passed_of ip lo hi rs Map.empty \<le> 9"
proof -
  have "passed_of ip lo hi rs m \<le> 9" if "counts_ok m" for m
    using assms(1) that
  proof (induction rs arbitrary: m)
    case (Cons r rs)
    obtain now i where r: "r = (now, i)" by fastforce
    show ?case
    proof (cases "lo \<le> now")
      case True
      then have "\<forall>r\<in>set (r # rs). lo \<le> fst r" using Cons.prems(1) r by fastforce
      then have "passed_of ip lo hi (r # rs) m \<le> left (m ip) + 5"
        using Cons.prems assms(2) by (intro passed_from) auto
      moreover have "left (m ip) \<le> 4" using Cons.prems(2) by (fastforce simp: left_def counts_ok_def split: option.split)
      ultimately show ?thesis by linarith
    next
      case False
      then show ?thesis
        using Cons.IH [OF _ counts_ok_step [OF Cons.prems(2)]] Cons.prems(1) r by (simp add: passed_of_Cons)
    qed
  qed simp
  then show ?thesis by (simp add: counts_ok_def)
qed

definition contact_burst :: "(int \<times> string) list" where
  "contact_burst = [(0, ''a''), (899000, ''a''), (899000, ''a''), (899000, ''a''), (899000, ''a''), (899000, ''a''),
     (900001, ''a''), (900001, ''a''), (900001, ''a''), (900001, ''a''), (900001, ''a''), (900001, ''a'')]"

theorem contact_limited_witness:
  "passed_of ''a'' 899000 900001 contact_burst Map.empty = 9 \<and> passed_of ''a'' 899000 900001 contact_burst Map.empty \<le> 9"
proof
  show "passed_of ''a'' 899000 900001 contact_burst Map.empty = 9"
    by (simp add: contact_burst_def passed_of_Cons contact_checkRateLimit_def contact_limit_def contact_window_def Let_def)
  show "passed_of ''a'' 899000 900001 contact_burst Map.empty \<le> 9"
    by (rule contact_limited) (simp_all add: contact_burst_def contact_window_def)
qed

end
