(* ===== verification/Dashboard.thy ===== *)
theory Dashboard
  imports Js_Number Csv_Export "HOL-Library.AList" "HOL-Library.Multiset" "HOL-Library.List_Lexorder" "HOL-Library.Char_ord"
begin

text \<open>
  What the dashboard of the web application shows, \<open>frontend/src/hooks/useDashboard.ts\<close>:
  the totals of the portfolio, the chart of outstanding and repaid amounts per day, the
  feed of activities and the list of notifications. Numbers are finite doubles, times are
  milliseconds. The texts of dates and amounts are parameters.
\<close>

section \<open>Loans\<close>

datatype web_loan_status = WL_PENDING | WL_ACTIVE | WL_REPAID | WL_DEFAULTED

datatype tx_status = TX_PENDING | TX_PROCESSING | TX_COMPLETED | TX_FAILED

record web_repayment =
  wr_id :: string
  wr_amount :: rat
  wr_paidAt :: int
  wr_txHash :: string
  wr_status :: tx_status

record web_loan =
  wl_id :: string
  wl_assetType :: string
  wl_collateralValue :: rat
  wl_principal :: rat
  wl_interestRate :: rat
  wl_status :: web_loan_status
  wl_repayments :: "web_repayment list"
  wl_createdAt :: int

definition owed :: "web_loan \<Rightarrow> rat" where
  "owed l = fl64 (wl_principal l * fl64 (1 + fl64 (wl_interestRate l / 100)))"

section \<open>The portfolio\<close>

record portfolio =
  pf_totalCollateralValue :: rat
  pf_totalPrincipal :: rat
  pf_totalOutstanding :: rat
  pf_totalRepaid :: rat
  pf_activeLoanCount :: nat
  pf_pendingLoanCount :: nat
  pf_defaultedLoanCount :: nat
  pf_netPosition :: rat
  pf_utilization :: rat

text \<open>Sums are formed in the order of the list, each addition rounded.\<close>

definition js_sum :: "rat list \<Rightarrow> rat" where
  "js_sum xs = fold (\<lambda>x acc. fl64 (acc + x)) xs 0"

definition repaid_of :: "web_loan \<Rightarrow> rat" where
  "repaid_of l = js_sum (map wr_amount (wl_repayments l))"

definition aggregatePortfolio :: "web_loan list \<Rightarrow> portfolio" where
  "aggregatePortfolio loans =
     (let totalCollateralValue = js_sum (map wl_collateralValue loans);
          totalPrincipal = js_sum (map wl_principal loans);
          totalOwed = js_sum (map owed loans);
          totalRepaid = js_sum (map repaid_of loans);
          totalOutstanding = max 0 (fl64 (totalOwed - totalRepaid))
      in \<lparr>pf_totalCollateralValue = totalCollateralValue, pf_totalPrincipal = totalPrincipal,
          pf_totalOutstanding = totalOutstanding, pf_totalRepaid = totalRepaid,
          pf_activeLoanCount = length (filter (\<lambda>l. wl_status l = WL_ACTIVE) loans),
          pf_pendingLoanCount = length (filter (\<lambda>l. wl_status l = WL_PENDING) loans),
          pf_defaultedLoanCount = length (filter (\<lambda>l. wl_status l = WL_DEFAULTED) loans),
          pf_netPosition = fl64 (totalCollateralValue - totalOutstanding),
          pf_utilization = (if totalCollateralValue = 0 then 0 else fl64 (totalPrincipal / totalCollateralValue))\<rparr>)"

section \<open>The chart\<close>

record chart_event =
  ev_date :: int
  ev_outstanding :: rat
  ev_repaid :: rat

record metrics_point =
  mp_date :: string
  mp_outstanding :: int
  mp_repaid :: int

definition loan_events :: "web_loan \<Rightarrow> chart_event list" where
  "loan_events l = \<lparr>ev_date = wl_createdAt l, ev_outstanding = owed l, ev_repaid = 0\<rparr>
     # map (\<lambda>r. \<lparr>ev_date = wr_paidAt r, ev_outstanding = - wr_amount r, ev_repaid = wr_amount r\<rparr>) (wl_repayments l)"

text \<open>\<open>sort\<close> is stable.\<close>

definition chart_events :: "web_loan list \<Rightarrow> chart_event list" where
  "chart_events loans = sort_key ev_date (concat (map loan_events loans))"

definition chart_step :: "chart_event \<Rightarrow> rat \<times> rat \<Rightarrow> rat \<times> rat" where
  "chart_step ev = (\<lambda>(outstanding, repaid). (max 0 (fl64 (outstanding + ev_outstanding ev)), fl64 (repaid + ev_repaid ev)))"

definition point_at :: "(int \<Rightarrow> string) \<Rightarrow> int \<Rightarrow> rat \<times> rat \<Rightarrow> metrics_point" where
  "point_at iso_day date = (\<lambda>(outstanding, repaid).
     \<lparr>mp_date = iso_day date, mp_outstanding = math_round outstanding, mp_repaid = math_round repaid\<rparr>)"

fun chart_series :: "(int \<Rightarrow> string) \<Rightarrow> chart_event list \<Rightarrow> rat \<times> rat \<Rightarrow> metrics_point list" where
  "chart_series iso_day [] st = []"
| "chart_series iso_day (ev # evs) st =
     (let st' = chart_step ev st in point_at iso_day (ev_date ev) st' # chart_series iso_day evs st')"

text \<open>A \<open>Map\<close> keeps the position of a key that is set again.\<close>

definition keep_latest :: "metrics_point list \<Rightarrow> metrics_point list" where
  "keep_latest series = map snd (fold (\<lambda>p. AList.update (mp_date p) p) series [])"

definition buildMetricsSeries :: "(int \<Rightarrow> string) \<Rightarrow> web_loan list \<Rightarrow> metrics_point list" where
  "buildMetricsSeries iso_day loans =
     (if loans = [] then [] else keep_latest (chart_series iso_day (chart_events loans) (0, 0)))"

section \<open>The feed of activities\<close>

datatype activity_category = CAT_LOAN | CAT_REPAYMENT | CAT_ESCROW | CAT_SYSTEM

datatype activity_status = ACT_SUCCESS | ACT_PENDING | ACT_FAILED | ACT_INFO

record activity_item =
  act_id :: string
  act_title :: string
  act_description :: string
  act_timestamp :: string
  act_category :: activity_category
  act_amount :: "rat option"
  act_status :: activity_status

record feed_texts =
  iso_text :: "int \<Rightarrow> string" \<comment> \<open>\<open>toISOString\<close>\<close>
  amount_text :: "rat \<Rightarrow> string" \<comment> \<open>\<open>toLocaleString\<close>\<close>

definition loan_item :: "feed_texts \<Rightarrow> web_loan \<Rightarrow> activity_item" where
  "loan_item X l = \<lparr>act_id = ''loan-created-'' @ wl_id l, act_title = ''New '' @ js_lower (wl_assetType l) @ '' loan'',
     act_description = ''Loan '' @ wl_id l @ '' originated for $'' @ amount_text X (wl_principal l) @ ''.'',
     act_timestamp = iso_text X (wl_createdAt l), act_category = CAT_LOAN, act_amount = Some (wl_principal l), act_status = ACT_INFO\<rparr>"

text \<open>The ellipsis after the shortened hash, one character in the source, is written \<open>...\<close>.\<close>

definition repayment_item :: "feed_texts \<Rightarrow> web_loan \<Rightarrow> web_repayment \<Rightarrow> activity_item" where
  "repayment_item X l r = \<lparr>act_id = ''repayment-'' @ wr_id r, act_title = ''Repayment on '' @ wl_id l,
     act_description = ''Received $'' @ amount_text X (wr_amount r) @ '' (tx '' @ take 8 (wr_txHash r) @ ''...).'',
     act_timestamp = iso_text X (wr_paidAt r), act_category = CAT_REPAYMENT, act_amount = Some (wr_amount r),
     act_status = (case wr_status r of TX_COMPLETED \<Rightarrow> ACT_SUCCESS | TX_FAILED \<Rightarrow> ACT_FAILED | _ \<Rightarrow> ACT_PENDING)\<rparr>"

text \<open>
  The comparison never answers that two items are equal, so the language leaves the order
  of items with the same time to the engine: \<open>newest_first\<close> is its \<open>sort\<close>.
\<close>

definition sorts_newest_first :: "(activity_item list \<Rightarrow> activity_item list) \<Rightarrow> bool" where
  "sorts_newest_first newest_first \<longleftrightarrow>
     (\<forall>xs. mset (newest_first xs) = mset xs \<and> sorted_wrt (\<lambda>a b. act_timestamp b \<le> act_timestamp a) (newest_first xs))"

definition buildActivityFeed ::
  "(activity_item list \<Rightarrow> activity_item list) \<Rightarrow> feed_texts \<Rightarrow> web_loan list \<Rightarrow> activity_item list" where
  "buildActivityFeed newest_first X loans =
     newest_first (concat (map (\<lambda>l. loan_item X l # map (repayment_item X l) (wl_repayments l)) loans))"

text \<open>The feed of the page: with the transactions of the browser, the first 25.\<close>

definition dashboard_activity ::
  "(activity_item list \<Rightarrow> activity_item list) \<Rightarrow> feed_texts \<Rightarrow> activity_item list \<Rightarrow> web_loan list \<Rightarrow> activity_item list" where
  "dashboard_activity newest_first X fromTransactions loans =
     take 25 (newest_first (fromTransactions @ buildActivityFeed newest_first X loans))"

section \<open>The chart per day\<close>

definition day_of :: "int \<Rightarrow> int" where
  "day_of t = t div 86400000"

text \<open>What the first ten characters of a date in ISO format promise for the dates in question.\<close>

definition day_texts :: "(int \<Rightarrow> string) \<Rightarrow> int set \<Rightarrow> bool" where
  "day_texts iso_day D \<longleftrightarrow> (\<forall>t\<in>D. \<forall>t'\<in>D. iso_day t = iso_day t' \<longleftrightarrow> day_of t = day_of t')"

lemma chart_series_append:
  "chart_series f (xs @ ys) st = chart_series f xs st @ chart_series f ys (fold chart_step xs st)"
  by (induction xs arbitrary: st) (simp_all add: Let_def)

lemma update_known:
  "distinct (map fst al) \<Longrightarrow> k \<in> fst ` set al \<Longrightarrow> AList.update k v al = map (\<lambda>kv. if fst kv = k then (k, v) else kv) al"
proof (induction al)
  case (Cons kv al)
  show ?case
  proof (cases "fst kv = k")
    case True
    then have "map (\<lambda>kv. if fst kv = k then (k, v) else kv) al = al"
      using Cons.prems(1) by (intro map_idI) (auto simp: rev_image_eqI)
    then show ?thesis using True by (cases kv) simp
  next
    case False
    then show ?thesis using Cons by (cases kv) auto
  qed
qed simp

lemma update_new: "k \<notin> fst ` set al \<Longrightarrow> AList.update k v al = al @ [(k, v)]"
  by (induction al) auto

text \<open>
  The chart by days: for a list of events sorted by time, one point for each day with an
  event, with the amounts after all events up to and including this day.
\<close>

definition day_entry :: "(int \<Rightarrow> string) \<Rightarrow> chart_event list \<Rightarrow> int \<Rightarrow> string \<times> metrics_point" where
  "day_entry iso_day evs d =
     (let upto = filter (\<lambda>e. day_of (ev_date e) \<le> d) evs; p = point_at iso_day (ev_date (last upto)) (fold chart_step upto (0, 0))
      in (mp_date p, p))"

abbreviation "event_days evs \<equiv> sorted_list_of_set ((\<lambda>e. day_of (ev_date e)) ` set evs)"

lemma mp_date_point [simp]: "mp_date (point_at f t st) = f t"
  by (simp add: point_at_def split: prod.split)

lemma upto_day:
  assumes "sorted (map ev_date evs)" and "d \<in> (\<lambda>e. day_of (ev_date e)) ` set evs"
  shows "day_of (ev_date (last (filter (\<lambda>e. day_of (ev_date e) \<le> d) evs))) = d"
proof -
  let ?fs = "filter (\<lambda>e. day_of (ev_date e) \<le> d) evs"
  obtain e where e: "e \<in> set ?fs" "day_of (ev_date e) = d" using assms(2) by auto
  then have ne: "?fs \<noteq> []" by (metis empty_iff empty_set)
  have s: "sorted (map ev_date ?fs)" using assms(1) by (simp add: sorted_wrt_map sorted_wrt_filter)
  have "ev_date e \<le> ev_date (last ?fs)"
  proof -
    obtain gs where gs: "?fs = gs @ [last ?fs]" using ne by (metis append_butlast_last_id)
    have "sorted (map ev_date (gs @ [last ?fs]))" using s gs by argo
    moreover have "e \<in> set (gs @ [last ?fs])" using e(1) gs by argo
    ultimately show ?thesis by (auto simp: sorted_append)
  qed
  then have "d \<le> day_of (ev_date (last ?fs))" using e(2) by (auto simp: day_of_def zdiv_mono1)
  moreover have "day_of (ev_date (last ?fs)) \<le> d" using last_in_set [OF ne] by simp
  ultimately show ?thesis by simp
qed

lemma sorted_list_insert_max:
  fixes A :: "int set"
  assumes "finite A" and "\<forall>a\<in>A. a < x"
  shows "sorted_list_of_set (insert x A) = sorted_list_of_set A @ [x]"
proof -
  have "x \<notin> A" using assms(2) by blast
  then have "sorted_list_of_set (insert x A) = insort x (sorted_list_of_set A)" using assms(1) by simp
  also have "\<dots> = sorted_list_of_set A @ [x]"
    using assms by (intro sorted_insort_is_snoc) (auto simp: less_imp_le)
  finally show ?thesis .
qed

lemma day_entry_key:
  assumes "sorted (map ev_date evs)" and "d \<in> (\<lambda>e. day_of (ev_date e)) ` set evs"
  shows "\<exists>t \<in> ev_date ` set evs. fst (day_entry iso_day evs d) = iso_day t \<and> day_of t = d"
proof -
  let ?fs = "filter (\<lambda>e. day_of (ev_date e) \<le> d) evs"
  obtain e where "e \<in> set ?fs" using assms(2) by auto
  then have "?fs \<noteq> []" by (metis empty_iff empty_set)
  then have "last ?fs \<in> set evs" using last_in_set [of ?fs] by simp
  then show ?thesis using upto_day [OF assms] by (auto simp: day_entry_def Let_def)
qed

lemma day_keys:
  assumes "sorted (map ev_date evs)" and "day_texts iso_day D" and "ev_date ` set evs \<subseteq> D"
    and "d \<in> (\<lambda>e. day_of (ev_date e)) ` set evs" and "t \<in> D"
  shows "fst (day_entry iso_day evs d) = iso_day t \<longleftrightarrow> d = day_of t"
proof -
  obtain t' where "t' \<in> D" "fst (day_entry iso_day evs d) = iso_day t'" "day_of t' = d"
    using day_entry_key [OF assms(1,4)] assms(3) by blast
  then show ?thesis using assms(2,5) by (auto simp: day_texts_def)
qed

lemma distinct_day_keys:
  assumes "sorted (map ev_date evs)" and "day_texts iso_day (ev_date ` set evs)"
  shows "distinct (map fst (map (day_entry iso_day evs) (event_days evs)))"
proof -
  let ?D = "(\<lambda>e. day_of (ev_date e)) ` set evs"
  have "inj_on (\<lambda>d. fst (day_entry iso_day evs d)) ?D"
  proof (rule inj_onI)
    fix a b
    assume ab: "a \<in> ?D" "b \<in> ?D" "fst (day_entry iso_day evs a) = fst (day_entry iso_day evs b)"
    obtain t where "t \<in> ev_date ` set evs" "fst (day_entry iso_day evs b) = iso_day t" "day_of t = b"
      using day_entry_key [OF assms(1) ab(2)] by blast
    then show "a = b" using day_keys [OF assms subset_refl ab(1)] ab(3) by metis
  qed
  then show ?thesis by (simp add: distinct_map o_def)
qed

text \<open>One more event, not before the others.\<close>

definition day_point :: "(int \<Rightarrow> string) \<Rightarrow> chart_event list \<Rightarrow> chart_event \<Rightarrow> metrics_point" where
  "day_point iso_day evs e = point_at iso_day (ev_date e) (fold chart_step (evs @ [e]) (0, 0))"

lemma day_entry_snoc:
  assumes "sorted (map ev_date (evs @ [e]))"
  shows "d < day_of (ev_date e) \<Longrightarrow> day_entry iso_day (evs @ [e]) d = day_entry iso_day evs d"
    and "day_entry iso_day (evs @ [e]) (day_of (ev_date e)) = (iso_day (ev_date e), day_point iso_day evs e)"
    and "\<forall>d\<in>(\<lambda>e. day_of (ev_date e)) ` set evs. d \<le> day_of (ev_date e)"
proof -
  show le: "\<forall>d\<in>(\<lambda>e. day_of (ev_date e)) ` set evs. d \<le> day_of (ev_date e)"
    using assms by (auto simp: sorted_append day_of_def intro: zdiv_mono1)
  then have "filter (\<lambda>f. day_of (ev_date f) \<le> day_of (ev_date e)) evs = evs" by (auto simp: filter_id_conv)
  then show "day_entry iso_day (evs @ [e]) (day_of (ev_date e)) = (iso_day (ev_date e), day_point iso_day evs e)"
    by (simp add: day_entry_def day_point_def Let_def)
qed (simp add: day_entry_def)

lemma chart_same_day:
  assumes "sorted (map ev_date (evs @ [e]))" and "day_texts iso_day (ev_date ` set (evs @ [e]))"
    and "day_of (ev_date e) \<in> (\<lambda>e. day_of (ev_date e)) ` set evs"
  shows "AList.update (iso_day (ev_date e)) (day_point iso_day evs e) (map (day_entry iso_day evs) (event_days evs))
    = map (day_entry iso_day (evs @ [e])) (event_days (evs @ [e]))"
proof -
  let ?D = "(\<lambda>e. day_of (ev_date e)) ` set evs" and ?x = "day_of (ev_date e)" and ?p = "day_point iso_day evs e"
  have sorted: "sorted (map ev_date evs)" and texts: "day_texts iso_day (ev_date ` set evs)"
    using assms(1,2) by (auto simp: sorted_append day_texts_def)
  have key: "fst (day_entry iso_day evs d) = iso_day (ev_date e) \<longleftrightarrow> d = ?x" if "d \<in> ?D" for d
    by (rule day_keys [OF sorted assms(2) _ that]) auto
  have "day_entry iso_day evs ?x \<in> set (map (day_entry iso_day evs) (event_days evs))"
    using imageI [OF assms(3), of "day_entry iso_day evs"] by (simp only: set_map set_sorted_list_of_set finite_imageI finite_set)
  moreover have "iso_day (ev_date e) = fst (day_entry iso_day evs ?x)" using key [OF assms(3)] by simp
  ultimately have "iso_day (ev_date e) \<in> fst ` set (map (day_entry iso_day evs) (event_days evs))"
    by (metis imageI)
  then have "AList.update (iso_day (ev_date e)) ?p (map (day_entry iso_day evs) (event_days evs))
      = map (\<lambda>d. if fst (day_entry iso_day evs d) = iso_day (ev_date e) then (iso_day (ev_date e), ?p) else day_entry iso_day evs d) (event_days evs)"
    by (subst update_known [OF distinct_day_keys [OF sorted texts]]) (simp_all add: o_def)
  also have "\<dots> = map (day_entry iso_day (evs @ [e])) (event_days evs)"
  proof (rule map_cong [OF refl])
    fix d assume "d \<in> set (event_days evs)"
    then have d: "d \<in> ?D" by simp
    then have "d \<le> ?x" using day_entry_snoc(3) [OF assms(1)] by blast
    then show "(if fst (day_entry iso_day evs d) = iso_day (ev_date e) then (iso_day (ev_date e), ?p) else day_entry iso_day evs d)
        = day_entry iso_day (evs @ [e]) d"
      using key [OF d] day_entry_snoc(1,2) [OF assms(1)] by (cases "d = ?x") auto
  qed
  finally have replaced: "AList.update (iso_day (ev_date e)) ?p (map (day_entry iso_day evs) (event_days evs))
      = map (day_entry iso_day (evs @ [e])) (event_days evs)" .
  have "event_days evs = event_days (evs @ [e])" using assms(3) by (simp add: insert_absorb)
  then show ?thesis using replaced by argo
qed

lemma chart_new_day:
  assumes "sorted (map ev_date (evs @ [e]))" and "day_texts iso_day (ev_date ` set (evs @ [e]))"
    and "day_of (ev_date e) \<notin> (\<lambda>e. day_of (ev_date e)) ` set evs"
  shows "AList.update (iso_day (ev_date e)) (day_point iso_day evs e) (map (day_entry iso_day evs) (event_days evs))
    = map (day_entry iso_day (evs @ [e])) (event_days (evs @ [e]))"
proof -
  let ?D = "(\<lambda>e. day_of (ev_date e)) ` set evs" and ?x = "day_of (ev_date e)"
  have sorted: "sorted (map ev_date evs)" using assms(1) by (simp add: sorted_append)
  have key: "fst (day_entry iso_day evs d) = iso_day (ev_date e) \<longleftrightarrow> d = ?x" if "d \<in> ?D" for d
    by (rule day_keys [OF sorted assms(2) _ that]) auto
  have "iso_day (ev_date e) \<notin> fst ` set (map (day_entry iso_day evs) (event_days evs))"
  proof
    assume "iso_day (ev_date e) \<in> fst ` set (map (day_entry iso_day evs) (event_days evs))"
    then obtain d where d: "d \<in> set (event_days evs)" "fst (day_entry iso_day evs d) = iso_day (ev_date e)"
      by (metis (no_types, lifting) imageE set_map)
    then have "d \<in> ?D" by simp
    then show False using key [of d] d(2) assms(3) by metis
  qed
  moreover have lt: "\<forall>a\<in>?D. a < ?x" using assms(3) day_entry_snoc(3) [OF assms(1)] less_le by metis
  then have "event_days (evs @ [e]) = event_days evs @ [?x]"
    using sorted_list_insert_max [of ?D ?x] by simp
  moreover have "map (day_entry iso_day (evs @ [e])) (event_days evs) = map (day_entry iso_day evs) (event_days evs)"
    by (intro map_cong refl day_entry_snoc(1) [OF assms(1)] bspec [OF lt]) simp
  ultimately show ?thesis using day_entry_snoc(2) [OF assms(1)] by (simp add: update_new)
qed

lemma chart_by_days:
  assumes "sorted (map ev_date evs)" and "day_texts iso_day (ev_date ` set evs)"
  shows "fold (\<lambda>p. AList.update (mp_date p) p) (chart_series iso_day evs (0, 0)) [] = map (day_entry iso_day evs) (event_days evs)"
  using assms
proof (induction evs rule: rev_induct)
  case (snoc e evs)
  have "sorted (map ev_date evs)" "day_texts iso_day (ev_date ` set evs)"
    using snoc.prems by (auto simp: sorted_append day_texts_def)
  then have "fold (\<lambda>p. AList.update (mp_date p) p) (chart_series iso_day (evs @ [e]) (0, 0)) []
      = AList.update (iso_day (ev_date e)) (day_point iso_day evs e) (map (day_entry iso_day evs) (event_days evs))"
    using snoc.IH by (simp add: chart_series_append day_point_def Let_def)
  then show ?case using chart_same_day [OF snoc.prems] chart_new_day [OF snoc.prems] by metis
qed simp

text \<open>
  C35. The chart has exactly one point for each day on which a loan was created or repaid,
  in the order of the days, and its amounts are what is outstanding and repaid after all
  events up to the end of that day.
\<close>

theorem chart_per_day:
  assumes "day_texts iso_day (ev_date ` set (chart_events loans))"
  shows "buildMetricsSeries iso_day loans = map (\<lambda>d.
      let upto = filter (\<lambda>e. day_of (ev_date e) \<le> d) (chart_events loans)
      in point_at iso_day (ev_date (last upto)) (fold chart_step upto (0, 0))) (event_days (chart_events loans))"
proof (cases "loans = []")
  case True
  then show ?thesis by (simp add: buildMetricsSeries_def chart_events_def)
next
  case False
  have "sorted (map ev_date (chart_events loans))" by (simp add: chart_events_def)
  then show ?thesis
    using False chart_by_days [OF _ assms] by (simp add: buildMetricsSeries_def keep_latest_def day_entry_def Let_def o_def)
qed

definition demo_dash_loan :: web_loan where
  "demo_dash_loan = \<lparr>wl_id = ''L'', wl_assetType = ''INVOICE'', wl_collateralValue = 500, wl_principal = 200, wl_interestRate = 0,
     wl_status = WL_ACTIVE, wl_repayments = [
       \<lparr>wr_id = ''b'', wr_amount = 50, wr_paidAt = 172800001, wr_txHash = ''y'', wr_status = TX_FAILED\<rparr>,
       \<lparr>wr_id = ''a'', wr_amount = 30, wr_paidAt = 172800000, wr_txHash = ''x'', wr_status = TX_COMPLETED\<rparr>], wl_createdAt = 5\<rparr>"

definition unary_day :: "int \<Rightarrow> string" where
  "unary_day t = replicate (nat (day_of t)) CHR ''d''"

lemma fl64_small_int: "\<bar>n\<bar> \<le> 2 ^ 53 \<Longrightarrow> fl64 (of_int n) = of_int n"
  by (rule js.fl_int)

lemma demo_chart_events: "chart_events [demo_dash_loan] =
    [\<lparr>ev_date = 5, ev_outstanding = 200, ev_repaid = 0\<rparr>, \<lparr>ev_date = 172800000, ev_outstanding = - 30, ev_repaid = 30\<rparr>,
     \<lparr>ev_date = 172800001, ev_outstanding = - 50, ev_repaid = 50\<rparr>]"
  using fl64_small_int [of 200] by (simp add: chart_events_def loan_events_def demo_dash_loan_def owed_def)

theorem chart_per_day_witness:
  "buildMetricsSeries unary_day [demo_dash_loan] =
     [\<lparr>mp_date = [], mp_outstanding = 200, mp_repaid = 0\<rparr>, \<lparr>mp_date = ''dd'', mp_outstanding = 120, mp_repaid = 80\<rparr>]"
proof -
  have "day_texts unary_day (ev_date ` set (chart_events [demo_dash_loan]))"
    by (simp add: demo_chart_events day_texts_def unary_day_def day_of_def)
  moreover have "event_days (chart_events [demo_dash_loan]) = [0, 2]"
    by (simp add: demo_chart_events day_of_def)
  moreover have "math_round 200 = 200" "math_round 120 = 120" "math_round 80 = 80" "math_round 0 = 0"
    using math_round_int [of 200] math_round_int [of 120] math_round_int [of 80] math_round_int [of 0] by simp_all
  ultimately show ?thesis
    using chart_per_day [of unary_day "[demo_dash_loan]"] fl64_small_int [of 200] fl64_small_int [of 170] fl64_small_int [of 120]
      fl64_small_int [of 30] fl64_small_int [of 80]
    by (simp add: demo_chart_events day_of_def point_at_def chart_step_def unary_day_def Let_def numeral_2_eq_2)
qed

end
