(* ===== verification/Js_Parse.thy ===== *)
theory Js_Parse
  imports Canonical_Json
begin

text \<open>
  Conversions of texts and JSON values that several handlers share: \<open>parseInt(s, 10)\<close>,
  \<open>Number(v)\<close> of a value of a body, and reading a property.
\<close>

definition js_digit :: "char \<Rightarrow> bool" where
  "js_digit c \<longleftrightarrow> 48 \<le> (of_char c :: nat) \<and> (of_char c :: nat) \<le> 57"

text \<open>None for \<open>NaN\<close>: white space, a sign, and the digits that follow; the rest is ignored.\<close>

definition js_parseInt :: "string \<Rightarrow> int option" where
  "js_parseInt s =
     (let t = dropWhile js_space s;
          neg = (t \<noteq> [] \<and> hd t = CHR ''-'');
          u = (if t \<noteq> [] \<and> (hd t = CHR ''-'' \<or> hd t = CHR ''+'') then tl t else t);
          ds = takeWhile js_digit u
      in if ds = [] then None
         else let n = int (decimal_value ds) in Some (if neg then - n else n))"

text \<open>A list counts as the text of its only element.\<close>

fun json_Number :: "(string \<Rightarrow> jsnum) \<Rightarrow> json \<Rightarrow> jsnum" where
  "json_Number parse JNull = Fin 0"
| "json_Number parse (JBool b) = Fin (if b then 1 else 0)"
| "json_Number parse (JNum x) = x"
| "json_Number parse (JStr s) = parse s"
| "json_Number parse (JObj kvs) = NaN"
| "json_Number parse (JArr []) = Fin 0"
| "json_Number parse (JArr [x]) = (case x of JBool _ \<Rightarrow> NaN | _ \<Rightarrow> json_Number parse x)"
| "json_Number parse (JArr (x # y # xs)) = NaN"

definition body_Number :: "(string \<Rightarrow> jsnum) \<Rightarrow> json option \<Rightarrow> jsnum" where
  "body_Number parse v = (case v of None \<Rightarrow> NaN | Some j \<Rightarrow> json_Number parse j)"

text \<open>
  The properties of a parsed value; \<open>null\<close> has none to ask for and is treated where it
  can occur. Objects have each property once.
\<close>

fun props :: "json \<Rightarrow> string \<rightharpoonup> json" where
  "props (JObj kvs) = map_of kvs"
| "props _ = Map.empty"

text \<open>What an object literal finds beyond its own properties.\<close>

definition object_prototype :: "string list" where
  "object_prototype = [''constructor'', ''hasOwnProperty'', ''isPrototypeOf'', ''propertyIsEnumerable'', ''toLocaleString'', ''toString'',
     ''valueOf'', ''__defineGetter__'', ''__defineSetter__'', ''__lookupGetter__'', ''__lookupSetter__'', ''__proto__'']"

end
