(* ===== verification/Oracle_Api.thy ===== *)
theory Oracle_Api
  imports Http_Api Oracle_Service Js_Parse
begin

text \<open>
  The handlers of \<open>server/src/controllers/oracle.controller.ts\<close> over the oracle service: the
  fields a request must have, the paging parameters, and what a request can do to the
  oracles of others. Fields of a body are JSON values; a value that is no text where the
  service needs one makes it throw (which error comes first when several fields are bad is
  not modelled, and the addresses of a threshold signature are taken to be texts).
\<close>

section \<open>Fields and parameters\<close>

definition missing :: "json option \<Rightarrow> bool" where
  "missing v \<longleftrightarrow> v = None \<or> v = Some JNull \<or> v = Some (JStr [])"

fun validateRequiredFields :: "(string \<rightharpoonup> json) \<Rightarrow> string list \<Rightarrow> app_error + unit" where
  "validateRequiredFields flds [] = Inr ()"
| "validateRequiredFields flds (name # names) =
     (if missing (flds name) then Inl (ValidationError (''Missing required field: '' @ name)) else validateRequiredFields flds names)"

lemma validateRequiredFields_Inr:
  "validateRequiredFields flds names = Inr () \<longleftrightarrow> (\<forall>n\<in>set names. \<not> missing (flds n))"
  by (induction names) auto

text \<open>A field used as a text, as an optional text, and as a number (a numeric text counts).\<close>

definition as_text :: "json option \<Rightarrow> app_error + string" where
  "as_text v = (case v of Some (JStr s) \<Rightarrow> Inr s | _ \<Rightarrow> Inl (PlainError ''invalid value''))"

definition as_option :: "json option \<Rightarrow> app_error + string option" where
  "as_option v = (case v of None \<Rightarrow> Inr None | Some JNull \<Rightarrow> Inr None | Some (JStr s) \<Rightarrow> Inr (Some s)
     | _ \<Rightarrow> Inl (PlainError ''invalid value''))"

definition as_number :: "platform \<Rightarrow> json option \<Rightarrow> app_error + rat" where
  "as_number P v = (case v of
     Some (JNum (Fin x)) \<Rightarrow> Inr x
   | Some (JStr s) \<Rightarrow> (case str_num P s of Fin x \<Rightarrow> Inr x | _ \<Rightarrow> Inl (PlainError ''invalid value''))
   | _ \<Rightarrow> Inl (PlainError ''invalid value''))"

definition parsePaginationParam :: "string option \<Rightarrow> int \<Rightarrow> int \<Rightarrow> int \<Rightarrow> int" where
  "parsePaginationParam value defaultValue lo hi = (case value of
     None \<Rightarrow> defaultValue
   | Some s \<Rightarrow> if s = [] then defaultValue
       else (case js_parseInt s of None \<Rightarrow> defaultValue | Some parsed \<Rightarrow> max lo (min hi parsed)))"

lemma parsePaginationParam_range:
  "lo \<le> d \<Longrightarrow> d \<le> hi \<Longrightarrow> lo \<le> parsePaginationParam v d lo hi \<and> parsePaginationParam v d lo hi \<le> hi"
  by (auto simp: parsePaginationParam_def split: option.split)

section \<open>Handlers\<close>

text \<open>A handler that answers with \<open>code\<close> or passes the error on.\<close>

definition replied :: "nat \<Rightarrow> (world, 'a) outcome \<Rightarrow> 'a reply \<times> world" where
  "replied code r = (case r of (x, w) \<Rightarrow> (reply code x, w))"

definition ctl_registerOracle ::
  "oracle_env \<Rightarrow> platform \<Rightarrow> int \<Rightarrow> string \<Rightarrow> create_oracle_input \<Rightarrow> world \<Rightarrow> oracle_row reply \<times> world" where
  "ctl_registerOracle V P now new_id body w = replied 201 (registerOracle V P now new_id body w)"

definition ctl_listOracles ::
  "string option \<Rightarrow> string option \<Rightarrow> string option \<Rightarrow> world \<Rightarrow> (oracle_row list \<times> nat \<times> int \<times> int) reply \<times> world" where
  "ctl_listOracles isActive limit offset w =
     replied 200 (listOracles (if isActive = Some ''true'' then Some True else if isActive = Some ''false'' then Some False else None)
       (Some (parsePaginationParam limit 50 1 100)) (Some (parsePaginationParam offset 0 0 10000)) w)"

definition ctl_getOracle :: "oracle_env \<Rightarrow> string \<Rightarrow> world \<Rightarrow> (oracle_row \<times> nat) reply \<times> world" where
  "ctl_getOracle V address w = replied 200 (getOracle V (Some address) w)"

definition ctl_deactivateOracle :: "oracle_env \<Rightarrow> int \<Rightarrow> string \<Rightarrow> world \<Rightarrow> unit reply \<times> world" where
  "ctl_deactivateOracle V now address w = (case deactivateOracle V now (Some address) w of
     (Inl e, w') \<Rightarrow> (Failed e, w') | (Inr _, w') \<Rightarrow> (Reply 204 (), w'))"

definition ctl_submitConfirmation ::
  "oracle_env \<Rightarrow> int \<Rightarrow> string \<Rightarrow> (string \<rightharpoonup> json) \<Rightarrow> world \<Rightarrow> confirmation_row reply \<times> world" where
  "ctl_submitConfirmation V now new_id body w =
     (case validateRequiredFields body [''oracleAddress'', ''escrowId'', ''eventType'', ''signature'', ''payload'', ''nonce''] of
        Inl e \<Rightarrow> (Failed e, w)
      | Inr _ \<Rightarrow>
        (case (as_text (body ''oracleAddress''), as_text (body ''escrowId''), as_text (body ''eventType''),
               as_text (body ''signature''), as_text (body ''nonce'')) of
           (Inr a, Inr e, Inr t, Inr s, Inr n) \<Rightarrow>
             replied 201 (confirmOracleEvent V now new_id \<lparr>ci_oracleAddress = Some a, ci_escrowId = Some e, ci_eventType = Some t,
               ci_signature = Some s, ci_payload = the (body ''payload''), ci_nonce = Some n\<rparr> w)
         | _ \<Rightarrow> (Failed (PlainError ''invalid value''), w)))"

definition ctl_getConfirmations ::
  "string \<Rightarrow> string option \<Rightarrow> string option \<Rightarrow> world \<Rightarrow> ((confirmation_row \<times> oracle_row option) list \<times> nat \<times> int \<times> int) reply \<times> world" where
  "ctl_getConfirmations escrowId limit offset w =
     replied 200 (getConfirmations escrowId (Some (parsePaginationParam limit 50 1 100)) (Some (parsePaginationParam offset 0 0 10000)) w)"

definition ctl_getOracleMetrics :: "int \<Rightarrow> world \<Rightarrow> oracle_metrics reply" where
  "ctl_getOracleMetrics now w = Reply 200 (getOracleMetrics now w)"

definition ctl_flagDispute ::
  "oracle_env \<Rightarrow> (world \<Rightarrow> world) \<Rightarrow> string \<Rightarrow> (string \<rightharpoonup> json) \<Rightarrow> world \<Rightarrow> (escrow_row option \<times> dispute_row) reply \<times> world" where
  "ctl_flagDispute V env new_id body w =
     (case validateRequiredFields body [''escrowId'', ''reason'', ''disputerAddress''] of
        Inl e \<Rightarrow> (Failed e, w)
      | Inr _ \<Rightarrow>
        (case (as_text (body ''escrowId''), as_text (body ''reason''), as_text (body ''disputerAddress'')) of
           (Inr e, Inr r, Inr a) \<Rightarrow> replied 201 (flagDispute V env new_id e (Some r) (Some a) w)
         | _ \<Rightarrow> (Failed (PlainError ''invalid value''), w)))"

definition ctl_getOracleReputation ::
  "string \<Rightarrow> world \<Rightarrow> (oracle_row \<times> reputation_row option \<times> stake_row option) reply \<times> world" where
  "ctl_getOracleReputation i w = replied 200 (getOracleReputation i w)"

definition ctl_getOracleNetworkStatus :: "int \<Rightarrow> world \<Rightarrow> network_status reply" where
  "ctl_getOracleNetworkStatus now w = Reply 200 (getOracleNetworkStatus now w)"

definition ctl_distributeReward ::
  "platform \<Rightarrow> int \<Rightarrow> string \<Rightarrow> (string \<rightharpoonup> json) \<Rightarrow> world \<Rightarrow> reward_row reply \<times> world" where
  "ctl_distributeReward P now new_id body w =
     (case validateRequiredFields body [''oracleId'', ''amount'', ''reason''] of
        Inl e \<Rightarrow> (Failed e, w)
      | Inr _ \<Rightarrow>
        (case (as_text (body ''oracleId''), as_number P (body ''amount''), as_text (body ''reason''), as_option (body ''confirmationId'')) of
           (Inr i, Inr a, Inr r, Inr c) \<Rightarrow> replied 201 (distributeReward P now new_id i a r c w)
         | _ \<Rightarrow> (Failed (PlainError ''invalid value''), w)))"

definition ctl_slashStake ::
  "oracle_env \<Rightarrow> platform \<Rightarrow> int \<Rightarrow> (string \<rightharpoonup> json) \<Rightarrow> world \<Rightarrow> stake_row reply \<times> world" where
  "ctl_slashStake V P now body w =
     (case validateRequiredFields body [''oracleId'', ''amount'', ''reason''] of
        Inl e \<Rightarrow> (Failed e, w)
      | Inr _ \<Rightarrow>
        (case (as_text (body ''oracleId''), as_number P (body ''amount'')) of
           (Inr i, Inr a) \<Rightarrow> replied 200 (slashStake V P now i a w)
         | _ \<Rightarrow> (Failed (PlainError ''invalid value''), w)))"

text \<open>Whatever the outcome is, other than \<open>favor_reporter\<close> it favours the oracle.\<close>

definition ctl_resolveDispute ::
  "oracle_env \<Rightarrow> platform \<Rightarrow> int \<Rightarrow> (string \<rightharpoonup> json) \<Rightarrow> world \<Rightarrow> dispute_row reply \<times> world" where
  "ctl_resolveDispute V P now body w =
     (case validateRequiredFields body [''disputeId'', ''resolution'', ''outcome''] of
        Inl e \<Rightarrow> (Failed e, w)
      | Inr _ \<Rightarrow>
        (case (as_text (body ''disputeId''), as_text (body ''resolution'')) of
           (Inr i, Inr r) \<Rightarrow> replied 200 (resolveDispute V P now i r (body ''outcome'' = Some (JStr ''favor_reporter'')) w)
         | _ \<Rightarrow> (Failed (PlainError ''invalid value''), w)))"

text \<open>The column \<open>requiredSigs\<close> takes integers of 32 bits, and no numeric texts.\<close>

definition as_int32 :: "json option \<Rightarrow> app_error + int" where
  "as_int32 v = (case v of
     Some (JNum (Fin x)) \<Rightarrow> if x = of_int \<lfloor>x\<rfloor> \<and> - (2 ^ 31) \<le> \<lfloor>x\<rfloor> \<and> \<lfloor>x\<rfloor> < 2 ^ 31 then Inr \<lfloor>x\<rfloor> else Inl (PlainError ''invalid value'')
   | _ \<Rightarrow> Inl (PlainError ''invalid value''))"

definition ctl_createThresholdSignature ::
  "string \<Rightarrow> (string \<rightharpoonup> json) \<Rightarrow> world \<Rightarrow> threshold_row reply \<times> world" where
  "ctl_createThresholdSignature new_id body w =
     (case validateRequiredFields body [''escrowId'', ''eventType'', ''requiredSigs''] of
        Inl e \<Rightarrow> (Failed e, w)
      | Inr _ \<Rightarrow>
        (case (as_text (body ''escrowId''), as_text (body ''eventType''), as_int32 (body ''requiredSigs'')) of
           (Inr e, Inr t, Inr n) \<Rightarrow> replied 201 (createThresholdSignature new_id e t n w)
         | (Inr e, Inr t, Inl _) \<Rightarrow>
             (if lookup_row escrow_id e (escrows w) = None then (Failed (NotFoundError ''Escrow not found''), w)
              else (Failed (PlainError ''invalid value''), w))
         | _ \<Rightarrow> (Failed (PlainError ''invalid value''), w)))"

definition ctl_addThresholdSignature ::
  "int \<Rightarrow> (string \<rightharpoonup> json) \<Rightarrow> world \<Rightarrow> threshold_row reply \<times> world" where
  "ctl_addThresholdSignature now body w =
     (case validateRequiredFields body [''thresholdId'', ''oracleAddress'', ''signature''] of
        Inl e \<Rightarrow> (Failed e, w)
      | Inr _ \<Rightarrow>
        (case (as_text (body ''thresholdId''), as_text (body ''oracleAddress''), as_text (body ''signature'')) of
           (Inr i, Inr a, Inr s) \<Rightarrow> replied 200 (addThresholdSignature now i a s w)
         | _ \<Rightarrow> (Failed (PlainError ''invalid value''), w)))"

definition ctl_getThresholdSignature :: "string \<Rightarrow> world \<Rightarrow> threshold_row reply \<times> world" where
  "ctl_getThresholdSignature i w = replied 200 (getThresholdSignature i w)"

section \<open>Any session moves the stake of any oracle\<close>

lemma updateReputation_stakes: "stakes (snd (updateReputation V now i ok w)) = stakes w"
  by (auto simp: updateReputation_def split: option.split)

lemma slashStake_stakes:
  assumes "lookup_row oracle_id i (oracles w) = Some o'" and "lookup_row stake_oracleId i (stakes w) = Some s"
    and "\<not> fl64 (stake_amount s) < a" and "store20_7 P (stake_amount s - a) = Inr l" and "store20_7 P (slashedAmount s + a) = Inr sl"
  shows "stakes (snd (slashStake V P now i a w))
    = update_where (\<lambda>r. stake_oracleId r = i) (\<lambda>r. r\<lparr>stake_amount := l, slashedAmount := sl\<rparr>) (stakes w)"
proof -
  let ?w = "w\<lparr>stakes := update_where (\<lambda>r. stake_oracleId r = i) (\<lambda>r. r\<lparr>stake_amount := l, slashedAmount := sl\<rparr>) (stakes w)\<rparr>"
  have "stakes (snd (slashStake V P now i a w)) = stakes (snd (updateReputation V now i False ?w))"
    using assms by (auto simp: slashStake_def Let_def split: prod.split sum.split)
  then show ?thesis by (simp add: updateReputation_stakes)
qed

text \<open>
  C26. The endpoint that slashes the stake of an oracle asks for nothing but a session:
  whoever is logged in, in whatever role, moves the stake of every oracle, and with a
  negative amount he raises it, while the sum of what was slashed goes down.
\<close>

theorem anyone_raises_stake:
  assumes "app_chain X (rq_method req) (rq_path req) app_routes = ([AUTHENTICATED], Some (Oracle H_slashStake))"
    and "authMiddleware K (rq_authorization req) w = Inr p"
    and "body ''oracleId'' = Some (JStr i)" and "body ''amount'' = Some (JNum (Fin (- x)))" and "body ''reason'' = Some (JStr r)"
    and "i \<noteq> []" and "r \<noteq> []" and "0 < x"
    and "lookup_row oracle_id i (oracles w) = Some o'" and "lookup_row stake_oracleId i (stakes w) = Some s" and "0 \<le> stake_amount s"
    and "store20_7 P (stake_amount s + x) = Inr l" and "store20_7 P (slashedAmount s - x) = Inr sl"
  shows "(\<exists>st. serve X K stored req w logged = Inr (Oracle H_slashStake, st))
    \<and> lookup_row stake_oracleId i (stakes (snd (ctl_slashStake V P now body w))) = Some (s\<lparr>stake_amount := l, slashedAmount := sl\<rparr>)"
proof
  show "\<exists>st. serve X K stored req w logged = Inr (Oracle H_slashStake, st)"
    using assms(1,2) by (simp add: serve_def)
next
  have "0 \<le> fl64 (stake_amount s)" using assms(11) by (rule js.fl_nonneg)
  then have "\<not> fl64 (stake_amount s) < - x" using assms(8) by simp
  then have "stakes (snd (slashStake V P now i (- x) w))
      = update_where (\<lambda>r. stake_oracleId r = i) (\<lambda>r. r\<lparr>stake_amount := l, slashedAmount := sl\<rparr>) (stakes w)"
    using assms(9,10,12,13) by (intro slashStake_stakes) auto
  moreover have "snd (ctl_slashStake V P now body w) = snd (slashStake V P now i (- x) w)"
    using assms(3-7) by (auto simp: ctl_slashStake_def missing_def as_text_def as_number_def replied_def split: prod.split)
  ultimately show "lookup_row stake_oracleId i (stakes (snd (ctl_slashStake V P now body w))) = Some (s\<lparr>stake_amount := l, slashedAmount := sl\<rparr>)"
    using assms(10) by (auto simp: lookup_row_def update_where_def find_map_row dest: find_SomeD)
qed

definition demo_slash :: "string \<rightharpoonup> json" where
  "demo_slash = [''oracleId'' \<mapsto> JStr ''o1'', ''amount'' \<mapsto> JNum (Fin (- 500)), ''reason'' \<mapsto> JStr ''x'']"

definition demo_stake :: stake_row where
  "demo_stake = \<lparr>stake_oracleId = ''o1'', stake_amount = 100, stake_assetCode = ''USDC'', stakedAt = 0, slashedAmount = 0,
     rewardAmount = 0, lastRewardAt = None\<rparr>"

definition demo_stake_world :: world where
  "demo_stake_world = demo_session_world\<lparr>oracles := [demo_oracle], stakes := [demo_stake]\<rparr>"

definition demo_seller_crypto :: crypto where
  "demo_seller_crypto = demo_crypto\<lparr>jwt_verify := (\<lambda>t _. if t = ''tok'' then Some (demo_payload\<lparr>tp_role := SELLER\<rparr>) else None)\<rparr>"

lemma demo_chain_slash:
  "app_chain demo_express M_POST ''/api/oracles/stakes/slash'' app_routes = ([AUTHENTICATED], Some (Oracle H_slashStake))"
  by (simp add: app_routes_def routers demo_express_def)

theorem anyone_raises_stake_witness:
  "lookup_row stake_oracleId ''o1'' (stakes (snd (ctl_slashStake demo_oracle_env demo_platform 7 demo_slash demo_stake_world)))
     = Some (demo_stake\<lparr>stake_amount := 600, slashedAmount := - 500\<rparr>)"
proof -
  have auth: "authMiddleware demo_seller_crypto (Some ''Bearer tok'') demo_stake_world = Inr (demo_payload\<lparr>tp_role := SELLER\<rparr>)"
    by (simp add: authMiddleware_def demo_seller_crypto_def demo_stake_world_def demo_session_world_def demo_payload_def lookup_row_def)
  have st: "store20_7 demo_platform (of_int n) = Inr (of_int n)" if "\<bar>n\<bar> < 1000" for n
  proof -
    have "round7 (of_int n) = of_int n" by (rule round7_fix) (rule on_gridI [of _ "n * 10 ^ 7"], simp)
    moreover have "\<bar>of_int n\<bar> < (10 ^ 13 :: rat)" using that of_int_less_iff [of "\<bar>n\<bar>" "10 ^ 13", where ?'a = rat] by simp
    ultimately show ?thesis by (simp add: store20_7_def demo_platform_def)
  qed
  show ?thesis
    using anyone_raises_stake [of demo_express "demo_api_request M_POST ''/api/oracles/stakes/slash''" demo_seller_crypto demo_stake_world _
        demo_slash "''o1''" 500 "''x''" demo_oracle demo_stake demo_platform 600 "- 500" "\<lambda>_. True" "[]" demo_oracle_env 7]
      auth demo_chain_slash st [of 600] st [of "- 500"]
    by (auto simp: demo_api_request_def demo_slash_def demo_stake_world_def demo_session_world_def demo_oracle_def demo_stake_def lookup_row_def)
qed

text \<open>
  Whatever the query of a listing says, it shows at most a hundred oracles, and never
  looks beyond the offset 10000.
\<close>

theorem oracle_paging_bounded:
  "\<exists>rs n l ofs. fst (ctl_listOracles act lmt ofst w) = Reply 200 (rs, n, l, ofs)
     \<and> length rs \<le> nat l \<and> 1 \<le> l \<and> l \<le> 100 \<and> 0 \<le> ofs \<and> ofs \<le> 10000 \<and> set rs \<subseteq> set (oracles w) \<and> length rs \<le> n"
proof -
  let ?l = "parsePaginationParam lmt 50 1 100" and ?o = "parsePaginationParam ofst 0 0 10000"
  have "1 \<le> ?l \<and> ?l \<le> 100" "0 \<le> ?o \<and> ?o \<le> 10000" by (rule parsePaginationParam_range; simp)+
  moreover have "length (page_desc P k n t) \<le> n \<and> set (page_desc P k n t) \<subseteq> set t \<and> length (page_desc P k n t) \<le> count_where P t" for P k n and t :: "oracle_row list"
    by (auto simp: page_desc_def count_where_def rev_filter [symmetric] dest!: in_set_takeD in_set_dropD)
  ultimately show ?thesis
    by (auto simp: ctl_listOracles_def replied_def listOracles_def num_default_def Let_def)
qed

end
