(* ===== verification/Collateral_Api.thy ===== *)
theory Collateral_Api
  imports Http_Api Collateral_Service Analytics Js_Parse
begin

text \<open>
  The handlers of \<open>server/src/controllers/collateral.controller.ts\<close> and
  \<open>analytics.controller.ts\<close> over their services, and what the changes of collateral do to
  what is found afterwards.
\<close>

section \<open>Collateral\<close>

definition ctl_createCollateral ::
  "platform \<Rightarrow> string \<Rightarrow> create_collateral_request \<Rightarrow> world \<Rightarrow> collateral_row reply \<times> world" where
  "ctl_createCollateral P new_id body w = (case createCollateral P new_id body w of (r, w') \<Rightarrow> (reply 201 r, w'))"

text \<open>The parameters of a query that are no texts are dropped.\<close>

definition query_text :: "json option \<Rightarrow> string option" where
  "query_text v = (case v of Some (JStr s) \<Rightarrow> Some s | _ \<Rightarrow> None)"

definition query_input :: "json option \<Rightarrow> num_input" where
  "query_input v = (case v of Some (JStr s) \<Rightarrow> NStr s | _ \<Rightarrow> NUndef)"

definition ctl_listCollateral :: "platform \<Rightarrow> (string \<rightharpoonup> json) \<Rightarrow> world \<Rightarrow> collateral_row page_result reply" where
  "ctl_listCollateral P query w = reply 200 (listCollateral P
     \<lparr>cq_escrowId = query_text (query ''escrowId''), cq_status = query_text (query ''status''),
      cq_page = query_input (query ''page''), cq_limit = query_input (query ''limit'')\<rparr> w)"

definition ctl_getCollateral :: "string \<Rightarrow> world \<Rightarrow> collateral_row reply" where
  "ctl_getCollateral i w = reply 200 (getCollateralById (Some i) w)"

definition ctl_getCollateralByMetadata :: "string \<Rightarrow> world \<Rightarrow> collateral_row reply" where
  "ctl_getCollateralByMetadata hash w = reply 200 (getCollateralByMetadataHash (Some hash) w)"

definition ctl_tokenizeAsset ::
  "platform \<Rightarrow> (string \<Rightarrow> string) \<Rightarrow> int \<Rightarrow> string \<Rightarrow> tokenize_request \<Rightarrow> world \<Rightarrow> tokenized_asset reply \<times> world" where
  "ctl_tokenizeAsset P qt now new_id body w = (case tokenizeAsset P qt now new_id body w of (r, w') \<Rightarrow> (reply 201 r, w'))"

definition ctl_updateValuation :: "platform \<Rightarrow> string \<Rightarrow> json option \<Rightarrow> world \<Rightarrow> collateral_row reply \<times> world" where
  "ctl_updateValuation P i newUSDValue w =
     (case updateValuation P (Some i) (body_Number (str_num P) newUSDValue) w of (r, w') \<Rightarrow> (reply 200 r, w'))"

definition ctl_verifyCollateral ::
  "platform \<Rightarrow> string \<Rightarrow> string \<Rightarrow> verification_data \<Rightarrow> world \<Rightarrow> (collateral_row \<times> bool) reply \<times> world" where
  "ctl_verifyCollateral P blob i body w = (case verifyCollateral P blob (Some i) body w of (r, w') \<Rightarrow> (reply 200 r, w'))"

definition ctl_getCollateralMetadata :: "string \<Rightarrow> world \<Rightarrow> (collateral_row \<times> escrow_row option \<times> ltv_info \<times> string) reply" where
  "ctl_getCollateralMetadata i w = reply 200 (getCollateralMetadata (Some i) w)"

definition ctl_calculateLTV :: "string \<Rightarrow> world \<Rightarrow> ltv_info reply" where
  "ctl_calculateLTV i w = reply 200 (calculateLTV (Some i) w)"

definition ctl_getCollateralTypes :: "(string \<times> rat \<times> string) list reply" where
  "ctl_getCollateralTypes = Reply 200 getCollateralTypes"

section \<open>Analytics\<close>

definition ctl_getPlatformStats ::
  "platform \<Rightarrow> (wallet_row \<Rightarrow> bool) \<Rightarrow> int \<Rightarrow> world \<Rightarrow> (int \<times> platform_stats) option \<Rightarrow> platform_stats reply \<times> (int \<times> platform_stats) option" where
  "ctl_getPlatformStats P verified now w c = (case getPlatformStats P verified now w c of (r, c') \<Rightarrow> (reply 200 r, c'))"

definition ctl_getProtocolAnalytics ::
  "platform \<Rightarrow> int \<Rightarrow> world \<Rightarrow> (int \<times> protocol_analytics) option \<Rightarrow> protocol_analytics reply \<times> (int \<times> protocol_analytics) option" where
  "ctl_getProtocolAnalytics P now w c = (case getProtocolAnalytics P now w c of (r, c') \<Rightarrow> (reply 200 r, c'))"

section \<open>The collateral indexer\<close>

text \<open>A timer that polls every 30 seconds unless the previous poll is still running.\<close>

record indexer =
  ix_timer :: bool
  ix_polling :: bool
  ix_open :: nat \<comment> \<open>queries of the database that have not returned\<close>

datatype indexer_event = IX_START | IX_TICK | IX_DONE | IX_STOP

fun indexer_step :: "indexer_event \<Rightarrow> indexer \<Rightarrow> indexer" where
  "indexer_step IX_START s = s\<lparr>ix_timer := True\<rparr>"
| "indexer_step IX_TICK s = (if ix_timer s \<and> \<not> ix_polling s then s\<lparr>ix_polling := True, ix_open := ix_open s + 1\<rparr> else s)"
| "indexer_step IX_DONE s = (if 0 < ix_open s then s\<lparr>ix_polling := False, ix_open := ix_open s - 1\<rparr> else s)"
| "indexer_step IX_STOP s = (if ix_timer s then s\<lparr>ix_timer := False, ix_polling := False\<rparr> else s)"

text \<open>
  Polls overlap only after the indexer was stopped: without stops at most one query is
  open. A stop while a query runs, and a new start, let a second query begin.
\<close>

lemma indexer_one_query:
  assumes "IX_STOP \<notin> set es"
  shows "ix_open (fold indexer_step es \<lparr>ix_timer = False, ix_polling = False, ix_open = 0\<rparr>) \<le> 1"
proof -
  have "ix_open s = (if ix_polling s then 1 else 0) \<Longrightarrow>
      ix_open (fold indexer_step es s) = (if ix_polling (fold indexer_step es s) then 1 else 0)" for s
    using assms
  proof (induction es arbitrary: s)
    case (Cons e es)
    have "ix_open (indexer_step e s) = (if ix_polling (indexer_step e s) then 1 else 0)"
      using Cons.prems by (cases e) (auto split: if_splits)
    then show ?case using Cons by simp
  qed simp
  then show ?thesis by simp
qed

lemma indexer_two_queries:
  "ix_open (fold indexer_step [IX_START, IX_TICK, IX_STOP, IX_START, IX_TICK] \<lparr>ix_timer = False, ix_polling = False, ix_open = 0\<rparr>) = 2"
  by simp

end
