(* ===== verification/Server_Runtime.thy ===== *)
theory Server_Runtime
  imports Loan_Service Js_Parse
begin

text \<open>
  The process around the services: the configuration (\<open>server/src/config/env.ts\<close>,
  \<open>config/contracts.ts\<close>), the identifiers of a request
  (\<open>middleware/request-trace.middleware.ts\<close>), the metrics (\<open>services/metrics.service.ts\<close>),
  the database service (\<open>services/database.service.ts\<close>), and the shutdown
  (\<open>server/src/server.ts\<close>).
\<close>

section \<open>Configuration\<close>

type_synonym process_env = "string \<rightharpoonup> string"

definition env_or :: "process_env \<Rightarrow> string \<Rightarrow> string \<Rightarrow> string" where
  "env_or E k d = or_else (E k) d"

definition requiredInProduction :: "string list" where
  "requiredInProduction = [''DATABASE_URL'', ''JWT_ACCESS_SECRET'', ''JWT_REFRESH_SECRET'']"

definition missing_env :: "process_env \<Rightarrow> string list" where
  "missing_env E = filter (\<lambda>k. or_else (E k) [] = []) requiredInProduction"

record server_env =
  env_port :: "int option"
  env_databaseUrl :: string
  env_appBaseUrl :: string
  env_requestTimeoutMs :: "int option"
  env_redisHost :: string
  env_redisPort :: "int option"
  env_network :: string
  env_horizonUrl :: string
  env_rpcUrl :: string
  env_networkPassphrase :: string
  env_feePayerPublic :: string
  env_feePayerSecret :: string
  env_accessSecret :: string
  env_refreshSecret :: string
  env_accessExpiresIn :: string
  env_refreshExpiresIn :: string
  env_webhookSecret :: string
  env_webhookSignatureSecret :: string
  env_corsAllowedOrigins :: "string list"

fun split_commas :: "string \<Rightarrow> string list" where
  "split_commas [] = [[]]"
| "split_commas (c # s) = (case split_commas s of
     [] \<Rightarrow> [[c]]
   | x # xs \<Rightarrow> if c = CHR '','' then [] # x # xs else (c # x) # xs)"

definition server_env_of :: "process_env \<Rightarrow> server_env" where
  "server_env_of E = \<lparr>env_port = js_parseInt (env_or E ''PORT'' ''3001''), env_databaseUrl = env_or E ''DATABASE_URL'' [],
     env_appBaseUrl = env_or E ''APP_BASE_URL'' ''https://stellovault.com'',
     env_requestTimeoutMs = js_parseInt (env_or E ''REQUEST_TIMEOUT_MS'' ''30000''),
     env_redisHost = env_or E ''REDIS_HOST'' ''localhost'', env_redisPort = js_parseInt (env_or E ''REDIS_PORT'' ''6379''),
     env_network = env_or E ''STELLAR_NETWORK'' ''testnet'',
     env_horizonUrl = env_or E ''HORIZON_URL'' ''https://horizon-testnet.stellar.org'',
     env_rpcUrl = env_or E ''RPC_URL'' ''https://soroban-testnet.stellar.org'',
     env_networkPassphrase = env_or E ''NETWORK_PASSPHRASE'' ''Test SDF Network ; September 2015'',
     env_feePayerPublic = env_or E ''FEE_PAYER_PUBLIC'' [], env_feePayerSecret = env_or E ''FEE_PAYER_SECRET'' [],
     env_accessSecret = env_or E ''JWT_ACCESS_SECRET'' ''change-me-in-prod'',
     env_refreshSecret = env_or E ''JWT_REFRESH_SECRET'' ''change-me-in-prod-refresh'',
     env_accessExpiresIn = env_or E ''JWT_ACCESS_EXPIRES_IN'' ''15m'', env_refreshExpiresIn = env_or E ''JWT_REFRESH_EXPIRES_IN'' ''7d'',
     env_webhookSecret = env_or E ''WEBHOOK_SECRET'' [],
     env_webhookSignatureSecret = env_or E ''WEBHOOK_SIGNATURE_SECRET'' (env_or E ''WEBHOOK_SECRET'' []),
     env_corsAllowedOrigins = (case E ''CORS_ALLOWED_ORIGINS'' of None \<Rightarrow> [''*''] | Some s \<Rightarrow> split_commas s)\<rparr>"

text \<open>Loading the module: throws in production when a required variable is missing.\<close>

definition load_env :: "process_env \<Rightarrow> app_error + server_env" where
  "load_env E = (if E ''NODE_ENV'' = Some ''production'' \<and> missing_env E \<noteq> []
     then Inl (PlainError (''Missing required environment variables: '' @ sep_by '', '' (missing_env E)))
     else Inr (server_env_of E))"

definition contract_ids :: "process_env \<Rightarrow> (string \<times> string) list" where
  "contract_ids E = map (\<lambda>(k, v). (k, env_or E v []))
     [(''loan'', ''LOAN_CONTRACT_ID''), (''collateral'', ''COLLATERAL_CONTRACT_ID''), (''escrow'', ''ESCROW_CONTRACT_ID''),
      (''registry'', ''REGISTRY_CONTRACT_ID''), (''governance'', ''GOVERNANCE_CONTRACT_ID'')]"

section \<open>Request identifiers\<close>

record traced =
  tr_requestId :: string
  tr_correlationId :: string

definition requestTrace :: "string \<Rightarrow> string option \<Rightarrow> string option \<Rightarrow> traced" where
  "requestTrace new_uuid inboundRequestId inboundCorrelationId =
     (let r = or_else inboundRequestId new_uuid in \<lparr>tr_requestId = r, tr_correlationId = or_else inboundCorrelationId r\<rparr>)"

section \<open>Metrics\<close>

type_synonym metric_labels = "string \<times> string \<times> nat"

record metrics =
  mt_observed :: "(metric_labels \<times> rat) list" \<comment> \<open>\<open>http_request_duration_seconds\<close>\<close>
  mt_total :: "metric_labels \<Rightarrow> nat" \<comment> \<open>\<open>http_requests_total\<close>\<close>
  mt_health :: "nat option"
  mt_balance :: "jsnum option"
  mt_alerts :: "jsnum list"

text \<open>When a response is finished: \<open>secs\<close> and \<open>nanos\<close> are what \<open>hrtime\<close> measured.\<close>

definition metrics_finish :: "string \<Rightarrow> string option \<Rightarrow> string \<Rightarrow> nat \<Rightarrow> nat \<Rightarrow> nat \<Rightarrow> metrics \<Rightarrow> metrics" where
  "metrics_finish mthd route_path path status secs nanos s =
     (let l = (mthd, or_else route_path path, status); d = fl64 (of_nat secs + fl64 (of_nat nanos / 10 ^ 9)) in
      s\<lparr>mt_observed := mt_observed s @ [(l, d)], mt_total := (mt_total s)(l := mt_total s l + 1)\<rparr>)"

definition below_10 :: "jsnum \<Rightarrow> bool" where
  "below_10 x = (case x of Fin q \<Rightarrow> q < 10 | NegInfinity \<Rightarrow> True | _ \<Rightarrow> False)"

text \<open>\<open>balance\<close> is the answer of the network, already converted by \<open>parseFloat\<close>; none when the query throws.\<close>

definition checkFeePayerBalance :: "string \<Rightarrow> (string \<Rightarrow> jsnum option) \<Rightarrow> metrics \<Rightarrow> metrics" where
  "checkFeePayerBalance publicKey balance s =
     (if publicKey = [] then s
      else case balance publicKey of
        None \<Rightarrow> s
      | Some b \<Rightarrow> s\<lparr>mt_balance := Some b, mt_alerts := (if below_10 b then mt_alerts s @ [b] else mt_alerts s)\<rparr>)"

definition startBackgroundMonitoring :: "string \<Rightarrow> (string \<Rightarrow> jsnum option) \<Rightarrow> metrics \<Rightarrow> metrics" where
  "startBackgroundMonitoring publicKey balance s = checkFeePayerBalance publicKey balance (s\<lparr>mt_health := Some 1\<rparr>)"

section \<open>The database service\<close>

text \<open>\<open>getLoanById\<close> with the borrower, and \<open>updateLoanStatus\<close>, which asks for no transition.\<close>

definition db_getLoanById :: "string \<Rightarrow> world \<Rightarrow> (loan_row \<times> user_row option) option" where
  "db_getLoanById i w = map_option (\<lambda>l. (l, lookup_row user_id (borrowerId l) (users w))) (lookup_row loan_id i (loans w))"

definition db_updateLoanStatus :: "string \<Rightarrow> loan_status \<Rightarrow> world \<Rightarrow> (world, loan_row) outcome" where
  "db_updateLoanStatus i st w = (case lookup_row loan_id i (loans w) of
     None \<Rightarrow> (Inl (PlainError ''Record to update not found''), w)
   | Some l \<Rightarrow> (Inr (l\<lparr>loan_status := st\<rparr>), w\<lparr>loans := update_where (\<lambda>r. loan_id r = i) (\<lambda>r. r\<lparr>loan_status := st\<rparr>) (loans w)\<rparr>))"

text \<open>
  \<open>createUser\<close> writes the user and its wallet in one transaction, with a role that the
  client looks up in the enumeration of the schema.
\<close>

definition schema_role :: "string \<Rightarrow> user_role option" where
  "schema_role s = map_of [(''BUYER'', BUYER), (''SELLER'', SELLER), (''LENDER'', LENDER), (''AUDITOR'', AUDITOR), (''ADMIN'', ADMIN)] s"

definition db_createUser :: "string \<Rightarrow> string \<Rightarrow> string \<Rightarrow> string option \<Rightarrow> bool option \<Rightarrow> world \<Rightarrow> (world, user_row \<times> wallet_row) outcome" where
  "db_createUser new_user new_wallet addr label primary = transaction (\<lambda>w.
     case schema_role ''USER'' of
       None \<Rightarrow> (Inl (PlainError ''Invalid value for argument role''), w)
     | Some r \<Rightarrow>
         if lookup_row stellarAddress addr (users w) \<noteq> None \<or> lookup_row wallet_address addr (wallets w) \<noteq> None
         then (Inl (PlainError ''Unique constraint failed''), w)
         else let u = \<lparr>user_id = new_user, stellarAddress = addr, user_name = None, user_role = r\<rparr>;
                  v = \<lparr>wallet_id = new_wallet, wallet_userId = new_user, wallet_address = addr,
                       isPrimary = (case primary of None \<Rightarrow> True | Some b \<Rightarrow> b), wallet_label = label\<rparr>
              in (Inr (u, v), w\<lparr>users := insert_row u (users w), wallets := insert_row v (wallets w)\<rparr>))"

text \<open>The schema has no role \<open>USER\<close>: every call fails and writes nothing.\<close>

lemma db_createUser_fails: "db_createUser i j a l p w = (Inl (PlainError ''Invalid value for argument role''), w)"
  by (simp add: db_createUser_def schema_role_def transaction_def)

section \<open>Shutdown\<close>

text \<open>The four things closed at once: each ends well or badly after some milliseconds, or never.\<close>

datatype closing = Closes nat | Fails nat | Hangs

definition fail_times :: "closing list \<Rightarrow> nat list" where
  "fail_times cs = concat (map (\<lambda>c. case c of Fails t \<Rightarrow> [t] | _ \<Rightarrow> []) cs)"

definition close_times :: "closing list \<Rightarrow> nat list" where
  "close_times cs = concat (map (\<lambda>c. case c of Closes t \<Rightarrow> [t] | _ \<Rightarrow> []) cs)"

text \<open>
  \<open>Promise.all\<close> is rejected by the first failure and fulfilled when all are; the timer of
  ten seconds ends the process otherwise. The exit code, and when.
\<close>

definition gracefulShutdown :: "closing list \<Rightarrow> nat \<times> nat" where
  "gracefulShutdown cs =
     (let settled = (if fail_times cs \<noteq> [] then Some (1, Min (set (fail_times cs)))
          else if length (close_times cs) = length cs then Some (0, Max (insert 0 (set (close_times cs)))) else None) in
      case settled of Some (code, t) \<Rightarrow> if t < 10000 then (code, t) else (1, 10000) | None \<Rightarrow> (1, 10000))"

section \<open>Properties\<close>

lemma or_else_empty: "or_else v [] = [] \<longleftrightarrow> v = None \<or> v = Some []"
  by (auto simp: or_else_def split: option.split)

text \<open>
  The server starts with the secrets that are published in its source unless they are
  configured: only in production, named exactly so, does a missing secret stop it; there
  the secrets in use are then the configured ones. The secrets of the webhooks are never
  required: without both the secret of signatures is empty, with which the callback of the
  escrows refuses everything.
\<close>

theorem published_secrets:
  "case load_env E of
     Inl e \<Rightarrow> E ''NODE_ENV'' = Some ''production'' \<and> (\<exists>k\<in>set requiredInProduction. E k \<in> {None, Some []})
   | Inr env \<Rightarrow>
       (E ''NODE_ENV'' = Some ''production'' \<longrightarrow>
          E ''JWT_ACCESS_SECRET'' = Some (env_accessSecret env) \<and> E ''JWT_REFRESH_SECRET'' = Some (env_refreshSecret env))
     \<and> (E ''JWT_ACCESS_SECRET'' \<in> {None, Some []} \<longrightarrow> env_accessSecret env = ''change-me-in-prod'')
     \<and> (E ''JWT_REFRESH_SECRET'' \<in> {None, Some []} \<longrightarrow> env_refreshSecret env = ''change-me-in-prod-refresh'')
     \<and> (E ''WEBHOOK_SECRET'' \<in> {None, Some []} \<and> E ''WEBHOOK_SIGNATURE_SECRET'' \<in> {None, Some []} \<longrightarrow> env_webhookSignatureSecret env = [])"
  by (auto simp: load_env_def missing_env_def requiredInProduction_def server_env_of_def env_or_def or_else_empty or_else_def
      split: option.splits if_splits)

definition demo_production :: process_env where
  "demo_production = [''NODE_ENV'' \<mapsto> ''production'', ''DATABASE_URL'' \<mapsto> ''db'', ''JWT_ACCESS_SECRET'' \<mapsto> ''a'', ''JWT_REFRESH_SECRET'' \<mapsto> ''r'']"

theorem published_secrets_witness:
  "(\<exists>env. load_env Map.empty = Inr env \<and> env_accessSecret env = ''change-me-in-prod'')
   \<and> (\<exists>env. load_env demo_production = Inr env \<and> env_accessSecret env = ''a'')"
  using published_secrets [of Map.empty] published_secrets [of demo_production]
  by (auto simp: load_env_def demo_production_def missing_env_def requiredInProduction_def or_else_def split: sum.splits)

text \<open>
  The process ends within ten seconds of a signal, whatever the four closings do, and
  its exit code is 0 exactly when all of them ended well before.
\<close>

theorem shutdown_ends:
  "snd (gracefulShutdown cs) \<le> 10000
   \<and> (fst (gracefulShutdown cs) = 0 \<longleftrightarrow> (\<forall>c\<in>set cs. \<exists>t<10000. c = Closes t))"
proof -
  have all: "fail_times cs = [] \<and> length (close_times cs) = length cs \<longleftrightarrow> (\<forall>c\<in>set cs. \<exists>t. c = Closes t)"
  proof -
    have le: "length (close_times cs) \<le> length cs" for cs
      by (induction cs) (auto simp: close_times_def split: closing.splits)
    show ?thesis
    proof (induction cs)
      case (Cons c cs)
      then show ?case using le [of cs] by (cases c) (auto simp: fail_times_def close_times_def)
    qed (simp_all add: fail_times_def close_times_def)
  qed
  have mem: "t \<in> set (close_times cs) \<longleftrightarrow> Closes t \<in> set cs" for t
    by (auto simp: close_times_def split: closing.splits)
  show ?thesis
  proof (cases "\<forall>c\<in>set cs. \<exists>t. c = Closes t")
    case True
    then have "Max (insert 0 (set (close_times cs))) < 10000 \<longleftrightarrow> (\<forall>c\<in>set cs. \<exists>t<10000. c = Closes t)"
      using mem by fastforce
    then show ?thesis using True all by (auto simp: gracefulShutdown_def Let_def)
  next
    case False
    then show ?thesis using all by (auto simp: gracefulShutdown_def Let_def split: if_splits)
  qed
qed

theorem shutdown_ends_witness:
  "fst (gracefulShutdown [Closes 5, Closes 9000]) = 0 \<and> fst (gracefulShutdown [Closes 5, Hangs]) \<noteq> 0"
  using shutdown_ends [of "[Closes 5, Closes 9000]"] shutdown_ends [of "[Closes 5, Hangs]"] by simp

end
