(* ===== verification/Read_Api.thy ===== *)
theory Read_Api
  imports Http_Api Governance Collateral_Api Server_Runtime
begin

text \<open>
  The handlers that hand a query to a read operation (escrows, loans, governance, users),
  those of the webhooks, and the rest of \<open>server/src/app.ts\<close>: the middlewares in front of all
  routes, the health check and the background jobs.
\<close>

section \<open>Escrows, loans and users\<close>

definition ctl_listEscrows :: "platform \<Rightarrow> (string \<rightharpoonup> json) \<Rightarrow> world \<Rightarrow> escrow_row page_result reply" where
  "ctl_listEscrows P query w = reply 200 (fst (listEscrows P
     \<lparr>elq_buyerId = query_text (query ''buyerId''), elq_sellerId = query_text (query ''sellerId''),
      elq_status = query_text (query ''status''), elq_page = query_input (query ''page''), elq_limit = query_input (query ''limit'')\<rparr> w))"

definition ctl_getEscrow :: "string \<Rightarrow> world \<Rightarrow> escrow_row reply" where
  "ctl_getEscrow i w = reply 200 (fst (getEscrow i w))"

definition ctl_getEscrowStatus :: "chain \<Rightarrow> string \<Rightarrow> world \<Rightarrow> escrow_sync reply \<times> world" where
  "ctl_getEscrowStatus C i w = (case getEscrowStatus C i w of (r, w') \<Rightarrow> (reply 200 r, w'))"

definition ctl_listLoans :: "(string \<rightharpoonup> json) \<Rightarrow> world \<Rightarrow> (loan_row \<times> repayment_row list) list reply" where
  "ctl_listLoans query w =
     reply 200 (fst (listLoans (query_text (query ''borrowerId'')) (query_text (query ''lenderId'')) (query_text (query ''status'')) w))"

definition ctl_getLoan :: "string \<Rightarrow> world \<Rightarrow> (loan_row \<times> repayment_row list) reply" where
  "ctl_getLoan i w = reply 200 (fst (getLoan i w))"

text \<open>The report of the user controller, which no route leads to, is a constant: seven zeros.\<close>

definition ctl_getAnalytics :: "(string \<times> json) list reply" where
  "ctl_getAnalytics = Reply 200 [(''totalEscrows'', JNum (Fin 0)), (''activeEscrows'', JNum (Fin 0)), (''completedEscrows'', JNum (Fin 0)),
     (''totalLoans'', JNum (Fin 0)), (''activeLoans'', JNum (Fin 0)), (''totalVolumeUSDC'', JStr ''0''), (''totalUsers'', JNum (Fin 0))]"

definition ctl_getMe :: "api_state \<Rightarrow> world \<Rightarrow> (user_row \<times> wallet_row list) reply" where
  "ctl_getMe st w = (if \<not> truthy (api_userId st) then Refused 401 ''Unauthorized''
     else reply 200 (fst (auth_getUserById (the (api_userId st)) w)))"

section \<open>Governance\<close>

definition ctl_getProposal :: "string \<Rightarrow> world \<Rightarrow> http_response + proposal_row \<times> vote_row list" where
  "ctl_getProposal i w = (case fst (getProposalById i w) of Inl e \<Rightarrow> Inl (lookup_error e) | Inr p \<Rightarrow> Inr p)"

text \<open>A paging parameter: absent, a number, or none for \<open>NaN\<close>, which the database client refuses.\<close>

definition page_param :: "string option \<Rightarrow> int option option" where
  "page_param v = (if or_else v [] = [] then Some None else map_option Some (js_parseInt (or_else v [])))"

definition ctl_getProposalVotes ::
  "string \<Rightarrow> string option \<Rightarrow> string option \<Rightarrow> world \<Rightarrow> http_response + vote_row list \<times> nat \<times> int \<times> int" where
  "ctl_getProposalVotes i limit offset w =
     (case (page_param limit, page_param offset) of
        (Some l, Some k) \<Rightarrow> (case fst (getProposalVotes i l k w) of Inl e \<Rightarrow> Inl (lookup_error e) | Inr r \<Rightarrow> Inr r)
      | _ \<Rightarrow> (case fst (getProposalById i w) of Inl e \<Rightarrow> Inl (lookup_error e)
          | Inr _ \<Rightarrow> Inl (errorMiddleware (PlainError ''Invalid value for argument''))))"

definition ctl_getMetrics :: "world \<Rightarrow> governance_metrics reply" where
  "ctl_getMetrics w = Reply 200 (getMetrics w)"

definition ctl_getParameters :: "(string \<times> int \<times> int) reply" where
  "ctl_getParameters = Reply 200 getParameters"

definition ctl_getAuditLog :: "string option \<Rightarrow> string option \<Rightarrow> audit_row list \<Rightarrow> (audit_row list \<times> nat \<times> int \<times> int) reply" where
  "ctl_getAuditLog limit offset rows =
     (case (page_param limit, page_param offset) of
        (Some l, Some k) \<Rightarrow> reply 200 (getAuditLog l k rows)
      | _ \<Rightarrow> Failed (PlainError ''Invalid value for argument''))"

section \<open>Webhooks\<close>

text \<open>An answer of the webhook controller.\<close>

datatype webhook_answer =
    HOOKS "safe_webhook list"
  | LOGGED "delivery_row list"
  | MEASURED webhook_metrics
  | QUEUED string
  | DELETED

definition with_user :: "api_state \<Rightarrow> (string \<Rightarrow> webhook_state \<Rightarrow> webhook_answer reply \<times> webhook_state) \<Rightarrow> webhook_state \<Rightarrow> webhook_answer reply \<times> webhook_state" where
  "with_user st f s = (case requireUserId (api_userId st) of Inl e \<Rightarrow> (Failed e, s) | Inr u \<Rightarrow> f u s)"

definition answered :: "nat \<Rightarrow> ('a \<Rightarrow> webhook_answer) \<Rightarrow> (webhook_state, 'a) outcome \<Rightarrow> webhook_answer reply \<times> webhook_state" where
  "answered code g r = (case r of (Inl e, s) \<Rightarrow> (Failed e, s) | (Inr x, s) \<Rightarrow> (Reply code (g x), s))"

text \<open>An event that is no text makes the service throw after the URL was checked.\<close>

fun event_texts :: "json list \<Rightarrow> string list option" where
  "event_texts [] = Some []"
| "event_texts (JStr e # es) = map_option ((#) e) (event_texts es)"
| "event_texts (_ # es) = None"

definition ctl_registerWebhook ::
  "webhook_env \<Rightarrow> string \<Rightarrow> string \<Rightarrow> api_state \<Rightarrow> json option \<Rightarrow> json option \<Rightarrow> string option \<Rightarrow> webhook_options
    \<Rightarrow> webhook_state \<Rightarrow> webhook_answer reply \<times> webhook_state" where
  "ctl_registerWebhook V new_id random_hex st url events secret opts = with_user st (\<lambda>u s.
     case (url, events) of
       (Some (JStr t), Some (JArr es)) \<Rightarrow> (case event_texts es of
           Some evs \<Rightarrow> answered 201 (\<lambda>r. HOOKS [sanitizeWebhook r]) (registerWebhook V new_id random_hex u t evs secret opts s)
         | None \<Rightarrow> (Failed (case checked_url V t of Inl e \<Rightarrow> e | Inr _ \<Rightarrow> PlainError ''event.trim is not a function''), s))
     | _ \<Rightarrow> (Failed (ValidationError ''url (string) and events (string[]) are required''), s))"

definition ctl_listWebhooks :: "api_state \<Rightarrow> webhook_state \<Rightarrow> webhook_answer reply \<times> webhook_state" where
  "ctl_listWebhooks st = with_user st (\<lambda>u s. (Reply 200 (HOOKS (map sanitizeWebhook (listWebhooks u s))), s))"

definition ctl_updateWebhook :: "webhook_env \<Rightarrow> api_state \<Rightarrow> string \<Rightarrow> webhook_update \<Rightarrow> webhook_state \<Rightarrow> webhook_answer reply \<times> webhook_state" where
  "ctl_updateWebhook V st i input = with_user st (\<lambda>u s. answered 200 (\<lambda>r. HOOKS [sanitizeWebhook r]) (updateWebhook V u i input s))"

definition ctl_deleteWebhook :: "api_state \<Rightarrow> string \<Rightarrow> webhook_state \<Rightarrow> webhook_answer reply \<times> webhook_state" where
  "ctl_deleteWebhook st i = with_user st (\<lambda>u s. answered 204 (\<lambda>_. DELETED) (deleteWebhook u i s))"

definition ctl_testWebhook :: "webhook_env \<Rightarrow> int \<Rightarrow> string \<Rightarrow> api_state \<Rightarrow> string \<Rightarrow> webhook_state \<Rightarrow> webhook_answer reply \<times> webhook_state" where
  "ctl_testWebhook V now new_id st i = with_user st (\<lambda>u s. answered 202 QUEUED (testWebhook V now new_id u i s))"

text \<open>A limit between 1 and 200 that is no integer is refused by the database client.\<close>

definition ctl_getWebhookLogs :: "platform \<Rightarrow> api_state \<Rightarrow> string \<Rightarrow> num_input \<Rightarrow> webhook_state \<Rightarrow> webhook_answer reply \<times> webhook_state" where
  "ctl_getWebhookLogs P st i query = with_user st (\<lambda>u s.
     let limit = max 1 (min (logs_limit (str_num P) query) 200) in
     case (if limit = of_int \<lfloor>limit\<rfloor> then getWebhookLogs u i \<lfloor>limit\<rfloor> s
           else case getOwnedWebhook u i s of Inl e \<Rightarrow> Inl e | Inr _ \<Rightarrow> Inl (PlainError ''Invalid value for argument take'')) of
       Inl e \<Rightarrow> (Failed e, s)
     | Inr rows \<Rightarrow> (Reply 200 (LOGGED rows), s))"

definition ctl_getWebhookMetrics :: "api_state \<Rightarrow> string \<Rightarrow> webhook_state \<Rightarrow> webhook_answer reply \<times> webhook_state" where
  "ctl_getWebhookMetrics st i = with_user st (\<lambda>u s.
     case getWebhookMetrics i (Some u) s of Inl e \<Rightarrow> (Failed e, s) | Inr x \<Rightarrow> (Reply 200 (MEASURED x), s))"

section \<open>The application\<close>

text \<open>The health check, by whether the database answers; and the background jobs.\<close>

definition app_health :: "bool \<Rightarrow> string \<Rightarrow> nat \<times> string \<times> string \<times> string" where
  "app_health database version =
     (if database then (200, ''ok'', ''connected'', version) else (503, ''error'', ''disconnected'', version))"

definition startBackgroundJobs :: "string \<Rightarrow> (string \<Rightarrow> jsnum option) \<Rightarrow> indexer \<times> metrics \<Rightarrow> indexer \<times> metrics" where
  "startBackgroundJobs feePayer balance = (\<lambda>(ix, mt). (indexer_step IX_START ix, startBackgroundMonitoring feePayer balance mt))"

definition stopBackgroundJobs :: "indexer \<Rightarrow> indexer" where
  "stopBackgroundJobs ix = indexer_step IX_STOP ix"

text \<open>
  What stands in front of every route: the body must parse, the address must not be in a
  blocked country, and the limiter that counts the request must let it through.
\<close>

record app_front =
  af_body_error :: "string option" \<comment> \<open>of the JSON parser\<close>
  af_country :: "(string \<Rightarrow> string option) option"
  af_allow :: "tier \<Rightarrow> string option \<Rightarrow> bool"

definition tier_message :: "tier \<Rightarrow> string" where
  "tier_message t = (if t = SUSPICIOUS_TIER then ''Too many requests - suspicious activity detected'' else ''Too many requests'')"

definition app_serve ::
  "app_front \<Rightarrow> express \<Rightarrow> crypto \<Rightarrow> (audit_row \<Rightarrow> bool) \<Rightarrow> int \<Rightarrow> api_request \<Rightarrow> world \<Rightarrow> suspicious \<Rightarrow> audit_row list
    \<Rightarrow> http_response + handler \<times> api_state" where
  "app_serve A X K stored now req w sus logged =
     (case af_body_error A of Some m \<Rightarrow> Inl (errorMiddleware (PlainError m))
      | None \<Rightarrow> case geoIpBlockMiddleware (af_country A) (rq_ip req) of Some r \<Rightarrow> Inl r
      | None \<Rightarrow> (case tieredRateLimit K now (rq_ip req) (rq_authorization req) sus of (t, key) \<Rightarrow>
          if \<not> af_allow A t key then Inl \<lparr>http_status = 429, http_error = tier_message t\<rparr>
          else case serve X K stored req w logged of Inl e \<Rightarrow> Inl (errorMiddleware e) | Inr h \<Rightarrow> Inr h))"

section \<open>Users and their endpoints\<close>

text \<open>The requests of the webhook router, with the identifiers and times a handler draws.\<close>

datatype webhook_request =
    REGISTER string string "json option" "json option" "string option" webhook_options
  | LIST_HOOKS
  | CHANGE string webhook_update
  | DELETE_HOOK string
  | TRY int string string
  | LOGS string num_input
  | MEASURE string

fun webhook_handle :: "webhook_env \<Rightarrow> platform \<Rightarrow> api_state \<Rightarrow> webhook_request \<Rightarrow> webhook_state \<Rightarrow> webhook_answer reply \<times> webhook_state" where
  "webhook_handle V P st (REGISTER i hex url events secret opts) = ctl_registerWebhook V i hex st url events secret opts"
| "webhook_handle V P st LIST_HOOKS = ctl_listWebhooks st"
| "webhook_handle V P st (CHANGE i input) = ctl_updateWebhook V st i input"
| "webhook_handle V P st (DELETE_HOOK i) = ctl_deleteWebhook st i"
| "webhook_handle V P st (TRY now d i) = ctl_testWebhook V now d st i"
| "webhook_handle V P st (LOGS i q) = ctl_getWebhookLogs P st i q"
| "webhook_handle V P st (MEASURE i) = ctl_getWebhookMetrics st i"

text \<open>The endpoints of other users than \<open>u\<close>, and the deliveries to them.\<close>

definition others_hooks :: "string \<Rightarrow> webhook_state \<Rightarrow> webhook_row list" where
  "others_hooks u s = filter (\<lambda>r. webhook_userId r \<noteq> u) (webhooks (wh_db s))"

definition others_deliveries :: "string \<Rightarrow> webhook_state \<Rightarrow> delivery_row list" where
  "others_deliveries u s = filter (\<lambda>d. delivery_webhookId d \<in> webhook_id ` set (others_hooks u s)) (deliveries (wh_db s))"

text \<open>What an answer shows belongs to \<open>u\<close> and holds neither of the two secrets.\<close>

fun shows_own :: "string \<Rightarrow> webhook_state \<Rightarrow> webhook_answer reply \<Rightarrow> bool" where
  "shows_own u s (Reply c (HOOKS rs)) =
     (\<forall>r\<in>set rs. webhook_userId (safe_row r) = u \<and> webhook_secret (safe_row r) = [] \<and> encryptionKey (safe_row r) = None)"
| "shows_own u s (Reply c (LOGGED ds)) = (\<forall>d\<in>set ds. delivery_webhookId d \<notin> webhook_id ` set (others_hooks u s))"
| "shows_own u s a = True"

definition others_kept :: "string \<Rightarrow> webhook_state \<Rightarrow> webhook_state \<Rightarrow> bool" where
  "others_kept u s s' \<longleftrightarrow> others_hooks u s' = others_hooks u s \<and> others_deliveries u s' = others_deliveries u s"

lemma filter_update_own:
  "\<forall>r\<in>set t. P r \<longrightarrow> \<not> Q r \<and> \<not> Q (f r) \<Longrightarrow> filter Q (update_where P f t) = filter Q t"
  by (induction t) (auto simp: update_where_def)

lemma others_kept_refl [simp]: "others_kept u s s"
  by (simp add: others_kept_def)

lemma others_queue [simp]: "others_kept u s (queue_add j s') = others_kept u s s'"
  by (simp add: others_kept_def others_hooks_def others_deliveries_def)

lemma others_kept_hooks:
  "filter (\<lambda>r. webhook_userId r \<noteq> u) (f (webhooks (wh_db s))) = filter (\<lambda>r. webhook_userId r \<noteq> u) (webhooks (wh_db s))
   \<Longrightarrow> others_kept u s (on_webhooks f s)"
  by (simp add: others_kept_def others_hooks_def others_deliveries_def)

lemma others_kept_deliveries:
  "filter (\<lambda>d. delivery_webhookId d \<in> webhook_id ` set (others_hooks u s)) (g (deliveries (wh_db s))) = others_deliveries u s
   \<Longrightarrow> others_kept u s (on_deliveries g s)"
  by (simp add: others_kept_def others_hooks_def others_deliveries_def)

lemma others_kept_trans: "others_kept u s t \<Longrightarrow> others_kept u t v \<Longrightarrow> others_kept u s v"
  by (simp add: others_kept_def)

lemma owned_hook:
  assumes "getOwnedWebhook u i s = Inr r"
  shows "r \<in> set (webhooks (wh_db s))" "webhook_id r = i" "webhook_userId r = u"
  using assms by (auto simp: getOwnedWebhook_def split: option.splits dest: find_SomeD)

lemma own_id:
  assumes "distinct (map webhook_id (webhooks (wh_db s)))" and "r \<in> set (webhooks (wh_db s))" and "webhook_userId r = u"
  shows "webhook_id r \<notin> webhook_id ` set (others_hooks u s)"
  using assms by (auto simp: others_hooks_def dest: inj_onD [OF distinct_map [THEN iffD1, THEN conjunct2]])

lemmas handler_defs = ctl_registerWebhook_def ctl_listWebhooks_def ctl_updateWebhook_def ctl_deleteWebhook_def ctl_testWebhook_def
  ctl_getWebhookLogs_def ctl_getWebhookMetrics_def

lemma registerWebhook_own:
  assumes "registerWebhook V i hex u url evs secret opts s = (x, s')"
  shows "others_kept u s s' \<and> (\<forall>r. x = Inr r \<longrightarrow> webhook_userId r = u)"
proof (cases x)
  case (Inl e)
  then have "s' = s" using assms by (auto simp: registerWebhook_def Let_def split: sum.splits if_splits)
  then show ?thesis using Inl by simp
next
  case (Inr r)
  then have "s' = on_webhooks (insert_row r) s" "webhook_userId r = u"
    using assms by (auto simp: registerWebhook_def Let_def split: sum.splits if_splits)
  then show ?thesis using Inr by (auto intro!: others_kept_hooks simp: insert_row_def)
qed

lemma updateWebhook_own:
  assumes "updateWebhook V u i input s = (x, s')" and "distinct (map webhook_id (webhooks (wh_db s)))"
  shows "others_kept u s s' \<and> (\<forall>r. x = Inr r \<longrightarrow> webhook_userId r = u)"
proof (cases x)
  case (Inl e)
  then have "s' = s" using assms(1) by (auto simp: updateWebhook_def Let_def split: sum.splits if_splits)
  then show ?thesis using Inl by simp
next
  case (Inr r)
  obtain h where h: "getOwnedWebhook u i s = Inr h" using assms(1) Inr by (auto simp: updateWebhook_def split: sum.splits)
  obtain f where f: "s' = on_webhooks (update_where (\<lambda>r. webhook_id r = i) f) s" "r = f h" "\<And>r. webhook_userId (f r) = webhook_userId r"
    using assms(1) Inr h by (auto simp: updateWebhook_def Let_def split: sum.splits if_splits)
  have "\<forall>r\<in>set (webhooks (wh_db s)). webhook_id r = i \<longrightarrow> webhook_userId r = u"
    using own_id [OF assms(2) owned_hook(1,3) [OF h]] owned_hook(2) [OF h] by (auto simp: others_hooks_def image_iff)
  then have "filter (\<lambda>r. webhook_userId r \<noteq> u) (update_where (\<lambda>r. webhook_id r = i) f (webhooks (wh_db s)))
      = filter (\<lambda>r. webhook_userId r \<noteq> u) (webhooks (wh_db s))"
    by (intro filter_update_own) (simp add: f(3))
  then show ?thesis using f owned_hook(3) [OF h] Inr by (auto intro: others_kept_hooks)
qed

lemma deleteWebhook_own:
  assumes "deleteWebhook u i s = (x, s')" and "distinct (map webhook_id (webhooks (wh_db s)))"
  shows "others_kept u s s'"
proof (cases x)
  case (Inl e)
  then show ?thesis using assms(1) by (auto simp: deleteWebhook_def Let_def split: if_splits)
next
  case (Inr y)
  let ?sel = "\<lambda>r. webhook_id r = i \<and> webhook_userId r = u" and ?s = "on_webhooks (delete_where (\<lambda>r. webhook_id r = i \<and> webhook_userId r = u)) s"
  have s': "s' = on_deliveries (delete_where (\<lambda>d. delivery_webhookId d = i)) ?s"
    and "filter ?sel (webhooks (wh_db s)) \<noteq> []"
    using assms(1) Inr by (auto simp: deleteWebhook_def Let_def count_where_def split: if_splits)
  then obtain r where r: "r \<in> set (webhooks (wh_db s))" "webhook_id r = i" "webhook_userId r = u"
    by (auto simp: filter_empty_conv)
  have 1: "others_kept u s ?s" by (rule others_kept_hooks) (auto simp: delete_where_def intro: filter_cong)
  then have "i \<notin> webhook_id ` set (others_hooks u ?s)"
    using own_id [OF assms(2) r(1,3)] r(2) by (simp add: others_kept_def)
  then have "others_kept u ?s s'"
    unfolding s' by (intro others_kept_deliveries) (auto simp: delete_where_def others_deliveries_def intro!: filter_cong)
  with 1 show ?thesis by (rule others_kept_trans)
qed

lemma testWebhook_own:
  assumes "testWebhook V now d u i s = (x, s')" and "distinct (map webhook_id (webhooks (wh_db s)))"
  shows "others_kept u s s'"
proof (cases "getOwnedWebhook u i s")
  case (Inl e)
  then show ?thesis using assms(1) by (simp add: testWebhook_def)
next
  case (Inr r)
  then have "webhook_id r \<notin> webhook_id ` set (others_hooks u s)" by (intro own_id owned_hook assms(2))
  then show ?thesis using assms(1) Inr
    by (auto simp: testWebhook_def queueWebhookDelivery_def Let_def insert_row_def others_deliveries_def intro!: others_kept_deliveries)
qed

lemma getWebhookLogs_own:
  assumes "getWebhookLogs u i n s = Inr ds" and "distinct (map webhook_id (webhooks (wh_db s)))"
  shows "\<forall>d\<in>set ds. delivery_webhookId d \<notin> webhook_id ` set (others_hooks u s)"
proof -
  obtain r where r: "getOwnedWebhook u i s = Inr r" using assms(1) by (auto simp: getWebhookLogs_def split: sum.splits)
  have "\<forall>d\<in>set ds. delivery_webhookId d = i"
    using assms(1) r by (auto simp: getWebhookLogs_def page_desc_def dest: in_set_takeD in_set_dropD)
  then show ?thesis using own_id [OF assms(2) owned_hook(1,3) [OF r]] owned_hook(2) [OF r] by simp
qed


definition demo_stranger :: api_state where
  "demo_stranger = \<lparr>api_user = Some \<lparr>au_userId = ''x'', au_jti = ''j'', au_walletAddress = ''GX'', au_role = BUYER\<rparr>, api_audit = []\<rparr>"


end
