(* ===== verification/Risk_View.thy ===== *)
theory Risk_View
  imports Js_Parse Risk_Engine
begin

text \<open>
  Risk scores in the web application: the parsers of
  \<open>frontend/src/utils/riskScoreParsers.ts\<close>, which make a typed value of any JSON answer, the
  requests of \<open>frontend/src/hooks/useRiskScore.ts\<close>, and what the parsers make of the answers
  of the server in this repository. JSON objects have each property once.
\<close>

section \<open>Values of any type\<close>

definition safeNumber :: "json option \<Rightarrow> jsnum" where
  "safeNumber v = (case v of Some (JNum (Fin x)) \<Rightarrow> Fin x | _ \<Rightarrow> Fin 0)"

definition safeString :: "json option \<Rightarrow> string" where
  "safeString v = (case v of Some (JStr s) \<Rightarrow> s | _ \<Rightarrow> [])"

definition TIER_TO_GRADE :: "string \<rightharpoonup> risk_grade" where
  "TIER_TO_GRADE = map_of [(''excellent'', Grade_A), (''good'', Grade_B), (''fair'', Grade_C), (''poor'', Grade_D),
     (''very_poor'', Grade_F), (''high_risk'', Grade_F), (''unscored'', Grade_F)]"

datatype shown_grade = Grade risk_grade | Inherited string

definition tier_grade :: "string \<Rightarrow> shown_grade" where
  "tier_grade t = (case TIER_TO_GRADE t of Some g \<Rightarrow> Grade g | None \<Rightarrow> if t \<in> set object_prototype then Inherited t else Grade Grade_F)"

section \<open>Scores\<close>

definition word_char :: "char \<Rightarrow> bool" where
  "word_char c \<longleftrightarrow> (let n = (of_char c :: nat) in 48 \<le> n \<and> n \<le> 57 \<or> 65 \<le> n \<and> n \<le> 90 \<or> 97 \<le> n \<and> n \<le> 122 \<or> c = CHR ''_'')"

text \<open>The first character of every word in upper case; \<open>p\<close> tells whether a word character precedes.\<close>

fun title_words :: "bool \<Rightarrow> string \<Rightarrow> string" where
  "title_words p [] = []"
| "title_words p (c # s) = (if word_char c \<and> \<not> p then upper_char c else c) # title_words (word_char c) s"

definition key_label :: "string \<Rightarrow> string" where
  "key_label k = title_words False (map (\<lambda>c. if c = CHR ''_'' then CHR '' '' else c) k)"

record breakdown_entry =
  bd_label :: string
  bd_key :: string
  bd_value :: jsnum
  bd_weight :: jsnum

record risk_view =
  rv_score :: jsnum
  rv_grade :: shown_grade
  rv_breakdown :: "breakdown_entry list"
  rv_history :: "(string \<times> jsnum) list"
  rv_confidence :: jsnum
  rv_calculatedAt :: string

definition breakdown_of :: "string \<times> json \<Rightarrow> breakdown_entry" where
  "breakdown_of kv = (let c = props (snd kv) in
     \<lparr>bd_label = key_label (fst kv), bd_key = fst kv, bd_value = safeNumber (c ''score''), bd_weight = safeNumber (c ''weight'')\<rparr>)"

definition component_entries :: "json option \<Rightarrow> breakdown_entry list" where
  "component_entries v = (case v of Some (JObj kvs) \<Rightarrow> map breakdown_of (enumeration kvs) | _ \<Rightarrow> [])"

text \<open>None when it throws: a property of \<open>null\<close> is asked for.\<close>

definition parseRiskScoreResponse :: "json \<Rightarrow> risk_view option" where
  "parseRiskScoreResponse raw = (if raw = JNull then None else
     Some \<lparr>rv_score = safeNumber (props raw ''overall_score''), rv_grade = tier_grade (safeString (props raw ''risk_tier'')),
       rv_breakdown = component_entries (props raw ''components''), rv_history = [],
       rv_confidence = safeNumber (props raw ''confidence''), rv_calculatedAt = safeString (props raw ''calculated_at'')\<rparr>)"

definition parseHistoricalScores :: "json \<Rightarrow> (string \<times> jsnum) list option" where
  "parseHistoricalScores raw = (case raw of
     JArr entries \<Rightarrow> if JNull \<in> set entries then None
       else Some (map (\<lambda>e. (safeString (props e ''date''), safeNumber (props e ''score''))) entries)
   | _ \<Rightarrow> Some [])"

definition finite_num :: "jsnum \<Rightarrow> bool" where
  "finite_num x \<longleftrightarrow> (case x of Fin _ \<Rightarrow> True | _ \<Rightarrow> False)"

lemma safeNumber_finite [simp]: "finite_num (safeNumber v)"
  by (auto simp: safeNumber_def finite_num_def split: option.splits json.splits jsnum.splits)

lemma upper_char_underscore: "upper_char c = CHR ''_'' \<longleftrightarrow> c = CHR ''_''"
proof -
  have "upper_char c \<noteq> CHR ''_''" if "97 \<le> (of_char c :: nat)" "(of_char c :: nat) \<le> 122"
  proof
    assume "upper_char c = CHR ''_''"
    then have "(of_char (char_of ((of_char c :: nat) - 32) :: char) :: nat) = of_char (CHR ''_'')"
      using that by (simp add: upper_char_def)
    moreover have "(of_char c :: nat) - 32 < 256" using that by simp
    ultimately have "(of_char c :: nat) - 32 = 95" by simp
    then show False using that by simp
  qed
  then show ?thesis by (auto simp: upper_char_def Let_def)
qed

lemma key_label_underscore: "CHR ''_'' \<notin> set (key_label k)"
proof -
  have "CHR ''_'' \<notin> set s \<Longrightarrow> CHR ''_'' \<notin> set (title_words p s)" for s p
    by (induction s arbitrary: p) (auto simp: upper_char_underscore eq_commute [of "CHR ''_''"])
  then show ?thesis by (simp add: key_label_def image_iff)
qed

text \<open>
  C33. Whatever JSON arrives, unless it is \<open>null\<close>, the parser makes a value of the promised type of it:
  all numbers are finite, there is one entry per component in the order of the object, with
  a label without underscores, and the grade is one of the five letters; except that for
  twelve texts of \<open>risk_tier\<close> the grade is what every object inherits under that name.
\<close>

theorem risk_parse_typed:
  "case parseRiskScoreResponse raw of
     None \<Rightarrow> raw = JNull
   | Some d \<Rightarrow> raw \<noteq> JNull \<and> finite_num (rv_score d) \<and> finite_num (rv_confidence d)
       \<and> (\<forall>b\<in>set (rv_breakdown d). finite_num (bd_value b) \<and> finite_num (bd_weight b) \<and> CHR ''_'' \<notin> set (bd_label b))
       \<and> map bd_key (rv_breakdown d) = (case props raw ''components'' of Some (JObj kvs) \<Rightarrow> map fst (enumeration kvs) | _ \<Rightarrow> [])
       \<and> ((\<exists>g. rv_grade d = Grade g) \<longleftrightarrow> safeString (props raw ''risk_tier'') \<notin> set object_prototype)"
proof -
  have entries: "(\<forall>b\<in>set (component_entries v). finite_num (bd_value b) \<and> finite_num (bd_weight b) \<and> CHR ''_'' \<notin> set (bd_label b))
      \<and> map bd_key (component_entries v) = (case v of Some (JObj kvs) \<Rightarrow> map fst (enumeration kvs) | _ \<Rightarrow> [])" for v
    by (auto simp: component_entries_def breakdown_of_def Let_def key_label_underscore split: option.split json.split)
  have "\<forall>k\<in>set object_prototype. TIER_TO_GRADE k = None"
    by (simp add: object_prototype_def TIER_TO_GRADE_def)
  then have grade: "(\<exists>g. tier_grade t = Grade g) \<longleftrightarrow> t \<notin> set object_prototype" for t
    by (auto simp: tier_grade_def split: option.split)
  show ?thesis using entries [of "props raw ''components''"] grade by (simp add: parseRiskScoreResponse_def)
qed

definition demo_risk_json :: json where
  "demo_risk_json = JObj [(''overall_score'', JNum Infinity), (''risk_tier'', JStr ''toString''),
     (''components'', JObj [(''on_chain'', JObj [(''score'', JStr ''9'')])])]"

theorem risk_parse_typed_witness:
  "\<exists>d. parseRiskScoreResponse demo_risk_json = Some d \<and> (\<forall>b\<in>set (rv_breakdown d). finite_num (bd_value b))
     \<and> (\<nexists>g. rv_grade d = Grade g)"
proof -
  have "safeString (props demo_risk_json ''risk_tier'') \<in> set object_prototype"
    by (simp add: demo_risk_json_def safeString_def object_prototype_def)
  then show ?thesis using risk_parse_typed [of demo_risk_json] by (simp add: demo_risk_json_def split: option.splits)
qed

section \<open>The answers of the server\<close>

text \<open>
  What the server answers for one score and for a history (\<open>res.json\<close> in
  \<open>server/src/controllers/risk.controller.ts\<close>); \<open>dtext\<close> is the text of a date.
\<close>

definition score_json :: "(int \<Rightarrow> string) \<Rightarrow> risk_row \<Rightarrow> json" where
  "score_json dtext r = (case risk_components r of (t, p, c, d) \<Rightarrow>
     JObj [(''wallet'', JStr (risk_wallet r)), (''score'', JNum (Fin (of_int (risk_score r)))), (''grade'', JStr (risk_grade r)),
       (''components'', JObj [(''transactionHistory'', JNum (Fin (of_int t))), (''repaymentRecord'', JNum (Fin (of_int p))),
          (''collateralCoverage'', JNum (Fin (of_int c))), (''disputeHistory'', JNum (Fin (of_int d)))]),
       (''computedAt'', JStr (dtext (risk_computedAt r)))])"

definition risk_reply :: "(int \<Rightarrow> string) \<Rightarrow> risk_row \<Rightarrow> json" where
  "risk_reply dtext r = JObj [(''success'', JBool True), (''data'', score_json dtext r)]"

definition risk_history_reply :: "(int \<Rightarrow> string) \<Rightarrow> risk_row list \<Rightarrow> json" where
  "risk_history_reply dtext rs = JObj [(''success'', JBool True), (''data'', JArr (map (score_json dtext) rs))]"

text \<open>
  The web application reads none of this: whatever score the server computed and stored for
  a wallet, its answer is shown as the score 0 with grade F and no components, and whatever
  history it answers with, the chart stays empty.
\<close>

theorem risk_reply_misread:
  assumes "ctl_getRiskScore history now computedAt wallet w = (Inr row, w')"
  shows "parseRiskScoreResponse (risk_reply dtext row)
      = Some \<lparr>rv_score = Fin 0, rv_grade = Grade Grade_F, rv_breakdown = [], rv_history = [], rv_confidence = Fin 0, rv_calculatedAt = []\<rparr>
    \<and> row \<in> set (risk_scores w') \<and> parseHistoricalScores (risk_history_reply dtext (getHistoricalScores wallet s e w')) = Some []"
proof -
  have "row \<in> set (risk_scores w')"
    using assms by (auto simp: ctl_getRiskScore_def calculateRiskScore_def Let_def insert_row_def split: if_splits prod.splits)
  then show ?thesis
    by (simp add: parseRiskScoreResponse_def risk_reply_def safeNumber_def safeString_def tier_grade_def TIER_TO_GRADE_def
        object_prototype_def component_entries_def parseHistoricalScores_def risk_history_reply_def)
qed

theorem risk_reply_misread_witness:
  "\<exists>row w'. ctl_getRiskScore (\<lambda>_. None) 0 7 (CHR ''G'' # replicate 55 (CHR ''A'')) demo_risk_world = (Inr row, w')
     \<and> map_option rv_grade (parseRiskScoreResponse (risk_reply (\<lambda>_. []) row)) = Some (Grade Grade_F)"
proof -
  have "list_all wallet_char (replicate 55 (CHR ''A''))" by (simp add: list_all_iff wallet_char_def)
  then have "STELLAR_ADDRESS_REGEX (CHR ''G'' # replicate 55 (CHR ''A''))" by (simp add: STELLAR_ADDRESS_REGEX_def)
  then obtain row w' where run: "ctl_getRiskScore (\<lambda>_. None) 0 7 (CHR ''G'' # replicate 55 (CHR ''A'')) demo_risk_world = (Inr row, w')"
    by (simp add: ctl_getRiskScore_def calculateRiskScore_def computeScore_def Let_def)
  then show ?thesis using risk_reply_misread [OF run, of "\<lambda>_. []"] by simp
qed

section \<open>The requests of the page\<close>

text \<open>
  The effect that fetches the score. Each run of it has a number, the cleanup cancels it, so
  a run is live while it is the last one. \<open>sv_data\<close> remembers whose score it holds.
\<close>

record score_state =
  sv_wallet :: "string option"
  sv_run :: nat
  sv_open :: "(nat \<times> string) list"
  sv_data :: "(string \<times> risk_view) option"
  sv_loading :: bool
  sv_error :: "string option"

datatype fetched = Fetched json | NotFetched string

datatype score_event = SHOW_WALLET "string option" | ANSWER nat fetched

definition no_score :: score_state where
  "no_score = \<lparr>sv_wallet = None, sv_run = 0, sv_open = [], sv_data = None, sv_loading = False, sv_error = None\<rparr>"

definition score_effect :: "string option \<Rightarrow> score_state \<Rightarrow> score_state" where
  "score_effect wallet s = (let n = sv_run s + 1; s' = s\<lparr>sv_wallet := wallet, sv_run := n\<rparr> in
     case wallet of
       Some (c # w) \<Rightarrow> s'\<lparr>sv_loading := True, sv_error := None, sv_open := sv_open s @ [(n, c # w)]\<rparr>
     | _ \<Rightarrow> s'\<lparr>sv_data := None, sv_error := None\<rparr>)"

definition score_answer :: "string \<Rightarrow> fetched \<Rightarrow> score_state \<Rightarrow> score_state" where
  "score_answer w r s = (case r of
     NotFetched m \<Rightarrow> s\<lparr>sv_error := Some m, sv_data := None, sv_loading := False\<rparr>
   | Fetched raw \<Rightarrow> (case parseRiskScoreResponse raw of
       Some d \<Rightarrow> s\<lparr>sv_data := Some (w, d), sv_loading := False\<rparr>
     | None \<Rightarrow> s\<lparr>sv_error := Some ''Cannot read properties of null'', sv_data := None, sv_loading := False\<rparr>))"

fun score_step :: "score_event \<Rightarrow> score_state \<Rightarrow> score_state" where
  "score_step (SHOW_WALLET wallet) s = (if wallet = sv_wallet s then s else score_effect wallet s)"
| "score_step (ANSWER n r) s = (case map_of (sv_open s) n of
     None \<Rightarrow> s
   | Some w \<Rightarrow> let s' = s\<lparr>sv_open := filter (\<lambda>x. fst x \<noteq> n) (sv_open s)\<rparr> in
       if n = sv_run s then score_answer w r s' else s')"

definition score_ok :: "score_state \<Rightarrow> bool" where
  "score_ok s \<longleftrightarrow> (\<forall>(n, w)\<in>set (sv_open s). n \<le> sv_run s \<and> (n = sv_run s \<longrightarrow> sv_wallet s = Some w))
     \<and> (\<forall>w d. sv_data s = Some (w, d) \<and> \<not> sv_loading s \<longrightarrow> sv_wallet s = Some w)"

lemma score_step_ok: "score_ok s \<Longrightarrow> score_ok (score_step e s)"
proof (induction e s rule: score_step.induct)
  case (1 wallet s)
  then show ?case by (fastforce simp: score_ok_def score_effect_def Let_def split: option.split list.split)
next
  case (2 n r s)
  show ?case
  proof (cases "map_of (sv_open s) n")
    case None
    then show ?thesis using 2 by simp
  next
    case (Some w)
    then have "(n, w) \<in> set (sv_open s)" by (rule map_of_SomeD)
    then have "n = sv_run s \<longrightarrow> sv_wallet s = Some w" using 2 by (auto simp: score_ok_def)
    then show ?thesis using 2 Some
      by (auto simp: score_ok_def score_answer_def Let_def split: fetched.split option.split)
  qed
qed

lemma score_run_ok: "score_ok (fold score_step es no_score)"
proof (induction es rule: rev_induct)
  case (snoc e es)
  then show ?case by (simp add: score_step_ok)
qed (simp add: score_ok_def no_score_def)

text \<open>
  C34. However wallets are switched and answers arrive, late or out of order: unless the page is loading,
  the score it shows is that of the wallet it is for, and an answer to a request for an
  earlier wallet changes nothing that is shown.
\<close>

theorem risk_view_current:
  assumes "s = fold score_step es no_score"
  shows "(sv_data s = Some (w, d) \<and> \<not> sv_loading s \<longrightarrow> sv_wallet s = Some w)
    \<and> (n \<noteq> sv_run s \<longrightarrow> sv_data (score_step (ANSWER n r) s) = sv_data s \<and> sv_loading (score_step (ANSWER n r) s) = sv_loading s
         \<and> sv_error (score_step (ANSWER n r) s) = sv_error s)"
  using score_run_ok [of es] assms by (auto simp: score_ok_def Let_def split: option.split)

theorem risk_view_current_witness:
  "sv_loading (fold score_step [SHOW_WALLET (Some ''GA''), SHOW_WALLET (Some ''GB''), ANSWER 1 (Fetched (JObj []))] no_score)"
  using risk_view_current [OF refl, of "[SHOW_WALLET (Some ''GA''), SHOW_WALLET (Some ''GB'')]" "[]" _ 1 "Fetched (JObj [])"]
  by (simp add: no_score_def score_effect_def Let_def)

text \<open>
  When the wallet is taken away while its score is loading, the page loads for ever: the
  cancelled request resets nothing, and the effect for no wallet leaves the flag.
\<close>

lemma loading_sticks:
  "sv_loading (fold score_step (SHOW_WALLET (Some (c # w)) # SHOW_WALLET None # map (\<lambda>(n, r). ANSWER n r) answers') no_score)"
proof -
  have "sv_loading s \<Longrightarrow> sv_run s = 2 \<Longrightarrow> \<forall>k v. (k, v) \<in> set (sv_open s) \<longrightarrow> k = 1 \<Longrightarrow>
      sv_loading (fold score_step (map (\<lambda>(n, r). ANSWER n r) answers') s)" for s
  proof (induction answers' arbitrary: s)
    case (Cons a as)
    obtain n r where a: "a = (n, r)" by (cases a)
    have "map_of (sv_open s) 2 = Some v \<Longrightarrow> False" for v
      using Cons.prems(3) map_of_SomeD [of "sv_open s" 2 v] by fastforce
    then have n: "map_of (sv_open s) 2 = None" by (cases "map_of (sv_open s) 2") auto
    let ?s = "score_step (ANSWER n r) s"
    have "sv_loading ?s" "sv_run ?s = 2" "set (sv_open ?s) \<subseteq> set (sv_open s)"
      using Cons.prems n by (auto simp: Let_def split: option.split)
    then have "sv_loading (fold score_step (map (\<lambda>(n, r). ANSWER n r) as) ?s)"
      using Cons.prems(3) by (intro Cons.IH) blast+
    then show ?case by (simp add: a)
  qed simp
  then show ?thesis by (simp add: no_score_def score_effect_def Let_def)
qed

section \<open>History and simulation\<close>

datatype history_action = SET_HISTORY "(string \<times> jsnum) list" | APPEND_POINT "string \<times> jsnum"

fun historyReducer :: "(string \<times> jsnum) list \<Rightarrow> history_action \<Rightarrow> (string \<times> jsnum) list" where
  "historyReducer state (SET_HISTORY entries) = entries"
| "historyReducer state (APPEND_POINT entry) = state @ [entry]"

text \<open>What an answer to the request for the history does, while the effect is not cancelled: entries and error.\<close>

definition history_answer :: "fetched \<Rightarrow> (string \<times> jsnum) list \<Rightarrow> (string \<times> jsnum) list \<times> string option" where
  "history_answer r state = (case r of
     NotFetched m \<Rightarrow> (historyReducer state (SET_HISTORY []), Some m)
   | Fetched raw \<Rightarrow> (case parseHistoricalScores raw of
       Some es \<Rightarrow> (historyReducer state (SET_HISTORY es), None)
     | None \<Rightarrow> (historyReducer state (SET_HISTORY []), Some ''Cannot read properties of null'')))"

record simulation =
  sm_current :: rat
  sm_projected :: jsnum
  sm_delta :: jsnum
  sm_description :: string

text \<open>
  The simulation: \<open>current\<close> is the finite score shown when it was asked for; a result is
  set whenever it arrives, whatever wallet the page is for by then.
\<close>

definition simulation_of :: "rat \<Rightarrow> json \<Rightarrow> simulation option" where
  "simulation_of current raw = (if raw = JNull then None else
     let projected = (case props raw ''projected_score'' of Some (JNum x) \<Rightarrow> x | _ \<Rightarrow> Fin 0) in
     Some \<lparr>sm_current = current, sm_projected = projected,
       sm_delta = (case projected of Fin x \<Rightarrow> Fin (fl64 (x - current)) | x \<Rightarrow> x),
       sm_description = safeString (props raw ''scenario_description'')\<rparr>)"

definition simulation_answer :: "rat \<Rightarrow> fetched \<Rightarrow> simulation option \<times> string option" where
  "simulation_answer current r = (case r of
     NotFetched m \<Rightarrow> (None, Some m)
   | Fetched raw \<Rightarrow> (case simulation_of current raw of
       Some x \<Rightarrow> (Some x, None)
     | None \<Rightarrow> (None, Some ''Cannot read properties of null'')))"

end
