(* ===== verification/Live_Socket.thy ===== *)
theory Live_Socket
  imports Js_Parse
begin

text \<open>
  The live connections of the web application: the socket with its reconnects in
  \<open>frontend/src/hooks/useWebSocket.ts\<close> (risk scores), \<open>useGovernance.ts\<close> and
  \<open>useDashboard.ts\<close>. The three copies of the same machine differ in when they give up and in
  what they show; the locale \<open>reconnecting\<close> is what they share. Times are milliseconds.
\<close>

section \<open>The machine\<close>

text \<open>
  The socket of a mounted component: connecting, open, gone with a timer of some length
  running, or given up. What happens to it: the browser opens or closes it or reports an
  error, the timer fires.
\<close>

datatype socket = CONNECTING | OPEN | WAITING rat | GIVEN_UP

datatype socket_event = OPENED | ERRORED | CLOSED | FIRED

record live =
  lv_socket :: socket
  lv_failures :: nat
  lv_connected :: bool
  lv_failed :: bool \<comment> \<open>shown as a failed connection, in \<open>useWebSocket\<close>\<close>

definition computeReconnectDelay :: "nat \<Rightarrow> rat" where
  "computeReconnectDelay attempt = min ((if attempt = 0 then 1 / 2 else 2 ^ (attempt - 1)) * 1000) 30000"

definition MAX_FAILURES :: nat where "MAX_FAILURES = 3"

fun score_socket :: "socket_event \<Rightarrow> live \<Rightarrow> live" where
  "score_socket OPENED s = s\<lparr>lv_socket := OPEN, lv_failures := 0, lv_connected := True, lv_failed := False\<rparr>"
| "score_socket CLOSED s = (let n = lv_failures s + 1; s' = s\<lparr>lv_connected := False, lv_failures := n\<rparr> in
     if MAX_FAILURES \<le> n then s'\<lparr>lv_failed := True, lv_socket := GIVEN_UP\<rparr>
     else s'\<lparr>lv_socket := WAITING (computeReconnectDelay n)\<rparr>)"
| "score_socket ERRORED s = s\<lparr>lv_connected := False\<rparr>"
| "score_socket FIRED s = s\<lparr>lv_socket := CONNECTING\<rparr>"

fun governance_socket :: "socket_event \<Rightarrow> live \<Rightarrow> live" where
  "governance_socket OPENED s = s\<lparr>lv_socket := OPEN, lv_failures := 0, lv_connected := True\<rparr>"
| "governance_socket CLOSED s = (let n = lv_failures s + 1; s' = s\<lparr>lv_connected := False, lv_failures := n\<rparr> in
     if n < 3 then s'\<lparr>lv_socket := WAITING (min (2 ^ (n - 1) * 1000) 30000)\<rparr> else s'\<lparr>lv_socket := GIVEN_UP\<rparr>)"
| "governance_socket ERRORED s = s"
| "governance_socket FIRED s = s\<lparr>lv_socket := CONNECTING\<rparr>"

fun dashboard_socket :: "socket_event \<Rightarrow> live \<Rightarrow> live" where
  "dashboard_socket OPENED s = s\<lparr>lv_socket := OPEN, lv_failures := 0, lv_connected := True\<rparr>"
| "dashboard_socket CLOSED s = (let n = lv_failures s + 1 in
     s\<lparr>lv_connected := False, lv_failures := n, lv_socket := WAITING (computeReconnectDelay n)\<rparr>)"
| "dashboard_socket ERRORED s = s"
| "dashboard_socket FIRED s = s\<lparr>lv_socket := CONNECTING\<rparr>"

text \<open>
  Two more things happen to the dashboard: making the socket may throw when the timer fires
  or at the start, and the user refreshes.
\<close>

definition dashboard_refused :: "live \<Rightarrow> live" where
  "dashboard_refused s = s\<lparr>lv_failures := lv_failures s + 1, lv_socket := WAITING (computeReconnectDelay (lv_failures s + 1))\<rparr>"

definition dashboard_refresh :: "live \<Rightarrow> live" where
  "dashboard_refresh s = s\<lparr>lv_failures := 0\<rparr>"

text \<open>The effect starts with a new socket and no failures; what is shown stays from before.\<close>

definition live_start :: "live \<Rightarrow> live" where
  "live_start s = s\<lparr>lv_socket := CONNECTING, lv_failures := 0\<rparr>"

definition no_live :: live where
  "no_live = \<lparr>lv_socket = CONNECTING, lv_failures = 0, lv_connected = False, lv_failed = False\<rparr>"

section \<open>Runs\<close>

text \<open>What a browser can do in which state, runs that keep to it, and the closings since the last opening.\<close>

fun possible :: "socket_event \<Rightarrow> socket \<Rightarrow> bool" where
  "possible OPENED k \<longleftrightarrow> k = CONNECTING"
| "possible CLOSED k \<longleftrightarrow> k = CONNECTING \<or> k = OPEN"
| "possible ERRORED k \<longleftrightarrow> k = CONNECTING \<or> k = OPEN"
| "possible FIRED k \<longleftrightarrow> (case k of WAITING _ \<Rightarrow> True | _ \<Rightarrow> False)"

fun lawful :: "(socket_event \<Rightarrow> 's \<Rightarrow> 's) \<Rightarrow> ('s \<Rightarrow> socket) \<Rightarrow> socket_event list \<Rightarrow> 's \<Rightarrow> bool" where
  "lawful step sock [] s = True"
| "lawful step sock (e # es) s = (possible e (sock s) \<and> lawful step sock es (step e s))"

fun closings :: "socket_event list \<Rightarrow> nat \<Rightarrow> nat" where
  "closings [] n = n"
| "closings (e # es) n = closings es (case e of OPENED \<Rightarrow> 0 | CLOSED \<Rightarrow> n + 1 | _ \<Rightarrow> n)"

text \<open>The time a run spends waiting, and the shortest run of \<open>n\<close> failing connections.\<close>

fun waited :: "(socket_event \<Rightarrow> 's \<Rightarrow> 's) \<Rightarrow> ('s \<Rightarrow> socket) \<Rightarrow> socket_event list \<Rightarrow> 's \<Rightarrow> rat" where
  "waited step sock [] s = 0"
| "waited step sock (e # es) s =
     (case (e, sock s) of (FIRED, WAITING d) \<Rightarrow> d | _ \<Rightarrow> 0) + waited step sock es (step e s)"

definition failing :: "nat \<Rightarrow> socket_event list" where
  "failing n = concat (replicate n [CLOSED, FIRED])"

lemma delay_bounds: "0 < attempt \<Longrightarrow> 1000 \<le> computeReconnectDelay attempt \<and> computeReconnectDelay attempt \<le> 30000"
  by (simp add: computeReconnectDelay_def)

section \<open>The interface\<close>

text \<open>\<open>stops n\<close>: the machine gives up after \<open>n\<close> closings without an opening.\<close>

locale reconnecting =
  fixes step :: "socket_event \<Rightarrow> 's \<Rightarrow> 's"
    and sock :: "'s \<Rightarrow> socket"
    and fails :: "'s \<Rightarrow> nat"
    and stops :: "nat \<Rightarrow> bool"
  assumes opened: "sock (step OPENED s) = OPEN \<and> fails (step OPENED s) = 0"
    and closed: "fails (step CLOSED s) = fails s + 1"
      "sock (step CLOSED s) = (if stops (fails s + 1) then GIVEN_UP else WAITING (computeReconnectDelay (fails s + 1)))"
    and errored: "sock (step ERRORED s) = sock s \<and> fails (step ERRORED s) = fails s"
    and fired: "sock (step FIRED s) = CONNECTING \<and> fails (step FIRED s) = fails s"
    and starts: "\<not> stops 0"
begin

lemma fails_closings: "fails (fold step es s) = closings es (fails s)"
proof (induction es arbitrary: s)
  case (Cons e es)
  then show ?case by (cases e) (simp_all add: opened closed errored fired)
qed simp

definition sound :: "'s \<Rightarrow> bool" where
  "sound s \<longleftrightarrow> (case sock s of
     GIVEN_UP \<Rightarrow> stops (fails s)
   | WAITING d \<Rightarrow> \<not> stops (fails s) \<and> 0 < fails s \<and> d = computeReconnectDelay (fails s)
   | OPEN \<Rightarrow> fails s = 0
   | CONNECTING \<Rightarrow> \<not> stops (fails s))"

lemma step_sound: "sound s \<Longrightarrow> possible e (sock s) \<Longrightarrow> sound (step e s)"
  by (cases e) (auto simp: sound_def opened closed errored fired starts split: socket.splits)

lemma run_sound: "lawful step sock es s \<Longrightarrow> sound s \<Longrightarrow> sound (fold step es s)"
  by (induction es arbitrary: s) (simp_all add: step_sound)

lemma given_up_iff:
  assumes "lawful step sock es s" and "sock s = CONNECTING" and "fails s = 0"
  shows "sock (fold step es s) = GIVEN_UP \<longleftrightarrow> stops (closings es 0)"
proof -
  have "sound s" using assms starts by (simp add: sound_def)
  then have "sound (fold step es s)" using assms(1) by (rule run_sound [rotated])
  then show ?thesis using assms(3) by (auto simp: sound_def fails_closings starts split: socket.splits)
qed

lemma waiting_time:
  assumes "lawful step sock es s" and "sock s = CONNECTING" and "fails s = 0" and "sock (fold step es s) = WAITING d"
  shows "d = computeReconnectDelay (closings es 0) \<and> 0 < closings es 0"
proof -
  have "sound s" using assms starts by (simp add: sound_def)
  then have "sound (fold step es s)" using assms(1) by (rule run_sound [rotated])
  then show ?thesis using assms(3,4) by (simp add: sound_def fails_closings)
qed

lemma failing_run:
  assumes "sock s = CONNECTING" and "\<forall>k\<le>n. \<not> stops (fails s + k)"
  shows "lawful step sock (failing n) s \<and> sock (fold step (failing n) s) = CONNECTING
    \<and> waited step sock (failing n) s = (\<Sum>k<n. computeReconnectDelay (fails s + k + 1))"
  using assms
proof (induction n arbitrary: s)
  case (Suc n)
  let ?s = "step FIRED (step CLOSED s)"
  have s: "sock ?s = CONNECTING" "fails ?s = fails s + 1" by (simp_all add: fired closed)
  have "\<not> stops (fails s + 1)" using Suc.prems(2) by (auto dest: spec [of _ 1])
  then have w: "sock (step CLOSED s) = WAITING (computeReconnectDelay (fails s + 1))" by (simp add: closed)
  have "\<forall>k\<le>n. \<not> stops (fails ?s + k)"
  proof (intro allI impI)
    fix k assume "k \<le> n"
    then show "\<not> stops (fails ?s + k)" using Suc.prems(2)[THEN spec, of "Suc k"] by (simp add: s)
  qed
  note ih = Suc.IH [OF s(1) this]
  have "waited step sock (failing (Suc n)) s
      = computeReconnectDelay (fails s + 1) + (\<Sum>k<n. computeReconnectDelay (fails s + Suc k + 1))"
    using ih w Suc.prems(1) by (simp add: failing_def s(2) add_ac)
  also have "\<dots> = (\<Sum>k<Suc n. computeReconnectDelay (fails s + k + 1))" by (simp only: sum.lessThan_Suc_shift) simp
  finally show ?case using ih w Suc.prems(1) by (simp add: failing_def)
qed (simp add: failing_def)

end

interpretation score: reconnecting score_socket lv_socket lv_failures "\<lambda>n. MAX_FAILURES \<le> n"
  by unfold_locales (simp_all add: Let_def MAX_FAILURES_def)

interpretation governance: reconnecting governance_socket lv_socket lv_failures "\<lambda>n. 3 \<le> n"
  by unfold_locales (auto simp: Let_def computeReconnectDelay_def)

interpretation dashboard: reconnecting dashboard_socket lv_socket lv_failures "\<lambda>n. False"
  by unfold_locales (simp_all add: Let_def)

section \<open>When the pages give up\<close>

lemma score_failed:
  "lawful score_socket lv_socket es s \<Longrightarrow> (lv_failed s \<longleftrightarrow> lv_socket s = GIVEN_UP) \<Longrightarrow>
   (lv_failed (fold score_socket es s) \<longleftrightarrow> lv_socket (fold score_socket es s) = GIVEN_UP)"
proof (induction es arbitrary: s)
  case (Cons e es)
  have "lv_failed (score_socket e s) \<longleftrightarrow> lv_socket (score_socket e s) = GIVEN_UP"
    using Cons.prems by (cases e) (auto simp: Let_def split: socket.splits)
  then show ?case using Cons by simp
qed simp

text \<open>
  The risk page and the governance page give up exactly when three closings came without an
  opening in between, the first shows it exactly then, and up to there they wait 3 seconds
  in all. The dashboard never gives up: whatever the browser does, its socket is
  connecting or open, or will be made anew within 30 seconds, after the delays 1, 2, 4, 8,
  16, 30, 30, and so on.
\<close>

theorem sockets_give_up:
  assumes "lawful score_socket lv_socket es no_live" and "lawful governance_socket lv_socket gs no_live"
    and "lawful dashboard_socket lv_socket ds no_live"
  shows "(lv_socket (fold score_socket es no_live) = GIVEN_UP \<longleftrightarrow> 3 \<le> closings es 0)
    \<and> (lv_failed (fold score_socket es no_live) \<longleftrightarrow> 3 \<le> closings es 0)
    \<and> (lv_socket (fold governance_socket gs no_live) = GIVEN_UP \<longleftrightarrow> 3 \<le> closings gs 0)
    \<and> waited score_socket lv_socket (failing 2) no_live = 3000 \<and> waited governance_socket lv_socket (failing 2) no_live = 3000
    \<and> (case lv_socket (fold dashboard_socket ds no_live) of
         GIVEN_UP \<Rightarrow> False
       | WAITING d \<Rightarrow> d = min (2 ^ (closings ds 0 - 1) * 1000) 30000
       | _ \<Rightarrow> True)"
proof -
  have start: "lv_socket no_live = CONNECTING" "lv_failures no_live = 0" "\<not> lv_failed no_live" by (simp_all add: no_live_def)
  have 1: "(lv_socket (fold score_socket es no_live) = GIVEN_UP \<longleftrightarrow> 3 \<le> closings es 0)
      \<and> (lv_failed (fold score_socket es no_live) \<longleftrightarrow> 3 \<le> closings es 0)"
    using score.given_up_iff [OF assms(1) start(1,2)] score_failed [OF assms(1)] start by (simp add: MAX_FAILURES_def)
  have 2: "case lv_socket (fold dashboard_socket ds no_live) of GIVEN_UP \<Rightarrow> False
       | WAITING d \<Rightarrow> d = min (2 ^ (closings ds 0 - 1) * 1000) 30000 | _ \<Rightarrow> True"
    using dashboard.given_up_iff [OF assms(3) start(1,2)] dashboard.waiting_time [OF assms(3) start(1,2)]
    by (auto simp: computeReconnectDelay_def split: socket.split)
  have "(\<Sum>k<2. computeReconnectDelay (0 + k + 1)) = 3000" by (simp add: computeReconnectDelay_def numeral_2_eq_2)
  then have "waited score_socket lv_socket (failing 2) no_live = 3000" "waited governance_socket lv_socket (failing 2) no_live = 3000"
    using score.failing_run [of no_live 2] governance.failing_run [of no_live 2] start by (simp_all add: MAX_FAILURES_def)
  with 1 2 show ?thesis using governance.given_up_iff [OF assms(2) start(1,2)] by blast
qed

theorem sockets_give_up_witness:
  "lv_failed (fold score_socket (failing 2 @ [CLOSED]) no_live) \<and> \<not> lv_failed (fold score_socket (failing 2 @ [OPENED, CLOSED]) no_live)"
proof -
  have l: "lawful governance_socket lv_socket [] no_live" "lawful dashboard_socket lv_socket [] no_live" by simp_all
  have a: "lawful score_socket lv_socket (failing 2 @ [CLOSED]) no_live" "lawful score_socket lv_socket (failing 2 @ [OPENED, CLOSED]) no_live"
    by (simp_all add: failing_def no_live_def numeral_2_eq_2 Let_def MAX_FAILURES_def)
  have "closings (failing 2 @ [CLOSED]) 0 = 3" "closings (failing 2 @ [OPENED, CLOSED]) 0 = 1"
    by (simp_all add: failing_def numeral_2_eq_2)
  then show ?thesis using sockets_give_up [OF a(1) l] sockets_give_up [OF a(2) l] by simp
qed

text \<open>
  A refresh by the user does not reconnect: the timer runs on with its old delay, only the
  delays after it are short again. And the notice of a failed connection stays when the
  page turns to another wallet, until a connection opens.
\<close>

lemma refresh_keeps_waiting: "lv_socket (dashboard_refresh s) = lv_socket s"
  by (simp add: dashboard_refresh_def)

lemma failed_survives_wallet: "lv_failed (live_start s) = lv_failed s \<and> lv_socket (live_start s) = CONNECTING"
  by (simp add: live_start_def)

section \<open>Messages\<close>

text \<open>What the risk page hands to its callback: any score event, of whatever wallet.\<close>

definition score_message :: "json \<Rightarrow> json option" where
  "score_message data = (if props data ''type'' = Some (JStr ''RiskScoreUpdated'') then Some data else None)"

datatype severity = Info | Success | Warning | Critical

record notification =
  nt_id :: string
  nt_title :: "string option"
  nt_body :: string
  nt_createdAt :: "json option"
  nt_severity :: severity
  nt_read :: bool

definition notificationTitleFor :: "string \<Rightarrow> string option" where
  "notificationTitleFor = map_of [(''LoanCreated'', ''New loan originated''), (''LoanRepaid'', ''Loan fully repaid''),
     (''LoanDefaulted'', ''Loan in default''), (''EscrowReleased'', ''Escrow released''),
     (''RiskScoreUpdated'', ''Risk score updated''), (''NotificationCreated'', ''New notification'')]"

definition notificationBodyFor :: "json \<Rightarrow> string" where
  "notificationBodyFor e = (let payload = (case props e ''payload'' of None \<Rightarrow> JNull | Some p \<Rightarrow> p) in
     case props payload ''message'' of
       Some (JStr m) \<Rightarrow> m
     | _ \<Rightarrow> (case props payload ''loanId'' of Some (JStr i) \<Rightarrow> ''Reference: loan '' @ i @ ''.'' | _ \<Rightarrow> ''Live update received from the network.''))"

definition event_severity :: "string \<Rightarrow> severity" where
  "event_severity t = (if t = ''LoanDefaulted'' then Critical else if t = ''LoanRepaid'' then Success
     else if t = ''EscrowReleased'' then Success else Info)"

text \<open>\<open>show\<close> is the text of a value in a template string.\<close>

definition applyRealtimeEvent :: "(json option \<Rightarrow> string) \<Rightarrow> string \<Rightarrow> json \<Rightarrow> notification list \<Rightarrow> notification list" where
  "applyRealtimeEvent show t e ns = take 50 (\<lparr>nt_id = t @ ''-'' @ show (props e ''occurredAt''), nt_title = notificationTitleFor t,
     nt_body = notificationBodyFor e, nt_createdAt = props e ''occurredAt'', nt_severity = event_severity t, nt_read = False\<rparr> # ns)"

definition dashboard_message :: "(json option \<Rightarrow> string) \<Rightarrow> json \<Rightarrow> notification list \<Rightarrow> notification list" where
  "dashboard_message show data ns = (case props data ''type'' of Some (JStr t) \<Rightarrow> applyRealtimeEvent show t data ns | _ \<Rightarrow> ns)"

definition markNotificationRead :: "string \<Rightarrow> notification list \<Rightarrow> notification list" where
  "markNotificationRead i ns = map (\<lambda>n. if nt_id n = i then n\<lparr>nt_read := True\<rparr> else n) ns"

definition clearNotifications :: "notification list \<Rightarrow> notification list" where
  "clearNotifications ns = []"

text \<open>
  The dashboard never has more than fifty notifications, the newest in front; marking one
  as read keeps the list otherwise, but marks every notification with the same type and time.
\<close>

lemma notifications_bounded:
  "length ns \<le> 50 \<Longrightarrow> length (fold (dashboard_message show) es ns) \<le> 50"
  by (induction es arbitrary: ns) (auto simp: dashboard_message_def applyRealtimeEvent_def split: option.split json.split)

lemma mark_read: "map nt_read (markNotificationRead i ns) = map (\<lambda>n. nt_read n \<or> nt_id n = i) ns
  \<and> map nt_id (markNotificationRead i ns) = map nt_id ns"
  by (auto simp: markNotificationRead_def)

section \<open>The events of the server\<close>

text \<open>What the server sends (\<open>server/src/services/websocket.service.ts\<close>).\<close>

fun server_json :: "ws_event \<Rightarrow> json" where
  "server_json (ESCROW_CREATED e b s) = JObj [(''type'', JStr ''ESCROW_CREATED''), (''escrowId'', JStr e), (''buyerId'', JStr b), (''sellerId'', JStr s)]"
| "server_json (ESCROW_UPDATED e st) = JObj [(''type'', JStr ''ESCROW_UPDATED''), (''escrowId'', JStr e), (''status'', JStr st)]"
| "server_json (LOAN_UPDATED l st) = JObj [(''type'', JStr ''LOAN_UPDATED''), (''loanId'', JStr l), (''status'', JStr st)]"
| "server_json (GOVERNANCE_VOTE_CAST p n) = JObj [(''type'', JStr ''GOVERNANCE_VOTE_CAST''), (''proposalId'', JStr p), (''newTally'', JNum (Fin (of_int n)))]"

text \<open>
  None of them is understood: the risk page ignores it, and the dashboard shows an entry
  without a title or a time, with a text that does not depend on the event, under an identifier it
  shares with all events of its kind.
\<close>

lemma server_events_unread:
  "score_message (server_json e) = None
   \<and> dashboard_message show (server_json e) [] =
      [\<lparr>nt_id = (case e of ESCROW_CREATED _ _ _ \<Rightarrow> ''ESCROW_CREATED'' | ESCROW_UPDATED _ _ \<Rightarrow> ''ESCROW_UPDATED''
          | LOAN_UPDATED _ _ \<Rightarrow> ''LOAN_UPDATED'' | GOVERNANCE_VOTE_CAST _ _ \<Rightarrow> ''GOVERNANCE_VOTE_CAST'') @ ''-'' @ show None,
        nt_title = None, nt_body = ''Live update received from the network.'', nt_createdAt = None, nt_severity = Info, nt_read = False\<rparr>]"
  by (cases e) (simp_all add: score_message_def dashboard_message_def applyRealtimeEvent_def notificationTitleFor_def
      notificationBodyFor_def event_severity_def)

end
