(* ===== verification/Loan_Form.thy ===== *)
theory Loan_Form
  imports Js_Parse
begin

text \<open>
  The form for a new loan, \<open>frontend/src/components/loans/LoanForm.tsx\<close>: four steps, from the
  choice of collateral to the signature. A transaction is requested from the server on
  the way to the last step, shown there, and signed with the wallet. A button that is
  loading cannot be pressed, but the button back can at any time until all is signed.
\<close>

section \<open>The form\<close>

record loan_data =
  ld_collateral :: string
  ld_principal :: jsnum
  ld_termMonths :: jsnum
  ld_interestRate :: jsnum

text \<open>What the component waits for: a transaction for some data, or the signature of one.\<close>

datatype awaiting = XDR_FOR loan_data | SIGNATURE_OF string loan_data

record loan_form =
  lf_step :: nat
  lf_submitting :: bool
  lf_xdr :: "string option"
  lf_signed :: bool
  lf_error :: "string option"
  lf_form :: loan_data
  lf_awaiting :: "awaiting option"
  lf_xdr_of :: loan_data \<comment> \<open>the data the shown transaction was requested for\<close>
  lf_sent :: "(string \<times> loan_data) list" \<comment> \<open>submitted with a signature\<close>

definition loan_form_start :: loan_form where
  "loan_form_start = (let d = \<lparr>ld_collateral = [], ld_principal = Fin 0, ld_termMonths = Fin 6, ld_interestRate = Fin (15 / 2)\<rparr> in
     \<lparr>lf_step = 0, lf_submitting = False, lf_xdr = None, lf_signed = False, lf_error = None, lf_form = d, lf_awaiting = None,
      lf_xdr_of = d, lf_sent = []\<rparr>)"

definition js_positive :: "jsnum \<Rightarrow> bool" where
  "js_positive x \<longleftrightarrow> (case x of Fin q \<Rightarrow> 0 < q | Infinity \<Rightarrow> True | _ \<Rightarrow> False)"

definition canProceed :: "loan_form \<Rightarrow> bool" where
  "canProceed s = (if lf_step s = 0 then ld_collateral (lf_form s) \<noteq> []
     else if lf_step s = 1 then js_positive (ld_principal (lf_form s)) \<and> js_positive (ld_termMonths (lf_form s))
       \<and> js_positive (ld_interestRate (lf_form s))
     else if lf_step s = 2 then True
     else if lf_step s = 3 then lf_signed s else False)"

text \<open>
  What happens: the user edits, steps, signs; the server answers a request for a transaction
  (whose field \<open>xdr\<close> may be absent), and signing and submitting end in success or in an error.
\<close>

datatype loan_form_event =
    SELECT string
  | TERMS jsnum jsnum jsnum
  | BACK
  | NEXT
  | SIGN
  | XDR_ANSWER "string + string option"
  | SIGN_ANSWER "string option" \<comment> \<open>the error, if any\<close>

definition handleNext :: "loan_form \<Rightarrow> loan_form" where
  "handleNext s = (if lf_step s < 3 then
     (let s' = s\<lparr>lf_step := lf_step s + 1, lf_error := None\<rparr> in
      if lf_step s = 2 then s'\<lparr>lf_submitting := True, lf_awaiting := Some (XDR_FOR (lf_form s))\<rparr> else s')
     else s)"

definition xdr_answer :: "string + string option \<Rightarrow> loan_data \<Rightarrow> loan_form \<Rightarrow> loan_form" where
  "xdr_answer r d s = (case r of
     Inr x \<Rightarrow> s\<lparr>lf_xdr := x, lf_xdr_of := d, lf_submitting := False, lf_awaiting := None\<rparr>
   | Inl m \<Rightarrow> s\<lparr>lf_error := Some m, lf_step := 2, lf_submitting := False, lf_awaiting := None\<rparr>)"

definition handleSign :: "loan_form \<Rightarrow> loan_form" where
  "handleSign s = (case lf_xdr s of
     Some (c # x) \<Rightarrow> s\<lparr>lf_submitting := True, lf_error := None, lf_awaiting := Some (SIGNATURE_OF (c # x) (lf_form s))\<rparr>
   | _ \<Rightarrow> s\<lparr>lf_error := Some ''No transaction XDR available''\<rparr>)"

definition sign_answer :: "string option \<Rightarrow> string \<Rightarrow> loan_data \<Rightarrow> loan_form \<Rightarrow> loan_form" where
  "sign_answer r x d s = (case r of
     None \<Rightarrow> s\<lparr>lf_signed := True, lf_sent := lf_sent s @ [(x, d)], lf_submitting := False, lf_awaiting := None\<rparr>
   | Some m \<Rightarrow> s\<lparr>lf_error := Some m, lf_submitting := False, lf_awaiting := None\<rparr>)"

text \<open>The buttons and fields that are there, and not disabled.\<close>

fun loan_form_step :: "loan_form_event \<Rightarrow> loan_form \<Rightarrow> loan_form" where
  "loan_form_step (SELECT c) s = (if lf_step s = 0 then s\<lparr>lf_form := (lf_form s)\<lparr>ld_collateral := c\<rparr>\<rparr> else s)"
| "loan_form_step (TERMS p t r) s =
     (if lf_step s = 1 then s\<lparr>lf_form := (lf_form s)\<lparr>ld_principal := p, ld_termMonths := t, ld_interestRate := r\<rparr>\<rparr> else s)"
| "loan_form_step BACK s = (if \<not> lf_signed s then s\<lparr>lf_step := lf_step s - 1\<rparr> else s)"
| "loan_form_step NEXT s = (if \<not> lf_signed s \<and> canProceed s \<and> \<not> lf_submitting s then handleNext s else s)"
| "loan_form_step SIGN s = (if lf_step s = 3 \<and> \<not> lf_signed s \<and> \<not> lf_submitting s then handleSign s else s)"
| "loan_form_step (XDR_ANSWER r) s = (case lf_awaiting s of Some (XDR_FOR d) \<Rightarrow> xdr_answer r d s | _ \<Rightarrow> s)"
| "loan_form_step (SIGN_ANSWER r) s = (case lf_awaiting s of Some (SIGNATURE_OF x d) \<Rightarrow> sign_answer r x d s | _ \<Rightarrow> s)"

section \<open>What is signed\<close>

text \<open>
  On the last step the data are those the transaction was requested for, since they are
  edited on the first two only, and the way back to the last step requests a new one.
\<close>

definition xdr_matches :: "loan_form \<Rightarrow> bool" where
  "xdr_matches s \<longleftrightarrow> lf_step s \<le> 3 \<and> (lf_submitting s \<longleftrightarrow> lf_awaiting s \<noteq> None)
     \<and> (lf_step s = 3 \<longrightarrow> (case lf_awaiting s of
          Some (XDR_FOR d) \<Rightarrow> d = lf_form s
        | _ \<Rightarrow> lf_xdr_of s = lf_form s))
     \<and> (\<forall>x d. lf_awaiting s = Some (SIGNATURE_OF x d) \<longrightarrow> lf_xdr s = Some x \<and> lf_xdr_of s = d)"

lemma xdr_matches_step: "xdr_matches s \<Longrightarrow> xdr_matches (loan_form_step e s)"
  by (cases e) (auto simp: xdr_matches_def handleNext_def xdr_answer_def handleSign_def sign_answer_def Let_def
      split: option.splits awaiting.splits sum.splits list.splits if_splits)

definition sent_once :: "loan_form \<Rightarrow> bool" where
  "sent_once s \<longleftrightarrow> length (lf_sent s) = (if lf_signed s then 1 else 0) \<and> (lf_signed s \<longrightarrow> lf_awaiting s = None)"

lemma sent_once_step: "sent_once s \<Longrightarrow> sent_once (loan_form_step e s)"
  by (cases e) (auto simp: sent_once_def handleNext_def xdr_answer_def handleSign_def sign_answer_def Let_def
      split: option.splits awaiting.splits sum.splits list.splits if_splits)

lemma loan_form_run: "xdr_matches (fold loan_form_step es loan_form_start) \<and> sent_once (fold loan_form_step es loan_form_start)"
proof (induction es rule: rev_induct)
  case Nil
  then show ?case by (simp add: xdr_matches_def sent_once_def loan_form_start_def Let_def)
next
  case (snoc e es)
  then show ?case by (simp add: xdr_matches_step sent_once_step)
qed


text \<open>Up to the signature of a loan of 5.\<close>

definition demo_form_run :: "loan_form_event list" where
  "demo_form_run = [SELECT ''ct-101'', NEXT, TERMS (Fin 5) (Fin 6) (Fin 7), NEXT, NEXT, XDR_ANSWER (Inr (Some ''AAAA'')), SIGN]"

lemmas form_eval = loan_form_start_def Let_def canProceed_def js_positive_def handleNext_def xdr_answer_def handleSign_def sign_answer_def


text \<open>
  A failed request throws the user back to the review of the terms from wherever he is by
  then: from the first steps too, past the check of the terms, so a transaction for a
  principal of zero can be requested.
\<close>

lemma unchecked_terms_requested:
  "\<exists>d. lf_awaiting (fold loan_form_step [SELECT ''ct-101'', NEXT, TERMS (Fin 5) (Fin 6) (Fin 7), NEXT, NEXT, BACK, BACK,
       TERMS (Fin 0) (Fin 6) (Fin 7), XDR_ANSWER (Inl ''error''), NEXT] loan_form_start) = Some (XDR_FOR d)
     \<and> ld_principal d = Fin 0"
  by (simp add: form_eval)

end
