(* ===== verification/Governance_View.thy ===== *)
theory Governance_View
  imports Js_Parse
begin

text \<open>
  Proposals in the web application, \<open>frontend/src/hooks/useGovernance.ts\<close>: votes cast by the
  user, which take 1.5 seconds to sign, and tallies that arrive over the live connection.
\<close>

section \<open>Proposals\<close>

datatype proposal_status = OPEN_PROPOSAL | PASSED_PROPOSAL | REJECTED_PROPOSAL | EXECUTED_PROPOSAL

datatype vote_type = For | Against | Abstain

record tally =
  votes_for :: rat
  votes_against :: rat
  votes_abstain :: rat

record web_proposal =
  wp_id :: string
  wp_title :: string
  wp_description :: string
  wp_status :: proposal_status
  wp_creator :: string
  wp_createdAt :: int
  wp_expiresAt :: rat
  wp_votes :: tally
  wp_type :: string
  wp_votingPower :: rat
  wp_quorumRequired :: rat
  wp_threshold :: rat

record governance_view =
  gv_proposals :: "web_proposal list"
  gv_userVotes :: "string \<rightharpoonup> vote_type"
  gv_voting :: "string option \<times> bool \<times> string option" \<comment> \<open>proposal, loading, error\<close>
  gv_signing :: "(string \<times> vote_type) list" \<comment> \<open>waiting for the signature, oldest first\<close>
  gv_counted :: "(string \<times> vote_type) list" \<comment> \<open>votes added to a tally, as a history\<close>

datatype governance_event =
    VOTE string vote_type
  | SIGNED
  | TALLY string tally
  | PROPOSE web_proposal

fun add_vote :: "vote_type \<Rightarrow> tally \<Rightarrow> tally" where
  "add_vote For v = v\<lparr>votes_for := fl64 (votes_for v + 100000)\<rparr>"
| "add_vote Against v = v\<lparr>votes_against := fl64 (votes_against v + 100000)\<rparr>"
| "add_vote Abstain v = v\<lparr>votes_abstain := fl64 (votes_abstain v + 100000)\<rparr>"

definition update_votes :: "string \<Rightarrow> (tally \<Rightarrow> tally) \<Rightarrow> web_proposal list \<Rightarrow> web_proposal list" where
  "update_votes i f ps = map (\<lambda>p. if wp_id p = i then p\<lparr>wp_votes := f (wp_votes p)\<rparr> else p) ps"

text \<open>Looking up a name every object has counts as a vote.\<close>

definition has_voted :: "governance_view \<Rightarrow> string \<Rightarrow> bool" where
  "has_voted s i \<longleftrightarrow> gv_userVotes s i \<noteq> None \<or> i \<in> set object_prototype"

text \<open>\<open>vote\<close> up to the time-out, and after it.\<close>

definition vote_begin :: "string \<Rightarrow> vote_type \<Rightarrow> governance_view \<Rightarrow> governance_view" where
  "vote_begin i t s = (if has_voted s i
     then s\<lparr>gv_voting := (Some i, False, Some ''You have already voted on this proposal.'')\<rparr>
     else s\<lparr>gv_voting := (Some i, True, None), gv_signing := gv_signing s @ [(i, t)]\<rparr>)"

definition vote_end :: "governance_view \<Rightarrow> governance_view" where
  "vote_end s = (case gv_signing s of
     [] \<Rightarrow> s
   | (i, t) # rest \<Rightarrow> s\<lparr>gv_proposals := update_votes i (add_vote t) (gv_proposals s), gv_userVotes := (gv_userVotes s)(i \<mapsto> t),
       gv_voting := (None, False, None), gv_signing := rest, gv_counted := gv_counted s @ [(i, t)]\<rparr>)"

definition vote_updated :: "string \<Rightarrow> tally \<Rightarrow> governance_view \<Rightarrow> governance_view" where
  "vote_updated i v s = s\<lparr>gv_proposals := update_votes i (\<lambda>_. v) (gv_proposals s)\<rparr>"

fun governance_step :: "governance_event \<Rightarrow> governance_view \<Rightarrow> governance_view" where
  "governance_step (VOTE i t) s = vote_begin i t s"
| "governance_step SIGNED s = vote_end s"
| "governance_step (TALLY i v) s = vote_updated i v s"
| "governance_step (PROPOSE p) s = s\<lparr>gv_proposals := p # gv_proposals s\<rparr>"

text \<open>The proposal made by \<open>createProposal\<close>; \<open>duration\<close> in days.\<close>

definition new_proposal :: "string \<Rightarrow> int \<Rightarrow> string \<Rightarrow> string \<Rightarrow> string \<Rightarrow> rat \<Rightarrow> web_proposal" where
  "new_proposal new_id now title description kind duration =
     \<lparr>wp_id = new_id, wp_title = title, wp_description = description, wp_status = OPEN_PROPOSAL, wp_creator = ''ME...USER'',
      wp_createdAt = now, wp_expiresAt = fl64 (of_int now + fl64 (86400000 * duration)),
      wp_votes = \<lparr>votes_for = 0, votes_against = 0, votes_abstain = 0\<rparr>, wp_type = kind,
      wp_votingPower = 10000000, wp_quorumRequired = fl64 (1 / 10), wp_threshold = fl64 (667 / 1000)\<rparr>"

section \<open>Counting votes\<close>

text \<open>The events of a run that vote on a proposal while an earlier vote on it is being signed.\<close>

fun impatient :: "governance_event list \<Rightarrow> governance_view \<Rightarrow> bool" where
  "impatient [] s = False"
| "impatient (e # es) s = ((\<exists>i t. e = VOTE i t \<and> i \<in> fst ` set (gv_signing s)) \<or> impatient es (governance_step e s))"

definition votes_ok :: "governance_view \<Rightarrow> bool" where
  "votes_ok s \<longleftrightarrow> distinct (map fst (gv_counted s @ gv_signing s)) \<and> (\<forall>i. gv_userVotes s i = None \<longleftrightarrow> i \<notin> fst ` set (gv_counted s))"

lemma votes_ok_step:
  assumes "votes_ok s" and "\<And>i t. e = VOTE i t \<Longrightarrow> i \<notin> fst ` set (gv_signing s)"
  shows "votes_ok (governance_step e s)"
proof (cases e)
  case (VOTE i t)
  show ?thesis
  proof (cases "has_voted s i")
    case False
    then have "i \<notin> fst ` set (gv_counted s)" using assms(1) by (simp add: votes_ok_def has_voted_def)
    then show ?thesis using assms(1) assms(2) [OF VOTE] VOTE False by (auto simp: votes_ok_def vote_begin_def)
  qed (use assms(1) VOTE in \<open>simp add: votes_ok_def vote_begin_def\<close>)
next
  case SIGNED
  then show ?thesis using assms(1)
    by (cases "gv_signing s") (simp_all add: votes_ok_def vote_end_def split: prod.split if_splits, force)
qed (use assms(1) in \<open>simp_all add: votes_ok_def vote_updated_def\<close>)

lemma votes_ok_run: "votes_ok s \<Longrightarrow> \<not> impatient es s \<Longrightarrow> votes_ok (fold governance_step es s)"
  by (induction es arbitrary: s) (auto intro: votes_ok_step)

text \<open>
  Who never votes on a proposal while his earlier vote on it is being signed has at most
  one vote counted for each; the votes remembered are those counted.
\<close>

lemma one_vote_each:
  assumes "\<not> impatient es \<lparr>gv_proposals = ps, gv_userVotes = Map.empty, gv_voting = v, gv_signing = [], gv_counted = []\<rparr>"
    (is "\<not> impatient es ?s")
  shows "distinct (map fst (gv_counted (fold governance_step es ?s)))"
proof -
  have "votes_ok ?s" by (simp add: votes_ok_def)
  from votes_ok_run [OF this assms] show ?thesis by (simp add: votes_ok_def)
qed

text \<open>
  Two clicks within the 1.5 seconds are two votes: the check looks at the votes already signed,
  so both are counted, for different choices too, and only the second is remembered. This is the
  hook alone; the buttons of the page are disabled while a vote is signed (\<open>Governance_Page\<close>).
\<close>

theorem double_click_votes_twice:
  assumes "\<not> has_voted s i" and "gv_signing s = []"
  shows "gv_counted (fold governance_step [VOTE i t, VOTE i u, SIGNED, SIGNED] s) = gv_counted s @ [(i, t), (i, u)]
    \<and> gv_userVotes (fold governance_step [VOTE i t, VOTE i u, SIGNED, SIGNED] s) i = Some u
    \<and> gv_proposals (fold governance_step [VOTE i t, VOTE i u, SIGNED, SIGNED] s)
        = update_votes i (add_vote u \<circ> add_vote t) (gv_proposals s)
    \<and> has_voted (fold governance_step [VOTE i t, VOTE i u, SIGNED, SIGNED] s) i"
  using assms by (simp add: vote_begin_def vote_end_def has_voted_def update_votes_def)

end
