(* ===== verification/Tx_View.thy ===== *)
theory Tx_View
  imports Js_Parse
begin

text \<open>
  Transactions in the web application: the history kept by
  \<open>frontend/src/contexts/TransactionStatusProvider.tsx\<close>, deposits and withdrawals
  (\<open>frontend/src/hooks/useLiquidity.ts\<close>), and their dialog
  (\<open>frontend/src/components/dashboard/LiquidityModal.tsx\<close>).
\<close>

section \<open>The history\<close>

datatype web_tx_status = TX_PENDING | TX_SUCCESS | TX_FAILED | TX_OPEN

datatype tx_network = Testnet | Public

record web_tx =
  wt_id :: string
  wt_hash :: string
  wt_status :: web_tx_status
  wt_type :: string
  wt_description :: string
  wt_timestamp :: int
  wt_network :: tx_network
  wt_url :: "string option"

record tx_patch =
  tp_hash :: "string option"
  tp_status :: "web_tx_status option"
  tp_url :: "string option"

datatype tx_toast = Toast_Loading | Toast_Success | Toast_Failed

record tx_store =
  ts_transactions :: "web_tx list"
  ts_toasts :: "string \<rightharpoonup> tx_toast"

definition MAX_TRANSACTIONS :: nat where "MAX_TRANSACTIONS = 10"

fun STELLAR_EXPERT_URLS :: "tx_network \<Rightarrow> string" where
  "STELLAR_EXPERT_URLS Testnet = ''https://stellar.expert/xlm-testnet/tx/''"
| "STELLAR_EXPERT_URLS Public = ''https://stellar.expert/xlm-public/tx/''"

text \<open>What is loaded at the start: the stored transactions of the last day; none when the text does not parse.\<close>

definition loadStoredTransactions :: "int \<Rightarrow> web_tx list option \<Rightarrow> web_tx list" where
  "loadStoredTransactions now stored = (case stored of
     None \<Rightarrow> [] | Some txs \<Rightarrow> filter (\<lambda>t. now - 24 * 60 * 60 * 1000 < wt_timestamp t) txs)"

definition pendingCount :: "tx_store \<Rightarrow> nat" where
  "pendingCount s = length (filter (\<lambda>t. wt_status t = TX_PENDING \<or> wt_status t = TX_OPEN) (ts_transactions s))"

definition addTransaction :: "string \<Rightarrow> int \<Rightarrow> string \<Rightarrow> web_tx_status \<Rightarrow> string \<Rightarrow> string \<Rightarrow> tx_network \<Rightarrow> tx_store \<Rightarrow> tx_store" where
  "addTransaction new_id now hash status kind description network s =
     (let t = \<lparr>wt_id = new_id, wt_hash = hash, wt_status = status, wt_type = kind, wt_description = description, wt_timestamp = now,
          wt_network = network, wt_url = (if hash = [] then None else Some (STELLAR_EXPERT_URLS network @ hash))\<rparr>
      in s\<lparr>ts_transactions := take MAX_TRANSACTIONS (t # ts_transactions s), ts_toasts := (ts_toasts s)(new_id \<mapsto> Toast_Loading)\<rparr>)"

definition patch_tx :: "tx_patch \<Rightarrow> web_tx \<Rightarrow> web_tx" where
  "patch_tx p t = t\<lparr>wt_hash := (case tp_hash p of None \<Rightarrow> wt_hash t | Some h \<Rightarrow> h),
     wt_status := (case tp_status p of None \<Rightarrow> wt_status t | Some v \<Rightarrow> v),
     wt_url := (case tp_url p of None \<Rightarrow> wt_url t | Some u \<Rightarrow> Some u)\<rparr>"

text \<open>The first transaction with the identifier is changed, and its toast replaced when it has ended.\<close>

fun patch_first :: "string \<Rightarrow> tx_patch \<Rightarrow> web_tx list \<Rightarrow> web_tx list" where
  "patch_first i p [] = []"
| "patch_first i p (t # ts) = (if wt_id t = i then patch_tx p t # ts else t # patch_first i p ts)"

definition updateTransaction :: "string \<Rightarrow> tx_patch \<Rightarrow> tx_store \<Rightarrow> tx_store" where
  "updateTransaction i p s = (if find (\<lambda>t. wt_id t = i) (ts_transactions s) = None then s
     else s\<lparr>ts_transactions := patch_first i p (ts_transactions s),
       ts_toasts := (case tp_status p of
           Some TX_SUCCESS \<Rightarrow> (ts_toasts s)(i \<mapsto> Toast_Success)
         | Some TX_FAILED \<Rightarrow> (ts_toasts s)(i \<mapsto> Toast_Failed)
         | _ \<Rightarrow> ts_toasts s)\<rparr>)"

definition getTransaction :: "string \<Rightarrow> tx_store \<Rightarrow> web_tx option" where
  "getTransaction i s = find (\<lambda>t. wt_id t = i) (ts_transactions s)"

definition clearHistory :: "tx_store \<Rightarrow> tx_store" where
  "clearHistory s = s\<lparr>ts_transactions := []\<rparr>"

text \<open>\<open>submitTransaction\<close> when the builder has answered with a hash or thrown.\<close>

definition submitted :: "string \<Rightarrow> tx_network \<Rightarrow> string option \<Rightarrow> tx_store \<Rightarrow> tx_store" where
  "submitted i network r = (case r of
     Some hash \<Rightarrow> updateTransaction i \<lparr>tp_hash = Some hash, tp_status = None, tp_url = Some (STELLAR_EXPERT_URLS network @ hash)\<rparr>
   | None \<Rightarrow> updateTransaction i \<lparr>tp_hash = None, tp_status = Some TX_FAILED, tp_url = None\<rparr>)"

lemma patch_tx_id [simp]: "wt_id (patch_tx p t) = wt_id t"
  by (simp add: patch_tx_def)

lemma find_patch_first:
  "find (\<lambda>t. wt_id t = j) (patch_first i p ts)
   = (if j = i then map_option (patch_tx p) (find (\<lambda>t. wt_id t = i) ts) else find (\<lambda>t. wt_id t = j) ts)"
  by (induction ts) auto

lemma ids_patch_first: "map wt_id (patch_first i p ts) = map wt_id ts"
  by (induction ts) auto

text \<open>
  An update changes the transaction it names and no other, and neither the order nor the
  number of the transactions, of which there are never more than ten.
\<close>

lemma update_found:
  "getTransaction j (updateTransaction i p s)
     = (if j = i then map_option (patch_tx p) (getTransaction i s) else getTransaction j s)
   \<and> map wt_id (ts_transactions (updateTransaction i p s)) = map wt_id (ts_transactions s)"
  by (auto simp: getTransaction_def updateTransaction_def find_patch_first ids_patch_first)

lemma at_most_ten: "length (ts_transactions (addTransaction i now h st k d n s)) \<le> MAX_TRANSACTIONS"
  by (simp add: addTransaction_def Let_def)

text \<open>
  A transaction submitted successfully stays pending: only its hash is entered. One that
  was pushed out of the history is never finished: its toast keeps loading.
\<close>

lemma submitted_stays_pending:
  "getTransaction i s = Some t \<Longrightarrow> wt_status t = TX_PENDING \<Longrightarrow>
   \<exists>t'. getTransaction i (submitted i n (Some h) s) = Some t' \<and> wt_status t' = TX_PENDING"
  by (simp add: submitted_def update_found patch_tx_def)

lemma evicted_keeps_loading:
  "getTransaction i s = None \<Longrightarrow> updateTransaction i p s = s"
  by (simp add: getTransaction_def updateTransaction_def)

section \<open>Amounts\<close>

record token_balance =
  tb_code :: string
  tb_issuer :: "string option"
  tb_balance :: string

definition MIN_XLM_FEE_RESERVE :: rat where "MIN_XLM_FEE_RESERVE = 3 / 2"

text \<open>Comparisons of numbers; every one with \<open>NaN\<close> is false.\<close>

fun js_less :: "jsnum \<Rightarrow> jsnum \<Rightarrow> bool" where
  "js_less (Fin x) (Fin y) = (x < y)"
| "js_less NegInfinity y = (y \<noteq> NegInfinity \<and> y \<noteq> NaN)"
| "js_less x Infinity = (x \<noteq> Infinity \<and> x \<noteq> NaN)"
| "js_less _ _ = False"

definition js_plus_rat :: "jsnum \<Rightarrow> rat \<Rightarrow> jsnum" where
  "js_plus_rat x q = (case x of Fin y \<Rightarrow> Fin (fl64 (y + q)) | _ \<Rightarrow> x)"

datatype amount_error = Invalid_Amount | Not_Loaded | Insufficient jsnum string | Insufficient_Fees

text \<open>\<open>validateAmount\<close>; \<open>parse\<close> is \<open>parseFloat\<close>, none is no error.\<close>

definition validateAmount :: "(string \<Rightarrow> jsnum) \<Rightarrow> token_balance list \<Rightarrow> string \<Rightarrow> string \<Rightarrow> amount_error option" where
  "validateAmount parse balances amount code =
     (let num = parse amount in
      if amount = [] \<or> num = NaN \<or> \<not> js_less (Fin 0) num then Some Invalid_Amount
      else case find (\<lambda>b. tb_code b = code) balances of
        None \<Rightarrow> Some Not_Loaded
      | Some b \<Rightarrow>
        if js_less (parse (tb_balance b)) num then Some (Insufficient (parse (tb_balance b)) code)
        else (case find (\<lambda>b. tb_code b = ''XLM'') balances of
            None \<Rightarrow> None
          | Some x \<Rightarrow>
              let needed = (if code = ''XLM'' then js_plus_rat num MIN_XLM_FEE_RESERVE else Fin MIN_XLM_FEE_RESERVE)
              in if js_less (parse (tb_balance x)) needed then Some Insufficient_Fees else None))"

text \<open>
  An amount that passes is positive and covered by the balance, and at least 1.5 XLM remain
  for fees, up to the rounding of their sum, if the balances are numbers.
\<close>

lemma validateAmount_covered:
  assumes "validateAmount parse balances amount code = None" and "parse amount = Fin a"
    and "find (\<lambda>b. tb_code b = code) balances = Some b" and "parse (tb_balance b) = Fin v"
  shows "0 < a \<and> a \<le> v \<and> (code = ''XLM'' \<longrightarrow> fl64 (a + 3 / 2) \<le> v)"
  using assms
  by (auto simp: validateAmount_def Let_def js_plus_rat_def MIN_XLM_FEE_RESERVE_def split: option.splits if_splits)

section \<open>Deposits and withdrawals\<close>

datatype operation_kind = DEPOSIT | WITHDRAW

text \<open>The payment that is built: source, when not the account itself, and destination.\<close>

definition payment_of :: "operation_kind \<Rightarrow> string \<Rightarrow> string \<Rightarrow> string option \<times> string" where
  "payment_of kind publicKey vault =
     (let destination = (if kind = DEPOSIT then vault else publicKey); source = (if kind = WITHDRAW then vault else publicKey)
      in (if source \<noteq> publicKey then Some source else None, destination))"

definition operation_begin :: "string \<Rightarrow> int \<Rightarrow> operation_kind \<Rightarrow> string \<Rightarrow> string \<Rightarrow> tx_store \<Rightarrow> tx_store" where
  "operation_begin new_id now kind amount code =
     addTransaction new_id now [] TX_PENDING (if kind = DEPOSIT then ''liquidity_deposit'' else ''liquidity_withdraw'')
       ((if kind = DEPOSIT then ''Deposit'' else ''Withdraw'') @ '' '' @ amount @ '' '' @ code) Testnet"

definition operation_end :: "string \<Rightarrow> string option \<Rightarrow> tx_store \<Rightarrow> tx_store" where
  "operation_end i r = (case r of
     Some hash \<Rightarrow> updateTransaction i \<lparr>tp_hash = Some hash, tp_status = Some TX_SUCCESS, tp_url = None\<rparr>
   | None \<Rightarrow> updateTransaction i \<lparr>tp_hash = None, tp_status = Some TX_FAILED, tp_url = None\<rparr>)"

text \<open>A successful operation never gets a link: it was entered without a hash, and the update has none.\<close>

lemma operation_without_link:
  "ts_transactions (operation_end i (Some h) (operation_begin i now k a c s)) \<noteq> [] \<and>
   wt_url (hd (ts_transactions (operation_end i (Some h) (operation_begin i now k a c s)))) = None"
  by (simp add: operation_end_def operation_begin_def addTransaction_def updateTransaction_def MAX_TRANSACTIONS_def patch_tx_def Let_def)

section \<open>The dialog\<close>

datatype modal_step = FORM | CONFIRM | SUBMITTING | SUCCESS

record modal =
  md_isOpen :: bool
  md_tab :: operation_kind
  md_token :: string
  md_amount :: string
  md_step :: modal_step
  md_txHash :: "string option"
  md_submitError :: "string option"
  md_running :: "(operation_kind \<times> string \<times> string) list" \<comment> \<open>operations that have not ended\<close>

text \<open>
  What the user does, by mouse or keyboard (the overlay shown while submitting stops the
  mouse only), and the end of the oldest running operation, with a hash or an error.
\<close>

datatype modal_event =
    OPEN_MODAL operation_kind
  | ESCAPE
  | CLOSE_BUTTON
  | TYPE_AMOUNT string
  | CHOOSE_TAB operation_kind
  | CHOOSE_TOKEN string
  | PROCEED
  | BACK_TO_FORM
  | CONFIRMED
  | ANOTHER
  | ENDED "string + string"

definition modal_start :: modal where
  "modal_start = \<lparr>md_isOpen = False, md_tab = DEPOSIT, md_token = ''XLM'', md_amount = [], md_step = FORM, md_txHash = None,
     md_submitError = None, md_running = []\<rparr>"

text \<open>\<open>ok amount code\<close>: \<open>validateAmount\<close> has no objection; it is asked on the form only.\<close>

definition modal_canProceed :: "(string \<Rightarrow> string \<Rightarrow> bool) \<Rightarrow> bool \<Rightarrow> modal \<Rightarrow> bool" where
  "modal_canProceed ok loadingBalances s \<longleftrightarrow>
     md_amount s \<noteq> [] \<and> (md_step s = FORM \<longrightarrow> ok (md_amount s) (md_token s)) \<and> \<not> loadingBalances"

fun modal_event_step :: "(string \<Rightarrow> string \<Rightarrow> bool) \<Rightarrow> modal_event \<Rightarrow> modal \<Rightarrow> modal" where
  "modal_event_step ok (OPEN_MODAL t) s = (if md_isOpen s then s else s\<lparr>md_isOpen := True, md_tab := t, md_amount := [],
     md_step := FORM, md_txHash := None, md_submitError := None, md_token := ''XLM''\<rparr>)"
| "modal_event_step ok ESCAPE s = s\<lparr>md_isOpen := False\<rparr>"
| "modal_event_step ok CLOSE_BUTTON s = (if md_step s = SUBMITTING then s else s\<lparr>md_isOpen := False\<rparr>)"
| "modal_event_step ok (TYPE_AMOUNT a) s = (if md_isOpen s \<and> md_step s = FORM then s\<lparr>md_amount := a\<rparr> else s)"
| "modal_event_step ok (CHOOSE_TAB t) s = (if md_isOpen s \<and> md_step s \<in> {FORM, SUBMITTING}
     then s\<lparr>md_tab := t, md_amount := [], md_submitError := None\<rparr> else s)"
| "modal_event_step ok (CHOOSE_TOKEN c) s = (if md_isOpen s \<and> md_step s \<in> {FORM, SUBMITTING} then s\<lparr>md_token := c, md_amount := []\<rparr> else s)"
| "modal_event_step ok PROCEED s = (if md_isOpen s \<and> md_step s \<in> {FORM, SUBMITTING} \<and> modal_canProceed ok False s
     then s\<lparr>md_step := CONFIRM\<rparr> else s)"
| "modal_event_step ok BACK_TO_FORM s = (if md_isOpen s \<and> md_step s = CONFIRM then s\<lparr>md_step := FORM\<rparr> else s)"
| "modal_event_step ok CONFIRMED s = (if md_isOpen s \<and> md_step s = CONFIRM
     then s\<lparr>md_step := SUBMITTING, md_submitError := None, md_running := md_running s @ [(md_tab s, md_token s, md_amount s)]\<rparr> else s)"
| "modal_event_step ok ANOTHER s = (if md_isOpen s \<and> md_step s = SUCCESS then s\<lparr>md_step := FORM, md_amount := [], md_txHash := None\<rparr> else s)"
| "modal_event_step ok (ENDED r) s = (case md_running s of
     [] \<Rightarrow> s
   | _ # rest \<Rightarrow> (case r of
       Inr hash \<Rightarrow> s\<lparr>md_running := rest, md_txHash := Some hash, md_step := SUCCESS\<rparr>
     | Inl m \<Rightarrow> s\<lparr>md_running := rest, md_submitError := Some m, md_step := FORM\<rparr>))"

text \<open>Every operation that starts was confirmed with an amount that had passed the check.\<close>

definition modal_ok :: "(string \<Rightarrow> string \<Rightarrow> bool) \<Rightarrow> modal \<Rightarrow> bool" where
  "modal_ok ok s \<longleftrightarrow> (md_step s \<in> {CONFIRM, SUBMITTING} \<longrightarrow> md_amount s \<noteq> [] \<longrightarrow> ok (md_amount s) (md_token s))
     \<and> (md_step s = CONFIRM \<longrightarrow> md_amount s \<noteq> [])
     \<and> (\<forall>(k, c, a)\<in>set (md_running s). a \<noteq> [] \<and> ok a c)"

lemma modal_ok_step: "modal_ok ok s \<Longrightarrow> modal_ok ok (modal_event_step ok e s)"
  by (cases e) (auto simp: modal_ok_def modal_canProceed_def split: list.splits sum.splits)

lemma operations_checked:
  assumes "(k, c, a) \<in> set (md_running (fold (modal_event_step ok) es modal_start))"
  shows "a \<noteq> [] \<and> ok a c"
proof -
  have "modal_ok ok (fold (modal_event_step ok) es modal_start)"
  proof (induction es rule: rev_induct)
    case Nil
    then show ?case by (simp add: modal_ok_def modal_start_def)
  next
    case (snoc e es)
    then show ?case by (simp add: modal_ok_step)
  qed
  then show ?thesis using assms by (auto simp: modal_ok_def)
qed

text \<open>
  But the same payment can run twice: with the keyboard the button behind the overlay is
  pressed again, or the dialog is closed with Escape, which ignores the guard of the close button, and opened anew.
\<close>

lemma two_payments:
  assumes "ok (CHR ''5'' # []) ''XLM''"
  shows "md_running (fold (modal_event_step ok) [OPEN_MODAL DEPOSIT, TYPE_AMOUNT ''5'', PROCEED, CONFIRMED, PROCEED, CONFIRMED] modal_start)
      = [(DEPOSIT, ''XLM'', ''5''), (DEPOSIT, ''XLM'', ''5'')]
    \<and> md_running (fold (modal_event_step ok) [OPEN_MODAL DEPOSIT, TYPE_AMOUNT ''5'', PROCEED, CONFIRMED, ESCAPE, OPEN_MODAL DEPOSIT,
        TYPE_AMOUNT ''5'', PROCEED, CONFIRMED] modal_start) = [(DEPOSIT, ''XLM'', ''5''), (DEPOSIT, ''XLM'', ''5'')]"
  using assms by (simp add: modal_start_def modal_canProceed_def)

end
