(* ===== verification/Web_Calls.thy ===== *)
theory Web_Calls
  imports Http_Routes "HOL-Library.Sublist"
begin

text \<open>
  The requests the hooks of the web application make for its data (\<open>frontend/src/hooks\<close>,
  \<open>components/loans/LoanForm.tsx\<close>, \<open>app/loans/[id]/page.tsx\<close>), against the routes of the server
  (\<open>server/src/app.ts\<close>).
\<close>

section \<open>Paths\<close>

text \<open>The segments of a path, and the path with given segments.\<close>

fun seg_step :: "char \<Rightarrow> string list \<Rightarrow> string list" where
  "seg_step c [] = (if c = CHR ''/'' then [[], []] else [[c]])"
| "seg_step c (s # ss) = (if c = CHR ''/'' then [] # s # ss else (c # s) # ss)"

definition seg :: "string \<Rightarrow> string list" where
  "seg p = filter (\<lambda>s. s \<noteq> []) (foldr seg_step p [[]])"

definition path_of :: "string list \<Rightarrow> string" where
  "path_of ss = concat (map (\<lambda>s. CHR ''/'' # s) ss)"

text \<open>A segment of a pattern matches any segment when it is a parameter; the case is ignored.\<close>

fun seg_match :: "string list \<Rightarrow> string list \<Rightarrow> bool" where
  "seg_match [] [] = True"
| "seg_match (p # ps) (s # ss) = ((p \<noteq> [] \<and> hd p = CHR '':'' \<or> js_lower p = js_lower s) \<and> seg_match ps ss)"
| "seg_match _ _ = False"

text \<open>
  What Express documents of mounted routers and routes: a router gets the requests below
  its path, and a route those whose segments match its pattern.
\<close>

definition express_paths :: "express \<Rightarrow> bool" where
  "express_paths X \<longleftrightarrow> (\<forall>base path. under X base path \<longrightarrow> prefix (map js_lower (seg base)) (map js_lower (seg path)))
     \<and> (\<forall>pat path. matches X pat path \<longrightarrow> seg_match (seg pat) (seg path))"

definition no_slash :: "string \<Rightarrow> bool" where
  "no_slash s \<longleftrightarrow> s \<noteq> [] \<and> CHR ''/'' \<notin> set s"

lemma foldr_seg_plain:
  "CHR ''/'' \<notin> set s \<Longrightarrow> foldr seg_step s (t # ts) = (s @ t) # ts"
  by (induction s arbitrary: t) auto

lemma seg_path_of: "\<forall>s\<in>set ss. no_slash s \<Longrightarrow> seg (path_of ss) = ss"
proof -
  assume "\<forall>s\<in>set ss. no_slash s"
  then have "foldr seg_step (path_of ss) [[]] = [] # ss"
    by (induction ss) (auto simp: path_of_def no_slash_def foldr_seg_plain)
  then show ?thesis using \<open>\<forall>s\<in>set ss. no_slash s\<close> by (auto simp: seg_def no_slash_def intro!: filter_True)
qed

section \<open>The requests\<close>

text \<open>The requests for loans, collateral and oracles; \<open>i\<close> is an identifier, without a slash.\<close>

definition loan_calls :: "string \<Rightarrow> (http_method \<times> string list) list" where
  "loan_calls i =
    [(M_GET, [''api'', ''v1'', ''loans'']), (M_GET, [''api'', ''v1'', ''loans'', i]),
     (M_POST, [''api'', ''v1'', ''loans'']), (M_POST, [''api'', ''v1'', ''loans'', ''submit'']),
     (M_POST, [''api'', ''v1'', ''loans'', ''repayment'']), (M_POST, [''api'', ''v1'', ''loans'', ''repayment'', ''submit''])]"

definition collateral_calls :: "string \<Rightarrow> (http_method \<times> string list) list" where
  "collateral_calls i =
    [(M_GET, [''api'', ''v1'', ''collateral'']), (M_GET, [''api'', ''v1'', ''collateral'', i, ''metadata'']),
     (M_GET, [''api'', ''v1'', ''collateral'', ''types'']), (M_GET, [''api'', ''v1'', ''collateral'', i, ''ltv'']),
     (M_POST, [''api'', ''v1'', ''collateral'']), (M_PUT, [''api'', ''v1'', ''collateral'', i, ''valuation'']),
     (M_POST, [''api'', ''v1'', ''collateral'', i, ''verify''])]"

definition oracle_calls :: "string \<Rightarrow> (http_method \<times> string list) list" where
  "oracle_calls i =
    [(M_GET, [''api'', ''v1'', ''oracles'']), (M_GET, [''api'', ''v1'', ''oracles'', i, ''reputation'']),
     (M_GET, [''api'', ''v1'', ''oracles'', ''network-status'']), (M_POST, [''api'', ''v1'', ''oracles'']),
     (M_POST, [''api'', ''v1'', ''oracles'', ''confirmations''])]"

text \<open>The routers mounted at other paths never see such a request, and the two that do have no route for it.\<close>

lemma base_segs:
  "seg ''/api/auth'' = [''api'', ''auth'']" "seg ''/api/wallets'' = [''api'', ''wallets'']" "seg ''/api/users'' = [''api'', ''users'']"
  "seg ''/api/escrows'' = [''api'', ''escrows'']" "seg ''/api/collateral'' = [''api'', ''collateral'']" "seg ''/api/loans'' = [''api'', ''loans'']"
  "seg ''/api/oracles'' = [''api'', ''oracles'']" "seg ''/api/confirmations'' = [''api'', ''confirmations'']"
  "seg ''/api/governance'' = [''api'', ''governance'']" "seg ''/api/risk'' = [''api'', ''risk'']" "seg ''/api/analytics'' = [''api'', ''analytics'']"
  "seg ''/api/v1/analytics'' = [''api'', ''v1'', ''analytics'']" "seg ''/api/v1/webhooks'' = [''api'', ''v1'', ''webhooks'']"
  "seg ''/health'' = [''health'']" "seg ''/metrics'' = [''metrics'']"
  "seg ''/api/payments/:id/status'' = [''api'', ''payments'', '':id'', ''status'']"
  "seg ''/api/payments/:id/stream'' = [''api'', ''payments'', '':id'', ''stream'']"
  by code_simp+

lemma lower_segs:
  "js_lower ''api'' = ''api''" "js_lower ''v1'' = ''v1''" "js_lower ''loans'' = ''loans''" "js_lower ''collateral'' = ''collateral''"
  "js_lower ''oracles'' = ''oracles''" "js_lower ''auth'' = ''auth''" "js_lower ''wallets'' = ''wallets''" "js_lower ''users'' = ''users''"
  "js_lower ''escrows'' = ''escrows''" "js_lower ''confirmations'' = ''confirmations''" "js_lower ''governance'' = ''governance''"
  "js_lower ''risk'' = ''risk''" "js_lower ''analytics'' = ''analytics''" "js_lower ''webhooks'' = ''webhooks''"
  "js_lower ''health'' = ''health''" "js_lower ''metrics'' = ''metrics''" "js_lower ''payments'' = ''payments''"
  by code_simp+

lemma v1_unrouted:
  assumes "express_paths X" and "seg path = ''api'' # ''v1'' # x # rest" and "x \<in> {''loans'', ''collateral'', ''oracles''}"
  shows "app_chain X m path app_routes = ([], None)"
proof -
  have under: "under X base path \<Longrightarrow> prefix (map js_lower (seg base)) (map js_lower (seg path))" for base
    using assms(1) by (simp add: express_paths_def)
  have mat: "matches X pat path \<Longrightarrow> seg_match (seg pat) (seg path)" for pat
    using assms(1) by (simp add: express_paths_def)
  have no_base: "\<not> under X base path" if "base \<in> {''/api/auth'', ''/api/wallets'', ''/api/users'', ''/api/escrows'', ''/api/collateral'',
      ''/api/loans'', ''/api/oracles'', ''/api/confirmations'', ''/api/governance'', ''/api/risk'', ''/api/analytics'', ''/api/v1/analytics'',
      ''/api/v1/webhooks''}" for base
    using that assms(2,3) under [of base] by (auto simp: base_segs lower_segs)
  have no_route: "\<not> matches X pat path" if "pat \<in> {''/health'', ''/metrics'', ''/api/payments/:id/status'', ''/api/payments/:id/stream''}" for pat
    using that assms(2,3) mat [of pat] by (auto simp: base_segs lower_segs)
  show ?thesis
    using no_base no_route by (simp add: app_routes_def paymentRoutes_def split: prod.split)
qed


definition seg_express :: express where
  "seg_express = \<lparr>under = (\<lambda>b p. prefix (map js_lower (seg b)) (map js_lower (seg p))), matches = (\<lambda>pat p. seg_match (seg pat) (seg p)),
     limiter = (\<lambda>_ _. Inr ())\<rparr>"


end
