(* ===== verification/Onboarding.thy ===== *)
theory Onboarding
  imports Proxy_Guard Js_Parse
begin

text \<open>
  The onboarding of the web application: what it keeps in the local storage
  (\<open>frontend/src/utils/onboarding.ts\<close>), the guided tour
  (\<open>components/onboarding/OnboardingProvider.tsx\<close>) and the progress card
  (\<open>components/onboarding/QuickStartCard.tsx\<close>). \<open>JSON.parse\<close>, \<open>JSON.stringify\<close> and the text of
  a number are parameters.
\<close>

section \<open>The local storage\<close>

text \<open>Reading fails without a window, writing also when the storage is full; both failures are ignored.\<close>

record web_storage =
  items :: "string \<rightharpoonup> string"
  readable :: bool
  writable :: bool

definition safeGetItem :: "string \<Rightarrow> web_storage \<Rightarrow> string option" where
  "safeGetItem key s = (if readable s then items s key else None)"

definition safeSetItem :: "string \<Rightarrow> string \<Rightarrow> web_storage \<Rightarrow> web_storage" where
  "safeSetItem key v s = (if writable s then s\<lparr>items := (items s)(key \<mapsto> v)\<rparr> else s)"

definition safeRemoveItem :: "string \<Rightarrow> web_storage \<Rightarrow> web_storage" where
  "safeRemoveItem key s = (if writable s then s\<lparr>items := (items s)(key := None)\<rparr> else s)"

datatype onboarding_key = KEY_DISMISSED | KEY_COMPLETED | KEY_COUNT | KEY_QUICK_START

fun ONBOARDING_STORAGE_KEYS :: "onboarding_key \<Rightarrow> string" where
  "ONBOARDING_STORAGE_KEYS KEY_DISMISSED = ''sv_onboarding_dismissed''"
| "ONBOARDING_STORAGE_KEYS KEY_COMPLETED = ''sv_onboarding_completed''"
| "ONBOARDING_STORAGE_KEYS KEY_COUNT = ''sv_transaction_count''"
| "ONBOARDING_STORAGE_KEYS KEY_QUICK_START = ''sv_quick_start''"

section \<open>The count of transactions\<close>

text \<open>Counts stay below the range of doubles.\<close>

definition getTransactionCount :: "web_storage \<Rightarrow> rat" where
  "getTransactionCount s = (case safeGetItem (ONBOARDING_STORAGE_KEYS KEY_COUNT) s of
     None \<Rightarrow> 0
   | Some raw \<Rightarrow> if raw = [] then 0 else (case js_parseInt raw of None \<Rightarrow> 0 | Some n \<Rightarrow> fl64 (of_int n)))"

definition setTransactionCount :: "(rat \<Rightarrow> string) \<Rightarrow> jsnum \<Rightarrow> web_storage \<Rightarrow> web_storage" where
  "setTransactionCount num_text c s =
     safeSetItem (ONBOARDING_STORAGE_KEYS KEY_COUNT)
       (num_text (case c of Fin q \<Rightarrow> of_int (max 0 \<lfloor>q\<rfloor>) | _ \<Rightarrow> 0)) s"

definition incrementTransactionCount :: "(rat \<Rightarrow> string) \<Rightarrow> rat \<Rightarrow> web_storage \<Rightarrow> rat \<times> web_storage" where
  "incrementTransactionCount num_text by' s =
     (let n = fl64 (getTransactionCount s + by') in (n, setTransactionCount num_text (Fin n) s))"

section \<open>The quick start\<close>

datatype quick_step = ConnectWallet | UploadCollateral | CreateEscrow | MonitorLoan

fun step_key :: "quick_step \<Rightarrow> string" where
  "step_key ConnectWallet = ''connectWallet''"
| "step_key UploadCollateral = ''uploadCollateral''"
| "step_key CreateEscrow = ''createEscrow''"
| "step_key MonitorLoan = ''monitorLoan''"

definition quick_steps :: "quick_step list" where
  "quick_steps = [ConnectWallet, UploadCollateral, CreateEscrow, MonitorLoan]"

definition DEFAULT_QUICK_START :: "(string \<times> json) list" where
  "DEFAULT_QUICK_START = map (\<lambda>q. (step_key q, JBool False)) quick_steps"

text \<open>Decimal digits, and the properties a value brings into an object literal by \<open>...v\<close>.\<close>

fun digits :: "nat \<Rightarrow> string" where
  "digits n = (if n < 10 then [char_of (n + 48)] else digits (n div 10) @ [char_of (n mod 10 + 48)])"

declare digits.simps [simp del]
declare ONBOARDING_STORAGE_KEYS.simps [simp del]

fun spread :: "json \<Rightarrow> (string \<times> json) list" where
  "spread (JObj kvs) = kvs"
| "spread (JArr xs) = map (\<lambda>(i, x). (digits i, x)) (List.enumerate 0 xs)"
| "spread (JStr s) = map (\<lambda>(i, c). (digits i, JStr [c])) (List.enumerate 0 s)"
| "spread _ = []"

text \<open>Setting a property keeps its place; a new one comes last.\<close>

definition put_prop :: "string \<times> json \<Rightarrow> (string \<times> json) list \<Rightarrow> (string \<times> json) list" where
  "put_prop kv kvs = (if fst kv \<in> fst ` set kvs then map (\<lambda>p. if fst p = fst kv then kv else p) kvs else kvs @ [kv])"

definition safeJsonParse :: "(string \<Rightarrow> json option) \<Rightarrow> string option \<Rightarrow> json option" where
  "safeJsonParse parse v = (case v of None \<Rightarrow> None | Some t \<Rightarrow> if t = [] then None else parse t)"

definition getQuickStartState :: "(string \<Rightarrow> json option) \<Rightarrow> web_storage \<Rightarrow> (string \<times> json) list" where
  "getQuickStartState parse s =
     fold put_prop (case safeJsonParse parse (safeGetItem (ONBOARDING_STORAGE_KEYS KEY_QUICK_START) s) of None \<Rightarrow> [] | Some j \<Rightarrow> spread j)
       DEFAULT_QUICK_START"

definition setQuickStartState ::
    "(string \<Rightarrow> json option) \<Rightarrow> (json \<Rightarrow> string) \<Rightarrow> (string \<times> json) list \<Rightarrow> web_storage \<Rightarrow> (string \<times> json) list \<times> web_storage" where
  "setQuickStartState parse text' patch s =
     (let n = fold put_prop patch (getQuickStartState parse s) in
      (n, safeSetItem (ONBOARDING_STORAGE_KEYS KEY_QUICK_START) (text' (JObj (enumeration n))) s))"

definition markQuickStartDone ::
    "(string \<Rightarrow> json option) \<Rightarrow> (json \<Rightarrow> string) \<Rightarrow> quick_step \<Rightarrow> web_storage \<Rightarrow> (string \<times> json) list \<times> web_storage" where
  "markQuickStartDone parse text' q = setQuickStartState parse text' [(step_key q, JBool True)]"

text \<open>What the card counts: a step is done when its property is truthy.\<close>

fun js_truthy :: "json \<Rightarrow> bool" where
  "js_truthy JNull = False"
| "js_truthy (JBool b) = b"
| "js_truthy (JNum x) = (x \<noteq> NaN \<and> x \<noteq> Fin 0)"
| "js_truthy (JStr s) = (s \<noteq> [])"
| "js_truthy _ = True"

definition step_done :: "(string \<times> json) list \<Rightarrow> quick_step \<Rightarrow> bool" where
  "step_done kvs q \<longleftrightarrow> (case map_of kvs (step_key q) of None \<Rightarrow> False | Some j \<Rightarrow> js_truthy j)"

definition completedCount :: "(string \<times> json) list \<Rightarrow> nat" where
  "completedCount state = length (filter (step_done state) quick_steps)"

section \<open>Dismissing\<close>

definition isOnboardingDismissed :: "web_storage \<Rightarrow> bool" where
  "isOnboardingDismissed s \<longleftrightarrow> safeGetItem (ONBOARDING_STORAGE_KEYS KEY_DISMISSED) s = Some ''1''"

definition setOnboardingDismissed :: "bool \<Rightarrow> web_storage \<Rightarrow> web_storage" where
  "setOnboardingDismissed v = safeSetItem (ONBOARDING_STORAGE_KEYS KEY_DISMISSED) (if v then ''1'' else ''0'')"

definition setOnboardingCompleted :: "bool \<Rightarrow> web_storage \<Rightarrow> web_storage" where
  "setOnboardingCompleted v = safeSetItem (ONBOARDING_STORAGE_KEYS KEY_COMPLETED) (if v then ''1'' else ''0'')"

definition resetOnboarding :: "web_storage \<Rightarrow> web_storage" where
  "resetOnboarding s =
     safeRemoveItem (ONBOARDING_STORAGE_KEYS KEY_QUICK_START)
       (safeRemoveItem (ONBOARDING_STORAGE_KEYS KEY_COMPLETED)
         (safeRemoveItem (ONBOARDING_STORAGE_KEYS KEY_DISMISSED) s))"

section \<open>The tour\<close>

definition tour_routes :: "string list" where
  "tour_routes = [''/dashboard'', ''/dashboard/collateral'', ''/dashboard/escrows'', ''/loans'']"

datatype tour_status = FINISHED | SKIPPED | OTHER_STATUS
datatype tour_type = TARGET_NOT_FOUND | STEP_AFTER | OTHER_TYPE
datatype tour_action = TOUR_NEXT | TOUR_PREV | OTHER_ACTION

text \<open>
  \<open>tour_starting\<close> holds while the timer of the automatic start is set; \<open>tour_pushed\<close> is
  the pages the provider asked the router for, the last first.
\<close>

record tour =
  tour_path :: string
  tour_run :: bool
  tour_index :: nat
  tour_pending :: "nat option"
  tour_autoStarted :: bool
  tour_starting :: bool
  tour_pushed :: "string list"
  tour_storage :: web_storage

definition goToStep :: "int \<Rightarrow> tour \<Rightarrow> bool \<times> tour" where
  "goToStep nextIndex t =
     (if nextIndex < 0 \<or> int (length tour_routes) \<le> nextIndex then (False, t)
      else let i = nat nextIndex; nextRoute = tour_routes ! i in
        if nextRoute \<noteq> tour_path t
        then (False, t\<lparr>tour_run := False, tour_pending := Some i, tour_pushed := nextRoute # tour_pushed t\<rparr>)
        else (True, t\<lparr>tour_index := i\<rparr>))"

definition stopTour :: "tour \<Rightarrow> tour" where
  "stopTour t = t\<lparr>tour_run := False, tour_pending := None, tour_index := 0\<rparr>"

definition startTour :: "tour \<Rightarrow> tour" where
  "startTour t = (case goToStep 0 t of (isReady, t') \<Rightarrow> if isReady then t'\<lparr>tour_run := True\<rparr> else t')"

definition restartTour :: "tour \<Rightarrow> tour" where
  "restartTour t = startTour (t\<lparr>tour_storage := resetOnboarding (tour_storage t)\<rparr>)"

definition handleJoyrideEvent :: "tour_action \<Rightarrow> nat \<Rightarrow> tour_status \<Rightarrow> tour_type \<Rightarrow> tour \<Rightarrow> tour" where
  "handleJoyrideEvent action index status ty t =
     (if status = FINISHED
      then stopTour (t\<lparr>tour_storage := setOnboardingCompleted True (setOnboardingDismissed True (tour_storage t))\<rparr>)
      else if status = SKIPPED then stopTour (t\<lparr>tour_storage := setOnboardingDismissed True (tour_storage t)\<rparr>)
      else if ty = TARGET_NOT_FOUND then snd (goToStep (int index + 1) t)
      else if ty \<noteq> STEP_AFTER then t
      else (case action of
          TOUR_NEXT \<Rightarrow> snd (goToStep (int index + 1) t)
        | TOUR_PREV \<Rightarrow> snd (goToStep (int index - 1) t)
        | OTHER_ACTION \<Rightarrow> t))"

text \<open>
  The effects: the one that continues on the page a step waits for, whose timer is set as
  long as that is the page, and the one that starts the tour on the dashboard.
\<close>

definition continue_tour :: "tour \<Rightarrow> tour" where
  "continue_tour t = (case tour_pending t of
     None \<Rightarrow> t
   | Some i \<Rightarrow> if tour_routes ! i \<noteq> tour_path t then t
       else t\<lparr>tour_index := i, tour_pending := None, tour_run := True\<rparr>)"

definition auto_start :: "tour \<Rightarrow> tour" where
  "auto_start t =
     (if tour_autoStarted t \<or> tour_path t \<noteq> tour_routes ! 0 \<or> getTransactionCount (tour_storage t) \<noteq> 0
         \<or> isOnboardingDismissed (tour_storage t) then t
      else t\<lparr>tour_autoStarted := True, tour_starting := True\<rparr>)"

definition tour_mount :: "string \<Rightarrow> web_storage \<Rightarrow> tour" where
  "tour_mount path s = auto_start \<lparr>tour_path = path, tour_run = False, tour_index = 0, tour_pending = None,
     tour_autoStarted = False, tour_starting = False, tour_pushed = [], tour_storage = s\<rparr>"

definition tour_visit :: "string \<Rightarrow> tour \<Rightarrow> tour" where
  "tour_visit path t = (if path = tour_path t then t else auto_start (t\<lparr>tour_path := path, tour_starting := False\<rparr>))"

definition showLauncher :: "string \<Rightarrow> bool" where
  "showLauncher pathname \<longleftrightarrow> starts_with ''/dashboard'' pathname \<or> starts_with ''/loans'' pathname"

text \<open>\<open>Stored\<close> is what the rest of the application does to the storage.\<close>

datatype tour_event = Visit string | Pending_Timer | Start_Timer | Launcher_Click | Card_Click | Joyride tour_action nat tour_status tour_type
  | Stored web_storage

fun tour_step :: "tour_event \<Rightarrow> tour \<Rightarrow> tour" where
  "tour_step (Visit p) t = tour_visit p t"
| "tour_step Pending_Timer t = continue_tour t"
| "tour_step Start_Timer t = (if tour_starting t then startTour (t\<lparr>tour_starting := False\<rparr>) else t)"
| "tour_step Launcher_Click t = (if showLauncher (tour_path t) then restartTour t else t)"
| "tour_step Card_Click t = restartTour t"
| "tour_step (Joyride a i st ty) t = handleJoyrideEvent a i st ty t"
| "tour_step (Stored s) t = t\<lparr>tour_storage := s\<rparr>"

section \<open>What is kept\<close>

text \<open>
  What the storage stands for: the steps marked since the last reset and the number of
  transactions.
\<close>

record progress =
  pg_done :: "quick_step set"
  pg_count :: nat

datatype progress_event = Mark quick_step | Transacted | Reset_Tour | Dismiss | Complete

fun do_progress :: "(rat \<Rightarrow> string) \<Rightarrow> (string \<Rightarrow> json option) \<Rightarrow> (json \<Rightarrow> string) \<Rightarrow> progress_event \<Rightarrow> web_storage \<Rightarrow> web_storage" where
  "do_progress N P J (Mark q) s = snd (markQuickStartDone P J q s)"
| "do_progress N P J Transacted s = snd (incrementTransactionCount N 1 s)"
| "do_progress N P J Reset_Tour s = resetOnboarding s"
| "do_progress N P J Dismiss s = setOnboardingDismissed True s"
| "do_progress N P J Complete s = setOnboardingCompleted True s"

fun progress_spec :: "progress_event \<Rightarrow> progress \<Rightarrow> progress" where
  "progress_spec (Mark q) p = p\<lparr>pg_done := insert q (pg_done p)\<rparr>"
| "progress_spec Transacted p = p\<lparr>pg_count := Suc (pg_count p)\<rparr>"
| "progress_spec Reset_Tour p = p\<lparr>pg_done := {}\<rparr>"
| "progress_spec Dismiss p = p"
| "progress_spec Complete p = p"

definition flags :: "quick_step set \<Rightarrow> (string \<times> json) list" where
  "flags d = map (\<lambda>q. (step_key q, JBool (q \<in> d))) quick_steps"

text \<open>
  What JavaScript documents of the texts: an integer below a trillion is written with its
  decimal digits, and the object of the four marks is read as it was written.
\<close>

definition text_laws :: "(rat \<Rightarrow> string) \<Rightarrow> (string \<Rightarrow> json option) \<Rightarrow> (json \<Rightarrow> string) \<Rightarrow> bool" where
  "text_laws N P J \<longleftrightarrow> (\<forall>n < 10 ^ 12. N (of_nat n) = digits n)
     \<and> (\<forall>d. J (JObj (flags d)) \<noteq> [] \<and> P (J (JObj (flags d))) = Some (JObj (flags d)))"

definition stands_for :: "(string \<Rightarrow> json option) \<Rightarrow> web_storage \<Rightarrow> progress \<Rightarrow> bool" where
  "stands_for P s p \<longleftrightarrow> readable s \<and> writable s \<and> getQuickStartState P s = flags (pg_done p) \<and> getTransactionCount s = of_nat (pg_count p)"

lemma step_key_inject [simp]: "step_key p = step_key q \<longleftrightarrow> p = q"
  by (cases p; cases q) simp_all

lemma flags_put [simp]: "put_prop (step_key q, JBool True) (flags d) = flags (insert q d)"
  by (cases q) (auto simp: put_prop_def flags_def quick_steps_def)

lemma flags_over: "fold put_prop (flags d) DEFAULT_QUICK_START = flags d"
  by (simp add: put_prop_def flags_def quick_steps_def DEFAULT_QUICK_START_def)

lemma flags_none: "DEFAULT_QUICK_START = flags {}"
  by (simp add: flags_def DEFAULT_QUICK_START_def)

lemma enumeration_flags [simp]: "enumeration (flags d) = flags d"
  by (simp add: enumeration_def flags_def quick_steps_def is_index_def)

lemma storage_keys [simp]: "ONBOARDING_STORAGE_KEYS a = ONBOARDING_STORAGE_KEYS b \<longleftrightarrow> a = b"
  by (cases a; cases b) (simp_all add: ONBOARDING_STORAGE_KEYS.simps)

lemma digits_digit: "list_all js_digit (digits n)"
proof (induction n rule: digits.induct)
  case (1 n)
  have d: "js_digit (char_of (m + 48))" if "m < 10" for m :: nat using that by (simp add: js_digit_def)
  show ?case using 1 d [of n] d [of "n mod 10"] by (subst digits.simps) auto
qed

lemma decimal_value_snoc: "decimal_value (s @ [c]) = 10 * decimal_value s + digit_of c"
  by (simp add: decimal_value_def)

lemma decimal_digits: "decimal_value (digits n) = n"
proof (induction n rule: digits.induct)
  case (1 n)
  show ?case
  proof (cases "n < 10")
    case True
    then show ?thesis by (subst digits.simps) (simp add: decimal_value_def digit_of_def)
  next
    case False
    then have "digits n = digits (n div 10) @ [char_of (n mod 10 + 48)]" by (subst digits.simps) simp
    then show ?thesis using 1 [OF False] by (simp add: decimal_value_snoc digit_of_def)
  qed
qed

lemma digits_nonempty [simp]: "digits n \<noteq> []"
  by (subst digits.simps) simp

lemma parse_digits: "js_parseInt (digits n) = Some (int n)"
proof -
  have l: "list_all js_digit (digits n)" by (rule digits_digit)
  have n: "js_digit c \<Longrightarrow> \<not> js_space c \<and> c \<noteq> CHR ''-'' \<and> c \<noteq> CHR ''+''" for c by (auto simp: js_digit_def js_space_def)
  obtain c r where c: "digits n = c # r" by (cases "digits n") auto
  then have r: "takeWhile js_digit r = r" using l by (simp add: takeWhile_eq_all_conv list_all_iff)
  show ?thesis using c l n [of c] decimal_digits [of n] by (simp add: js_parseInt_def Let_def r)
qed

lemma set_count:
  assumes "text_laws N P J" "n < 10 ^ 12" "readable s" "writable s"
  shows "getTransactionCount (setTransactionCount N (Fin (of_nat n)) s) = of_nat n"
proof -
  have m: "max 0 \<lfloor>of_nat n :: rat\<rfloor> = int n" by simp
  have "N (rat_of_int (max 0 \<lfloor>of_nat n :: rat\<rfloor>)) = digits n" using assms(1,2) by (simp add: text_laws_def)
  moreover have "fl64 (of_int (int n)) = of_nat n" using js.fl_int [of "int n"] assms(2) by simp
  ultimately show ?thesis
    using assms(3,4) by (simp add: getTransactionCount_def setTransactionCount_def safeGetItem_def safeSetItem_def parse_digits)
qed

lemma stands_for_other:
  assumes "stands_for P s p" and "readable s' = readable s" "writable s' = writable s"
    and "items s' (ONBOARDING_STORAGE_KEYS KEY_QUICK_START) = items s (ONBOARDING_STORAGE_KEYS KEY_QUICK_START)"
    and "items s' (ONBOARDING_STORAGE_KEYS KEY_COUNT) = items s (ONBOARDING_STORAGE_KEYS KEY_COUNT)"
  shows "stands_for P s' p"
  using assms by (auto simp: stands_for_def getQuickStartState_def getTransactionCount_def safeGetItem_def)

lemma stands_for_quick:
  assumes "stands_for P s p" and "readable s' = readable s" "writable s' = writable s" "getQuickStartState P s' = flags d"
    and "items s' (ONBOARDING_STORAGE_KEYS KEY_COUNT) = items s (ONBOARDING_STORAGE_KEYS KEY_COUNT)"
  shows "stands_for P s' (p\<lparr>pg_done := d\<rparr>)"
  using assms by (auto simp: stands_for_def getTransactionCount_def safeGetItem_def)

lemma progress_step:
  assumes L: "text_laws N P J" and st: "stands_for P s p" and c: "pg_count p + 1 < 10 ^ 12"
  shows "stands_for P (do_progress N P J e s) (progress_spec e p)"
proof (cases e)
  case (Mark q)
  let ?d = "insert q (pg_done p)"
  let ?s = "safeSetItem (ONBOARDING_STORAGE_KEYS KEY_QUICK_START) (J (JObj (flags ?d))) s"
  have "do_progress N P J e s = ?s" using st Mark by (simp add: markQuickStartDone_def setQuickStartState_def stands_for_def Let_def)
  moreover have "getQuickStartState P ?s = flags ?d"
    using st L by (simp add: getQuickStartState_def safeGetItem_def safeSetItem_def safeJsonParse_def stands_for_def text_laws_def flags_over)
  ultimately show ?thesis
    using Mark stands_for_quick [OF st, of ?s ?d] st
    by (simp add: safeSetItem_def stands_for_def)
next
  case Transacted
  have i: "fl64 (rat_of_nat (pg_count p) + 1) = of_nat (Suc (pg_count p))"
    using js.fl_int [of "int (pg_count p) + 1"] c by (simp add: add.commute)
  let ?s = "setTransactionCount N (Fin (of_nat (Suc (pg_count p)))) s"
  have "do_progress N P J e s = ?s" using st Transacted i by (simp add: incrementTransactionCount_def stands_for_def Let_def)
  moreover have "getTransactionCount ?s = of_nat (Suc (pg_count p))" using set_count [OF L, of "Suc (pg_count p)" s] st c by (simp add: stands_for_def)
  moreover have "readable ?s = readable s" "writable ?s = writable s" "getQuickStartState P ?s = getQuickStartState P s"
    by (simp_all add: setTransactionCount_def safeSetItem_def getQuickStartState_def safeGetItem_def)
  ultimately show ?thesis using st Transacted by (simp add: stands_for_def)
next
  case Reset_Tour
  have "getQuickStartState P (resetOnboarding s) = flags {}"
    using st by (simp add: getQuickStartState_def resetOnboarding_def safeGetItem_def safeRemoveItem_def safeJsonParse_def stands_for_def flags_none)
  moreover have "items (resetOnboarding s) (ONBOARDING_STORAGE_KEYS KEY_COUNT) = items s (ONBOARDING_STORAGE_KEYS KEY_COUNT)"
    "readable (resetOnboarding s) = readable s" "writable (resetOnboarding s) = writable s"
    by (simp_all add: resetOnboarding_def safeRemoveItem_def)
  ultimately show ?thesis using Reset_Tour stands_for_quick [OF st, of "resetOnboarding s" "{}"] by simp
next
  case Dismiss
  then show ?thesis using stands_for_other [OF st, of "setOnboardingDismissed True s"]
    by (simp add: setOnboardingDismissed_def safeSetItem_def)
next
  case Complete
  then show ?thesis using stands_for_other [OF st, of "setOnboardingCompleted True s"]
    by (simp add: setOnboardingCompleted_def safeSetItem_def)
qed

lemma done_flags: "step_done (flags d) q \<longleftrightarrow> q \<in> d"
  by (cases q) (simp_all add: step_done_def flags_def quick_steps_def)

lemma completed_flags: "completedCount (flags d) = card d"
proof -
  have "set quick_steps = UNIV" "distinct quick_steps"
    using quick_step.exhaust by (auto simp: quick_steps_def)
  then have "card d = card (set (filter (\<lambda>q. q \<in> d) quick_steps))" by simp
  also have "\<dots> = length (filter (\<lambda>q. q \<in> d) quick_steps)" using distinct_card [of "filter (\<lambda>q. q \<in> d) quick_steps"] \<open>distinct quick_steps\<close> by simp
  finally show ?thesis by (simp add: completedCount_def done_flags [abs_def])
qed

text \<open>
  The storage of the onboarding implements a set and a counter: after any sequence of
  marks, transactions, resets and dismissals (below a trillion transactions) of a browser
  that keeps what is stored, the card shows as done exactly the steps marked since the last
  reset, counts as many, and the number of transactions is the number of times one was
  counted, which no reset clears.
\<close>

theorem onboarding_refines_progress:
  assumes "text_laws N P J" and "readable s" "writable s" and "items s = Map.empty" and "length es < 10 ^ 12"
  defines "s' \<equiv> fold (do_progress N P J) es s" and "p \<equiv> fold progress_spec es \<lparr>pg_done = {}, pg_count = 0\<rparr>"
  shows "(\<forall>q. step_done (getQuickStartState P s') q \<longleftrightarrow> q \<in> pg_done p)
    \<and> completedCount (getQuickStartState P s') = card (pg_done p) \<and> getTransactionCount s' = of_nat (pg_count p)"
proof -
  have start: "stands_for P s \<lparr>pg_done = {}, pg_count = 0\<rparr>"
    using assms(2-4) by (simp add: stands_for_def getQuickStartState_def getTransactionCount_def safeGetItem_def safeJsonParse_def flags_none)
  have count: "pg_count (progress_spec e q) \<le> pg_count q + 1" for e q by (cases e) simp_all
  have "stands_for P (fold (do_progress N P J) xs s0) (fold progress_spec xs p0)"
    if "stands_for P s0 p0" "pg_count p0 + length xs < 10 ^ 12" for s0 p0 xs
    using that
  proof (induction xs arbitrary: s0 p0)
    case (Cons e xs)
    show ?case using Cons.IH [OF progress_step [OF assms(1) Cons.prems(1)]] Cons.prems(2) count [of e p0] by simp
  qed simp
  from this [OF start] have "stands_for P s' p" using assms(5) by (simp add: s'_def p_def)
  then show ?thesis by (simp add: stands_for_def done_flags completed_flags)
qed

definition demo_storage :: web_storage where
  "demo_storage = \<lparr>items = Map.empty, readable = True, writable = True\<rparr>"

text \<open>Texts of the four marks, one letter each.\<close>

definition demo_marks :: "json \<Rightarrow> string" where
  "demo_marks j = map (\<lambda>q. if step_done (spread j) q then CHR ''y'' else CHR ''n'') quick_steps"

definition demo_number :: "rat \<Rightarrow> string" where
  "demo_number q = digits (nat \<lfloor>q\<rfloor>)"

definition demo_read :: "string \<Rightarrow> json option" where
  "demo_read t = Some (JObj (map (\<lambda>(q, c). (step_key q, JBool (c = CHR ''y''))) (zip quick_steps t)))"

lemma demo_text_laws: "text_laws demo_number demo_read demo_marks"
proof -
  have m: "demo_marks (JObj (flags d)) = map (\<lambda>q. if q \<in> d then CHR ''y'' else CHR ''n'') quick_steps" for d
    by (simp add: demo_marks_def done_flags)
  have "demo_marks (JObj (flags d)) \<noteq> []" "demo_read (demo_marks (JObj (flags d))) = Some (JObj (flags d))" for d
    unfolding m by (simp_all add: demo_read_def quick_steps_def flags_def)
  then show ?thesis by (simp add: text_laws_def demo_number_def)
qed

theorem onboarding_refines_progress_witness:
  "getTransactionCount (fold (do_progress demo_number demo_read demo_marks)
     [Mark ConnectWallet, Transacted, Reset_Tour, Mark MonitorLoan, Transacted] demo_storage) = 2"
  using onboarding_refines_progress [OF demo_text_laws, of demo_storage "[Mark ConnectWallet, Transacted, Reset_Tour, Mark MonitorLoan, Transacted]"]
  by (simp add: demo_storage_def)

section \<open>The tour never runs\<close>

text \<open>The paths the browser can show a page at: the proxy redirects all others.\<close>

definition served_page :: "tokens \<Rightarrow> string \<Rightarrow> bool" where
  "served_page T p \<longleftrightarrow> (\<exists>req. pr_path req = p \<and> ps_kind (proxy T req) \<noteq> REDIRECT)"

lemma route_paths:
  assumes "p \<in> set tour_routes"
  shows "find (in_locale p) locales = None"
    and "\<not> starts_with ''/_next'' p" "\<not> starts_with ''/api'' p" "CHR ''.'' \<notin> set p" "p \<noteq> ''/favicon.ico''"
proof -
  from assms consider "p = ''/dashboard''" | "p = ''/dashboard/collateral''" | "p = ''/dashboard/escrows''" | "p = ''/loans''"
    by (auto simp: tour_routes_def)
  then show "find (in_locale p) locales = None"
    and "\<not> starts_with ''/_next'' p" "\<not> starts_with ''/api'' p" "CHR ''.'' \<notin> set p" "p \<noteq> ''/favicon.ico''"
    by (cases; simp add: locales_def in_locale_def starts_with_def)+
qed

lemma route_redirected: "p \<in> set tour_routes \<Longrightarrow> \<not> served_page T p"
proof -
  assume p: "p \<in> set tour_routes"
  have "ps_kind (localized req) = REDIRECT" if "pr_path req = p" for req
    using that route_paths [OF p] by (simp add: localized_def Let_def)
  then show ?thesis by (simp add: served_page_def proxy_def redirect_to_def Let_def split: prod.split)
qed

definition tour_idle :: "tour \<Rightarrow> bool" where
  "tour_idle t \<longleftrightarrow> \<not> tour_run t \<and> \<not> tour_autoStarted t \<and> \<not> tour_starting t \<and> tour_path t \<notin> set tour_routes
     \<and> (case tour_pending t of None \<Rightarrow> True | Some i \<Rightarrow> i < length tour_routes)"

lemma idle_goto:
  assumes "tour_idle t"
  shows "\<not> fst (goToStep i t)" and "tour_idle (snd (goToStep i t))"
proof -
  have "tour_routes ! nat i \<noteq> tour_path t" if "0 \<le> i" "i < int (length tour_routes)"
  proof -
    have "tour_routes ! nat i \<in> set tour_routes" using that by (intro nth_mem) simp
    then show ?thesis using assms unfolding tour_idle_def by metis
  qed
  then show "\<not> fst (goToStep i t)" "tour_idle (snd (goToStep i t))"
    using assms by (auto simp: goToStep_def tour_idle_def Let_def)
qed

lemma idle_start: "tour_idle t \<Longrightarrow> tour_idle (startTour t)"
  using idle_goto [of t 0] by (auto simp: startTour_def split: prod.split)

lemma idle_storage: "tour_idle (t\<lparr>tour_storage := s\<rparr>) \<longleftrightarrow> tour_idle t"
  by (simp add: tour_idle_def)

lemma idle_auto: "tour_idle t \<Longrightarrow> tour_idle (auto_start t)"
  by (auto simp: tour_idle_def auto_start_def tour_routes_def)

lemma idle_step:
  assumes "tour_idle t" and "\<And>p. e = Visit p \<Longrightarrow> p \<notin> set tour_routes"
  shows "tour_idle (tour_step e t)"
proof (cases e)
  case (Visit p)
  then have "tour_idle (t\<lparr>tour_path := p, tour_starting := False\<rparr>)" using assms by (simp add: tour_idle_def)
  then show ?thesis using Visit assms(1) by (simp add: tour_visit_def idle_auto)
next
  case Pending_Timer
  have "tour_routes ! i \<noteq> tour_path t" if "tour_pending t = Some i" for i
  proof -
    have "tour_routes ! i \<in> set tour_routes" using assms(1) that by (intro nth_mem) (simp add: tour_idle_def)
    then show ?thesis using assms(1) unfolding tour_idle_def by metis
  qed
  then show ?thesis using Pending_Timer assms(1) by (auto simp: continue_tour_def split: option.split)
next
  case (Joyride a i st ty)
  have "tour_idle (stopTour (t\<lparr>tour_storage := s\<rparr>))" for s using assms(1) by (simp add: stopTour_def tour_idle_def)
  then show ?thesis using Joyride assms(1) by (simp add: handleJoyrideEvent_def idle_goto split: tour_action.split)
qed (use assms(1) in \<open>simp_all add: restartTour_def idle_start idle_storage tour_idle_def [of t]\<close>)

text \<open>
  The guided tour never runs behind the proxy: every page is shown at a path with a
  locale, while the steps of the tour wait for \<open>/dashboard\<close>, \<open>/loans\<close> and the like. So
  whatever pages a visitor opens, buttons he presses and timers fire, no step is shown, also
  after the button that restarts it, and the tour does not start by itself.
\<close>

theorem tour_never_runs:
  assumes "served_page T p" and "\<forall>q. Visit q \<in> set es \<longrightarrow> served_page T q"
  shows "\<not> tour_run (fold tour_step es (tour_mount p s)) \<and> \<not> tour_autoStarted (fold tour_step es (tour_mount p s))"
proof -
  have "tour_idle (tour_mount p s)"
    unfolding tour_mount_def using assms(1) route_redirected [of p T] by (intro idle_auto) (auto simp: tour_idle_def)
  then have "tour_idle (fold tour_step es (tour_mount p s))"
    using assms(2)
  proof (induction es arbitrary: p s rule: rev_induct)
    case (snoc e es)
    then show ?case using idle_step [of "fold tour_step es (tour_mount p s)" e] route_redirected [of _ T] by auto
  qed simp
  then show ?thesis by (simp add: tour_idle_def)
qed

lemma demo_served: "served_page demo_tokens ''/en/loans''"
proof -
  let ?q = "demo_page ''/en/loans'' None"
  have "ps_kind (localized ?q) = REWRITE"
    by (rule localized_with_locale [of "''en''"]) (simp_all add: demo_page_def in_locale_def starts_with_def locales_def)
  moreover have "\<not> is_route ''dashboard'' (pr_path ?q)" "\<not> is_route ''login'' (pr_path ?q)" "pr_path ?q = ''/en/loans''"
    by (simp_all add: demo_page_def is_route_def route_tail_def starts_with_def)
  ultimately have "ps_kind (proxy demo_tokens ?q) \<noteq> REDIRECT" by (simp add: proxy_def Let_def split: prod.split)
  then show ?thesis using \<open>pr_path ?q = ''/en/loans''\<close> unfolding served_page_def by blast
qed

theorem tour_never_runs_witness:
  "\<not> tour_run (fold tour_step [Card_Click, Visit ''/en/loans'', Pending_Timer] (tour_mount ''/en/loans'' demo_storage))"
  using tour_never_runs [OF demo_served, of "[Card_Click, Visit ''/en/loans'', Pending_Timer]" demo_storage] demo_served by simp

text \<open>At the paths it waits for it would: a new visitor on the dashboard, and the step on the next page.\<close>

lemma tour_would_run:
  "let t = tour_step Start_Timer (tour_mount ''/dashboard'' demo_storage);
       u = fold tour_step [Joyride TOUR_NEXT 0 OTHER_STATUS STEP_AFTER, Visit ''/dashboard/collateral'', Pending_Timer] t
   in tour_run t \<and> tour_index t = 0 \<and> tour_run u \<and> tour_index u = 1"
  by (simp add: tour_mount_def auto_start_def tour_routes_def demo_storage_def getTransactionCount_def safeGetItem_def isOnboardingDismissed_def
      startTour_def goToStep_def handleJoyrideEvent_def tour_visit_def continue_tour_def Let_def)

text \<open>When the place of the last step is missing, the tour is left running on it.\<close>

lemma last_step_missing: "handleJoyrideEvent a 3 OTHER_STATUS TARGET_NOT_FOUND t = t"
  by (simp add: handleJoyrideEvent_def goToStep_def tour_routes_def)

end
