(* ===== verification/Wallet_View.thy ===== *)
theory Wallet_View
  imports Web_Auth Onboarding
begin

text \<open>
  The wallet in the browser: the hook \<open>frontend/src/hooks/useWalletAuth.ts\<close>, the button that
  connects and logs in (\<open>components/auth/ConnectButton.tsx\<close>) and the login page
  (\<open>app/login/LoginContent.tsx\<close>), over the login routes (\<open>Web_Auth\<close>) and the proxy
  (\<open>Proxy_Guard\<close>). The Freighter extension and the network are parameters: a call returns
  or throws.
\<close>

section \<open>The hook\<close>

datatype 'a js_call = Returns 'a | Throws string

datatype wallet_type = FREIGHTER | WALLETCONNECT

text \<open>The answers of the extension: whether the page is allowed, and the address with an error.\<close>

record freighter =
  ask_allowed :: "bool js_call" \<comment> \<open>\<open>isAllowed\<close> or \<open>setAllowed\<close>\<close>
  ask_address :: "(string \<times> bool) js_call" \<comment> \<open>\<open>getAddress\<close>: the address, and whether there is an error\<close>

record wallet_auth =
  wa_connected :: bool
  wa_connecting :: bool
  wa_checking :: bool
  wa_publicKey :: "string option"
  wa_walletType :: "wallet_type option"
  wa_error :: "string option"

definition wallet_start :: wallet_auth where
  "wallet_start = \<lparr>wa_connected = False, wa_connecting = False, wa_checking = True, wa_publicKey = None, wa_walletType = None, wa_error = None\<rparr>"

definition connected_as :: "string \<Rightarrow> wallet_auth \<Rightarrow> wallet_auth" where
  "connected_as address w = w\<lparr>wa_publicKey := Some address, wa_walletType := Some FREIGHTER, wa_connected := True\<rparr>"

text \<open>Both return also whether the step of the onboarding is marked.\<close>

definition restoreSession :: "freighter \<Rightarrow> wallet_auth \<Rightarrow> bool \<times> wallet_auth" where
  "restoreSession F w =
     (let (marked, w') = (case ask_allowed F of
          Returns True \<Rightarrow> (case ask_address F of
              Returns (address, addrErr) \<Rightarrow> if address \<noteq> [] \<and> \<not> addrErr then (True, connected_as address w) else (False, w)
            | Throws _ \<Rightarrow> (False, w))
        | _ \<Rightarrow> (False, w))
      in (marked, w'\<lparr>wa_checking := False\<rparr>))"

definition connect_refused :: "string \<Rightarrow> string" where
  "connect_refused msg =
     (if contains_text ''freighter'' (js_lower msg) \<or> contains_text ''extension'' (js_lower msg)
      then ''Freighter extension not found. Please install it first.''
      else ''Failed to connect wallet. Please try again.'')"

definition connect_begin :: "wallet_auth \<Rightarrow> wallet_auth" where
  "connect_begin w = w\<lparr>wa_connecting := True, wa_error := None\<rparr>"

definition connect_end :: "wallet_type \<Rightarrow> freighter \<Rightarrow> wallet_auth \<Rightarrow> string option \<times> wallet_auth" where
  "connect_end ty F w =
     (let fail = (\<lambda>msg. (None, w\<lparr>wa_error := Some msg\<rparr>));
          (address, w') =
            (if ty \<noteq> FREIGHTER then fail ''WalletConnect is coming soon.''
             else (case ask_allowed F of
                 Throws msg \<Rightarrow> fail (connect_refused msg)
               | Returns False \<Rightarrow> fail ''Connection refused. Please approve the request in Freighter.''
               | Returns True \<Rightarrow> (case ask_address F of
                     Throws msg \<Rightarrow> fail (connect_refused msg)
                   | Returns (address, addrErr) \<Rightarrow>
                       if addrErr \<or> address = [] then fail ''Could not retrieve wallet address. Is Freighter unlocked?''
                       else (Some address, connected_as address w))))
      in (address, w'\<lparr>wa_connecting := False\<rparr>))"

text \<open>
  Signing gives the signature in base64 and, if the extension tells it, who signed; the
  network fails at a call with a message. A login as \<open>pk\<close> returns what it shows as an
  error, or nothing when it goes on to the dashboard.
\<close>

datatype signing = Signed string "string option" | Sign_Refused | Sign_Threw string

datatype login_call = CALL_CHALLENGE | CALL_VERIFY

definition verify_body :: "string \<Rightarrow> string \<Rightarrow> string option \<Rightarrow> json" where
  "verify_body pk signedMessage signer = JObj ([(''publicKey'', JStr pk), (''signedMessage'', JStr signedMessage)]
     @ (case signer of None \<Rightarrow> [] | Some a \<Rightarrow> [(''signerPublicKey'', JStr a)]))"

definition login_requests ::
    "web_env \<Rightarrow> tokens \<Rightarrow> (login_call \<Rightarrow> string option) \<Rightarrow> string \<Rightarrow> (string \<Rightarrow> string \<Rightarrow> signing) \<Rightarrow> string \<Rightarrow> jar \<Rightarrow> (string + unit) \<times> jar" where
  "login_requests W T down nonce sign pk c = (case down CALL_CHALLENGE of
     Some msg \<Rightarrow> (Inl msg, c)
   | None \<Rightarrow> (case web_challenge W nonce (Some (JObj [(''publicKey'', JStr pk)])) c of
       (Web_Error _ msg, c1) \<Rightarrow> (Inl msg, c1)
     | (Web_OK n, c1) \<Rightarrow> (case sign (the n) pk of
           Sign_Threw msg \<Rightarrow> (Inl msg, c1)
         | Sign_Refused \<Rightarrow> (Inl ''Signing was rejected or failed. Please try again.'', c1)
         | Signed signedMessage signer \<Rightarrow> (case down CALL_VERIFY of
               Some msg \<Rightarrow> (Inl msg, c1)
             | None \<Rightarrow> (case web_verify W T (Some (verify_body pk signedMessage signer)) c1 of
                   (Web_Error _ msg, c2) \<Rightarrow> (Inl msg, c2)
                 | (Web_OK _, c2) \<Rightarrow> (Inr (), c2))))))"

text \<open>The key is the one given, or the connected one at the time of the call.\<close>

definition login_key :: "string option \<Rightarrow> wallet_auth \<Rightarrow> string option" where
  "login_key key w = (case key of Some k \<Rightarrow> Some k | None \<Rightarrow> wa_publicKey w)"

definition login_begin :: "string option \<Rightarrow> wallet_auth \<Rightarrow> wallet_auth" where
  "login_begin key w = (if login_key key w \<in> {None, Some []} then w\<lparr>wa_error := Some ''No wallet connected.''\<rparr>
     else w\<lparr>wa_connecting := True, wa_error := None\<rparr>)"

definition login_end :: "string + unit \<Rightarrow> wallet_auth \<Rightarrow> wallet_auth" where
  "login_end r w = (case r of Inl msg \<Rightarrow> w\<lparr>wa_error := Some msg, wa_connecting := False\<rparr> | Inr _ \<Rightarrow> w\<lparr>wa_connecting := False\<rparr>)"

text \<open>\<open>logout\<close>: the request is made as well as it can; the page to go to is the login.\<close>

definition logout_local :: "wallet_auth \<Rightarrow> wallet_auth" where
  "logout_local w = w\<lparr>wa_connected := False, wa_publicKey := None, wa_walletType := None\<rparr>"

definition logout :: "web_env \<Rightarrow> bool \<Rightarrow> string option \<Rightarrow> string option \<Rightarrow> wallet_auth \<times> jar \<Rightarrow> string \<times> wallet_auth \<times> jar" where
  "logout W reached origin host wc =
     (''/login'', logout_local (fst wc), if reached then snd (web_logout W origin host (snd wc)) else snd wc)"

definition silentRefresh :: "tokens \<Rightarrow> bool \<Rightarrow> jar \<Rightarrow> bool \<times> jar" where
  "silentRefresh T reached c = (if \<not> reached then (False, c) else (case web_refresh T c of
     (Web_OK _, c') \<Rightarrow> (True, c') | (Web_Error _ _, c') \<Rightarrow> (False, c')))"

text \<open>\<open>handleConnect\<close> of the button: the wallet, the cookies, and whether the dashboard is opened.\<close>

definition handleConnect ::
    "web_env \<Rightarrow> tokens \<Rightarrow> (login_call \<Rightarrow> string option) \<Rightarrow> string \<Rightarrow> (string \<Rightarrow> string \<Rightarrow> signing) \<Rightarrow> wallet_type \<Rightarrow> freighter
     \<Rightarrow> wallet_auth \<times> jar \<Rightarrow> bool \<times> wallet_auth \<times> jar" where
  "handleConnect W T down nonce sign ty F wc =
     (case connect_end ty F (connect_begin (fst wc)) of
        (None, w) \<Rightarrow> (False, w, snd wc)
      | (Some key, w) \<Rightarrow> if key = [] then (False, w, snd wc) else
          (case login_requests W T down nonce sign key (snd wc) of
             (r, c) \<Rightarrow> (r = Inr (), login_end r (login_begin (Some key) w), c)))"

section \<open>The states of the hook\<close>

datatype wallet_event = Restored freighter | Connect_Begin | Connect_End wallet_type freighter | Login_Begin "string option"
  | Login_End "string + unit" | Logged_Out | Clear_Error

fun wallet_step :: "wallet_event \<Rightarrow> wallet_auth \<Rightarrow> wallet_auth" where
  "wallet_step (Restored F) w = snd (restoreSession F w)"
| "wallet_step Connect_Begin w = connect_begin w"
| "wallet_step (Connect_End ty F) w = snd (connect_end ty F w)"
| "wallet_step (Login_Begin key) w = login_begin key w"
| "wallet_step (Login_End r) w = login_end r w"
| "wallet_step Logged_Out w = logout_local w"
| "wallet_step Clear_Error w = w\<lparr>wa_error := None\<rparr>"

definition wallet_ok :: "wallet_auth \<Rightarrow> bool" where
  "wallet_ok w \<longleftrightarrow> (if wa_connected w then (\<exists>k. k \<noteq> [] \<and> wa_publicKey w = Some k) \<and> wa_walletType w = Some FREIGHTER
     else wa_publicKey w = None \<and> wa_walletType w = None)"

lemma wallet_ok_step: "wallet_ok w \<Longrightarrow> wallet_ok (wallet_step e w)"
  by (cases e) (auto simp: wallet_ok_def restoreSession_def connect_begin_def connect_end_def login_begin_def login_end_def logout_local_def
      connected_as_def Let_def split: js_call.split bool.split sum.split prod.split)

lemma wallet_ok_run: "wallet_ok (fold wallet_step es wallet_start)"
  by (induction es rule: rev_induct) (simp_all add: wallet_ok_step, simp add: wallet_ok_def wallet_start_def)

text \<open>What the hook restores does not depend on the session: no cookie is looked at.\<close>

lemma restored_without_session:
  assumes "ask_allowed F = Returns True" "ask_address F = Returns (k, False)" "k \<noteq> []"
  shows "wa_connected (snd (restoreSession F (logout_local w)))"
  using assms by (simp add: restoreSession_def connected_as_def)

section \<open>Signing in\<close>

text \<open>Challenges are read from the cookie as they were written to it.\<close>

definition challenge_texts :: "web_env \<Rightarrow> bool" where
  "challenge_texts W \<longleftrightarrow> (\<forall>n k. let d = JObj [(''nonce'', JStr n), (''publicKey'', JStr k)] in json_text W d \<noteq> [] \<and> json_parse W (json_text W d) = Some d)"

definition good_signature :: "web_env \<Rightarrow> string \<Rightarrow> string \<Rightarrow> signing \<Rightarrow> bool" where
  "good_signature W nonce k s \<longleftrightarrow> (case s of
     Signed sm signer \<Rightarrow> sm \<noteq> [] \<and> signer \<in> {None, Some [], Some k}
       \<and> (case (buffer_of W (Some (JStr nonce)), base64_buffer W (JStr sm)) of
            (Some m, Some sg) \<Rightarrow> check_signature W k m sg = Some True | _ \<Rightarrow> False)
   | _ \<Rightarrow> False)"

lemma verify_after_challenge:
  assumes "challenge_texts W" and "k \<noteq> []"
    and "nonceCookie c = Some (json_text W (JObj [(''nonce'', JStr n), (''publicKey'', JStr k)]))"
  shows "web_verify W T (Some (verify_body k sm signer)) c = (Web_OK r, c') \<longleftrightarrow>
     r = None \<and> good_signature W n k (Signed sm signer) \<and> c' = logged_in T k"
proof -
  let ?d = "JObj [(''nonce'', JStr n), (''publicKey'', JStr k)]"
  have d: "json_text W ?d \<noteq> []" "json_parse W (json_text W ?d) = Some ?d" using assms(1) by (auto simp: challenge_texts_def Let_def)
  have "proves_key W (verify_body k sm signer) ?d k' \<longleftrightarrow> k' = k \<and> good_signature W n k (Signed sm signer)" for k'
    using assms(2) by (cases signer) (auto simp: proves_key_def prop_of_def verify_body_def json_truthy_def good_signature_def split: option.splits)
  then show ?thesis unfolding web_verify_OK using assms(3) d by auto
qed

lemma login_requests_exact:
  assumes "challenge_texts W" and "k \<noteq> []"
  shows "login_requests W T down nonce sign k c = (Inr u, c') \<longleftrightarrow>
     valid_key W k \<and> down CALL_CHALLENGE = None \<and> down CALL_VERIFY = None \<and> good_signature W nonce k (sign nonce k) \<and> c' = logged_in T k"
proof (cases "down CALL_CHALLENGE = None \<and> valid_key W k \<and> down CALL_VERIFY = None")
  case True
  let ?c = "c\<lparr>nonceCookie := Some (json_text W (JObj [(''nonce'', JStr nonce), (''publicKey'', JStr k)]))\<rparr>"
  have ch: "web_challenge W nonce (Some (JObj [(''publicKey'', JStr k)])) c = (Web_OK (Some nonce), ?c)"
    using True assms(2) by (simp add: web_challenge_def destructured_def prop_of_def)
  show ?thesis
  proof (cases "sign nonce k")
    case (Signed sm signer)
    obtain reply c2 where v: "web_verify W T (Some (verify_body k sm signer)) ?c = (reply, c2)" by fastforce
    have "reply = Web_OK r \<and> c2 = c' \<longleftrightarrow> r = None \<and> good_signature W nonce k (Signed sm signer) \<and> c' = logged_in T k" for r
      using verify_after_challenge [OF assms, of ?c nonce T sm signer r c'] v by simp
    then have "(\<exists>r. reply = Web_OK r) \<and> c2 = c' \<longleftrightarrow> good_signature W nonce k (Signed sm signer) \<and> c' = logged_in T k" by metis
    moreover have "login_requests W T down nonce sign k c = (case reply of Web_Error _ msg \<Rightarrow> (Inl msg, c2) | Web_OK _ \<Rightarrow> (Inr (), c2))"
      using True by (simp add: login_requests_def ch Signed v)
    ultimately show ?thesis using True Signed by (cases reply) simp_all
  qed (use True ch in \<open>auto simp: login_requests_def good_signature_def\<close>)
next
  case False
  then show ?thesis
    using assms(2) by (auto simp: login_requests_def web_challenge_def destructured_def prop_of_def split: option.split signing.split)
qed

lemma login_requests_error:
  assumes "login_requests W T down nonce sign k c = (Inl msg, c')"
  shows "accessCookie c' = accessCookie c \<and> refreshCookie c' = refreshCookie c"
proof -
  obtain reply c1 where ch: "web_challenge W nonce (Some (JObj [(''publicKey'', JStr k)])) c = (reply, c1)" by fastforce
  then have c1: "accessCookie c1 = accessCookie c" "refreshCookie c1 = refreshCookie c"
    using challenge_keeps_tokens [of W nonce "Some (JObj [(''publicKey'', JStr k)])" c] by simp_all
  have "c' = c \<or> c' = c1"
    using assms ch by (auto simp: login_requests_def dest: web_verify_error split: option.splits web_reply.splits signing.splits prod.splits)
  then show ?thesis using c1 by auto
qed


definition demo_freighter :: freighter where
  "demo_freighter = \<lparr>ask_allowed = Returns True, ask_address = Returns (''k'', False)\<rparr>"

text \<open>Texts that keep a key and a nonce, and signatures that are right when they say \<open>s\<close>.\<close>

definition demo_button_web :: web_env where
  "demo_button_web = demo_web\<lparr>
     json_text := (\<lambda>j. case j of JObj [(_, JStr n), (_, JStr k)] \<Rightarrow> digits (length n) @ CHR '':'' # n @ k | _ \<Rightarrow> []),
     json_parse := (\<lambda>t. let l = nat (the (js_parseInt t)); r = tl (dropWhile (\<lambda>c. c \<noteq> CHR '':'') t)
        in Some (JObj [(''nonce'', JStr (take l r)), (''publicKey'', JStr (drop l r))]))\<rparr>"

lemma parse_digits_colon: "js_parseInt (digits n @ CHR '':'' # r) = Some (int n)"
proof -
  have l: "list_all js_digit (digits n)" by (rule digits_digit)
  have n: "js_digit c \<Longrightarrow> \<not> js_space c \<and> c \<noteq> CHR ''-'' \<and> c \<noteq> CHR ''+''" for c by (auto simp: js_digit_def js_space_def)
  obtain c d where c: "digits n = c # d" by (cases "digits n") auto
  have "takeWhile js_digit (d @ CHR '':'' # r) = d" using l c by (simp add: takeWhile_append list_all_iff takeWhile_eq_all_conv js_digit_def)
  then show ?thesis using c l n [of c] decimal_digits [of n] by (simp add: js_parseInt_def Let_def)
qed

lemma demo_challenge_texts: "challenge_texts demo_button_web"
proof -
  have "\<forall>c\<in>set (digits n). c \<noteq> CHR '':''" for n
    using digits_digit [of n] by (auto simp: list_all_iff js_digit_def)
  then have "dropWhile (\<lambda>c. c \<noteq> CHR '':'') (digits n @ CHR '':'' # r) = CHR '':'' # r" for n r
    by (simp add: dropWhile_append3)
  then show ?thesis by (simp add: challenge_texts_def demo_button_web_def parse_digits_colon Let_def)
qed


section \<open>The login page without a session\<close>

text \<open>
  The page a browser ends up on for a request: it follows the redirects of the proxy, at
  most as many as given; a request has the cookies of the browser.
\<close>

fun follow :: "nat \<Rightarrow> tokens \<Rightarrow> page_request \<Rightarrow> page_request option" where
  "follow 0 T q = None"
| "follow (Suc n) T q = (let r = proxy T q in
     if ps_kind r = REDIRECT then follow n T (q\<lparr>pr_path := ps_path r, pr_query := ps_query r\<rparr>) else Some q)"

text \<open>The effect of the login page: with a connected wallet it goes to \<open>from\<close>, or the dashboard.\<close>

definition login_target :: "page_request \<Rightarrow> string" where
  "login_target q = (case map_of (pr_query q) ''from'' of None \<Rightarrow> ''/dashboard'' | Some f \<Rightarrow> f)"

definition login_effect :: "tokens \<Rightarrow> wallet_auth \<Rightarrow> page_request \<Rightarrow> page_request option" where
  "login_effect T w q = (if \<not> wa_checking w \<and> wa_connected w
     then follow 2 T (q\<lparr>pr_path := login_target q, pr_query := []\<rparr>) else Some q)"

text \<open>The login pages the effect is about: their \<open>from\<close> is missing or a page of the dashboard.\<close>

definition asks_dashboard :: "page_request \<Rightarrow> bool" where
  "asks_dashboard q \<longleftrightarrow> (\<exists>l\<in>set locales. pr_path q = ''/'' @ l @ ''/login'') \<and> is_route ''dashboard'' (login_target q)"

lemma dashboard_route: "is_route ''dashboard'' ''/dashboard''"
  by (simp add: is_route_def route_tail_def)

lemma session_fields: "has_session T (q\<lparr>pr_path := p, pr_query := r\<rparr>) = has_session T q"
  by (simp add: has_session_def)

lemma login_bounces_once:
  assumes "\<not> has_session T q" and "wa_connected w" "\<not> wa_checking w" and "asks_dashboard q"
  shows "\<exists>q'. login_effect T w q = Some q' \<and> asks_dashboard q' \<and> \<not> has_session T q'"
proof -
  let ?d = "q\<lparr>pr_path := login_target q, pr_query := []\<rparr>"
  let ?l = "case find (in_locale (login_target q)) locales of Some l \<Rightarrow> l | None \<Rightarrow> defaultLocale"
  let ?q = "q\<lparr>pr_path := ''/'' @ ?l @ ''/login'', pr_query := [(''from'', login_target q)]\<rparr>"
  have s: "\<exists>n. session_of T (q\<lparr>pr_path := p, pr_query := r\<rparr>) = (False, n)" for p r
    using assms(1) session_valid [of T "q\<lparr>pr_path := p, pr_query := r\<rparr>"]
    by (cases "session_of T (q\<lparr>pr_path := p, pr_query := r\<rparr>)") (simp add: session_fields)
  have l: "?l \<in> set locales" by (rule current_locale)
  have "proxy T ?d = redirect_to (''/'' @ ?l @ ''/login'') [(''from'', login_target q)]"
    using assms(4) s [where p = "login_target q" and r = "[]"] by (auto simp: proxy_def asks_dashboard_def Let_def)
  moreover have "ps_kind (proxy T ?q) = REWRITE"
    using login_page [OF l] localized_with_locale [OF l, of ?q] s [where p = "''/'' @ ?l @ ''/login''" and r = "[(''from'', login_target q)]"]
    by (auto simp: proxy_def Let_def)
  ultimately have "login_effect T w q = Some ?q"
    using assms(2,3) by (simp add: login_effect_def redirect_to_def numeral_2_eq_2 Let_def)
  moreover have "asks_dashboard ?q" using l assms(4) by (auto simp: asks_dashboard_def login_target_def)
  ultimately show ?thesis using assms(1) session_fields by blast
qed



end
