(* ===== verification/Loan_View.thy ===== *)
theory Loan_View
  imports Dashboard Tx_View
begin

text \<open>
  The loans of the web application: the hook \<open>frontend/src/hooks/useLoans.ts\<close>, the list page
  (\<open>app/loans/page.tsx\<close>), the page of one loan with its dialog for repayments
  (\<open>app/loans/[id]/page.tsx\<close>, \<open>components/loans/RepaymentSchedule.tsx\<close>, \<open>LoanCard.tsx\<close>) and the
  timeline (\<open>components/risk/LoanTimeline.tsx\<close>). Amounts are finite doubles; \<open>parseFloat\<close> is a
  parameter.
\<close>

section \<open>Loading loans\<close>

record listed_loan = web_loan +
  ll_borrower :: string
  ll_collateralTokenId :: string
  ll_termMonths :: nat
  ll_maturity :: int

definition MOCK_LOANS :: "listed_loan list" where
  "MOCK_LOANS =
    [
     \<lparr>wl_id = ''loan-1'', wl_assetType = ''INVOICE'', wl_collateralValue = 50000, wl_principal = 25000, wl_interestRate = 17 / 2, wl_status = WL_ACTIVE,
       wl_repayments = [\<lparr>wr_id = ''rep-1'', wr_amount = 5200, wr_paidAt = 1765756800000, wr_txHash = ''abc123def456'', wr_status = TX_COMPLETED\<rparr>,
         \<lparr>wr_id = ''rep-2'', wr_amount = 5200, wr_paidAt = 1768435200000, wr_txHash = ''def456ghi789'', wr_status = TX_COMPLETED\<rparr>],
       wl_createdAt = 1761955200000, ll_borrower = ''GBXYZ4KITP4KVFJN4OGR6MXBGHOBRCGIXAQ7ALIEQVRSWZLUQBIHIG2K'', ll_collateralTokenId = ''ct-001'', ll_termMonths = 12, ll_maturity = 1793491200000\<rparr>,
     \<lparr>wl_id = ''loan-2'', wl_assetType = ''COMMODITY'', wl_collateralValue = 75000, wl_principal = 40000, wl_interestRate = 7, wl_status = WL_ACTIVE,
       wl_repayments = [\<lparr>wr_id = ''rep-3'', wr_amount = 3100, wr_paidAt = 1768003200000, wr_txHash = ''ghi789jkl012'', wr_status = TX_COMPLETED\<rparr>],
       wl_createdAt = 1765756800000, ll_borrower = ''GCABC5MJUQ8LXFGV5PGRAYHNQWFS2HP5EXLSM6MWQKVB5ZDLTRCKNJ7'', ll_collateralTokenId = ''ct-002'', ll_termMonths = 6, ll_maturity = 1781481600000\<rparr>,
     \<lparr>wl_id = ''loan-3'', wl_assetType = ''RECEIVABLE'', wl_collateralValue = 30000, wl_principal = 15000, wl_interestRate = 9, wl_status = WL_PENDING,
       wl_repayments = [],
       wl_createdAt = 1769904000000, ll_borrower = ''GDDEF6NKUP9EYGHW6QHSBIYZNE3XUFRSSZ7MWQLNB6CXDMQTRSXON8P'', ll_collateralTokenId = ''ct-003'', ll_termMonths = 3, ll_maturity = 1777593600000\<rparr>,
     \<lparr>wl_id = ''loan-4'', wl_assetType = ''INVOICE'', wl_collateralValue = 100000, wl_principal = 60000, wl_interestRate = 13 / 2, wl_status = WL_REPAID,
       wl_repayments = [\<lparr>wr_id = ''rep-r1'', wr_amount = 63900, wr_paidAt = 1759276800000, wr_txHash = ''mno345pqr678'', wr_status = TX_COMPLETED\<rparr>],
       wl_createdAt = 1711929600000, ll_borrower = ''GBXYZ4KITP4KVFJN4OGR6MXBGHOBRCGIXAQ7ALIEQVRSWZLUQBIHIG2K'', ll_collateralTokenId = ''ct-004'', ll_termMonths = 18, ll_maturity = 1759276800000\<rparr>,
     \<lparr>wl_id = ''loan-5'', wl_assetType = ''COMMODITY'', wl_collateralValue = 20000, wl_principal = 12000, wl_interestRate = 10, wl_status = WL_DEFAULTED,
       wl_repayments = [\<lparr>wr_id = ''rep-d1'', wr_amount = 2100, wr_paidAt = 1749945600000, wr_txHash = ''stu901vwx234'', wr_status = TX_COMPLETED\<rparr>],
       wl_createdAt = 1735689600000, ll_borrower = ''GCABC5MJUQ8LXFGV5PGRAYHNQWFS2HP5EXLSM6MWQKVB5ZDLTRCKNJ7'', ll_collateralTokenId = ''ct-005'', ll_termMonths = 6, ll_maturity = 1751328000000\<rparr>]"

text \<open>\<open>xs.slice(a, b)\<close>: negative positions count from the end.\<close>

definition js_slice :: "int \<Rightarrow> int \<Rightarrow> 'a list \<Rightarrow> 'a list" where
  "js_slice a b xs =
     (let n = int (length xs);
          pos = (\<lambda>i. nat (if i < 0 then max 0 (n + i) else min i n))
      in take (pos b - pos a) (drop (pos a) xs))"

text \<open>No status is \<open>ALL\<close>. What the server sends may lack the fields \<open>loans\<close> and \<open>totalPages\<close>.\<close>

datatype loans_reply = Loans_Reply "listed_loan list option" "int option" | Loans_Failed

definition mock_listing :: "web_loan_status option \<Rightarrow> int \<Rightarrow> int \<Rightarrow> listed_loan list \<times> int" where
  "mock_listing status page limit =
     (let filtered = (case status of None \<Rightarrow> MOCK_LOANS | Some st \<Rightarrow> filter (\<lambda>l. wl_status l = st) MOCK_LOANS);
          start = (page - 1) * limit
      in (js_slice start (start + limit) filtered, total_pages (int (length filtered)) limit))"

definition fetchLoans :: "web_loan_status option \<Rightarrow> int \<Rightarrow> int \<Rightarrow> loans_reply \<Rightarrow> listed_loan list \<times> int" where
  "fetchLoans status page limit reply = (case reply of
     Loans_Failed \<Rightarrow> mock_listing status page limit
   | Loans_Reply ls n \<Rightarrow> (case ls of None \<Rightarrow> [] | Some xs \<Rightarrow> xs, case n of None \<Rightarrow> 1 | Some k \<Rightarrow> if k = 0 then 1 else k))"

text \<open>The new loan, and whether the promise is rejected; then the loan stays as it was.\<close>

definition fetchLoanById :: "string \<Rightarrow> listed_loan option \<Rightarrow> listed_loan option \<Rightarrow> listed_loan option \<times> bool" where
  "fetchLoanById i reply before = (case reply of
     Some l \<Rightarrow> (Some l, False)
   | None \<Rightarrow> (case find (\<lambda>l. wl_id l = i) MOCK_LOANS of None \<Rightarrow> (before, True) | Some l \<Rightarrow> (Some l, False)))"

section \<open>The list\<close>

record loans_page =
  lp_status :: "web_loan_status option"
  lp_page :: int
  lp_shown :: "listed_loan list"
  lp_totalPages :: int
  lp_loading :: bool
  lp_waiting :: "(web_loan_status option \<times> int) list" \<comment> \<open>requests without an answer, the oldest first\<close>
  lp_search :: string
  lp_comparison :: bool
  lp_selected :: "string set"

datatype loans_event = Tab "web_loan_status option" | Previous_Page | Next_Page | Retry | Answered nat loans_reply
  | Search string | Compare | Select string | Clear

definition status_text :: "web_loan_status \<Rightarrow> string" where
  "status_text st = (case st of WL_PENDING \<Rightarrow> ''PENDING'' | WL_ACTIVE \<Rightarrow> ''ACTIVE'' | WL_REPAID \<Rightarrow> ''REPAID'' | WL_DEFAULTED \<Rightarrow> ''DEFAULTED'')"

text \<open>The effect runs when the tab or the page has changed.\<close>

definition ask_loans :: "loans_page \<Rightarrow> loans_page" where
  "ask_loans s = s\<lparr>lp_loading := True, lp_waiting := lp_waiting s @ [(lp_status s, lp_page s)]\<rparr>"

definition show_page :: "web_loan_status option \<Rightarrow> int \<Rightarrow> loans_page \<Rightarrow> loans_page" where
  "show_page st p s = (if st = lp_status s \<and> p = lp_page s then s else ask_loans (s\<lparr>lp_status := st, lp_page := p\<rparr>))"

definition toggleLoanSelection :: "string \<Rightarrow> string set \<Rightarrow> string set" where
  "toggleLoanSelection i sel = (if i \<in> sel then sel - {i} else if 3 \<le> card sel then sel else insert i sel)"

fun loans_step :: "loans_event \<Rightarrow> loans_page \<Rightarrow> loans_page" where
  "loans_step (Tab st) s = show_page st 1 s"
| "loans_step Previous_Page s = (if lp_page s = 1 then s else show_page (lp_status s) (max 1 (lp_page s - 1)) s)"
| "loans_step Next_Page s = (if lp_page s = lp_totalPages s then s else show_page (lp_status s) (min (lp_totalPages s) (lp_page s + 1)) s)"
| "loans_step Retry s = ask_loans s"
| "loans_step (Answered k r) s = (if k < length (lp_waiting s)
     then let (st, p) = lp_waiting s ! k; (ls, n) = fetchLoans st p 10 r in
       s\<lparr>lp_shown := ls, lp_totalPages := n, lp_loading := False, lp_waiting := take k (lp_waiting s) @ drop (Suc k) (lp_waiting s)\<rparr>
     else s)"
| "loans_step (Search q) s = s\<lparr>lp_search := q\<rparr>"
| "loans_step Compare s = s\<lparr>lp_comparison := \<not> lp_comparison s\<rparr>"
| "loans_step (Select i) s = s\<lparr>lp_selected := toggleLoanSelection i (lp_selected s)\<rparr>"
| "loans_step Clear s = s\<lparr>lp_selected := {}, lp_comparison := False\<rparr>"

definition loans_start :: loans_page where
  "loans_start = ask_loans \<lparr>lp_status = None, lp_page = 1, lp_shown = [], lp_totalPages = 1, lp_loading = False, lp_waiting = [],
     lp_search = [], lp_comparison = False, lp_selected = {}\<rparr>"

definition filteredLoans :: "loans_page \<Rightarrow> listed_loan list" where
  "filteredLoans s = filter (\<lambda>l. lp_search s = [] \<or> (let query = js_lower (lp_search s) in
     contains_text query (js_lower (wl_id l)) \<or> contains_text query (js_lower (ll_borrower l))
     \<or> contains_text query (js_lower (wl_assetType l)) \<or> contains_text query (js_lower (status_text (wl_status l))))) (lp_shown s)"

definition selectedLoanData :: "loans_page \<Rightarrow> listed_loan list" where
  "selectedLoanData s = filter (\<lambda>l. wl_id l \<in> lp_selected s) (lp_shown s)"

section \<open>Progress of a loan\<close>

definition remainingBalance :: "listed_loan \<Rightarrow> rat" where
  "remainingBalance l = max 0 (fl64 (owed (web_loan.truncate l) - repaid_of (web_loan.truncate l)))"

text \<open>In percent; the schedule guards against a total of 0, the card does not (\<open>NaN\<close> for nothing of nothing).\<close>

definition schedule_progress :: "rat \<Rightarrow> rat \<Rightarrow> rat" where
  "schedule_progress totalRepaid totalOwed = (if 0 < totalOwed then min 100 (fl64 (fl64 (totalRepaid / totalOwed) * 100)) else 0)"

definition card_progress :: "rat \<Rightarrow> rat \<Rightarrow> jsnum" where
  "card_progress totalRepaid totalOwed =
     (if totalOwed = 0 then (if totalRepaid = 0 then NaN else if 0 < totalRepaid then Fin 100 else NegInfinity)
      else Fin (min 100 (fl64 (fl64 (totalRepaid / totalOwed) * 100))))"

section \<open>The dialog for repayments\<close>

text \<open>
  \<open>rd_for\<close> and the lists are history: the amount the transaction shown was requested for,
  the amounts requested with the balance at that time, and what was submitted, with the
  amount reported and the one the transaction was requested for.
\<close>

record repayment_dialog =
  rd_open :: bool
  rd_amount :: string
  rd_loading :: bool
  rd_error :: "string option"
  rd_xdr :: "string option"
  rd_success :: bool
  rd_remaining :: rat
  rd_generating :: "rat option" \<comment> \<open>the request for a transaction without an answer\<close>
  rd_signing :: "(string \<times> string \<times> rat) option" \<comment> \<open>what is being signed, the amount it will be reported with, and \<open>rd_for\<close>\<close>
  rd_for :: rat
  rd_requested :: "(rat \<times> rat) list"
  rd_submitted :: "(string \<times> string \<times> rat) list"

datatype repayment_event = Open | Close | Amount string | Generate | Generated "string + string option" | Sign | Signed_Submitted "string + bool"
  | Close_Timer | Reloaded rat

text \<open>A transaction counts as there when it is a text that is not empty.\<close>

definition xdr_shown :: "repayment_dialog \<Rightarrow> bool" where
  "xdr_shown s \<longleftrightarrow> rd_xdr s \<notin> {None, Some []}"

text \<open>\<open>handleRepayment\<close> up to its request, and its end (the error also tells the balance); a field that holds no number is \<open>NaN\<close>.\<close>

definition handleRepayment :: "(string \<Rightarrow> jsnum) \<Rightarrow> repayment_dialog \<Rightarrow> repayment_dialog" where
  "handleRepayment parse s = (case parse (rd_amount s) of
     Fin a \<Rightarrow>
       if a \<le> 0 then s\<lparr>rd_error := Some ''Please enter a valid repayment amount''\<rparr>
       else if rd_remaining s < a then s\<lparr>rd_error := Some ''Amount exceeds remaining balance''\<rparr>
       else s\<lparr>rd_loading := True, rd_error := None, rd_generating := Some a, rd_requested := (a, rd_remaining s) # rd_requested s\<rparr>
   | Infinity \<Rightarrow> s\<lparr>rd_error := Some ''Amount exceeds remaining balance''\<rparr>
   | _ \<Rightarrow> s\<lparr>rd_error := Some ''Please enter a valid repayment amount''\<rparr>)"

definition repayment_answer :: "string + string option \<Rightarrow> rat \<Rightarrow> repayment_dialog \<Rightarrow> repayment_dialog" where
  "repayment_answer r a s = (case r of
     Inl msg \<Rightarrow> s\<lparr>rd_error := Some msg, rd_loading := False, rd_generating := None\<rparr>
   | Inr xdr \<Rightarrow> s\<lparr>rd_xdr := xdr, rd_loading := False, rd_generating := None, rd_for := a\<rparr>)"

definition handleSignRepayment :: "repayment_dialog \<Rightarrow> repayment_dialog" where
  "handleSignRepayment s = (if \<not> xdr_shown s then s\<lparr>rd_error := Some ''No transaction XDR available''\<rparr>
     else s\<lparr>rd_loading := True, rd_error := None, rd_signing := Some (the (rd_xdr s), rd_amount s, rd_for s)\<rparr>)"

text \<open>
  It ends in an error before or at the submission, or is submitted; then the loan is loaded
  again, and the timer that closes the dialog is only set when that works.
\<close>

definition repayment_signed :: "string + bool \<Rightarrow> string \<times> string \<times> rat \<Rightarrow> repayment_dialog \<Rightarrow> repayment_dialog" where
  "repayment_signed r xa s = (case r of
     Inl msg \<Rightarrow> s\<lparr>rd_error := Some msg, rd_loading := False, rd_signing := None\<rparr>
   | Inr reloaded \<Rightarrow>
       s\<lparr>rd_success := True, rd_loading := False, rd_signing := None, rd_submitted := xa # rd_submitted s,
         rd_error := (if reloaded then rd_error s else Some ''Loan not found'')\<rparr>)"

definition repayment_closed :: "repayment_dialog \<Rightarrow> repayment_dialog" where
  "repayment_closed s = s\<lparr>rd_open := False, rd_success := False, rd_xdr := None, rd_amount := []\<rparr>"

text \<open>The field and the buttons are there only in their step; a button that is loading is disabled, the field is not.\<close>

fun repayment_step :: "(string \<Rightarrow> jsnum) \<Rightarrow> repayment_event \<Rightarrow> repayment_dialog \<Rightarrow> repayment_dialog" where
  "repayment_step parse Open s = s\<lparr>rd_open := True\<rparr>"
| "repayment_step parse Close s = (if rd_open s then (repayment_closed s)\<lparr>rd_error := None\<rparr> else s)"
| "repayment_step parse (Amount a) s = (if rd_open s \<and> \<not> rd_success s \<and> \<not> xdr_shown s then s\<lparr>rd_amount := a\<rparr> else s)"
| "repayment_step parse Generate s = (if rd_open s \<and> \<not> rd_success s \<and> \<not> xdr_shown s \<and> \<not> rd_loading s then handleRepayment parse s else s)"
| "repayment_step parse (Generated r) s = (case rd_generating s of None \<Rightarrow> s | Some a \<Rightarrow> repayment_answer r a s)"
| "repayment_step parse Sign s = (if rd_open s \<and> \<not> rd_success s \<and> xdr_shown s \<and> \<not> rd_loading s then handleSignRepayment s else s)"
| "repayment_step parse (Signed_Submitted r) s = (case rd_signing s of None \<Rightarrow> s | Some xa \<Rightarrow> repayment_signed r xa s)"
| "repayment_step parse Close_Timer s = repayment_closed s"
| "repayment_step parse (Reloaded b) s = s\<lparr>rd_remaining := b\<rparr>"

definition dialog_start :: "rat \<Rightarrow> repayment_dialog" where
  "dialog_start b = \<lparr>rd_open = False, rd_amount = [], rd_loading = False, rd_error = None, rd_xdr = None, rd_success = False, rd_remaining = b,
     rd_generating = None, rd_signing = None, rd_for = 0, rd_requested = [], rd_submitted = []\<rparr>"

section \<open>The timeline\<close>

datatype timeline_status = TL_Active | TL_Repaid | TL_Defaulted | TL_Pending

definition parseStatus :: "string \<Rightarrow> timeline_status" where
  "parseStatus raw = (let l = js_lower raw in
     if l = ''active'' then TL_Active else if l = ''repaid'' then TL_Repaid else if l = ''defaulted'' then TL_Defaulted else TL_Pending)"

record api_loan =
  al_id :: string
  al_principal_amount :: rat
  al_interest_rate :: rat
  al_status :: string
  al_created_at :: int
  al_due_at :: int
  al_updated_at :: int

record timeline_loan =
  tl_id :: string
  tl_principalAmount :: rat
  tl_interestRate :: rat
  tl_status :: timeline_status
  tl_createdAt :: int
  tl_dueAt :: int
  tl_endAt :: int

definition mapApiLoan :: "api_loan \<Rightarrow> timeline_loan" where
  "mapApiLoan raw = (let status = parseStatus (al_status raw) in
     \<lparr>tl_id = al_id raw, tl_principalAmount = al_principal_amount raw, tl_interestRate = al_interest_rate raw, tl_status = status,
      tl_createdAt = al_created_at raw, tl_dueAt = al_due_at raw,
      tl_endAt = (if status = TL_Active \<or> status = TL_Pending then al_due_at raw else al_updated_at raw)\<rparr>)"

section \<open>What the list shows\<close>

lemma js_slice_page:
  assumes "0 \<le> a" "0 \<le> k"
  shows "js_slice a (a + k) xs = take (nat k) (drop (nat a) xs)"
proof -
  have "nat (min (a + k) (int (length xs))) - nat (min a (int (length xs))) = min (nat k) (length xs - nat a)"
    using assms by (simp add: min_def nat_diff_distrib) linarith
  moreover have "drop (nat (min a (int (length xs)))) xs = drop (nat a) xs"
    using assms by (cases "a \<le> int (length xs)") (simp_all add: min_def)
  moreover have "take (min (nat k) (length xs - nat a)) (drop (nat a) xs) = take (nat k) (drop (nat a) xs)"
    by (cases "nat k \<le> length xs - nat a") (simp_all add: min_def)
  moreover have "js_slice a (a + k) xs = take (nat (min (a + k) (int (length xs))) - nat (min a (int (length xs)))) (drop (nat (min a (int (length xs)))) xs)"
  proof -
    have "\<not> a < 0" "\<not> a + k < 0" using assms by simp_all
    then show ?thesis by (simp only: js_slice_def Let_def if_False)
  qed
  ultimately show ?thesis by (simp only:)
qed

text \<open>The pages of the built-in loans, put together, are the loans with the status asked for.\<close>

lemma mock_pages:
  assumes "1 \<le> limit" "limit \<le> 100"
  shows "concat (map (\<lambda>p. fst (mock_listing status (int p + 1) limit)) [0..<nat (snd (mock_listing status 1 limit))])
    = filter (\<lambda>l. status = None \<or> status = Some (wl_status l)) MOCK_LOANS"
proof -
  let ?f = "case status of None \<Rightarrow> MOCK_LOANS | Some st \<Rightarrow> filter (\<lambda>l. wl_status l = st) MOCK_LOANS"
  have f: "?f = filter (\<lambda>l. status = None \<or> status = Some (wl_status l)) MOCK_LOANS"
    by (cases status) (auto intro!: filter_cong [OF refl])
  have "fst (mock_listing status (int p + 1) limit) = take (nat limit) (drop (p * nat limit) ?f)" for p
    using js_slice_page [of "int p * limit" limit ?f] assms by (simp add: mock_listing_def nat_mult_distrib Let_def)
  moreover have "length ?f \<le> length MOCK_LOANS" by (cases status) simp_all
  then have "length ?f < 2 ^ 45" by (simp add: MOCK_LOANS_def)
  ultimately show ?thesis using pages_all [OF assms, of ?f] f by (simp add: mock_listing_def Let_def)
qed

lemma selection_limit: "card sel \<le> 3 \<Longrightarrow> finite sel \<Longrightarrow> card (toggleLoanSelection i sel) \<le> 3 \<and> finite (toggleLoanSelection i sel)"
  by (auto simp: toggleLoanSelection_def card_insert_if card_Diff_singleton_if)

text \<open>No more than three loans are compared.\<close>

lemma at_most_three: "finite (lp_selected (fold loans_step es loans_start)) \<and> card (lp_selected (fold loans_step es loans_start)) \<le> 3"
proof (induction es rule: rev_induct)
  case Nil
  then show ?case by (simp add: loans_start_def ask_loans_def)
next
  case (snoc e es)
  then show ?case
    by (cases e) (auto simp: show_page_def ask_loans_def selection_limit Let_def split: prod.split)
qed

text \<open>
  Requests are not cancelled: when the answer for a tab that was left arrives last, its
  loans stay below the other tab.
\<close>

lemma late_answer_shown:
  "let s = fold loans_step [Answered 0 Loans_Failed, Tab (Some WL_REPAID), Tab (Some WL_ACTIVE), Answered 1 Loans_Failed, Answered 0 Loans_Failed] loans_start
   in lp_status s = Some WL_ACTIVE \<and> lp_waiting s = [] \<and> map wl_status (lp_shown s) = [WL_REPAID]"
proof -
  have "fst (mock_listing (Some WL_REPAID) 1 10) = take 10 (filter (\<lambda>l. wl_status l = WL_REPAID) MOCK_LOANS)"
    using js_slice_page [of 0 10] by (simp add: mock_listing_def Let_def)
  then have "map wl_status (fst (mock_listing (Some WL_REPAID) 1 10)) = [WL_REPAID]" by (simp add: MOCK_LOANS_def)
  then show ?thesis by (simp add: loans_start_def ask_loans_def show_page_def fetchLoans_def Let_def case_prod_beta)
qed

section \<open>What is repaid\<close>

text \<open>A run in which the amount is not edited, nor the dialog closed, while something is loading.\<close>

fun patient :: "(string \<Rightarrow> jsnum) \<Rightarrow> repayment_event list \<Rightarrow> repayment_dialog \<Rightarrow> bool" where
  "patient parse [] s = True"
| "patient parse (e # es) s = ((rd_loading s \<longrightarrow> (case e of Amount _ \<Rightarrow> False | Close \<Rightarrow> False | Close_Timer \<Rightarrow> False | _ \<Rightarrow> True))
     \<and> patient parse es (repayment_step parse e s))"

definition dialog_ok :: "(string \<Rightarrow> jsnum) \<Rightarrow> repayment_dialog \<Rightarrow> bool" where
  "dialog_ok parse s \<longleftrightarrow>
     (case rd_generating s of None \<Rightarrow> True | Some a \<Rightarrow> parse (rd_amount s) = Fin a \<and> rd_loading s \<and> \<not> xdr_shown s \<and> rd_signing s = None)
     \<and> (case rd_signing s of None \<Rightarrow> True | Some (x, amount, a) \<Rightarrow> parse amount = Fin a \<and> rd_loading s)
     \<and> (xdr_shown s \<longrightarrow> parse (rd_amount s) = Fin (rd_for s))
     \<and> (\<forall>(x, amount, a) \<in> set (rd_submitted s). parse amount = Fin a)"

definition requests_ok :: "repayment_dialog \<Rightarrow> bool" where
  "requests_ok s \<longleftrightarrow> (\<forall>(a, b) \<in> set (rd_requested s). 0 < a \<and> a \<le> b)"

lemma requests_ok_step: "requests_ok s \<Longrightarrow> requests_ok (repayment_step parse e s)"
  by (cases e) (auto simp: requests_ok_def handleRepayment_def repayment_answer_def handleSignRepayment_def repayment_signed_def repayment_closed_def
      split: jsnum.split option.split sum.split)

lemma dialog_ok_step:
  assumes "dialog_ok parse s" and "patient parse [e] s"
  shows "dialog_ok parse (repayment_step parse e s)"
proof (cases e)
  case Generate
  then show ?thesis using assms by (auto simp: dialog_ok_def handleRepayment_def xdr_shown_def split: jsnum.split option.splits)
next
  case (Generated r)
  then show ?thesis using assms by (auto simp: dialog_ok_def repayment_answer_def xdr_shown_def split: option.splits sum.split)
next
  case Sign
  then show ?thesis using assms by (auto simp: dialog_ok_def handleSignRepayment_def xdr_shown_def split: option.splits)
next
  case (Signed_Submitted r)
  then show ?thesis using assms by (auto simp: dialog_ok_def repayment_signed_def xdr_shown_def split: option.splits sum.split)
qed (use assms in \<open>auto simp: dialog_ok_def repayment_closed_def xdr_shown_def split: option.splits\<close>)

lemma dialog_ok_run: "dialog_ok parse s \<Longrightarrow> patient parse es s \<Longrightarrow> dialog_ok parse (fold (repayment_step parse) es s)"
proof (induction es arbitrary: s)
  case (Cons e es)
  then show ?case using dialog_ok_step [of parse s e] by simp
qed simp

text \<open>
  Every transaction the page requests is for a positive amount within the balance it
  shows at that time; and when the amount is not edited nor the dialog closed while
  something is loading, each repayment is reported to the server with the amount its
  transaction was requested for.
\<close>

theorem repayments_as_requested:
  "(\<forall>(a, b) \<in> set (rd_requested (fold (repayment_step parse) es (dialog_start b0))). 0 < a \<and> a \<le> b)
    \<and> (patient parse es (dialog_start b0) \<longrightarrow>
        (\<forall>(x, amount, a) \<in> set (rd_submitted (fold (repayment_step parse) es (dialog_start b0))). parse amount = Fin a))"
proof -
  have "requests_ok (fold (repayment_step parse) es (dialog_start b0))"
    by (induction es rule: rev_induct) (simp_all add: requests_ok_step, simp add: requests_ok_def dialog_start_def)
  moreover have "dialog_ok parse (dialog_start b0)" by (simp add: dialog_ok_def dialog_start_def xdr_shown_def)
  ultimately show ?thesis using dialog_ok_run [of parse "dialog_start b0" es] by (simp add: requests_ok_def dialog_ok_def)
qed

definition demo_float :: "string \<Rightarrow> jsnum" where
  "demo_float s = (if s = ''100'' then Fin 100 else if s = ''900'' then Fin 900 else NaN)"

definition demo_repayment :: "repayment_event list" where
  "demo_repayment = [Open, Amount ''900'', Amount ''100'', Generate, Generated (Inr (Some ''x'')), Sign, Signed_Submitted (Inr True), Close_Timer]"

lemmas dialog_defs = dialog_start_def xdr_shown_def handleRepayment_def repayment_answer_def handleSignRepayment_def repayment_signed_def repayment_closed_def

theorem repayments_as_requested_witness:
  "rd_submitted (fold (repayment_step demo_float) demo_repayment (dialog_start 500)) = [(''x'', ''100'', 100)] \<and> demo_float ''100'' = Fin 100"
proof -
  have run: "rd_submitted (fold (repayment_step demo_float) demo_repayment (dialog_start 500)) = [(''x'', ''100'', 100)]"
    by (simp add: demo_repayment_def demo_float_def dialog_defs)
  have "patient demo_float demo_repayment (dialog_start 500)"
    by (simp add: demo_repayment_def demo_float_def dialog_defs)
  then have "\<forall>(x, amount, a) \<in> set (rd_submitted (fold (repayment_step demo_float) demo_repayment (dialog_start 500))). demo_float amount = Fin a"
    using repayments_as_requested [of demo_float demo_repayment 500] by blast
  then show ?thesis using run by simp
qed

text \<open>
  The field stays open while the transaction is requested: an amount typed then is what the
  server is told, although it is beyond the balance and the transaction pays another one.
\<close>

lemma edited_while_waiting:
  "rd_submitted (fold (repayment_step demo_float)
     [Open, Amount ''100'', Generate, Amount ''900'', Generated (Inr (Some ''x'')), Sign, Signed_Submitted (Inr True)] (dialog_start 500))
   = [(''x'', ''900'', 100)]"
  by (simp add: demo_float_def dialog_defs)

text \<open>A dialog closed while it waits has the transaction when it is opened again, and reports no amount.\<close>

lemma reopened_with_transaction:
  "rd_submitted (fold (repayment_step demo_float)
     [Open, Amount ''100'', Generate, Close, Generated (Inr (Some ''x'')), Open, Sign, Signed_Submitted (Inr True)] (dialog_start 500))
   = [(''x'', [], 100)]"
  by (simp add: demo_float_def dialog_defs)

section \<open>Equal pictures\<close>

text \<open>A loan that is not finished ends when it is due; an unknown status counts as pending.\<close>

lemma timeline_end: "tl_status (mapApiLoan r) \<in> {TL_Repaid, TL_Defaulted} \<longleftrightarrow> js_lower (al_status r) \<in> {''repaid'', ''defaulted''}"
  by (auto simp: mapApiLoan_def parseStatus_def Let_def)

text \<open>The bar of a loan never leaves its frame.\<close>

lemma progress_range:
  assumes "0 \<le> r"
  shows "0 \<le> schedule_progress r t \<and> schedule_progress r t \<le> 100"
proof -
  have "0 \<le> fl64 (fl64 (r / t) * 100)" if "0 < t"
    using js.fl_mono [of 0 "fl64 (r / t) * 100"] js.fl_mono [of 0 "r / t"] assms that by simp
  then show ?thesis by (simp add: schedule_progress_def)
qed

end
