(* ===== verification/Web_Lists.thy ===== *)
theory Web_Lists
  imports Onboarding
begin

text \<open>
  The lists of the web application and what the pages make of their rows: escrows
  (\<open>frontend/src/hooks/useEscrows.ts\<close>), oracles (\<open>useOracles.ts\<close>) and collateral
  (\<open>useCollateral.ts\<close>), the verification status (\<open>useKycStatus.ts\<close>, \<open>components/kyc\<close>), the bar of
  a vote (\<open>components/governance/VoteTallyBar.tsx\<close>) and the helpers of \<open>utils/stellar.ts\<close>. Times
  are milliseconds; the numbers are finite doubles.
\<close>

section \<open>Escrows\<close>

datatype web_escrow_status = WE_DRAFT | WE_FUNDED | WE_IN_TRANSIT | WE_INSPECTION | WE_RELEASED | WE_DISPUTED

record escrow_note =
  ev_id :: string
  ev_title :: string
  ev_description :: string
  ev_timestamp :: int
  ev_status :: web_escrow_status

record web_escrow =
  we_id :: string
  we_title :: string
  we_buyer :: string
  we_seller :: string
  we_amount :: rat
  we_asset :: string
  we_status :: web_escrow_status
  we_updatedAt :: int
  we_dueDate :: string
  we_deliveryRoute :: string
  we_oracle :: string
  we_events :: "escrow_note list"

definition MOCK_ESCROWS :: "web_escrow list" where
  "MOCK_ESCROWS =
    [
     \<lparr>we_id = ''ESC-2048'', we_title = ''Cocoa export invoice'', we_buyer = ''Accra Commodity Buyers'', we_seller = ''Lagos Agro Cooperative'', we_amount = 48200, we_asset = ''USDC'',
       we_status = WE_INSPECTION, we_updatedAt = 1777041000000, we_dueDate = ''2026-05-04'', we_deliveryRoute = ''Tema Port -> Apapa Port'', we_oracle = ''Shipment Oracle A'',
       we_events =
         [\<lparr>ev_id = ''e1'', ev_title = ''Escrow created'', ev_description = ''Trade terms and release conditions were accepted.'', ev_timestamp = 1776675600000, ev_status = WE_DRAFT\<rparr>,
          \<lparr>ev_id = ''e2'', ev_title = ''Buyer funded escrow'', ev_description = ''48,200 USDC locked in the Soroban escrow contract.'', ev_timestamp = 1776770100000, ev_status = WE_FUNDED\<rparr>,
          \<lparr>ev_id = ''e3'', ev_title = ''Shipment verified'', ev_description = ''Carrier scan confirmed cargo in transit.'', ev_timestamp = 1776962400000, ev_status = WE_IN_TRANSIT\<rparr>,
          \<lparr>ev_id = ''e4'', ev_title = ''Inspection pending'', ev_description = ''Buyer has 48 hours to approve delivery documents.'', ev_timestamp = 1777041000000, ev_status = WE_INSPECTION\<rparr>]\<rparr>,
     \<lparr>we_id = ''ESC-2051'', we_title = ''Solar equipment receivable'', we_buyer = ''Nairobi Renewables Ltd'', we_seller = ''CapeTech Supply'', we_amount = 73000, we_asset = ''USDC'',
       we_status = WE_FUNDED, we_updatedAt = 1777105200000, we_dueDate = ''2026-05-12'', we_deliveryRoute = ''Cape Town -> Nairobi'', we_oracle = ''IoT Seal Oracle'',
       we_events =
         [\<lparr>ev_id = ''e1'', ev_title = ''Escrow created'', ev_description = ''Counterparties signed the milestone schedule.'', ev_timestamp = 1777032000000, ev_status = WE_DRAFT\<rparr>,
          \<lparr>ev_id = ''e2'', ev_title = ''Funds locked'', ev_description = ''Buyer funded escrow awaiting dispatch confirmation.'', ev_timestamp = 1777105200000, ev_status = WE_FUNDED\<rparr>]\<rparr>,
     \<lparr>we_id = ''ESC-2037'', we_title = ''Textile shipment settlement'', we_buyer = ''Dakar Retail Group'', we_seller = ''Kano Textile Works'', we_amount = 31500, we_asset = ''XLM'',
       we_status = WE_RELEASED, we_updatedAt = 1776531600000, we_dueDate = ''2026-04-19'', we_deliveryRoute = ''Kano -> Dakar'', we_oracle = ''Customs Oracle B'',
       we_events =
         [\<lparr>ev_id = ''e1'', ev_title = ''Escrow funded'', ev_description = ''Buyer funds were locked pending delivery.'', ev_timestamp = 1775989800000, ev_status = WE_FUNDED\<rparr>,
          \<lparr>ev_id = ''e2'', ev_title = ''Released'', ev_description = ''Delivery approved and funds released to seller.'', ev_timestamp = 1776531600000, ev_status = WE_RELEASED\<rparr>]\<rparr>,
     \<lparr>we_id = ''ESC-2032'', we_title = ''Copper cathode tranche'', we_buyer = ''Casablanca Metals'', we_seller = ''Lusaka Mining Export'', we_amount = 126400, we_asset = ''USDC'',
       we_status = WE_DISPUTED, we_updatedAt = 1776604200000, we_dueDate = ''2026-04-27'', we_deliveryRoute = ''Lusaka -> Casablanca'', we_oracle = ''Warehouse Oracle C'',
       we_events =
         [\<lparr>ev_id = ''e1'', ev_title = ''Escrow funded'', ev_description = ''Funds locked with dispute arbitration enabled.'', ev_timestamp = 1776246300000, ev_status = WE_FUNDED\<rparr>,
          \<lparr>ev_id = ''e2'', ev_title = ''Dispute opened'', ev_description = ''Buyer challenged warehouse weight certificate.'', ev_timestamp = 1776604200000, ev_status = WE_DISPUTED\<rparr>]\<rparr>]"

datatype date_range = ALL_DATES | LAST_7D | LAST_30D

text \<open>No status is \<open>all\<close>.\<close>

record escrow_filters =
  ef_status :: "web_escrow_status option"
  ef_party :: string
  ef_dateRange :: date_range

definition partyMatch :: "string \<Rightarrow> web_escrow \<Rightarrow> bool" where
  "partyMatch party e \<longleftrightarrow> (let v = js_lower party in
     contains_text v (js_lower (we_buyer e)) \<or> contains_text v (js_lower (we_seller e)) \<or> contains_text v (js_lower (we_id e)))"

definition updated_before :: "int \<Rightarrow> date_range \<Rightarrow> web_escrow \<Rightarrow> bool" where
  "updated_before now r e \<longleftrightarrow>
     (let days = (if r = LAST_7D then 7 else 30); cutoff = now - days * 24 * 60 * 60 * 1000 in we_updatedAt e < cutoff)"

definition escrow_passes :: "int \<Rightarrow> escrow_filters \<Rightarrow> web_escrow \<Rightarrow> bool" where
  "escrow_passes now f e \<longleftrightarrow>
     (if ef_status f \<noteq> None \<and> ef_status f \<noteq> Some (we_status e) then False
      else if ef_party f \<noteq> [] \<and> \<not> partyMatch (ef_party f) e then False
      else if ef_dateRange f \<noteq> ALL_DATES \<and> updated_before now (ef_dateRange f) e then False
      else True)"

text \<open>The state of the hook: the list, the time it shows as the last sync, and the time it filters with.\<close>

record escrows_view =
  es_escrows :: "web_escrow list"
  es_lastSyncAt :: int
  es_now :: int

definition escrows_start :: "int \<Rightarrow> escrows_view" where
  "escrows_start now = \<lparr>es_escrows = MOCK_ESCROWS, es_lastSyncAt = now, es_now = now\<rparr>"

definition escrows_tick :: "int \<Rightarrow> escrows_view \<Rightarrow> escrows_view" where
  "escrows_tick now v = v\<lparr>es_lastSyncAt := now, es_now := now\<rparr>"

definition filteredEscrows :: "escrow_filters option \<Rightarrow> escrows_view \<Rightarrow> web_escrow list" where
  "filteredEscrows f v = (case f of None \<Rightarrow> es_escrows v | Some fs \<Rightarrow> filter (escrow_passes (es_now v) fs) (es_escrows v))"

definition getEscrowById :: "string \<Rightarrow> escrows_view \<Rightarrow> web_escrow option" where
  "getEscrowById i v = find (\<lambda>e. we_id e = i) (es_escrows v)"

text \<open>While nothing is created, time only takes escrows off a filtered list.\<close>

lemma escrow_passed_before:
  assumes "now \<le> now'" and "escrow_passes now' f e"
  shows "escrow_passes now f e"
proof -
  have "updated_before now (ef_dateRange f) e \<Longrightarrow> updated_before now' (ef_dateRange f) e"
    using assms(1) by (simp add: updated_before_def Let_def)
  then show ?thesis using assms(2) unfolding escrow_passes_def by argo
qed

lemma escrows_fade:
  assumes "es_now v \<le> now"
  shows "set (filteredEscrows f (escrows_tick now v)) \<subseteq> set (filteredEscrows f v)"
  using escrow_passed_before [OF assms] by (cases f) (auto simp: filteredEscrows_def escrows_tick_def)

text \<open>Each tick says that the list was just synchronised, and the list is the built-in one.\<close>

lemma never_synchronised:
  "es_escrows (fold escrows_tick ts (escrows_start t)) = MOCK_ESCROWS \<and> es_lastSyncAt (fold escrows_tick ts (escrows_start t)) = last (t # ts)"
proof (induction ts rule: rev_induct)
  case (snoc x xs)
  then show ?case by (simp add: escrows_tick_def)
qed (simp add: escrows_start_def)

section \<open>Oracles and collateral\<close>

text \<open>
  A list that is fetched: the rows of an answer, none when the answer has none, and the
  built-in rows that pass the filter when there is no answer. No answer is an error of any
  kind.
\<close>

definition rows_or_mock :: "'r list option option \<Rightarrow> ('r \<Rightarrow> bool) \<Rightarrow> 'r list \<Rightarrow> 'r list" where
  "rows_or_mock reply sel mock = (case reply of Some (Some rows) \<Rightarrow> rows | Some None \<Rightarrow> [] | None \<Rightarrow> filter sel mock)"

datatype web_oracle_type = WO_GENERAL | WO_PRICE | WO_WEATHER | WO_SHIPPING | WO_QUALITY

record oracle_reputation =
  or_score :: rat
  or_accuracy :: rat
  or_reliability :: rat
  or_responsiveness :: rat
  or_totalVotes :: nat
  or_positiveVotes :: nat
  or_negativeVotes :: nat

record oracle_stake =
  os_amount :: rat
  os_assetCode :: string
  os_stakedAt :: string
  os_rewardAmount :: rat
  os_slashedAmount :: rat

record web_oracle =
  wo_id :: string
  wo_address :: string
  wo_isActive :: bool
  wo_oracleType :: web_oracle_type
  wo_registeredAt :: string
  wo_totalConfirmations :: nat
  wo_successfulConfirmations :: nat
  wo_failedConfirmations :: nat
  wo_lastActiveAt :: "string option"
  wo_reputation :: "oracle_reputation option"
  wo_stake :: "oracle_stake option"

definition MOCK_ORACLES :: "web_oracle list" where
  "MOCK_ORACLES =
    [\<lparr>wo_id = ''ora-001'', wo_address = ''GBXYZ4KITP4KVFJN4OGR6MXBGHOBRCGIXAQ7ALIEQVRSWZLUQBIHIG2K'', wo_isActive = True, wo_oracleType = WO_SHIPPING,
       wo_registeredAt = ''2026-01-15T10:00:00Z'', wo_totalConfirmations = 142, wo_successfulConfirmations = 138, wo_failedConfirmations = 4,
       wo_lastActiveAt = Some ''2026-04-25T08:00:00Z'',
       wo_reputation = Some \<lparr>or_score = 96, or_accuracy = fl64 (972 / 10), or_reliability = fl64 (958 / 10), or_responsiveness = fl64 (981 / 10), or_totalVotes = 142, or_positiveVotes = 138, or_negativeVotes = 4\<rparr>,
       wo_stake = Some \<lparr>os_amount = 5000, os_assetCode = ''USDC'', os_stakedAt = ''2026-01-15T10:00:00Z'', os_rewardAmount = 320, os_slashedAmount = 0\<rparr>\<rparr>,
     \<lparr>wo_id = ''ora-002'', wo_address = ''GCABC5MJUQ8LXFGV5PGRAYHNQWFS2HP5EXLSM6MWQKVB5ZDLTRCKNJ7'', wo_isActive = True, wo_oracleType = WO_QUALITY,
       wo_registeredAt = ''2026-02-01T09:00:00Z'', wo_totalConfirmations = 87, wo_successfulConfirmations = 82, wo_failedConfirmations = 5,
       wo_lastActiveAt = Some ''2026-04-24T14:00:00Z'',
       wo_reputation = Some \<lparr>or_score = 88, or_accuracy = fl64 (943 / 10), or_reliability = fl64 (912 / 10), or_responsiveness = fl64 (895 / 10), or_totalVotes = 87, or_positiveVotes = 82, or_negativeVotes = 5\<rparr>,
       wo_stake = Some \<lparr>os_amount = 3000, os_assetCode = ''USDC'', os_stakedAt = ''2026-02-01T09:00:00Z'', os_rewardAmount = 185, os_slashedAmount = 50\<rparr>\<rparr>,
     \<lparr>wo_id = ''ora-003'', wo_address = ''GDDEF6NKUP9EYGHW6QHSBIYZNE3XUFRSSZ7MWQLNB6CXDMQTRSXON8P'', wo_isActive = False, wo_oracleType = WO_PRICE,
       wo_registeredAt = ''2025-11-10T12:00:00Z'', wo_totalConfirmations = 210, wo_successfulConfirmations = 195, wo_failedConfirmations = 15,
       wo_lastActiveAt = None,
       wo_reputation = Some \<lparr>or_score = 72, or_accuracy = fl64 (929 / 10), or_reliability = 85, or_responsiveness = fl64 (783 / 10), or_totalVotes = 210, or_positiveVotes = 195, or_negativeVotes = 15\<rparr>,
       wo_stake = Some \<lparr>os_amount = 2000, os_assetCode = ''USDC'', os_stakedAt = ''2025-11-10T12:00:00Z'', os_rewardAmount = 410, os_slashedAmount = 200\<rparr>\<rparr>]"

definition fetchOracles :: "bool option \<Rightarrow> web_oracle list option option \<Rightarrow> web_oracle list" where
  "fetchOracles isActive reply = rows_or_mock reply (\<lambda>r. isActive = None \<or> isActive = Some (wo_isActive r)) MOCK_ORACLES"

definition fetchOracleById :: "string \<Rightarrow> web_oracle option \<Rightarrow> web_oracle option" where
  "fetchOracleById i reply = (case reply of Some r \<Rightarrow> Some r | None \<Rightarrow> find (\<lambda>r. wo_id r = i \<or> wo_address r = i) MOCK_ORACLES)"

datatype web_collateral_status = WC_LOCKED | WC_RELEASED | WC_LIQUIDATED

fun collateral_status_text :: "web_collateral_status \<Rightarrow> string" where
  "collateral_status_text WC_LOCKED = ''LOCKED''"
| "collateral_status_text WC_RELEASED = ''RELEASED''"
| "collateral_status_text WC_LIQUIDATED = ''LIQUIDATED''"

record collateral_document =
  dc_name :: string
  dc_hash :: string
  dc_mimeType :: "string option"
  dc_size :: "rat option"

record web_collateral =
  wc_id :: string
  wc_escrowId :: string
  wc_assetCode :: string
  wc_assetType :: "string option"
  wc_amount :: string
  wc_metadataHash :: "string option"
  wc_status :: web_collateral_status
  wc_description :: "string option"
  wc_issuer :: "string option"
  wc_stellarAssetCode :: "string option"
  wc_documents :: "collateral_document list option"
  wc_createdAt :: string
  wc_updatedAt :: string

definition MOCK_COLLATERALS :: "web_collateral list" where
  "MOCK_COLLATERALS =
    [\<lparr>wc_id = ''col-001'', wc_escrowId = ''esc-001'', wc_assetCode = ''INVOICE'', wc_assetType = Some ''INVOICE'', wc_amount = ''50000'', wc_metadataHash = Some ''QmXyz123'',
       wc_status = WC_LOCKED, wc_description = Some ''Export invoice for cocoa shipment'', wc_issuer = Some ''Lagos Agro Cooperative'', wc_stellarAssetCode = Some ''INVOC001'',
       wc_documents = Some [\<lparr>dc_name = ''invoice.pdf'', dc_hash = ''QmDoc1'', dc_mimeType = Some ''application/pdf'', dc_size = None\<rparr>],
       wc_createdAt = ''2026-04-20T09:00:00Z'', wc_updatedAt = ''2026-04-20T09:00:00Z''\<rparr>,
     \<lparr>wc_id = ''col-002'', wc_escrowId = ''esc-002'', wc_assetCode = ''COMMODITY'', wc_assetType = Some ''COMMODITY'', wc_amount = ''75000'', wc_metadataHash = Some ''QmAbc456'',
       wc_status = WC_LOCKED, wc_description = Some ''Solar equipment inventory'', wc_issuer = Some ''CapeTech Supply'', wc_stellarAssetCode = Some ''COMMB002'',
       wc_documents = Some [\<lparr>dc_name = ''warehouse_receipt.pdf'', dc_hash = ''QmDoc2'', dc_mimeType = Some ''application/pdf'', dc_size = None\<rparr>, \<lparr>dc_name = ''quality_cert.jpg'', dc_hash = ''QmDoc3'', dc_mimeType = Some ''image/jpeg'', dc_size = None\<rparr>],
       wc_createdAt = ''2026-04-22T10:00:00Z'', wc_updatedAt = ''2026-04-22T10:00:00Z''\<rparr>,
     \<lparr>wc_id = ''col-003'', wc_escrowId = ''esc-003'', wc_assetCode = ''RECEIVABLE'', wc_assetType = Some ''RECEIVABLE'', wc_amount = ''30000'', wc_metadataHash = Some ''QmDef789'',
       wc_status = WC_RELEASED, wc_description = Some ''Textile receivable'', wc_issuer = Some ''Kano Textile Works'', wc_stellarAssetCode = Some ''RECEC003'',
       wc_documents = Some [],
       wc_createdAt = ''2026-04-10T08:00:00Z'', wc_updatedAt = ''2026-04-18T17:00:00Z''\<rparr>]"

text \<open>The escrow asked for only goes into the request: the built-in rows are filtered by status alone.\<close>

definition fetchCollaterals :: "string option \<Rightarrow> string option \<Rightarrow> web_collateral list option option \<Rightarrow> web_collateral list" where
  "fetchCollaterals escrowId status reply =
     rows_or_mock reply (\<lambda>c. status \<in> {None, Some []} \<or> status = Some (collateral_status_text (wc_status c))) MOCK_COLLATERALS"

definition fetchCollateralById :: "string \<Rightarrow> web_collateral option \<Rightarrow> web_collateral option" where
  "fetchCollateralById i reply = (case reply of Some c \<Rightarrow> Some c | None \<Rightarrow> find (\<lambda>c. wc_id c = i) MOCK_COLLATERALS)"

record web_ltv =
  lt_collateralId :: string
  lt_collateralValue :: rat
  lt_totalLoanAmount :: rat
  lt_currentLtv :: rat
  lt_maxLtvRatio :: rat
  lt_maxLoanAmount :: rat
  lt_availableCredit :: rat

definition fetchLTV :: "string \<Rightarrow> web_ltv option \<Rightarrow> web_ltv" where
  "fetchLTV i reply = (case reply of Some l \<Rightarrow> l | None \<Rightarrow>
     \<lparr>lt_collateralId = i, lt_collateralValue = 50000, lt_totalLoanAmount = 25000, lt_currentLtv = 50, lt_maxLtvRatio = 80,
      lt_maxLoanAmount = 40000, lt_availableCredit = 15000\<rparr>)"

lemma collateral_of_other_escrows: "\<exists>c\<in>set (fetchCollaterals (Some ''esc-009'') None None). wc_escrowId c \<noteq> ''esc-009''"
  by (simp add: fetchCollaterals_def rows_or_mock_def MOCK_COLLATERALS_def)

lemma credit_without_server: "fetchCollateralById ''x'' None = None \<and> 0 < lt_availableCredit (fetchLTV ''x'' None)"
  by (simp add: fetchCollateralById_def MOCK_COLLATERALS_def fetchLTV_def)

section \<open>Verification status\<close>

datatype kyc_status = KYC_UNVERIFIED | KYC_PENDING | KYC_VERIFIED | KYC_REJECTED | KYC_EXPIRED

record kyc_data =
  kd_status :: kyc_status
  kd_expiry :: "string option"
  kd_isValid :: bool
  kd_requires :: bool

record kyc_view =
  ky_status :: "kyc_status option"
  ky_expiry :: "string option"
  ky_isValid :: bool
  ky_requires :: bool
  ky_isLoading :: bool
  ky_error :: "string option"

definition kyc_start :: kyc_view where
  "kyc_start = \<lparr>ky_status = None, ky_expiry = None, ky_isValid = False, ky_requires = False, ky_isLoading = True, ky_error = None\<rparr>"

text \<open>The end of \<open>fetchKycStatus\<close>: an error with its message, or the data of the answer, if it has any.\<close>

definition fetchKycStatus :: "string + kyc_data option \<Rightarrow> kyc_view \<Rightarrow> kyc_view" where
  "fetchKycStatus r v = (case r of
     Inl msg \<Rightarrow> v\<lparr>ky_isLoading := False, ky_error := Some msg\<rparr>
   | Inr None \<Rightarrow> v\<lparr>ky_isLoading := False, ky_error := None\<rparr>
   | Inr (Some d) \<Rightarrow> v\<lparr>ky_isLoading := False, ky_error := None, ky_status := Some (kd_status d), ky_expiry := kd_expiry d,
       ky_isValid := kd_isValid d, ky_requires := kd_requires d\<rparr>)"

definition initiateVerification :: "string + kyc_status option \<Rightarrow> kyc_view \<Rightarrow> kyc_view" where
  "initiateVerification r v = (case r of
     Inl msg \<Rightarrow> v\<lparr>ky_error := Some msg\<rparr>
   | Inr None \<Rightarrow> v\<lparr>ky_error := None\<rparr>
   | Inr (Some st) \<Rightarrow> v\<lparr>ky_error := None, ky_status := Some st\<rparr>)"

text \<open>The title and the action of the banner; \<open>millis\<close> is the time of a text, none for an invalid date.\<close>

definition getBannerConfig :: "kyc_status \<Rightarrow> (string \<times> string option) option" where
  "getBannerConfig st = (case st of
     KYC_UNVERIFIED \<Rightarrow> Some (''Verification Required'', Some ''Start Verification'')
   | KYC_PENDING \<Rightarrow> Some (''Verification Pending'', None)
   | KYC_REJECTED \<Rightarrow> Some (''Verification Rejected'', Some ''Contact Support'')
   | KYC_EXPIRED \<Rightarrow> Some (''Verification Expired'', Some ''Renew Verification'')
   | KYC_VERIFIED \<Rightarrow> None)"

definition kyc_banner :: "(string \<Rightarrow> int option) \<Rightarrow> int \<Rightarrow> bool \<Rightarrow> kyc_status \<Rightarrow> string option \<Rightarrow> (string \<times> string option) option" where
  "kyc_banner millis now dismissed st expiry =
     (if st = KYC_VERIFIED \<and> (expiry \<in> {None, Some []} \<or> (case millis (the expiry) of None \<Rightarrow> False | Some t \<Rightarrow> now < t)) then None
      else if dismissed then None else getBannerConfig st)"

definition kyc_container :: "(string \<Rightarrow> int option) \<Rightarrow> int \<Rightarrow> bool \<Rightarrow> kyc_view \<Rightarrow> (string \<times> string option) option" where
  "kyc_container millis now dismissed v = (if ky_isLoading v then None else (case ky_status v of
     None \<Rightarrow> None
   | Some st \<Rightarrow> if \<not> ky_requires v then None else kyc_banner millis now dismissed st (ky_expiry v)))"

text \<open>A verification that has run out shows no banner as long as its status says verified.\<close>

lemma outdated_verification_silent: "kyc_banner millis now dismissed KYC_VERIFIED expiry = None"
  by (simp add: kyc_banner_def getBannerConfig_def)

text \<open>Whoever's status cannot be loaded is not asked to verify.\<close>

lemma unknown_status_silent: "kyc_container millis now dismissed (fetchKycStatus (Inl msg) kyc_start) = None"
  by (simp add: kyc_container_def fetchKycStatus_def kyc_start_def)

section \<open>Votes\<close>

text \<open>The width of a part of the bar in percent, of all votes, each operation rounded.\<close>

definition vote_total :: "rat \<Rightarrow> rat \<Rightarrow> rat \<Rightarrow> rat" where
  "vote_total for' against abstain = fl64 (fl64 (for' + against) + abstain)"

definition vote_percent :: "rat \<Rightarrow> rat \<Rightarrow> rat" where
  "vote_percent v tot = (if 0 < tot then fl64 (fl64 (v / tot) * 100) else 0)"

definition participation :: "rat option \<Rightarrow> rat \<Rightarrow> rat option" where
  "participation votingPower tot = (case votingPower of None \<Rightarrow> None | Some p \<Rightarrow> if 0 < p then Some (fl64 (fl64 (tot / p) * 100)) else None)"

lemma vote_percent_range:
  assumes "0 \<le> v" "v \<le> tot"
  shows "0 \<le> vote_percent v tot \<and> vote_percent v tot \<le> 100"
proof (cases "0 < tot")
  case True
  have "0 \<le> fl64 (v / tot)" "fl64 (v / tot) \<le> 1"
    using js.fl_mono [of 0 "v / tot"] js.fl_mono [of "v / tot" 1] assms True by (simp_all add: fl64_0 fl64_1)
  then show ?thesis
    using js.fl_mono [of 0 "fl64 (v / tot) * 100"] js.fl_mono [of "fl64 (v / tot) * 100" 100] js.fl_int [of 100] True
    by (simp add: vote_percent_def fl64_0)
qed (simp add: vote_percent_def)

section \<open>Stellar helpers\<close>

text \<open>\<open>s.slice(-n)\<close> is the whole text for \<open>n = 0\<close>.\<close>

definition last_chars :: "nat \<Rightarrow> string \<Rightarrow> string" where
  "last_chars n s = (if n = 0 then s else drop (length s - n) s)"

definition shortenAddress :: "string \<Rightarrow> nat \<Rightarrow> string" where
  "shortenAddress address chars = (if address = [] then [] else take (chars + 2) address @ ''...'' @ last_chars chars address)"

datatype stellar_network = NET_TESTNET | NET_MAINNET

definition getExplorerUrl :: "string \<Rightarrow> stellar_network \<Rightarrow> string" where
  "getExplorerUrl txHash network =
     (if network = NET_TESTNET then ''https://stellar.expert/explorer/testnet/tx/'' else ''https://stellar.expert/explorer/public/tx/'') @ txHash"

definition isValidAddress :: "(string \<Rightarrow> bool) \<Rightarrow> string \<Rightarrow> bool" where
  "isValidAddress address_ok address = address_ok address"

definition toStellarAmount :: "(rat \<Rightarrow> string) \<Rightarrow> rat \<Rightarrow> string" where
  "toStellarAmount num_text amount = num_text (fl64 (amount * 10000000))"

text \<open>An error may be absent or have no message.\<close>

definition handleContractError :: "string option option \<Rightarrow> string" where
  "handleContractError error = (case error of
     Some (Some m) \<Rightarrow>
       if contains_text ''insufficient balance'' m then ''Insufficient balance for this transaction''
       else if contains_text ''unauthorized'' m then ''You are not authorized to perform this action''
       else if contains_text ''invalid amount'' m then ''Invalid amount specified''
       else if m = [] then ''An unexpected error occurred'' else m
   | _ \<Rightarrow> ''An unexpected error occurred'')"

text \<open>A short address is made longer, with its characters twice.\<close>

lemma shorten_lengthens:
  assumes "0 < chars" "chars \<le> length address"
  shows "length (shortenAddress address chars) = min (chars + 2) (length address) + 3 + chars"
  using assms by (auto simp: shortenAddress_def last_chars_def)

lemma contract_error_shown: "handleContractError e \<noteq> []"
  by (simp add: handleContractError_def split: option.split)

end
