(* ===== verification/Locale_View.thy ===== *)
theory Locale_View
  imports Onboarding
begin

text \<open>
  Languages and currencies of the web application: \<open>frontend/src/utils/i18n\<close> and
  \<open>components/i18n/LanguageProvider.tsx\<close>, with the locales of \<open>Proxy_Guard\<close>. The texts of
  numbers and dates are those of the browser's \<open>Intl\<close> and left out; translations are the
  JSON value of a file.
\<close>

section \<open>Locales\<close>

definition getDirection :: "string \<Rightarrow> string" where
  "getDirection l = (if l \<in> set rtlLocales then ''rtl'' else ''ltr'')"

text \<open>Direction and full locale.\<close>

definition localeConfig :: "(string \<times> string \<times> string) list" where
  "localeConfig =
    [(''en'', ''ltr'', ''en-US''), (''es'', ''ltr'', ''es-ES''), (''fr'', ''ltr'', ''fr-FR''), (''ar'', ''rtl'', ''ar-SA''),
     (''he'', ''rtl'', ''he-IL''), (''zh'', ''ltr'', ''zh-CN''), (''ja'', ''ltr'', ''ja-JP'')]"

text \<open>None for what an object inherits, a function, which has no locale.\<close>

definition getLocaleConfig :: "string \<Rightarrow> (string \<times> string) option" where
  "getLocaleConfig l = (case map_of localeConfig l of
     Some c \<Rightarrow> Some c
   | None \<Rightarrow> if l \<in> set object_prototype then None else map_of localeConfig ''en'')"

lemma directions_agree: "l \<in> set locales \<Longrightarrow> map_option fst (getLocaleConfig l) = Some (getDirection l) \<and> getDirection l = dir_of l"
  by (auto simp: locales_def getLocaleConfig_def localeConfig_def getDirection_def rtlLocales_def dir_of_def)

section \<open>Currencies\<close>

text \<open>Code and decimals.\<close>

definition currencyConfigs :: "(string \<times> nat) list" where
  "currencyConfigs = [(''USD'', 2), (''EUR'', 2), (''GBP'', 2), (''JPY'', 0), (''CNY'', 2), (''SAR'', 2), (''ILS'', 2), (''XLM'', 7)]"

definition exchangeRates :: "(string \<times> rat) list" where
  "exchangeRates = [(''USD'', 1), (''EUR'', fl64 (92 / 100)), (''GBP'', fl64 (79 / 100)), (''JPY'', 299 / 2), (''CNY'', fl64 (724 / 100)),
     (''SAR'', 15 / 4), (''ILS'', fl64 (368 / 100))]"

text \<open>\<open>exchangeRates[c] || 1\<close>; what an object inherits is no number.\<close>

definition rate_of :: "string \<Rightarrow> jsnum" where
  "rate_of c = (case map_of exchangeRates c of Some r \<Rightarrow> Fin r | None \<Rightarrow> if c \<in> set object_prototype then NaN else Fin 1)"

definition convertCurrency :: "rat \<Rightarrow> string \<Rightarrow> string \<Rightarrow> jsnum" where
  "convertCurrency v fromCurrency toCurrency = (case (rate_of fromCurrency, rate_of toCurrency) of
     (Fin fromRate, Fin toRate) \<Rightarrow> Fin (fl64 (fl64 (v / fromRate) * toRate)) | _ \<Rightarrow> NaN)"

definition getExchangeRate :: "string \<Rightarrow> string \<Rightarrow> jsnum" where
  "getExchangeRate fromCurrency toCurrency = (case (rate_of fromCurrency, rate_of toCurrency) of
     (Fin fromRate, Fin toRate) \<Rightarrow> Fin (fl64 (toRate / fromRate)) | _ \<Rightarrow> NaN)"

text \<open>Lumens have a configuration and no rate: one is converted as one dollar.\<close>

lemma lumen_as_dollar:
  "map_of currencyConfigs ''XLM'' = Some 7 \<and> convertCurrency v ''XLM'' c = convertCurrency v ''USD'' c \<and> getExchangeRate ''XLM'' c = getExchangeRate ''USD'' c"
  by (simp add: currencyConfigs_def convertCurrency_def getExchangeRate_def rate_of_def exchangeRates_def object_prototype_def)

section \<open>The store and the provider\<close>

record locale_store =
  ls_locale :: string
  ls_direction :: string
  ls_translations :: json
  ls_isLoading :: bool

definition locale_initial :: locale_store where
  "locale_initial = \<lparr>ls_locale = ''en'', ls_direction = ''ltr'', ls_translations = JObj [], ls_isLoading = True\<rparr>"

definition store_setLocale :: "string \<Rightarrow> locale_store \<Rightarrow> locale_store" where
  "store_setLocale l s = s\<lparr>ls_locale := l, ls_direction := (if l \<in> set rtlLocales then ''rtl'' else ''ltr'')\<rparr>"

text \<open>Only the locale is persisted; reading it back leaves the rest as it is.\<close>

definition locale_rehydrate :: "string \<Rightarrow> locale_store \<Rightarrow> locale_store" where
  "locale_rehydrate l s = s\<lparr>ls_locale := l\<rparr>"

text \<open>What the provider does to the page and to the browser.\<close>

record locale_page =
  lc_store :: locale_store
  lc_lang :: string
  lc_dir :: string
  lc_cookie :: "string option"
  lc_storage :: web_storage

text \<open>
  \<open>files\<close> are the translations that can be loaded; that of English always can. The effect
  runs once, with the locale the first rendering sees.
\<close>

definition initLocale :: "(string \<Rightarrow> json option) \<Rightarrow> locale_page \<Rightarrow> locale_page" where
  "initLocale files p =
     (let saved = (case items (lc_storage p) ''locale'' of None \<Rightarrow> [] | Some l \<Rightarrow> l);
          l = (if saved = [] \<or> saved \<notin> set locales then ''en'' else saved);
          s = store_setLocale l (lc_store p);
          msgs = (case files l of None \<Rightarrow> the (files ''en'') | Some m \<Rightarrow> m)
      in p\<lparr>lc_store := s\<lparr>ls_translations := msgs, ls_isLoading := False\<rparr>, lc_lang := l, lc_dir := getDirection l\<rparr>)"

definition provider_mount :: "(string \<Rightarrow> json option) \<Rightarrow> string \<Rightarrow> locale_page \<Rightarrow> locale_page" where
  "provider_mount files seen p = (if seen = [] \<or> seen = ''en'' then initLocale files p else p)"

definition provider_setLocale :: "(string \<Rightarrow> json option) \<Rightarrow> string \<Rightarrow> locale_page \<Rightarrow> locale_page" where
  "provider_setLocale files l p =
     (if l \<notin> set locales then p
      else (let s = store_setLocale l (lc_store p) in
        p\<lparr>lc_store := (case files l of None \<Rightarrow> s | Some m \<Rightarrow> s\<lparr>ls_translations := m\<rparr>), lc_lang := l, lc_dir := getDirection l,
          lc_storage := (lc_storage p)\<lparr>items := (items (lc_storage p))(''locale'' \<mapsto> l)\<rparr>, lc_cookie := Some l\<rparr>))"

definition locale_ok :: "locale_page \<Rightarrow> bool" where
  "locale_ok p \<longleftrightarrow> ls_locale (lc_store p) = lc_lang p \<and> lc_lang p \<in> set locales
     \<and> ls_direction (lc_store p) = getDirection (lc_lang p) \<and> lc_dir p = getDirection (lc_lang p)"

text \<open>The store, the attributes of the document and its direction agree, once the page is set up.\<close>

lemma locale_ok_init: "locale_ok (initLocale files p)"
  by (auto simp: locale_ok_def initLocale_def store_setLocale_def getDirection_def locales_def Let_def)

lemma locale_ok_set: "locale_ok p \<Longrightarrow> locale_ok (provider_setLocale files l p)"
  by (auto simp: locale_ok_def provider_setLocale_def store_setLocale_def getDirection_def Let_def split: option.split)

lemma locale_ok_run: "locale_ok (fold (provider_setLocale files) ls (initLocale files p))"
  by (induction ls rule: rev_induct) (simp_all add: locale_ok_init locale_ok_set)

text \<open>What was chosen is what the next visit starts with.\<close>

lemma locale_remembered:
  assumes "l \<in> set locales" and "lc_storage p' = lc_storage (provider_setLocale files l p)"
  shows "lc_lang (initLocale files p') = l \<and> lc_cookie (provider_setLocale files l p) = Some l"
  using assms by (auto simp: provider_setLocale_def initLocale_def locales_def Let_def)

text \<open>
  When the locale that is read back is there at the first rendering, nothing is set up: the
  direction stays that of English and the page says that it is loading.
\<close>

lemma restored_locale_not_loaded:
  assumes "seen \<noteq> []" "seen \<noteq> ''en''"
  shows "provider_mount files seen (p\<lparr>lc_store := locale_rehydrate seen locale_initial\<rparr>) = p\<lparr>lc_store := locale_rehydrate seen locale_initial\<rparr>
    \<and> ls_direction (locale_rehydrate seen locale_initial) = ''ltr'' \<and> ls_isLoading (locale_rehydrate seen locale_initial)"
  using assms by (simp add: provider_mount_def locale_rehydrate_def locale_initial_def)

section \<open>Translations\<close>

text \<open>Reading a property of a value; objects inherit functions.\<close>

datatype js_value = Undefined | Json_Value json | Inherited

fun read_prop :: "js_value \<Rightarrow> string \<Rightarrow> js_value" where
  "read_prop (Json_Value (JObj kvs)) k = (case map_of kvs k of Some v \<Rightarrow> Json_Value v | None \<Rightarrow> if k \<in> set object_prototype then Inherited else Undefined)"
| "read_prop (Json_Value (JArr xs)) k = (case map_of (spread (JArr xs)) k of Some v \<Rightarrow> Json_Value v | None \<Rightarrow> Undefined)"
| "read_prop _ k = Undefined"

text \<open>\<open>(value as string) || key\<close>; none for a function.\<close>

definition translate :: "json \<Rightarrow> string \<Rightarrow> json option" where
  "translate translations key = (case fold (\<lambda>k v. read_prop v k) (split_at (CHR ''.'') key) (Json_Value translations) of
     Inherited \<Rightarrow> None
   | Undefined \<Rightarrow> Some (JStr key)
   | Json_Value v \<Rightarrow> Some (if js_truthy v then v else JStr key))"

lemma read_undefined: "fold (\<lambda>k v. read_prop v k) ks Undefined = Undefined"
  by (induction ks) simp_all

text \<open>
  A text is translated by what is below its keys; when some key is missing (and is not the
  name of something every object has), the key itself is shown.
\<close>

lemma translate_found:
  assumes "split_at (CHR ''.'') key = [a, b]" and "map_of kvs a = Some (JObj kvs')" and "map_of kvs' b = Some (JStr s)" "s \<noteq> []"
  shows "translate (JObj kvs) key = Some (JStr s)"
  using assms by (simp add: translate_def)

lemma translate_missing:
  assumes "split_at (CHR ''.'') key = a # ks" and "map_of kvs a = None" and "a \<notin> set object_prototype"
  shows "translate (JObj kvs) key = Some (JStr key)"
  using assms by (simp add: translate_def read_undefined)

lemma translate_not_text: "translate (JObj [(''nav'', JObj [(''home'', JStr ''Start'')])]) ''nav'' = Some (JObj [(''home'', JStr ''Start'')])"
  by (simp add: translate_def)

end
