(* ===== verification/Web_Forms.thy ===== *)
theory Web_Forms
  imports Contact_Form Governance_View Onboarding Js_Parse
begin

text \<open>
  The forms of the web application that go on step by step: a new proposal
  (\<open>components/governance/ProposalForm.tsx\<close>), an escrow (\<open>components/escrows/EscrowForm.tsx\<close>), a
  tokenization with its documents (\<open>components/collateral/TokenizationForm.tsx\<close>,
  \<open>DocumentUpload.tsx\<close>) and an oracle (\<open>app/oracles/register/page.tsx\<close>); then the confirmation of an
  oracle (\<open>components/oracles/ConfirmationForm.tsx\<close>) and the two contact forms
  (\<open>components/marketing/ContactForm.tsx\<close>, \<open>components/contact/ContactSection.tsx\<close>). An event of a
  control that is not shown, or is disabled, does nothing.
\<close>

section \<open>Forms in steps\<close>

text \<open>
  What a page checks before the form goes on to the next one stays true on the pages after it, as
  its fields are shown on the page itself only.
\<close>

locale wizard =
  fixes step :: "'e \<Rightarrow> 's \<Rightarrow> 's"
    and page :: "'s \<Rightarrow> nat"
    and guard :: "nat \<Rightarrow> 's \<Rightarrow> bool"
  assumes kept: "n < page s \<Longrightarrow> n < page (step e s) \<Longrightarrow> guard n s \<Longrightarrow> guard n (step e s)"
    and entered: "n < page (step e s) \<Longrightarrow> \<not> n < page s \<Longrightarrow> guard n (step e s)"
begin

definition checked :: "'s \<Rightarrow> bool" where
  "checked s \<longleftrightarrow> (\<forall>n<page s. guard n s)"

lemma checked_start: "page s = 0 \<Longrightarrow> checked s"
  by (simp add: checked_def)

lemma checked_step: "checked s \<Longrightarrow> checked (step e s)"
  using kept entered unfolding checked_def by blast

lemma checked_run: "checked s \<Longrightarrow> checked (fold step es s)"
  by (induction es arbitrary: s) (simp_all add: checked_step)

lemma checked_past: "checked s \<Longrightarrow> n < page s \<Longrightarrow> guard n s"
  by (simp add: checked_def)

end

section \<open>A new proposal\<close>

record proposal_draft =
  pd_title :: string
  pd_description :: string
  pd_type :: string
  pd_duration :: int

definition EMPTY_draft :: proposal_draft where
  "EMPTY_draft = \<lparr>pd_title = [], pd_description = [], pd_type = ''Protocol Settings'', pd_duration = 7\<rparr>"

definition text_error :: "string \<Rightarrow> nat \<Rightarrow> string \<Rightarrow> string \<Rightarrow> string \<Rightarrow> (string \<times> string) list" where
  "text_error field least missing short v =
     (if js_trim v = [] then [(field, missing)] else if length (js_trim v) < least then [(field, short)] else [])"

definition validate_draft :: "proposal_draft \<Rightarrow> (string \<times> string) list" where
  "validate_draft d =
     text_error ''title'' 10 ''Title is required.'' ''Title must be at least 10 characters.'' (pd_title d)
     @ text_error ''description'' 30 ''Description is required.'' ''Description must be at least 30 characters.'' (pd_description d)
     @ (if pd_duration d < 1 \<or> 30 < pd_duration d then [(''duration'', ''Duration must be between 1 and 30 days.'')] else [])"

text \<open>\<open>parseInt(v) || 1\<close>\<close>

definition duration_of :: "string \<Rightarrow> int" where
  "duration_of v = (case js_parseInt v of None \<Rightarrow> 1 | Some n \<Rightarrow> if n = 0 then 1 else n)"

record proposal_form =
  pf_step :: nat
  pf_data :: proposal_draft
  pf_errors :: "(string \<times> string) list"
  pf_submitting :: bool
  pf_submitError :: "string option"
  pf_created :: "proposal_draft list" \<comment> \<open>the calls of \<open>createProposal\<close>, as a history\<close>
  pf_failed :: nat \<comment> \<open>how many of them failed\<close>

definition proposal_form_start :: proposal_form where
  "proposal_form_start = \<lparr>pf_step = 0, pf_data = EMPTY_draft, pf_errors = [], pf_submitting = False, pf_submitError = None,
     pf_created = [], pf_failed = 0\<rparr>"

datatype proposal_form_event = SET_TITLE string | SET_DESCRIPTION string | SET_TYPE string | SET_DURATION string
  | NEXT | EDIT | SUBMIT | CREATE_FAILED string

definition draft_event :: "proposal_form_event \<Rightarrow> proposal_draft \<Rightarrow> proposal_draft" where
  "draft_event e d = (case e of SET_TITLE v \<Rightarrow> d\<lparr>pd_title := v\<rparr> | SET_DESCRIPTION v \<Rightarrow> d\<lparr>pd_description := v\<rparr>
     | SET_TYPE v \<Rightarrow> d\<lparr>pd_type := v\<rparr> | SET_DURATION v \<Rightarrow> d\<lparr>pd_duration := duration_of v\<rparr> | _ \<Rightarrow> d)"

definition proposal_next :: "proposal_form \<Rightarrow> proposal_form" where
  "proposal_next s = (if validate_draft (pf_data s) \<noteq> [] then s\<lparr>pf_errors := validate_draft (pf_data s)\<rparr>
     else s\<lparr>pf_errors := [], pf_step := 1\<rparr>)"

definition proposal_submit :: "proposal_form \<Rightarrow> proposal_form" where
  "proposal_submit s = s\<lparr>pf_submitting := True, pf_submitError := None, pf_created := pf_created s @ [pf_data s]\<rparr>"

text \<open>A created proposal is opened: the form is left, with its buttons disabled.\<close>

fun proposal_form_step :: "proposal_form_event \<Rightarrow> proposal_form \<Rightarrow> proposal_form" where
  "proposal_form_step NEXT s = (if pf_step s = 0 then proposal_next s else s)"
| "proposal_form_step EDIT s = (if pf_step s = 1 \<and> \<not> pf_submitting s then s\<lparr>pf_step := 0\<rparr> else s)"
| "proposal_form_step SUBMIT s = (if pf_step s = 1 \<and> \<not> pf_submitting s then proposal_submit s else s)"
| "proposal_form_step (CREATE_FAILED msg) s =
     (if pf_submitting s then s\<lparr>pf_submitError := Some msg, pf_submitting := False, pf_failed := pf_failed s + 1\<rparr> else s)"
| "proposal_form_step e s = (if pf_step s = 0 then s\<lparr>pf_data := draft_event e (pf_data s)\<rparr> else s)"

interpretation proposal_wizard: wizard proposal_form_step pf_step "\<lambda>n s. validate_draft (pf_data s) = []"
proof
  fix n s e
  show "n < pf_step s \<Longrightarrow> n < pf_step (proposal_form_step e s) \<Longrightarrow> validate_draft (pf_data s) = []
    \<Longrightarrow> validate_draft (pf_data (proposal_form_step e s)) = []"
    by (cases e) (simp_all add: proposal_submit_def proposal_next_def)
  show "n < pf_step (proposal_form_step e s) \<Longrightarrow> \<not> n < pf_step s \<Longrightarrow> validate_draft (pf_data (proposal_form_step e s)) = []"
    by (cases e) (simp_all add: proposal_submit_def proposal_next_def split: if_splits)
qed

definition created_ok :: "proposal_form \<Rightarrow> bool" where
  "created_ok s \<longleftrightarrow> (\<forall>d\<in>set (pf_created s). validate_draft d = [])
     \<and> length (pf_created s) = pf_failed s + (if pf_submitting s then 1 else 0)"

lemma created_ok_step:
  assumes "created_ok s" and "proposal_wizard.checked s"
  shows "created_ok (proposal_form_step e s)"
proof (cases e)
  case SUBMIT
  then show ?thesis using assms proposal_wizard.checked_past [OF assms(2), of 0]
    by (simp add: created_ok_def proposal_submit_def)
qed (use assms(1) in \<open>simp_all add: created_ok_def proposal_next_def\<close>)

lemma created_ok_run: "created_ok s \<Longrightarrow> proposal_wizard.checked s \<Longrightarrow> created_ok (fold proposal_form_step es s)"
  by (induction es arbitrary: s) (simp_all add: created_ok_step proposal_wizard.checked_step)

lemma text_error_none: "text_error f n a b v = [] \<longleftrightarrow> js_trim v \<noteq> [] \<and> n \<le> length (js_trim v)"
  by (simp add: text_error_def)

lemma validate_draft_none:
  "validate_draft d = [] \<longleftrightarrow> 10 \<le> length (js_trim (pd_title d)) \<and> 30 \<le> length (js_trim (pd_description d))
     \<and> 1 \<le> pd_duration d \<and> pd_duration d \<le> 30"
  by (auto simp: validate_draft_def text_error_none)

definition proposal_of_draft :: "string \<Rightarrow> int \<Rightarrow> proposal_draft \<Rightarrow> web_proposal" where
  "proposal_of_draft new_id now d = new_proposal new_id now (pd_title d) (pd_description d) (pd_type d) (of_int (pd_duration d))"

lemma expires_exact:
  assumes "0 \<le> now" and "now \<le> 2 ^ 52" and "0 \<le> n" and "n \<le> 30"
  shows "fl64 (of_int now + fl64 (86400000 * of_int n)) = of_int (now + 86400000 * n)"
proof -
  have "fl64 (86400000 * of_int n) = of_int (86400000 * n)"
    using js.fl_int [of "86400000 * n"] assms(3,4) by simp
  moreover have "fl64 (of_int (now + 86400000 * n)) = of_int (now + 86400000 * n)"
    by (rule js.fl_int) (use assms in simp)
  ultimately show ?thesis by simp
qed


text \<open>
  Every proposal the form creates passed its validation: a title of at least 10 and a
  description of at least 30 characters without the spaces around them, and it ends 1 to 30 days
  after it was made. One is created at a time: a new attempt follows only a failed one.
\<close>

theorem proposals_valid:
  assumes "d \<in> set (pf_created (fold proposal_form_step es proposal_form_start))" and "0 \<le> now" and "now \<le> 2 ^ 52"
  shows "10 \<le> length (js_trim (wp_title (proposal_of_draft i now d))) \<and> 30 \<le> length (js_trim (wp_description (proposal_of_draft i now d)))
    \<and> wp_expiresAt (proposal_of_draft i now d) = of_int (now + 86400000 * pd_duration d)
    \<and> 1 \<le> pd_duration d \<and> pd_duration d \<le> 30
    \<and> length (pf_created (fold proposal_form_step es proposal_form_start))
        \<le> pf_failed (fold proposal_form_step es proposal_form_start) + 1"
proof -
  have "created_ok (fold proposal_form_step es proposal_form_start)"
    by (intro created_ok_run proposal_wizard.checked_start) (simp_all add: proposal_form_start_def created_ok_def)
  then have "validate_draft d = []"
      and n: "length (pf_created (fold proposal_form_step es proposal_form_start)) \<le> pf_failed (fold proposal_form_step es proposal_form_start) + 1"
    using assms(1) by (simp_all add: created_ok_def split: if_splits)
  then have d: "10 \<le> length (js_trim (pd_title d)) \<and> 30 \<le> length (js_trim (pd_description d)) \<and> 1 \<le> pd_duration d \<and> pd_duration d \<le> 30"
    by (simp add: validate_draft_none)
  then have "fl64 (of_int now + fl64 (86400000 * of_int (pd_duration d))) = of_int (now + 86400000 * pd_duration d)"
    using assms(2,3) by (intro expires_exact) simp_all
  with d n show ?thesis by (simp add: proposal_of_draft_def new_proposal_def)
qed

definition demo_title :: string where "demo_title = ''Raise the reward''"

definition demo_description :: string where "demo_description = ''The reward of the pool is too low.''"

definition demo_proposal :: "proposal_form_event list" where
  "demo_proposal = [SET_TITLE demo_title, SET_DESCRIPTION demo_description, NEXT, SUBMIT, CREATE_FAILED ''signing'', SUBMIT]"

lemma demo_proposal_created:
  "pf_created (fold proposal_form_step demo_proposal proposal_form_start)
     = replicate 2 \<lparr>pd_title = demo_title, pd_description = demo_description, pd_type = ''Protocol Settings'', pd_duration = 7\<rparr>"
  by code_simp

theorem proposals_valid_witness:
  "wp_expiresAt (proposal_of_draft ''x'' 1000 (hd (pf_created (fold proposal_form_step demo_proposal proposal_form_start))))
     = of_int (1000 + 86400000 * pd_duration (hd (pf_created (fold proposal_form_step demo_proposal proposal_form_start))))"
  using proposals_valid [of "hd (pf_created (fold proposal_form_step demo_proposal proposal_form_start))" demo_proposal 1000 "''x''"]
  by (simp add: demo_proposal_created)

section \<open>An escrow\<close>

record escrow_form =
  ef_step :: nat
  ef_buyer :: string
  ef_seller :: string
  ef_amount :: string
  ef_asset :: string
  ef_dueDate :: string
  ef_route :: string
  ef_oracle :: string

definition escrow_form_start :: escrow_form where
  "escrow_form_start = \<lparr>ef_step = 0, ef_buyer = [], ef_seller = [], ef_amount = [], ef_asset = ''USDC'', ef_dueDate = [],
     ef_route = [], ef_oracle = ''Shipment Oracle A''\<rparr>"

text \<open>\<open>parse\<close> stands for \<open>Number\<close> of a text.\<close>

definition positive_number :: "(string \<Rightarrow> jsnum) \<Rightarrow> string \<Rightarrow> bool" where
  "positive_number parse t = (case parse t of Fin x \<Rightarrow> 0 < x | Infinity \<Rightarrow> True | _ \<Rightarrow> False)"

definition canContinue :: "(string \<Rightarrow> jsnum) \<Rightarrow> nat \<Rightarrow> escrow_form \<Rightarrow> bool" where
  "canContinue parse n s =
     (if n = 0 then 2 < length (ef_buyer s) \<and> 2 < length (ef_seller s)
      else if n = 1 then positive_number parse (ef_amount s) \<and> ef_dueDate s \<noteq> [] \<and> 2 < length (ef_route s)
      else True)"

datatype escrow_field = BUYER_FIELD | SELLER_FIELD | AMOUNT_FIELD | ASSET_FIELD | DUE_FIELD | ROUTE_FIELD | ORACLE_FIELD

fun escrow_field_page :: "escrow_field \<Rightarrow> nat" where
  "escrow_field_page BUYER_FIELD = 0"
| "escrow_field_page SELLER_FIELD = 0"
| "escrow_field_page _ = 1"

fun updateField :: "escrow_field \<Rightarrow> string \<Rightarrow> escrow_form \<Rightarrow> escrow_form" where
  "updateField BUYER_FIELD v s = s\<lparr>ef_buyer := v\<rparr>"
| "updateField SELLER_FIELD v s = s\<lparr>ef_seller := v\<rparr>"
| "updateField AMOUNT_FIELD v s = s\<lparr>ef_amount := v\<rparr>"
| "updateField ASSET_FIELD v s = s\<lparr>ef_asset := v\<rparr>"
| "updateField DUE_FIELD v s = s\<lparr>ef_dueDate := v\<rparr>"
| "updateField ROUTE_FIELD v s = s\<lparr>ef_route := v\<rparr>"
| "updateField ORACLE_FIELD v s = s\<lparr>ef_oracle := v\<rparr>"

datatype escrow_form_event = FIELD escrow_field string | BACK | CONTINUE

text \<open>On the last page the button \<open>Create escrow\<close> has nothing to do.\<close>

fun escrow_form_step :: "(string \<Rightarrow> jsnum) \<Rightarrow> escrow_form_event \<Rightarrow> escrow_form \<Rightarrow> escrow_form" where
  "escrow_form_step parse (FIELD f v) s = (if escrow_field_page f = ef_step s then updateField f v s else s)"
| "escrow_form_step parse BACK s = (if ef_step s = 0 then s else s\<lparr>ef_step := ef_step s - 1\<rparr>)"
| "escrow_form_step parse CONTINUE s =
     (if \<not> canContinue parse (ef_step s) s then s else if ef_step s = 2 then s else s\<lparr>ef_step := ef_step s + 1\<rparr>)"

interpretation escrow_wizard: wizard "escrow_form_step parse" ef_step "canContinue parse" for parse
proof
  fix n s e
  show "n < ef_step s \<Longrightarrow> n < ef_step (escrow_form_step parse e s) \<Longrightarrow> canContinue parse n s
    \<Longrightarrow> canContinue parse n (escrow_form_step parse e s)"
  proof (cases e)
    case (FIELD f v)
    then show "n < ef_step s \<Longrightarrow> canContinue parse n s \<Longrightarrow> ?thesis" by (cases f) (simp_all add: canContinue_def)
  qed (simp_all add: canContinue_def)
  show "n < ef_step (escrow_form_step parse e s) \<Longrightarrow> \<not> n < ef_step s \<Longrightarrow> canContinue parse n (escrow_form_step parse e s)"
  proof (cases e)
    case (FIELD f v)
    then show "n < ef_step (escrow_form_step parse e s) \<Longrightarrow> \<not> n < ef_step s \<Longrightarrow> ?thesis" by (cases f) (simp_all split: if_splits)
  next
    case CONTINUE
    assume "n < ef_step (escrow_form_step parse e s)" "\<not> n < ef_step s"
    with CONTINUE have "n = ef_step s" "canContinue parse (ef_step s) s" by (simp_all split: if_splits)
    with CONTINUE show ?thesis by (simp add: canContinue_def)
  qed (simp split: if_splits)
qed

text \<open>The review page shows a complete escrow, and leaving it with \<open>Create escrow\<close> does nothing.\<close>

lemma escrow_never_created:
  assumes "ef_step (fold (escrow_form_step parse) es escrow_form_start) = 2" (is "ef_step ?s = 2")
  shows "canContinue parse 0 ?s \<and> canContinue parse 1 ?s \<and> escrow_form_step parse CONTINUE ?s = ?s"
proof -
  have "escrow_wizard.checked parse ?s"
    by (intro escrow_wizard.checked_run escrow_wizard.checked_start) (simp add: escrow_form_start_def)
  from escrow_wizard.checked_past [OF this, of 0] escrow_wizard.checked_past [OF this, of 1]
  show ?thesis using assms by (simp del: fold_simps)
qed

section \<open>Documents\<close>

text \<open>
  \<open>btoa\<close>, base64 with padding. It throws for a character beyond Latin-1; the characters here are
  those within.
\<close>

definition base64_alphabet :: string where
  "base64_alphabet = ''ABCDEFGHIJKLMNOPQRSTUVWXYZabcdefghijklmnopqrstuvwxyz0123456789+/''"

definition b64 :: "nat \<Rightarrow> char" where
  "b64 n = base64_alphabet ! n"

definition b64_group :: "nat \<Rightarrow> nat \<Rightarrow> nat \<Rightarrow> string" where
  "b64_group a b c = [b64 (a div 4), b64 (a mod 4 * 16 + b div 16), b64 (b mod 16 * 4 + c div 64), b64 (c mod 64)]"

fun btoa :: "string \<Rightarrow> string" where
  "btoa (a # b # c # r) = b64_group (of_char a) (of_char b) (of_char c) @ btoa r"
| "btoa [a, b] = take 3 (b64_group (of_char a) (of_char b) 0) @ ''=''"
| "btoa [a] = take 2 (b64_group (of_char a) 0 0) @ ''==''"
| "btoa [] = []"

record upload =
  up_name :: string
  up_type :: string
  up_size :: nat

record stored_document =
  sd_name :: string
  sd_hash :: string
  sd_mimeType :: string
  sd_size :: nat

definition ACCEPTED_TYPES :: "string list" where
  "ACCEPTED_TYPES = [''application/pdf'', ''image/jpeg'', ''image/png'', ''image/webp'']"

definition MAX_SIZE_MB :: nat where "MAX_SIZE_MB = 10"

definition document_key :: "upload \<Rightarrow> string" where
  "document_key f = up_name f @ digits (up_size f)"

definition document_hash :: "upload \<Rightarrow> string" where
  "document_hash f = ''Qm'' @ take 20 (btoa (document_key f))"

definition document_of :: "upload \<Rightarrow> stored_document" where
  "document_of f = \<lparr>sd_name = up_name f, sd_hash = document_hash f, sd_mimeType = up_type f, sd_size = up_size f\<rparr>"

definition file_error :: "upload \<Rightarrow> string option" where
  "file_error f =
     (if up_type f \<notin> set ACCEPTED_TYPES then Some (''Unsupported format: '' @ up_name f @ ''. Use PDF or images.'')
      else if MAX_SIZE_MB * 1024 * 1024 < up_size f then Some (up_name f @ '' exceeds '' @ digits MAX_SIZE_MB @ ''MB limit.'')
      else None)"

text \<open>The error shown, that of the last refused file, and the documents if there is a new one.\<close>

definition processFiles :: "upload list \<Rightarrow> stored_document list \<Rightarrow> string option \<times> stored_document list" where
  "processFiles fs docs =
     (fold (\<lambda>f e. case file_error f of None \<Rightarrow> e | Some m \<Rightarrow> Some m) fs None,
      docs @ map document_of (filter (\<lambda>f. file_error f = None) fs))"

definition remove_document :: "string \<Rightarrow> stored_document list \<Rightarrow> stored_document list" where
  "remove_document h docs = filter (\<lambda>d. sd_hash d \<noteq> h) docs"

lemma base64_alphabet_distinct: "distinct base64_alphabet"
  by code_simp

lemma b64_inject: "m < 64 \<Longrightarrow> n < 64 \<Longrightarrow> b64 m = b64 n \<longleftrightarrow> m = n"
  unfolding b64_def by (rule nth_eq_iff_index_eq [OF base64_alphabet_distinct]) (simp_all add: base64_alphabet_def)

lemma mixed_inject: "q < k \<Longrightarrow> q' < k \<Longrightarrow> p * k + q = p' * k + q' \<longleftrightarrow> p = p' \<and> q = q'" for k :: nat
proof
  assume "p * k + q = p' * k + q'" and *: "q < k" "q' < k"
  then have "(p * k + q) div k = (p' * k + q') div k \<and> (p * k + q) mod k = (p' * k + q') mod k" by simp
  then show "p = p' \<and> q = q'" using * by simp
qed simp

lemma div_mod_same: "x div k = y div k \<Longrightarrow> x mod k = y mod k \<Longrightarrow> x = y" for k :: nat
  by (metis div_mult_mod_eq)

lemma b64_group_inject:
  assumes "a < 256" "b < 256" "c < 256" "a' < 256" "b' < 256" "c' < 256"
  shows "b64_group a b c = b64_group a' b' c' \<longleftrightarrow> a = a' \<and> b = b' \<and> c = c'"
proof
  have small: "x div 4 < 64" "x mod 4 * 16 + y div 16 < 64" "y mod 16 * 4 + x div 64 < 64" "x div 64 < 4" "y div 16 < 16"
    if "x < 256" "y < 256" for x y :: nat
  proof -
    show 1: "x div 4 < 64" "x div 64 < 4" "y div 16 < 16" using that by (simp_all add: less_mult_imp_div_less)
    have "x mod 4 < 4" "y mod 16 < 16" by simp_all
    with 1 show "x mod 4 * 16 + y div 16 < 64" "y mod 16 * 4 + x div 64 < 64" by linarith+
  qed
  assume "b64_group a b c = b64_group a' b' c'"
  then have "a div 4 = a' div 4" "a mod 4 * 16 + b div 16 = a' mod 4 * 16 + b' div 16"
      "b mod 16 * 4 + c div 64 = b' mod 16 * 4 + c' div 64" "c mod 64 = c' mod 64"
    using assms by (simp_all add: b64_group_def b64_inject small)
  with assms have "a div 4 = a' div 4" "a mod 4 = a' mod 4" "b div 16 = b' div 16" "b mod 16 = b' mod 16"
      "c div 64 = c' div 64" "c mod 64 = c' mod 64"
    using mixed_inject [of "b div 16" 16 "b' div 16" "a mod 4" "a' mod 4"]
      mixed_inject [of "c div 64" 4 "c' div 64" "b mod 16" "b' mod 16"] small by auto
  then show "a = a' \<and> b = b' \<and> c = c'" by (blast intro: div_mod_same)
qed simp

lemma length_b64_group [simp]: "length (b64_group a b c) = 4"
  by (simp add: b64_group_def)

lemma three_chars: "3 * Suc n \<le> length s \<Longrightarrow> \<exists>a b c r. s = a # b # c # r"
  by (cases s; cases "tl s"; cases "tl (tl s)") auto

lemma btoa_take: "3 * n \<le> length s \<Longrightarrow> take (4 * n) (btoa s) = btoa (take (3 * n) s)"
proof (induction n arbitrary: s)
  case (Suc n)
  then obtain a b c r where "s = a # b # c # r" using three_chars by blast
  moreover have "take (3 * Suc n) (a # b # c # r) = a # b # c # take (3 * n) r" by (simp add: numeral_3_eq_3)
  ultimately show ?case using Suc by (simp del: take_Cons_numeral)
qed simp

lemma btoa_inject: "length s = 3 * n \<Longrightarrow> length t = 3 * n \<Longrightarrow> btoa s = btoa t \<longleftrightarrow> s = t"
proof (induction n arbitrary: s t)
  case (Suc n)
  obtain a b c r where s: "s = a # b # c # r" using Suc.prems three_chars [of n s] by auto
  obtain a' b' c' r' where t: "t = a' # b' # c' # r'" using Suc.prems three_chars [of n t] by auto
  show ?case using Suc.IH [of r r'] Suc.prems by (simp add: s t b64_group_inject of_char_eq_iff)
qed simp

text \<open>Two documents with long enough names have the same hash exactly if these agree in 15 characters.\<close>

lemma same_hash_iff:
  assumes "15 \<le> length (document_key f)" and "15 \<le> length (document_key g)"
  shows "document_hash f = document_hash g \<longleftrightarrow> take 15 (document_key f) = take 15 (document_key g)"
proof -
  have "take 20 (btoa (document_key x)) = btoa (take 15 (document_key x))" if "15 \<le> length (document_key x)" for x
    using btoa_take [of 5 "document_key x"] that by simp
  moreover have "btoa (take 15 (document_key f)) = btoa (take 15 (document_key g)) \<longleftrightarrow> take 15 (document_key f) = take 15 (document_key g)"
    by (rule btoa_inject [of _ 5]) (use assms in simp_all)
  ultimately show ?thesis using assms by (simp add: document_hash_def)
qed

section \<open>A tokenization\<close>

record tokenize_request =
  tr_assetType :: string
  tr_amount :: jsnum
  tr_description :: string
  tr_issuer :: string
  tr_documents :: "stored_document list"

record tokenization =
  tk_step :: nat
  tk_assetType :: string
  tk_amount :: string
  tk_description :: string
  tk_issuer :: string
  tk_documents :: "stored_document list"
  tk_uploadError :: "string option" \<comment> \<open>of the list of documents, forgotten when its page is left\<close>
  tk_done :: bool
  tk_error :: "string option"
  tk_loading :: bool \<comment> \<open>set by \<open>tokenizeAsset\<close> while its request runs\<close>
  tk_sent :: "tokenize_request list" \<comment> \<open>the requests, as a history\<close>

definition tokenization_start :: tokenization where
  "tokenization_start = \<lparr>tk_step = 0, tk_assetType = ''INVOICE'', tk_amount = [], tk_description = [], tk_issuer = [],
     tk_documents = [], tk_uploadError = None, tk_done = False, tk_error = None, tk_loading = False, tk_sent = []\<rparr>"

text \<open>A number field holds no text, or a text that is a finite number; \<open>!amount || Number(amount) <= 0\<close>.\<close>

definition number_field :: "(string \<Rightarrow> jsnum) \<Rightarrow> string \<Rightarrow> bool" where
  "number_field parse t \<longleftrightarrow> t = [] \<or> (case parse t of Fin _ \<Rightarrow> True | _ \<Rightarrow> False)"

definition amount_refused :: "(string \<Rightarrow> jsnum) \<Rightarrow> string \<Rightarrow> bool" where
  "amount_refused parse t \<longleftrightarrow> t = [] \<or> (case parse t of Fin x \<Rightarrow> x \<le> 0 | NegInfinity \<Rightarrow> True | _ \<Rightarrow> False)"

datatype tokenization_event = TK_TYPE string | TK_AMOUNT string | TK_DESCRIPTION string | TK_ISSUER string
  | TK_NEXT | TK_BACK | TK_FILES "upload list" | TK_REMOVE string | TK_SUBMIT | TK_DONE | TK_FAILED string

definition tk_page :: "nat \<Rightarrow> tokenization \<Rightarrow> tokenization" where
  "tk_page n s = s\<lparr>tk_step := n, tk_uploadError := None\<rparr>"

definition tk_forward :: "(string \<Rightarrow> jsnum) \<Rightarrow> tokenization \<Rightarrow> tokenization" where
  "tk_forward parse s =
     (if tk_step s = 0 then (if amount_refused parse (tk_amount s) then s else tk_page 1 (s\<lparr>tk_error := None\<rparr>))
      else if tk_step s = 1 then
        (if tk_documents s = [] then s\<lparr>tk_error := Some ''Upload at least one supporting document before reviewing.''\<rparr>
         else tk_page 2 (s\<lparr>tk_error := None\<rparr>))
      else s)"

text \<open>\<open>onChange\<close> of the list of documents\<close>

definition setDocuments :: "stored_document list \<Rightarrow> tokenization \<Rightarrow> tokenization" where
  "setDocuments docs s = s\<lparr>tk_documents := docs, tk_error := if docs = [] then tk_error s else None\<rparr>"

definition tokenize_submit :: "(string \<Rightarrow> jsnum) \<Rightarrow> tokenization \<Rightarrow> tokenization" where
  "tokenize_submit parse s =
     (if tk_documents s = []
      then tk_page 1 (s\<lparr>tk_error := Some ''Upload at least one supporting document before tokenizing.''\<rparr>)
      else s\<lparr>tk_error := None, tk_loading := True, tk_sent := tk_sent s @ [\<lparr>tr_assetType = tk_assetType s,
             tr_amount = parse (tk_amount s), tr_description = tk_description s, tr_issuer = tk_issuer s,
             tr_documents = tk_documents s\<rparr>]\<rparr>)"

text \<open>The controls of the pages; once the asset is tokenized none is shown.\<close>

fun tk_control :: "(string \<Rightarrow> jsnum) \<Rightarrow> tokenization_event \<Rightarrow> tokenization \<Rightarrow> tokenization" where
  "tk_control parse (TK_TYPE v) s = (if tk_step s = 0 then s\<lparr>tk_assetType := v\<rparr> else s)"
| "tk_control parse (TK_AMOUNT v) s = (if tk_step s = 0 \<and> number_field parse v then s\<lparr>tk_amount := v\<rparr> else s)"
| "tk_control parse (TK_DESCRIPTION v) s = (if tk_step s = 0 then s\<lparr>tk_description := v\<rparr> else s)"
| "tk_control parse (TK_ISSUER v) s = (if tk_step s = 0 then s\<lparr>tk_issuer := v\<rparr> else s)"
| "tk_control parse TK_NEXT s = tk_forward parse s"
| "tk_control parse TK_BACK s = (if tk_step s = 0 then s else tk_page (tk_step s - 1) s)"
| "tk_control parse (TK_FILES fs) s = (if tk_step s \<noteq> 1 then s else
     (let (e, docs) = processFiles fs (tk_documents s); s' = s\<lparr>tk_uploadError := e\<rparr> in
      if \<forall>f\<in>set fs. file_error f \<noteq> None then s' else setDocuments docs s'))"
| "tk_control parse (TK_REMOVE h) s = (if tk_step s = 1 then setDocuments (remove_document h (tk_documents s)) s else s)"
| "tk_control parse TK_SUBMIT s = (if tk_step s = 2 \<and> \<not> tk_loading s then tokenize_submit parse s else s)"
| "tk_control parse TK_DONE s = (if tk_loading s then s\<lparr>tk_loading := False, tk_done := True\<rparr> else s)"
| "tk_control parse (TK_FAILED msg) s = (if tk_loading s then s\<lparr>tk_loading := False, tk_error := Some msg\<rparr> else s)"

definition tokenization_step :: "(string \<Rightarrow> jsnum) \<Rightarrow> tokenization_event \<Rightarrow> tokenization \<Rightarrow> tokenization" where
  "tokenization_step parse e s = (if tk_done s then s else tk_control parse e s)"

definition tk_guard :: "(string \<Rightarrow> jsnum) \<Rightarrow> nat \<Rightarrow> tokenization \<Rightarrow> bool" where
  "tk_guard parse n s = (if n = 0 then \<not> amount_refused parse (tk_amount s) else if n = 1 then tk_documents s \<noteq> [] else True)"

lemmas tk_defs = tk_page_def tk_forward_def setDocuments_def tokenize_submit_def tk_guard_def

lemma tk_kept:
  "n < tk_step s \<Longrightarrow> n < tk_step (tk_control parse e s) \<Longrightarrow> tk_guard parse n s \<Longrightarrow> tk_guard parse n (tk_control parse e s)"
  by (cases e) (auto simp: tk_defs Let_def split: prod.split if_splits)

lemma tk_entered:
  "n < tk_step (tk_control parse e s) \<Longrightarrow> \<not> n < tk_step s \<Longrightarrow> tk_guard parse n (tk_control parse e s)"
  by (cases e) (auto simp: tk_defs Let_def split: prod.split if_splits)

interpretation tk_wizard: wizard "tokenization_step parse" tk_step "tk_guard parse" for parse
  by unfold_locales (auto simp: tokenization_step_def intro: tk_kept tk_entered split: if_splits)

text \<open>The documents come from accepted files, and every request is complete.\<close>

definition document_ok :: "stored_document \<Rightarrow> bool" where
  "document_ok d \<longleftrightarrow> sd_mimeType d \<in> set ACCEPTED_TYPES \<and> sd_size d \<le> MAX_SIZE_MB * 1024 * 1024"

definition request_ok :: "tokenize_request \<Rightarrow> bool" where
  "request_ok r \<longleftrightarrow> (case tr_amount r of Fin x \<Rightarrow> 0 < x | _ \<Rightarrow> False) \<and> tr_documents r \<noteq> [] \<and> list_all document_ok (tr_documents r)"

definition tokenization_ok :: "(string \<Rightarrow> jsnum) \<Rightarrow> tokenization \<Rightarrow> bool" where
  "tokenization_ok parse s \<longleftrightarrow> number_field parse (tk_amount s) \<and> list_all document_ok (tk_documents s) \<and> list_all request_ok (tk_sent s)"

lemma document_of_ok: "file_error f = None \<Longrightarrow> document_ok (document_of f)"
  by (simp add: file_error_def document_ok_def document_of_def split: if_splits)

lemma processFiles_ok: "list_all document_ok docs \<Longrightarrow> list_all document_ok (snd (processFiles fs docs))"
  by (auto simp: processFiles_def list_all_iff document_of_ok)

lemma submit_ok:
  assumes "tokenization_ok parse s" and "tk_guard parse 0 s"
  shows "tokenization_ok parse (tokenize_submit parse s)"
  using assms by (cases "parse (tk_amount s)") 
    (auto simp: tokenization_ok_def tokenize_submit_def tk_page_def tk_guard_def request_ok_def number_field_def amount_refused_def)

lemma control_ok:
  assumes ok: "tokenization_ok parse s" and passed: "tk_wizard.checked parse s"
  shows "tokenization_ok parse (tk_control parse e s)"
proof (cases e)
  case (TK_FILES fs)
  obtain err docs where p: "processFiles fs (tk_documents s) = (err, docs)" by fastforce
  have "list_all document_ok docs" using processFiles_ok [of "tk_documents s" fs] ok p by (simp add: tokenization_ok_def)
  then show ?thesis using ok TK_FILES by (simp add: p Let_def tokenization_ok_def setDocuments_def)
next
  case (TK_REMOVE h)
  then show ?thesis using ok by (simp add: tokenization_ok_def setDocuments_def remove_document_def list_all_iff)
next
  case TK_SUBMIT
  then show ?thesis using ok submit_ok tk_wizard.checked_past [OF passed, of 0] by simp
qed (use ok in \<open>simp_all add: tokenization_ok_def tk_forward_def tk_page_def\<close>)

lemma tokenization_run:
  "tokenization_ok parse s \<Longrightarrow> tk_wizard.checked parse s \<Longrightarrow> tokenization_ok parse (fold (tokenization_step parse) es s)"
proof (induction es arbitrary: s)
  case (Cons e es)
  then have "tokenization_ok parse (tokenization_step parse e s)" by (simp add: tokenization_step_def control_ok)
  then show ?case using Cons by (simp add: tk_wizard.checked_step)
qed simp

text \<open>
  C38. However a tokenization is filled in, and going back and forth, every request for it has a
  positive amount and at least one document, all of them of an accepted type and of at most 10 MB.
\<close>

theorem tokenizations_complete:
  assumes "r \<in> set (tk_sent (fold (tokenization_step parse) es tokenization_start))"
  shows "(\<exists>x. tr_amount r = Fin x \<and> 0 < x) \<and> tr_documents r \<noteq> []
    \<and> (\<forall>d\<in>set (tr_documents r). sd_mimeType d \<in> set ACCEPTED_TYPES \<and> sd_size d \<le> 10485760)"
proof -
  have "tokenization_ok parse (fold (tokenization_step parse) es tokenization_start)"
    by (intro tokenization_run tk_wizard.checked_start)
      (simp_all add: tokenization_start_def tokenization_ok_def number_field_def)
  with assms have "request_ok r" by (simp add: tokenization_ok_def list_all_iff)
  then show ?thesis
    by (cases "tr_amount r") (simp_all add: request_ok_def list_all_iff document_ok_def MAX_SIZE_MB_def)
qed

definition demo_parse :: "string \<Rightarrow> jsnum" where
  "demo_parse t = (if t = ''500'' then Fin 500 else NaN)"

definition demo_tokenization :: "tokenization_event list" where
  "demo_tokenization = [TK_AMOUNT ''500'', TK_NEXT, TK_FILES [\<lparr>up_name = ''a.pdf'', up_type = ''application/pdf'', up_size = 9\<rparr>],
     TK_NEXT, TK_SUBMIT]"

lemma demo_tokenization_sent:
  "tk_sent (fold (tokenization_step demo_parse) demo_tokenization tokenization_start)
     = [\<lparr>tr_assetType = ''INVOICE'', tr_amount = Fin 500, tr_description = [], tr_issuer = [],
         tr_documents = [document_of \<lparr>up_name = ''a.pdf'', up_type = ''application/pdf'', up_size = 9\<rparr>]\<rparr>]"
  by (simp add: demo_tokenization_def tokenization_step_def tokenization_start_def tk_defs number_field_def amount_refused_def
      demo_parse_def processFiles_def file_error_def ACCEPTED_TYPES_def MAX_SIZE_MB_def)

theorem tokenizations_complete_witness:
  "\<exists>r. r \<in> set (tk_sent (fold (tokenization_step demo_parse) demo_tokenization tokenization_start))
    \<and> (\<exists>x. tr_amount r = Fin x \<and> 0 < x)"
proof -
  have "hd (tk_sent (fold (tokenization_step demo_parse) demo_tokenization tokenization_start))
      \<in> set (tk_sent (fold (tokenization_step demo_parse) demo_tokenization tokenization_start))"
    by (simp add: demo_tokenization_sent)
  from this tokenizations_complete [OF this] show ?thesis by blast
qed

text \<open>
  C40. The hash under which a document is stored and removed is made of the first 15 characters of
  its name and size: of documents added after others, removing one also removes each that agrees
  with it there, and keeps each that does not.
\<close>

theorem namesakes_removed_together:
  assumes "g \<in> set fs" and "file_error g = None"
    and "15 \<le> length (document_key f)" and "15 \<le> length (document_key g)"
  shows "document_of g \<in> set (remove_document (document_hash f) (snd (processFiles fs docs)))
    \<longleftrightarrow> take 15 (document_key f) \<noteq> take 15 (document_key g)"
proof -
  have "document_of g \<in> set (snd (processFiles fs docs))" using assms(1,2) by (auto simp: processFiles_def)
  moreover have "sd_hash (document_of g) = document_hash g" by (simp add: document_of_def)
  ultimately show ?thesis using same_hash_iff [OF assms(3,4)] by (auto simp: remove_document_def)
qed

definition demo_file :: "char \<Rightarrow> upload" where
  "demo_file c = \<lparr>up_name = ''invoice-2026-01-'' @ [c] @ ''.pdf'', up_type = ''application/pdf'', up_size = 7\<rparr>"

theorem namesakes_removed_together_witness:
  "document_of (demo_file (CHR ''2''))
    \<notin> set (remove_document (document_hash (demo_file (CHR ''1''))) (snd (processFiles [demo_file (CHR ''1''), demo_file (CHR ''2'')] [])))"
  using namesakes_removed_together [of "demo_file (CHR ''2'')" "[demo_file (CHR ''1''), demo_file (CHR ''2'')]" "demo_file (CHR ''1'')" "[]"]
  by (simp add: demo_file_def document_key_def file_error_def ACCEPTED_TYPES_def MAX_SIZE_MB_def)

section \<open>An oracle\<close>

record oracle_request =
  or_address :: string
  or_type :: string
  or_stake :: "jsnum option"
  or_assetCode :: string

record oracle_form =
  of_step :: nat
  of_address :: string
  of_type :: string
  of_stakeAmount :: string
  of_assetCode :: string
  of_error :: "string option"
  of_loading :: bool
  of_done :: bool
  of_sent :: "oracle_request list"

definition oracle_form_start :: oracle_form where
  "oracle_form_start = \<lparr>of_step = 0, of_address = [], of_type = ''GENERAL'', of_stakeAmount = [], of_assetCode = ''USDC'',
     of_error = None, of_loading = False, of_done = False, of_sent = []\<rparr>"

datatype oracle_form_event = OF_ADDRESS string | OF_TYPE string | OF_STAKE string | OF_ASSET string
  | OF_NEXT | OF_BACK | OF_SUBMIT | OF_REGISTERED | OF_FAILED string

definition oracle_submit :: "(string \<Rightarrow> jsnum) \<Rightarrow> oracle_form \<Rightarrow> oracle_form" where
  "oracle_submit parse s = s\<lparr>of_error := None, of_loading := True, of_sent := of_sent s @ [\<lparr>or_address = of_address s,
     or_type = of_type s, or_stake = if of_stakeAmount s = [] then None else Some (parse (of_stakeAmount s)),
     or_assetCode = of_assetCode s\<rparr>]\<rparr>"

fun oracle_control :: "(string \<Rightarrow> jsnum) \<Rightarrow> oracle_form_event \<Rightarrow> oracle_form \<Rightarrow> oracle_form" where
  "oracle_control parse (OF_ADDRESS v) s = (if of_step s = 0 then s\<lparr>of_address := v\<rparr> else s)"
| "oracle_control parse (OF_TYPE v) s = (if of_step s = 0 then s\<lparr>of_type := v\<rparr> else s)"
| "oracle_control parse (OF_STAKE v) s = (if of_step s = 1 \<and> number_field parse v then s\<lparr>of_stakeAmount := v\<rparr> else s)"
| "oracle_control parse (OF_ASSET v) s = (if of_step s = 1 then s\<lparr>of_assetCode := v\<rparr> else s)"
| "oracle_control parse OF_NEXT s = (if of_step s = 0 \<and> js_trim (of_address s) \<noteq> [] then s\<lparr>of_step := 1\<rparr>
     else if of_step s = 1 then s\<lparr>of_step := 2\<rparr> else s)"
| "oracle_control parse OF_BACK s = (if of_step s = 0 then s else s\<lparr>of_step := of_step s - 1\<rparr>)"
| "oracle_control parse OF_SUBMIT s = (if of_step s = 2 \<and> \<not> of_loading s then oracle_submit parse s else s)"
| "oracle_control parse OF_REGISTERED s = (if of_loading s then s\<lparr>of_loading := False, of_done := True\<rparr> else s)"
| "oracle_control parse (OF_FAILED msg) s = (if of_loading s then s\<lparr>of_loading := False, of_error := Some msg\<rparr> else s)"

definition oracle_form_step :: "(string \<Rightarrow> jsnum) \<Rightarrow> oracle_form_event \<Rightarrow> oracle_form \<Rightarrow> oracle_form" where
  "oracle_form_step parse e s = (if of_done s then s else oracle_control parse e s)"

definition address_given :: "nat \<Rightarrow> oracle_form \<Rightarrow> bool" where
  "address_given n s \<longleftrightarrow> (n = 0 \<longrightarrow> js_trim (of_address s) \<noteq> [])"

interpretation oracle_wizard: wizard "oracle_form_step parse" of_step address_given for parse
proof
  fix n s e
  show "n < of_step s \<Longrightarrow> n < of_step (oracle_form_step parse e s) \<Longrightarrow> address_given n s
    \<Longrightarrow> address_given n (oracle_form_step parse e s)"
    by (cases e) (auto simp: oracle_form_step_def oracle_submit_def address_given_def split: if_splits)
  show "n < of_step (oracle_form_step parse e s) \<Longrightarrow> \<not> n < of_step s \<Longrightarrow> address_given n (oracle_form_step parse e s)"
    by (cases e) (auto simp: oracle_form_step_def oracle_submit_def address_given_def split: if_splits)
qed

lemma oracle_addresses:
  assumes "oracle_wizard.checked s" and "list_all (\<lambda>r. js_trim (or_address r) \<noteq> []) (of_sent s)"
  shows "list_all (\<lambda>r. js_trim (or_address r) \<noteq> []) (of_sent (fold (oracle_form_step parse) es s))"
  using assms
proof (induction es arbitrary: s)
  case (Cons e es)
  have "list_all (\<lambda>r. js_trim (or_address r) \<noteq> []) (of_sent (oracle_form_step parse e s))"
    using Cons.prems(2) oracle_wizard.checked_past [OF Cons.prems(1), of 0]
    by (cases e) (simp_all add: oracle_form_step_def oracle_submit_def address_given_def)
  then show ?case using Cons.IH [OF oracle_wizard.checked_step [OF Cons.prems(1)]] by simp
qed simp

section \<open>A confirmation\<close>

record confirmation_request =
  cr_oracleAddress :: string
  cr_escrowId :: string
  cr_eventType :: string
  cr_signature :: string
  cr_payload :: json
  cr_nonce :: string

record confirmation_form =
  cf_escrowId :: string
  cf_eventType :: string
  cf_signature :: string
  cf_payloadJson :: string
  cf_nonce :: string
  cf_error :: "string option"
  cf_loading :: bool
  cf_success :: bool
  cf_sent :: "confirmation_request list"

definition EVENT_TYPES :: "string list" where
  "EVENT_TYPES = [''SHIPMENT_CONFIRMED'', ''QUALITY_VERIFIED'', ''DELIVERY_COMPLETED'', ''DISPUTE_RAISED'']"

definition confirmation_form_start :: "string \<Rightarrow> confirmation_form" where
  "confirmation_form_start nonce = \<lparr>cf_escrowId = [], cf_eventType = hd EVENT_TYPES, cf_signature = [], cf_payloadJson = ''{}'',
     cf_nonce = nonce, cf_error = None, cf_loading = False, cf_success = False, cf_sent = []\<rparr>"

datatype confirmation_event = CF_ESCROW string | CF_TYPE string | CF_SIGNATURE string | CF_PAYLOAD string
  | CF_REGENERATE string | CF_SUBMIT | CF_ACCEPTED | CF_REFUSED string

text \<open>The browser submits only when the required fields are not empty; \<open>parse\<close> is \<open>JSON.parse\<close>.\<close>

definition confirmation_submit :: "(string \<Rightarrow> json option) \<Rightarrow> string \<Rightarrow> confirmation_form \<Rightarrow> confirmation_form" where
  "confirmation_submit parse oracleAddress s =
     (if cf_loading s \<or> cf_escrowId s = [] \<or> cf_signature s = [] then s
      else (case parse (cf_payloadJson s) of
          None \<Rightarrow> s\<lparr>cf_error := Some ''Payload must be valid JSON''\<rparr>
        | Some j \<Rightarrow> s\<lparr>cf_error := None, cf_loading := True, cf_sent := cf_sent s @ [\<lparr>cr_oracleAddress = oracleAddress,
            cr_escrowId = cf_escrowId s, cr_eventType = cf_eventType s, cr_signature = cf_signature s, cr_payload = j,
            cr_nonce = cf_nonce s\<rparr>]\<rparr>))"

fun confirmation_step :: "(string \<Rightarrow> json option) \<Rightarrow> string \<Rightarrow> confirmation_event \<Rightarrow> confirmation_form \<Rightarrow> confirmation_form" where
  "confirmation_step parse oracleAddress e s = (if cf_success s then s else (case e of
     CF_ESCROW v \<Rightarrow> s\<lparr>cf_escrowId := v\<rparr>
   | CF_TYPE v \<Rightarrow> s\<lparr>cf_eventType := v\<rparr>
   | CF_SIGNATURE v \<Rightarrow> s\<lparr>cf_signature := v\<rparr>
   | CF_PAYLOAD v \<Rightarrow> s\<lparr>cf_payloadJson := v\<rparr>
   | CF_REGENERATE v \<Rightarrow> s\<lparr>cf_nonce := v\<rparr>
   | CF_SUBMIT \<Rightarrow> confirmation_submit parse oracleAddress s
   | CF_ACCEPTED \<Rightarrow> if cf_loading s then s\<lparr>cf_loading := False, cf_success := True\<rparr> else s
   | CF_REFUSED msg \<Rightarrow> if cf_loading s then s\<lparr>cf_loading := False, cf_error := Some msg\<rparr> else s))"

text \<open>
  Where the form stays on the page, trying again after a refusal sends the same request, with the
  nonce of the first; the page that uses it replaces it instead (\<open>Web_Mutations\<close>).
\<close>

lemma retried_with_same_nonce:
  assumes "\<not> cf_success s" "cf_loading s" "cf_sent s = rs @ [r]" "cf_escrowId s \<noteq> []" "cf_signature s \<noteq> []"
    and "r = \<lparr>cr_oracleAddress = a, cr_escrowId = cf_escrowId s, cr_eventType = cf_eventType s, cr_signature = cf_signature s,
           cr_payload = j, cr_nonce = cf_nonce s\<rparr>" "parse (cf_payloadJson s) = Some j"
  shows "cf_sent (fold (confirmation_step parse a) [CF_REFUSED msg, CF_SUBMIT] s) = rs @ [r, r]"
  using assms by (simp add: confirmation_submit_def)

section \<open>The contact forms\<close>

record contact_form =
  ct_name :: string
  ct_email :: string
  ct_subject :: string
  ct_message :: string

definition EMPTY_contact :: contact_form where
  "EMPTY_contact = \<lparr>ct_name = [], ct_email = [], ct_subject = ''General'', ct_message = []\<rparr>"

datatype form_status = FORM_IDLE | FORM_LOADING | FORM_SUCCESS

record contact_view =
  cv_form :: contact_form
  cv_status :: form_status
  cv_toast :: "(bool \<times> string) option" \<comment> \<open>whether it tells a success\<close>

definition contact_json :: "contact_form \<Rightarrow> json" where
  "contact_json f = JObj [(''name'', JStr (ct_name f)), (''email'', JStr (ct_email f)), (''subject'', JStr (ct_subject f)),
     (''message'', JStr (ct_message f))]"

text \<open>
  What \<open>fetch\<close> and reading the reply give: the status and the reply, or an exception with its
  message. An exception of the handler has an answer that is no JSON.
\<close>

datatype contact_answer = Answered contact_reply | Unreachable string

definition contact_sending :: "contact_view \<Rightarrow> contact_view" where
  "contact_sending v = v\<lparr>cv_status := FORM_LOADING\<rparr>"

definition contact_answered :: "contact_answer \<Rightarrow> contact_view \<Rightarrow> contact_view" where
  "contact_answered a v = (case a of
     Answered Contact_OK \<Rightarrow> v\<lparr>cv_status := FORM_SUCCESS, cv_form := EMPTY_contact,
       cv_toast := Some (True, ''Message sent! We'll get back to you within 24 hours.'')\<rparr>
   | Answered (Contact_Error _ msg) \<Rightarrow> v\<lparr>cv_status := FORM_IDLE, cv_toast := Some (False, msg)\<rparr>
   | Answered Contact_Throws \<Rightarrow> v\<lparr>cv_status := FORM_IDLE, cv_toast := Some (False, ''Unexpected token'')\<rparr>
   | Unreachable msg \<Rightarrow> v\<lparr>cv_status := FORM_IDLE, cv_toast := Some (False, msg)\<rparr>)"

definition contact_submit :: "int \<Rightarrow> string \<Rightarrow> contact_view \<Rightarrow> contact_map \<Rightarrow> contact_view \<times> contact_map" where
  "contact_submit now ip v m = (case contact_POST now (Some ip) None (Some (contact_json (cv_form v))) m of
     (r, m') \<Rightarrow> (contact_answered (Answered r) (contact_sending v), m'))"

definition contact_form_ok :: "contact_form \<Rightarrow> bool" where
  "contact_form_ok f \<longleftrightarrow> 2 \<le> length (js_trim (ct_name f)) \<and> valid_email (ct_email f) \<and> ct_subject f \<in> set SUBJECTS
     \<and> 10 \<le> length (js_trim (ct_message f))"

lemma contact_validate_form: "contact_validate (contact_json f) = Contact_OK \<longleftrightarrow> contact_form_ok f"
  by (simp add: contact_validate_def contact_json_def body_text_def long_text_def contact_form_ok_def)

lemma contact_validate_answers: "contact_validate j \<noteq> Contact_Throws"
  by (simp add: contact_validate_def)

lemma contact_submit_answer:
  "fst (contact_submit now ip v m) = contact_answered (Answered
     (if fst (contact_checkRateLimit now ip m) then contact_validate (contact_json (cv_form v))
      else Contact_Error 429 ''Too many requests. Please try again later.'')) (contact_sending v)"
  by (simp add: contact_submit_def contact_POST_def contact_json_def split: prod.split bool.split)

text \<open>
  The form tells a success, and is emptied, exactly when the limiter lets the request pass and the
  fields are those the route asks for; otherwise it keeps what was written.
\<close>

lemma contact_submit_exact:
  "let r = fst (contact_submit now ip v m) in
   if fst (contact_checkRateLimit now ip m) \<and> contact_form_ok (cv_form v)
   then cv_status r = FORM_SUCCESS \<and> cv_form r = EMPTY_contact
   else cv_status r = FORM_IDLE \<and> cv_form r = cv_form v"
  using contact_validate_form [of "cv_form v"] contact_validate_answers [of "contact_json (cv_form v)"]
  unfolding contact_submit_answer Let_def
  by (cases "contact_validate (contact_json (cv_form v))") (auto simp: contact_answered_def contact_sending_def)

text \<open>The other form tells a success 1.5 seconds after it was submitted, and sends nothing.\<close>

datatype section_event = SECTION_SUBMIT | SECTION_TIMER | SECTION_AGAIN

fun contact_section :: "section_event \<Rightarrow> form_status \<Rightarrow> form_status" where
  "contact_section SECTION_SUBMIT FORM_IDLE = FORM_LOADING"
| "contact_section SECTION_TIMER s = FORM_SUCCESS"
| "contact_section SECTION_AGAIN FORM_SUCCESS = FORM_IDLE"
| "contact_section _ s = s"

end
