(* ===== verification/Governance_Page.thy ===== *)
theory Governance_Page
  imports Web_Forms Web_Lists
begin

text \<open>
  The pages of the proposals: the list (\<open>app/governance/page.tsx\<close>), its cards
  (\<open>components/governance/ProposalCard.tsx\<close>) and the page of one proposal with its buttons
  (\<open>app/governance/[id]/page.tsx\<close>, \<open>components/governance/VoteButton.tsx\<close>). Each page has a hook of
  its own (\<open>Governance_View\<close>), which starts with the built-in proposals.
\<close>

section \<open>The built-in proposals\<close>

definition day_ms :: int where "day_ms = 86400000"

definition built_in :: "int \<Rightarrow> string \<Rightarrow> string \<Rightarrow> string \<Rightarrow> proposal_status \<Rightarrow> string \<Rightarrow> int \<Rightarrow> int \<Rightarrow> tally \<Rightarrow> string \<Rightarrow> web_proposal" where
  "built_in now i title description st creator ago ends v kind =
     \<lparr>wp_id = i, wp_title = title, wp_description = description, wp_status = st, wp_creator = creator,
      wp_createdAt = now - day_ms * ago, wp_expiresAt = of_int (now + day_ms * ends), wp_votes = v, wp_type = kind,
      wp_votingPower = 10000000, wp_quorumRequired = fl64 (1 / 10), wp_threshold = fl64 (667 / 1000)\<rparr>"

definition INITIAL_PROPOSALS :: "int \<Rightarrow> web_proposal list" where
  "INITIAL_PROPOSALS now =
    [built_in now ''1'' ''Increase Liquidity Reward for USDC/XLM Pool''
       ''Proposal to increase the daily reward distribution for the USDC/XLM pool from 5,000 to 7,500 XLM to attract more liquidity providers and deepen the market.''
       OPEN_PROPOSAL ''GE7QYNF7SOWQ3GLR2BGMZEHXAVIRZA4KVWLTJJFC7MGXUA74P7UJVA3BS'' 2 3
       \<lparr>votes_for = 1250000, votes_against = 450000, votes_abstain = 120000\<rparr> ''Reward Parameters'',
     built_in now ''2'' ''Update Governance Veto Threshold''
       ''Set the veto threshold for critical protocol changes to 33.3% of total staked tokens to ensure decentralization and prevent hostile takeovers.''
       PASSED_PROPOSAL ''GC3QYNF7SOWQ3GLR2BGMZEHXAVIRZA4KVWLTJJFC7MGXUA74P7UJVP8Q1'' 10 (- 5)
       \<lparr>votes_for = 5000000, votes_against = 1000000, votes_abstain = 500000\<rparr> ''Protocol Settings'',
     built_in now ''3'' ''Allocate 100k XLM for Community Marketing''
       ''Grant to fund community-led marketing initiatives for the next quarter, including local meetups, educational content, and developer outreach programs.''
       REJECTED_PROPOSAL ''GA3QYNF7SOWQ3GLR2BGMZEHXAVIRZA4KVWLTJJFC7MGXUA74P7UJVL2X9'' 15 (- 10)
       \<lparr>votes_for = 800000, votes_against = 2500000, votes_abstain = 300000\<rparr> ''Treasury Grant'',
     built_in now ''4'' ''Deploy Collateral Registry v2 Contract''
       ''Upgrade the on-chain collateral registry to v2, enabling fractional NFT collateral and improved liquidation mechanics.''
       EXECUTED_PROPOSAL ''GB3QYNF7SOWQ3GLR2BGMZEHXAVIRZA4KVWLTJJFC7MGXUA74P7UJVK9Z2'' 30 (- 25)
       \<lparr>votes_for = 7200000, votes_against = 800000, votes_abstain = 200000\<rparr> ''Protocol Settings'']"

text \<open>The state of \<open>useGovernance\<close> on a page that is opened.\<close>

definition governance_mount :: "int \<Rightarrow> governance_view" where
  "governance_mount now = \<lparr>gv_proposals = INITIAL_PROPOSALS now, gv_userVotes = Map.empty, gv_voting = (None, False, None),
     gv_signing = [], gv_counted = []\<rparr>"

section \<open>The list\<close>

datatype proposal_order = NEWEST | OLDEST | MOST_VOTES

definition all_votes :: "web_proposal \<Rightarrow> rat" where
  "all_votes p = vote_total (votes_for (wp_votes p)) (votes_against (wp_votes p)) (votes_abstain (wp_votes p))"

text \<open>The list is sorted stably; \<open>sort_key\<close> sorts upwards.\<close>

definition sort_proposals :: "proposal_order \<Rightarrow> web_proposal list \<Rightarrow> web_proposal list" where
  "sort_proposals order ps = (case order of
     NEWEST \<Rightarrow> sort_key (\<lambda>p. - wp_createdAt p) ps
   | OLDEST \<Rightarrow> sort_key wp_createdAt ps
   | MOST_VOTES \<Rightarrow> sort_key (\<lambda>p. - all_votes p) ps)"

definition filtered_proposals :: "proposal_status option \<Rightarrow> string \<Rightarrow> proposal_order \<Rightarrow> web_proposal list \<Rightarrow> web_proposal list" where
  "filtered_proposals status kind order ps =
     (let xs = (case status of None \<Rightarrow> ps | Some st \<Rightarrow> filter (\<lambda>p. wp_status p = st) ps);
          ys = (if kind = ''All Types'' then xs else filter (\<lambda>p. wp_type p = kind) xs)
      in sort_proposals order ys)"

lemma filtered_proposals_exact:
  "mset (filtered_proposals status kind order ps)
     = filter_mset (\<lambda>p. (status = None \<or> status = Some (wp_status p)) \<and> (kind = ''All Types'' \<or> wp_type p = kind)) (mset ps)"
  by (cases status; cases order) (auto simp: filtered_proposals_def sort_proposals_def Let_def filter_filter_mset multiset.map_comp
      intro!: filter_mset_cong)

text \<open>Newest first and oldest first are the reverse of each other where no two have the same time.\<close>

lemma filter_own_key: "distinct (map f xs) \<Longrightarrow> k \<in> set xs \<Longrightarrow> filter (\<lambda>p. f k = f p) xs = [k]"
proof (induction xs)
  case (Cons x xs)
  show ?case
  proof (cases "k = x")
    case True
    then have "\<forall>p\<in>set xs. f k \<noteq> f p" using Cons.prems(1) by auto
    then show ?thesis using True by (simp add: filter_empty_conv)
  next
    case False
    then have "f k \<noteq> f x" using Cons.prems by (auto simp: image_iff)
    then show ?thesis using False Cons by simp
  qed
qed simp

lemma sort_downwards:
  fixes f :: "'a \<Rightarrow> int"
  assumes "distinct (map f xs)"
  shows "sort_key (\<lambda>p. - f p) xs = rev (sort_key f xs)"
proof (rule properties_for_sort_key)
  show "mset (rev (sort_key f xs)) = mset xs" by simp
  show "sorted (map (\<lambda>p. - f p) (rev (sort_key f xs)))"
    using sorted_sort_key [of f xs] by (simp add: rev_map sorted_wrt_map sorted_wrt_rev flip: rev_map)
  fix k
  assume "k \<in> set (rev (sort_key f xs))"
  moreover have "mset (map f (rev (sort_key f xs))) = mset (map f xs)" by simp
  then have "distinct (map f (rev (sort_key f xs)))" using assms by (metis mset_eq_imp_distinct_iff)
  ultimately show "filter (\<lambda>p. - f k = - f p) (rev (sort_key f xs)) = filter (\<lambda>p. - f k = - f p) xs"
    using assms by (simp add: filter_own_key)
qed

lemma newest_oldest:
  assumes "distinct (map wp_createdAt ps)"
  shows "filtered_proposals status kind NEWEST ps = rev (filtered_proposals status kind OLDEST ps)"
  using assms by (simp add: filtered_proposals_def sort_proposals_def Let_def sort_downwards distinct_map_filter split: option.split)

section \<open>One proposal\<close>

definition proposal_shown :: "string \<Rightarrow> governance_view \<Rightarrow> web_proposal option" where
  "proposal_shown i s = find (\<lambda>p. wp_id p = i) (gv_proposals s)"

definition forPercent :: "web_proposal \<Rightarrow> rat" where
  "forPercent p = vote_percent (votes_for (wp_votes p)) (all_votes p)"

definition quorumReached :: "web_proposal \<Rightarrow> bool" where
  "quorumReached p \<longleftrightarrow> wp_votingPower p = 0 \<or> wp_quorumRequired p = 0 \<or> wp_quorumRequired p \<le> fl64 (all_votes p / wp_votingPower p)"

text \<open>
  The remainder of a division of numbers that are not negative is exact. The card tells minutes in
  the last day, the page only hours.
\<close>

definition js_rest :: "rat \<Rightarrow> rat \<Rightarrow> rat" where
  "js_rest x d = x - of_int \<lfloor>x / d\<rfloor> * d"

definition whole_units :: "rat \<Rightarrow> rat \<Rightarrow> nat" where
  "whole_units x u = nat \<lfloor>fl64 (x / u)\<rfloor>"

definition timeLeft :: "int \<Rightarrow> web_proposal \<Rightarrow> string" where
  "timeLeft now p =
     (let diff = fl64 (wp_expiresAt p - of_int now) in
      if diff \<le> 0 then ''Expired''
      else let days = whole_units diff 86400000; hours = whole_units (js_rest diff 86400000) 3600000 in
        if 0 < days then digits days @ ''d '' @ digits hours @ ''h remaining'' else digits hours @ ''h remaining'')"

definition card_timeLeft :: "int \<Rightarrow> web_proposal \<Rightarrow> string" where
  "card_timeLeft now p =
     (if wp_status p \<noteq> OPEN_PROPOSAL then [] else
      let diff = fl64 (wp_expiresAt p - of_int now) in
      if diff \<le> 0 then ''Expired''
      else let days = whole_units diff 86400000; hours = whole_units (js_rest diff 86400000) 3600000;
               minutes = whole_units (js_rest diff 3600000) 60000 in
        if 0 < days then digits days @ ''d '' @ digits hours @ ''h remaining''
        else digits hours @ ''h '' @ digits minutes @ ''m remaining'')"

text \<open>Hours are at most 23 whenever the times are whole milliseconds.\<close>

lemma js_rest_int: "js_rest (of_int n) (of_int d) = of_int (n mod d)"
  by (simp add: js_rest_def floor_divide_of_int_eq minus_div_mult_eq_mod of_int_mult [symmetric] del: of_int_mult flip: of_int_diff)

lemma hours_below_24: "whole_units (js_rest (of_int n) 86400000) 3600000 < 24"
proof -
  have "js_rest (of_int n) 86400000 = of_int (n mod 86400000)" using js_rest_int [of n 86400000] by simp
  moreover have "n mod 86400000 \<le> 86399999" using pos_mod_bound [of 86400000 n] by simp
  ultimately have "js_rest (of_int n) 86400000 \<le> 86399999" by (metis of_int_le_iff of_int_numeral)
  then have "fl64 (js_rest (of_int n) 86400000 / 3600000) \<le> fl64 (86399999 / 3600000)"
    by (intro js.fl_mono) simp
  also have "\<dots> < 24" by code_simp
  finally have "\<lfloor>fl64 (js_rest (of_int n) 86400000 / 3600000)\<rfloor> < 24" by (simp add: floor_less_iff)
  then show ?thesis unfolding whole_units_def by linarith
qed

text \<open>The buttons of the page are disabled once the user voted, and while a vote is signed.\<close>

datatype page_event = CLICK vote_type | PAGE_SIGNED | PAGE_TALLY string tally

definition isVoting :: "string \<Rightarrow> governance_view \<Rightarrow> bool" where
  "isVoting i s \<longleftrightarrow> fst (gv_voting s) = Some i \<and> fst (snd (gv_voting s))"

definition vote_enabled :: "string \<Rightarrow> governance_view \<Rightarrow> bool" where
  "vote_enabled i s \<longleftrightarrow> (case proposal_shown i s of None \<Rightarrow> False | Some p \<Rightarrow> wp_status p = OPEN_PROPOSAL)
     \<and> \<not> has_voted s i \<and> \<not> isVoting i s"

fun page_step :: "string \<Rightarrow> page_event \<Rightarrow> governance_view \<Rightarrow> governance_view" where
  "page_step i (CLICK t) s = (if vote_enabled i s then governance_step (VOTE i t) s else s)"
| "page_step i PAGE_SIGNED s = governance_step SIGNED s"
| "page_step i (PAGE_TALLY j v) s = governance_step (TALLY j v) s"

definition page_ok :: "string \<Rightarrow> governance_view \<Rightarrow> bool" where
  "page_ok i s \<longleftrightarrow>
     (case gv_signing s of
        [] \<Rightarrow> gv_counted s = [] \<and> gv_userVotes s = Map.empty \<or> (\<exists>t. gv_counted s = [(i, t)] \<and> gv_userVotes s = [i \<mapsto> t])
      | [x] \<Rightarrow> fst x = i \<and> isVoting i s \<and> gv_counted s = [] \<and> gv_userVotes s = Map.empty
      | _ \<Rightarrow> False)"

lemma page_ok_step: "page_ok i s \<Longrightarrow> page_ok i (page_step i e s)"
proof (cases e)
  case (CLICK t)
  assume ok: "page_ok i s"
  show ?thesis
  proof (cases "vote_enabled i s")
    case True
    then have "gv_signing s = []" "gv_counted s = []" "gv_userVotes s = Map.empty"
      using ok by (auto simp: page_ok_def vote_enabled_def has_voted_def split: list.splits)
    then show ?thesis using True CLICK by (simp add: page_ok_def vote_begin_def vote_enabled_def isVoting_def)
  qed (use ok CLICK in simp)
next
  case PAGE_SIGNED
  assume ok: "page_ok i s"
  show ?thesis
  proof (cases "gv_signing s")
    case (Cons x xs)
    then have "xs = []" using ok by (cases xs) (simp_all add: page_ok_def)
    then show ?thesis using ok Cons PAGE_SIGNED by (cases x) (simp add: page_ok_def vote_end_def)
  qed (use ok PAGE_SIGNED in \<open>simp add: vote_end_def\<close>)
qed (auto simp: page_ok_def vote_updated_def isVoting_def split: list.splits)

text \<open>
  On the page of a proposal at most one vote is counted, however fast the buttons are clicked, and
  it is the one remembered: the hook alone would count two (\<open>double_click_votes_twice\<close>).
\<close>

lemma page_votes_once:
  assumes "s = fold (page_step i) es (governance_mount now)"
  shows "gv_counted s = [] \<and> gv_userVotes s = Map.empty \<or> (\<exists>t. gv_counted s = [(i, t)] \<and> gv_userVotes s = [i \<mapsto> t])"
proof -
  have "page_ok i s0 \<Longrightarrow> page_ok i (fold (page_step i) es s0)" for s0
    by (induction es arbitrary: s0) (simp_all add: page_ok_step)
  then have "page_ok i s" by (simp add: assms page_ok_def governance_mount_def)
  then show ?thesis by (auto simp: page_ok_def split: list.splits)
qed

section \<open>A proposal that was created\<close>

lemma page_step_ids: "map wp_id (gv_proposals (page_step i e s)) = map wp_id (gv_proposals s)"
  by (cases e) (simp_all add: vote_begin_def vote_end_def vote_updated_def update_votes_def comp_def if_distrib
      cong: if_cong split: list.split)

lemma page_run_ids: "map wp_id (gv_proposals (fold (page_step i) es s)) = map wp_id (gv_proposals s)"
  by (induction es arbitrary: s) (simp_all add: page_step_ids)

lemma not_shown: "i \<notin> wp_id ` set (gv_proposals s) \<Longrightarrow> proposal_shown i s = None"
  by (auto simp: proposal_shown_def find_None_iff)

text \<open>
  The form opens the page of the proposal it made, whose hook knows the built-in proposals only:
  the proposal is not found there, whatever happens on the page, nor in the list, and it is gone.
\<close>

lemma created_proposal_lost:
  assumes "wp_id p \<notin> {''1'', ''2'', ''3'', ''4''}"
  shows "proposal_shown (wp_id p) (governance_step (PROPOSE p) (governance_mount now)) = Some p
    \<and> proposal_shown (wp_id p) (fold (page_step (wp_id p)) es (governance_mount later)) = None
    \<and> p \<notin> set (filtered_proposals status kind order (gv_proposals (governance_mount later)))"
proof -
  have ids: "wp_id ` set (gv_proposals (governance_mount t)) = {''1'', ''2'', ''3'', ''4''}" for t
    by (simp add: governance_mount_def INITIAL_PROPOSALS_def built_in_def)
  have S: "wp_id ` set (gv_proposals (fold (page_step (wp_id p)) es (governance_mount later))) = {''1'', ''2'', ''3'', ''4''}"
  proof -
    have "set (map wp_id (gv_proposals (fold (page_step (wp_id p)) es (governance_mount later))))
        = set (map wp_id (gv_proposals (governance_mount later)))" by (simp only: page_run_ids)
    then show ?thesis using ids [of later] by (simp only: list.set_map)
  qed
  have "proposal_shown (wp_id p) (fold (page_step (wp_id p)) es (governance_mount later)) = None"
    by (rule not_shown, unfold S, rule assms)
  moreover have "p \<notin> set (gv_proposals (governance_mount later))" using ids [of later] assms by blast
  then have "p \<notin> set (filtered_proposals status kind order (gv_proposals (governance_mount later)))"
    by (auto simp: filtered_proposals_def sort_proposals_def Let_def split: option.splits proposal_order.splits if_splits)
  ultimately show ?thesis by (simp add: proposal_shown_def)
qed

end
