(* ===== verification/Web_Panels.thy ===== *)
theory Web_Panels
  imports Onboarding Live_Socket Dashboard Loan_View Web_Lists Analytics Csv_Export
begin

text \<open>
  What the pages of figures show: the analytics (\<open>hooks/useAnalytics.ts\<close>,
  \<open>components/analytics/\<close>), over the reports of the server (\<open>Analytics\<close>), and the panels of the
  dashboard (\<open>app/dashboard/page.tsx\<close>, \<open>components/dashboard/\<close>), over its data (\<open>Dashboard\<close>) and its
  notifications (\<open>Live_Socket\<close>). Texts of numbers and dates are parameters.
\<close>

section \<open>Analytics\<close>

record web_stats =
  as_totalEscrows :: rat
  as_fundedEscrows :: rat
  as_releasedEscrows :: rat
  as_disputedEscrows :: rat
  as_totalLoans :: rat
  as_activeLoans :: rat
  as_defaultedLoans :: rat
  as_totalVolumeUSDC :: string
  as_totalUsers :: rat
  as_activeWallets :: rat
  as_governanceProposals :: rat
  as_participationRate :: rat

definition MOCK_STATS :: web_stats where
  "MOCK_STATS = \<lparr>as_totalEscrows = 48, as_fundedEscrows = 12, as_releasedEscrows = 31, as_disputedEscrows = 2,
     as_totalLoans = 35, as_activeLoans = 18, as_defaultedLoans = 2, as_totalVolumeUSDC = ''2450000'', as_totalUsers = 124,
     as_activeWallets = 89, as_governanceProposals = 7, as_participationRate = fl64 (62 / 100)\<rparr>"

definition MOCK_PROTOCOL :: protocol_analytics where
  "MOCK_PROTOCOL = \<lparr>tvl = ''1850000'', totalVolume = ''2450000'', avgInterestRate = ''0.0785'', defaultRate = fl64 (57 / 1000)\<rparr>"

definition stats_received :: "platform_stats \<Rightarrow> web_stats" where
  "stats_received d = \<lparr>as_totalEscrows = of_nat (totalEscrows d), as_fundedEscrows = of_nat (fundedEscrows d),
     as_releasedEscrows = of_nat (releasedEscrows d), as_disputedEscrows = of_nat (disputedEscrows d),
     as_totalLoans = of_nat (totalLoans d), as_activeLoans = of_nat (activeLoans d),
     as_defaultedLoans = of_nat (defaultedLoans d), as_totalVolumeUSDC = totalVolumeUSDC d,
     as_totalUsers = of_nat (totalUsers d), as_activeWallets = of_nat (activeWallets d),
     as_governanceProposals = of_nat (governanceProposals d), as_participationRate = of_nat (participationRate d)\<rparr>"

record portfolio_metric =
  pm_date :: string
  pm_tvl :: rat
  pm_volume :: rat
  pm_loans :: int
  pm_escrows :: int

text \<open>\<open>rnd i k\<close> is the k-th random number drawn for the day i days ago, \<open>day\<close> the date of a time.\<close>

definition generated_metric :: "(int \<Rightarrow> string) \<Rightarrow> (nat \<Rightarrow> nat \<Rightarrow> rat) \<Rightarrow> int \<Rightarrow> nat \<Rightarrow> portfolio_metric" where
  "generated_metric day rnd now i =
     \<lparr>pm_date = day (now - int i * 24 * 60 * 60 * 1000),
      pm_tvl = fl64 (1200000 + fl64 (rnd i 0 * 800000)), pm_volume = fl64 (20000 + fl64 (rnd i 1 * 60000)),
      pm_loans = 10 + \<lfloor>fl64 (rnd i 2 * 15)\<rfloor>, pm_escrows = 5 + \<lfloor>fl64 (rnd i 3 * 10)\<rfloor>\<rparr>"

definition generatePortfolioHistory :: "(int \<Rightarrow> string) \<Rightarrow> (nat \<Rightarrow> nat \<Rightarrow> rat) \<Rightarrow> int \<Rightarrow> portfolio_metric list" where
  "generatePortfolioHistory day rnd now = map (generated_metric day rnd now) (rev [0..<90])"

record analytics_view =
  av_stats :: "web_stats option"
  av_protocol :: "protocol_analytics option"
  av_portfolio :: "portfolio_metric list"
  av_loading :: bool

definition analytics_start :: analytics_view where
  "analytics_start = \<lparr>av_stats = None, av_protocol = None, av_portfolio = [], av_loading = False\<rparr>"

text \<open>An answer of the server is its report, or none when it fails or cannot be reached.\<close>

definition fetchStats :: "platform_stats option \<Rightarrow> analytics_view \<Rightarrow> analytics_view" where
  "fetchStats reply s = s\<lparr>av_stats := Some (case reply of Some d \<Rightarrow> stats_received d | None \<Rightarrow> MOCK_STATS), av_loading := False\<rparr>"

definition fetchProtocol :: "protocol_analytics option \<Rightarrow> analytics_view \<Rightarrow> analytics_view" where
  "fetchProtocol reply s = s\<lparr>av_protocol := Some (case reply of Some d \<Rightarrow> d | None \<Rightarrow> MOCK_PROTOCOL)\<rparr>"

definition fetchPortfolio :: "(int \<Rightarrow> string) \<Rightarrow> (nat \<Rightarrow> nat \<Rightarrow> rat) \<Rightarrow> int \<Rightarrow> analytics_view \<Rightarrow> analytics_view" where
  "fetchPortfolio day rnd now s = s\<lparr>av_portfolio := generatePortfolioHistory day rnd now, av_loading := False\<rparr>"

definition answer_of :: "app_error + 'a \<Rightarrow> 'a option" where
  "answer_of r = (case r of Inl _ \<Rightarrow> None | Inr d \<Rightarrow> Some d)"

text \<open>
  When the server fails, the page shows invented figures and no error. It does so for every
  platform that has an escrow in USDC and no loan in it: the report of the server fails there.
\<close>

lemma invented_figures:
  assumes "usdc_escrows w = Some x" and "usdc_loans w = None"
  shows "av_stats (fetchStats (answer_of (platform_stats_of P verified w)) s) = Some MOCK_STATS"
  using assms by (simp add: platform_stats_of_def total_volume_def answer_of_def fetchStats_def)

text \<open>The generated history has 90 days in order, with figures in fixed ranges, whatever is drawn.\<close>

lemma generated_range:
  assumes "0 \<le> rnd i 2" and "rnd i 2 < 1"
  shows "10 \<le> pm_loans (generated_metric day rnd now i) \<and> pm_loans (generated_metric day rnd now i) \<le> 25"
proof -
  have "fl64 (rnd i 2 * 15) \<le> fl64 15" using assms by (intro js.fl_mono) simp
  moreover have "fl64 0 \<le> fl64 (rnd i 2 * 15)" using assms by (intro js.fl_mono) simp
  moreover have "fl64 15 = 15" using js.fl_int [of 15] by simp
  ultimately have "0 \<le> \<lfloor>fl64 (rnd i 2 * 15)\<rfloor> \<and> \<lfloor>fl64 (rnd i 2 * 15)\<rfloor> \<le> 15"
    by (simp add: le_floor_iff floor_le_iff)
  then show ?thesis by (simp add: generated_metric_def)
qed

section \<open>The chart of the analytics\<close>

datatype metric_range = RANGE_7D | RANGE_30D | RANGE_90D | RANGE_ALL

fun RANGE_DAYS :: "metric_range \<Rightarrow> nat option" where
  "RANGE_DAYS RANGE_7D = Some 7"
| "RANGE_DAYS RANGE_30D = Some 30"
| "RANGE_DAYS RANGE_90D = Some 90"
| "RANGE_DAYS RANGE_ALL = None"

text \<open>\<open>data.slice(-days)\<close>; this chart has no range for all.\<close>

definition last_days :: "nat \<Rightarrow> 'a list \<Rightarrow> 'a list" where
  "last_days n xs = drop (length xs - n) xs"

definition analytics_chart :: "metric_range \<Rightarrow> portfolio_metric list \<Rightarrow> portfolio_metric list" where
  "analytics_chart r xs = (case RANGE_DAYS r of None \<Rightarrow> xs | Some n \<Rightarrow> last_days n xs)"

lemma analytics_chart_generated:
  assumes "r \<noteq> RANGE_ALL"
  shows "length (analytics_chart r (generatePortfolioHistory day rnd now)) = the (RANGE_DAYS r)"
  using assms by (cases r) (simp_all add: analytics_chart_def last_days_def generatePortfolioHistory_def)

section \<open>The distribution of the escrows\<close>

definition escrow_pie :: "web_stats \<Rightarrow> (string \<times> rat) list" where
  "escrow_pie s = filter (\<lambda>d. 0 < snd d)
     [(''Funded'', as_fundedEscrows s), (''Released'', as_releasedEscrows s), (''Disputed'', as_disputedEscrows s),
      (''Other'', max 0 (as_totalEscrows s - as_fundedEscrows s - as_releasedEscrows s - as_disputedEscrows s))]"

text \<open>For the counts of the server the parts of the pie sum up to all escrows.\<close>

lemma escrow_pie_total:
  assumes "platform_stats_of P verified w = Inr d"
  shows "sum_list (map snd (escrow_pie (stats_received d))) = of_nat (length (escrows w))"
proof -
  have count: "fundedEscrows d + releasedEscrows d + disputedEscrows d \<le> totalEscrows d" "totalEscrows d = length (escrows w)"
  proof -
    have "count_where (\<lambda>r. escrow_status r = ESCROW_FUNDED) es + count_where (\<lambda>r. escrow_status r = ESCROW_RELEASED) es
        + count_where (\<lambda>r. escrow_status r = ESCROW_DISPUTED) es \<le> length es" for es :: "escrow_row list"
      by (induction es) (auto simp: count_where_def)
    then show "fundedEscrows d + releasedEscrows d + disputedEscrows d \<le> totalEscrows d" "totalEscrows d = length (escrows w)"
      using assms by (auto simp: platform_stats_of_def split: sum.splits)
  qed
  define s where "s = stats_received d"
  have pos: "0 \<le> as_fundedEscrows s" "0 \<le> as_releasedEscrows s" "0 \<le> as_disputedEscrows s" by (simp_all add: s_def stats_received_def)
  have "as_fundedEscrows s + as_releasedEscrows s + as_disputedEscrows s \<le> as_totalEscrows s"
    using count(1) by (simp add: s_def stats_received_def flip: of_nat_add)
  with pos have "sum_list (map snd (escrow_pie s)) = as_totalEscrows s" by (auto simp: escrow_pie_def)
  then show ?thesis using count(2) by (simp add: s_def stats_received_def)
qed

section \<open>Reports\<close>

text \<open>The properties of both objects, in their order; \<open>num\<close> is the text of a number.\<close>

definition stats_props :: "(rat \<Rightarrow> string) \<Rightarrow> web_stats option \<Rightarrow> (string \<times> string) list" where
  "stats_props num s = (case s of None \<Rightarrow> [] | Some s \<Rightarrow>
     [(''totalEscrows'', num (as_totalEscrows s)), (''fundedEscrows'', num (as_fundedEscrows s)),
      (''releasedEscrows'', num (as_releasedEscrows s)), (''disputedEscrows'', num (as_disputedEscrows s)),
      (''totalLoans'', num (as_totalLoans s)), (''activeLoans'', num (as_activeLoans s)), (''defaultedLoans'', num (as_defaultedLoans s)),
      (''totalVolumeUSDC'', as_totalVolumeUSDC s), (''totalUsers'', num (as_totalUsers s)), (''activeWallets'', num (as_activeWallets s)),
      (''governanceProposals'', num (as_governanceProposals s)), (''participationRate'', num (as_participationRate s))])"

definition protocol_props :: "(rat \<Rightarrow> string) \<Rightarrow> protocol_analytics option \<Rightarrow> (string \<times> string) list" where
  "protocol_props num p = (case p of None \<Rightarrow> [] | Some p \<Rightarrow>
     [(''tvl'', tvl p), (''totalVolume'', totalVolume p), (''avgInterestRate'', avgInterestRate p), (''defaultRate'', num (defaultRate p))])"

definition AVAILABLE_METRICS :: "string list" where
  "AVAILABLE_METRICS = [''totalEscrows'', ''fundedEscrows'', ''releasedEscrows'', ''totalLoans'', ''activeLoans'', ''totalVolumeUSDC'',
     ''totalUsers'', ''tvl'', ''avgInterestRate'', ''defaultRate'']"

text \<open>A set keeps the order in which its members were added.\<close>

definition toggle_metric :: "string \<Rightarrow> string list \<Rightarrow> string list" where
  "toggle_metric key selected = (if key \<in> set selected then filter (\<lambda>k. k \<noteq> key) selected else selected @ [key])"

definition selected_start :: "string list" where
  "selected_start = [''totalEscrows'', ''totalLoans'', ''totalVolumeUSDC'', ''tvl'']"

definition buildData :: "(rat \<Rightarrow> string) \<Rightarrow> web_stats option \<Rightarrow> protocol_analytics option \<Rightarrow> string list \<Rightarrow> (string \<times> string) list" where
  "buildData num s p selected =
     (let combined = map_of (protocol_props num p @ stats_props num s) in
      concat (map (\<lambda>key. case combined key of None \<Rightarrow> [] | Some v \<Rightarrow> [(key, v)]) selected))"

definition report_csv :: "(string \<times> string) list \<Rightarrow> string" where
  "report_csv d = join_by '','' (map fst d) @ [LF] @ join_by '','' (map snd d)"

definition report_disabled :: "web_stats option \<Rightarrow> protocol_analytics option \<Rightarrow> string list \<Rightarrow> bool" where
  "report_disabled s p selected \<longleftrightarrow> selected = [] \<or> s = None \<and> p = None"

definition report_step :: "string \<Rightarrow> string list \<Rightarrow> string list" where
  "report_step key sel = (if key \<in> set AVAILABLE_METRICS then toggle_metric key sel else sel)"

lemma toggle_metric_set:
  "set (toggle_metric key sel) = (if key \<in> set sel then set sel - {key} else insert key (set sel))"
  "distinct sel \<Longrightarrow> distinct (toggle_metric key sel)"
  by (auto simp: toggle_metric_def)

lemma report_selected:
  "set (fold report_step keys selected_start) \<subseteq> set AVAILABLE_METRICS \<and> distinct (fold report_step keys selected_start)"
proof -
  have step: "set sel \<subseteq> set AVAILABLE_METRICS \<Longrightarrow> distinct sel \<Longrightarrow>
      set (report_step k sel) \<subseteq> set AVAILABLE_METRICS \<and> distinct (report_step k sel)" for k sel
    by (auto simp: report_step_def toggle_metric_set)
  have "set sel \<subseteq> set AVAILABLE_METRICS \<Longrightarrow> distinct sel \<Longrightarrow>
      set (fold report_step keys sel) \<subseteq> set AVAILABLE_METRICS \<and> distinct (fold report_step keys sel)" for sel
    by (induction keys arbitrary: sel) (simp_all add: step)
  moreover have "set selected_start \<subseteq> set AVAILABLE_METRICS" "distinct selected_start" by code_simp+
  ultimately show ?thesis by blast
qed

lemma available_known:
  assumes "key \<in> set AVAILABLE_METRICS"
  shows "map_of (protocol_props num (Some p) @ stats_props num (Some s)) key \<noteq> None"
  using assms by (auto simp: AVAILABLE_METRICS_def protocol_props_def stats_props_def)

text \<open>Once both reports are there, every report has exactly the columns that were chosen, in their order.\<close>

lemma report_columns:
  assumes "sel = fold report_step keys selected_start"
  shows "map fst (buildData num (Some s) (Some p) sel) = sel"
proof -
  have "map fst (concat (map (\<lambda>key. case m key of None \<Rightarrow> [] | Some v \<Rightarrow> [(key, v)]) ks)) = ks"
    if "\<forall>k\<in>set ks. m k \<noteq> None" for ks and m :: "string \<rightharpoonup> string"
    using that by (induction ks) auto
  moreover have "\<forall>k\<in>set sel. map_of (protocol_props num (Some p) @ stats_props num (Some s)) k \<noteq> None"
    using report_selected available_known unfolding assms by blast
  ultimately show ?thesis by (simp only: buildData_def Let_def)
qed

text \<open>With one report missing its columns are left out, without a word.\<close>

lemma report_columns_missing: "map fst (buildData num (Some s) None selected_start) = [''totalEscrows'', ''totalLoans'', ''totalVolumeUSDC'']"
  by (simp add: buildData_def selected_start_def stats_props_def protocol_props_def)

section \<open>The table of the analytics\<close>

datatype trend = TREND_UP | TREND_DOWN | TREND_NEUTRAL

record table_row =
  tb_metric :: string
  tb_value :: string
  tb_category :: string
  tb_trend :: trend

text \<open>\<open>amount\<close> is the text of a number with separators, \<open>fixed k\<close> that with k decimals.\<close>

record number_texts =
  nt_num :: "rat \<Rightarrow> string"
  nt_amount :: "string \<Rightarrow> string"
  nt_fixed :: "nat \<Rightarrow> rat \<Rightarrow> string"
  nt_rate :: "string \<Rightarrow> rat"

definition buildRows :: "number_texts \<Rightarrow> web_stats \<Rightarrow> protocol_analytics \<Rightarrow> table_row list" where
  "buildRows T s p =
     [\<lparr>tb_metric = ''Total Volume (USDC)'', tb_value = ''$'' @ nt_amount T (as_totalVolumeUSDC s), tb_category = ''Volume'', tb_trend = TREND_UP\<rparr>,
      \<lparr>tb_metric = ''TVL'', tb_value = ''$'' @ nt_amount T (tvl p), tb_category = ''Volume'', tb_trend = TREND_UP\<rparr>,
      \<lparr>tb_metric = ''Total Escrows'', tb_value = nt_num T (as_totalEscrows s), tb_category = ''Escrows'', tb_trend = TREND_NEUTRAL\<rparr>,
      \<lparr>tb_metric = ''Funded Escrows'', tb_value = nt_num T (as_fundedEscrows s), tb_category = ''Escrows'', tb_trend = TREND_UP\<rparr>,
      \<lparr>tb_metric = ''Released Escrows'', tb_value = nt_num T (as_releasedEscrows s), tb_category = ''Escrows'', tb_trend = TREND_UP\<rparr>,
      \<lparr>tb_metric = ''Disputed Escrows'', tb_value = nt_num T (as_disputedEscrows s), tb_category = ''Escrows'', tb_trend = TREND_DOWN\<rparr>,
      \<lparr>tb_metric = ''Total Loans'', tb_value = nt_num T (as_totalLoans s), tb_category = ''Loans'', tb_trend = TREND_NEUTRAL\<rparr>,
      \<lparr>tb_metric = ''Active Loans'', tb_value = nt_num T (as_activeLoans s), tb_category = ''Loans'', tb_trend = TREND_UP\<rparr>,
      \<lparr>tb_metric = ''Defaulted Loans'', tb_value = nt_num T (as_defaultedLoans s), tb_category = ''Loans'', tb_trend = TREND_DOWN\<rparr>,
      \<lparr>tb_metric = ''Default Rate'', tb_value = nt_fixed T 1 (fl64 (defaultRate p * 100)) @ ''%'', tb_category = ''Risk'',
        tb_trend = if fl64 (5 / 100) < defaultRate p then TREND_DOWN else TREND_NEUTRAL\<rparr>,
      \<lparr>tb_metric = ''Avg Interest Rate'', tb_value = nt_fixed T 2 (fl64 (nt_rate T (avgInterestRate p) * 100)) @ ''%'',
        tb_category = ''Risk'', tb_trend = TREND_NEUTRAL\<rparr>,
      \<lparr>tb_metric = ''Total Users'', tb_value = nt_num T (as_totalUsers s), tb_category = ''Users'', tb_trend = TREND_UP\<rparr>,
      \<lparr>tb_metric = ''Active Wallets'', tb_value = nt_num T (as_activeWallets s), tb_category = ''Users'', tb_trend = TREND_UP\<rparr>,
      \<lparr>tb_metric = ''Governance Proposals'', tb_value = nt_num T (as_governanceProposals s), tb_category = ''Governance'', tb_trend = TREND_NEUTRAL\<rparr>,
      \<lparr>tb_metric = ''Participation Rate'', tb_value = nt_fixed T 0 (fl64 (as_participationRate s * 100)) @ ''%'',
        tb_category = ''Governance'', tb_trend = TREND_NEUTRAL\<rparr>]"

definition table_categories :: "table_row list \<Rightarrow> string list" where
  "table_categories rows = ''All'' # fold add_key (map tb_category rows) []"

definition table_filtered :: "string \<Rightarrow> table_row list \<Rightarrow> table_row list" where
  "table_filtered category rows = (if category = ''All'' then rows else filter (\<lambda>r. tb_category r = category) rows)"

text \<open>The categories without the first one divide the table.\<close>

lemma table_divided:
  "concat (map (\<lambda>c. table_filtered c (buildRows T s p)) (tl (table_categories (buildRows T s p)))) = buildRows T s p"
  by (simp add: table_categories_def table_filtered_def buildRows_def add_key_def)

section \<open>The panels of the dashboard\<close>

definition WIDGETS :: "string list" where
  "WIDGETS = [''portfolio'', ''collateral'', ''metrics'', ''activity'', ''actions'', ''notifications'']"

definition WIDGETS_KEY :: string where "WIDGETS_KEY = ''stellovault_dashboard_widgets''"

type_synonym visibility = "(string \<times> json) list"

definition DEFAULT_VISIBILITY :: visibility where
  "DEFAULT_VISIBILITY = map (\<lambda>w. (w, JBool True)) WIDGETS"

text \<open>The initial state, read from the local storage; a stored value of any kind is spread over the default.\<close>

definition load_widgets :: "(string \<Rightarrow> json option) \<Rightarrow> web_storage \<Rightarrow> visibility" where
  "load_widgets parse st = (case safeJsonParse parse (safeGetItem WIDGETS_KEY st) of
     None \<Rightarrow> DEFAULT_VISIBILITY | Some j \<Rightarrow> fold put_prop (spread j) DEFAULT_VISIBILITY)"

definition save_widgets :: "(json \<Rightarrow> string) \<Rightarrow> visibility \<Rightarrow> web_storage \<Rightarrow> web_storage" where
  "save_widgets text' vis st = safeSetItem WIDGETS_KEY (text' (JObj vis)) st"

definition isVisible :: "visibility \<Rightarrow> string \<Rightarrow> bool" where
  "isVisible vis i \<longleftrightarrow> map_of vis i \<noteq> Some (JBool False)"

definition toggle_widget :: "string \<Rightarrow> visibility \<Rightarrow> visibility" where
  "toggle_widget i vis = put_prop (i, JBool (\<not> isVisible vis i)) vis"

lemma map_of_put_prop: "map_of (put_prop kv kvs) k = (if k = fst kv then Some (snd kv) else map_of kvs k)"
proof (cases "fst kv \<in> fst ` set kvs")
  case True
  have "map_of (map (\<lambda>p. if fst p = fst kv then kv else p) ps) k
      = (if k = fst kv \<and> map_of ps k \<noteq> None then Some (snd kv) else map_of ps k)" for ps
    by (induction ps) auto
  then show ?thesis using True by (auto simp: put_prop_def map_of_eq_None_iff)
next
  case False
  then have "map_of kvs (fst kv) = None" by (simp add: map_of_eq_None_iff)
  then show ?thesis using False by (cases kv) (auto simp: put_prop_def map_add_def split: option.split)
qed

lemma distinct_put_prop:
  assumes "distinct (map fst kvs)"
  shows "distinct (map fst (put_prop kv kvs))"
proof -
  have "map fst (map (\<lambda>p. if fst p = fst kv then kv else p) kvs) = map fst kvs" by simp
  then show ?thesis using assms by (auto simp: put_prop_def simp del: map_map)
qed

lemma map_of_fold_put: "distinct (map fst kvs) \<Longrightarrow> map_of (fold put_prop kvs base) k
    = (case map_of kvs k of Some v \<Rightarrow> Some v | None \<Rightarrow> map_of base k)"
proof (induction kvs arbitrary: base)
  case (Cons kv kvs)
  then have "map_of kvs (fst kv) = None" by (simp add: map_of_eq_None_iff)
  then show ?case using Cons by (cases kv) (auto simp: map_of_put_prop split: option.split)
qed simp

text \<open>
  Clicking a widget turns it alone, also one that was never stored; what is saved is shown again
  when the page is opened the next time.
\<close>

lemma toggle_widget_exact: "isVisible (toggle_widget i vis) k \<longleftrightarrow> (if k = i then \<not> isVisible vis i else isVisible vis k)"
  by (simp add: isVisible_def toggle_widget_def map_of_put_prop)

definition widgets_stored :: "(string \<Rightarrow> json option) \<Rightarrow> (json \<Rightarrow> string) \<Rightarrow> bool" where
  "widgets_stored parse text' \<longleftrightarrow> (\<forall>vis. text' (JObj vis) \<noteq> [] \<and> parse (text' (JObj vis)) = Some (JObj vis))"

lemma distinct_toggles: "distinct (map fst vis) \<Longrightarrow> distinct (map fst (fold toggle_widget is' vis))"
  by (induction is' arbitrary: vis) (simp_all add: toggle_widget_def distinct_put_prop)

lemma widgets_remembered:
  assumes "widgets_stored parse text'" and "readable st" "writable st"
    and "vis = fold toggle_widget clicks DEFAULT_VISIBILITY"
  shows "isVisible (load_widgets parse (save_widgets text' vis st)) k \<longleftrightarrow> isVisible vis k"
proof -
  have "distinct (map fst DEFAULT_VISIBILITY)" by code_simp
  then have d: "distinct (map fst vis)" by (simp add: assms(4) distinct_toggles)
  have "map_of DEFAULT_VISIBILITY k \<noteq> Some (JBool False)"
    by (auto simp: DEFAULT_VISIBILITY_def dest!: map_of_SomeD)
  then show ?thesis using assms(1-3)
    by (auto simp: load_widgets_def save_widgets_def safeGetItem_def safeSetItem_def safeJsonParse_def widgets_stored_def
        isVisible_def map_of_fold_put [OF d] split: option.splits)
qed

section \<open>The performance chart\<close>

text \<open>\<open>time\<close> reads a date, none when it is no date; comparisons with \<open>NaN\<close> are false.\<close>

definition filterMetricsByRange :: "(string \<Rightarrow> int option) \<Rightarrow> metric_range \<Rightarrow> metrics_point list \<Rightarrow> metrics_point list" where
  "filterMetricsByRange time r xs = (case RANGE_DAYS r of
     None \<Rightarrow> xs
   | Some days \<Rightarrow> if xs = [] then xs else
       let cutoff = map_option (\<lambda>a. a - int days * 24 * 60 * 60 * 1000) (time (mp_date (last xs)));
           kept = filter (\<lambda>p. case (time (mp_date p), cutoff) of (Some t, Some c) \<Rightarrow> c \<le> t | _ \<Rightarrow> False) xs
       in if kept = [] then [last xs] else kept)"

text \<open>
  The latest point is always shown, nothing is shown that is not in the data, and a longer range
  shows all that a shorter one does.
\<close>

lemma range_kept:
  assumes "xs \<noteq> []"
  shows "last xs \<in> set (filterMetricsByRange time r xs) \<and> set (filterMetricsByRange time r xs) \<subseteq> set xs"
proof (cases "RANGE_DAYS r")
  case (Some days)
  show ?thesis
  proof (cases "time (mp_date (last xs))")
    case None
    then show ?thesis using assms Some by (simp add: filterMetricsByRange_def case_prod_unfold option.case_eq_if)
  next
    case (Some a)
    then show ?thesis using assms \<open>RANGE_DAYS r = Some days\<close>
      by (auto simp: filterMetricsByRange_def Let_def filter_empty_conv split: option.splits)
  qed
qed (use assms in \<open>simp add: filterMetricsByRange_def\<close>)

lemma range_longer:
  assumes "RANGE_DAYS r = Some d" "RANGE_DAYS r' = Some d'" "d \<le> d'" and "p \<in> set (filterMetricsByRange time r xs)"
  shows "p \<in> set (filterMetricsByRange time r' xs)"
proof (cases "xs = [] \<or> time (mp_date (last xs)) = None")
  case False
  then obtain a where xs: "xs \<noteq> []" "time (mp_date (last xs)) = Some a" by auto
  have kept: "filterMetricsByRange time x xs = filter (\<lambda>p. case time (mp_date p) of Some t \<Rightarrow> a - int n * 86400000 \<le> t | None \<Rightarrow> False) xs"
    if "RANGE_DAYS x = Some n" for x n
  proof -
    have "last xs \<in> set (filter (\<lambda>p. case time (mp_date p) of Some t \<Rightarrow> a - int n * 86400000 \<le> t | None \<Rightarrow> False) xs)"
      using xs by simp
    then have "filter (\<lambda>p. case time (mp_date p) of Some t \<Rightarrow> a - int n * 86400000 \<le> t | None \<Rightarrow> False) xs \<noteq> []" by force
    then show ?thesis using xs that by (simp add: filterMetricsByRange_def Let_def mult.assoc cong: option.case_cong)
  qed
  have "a - int d' * 86400000 \<le> a - int d * 86400000" using assms(3) by simp
  then show ?thesis using assms(4) by (auto simp: kept [OF assms(1)] kept [OF assms(2)] split: option.splits)
next
  case True
  have "filterMetricsByRange time x xs = (if xs = [] then [] else [last xs])" if "RANGE_DAYS x = Some n" for x n
  proof -
    have no: "(\<exists>y. t = Some y) \<and> t = None \<longleftrightarrow> False" for t :: "int option" by auto
    show ?thesis using True that by (auto simp: filterMetricsByRange_def case_prod_unfold option.case_eq_if no)
  qed
  then show ?thesis using assms by metis
qed

end
