(* ===== verification/Web_Tables.thy ===== *)
theory Web_Tables
  imports Web_Panels Risk_View
begin

text \<open>
  Lists and tables of the web application: the collateral of the dashboard
  (\<open>components/dashboard/CollateralPortfolio.tsx\<close>), its overview, activity, notifications and export
  (\<open>PortfolioOverview.tsx\<close>, \<open>RecentActivity.tsx\<close>, \<open>NotificationCenter.tsx\<close>, \<open>app/dashboard/page.tsx\<close>),
  the timeline of loans (\<open>components/risk/LoanTimeline.tsx\<close>), the projection of a score
  (\<open>components/risk/ScoreHistoryChart.tsx\<close>), the ages of transactions
  (\<open>components/transactions/TransactionHistoryDrawer.tsx\<close>) and the pages of the escrows
  (\<open>app/escrows/\<close>).
\<close>

section \<open>Sorting with a comparison\<close>

text \<open>
  \<open>Array.prototype.sort\<close> is stable; for a comparison with the laws below this says which list it
  returns, so that an insertion sort stands for it.
\<close>

fun insert_by :: "('a \<Rightarrow> 'a \<Rightarrow> rat) \<Rightarrow> 'a \<Rightarrow> 'a list \<Rightarrow> 'a list" where
  "insert_by cmp x [] = [x]"
| "insert_by cmp x (y # ys) = (if cmp x y \<le> 0 then x # y # ys else y # insert_by cmp x ys)"

definition js_sort :: "('a \<Rightarrow> 'a \<Rightarrow> rat) \<Rightarrow> 'a list \<Rightarrow> 'a list" where
  "js_sort cmp xs = foldr (insert_by cmp) xs []"

lemma mset_insert_by [simp]: "mset (insert_by cmp x ys) = add_mset x (mset ys)"
  by (induction ys) simp_all

lemma mset_js_sort [simp]: "mset (js_sort cmp xs) = mset xs"
  by (induction xs) (simp_all add: js_sort_def)

locale comparison =
  fixes cmp :: "'a \<Rightarrow> 'a \<Rightarrow> rat"
  assumes cmp_opposite: "cmp y x = - cmp x y"
    and cmp_trans: "cmp x y \<le> 0 \<Longrightarrow> cmp y z \<le> 0 \<Longrightarrow> cmp x z \<le> 0"
begin

lemma insert_sorted: "sorted_wrt (\<lambda>x y. cmp x y \<le> 0) ys \<Longrightarrow> sorted_wrt (\<lambda>x y. cmp x y \<le> 0) (insert_by cmp x ys)"
proof (induction ys)
  case (Cons y ys)
  show ?case
  proof (cases "cmp x y \<le> 0")
    case True
    then show ?thesis using Cons.prems by (auto intro: cmp_trans)
  next
    case False
    then have "cmp y x \<le> 0" using cmp_opposite [of y x] by simp
    moreover have "set (insert_by cmp x ys) = insert x (set ys)" by (metis mset_insert_by set_mset_add_mset_insert set_mset_mset)
    ultimately show ?thesis using False Cons by simp
  qed
qed simp

lemma sorted_by: "sorted_wrt (\<lambda>x y. cmp x y \<le> 0) (js_sort cmp xs)"
  by (induction xs) (simp_all add: js_sort_def insert_sorted)

lemma opposite: "comparison (\<lambda>x y. - cmp x y)"
proof
  show "- cmp y x = - (- cmp x y)" for x y using cmp_opposite [of y x] by simp
  show "- cmp x z \<le> 0" if "- cmp x y \<le> 0" "- cmp y z \<le> 0" for x y z
    using cmp_trans [of z y x] that cmp_opposite [of x y] cmp_opposite [of y z] cmp_opposite [of x z] by simp
qed

end

section \<open>The collateral of the dashboard\<close>

text \<open>The loan of the dashboard, with the fields the export and the table add.\<close>

record dash_loan = web_loan +
  dl_borrower :: string
  dl_maturityDate :: int

record collateral_row =
  cr_id :: string
  cr_assetType :: string
  cr_collateralValue :: rat
  cr_principal :: rat
  cr_utilization :: rat
  cr_status :: string
  cr_maturityDate :: int

definition loan_status_text :: "web_loan_status \<Rightarrow> string" where
  "loan_status_text s = (case s of WL_PENDING \<Rightarrow> ''PENDING'' | WL_ACTIVE \<Rightarrow> ''ACTIVE'' | WL_REPAID \<Rightarrow> ''REPAID'' | WL_DEFAULTED \<Rightarrow> ''DEFAULTED'')"

definition collateral_row_of :: "dash_loan \<Rightarrow> collateral_row" where
  "collateral_row_of l = \<lparr>cr_id = wl_id l, cr_assetType = wl_assetType l, cr_collateralValue = wl_collateralValue l,
     cr_principal = wl_principal l,
     cr_utilization = if wl_collateralValue l = 0 then 0 else fl64 (wl_principal l / wl_collateralValue l),
     cr_status = js_lower (loan_status_text (wl_status l)), cr_maturityDate = dl_maturityDate l\<rparr>"

definition STATUS_BADGE :: "string \<Rightarrow> string option" where
  "STATUS_BADGE = map_of [(''active'', ''emerald''), (''pending'', ''amber''), (''defaulted'', ''red'')]"

datatype collateral_column = COL_ID | COL_ASSET | COL_VALUE | COL_PRINCIPAL | COL_UTILIZATION | COL_STATUS | COL_MATURITY

text \<open>\<open>collate\<close> is \<open>localeCompare\<close>. Only the sign of a comparison counts.\<close>

definition row_cmp :: "(string \<Rightarrow> string \<Rightarrow> rat) \<Rightarrow> collateral_column \<Rightarrow> collateral_row \<Rightarrow> collateral_row \<Rightarrow> rat" where
  "row_cmp collate col a b = (case col of
     COL_ID \<Rightarrow> collate (cr_id a) (cr_id b)
   | COL_ASSET \<Rightarrow> collate (cr_assetType a) (cr_assetType b)
   | COL_VALUE \<Rightarrow> cr_collateralValue a - cr_collateralValue b
   | COL_PRINCIPAL \<Rightarrow> cr_principal a - cr_principal b
   | COL_UTILIZATION \<Rightarrow> cr_utilization a - cr_utilization b
   | COL_STATUS \<Rightarrow> collate (cr_status a) (cr_status b)
   | COL_MATURITY \<Rightarrow> of_int (cr_maturityDate a - cr_maturityDate b))"

definition sort_rows :: "(string \<Rightarrow> string \<Rightarrow> rat) \<Rightarrow> collateral_column \<Rightarrow> bool \<Rightarrow> collateral_row list \<Rightarrow> collateral_row list" where
  "sort_rows collate col asc rows = js_sort (\<lambda>a b. if asc then row_cmp collate col a b else - row_cmp collate col a b) rows"

definition handleSort :: "collateral_column \<Rightarrow> collateral_column \<times> bool \<Rightarrow> collateral_column \<times> bool" where
  "handleSort key s = (if key = fst s then (fst s, \<not> snd s) else (key, False))"

lemma comparison_by_number: "comparison (\<lambda>a b. f a - f b)" for f :: "'a \<Rightarrow> rat"
  by unfold_locales simp_all

lemma comparison_by_text:
  assumes "comparison collate"
  shows "comparison (\<lambda>a b. collate (f a) (f b))"
proof
  show "collate (f y) (f x) = - collate (f x) (f y)" for x y by (rule comparison.cmp_opposite [OF assms])
  show "collate (f x) (f z) \<le> 0" if "collate (f x) (f y) \<le> 0" "collate (f y) (f z) \<le> 0" for x y z
    using comparison.cmp_trans [OF assms that] .
qed

interpretation value_order: comparison "\<lambda>a b. cr_collateralValue a - cr_collateralValue b"
  by (rule comparison_by_number)

lemma row_cmp_comparison: "comparison collate \<Longrightarrow> comparison (row_cmp collate col)"
  using comparison_by_number [of "\<lambda>r. of_int (cr_maturityDate r)"]
  by (cases col) (simp_all add: row_cmp_def [abs_def] comparison_by_number comparison_by_text)

text \<open>Each click on a header gives a table of the same rows in the order of its column.\<close>

lemma sort_rows_sorted:
  assumes "comparison collate"
  shows "mset (sort_rows collate col asc rows) = mset rows
    \<and> sorted_wrt (\<lambda>a b. if asc then row_cmp collate col a b \<le> 0 else 0 \<le> row_cmp collate col a b) (sort_rows collate col asc rows)"
  using comparison.sorted_by [OF row_cmp_comparison [OF assms], of col rows]
    comparison.sorted_by [OF comparison.opposite [OF row_cmp_comparison [OF assms]], of col rows]
  by (cases asc) (simp_all add: sort_rows_def)

lemma sort_by_value: "sorted_wrt (\<lambda>a b. cr_collateralValue b \<le> cr_collateralValue a) (sort_rows collate COL_VALUE False rows)"
proof -
  have "sorted_wrt (\<lambda>a b. - (cr_collateralValue a - cr_collateralValue b) \<le> 0)
      (js_sort (\<lambda>a b. - (cr_collateralValue a - cr_collateralValue b)) rows)"
    by (rule comparison.sorted_by [OF value_order.opposite])
  then show ?thesis by (simp add: sort_rows_def row_cmp_def)
qed

text \<open>A repaid loan has a status the table has no badge for; the others have one.\<close>

lemma repaid_without_badge: "STATUS_BADGE (cr_status (collateral_row_of l)) = None \<longleftrightarrow> wl_status l = WL_REPAID"
proof -
  have "js_lower ''PENDING'' = ''pending''" "js_lower ''ACTIVE'' = ''active''" "js_lower ''REPAID'' = ''repaid''"
      "js_lower ''DEFAULTED'' = ''defaulted''"
    by code_simp+
  then show ?thesis by (cases "wl_status l") (simp_all add: collateral_row_of_def loan_status_text_def STATUS_BADGE_def)
qed

section \<open>The other panels of the dashboard\<close>

definition utilizationPct :: "portfolio \<Rightarrow> rat" where
  "utilizationPct p = min 100 (fl64 (pf_utilization p * 100))"

definition repaidPct :: "portfolio \<Rightarrow> rat" where
  "repaidPct p = (let tot = fl64 (pf_totalRepaid p + pf_totalOutstanding p) in
     if tot = 0 then 0 else fl64 (fl64 (pf_totalRepaid p / tot) * 100))"

text \<open>Both bars stay within 0 and 100 percent for amounts that are not negative.\<close>

lemma bars_within:
  assumes "0 \<le> pf_utilization p" "0 \<le> pf_totalRepaid p" "0 \<le> pf_totalOutstanding p" "fl64 (pf_totalRepaid p) = pf_totalRepaid p"
  shows "0 \<le> utilizationPct p \<and> utilizationPct p \<le> 100 \<and> 0 \<le> repaidPct p \<and> repaidPct p \<le> 100"
proof -
  have nn: "0 \<le> x \<Longrightarrow> 0 \<le> fl64 x" for x using js.fl_mono [of 0 x] by simp
  have hundred: "fl64 100 = 100" using js.fl_int [of 100] by simp
  let ?tot = "fl64 (pf_totalRepaid p + pf_totalOutstanding p)"
  have le: "pf_totalRepaid p \<le> ?tot" using js.fl_mono [of "pf_totalRepaid p" "pf_totalRepaid p + pf_totalOutstanding p"] assms(3,4) by simp
  have "0 \<le> repaidPct p \<and> repaidPct p \<le> 100"
  proof (cases "?tot = 0")
    case False
    then have pos: "0 < ?tot" using le assms(2) by simp
    then have "pf_totalRepaid p / ?tot \<le> 1" using le by simp
    then have q: "fl64 (pf_totalRepaid p / ?tot) \<le> 1" using js.fl_mono [of _ 1] by fastforce
    have "0 \<le> fl64 (pf_totalRepaid p / ?tot)" using assms(2) pos by (intro nn) simp
    moreover have "fl64 (fl64 (pf_totalRepaid p / ?tot) * 100) \<le> fl64 100" using q by (intro js.fl_mono) simp
    ultimately show ?thesis using False hundred by (simp add: repaidPct_def Let_def nn)
  qed (simp add: repaidPct_def Let_def)
  moreover have "0 \<le> fl64 (pf_utilization p * 100)" using assms(1) by (intro nn) simp
  ultimately show ?thesis by (simp add: utilizationPct_def)
qed

definition recent_activity :: "activity_category option \<Rightarrow> nat \<Rightarrow> activity_item list \<Rightarrow> activity_item list" where
  "recent_activity category maxItems xs =
     take maxItems (case category of None \<Rightarrow> xs | Some c \<Rightarrow> filter (\<lambda>i. act_category i = c) xs)"

definition notifications_shown :: "bool \<Rightarrow> notification list \<Rightarrow> notification list" where
  "notifications_shown onlyUnread ns = (if onlyUnread then filter (\<lambda>n. \<not> nt_read n) ns else ns)"

definition unreadCount :: "notification list \<Rightarrow> nat" where
  "unreadCount ns = length (filter (\<lambda>n. \<not> nt_read n) ns)"

text \<open>Reading a notification takes it off the list of unread ones, and off the count.\<close>

lemma read_leaves_list: "notifications_shown True (markNotificationRead i ns) = filter (\<lambda>n. nt_id n \<noteq> i) (notifications_shown True ns)"
  by (induction ns) (auto simp: notifications_shown_def markNotificationRead_def)

lemma read_all: "unreadCount (fold (\<lambda>n. markNotificationRead (nt_id n)) ns ns) = 0"
proof -
  have keep: "i \<in> set is' \<or> (\<forall>n\<in>set ms. nt_id n = i \<longrightarrow> nt_read n)
      \<Longrightarrow> \<forall>n\<in>set (fold markNotificationRead is' ms). nt_id n = i \<longrightarrow> nt_read n" for i is' ms
  proof (induction is' arbitrary: ms)
    case (Cons a is')
    then have "i \<in> set is' \<or> (\<forall>n\<in>set (markNotificationRead a ms). nt_id n = i \<longrightarrow> nt_read n)"
      by (auto simp: markNotificationRead_def)
    then show ?case unfolding fold_simps by (rule Cons.IH)
  qed simp
  have ids: "set (map nt_id (fold markNotificationRead is' ms)) = set (map nt_id ms)" for is' ms
    by (induction is' arbitrary: ms) (simp_all only: fold_simps id_apply comp_apply mark_read)
  have "fold (\<lambda>n. markNotificationRead (nt_id n)) ns ns = fold markNotificationRead (map nt_id ns) ns"
    by (simp add: fold_map comp_def)
  moreover have "nt_read n" if "n \<in> set (fold markNotificationRead (map nt_id ns) ns)" for n
  proof -
    have "nt_id n \<in> set (map nt_id ns)" using that ids [of "map nt_id ns" ns] by (metis image_eqI list.set_map)
    then show ?thesis using keep [of "nt_id n" "map nt_id ns" ns] that by blast
  qed
  ultimately show ?thesis by (simp add: unreadCount_def filter_empty_conv)
qed

definition summaryMetrics :: "number_texts \<Rightarrow> portfolio \<Rightarrow> notification list \<Rightarrow> (string \<times> string) list" where
  "summaryMetrics T p ns =
     (let dollars = (\<lambda>x. ''$'' @ nt_amount T (nt_num T (of_int (math_round x)))) in
      [(''Active loans'', nt_num T (of_nat (pf_activeLoanCount p))), (''Collateral pledged'', dollars (pf_totalCollateralValue p)),
       (''Outstanding'', dollars (pf_totalOutstanding p)), (''Repaid'', dollars (pf_totalRepaid p)),
       (''Pending notifications'', nt_num T (of_nat (unreadCount ns)))])"

definition export_row_of :: "(int \<Rightarrow> string) \<Rightarrow> dash_loan \<Rightarrow> rat export_row" where
  "export_row_of iso_time l =
     [(''id'', Cell_Text (wl_id l)), (''borrower'', Cell_Text (dl_borrower l)), (''asset'', Cell_Text (wl_assetType l)),
      (''collateralValue'', Cell_Number (wl_collateralValue l)), (''principal'', Cell_Number (wl_principal l)),
      (''interestRate'', Cell_Number (wl_interestRate l)), (''status'', Cell_Text (loan_status_text (wl_status l))),
      (''totalRepaid'', Cell_Number (js_sum (map wr_amount (wl_repayments l)))),
      (''maturityDate'', Cell_Text (iso_time (dl_maturityDate l)))]"

definition handleExport ::
    "(rat \<Rightarrow> string) \<Rightarrow> (rat export_row list \<Rightarrow> string) \<Rightarrow> (int \<Rightarrow> string) \<Rightarrow> dash_loan list \<Rightarrow> export_format \<Rightarrow> string" where
  "handleExport num json_text iso_time ls format = serialiseExport num json_text (map (export_row_of iso_time) ls) format"

text \<open>Every export of at least one loan has the same nine columns.\<close>

lemma export_columns:
  assumes "ls \<noteq> []"
  shows "csv_headers (map (export_row_of iso_time) ls)
    = [''id'', ''borrower'', ''asset'', ''collateralValue'', ''principal'', ''interestRate'', ''status'', ''totalRepaid'', ''maturityDate'']"
    (is "_ = ?cols")
proof -
  have cols: "map fst (export_row_of iso_time l) = ?cols" for l by (simp add: export_row_of_def)
  have known: "fold add_key ks acc = acc" if "set ks \<subseteq> set acc" for ks acc
    using that by (induction ks) (simp_all add: add_key_def)
  have stay: "fold (\<lambda>row acc. fold add_key (map fst row) acc) (map (export_row_of iso_time) xs) ?cols = ?cols" for xs
  proof (induction xs)
    case (Cons x xs)
    have "fold add_key ?cols ?cols = ?cols" by (rule known) simp
    then show ?case using Cons by (simp only: list.map fold_simps cols)
  qed simp
  obtain x xs where "ls = x # xs" using assms by (cases ls) simp_all
  moreover have "fold add_key ?cols [] = ?cols" by (simp add: add_key_def)
  ultimately show ?thesis using stay [of xs] by (simp only: csv_headers_def list.map fold_simps comp_apply cols)
qed

section \<open>The timeline of loans\<close>

definition axis_width :: rat where "axis_width = 784"

definition timeMin :: "timeline_loan list \<Rightarrow> int" where
  "timeMin ls = Min (set (map tl_createdAt ls))"

definition timeMax :: "timeline_loan list \<Rightarrow> int" where
  "timeMax ls = Max (set (map tl_endAt ls))"

definition totalSpan :: "timeline_loan list \<Rightarrow> rat" where
  "totalSpan ls = (if timeMax ls = timeMin ls then 1 else of_int (timeMax ls - timeMin ls))"

definition timeToX :: "timeline_loan list \<Rightarrow> int \<Rightarrow> rat" where
  "timeToX ls t = fl64 (8 + fl64 (fl64 (of_int (t - timeMin ls) / totalSpan ls) * axis_width))"

definition loanBarWidth :: "timeline_loan list \<Rightarrow> timeline_loan \<Rightarrow> rat" where
  "loanBarWidth ls l = max (fl64 (fl64 (of_int (tl_endAt l - tl_createdAt l) / totalSpan ls) * axis_width)) 4"

definition svgHeight :: "timeline_loan list \<Rightarrow> nat" where
  "svgHeight ls = max 120 (length ls * 28 + 40)"

text \<open>
  A bar starts on the axis when its loan was created before the last end; it is never thinner than 4,
  and the bars lie above the axis.
\<close>

lemma bar_on_axis:
  assumes "l \<in> set ls" and "tl_createdAt l \<le> timeMax ls"
  shows "8 \<le> timeToX ls (tl_createdAt l) \<and> timeToX ls (tl_createdAt l) \<le> 792 \<and> 4 \<le> loanBarWidth ls l"
proof -
  have ints: "fl64 0 = 0" "fl64 1 = 1" "fl64 8 = 8" "fl64 784 = 784" "fl64 792 = 792"
    using js.fl_int [of 8] js.fl_int [of 784] js.fl_int [of 792] by simp_all
  have "timeMin ls \<le> tl_createdAt l" using assms(1) by (simp add: timeMin_def)
  then have q: "0 \<le> of_int (tl_createdAt l - timeMin ls) / totalSpan ls" "of_int (tl_createdAt l - timeMin ls) / totalSpan ls \<le> 1"
    using assms(2) by (auto simp: totalSpan_def divide_le_eq)
  let ?q = "fl64 (of_int (tl_createdAt l - timeMin ls) / totalSpan ls)"
  have "0 \<le> ?q" "?q \<le> 1" using js.fl_mono [OF q(1)] js.fl_mono [OF q(2)] ints by simp_all
  then have "fl64 0 \<le> fl64 (?q * 784)" "fl64 (?q * 784) \<le> fl64 784" by (intro js.fl_mono; simp)+
  then have "8 \<le> 8 + fl64 (?q * 784)" "8 + fl64 (?q * 784) \<le> 792" using ints by simp_all
  from js.fl_mono [OF this(1)] js.fl_mono [OF this(2)] show ?thesis
    using ints by (simp add: timeToX_def axis_width_def loanBarWidth_def)
qed

lemma bars_above_axis: "i < length ls \<Longrightarrow> i * 28 + 10 + 18 \<le> svgHeight ls - 20"
  by (simp add: svgHeight_def)

section \<open>The pages of a score\<close>

text \<open>The page to go to, or the error shown; the accounts it knows are those beginning with G.\<close>

definition handleLookup :: "string \<Rightarrow> string + string" where
  "handleLookup wallet =
     (if wallet = [] then Inl ''Please enter a wallet address''
      else if \<not> (length wallet = 56 \<and> hd wallet = CHR ''G'' \<and> list_all wallet_char (tl wallet))
      then Inl ''Invalid Stellar wallet address format''
      else Inr (''/risk/'' @ wallet))"

lemma lookup_accepted: "handleLookup wallet = Inr p \<Longrightarrow> STELLAR_ADDRESS_REGEX wallet \<and> p = ''/risk/'' @ wallet"
  by (auto simp: handleLookup_def STELLAR_ADDRESS_REGEX_def split: if_splits)

lemma contract_not_looked_up:
  "STELLAR_ADDRESS_REGEX wallet \<Longrightarrow> hd wallet = CHR ''C'' \<Longrightarrow> handleLookup wallet = Inl ''Invalid Stellar wallet address format''"
  by (auto simp: handleLookup_def STELLAR_ADDRESS_REGEX_def)

definition parseRange :: "string option \<Rightarrow> string" where
  "parseRange v = (if v \<in> {Some ''6m'', Some ''1y'', Some ''all''} then the v else ''6m'')"

definition simulationData :: "(string \<times> jsnum) list \<Rightarrow> (string \<times> jsnum) option \<Rightarrow> (string \<times> jsnum) list" where
  "simulationData history p = (case p of None \<Rightarrow> [] | Some p \<Rightarrow> if history = [] then [] else [last history, p])"

text \<open>The second line goes from the last known score to the projected one, or is not drawn.\<close>

lemma projection_line:
  "length (simulationData history p) = 2 \<longleftrightarrow> history \<noteq> [] \<and> p \<noteq> None"
  "simulationData history p \<noteq> [] \<Longrightarrow> simulationData history p = [last history, the p]"
  by (auto simp: simulationData_def split: option.splits if_splits)

section \<open>Transactions and escrows\<close>

definition formatTimestamp :: "(int \<Rightarrow> string) \<Rightarrow> int \<Rightarrow> int \<Rightarrow> string" where
  "formatTimestamp day now timestamp =
     (let diffMs = now - timestamp; diffMins = diffMs div 60000; diffHours = diffMs div 3600000; diffDays = diffMs div 86400000 in
      if diffMins < 1 then ''Just now''
      else if diffMins < 60 then digits (nat diffMins) @ ''m ago''
      else if diffHours < 24 then digits (nat diffHours) @ ''h ago''
      else if diffDays < 7 then digits (nat diffDays) @ ''d ago''
      else day timestamp)"

definition shortenHash :: "string \<Rightarrow> string" where
  "shortenHash h = (if h = [] then ''Pending...'' else take 8 h @ ''...'' @ drop (length h - 4) h)"

lemma format_future: "now < timestamp + 60000 \<Longrightarrow> formatTimestamp day now timestamp = ''Just now''"
  by (simp add: formatTimestamp_def Let_def)

definition activeCount :: "web_escrow list \<Rightarrow> nat" where
  "activeCount es = length (filter (\<lambda>e. we_status e \<in> {WE_FUNDED, WE_IN_TRANSIT, WE_INSPECTION, WE_DISPUTED}) es)"

definition canRelease :: "web_escrow \<Rightarrow> bool" where
  "canRelease e \<longleftrightarrow> we_status e = WE_INSPECTION"

definition canDispute :: "web_escrow \<Rightarrow> bool" where
  "canDispute e \<longleftrightarrow> we_status e \<notin> {WE_RELEASED, WE_DISPUTED}"

lemma release_disputable: "canRelease e \<Longrightarrow> canDispute e"
  by (simp add: canRelease_def canDispute_def)

end
