(* ===== verification/Liquidity.thy ===== *)
theory Liquidity
  imports Tx_View Wallet_View
begin

text \<open>
  Deposits and withdrawals of the web application: the balances (\<open>fetchAccountBalances\<close>) and the
  whole of \<open>executeOperation\<close> of \<open>frontend/src/hooks/useLiquidity.ts\<close>, over the history of
  transactions (\<open>Tx_View\<close>), and the amount the button Max of
  \<open>frontend/src/components/dashboard/LiquidityModal.tsx\<close> fills in. The network, the wallet and the
  builder of transactions are parameters: a call returns or throws.
\<close>

section \<open>Decimal texts\<close>

text \<open>\<open>x.toFixed(k)\<close> for a number that is not negative, and \<open>parseFloat\<close> of a text without an exponent.\<close>

definition zeros_to :: "nat \<Rightarrow> string \<Rightarrow> string" where
  "zeros_to k s = replicate (k - length s) (CHR ''0'') @ s"

definition to_fixed :: "nat \<Rightarrow> rat \<Rightarrow> string" where
  "to_fixed k x = (let n = nat (math_round (x * 10 ^ k)) in
     digits (n div 10 ^ k) @ (if k = 0 then [] else CHR ''.'' # zeros_to k (digits (n mod 10 ^ k))))"

definition plain_float :: "string \<Rightarrow> jsnum" where
  "plain_float s =
     (let a = takeWhile js_digit s; r = dropWhile js_digit s in
      if a = [] then NaN
      else if r \<noteq> [] \<and> hd r = CHR ''.'' then
        let f = takeWhile js_digit (tl r) in Fin (fl64 (of_nat (decimal_value (a @ f)) / 10 ^ length f))
      else Fin (fl64 (of_nat (decimal_value a))))"

lemma decimal_value_append: "decimal_value (a @ f) = decimal_value a * 10 ^ length f + decimal_value f"
proof (induction f rule: rev_induct)
  case Nil
  then show ?case by (simp add: decimal_value_def)
next
  case (snoc c f)
  then show ?case by (simp add: decimal_value_snoc algebra_simps flip: append_assoc)
qed

lemma decimal_value_zeros: "decimal_value (zeros_to k s) = decimal_value s"
proof -
  have "decimal_value (replicate j (CHR ''0'')) = 0" for j
  proof (induction j)
    case (Suc j)
    have "replicate (Suc j) (CHR ''0'') = replicate j (CHR ''0'') @ [CHR ''0'']" by (simp add: replicate_append_same)
    then show ?case using Suc by (simp only: decimal_value_snoc) (simp add: digit_of_def)
  qed (simp add: decimal_value_def)
  then show ?thesis by (simp add: zeros_to_def decimal_value_append)
qed

lemma length_digits: "0 < k \<Longrightarrow> n < 10 ^ k \<Longrightarrow> length (digits n) \<le> k"
proof (induction n arbitrary: k rule: digits.induct)
  case (1 n)
  show ?case
  proof (cases "n < 10")
    case True
    then show ?thesis using 1 by (subst digits.simps) simp
  next
    case False
    with 1(3) have "1 < k" by (cases k; cases "k - 1") auto
    then obtain j where k: "k = Suc j" "0 < j" by (cases k) auto
    then have "n div 10 < 10 ^ j" using 1(3) by (simp add: less_mult_imp_div_less mult.commute)
    then show ?thesis using 1(1) [OF False k(2)] False k(1) by (subst digits.simps) simp
  qed
qed

lemma plain_float_fixed:
  assumes "0 < k"
  shows "plain_float (to_fixed k x) = Fin (fl64 (of_nat (nat (math_round (x * 10 ^ k))) / 10 ^ k))"
proof -
  let ?n = "nat (math_round (x * 10 ^ k))"
  let ?f = "zeros_to k (digits (?n mod 10 ^ k))"
  have len: "length ?f = k" using length_digits [OF assms, of "?n mod 10 ^ k"] by (simp add: zeros_to_def)
  have f: "list_all js_digit ?f" using digits_digit [of "?n mod 10 ^ k"] by (auto simp: zeros_to_def list_all_iff js_digit_def)
  have a: "list_all js_digit (digits (?n div 10 ^ k))" by (rule digits_digit)
  have dot: "\<not> js_digit (CHR ''.'')" by (simp add: js_digit_def)
  have t: "takeWhile js_digit (to_fixed k x) = digits (?n div 10 ^ k)" "dropWhile js_digit (to_fixed k x) = CHR ''.'' # ?f"
    using a dot assms by (simp_all add: to_fixed_def Let_def list_all_iff)
  have w: "takeWhile js_digit ?f = ?f" using f by (simp add: takeWhile_eq_all_conv list_all_iff)
  have v: "decimal_value (digits (?n div 10 ^ k) @ ?f) = ?n"
    by (simp only: decimal_value_append len decimal_value_zeros decimal_digits div_mult_mod_eq)
  show ?thesis unfolding plain_float_def Let_def t list.sel w v len by simp
qed

text \<open>A double is close enough to seven decimals to give them back.\<close>

lemma fl64_near:
  assumes "0 \<le> x" and "x \<le> 2 ^ 28"
  shows "\<bar>fl64 x - x\<bar> \<le> 1 / 2 ^ 25"
proof -
  define m where "m = \<lfloor>x * 2 ^ 25\<rfloor>"
  have m: "of_int m \<le> x * 2 ^ 25" "x * 2 ^ 25 < of_int m + 1" unfolding m_def using floor_correct [of "x * 2 ^ 25"] by simp_all
  have "x * 2 ^ 25 \<le> 2 ^ 53" using assms(2) by simp
  then have "m \<le> 2 ^ 53" "0 \<le> m" using assms(1) by (simp_all add: m_def floor_le_iff)
  then have grid: "fl64 (of_int k / 2 ^ 25) = of_int k / 2 ^ 25" if "k \<in> {m, m + 1}" "k \<le> 2 ^ 53" for k
    using js.fl_exact [of k "- 25"] that by (auto simp: power_int_minus field_simps)
  have lo: "of_int m / 2 ^ 25 \<le> fl64 x"
  proof -
    have "fl64 (of_int m / 2 ^ 25) \<le> fl64 x" using m(1) by (intro js.fl_mono) (simp add: field_simps)
    then show ?thesis using grid [of m] \<open>m \<le> 2 ^ 53\<close> by simp
  qed
  have hi: "fl64 x \<le> of_int (m + 1) / 2 ^ 25"
  proof (cases "m = 2 ^ 53")
    case True
    then have "x = 2 ^ 28" using m(1) assms(2) by simp
    then show ?thesis using grid [of m] True by simp
  next
    case False
    have "fl64 x \<le> fl64 (of_int (m + 1) / 2 ^ 25)" using m(2) by (intro js.fl_mono) (simp add: field_simps)
    then show ?thesis using grid [of "m + 1"] False \<open>m \<le> 2 ^ 53\<close> by simp
  qed
  have "fl64 x - x \<le> 1 / 2 ^ 25" "x - fl64 x \<le> 1 / 2 ^ 25" using lo hi m by (simp_all add: field_simps)
  then show ?thesis by (simp only: abs_le_iff minus_diff_eq)
qed

lemma seven_decimals_back:
  assumes "n \<le> 2 ^ 28 * 10 ^ 7"
  shows "math_round (fl64 (of_nat n / 10 ^ 7) * 10 ^ 7) = int n"
proof -
  define d where "d = fl64 (of_nat n / 10 ^ 7) - of_nat n / 10 ^ 7"
  have "\<bar>d\<bar> \<le> 1 / 2 ^ 25"
    unfolding d_def by (rule fl64_near) (use assms in \<open>simp_all add: divide_le_eq\<close>)
  then have d: "- (1 / 2 ^ 25) \<le> d" "d \<le> 1 / 2 ^ 25" by linarith+
  have "fl64 (of_nat n / 10 ^ 7) * 10 ^ 7 = of_nat n + d * 10 ^ 7" by (simp add: d_def algebra_simps)
  moreover have "- (1 / 2) \<le> d * 10 ^ 7" "d * 10 ^ 7 < 1 / 2" using d by simp_all
  ultimately show ?thesis unfolding math_round_def by (simp add: floor_eq_iff)
qed

section \<open>Balances\<close>

record supported_token =
  st_code :: string
  st_issuer :: "string option"

definition USDC_ISSUER :: string where
  "USDC_ISSUER = ''GBBD47IF6LWK7P7MDEVSCWR7DPUWV3NY3DTQEVFL4NAT4AQH3ZLLFLA5''"

definition SUPPORTED_TOKENS :: "supported_token list" where
  "SUPPORTED_TOKENS = [\<lparr>st_code = ''XLM'', st_issuer = None\<rparr>, \<lparr>st_code = ''USDC'', st_issuer = Some USDC_ISSUER\<rparr>]"

record horizon_balance =
  hb_asset_type :: string
  hb_asset_code :: "string option"
  hb_asset_issuer :: "string option"
  hb_balance :: string

definition balance_of :: "horizon_balance list \<Rightarrow> supported_token \<Rightarrow> token_balance" where
  "balance_of bs t =
     (let raw = (case st_issuer t of
          None \<Rightarrow> find (\<lambda>b. hb_asset_type b = ''native'') bs
        | Some issuer \<Rightarrow> find (\<lambda>b. hb_asset_type b = ''credit_alphanum4'' \<and> hb_asset_code b = Some (st_code t)
            \<and> hb_asset_issuer b = Some issuer) bs)
      in \<lparr>tb_code = st_code t, tb_issuer = st_issuer t, tb_balance = (case raw of None \<Rightarrow> ''0'' | Some b \<Rightarrow> hb_balance b)\<rparr>)"

text \<open>The answer of Horizon: none when it is not ok; a reply without balances counts as an empty one.\<close>

definition fetchAccountBalances :: "horizon_balance list option js_call \<Rightarrow> string + token_balance list" where
  "fetchAccountBalances reply = (case reply of
     Throws msg \<Rightarrow> Inl msg
   | Returns None \<Rightarrow> Inl ''Failed to fetch account balances''
   | Returns (Some bs) \<Rightarrow> Inr (map (balance_of bs) SUPPORTED_TOKENS))"

record balances_view =
  bv_balances :: "token_balance list"
  bv_loading :: bool
  bv_error :: "string option"

definition refresh_begin :: "string option \<Rightarrow> balances_view \<Rightarrow> balances_view" where
  "refresh_begin publicKey s = (if publicKey \<in> {None, Some []} then s else s\<lparr>bv_loading := True, bv_error := None\<rparr>)"

definition refresh_end :: "horizon_balance list option js_call \<Rightarrow> balances_view \<Rightarrow> balances_view" where
  "refresh_end reply s = (case fetchAccountBalances reply of
     Inl msg \<Rightarrow> s\<lparr>bv_error := Some msg, bv_loading := False\<rparr>
   | Inr bs \<Rightarrow> s\<lparr>bv_balances := bs, bv_loading := False\<rparr>)"

text \<open>What an answer loads is exactly the two tokens, so the check of an amount never lacks one.\<close>

lemma balances_loaded:
  assumes "fetchAccountBalances reply = Inr bs"
  shows "map tb_code bs = [''XLM'', ''USDC''] \<and> validateAmount parse bs amount ''XLM'' \<noteq> Some Not_Loaded
    \<and> validateAmount parse bs amount ''USDC'' \<noteq> Some Not_Loaded"
proof -
  have "map tb_code bs = [''XLM'', ''USDC'']"
    using assms by (auto simp: fetchAccountBalances_def SUPPORTED_TOKENS_def balance_of_def Let_def split: js_call.splits option.splits)
  then obtain x u where "bs = [x, u]" "tb_code x = ''XLM''" "tb_code u = ''USDC''" by auto
  then show ?thesis by (simp add: validateAmount_def Let_def)
qed

section \<open>The button Max\<close>

definition max_amount :: "string \<Rightarrow> rat \<Rightarrow> string" where
  "max_amount code available = (if code = ''XLM'' then to_fixed 7 (max 0 (fl64 (available - 3 / 2))) else to_fixed 7 available)"

text \<open>For a token other than XLM the button fills in exactly the balance, up to 268 million.\<close>

lemma max_of_token:
  assumes "plain_float balance = Fin (fl64 (of_nat n / 10 ^ 7))" and "n \<le> 2 ^ 28 * 10 ^ 7" and "code \<noteq> ''XLM''"
  shows "plain_float (max_amount code (fl64 (of_nat n / 10 ^ 7))) = plain_float balance"
proof -
  have "plain_float (to_fixed 7 (fl64 (of_nat n / 10 ^ 7)))
      = Fin (fl64 (of_nat (nat (math_round (fl64 (of_nat n / 10 ^ 7) * 10 ^ 7))) / 10 ^ 7))"
    by (rule plain_float_fixed) simp
  then show ?thesis using assms(1,3) unfolding seven_decimals_back [OF assms(2)] by (simp only: max_amount_def if_False nat_int)
qed

text \<open>
  For XLM the button can fill in an amount that the check refuses: with a balance of 2.2571212
  it is 0.7571212, and this with the reserve of 1.5, added in floating point, is more than the balance.
\<close>

lemma max_refused:
  "max_amount ''XLM'' (fl64 (22571212 / 10 ^ 7)) = ''0.7571212''
   \<and> validateAmount plain_float [\<lparr>tb_code = ''XLM'', tb_issuer = None, tb_balance = ''2.2571212''\<rparr>] ''0.7571212'' ''XLM''
       = Some Insufficient_Fees"
proof
  have chars: "char_of (48 :: nat) = CHR ''0''" "char_of (49 :: nat) = CHR ''1''" "char_of (50 :: nat) = CHR ''2''"
      "char_of (53 :: nat) = CHR ''5''" "char_of (55 :: nat) = CHR ''7''"
    by code_simp+
  have "math_round (max 0 (fl64 (fl64 (22571212 / 10 ^ 7) - 3 / 2)) * 10 ^ 7) = 7571212" by code_simp
  then show "max_amount ''XLM'' (fl64 (22571212 / 10 ^ 7)) = ''0.7571212''"
    unfolding max_amount_def to_fixed_def Let_def by (simp add: digits.simps zeros_to_def chars)
  have "plain_float ''2.2571212'' = Fin (fl64 (22571212 / 10 ^ 7))" "plain_float ''0.7571212'' = Fin (fl64 (7571212 / 10 ^ 7))"
    by (simp_all add: plain_float_def js_digit_def decimal_value_def digit_of_def)
  moreover have "fl64 (22571212 / 10 ^ 7) < fl64 (fl64 (7571212 / 10 ^ 7) + 3 / 2)" "0 < fl64 (7571212 / 10 ^ 7)"
      "\<not> fl64 (22571212 / 10 ^ 7) < fl64 (7571212 / 10 ^ 7)" by code_simp+
  ultimately show "validateAmount plain_float [\<lparr>tb_code = ''XLM'', tb_issuer = None, tb_balance = ''2.2571212''\<rparr>] ''0.7571212'' ''XLM''
       = Some Insufficient_Fees"
    by (simp only: validateAmount_def Let_def) (simp add: js_plus_rat_def MIN_XLM_FEE_RESERVE_def)
qed

section \<open>An operation\<close>

text \<open>What the calls of one operation answer; Horizon refuses with a code, or without one.\<close>

record liquidity_calls =
  lc_account :: "unit js_call"
  lc_build :: "string option \<times> string \<Rightarrow> string js_call" \<comment> \<open>from source and destination\<close>
  lc_sign :: "string \<Rightarrow> (string \<times> string option) js_call"
  lc_submit :: "string \<Rightarrow> (string option + string) js_call"

definition operation_result :: "liquidity_calls \<Rightarrow> operation_kind \<Rightarrow> string \<Rightarrow> string \<Rightarrow> string + string" where
  "operation_result A kind publicKey vault = (case lc_account A of
     Throws m \<Rightarrow> Inl m
   | Returns _ \<Rightarrow> (case lc_build A (payment_of kind publicKey vault) of
       Throws m \<Rightarrow> Inl m
     | Returns xdr \<Rightarrow> (case lc_sign A xdr of
         Throws m \<Rightarrow> Inl m
       | Returns (signed, err) \<Rightarrow> (case err of
           Some m \<Rightarrow> Inl m
         | None \<Rightarrow> (case lc_submit A signed of
             Throws m \<Rightarrow> Inl m
           | Returns (Inl code) \<Rightarrow> Inl (case code of Some c \<Rightarrow> c | None \<Rightarrow> ''Transaction failed'')
           | Returns (Inr hash) \<Rightarrow> Inr hash)))))"

definition executeOperation ::
    "string \<Rightarrow> int \<Rightarrow> liquidity_calls \<Rightarrow> string option \<Rightarrow> operation_kind \<Rightarrow> string \<Rightarrow> string \<Rightarrow> string \<Rightarrow> tx_store \<Rightarrow> (string + string) \<times> tx_store" where
  "executeOperation new_id now A publicKey kind code amount vault s =
     (if publicKey \<in> {None, Some []} then (Inl ''Wallet not connected'', s)
      else let r = operation_result A kind (the publicKey) vault; s1 = operation_begin new_id now kind amount code s in
        (r, operation_end new_id (case r of Inl _ \<Rightarrow> None | Inr hash \<Rightarrow> Some hash) s1))"

text \<open>
  However the calls answer, an operation of a connected wallet ends in the history: as a success
  with the hash that is returned, or as a failure when an error is; it never stays pending.
\<close>

lemma operation_recorded:
  assumes "executeOperation i now A (Some (c # key)) kind code amount vault s = (r, s')"
  shows "\<exists>t. getTransaction i s' = Some t \<and> wt_network t = Testnet \<and> wt_timestamp t = now
    \<and> (case r of Inr hash \<Rightarrow> wt_status t = TX_SUCCESS \<and> wt_hash t = hash | Inl _ \<Rightarrow> wt_status t = TX_FAILED \<and> wt_hash t = [])"
proof -
  let ?t = "\<lparr>wt_id = i, wt_hash = [], wt_status = TX_PENDING,
      wt_type = (if kind = DEPOSIT then ''liquidity_deposit'' else ''liquidity_withdraw''),
      wt_description = (if kind = DEPOSIT then ''Deposit'' else ''Withdraw'') @ '' '' @ amount @ '' '' @ code,
      wt_timestamp = now, wt_network = Testnet, wt_url = None\<rparr>"
  have "getTransaction i (operation_begin i now kind amount code s) = Some ?t"
    by (simp add: getTransaction_def operation_begin_def addTransaction_def MAX_TRANSACTIONS_def)
  then have "getTransaction i (updateTransaction i p (operation_begin i now kind amount code s)) = Some (patch_tx p ?t)" for p
    using update_found [of i i p "operation_begin i now kind amount code s"] by simp
  moreover have "s' = operation_end i (case r of Inl _ \<Rightarrow> None | Inr hash \<Rightarrow> Some hash) (operation_begin i now kind amount code s)"
    using assms by (auto simp: executeOperation_def Let_def)
  ultimately show ?thesis by (cases r) (simp_all add: operation_end_def patch_tx_def)
qed

text \<open>
  A transaction needs the signatures of its account and of the source of its payment. Who signs
  is the connected key: a deposit is fully signed, a withdrawal lacks the signature of the vault.
\<close>

definition VAULT_ADDRESS :: string where
  "VAULT_ADDRESS = ''GBBD47IF6LWK7P7MDEVSCWR7DPUWV3NY3DTQEVFL4NAT4AQH3ZLLFLA5''"

definition required_signers :: "operation_kind \<Rightarrow> string \<Rightarrow> string \<Rightarrow> string set" where
  "required_signers kind publicKey vault =
     insert publicKey (case fst (payment_of kind publicKey vault) of None \<Rightarrow> {} | Some source \<Rightarrow> {source})"

lemma withdrawal_not_signed:
  assumes "publicKey \<noteq> vault"
  shows "required_signers kind publicKey vault \<subseteq> {publicKey} \<longleftrightarrow> kind = DEPOSIT"
  using assms by (cases kind) (auto simp: required_signers_def payment_of_def)

text \<open>The vault is the issuer of USDC: a deposit of USDC goes back to its issuer, which destroys it.\<close>

lemma vault_is_issuer: "snd (payment_of DEPOSIT publicKey VAULT_ADDRESS) = USDC_ISSUER"
  by (simp add: payment_of_def VAULT_ADDRESS_def USDC_ISSUER_def)

end
