(* ===== verification/Web_Mutations.thy ===== *)
theory Web_Mutations
  imports Web_Forms Web_Lists Wallet_View Dashboard
begin

text \<open>
  The requests of the web application that change something (\<open>hooks/useOracles.ts\<close>,
  \<open>hooks/useCollateral.ts\<close>), against the replies of the server's error middleware; the page of an
  oracle with the form of a confirmation (\<open>app/oracles/[id]/page.tsx\<close>); the pages of the
  collateral (\<open>app/collateral/\<close>) and the cards of oracles (\<open>components/oracles/\<close>).
\<close>

section \<open>Requests\<close>

text \<open>A reply has a status and, when its body is JSON, a value; the network may throw instead.\<close>

datatype api_reply = Api_Reply nat "json option"

definition reply_ok :: "nat \<Rightarrow> bool" where
  "reply_ok status \<longleftrightarrow> 200 \<le> status \<and> status < 300"

text \<open>
  \<open>err.message ?? fallback\<close> of the body of a refused request, or of \<open>{}\<close> when it is no JSON; a
  message that is no text is given as a text by \<open>show\<close>. The body null throws.
\<close>

definition refusal_text :: "(json \<Rightarrow> string) \<Rightarrow> string \<Rightarrow> json option \<Rightarrow> string" where
  "refusal_text show' fallback body = (case body of
     Some JNull \<Rightarrow> ''Cannot read properties of null''
   | Some j \<Rightarrow> (case props j ''message'' of None \<Rightarrow> fallback | Some JNull \<Rightarrow> fallback | Some (JStr s) \<Rightarrow> s | Some v \<Rightarrow> show' v)
   | None \<Rightarrow> fallback)"

text \<open>\<open>reads_message\<close>: two of the requests throw a fixed text without looking at the body.\<close>

definition post_call :: "(json \<Rightarrow> string) \<Rightarrow> bool \<Rightarrow> string \<Rightarrow> api_reply js_call \<Rightarrow> string + json option" where
  "post_call show' reads_message fallback r = (case r of
     Throws m \<Rightarrow> Inl m
   | Returns (Api_Reply status body) \<Rightarrow>
       if \<not> reply_ok status then Inl (if reads_message then refusal_text show' fallback body else fallback)
       else (case body of
           None \<Rightarrow> Inl ''Unexpected token''
         | Some JNull \<Rightarrow> Inl ''Cannot read properties of null''
         | Some j \<Rightarrow> Inr (props j ''data'')))"

definition registerOracle_call :: "(json \<Rightarrow> string) \<Rightarrow> api_reply js_call \<Rightarrow> string + json option" where
  "registerOracle_call show' = post_call show' True ''Registration failed''"

definition submitConfirmation_call :: "(json \<Rightarrow> string) \<Rightarrow> api_reply js_call \<Rightarrow> string + json option" where
  "submitConfirmation_call show' = post_call show' True ''Submission failed''"

definition tokenizeAsset_call :: "(json \<Rightarrow> string) \<Rightarrow> api_reply js_call \<Rightarrow> string + json option" where
  "tokenizeAsset_call show' = post_call show' True ''Tokenization failed''"

definition updateValuation_call :: "(json \<Rightarrow> string) \<Rightarrow> api_reply js_call \<Rightarrow> string + json option" where
  "updateValuation_call show' = post_call show' False ''Update failed''"

definition verifyCollateral_call :: "(json \<Rightarrow> string) \<Rightarrow> api_reply js_call \<Rightarrow> string + json option" where
  "verifyCollateral_call show' = post_call show' False ''Verification failed''"

text \<open>The body of an error reply of the server.\<close>

definition error_body :: "http_response \<Rightarrow> string \<Rightarrow> json" where
  "error_body r requestId = JObj [(''success'', JBool False), (''error'', JStr (http_error r)), (''requestId'', JStr requestId)]"

definition error_reply :: "app_error \<Rightarrow> string \<Rightarrow> api_reply" where
  "error_reply e requestId = Api_Reply (http_status (errorMiddleware e)) (Some (error_body (errorMiddleware e) requestId))"

text \<open>
  The server names its reason \<open>error\<close>, the hooks look for \<open>message\<close>: whatever the server refuses
  a request for, the user is told the same text.
\<close>

lemma reasons_lost: "post_call show' b fallback (Returns (error_reply e requestId)) = Inl fallback"
proof -
  have "\<not> reply_ok (http_status (errorMiddleware e))" by (cases e) (simp_all add: errorMiddleware_def reply_ok_def)
  then show ?thesis by (simp add: post_call_def error_reply_def error_body_def refusal_text_def)
qed

section \<open>The page of an oracle\<close>

text \<open>
  While a request runs the page shows a skeleton in place of the form, which starts anew
  afterwards, with a nonce of its own: the state of the form is there only between requests.
\<close>

record oracle_page =
  op_loading :: bool
  op_form :: "confirmation_form option"
  op_sent :: "confirmation_request list"
  op_nonces :: nat \<comment> \<open>how many have been drawn\<close>

definition fresh_form :: "(nat \<Rightarrow> string) \<Rightarrow> oracle_page \<Rightarrow> oracle_page" where
  "fresh_form nonce s = s\<lparr>op_loading := False, op_form := Some (confirmation_form_start (nonce (op_nonces s))), op_nonces := op_nonces s + 1\<rparr>"

definition oracle_page_start :: "(nat \<Rightarrow> string) \<Rightarrow> oracle_page" where
  "oracle_page_start nonce = fresh_form nonce \<lparr>op_loading = False, op_form = None, op_sent = [], op_nonces = 0\<rparr>"

text \<open>
  What the user does in the form, and the end of the request, with or without success: its outcome
  is given to a form that is not there any more.
\<close>

datatype oracle_page_event = FORM_EVENT confirmation_event | REQUEST_ENDED bool

fun oracle_page_step :: "(string \<Rightarrow> json option) \<Rightarrow> (nat \<Rightarrow> string) \<Rightarrow> string \<Rightarrow> oracle_page_event \<Rightarrow> oracle_page \<Rightarrow> oracle_page" where
  "oracle_page_step parse nonce a (FORM_EVENT e) s = (case op_form s of
     None \<Rightarrow> s
   | Some f \<Rightarrow> let f' = confirmation_step parse a e f in
       if cf_loading f' then s\<lparr>op_loading := True, op_form := None, op_sent := op_sent s @ cf_sent f'\<rparr>
       else s\<lparr>op_form := Some f'\<rparr>)"
| "oracle_page_step parse nonce a (REQUEST_ENDED ok) s = (if op_loading s then fresh_form nonce s else s)"

definition form_ok :: "confirmation_form \<Rightarrow> bool" where
  "form_ok f \<longleftrightarrow> \<not> cf_loading f \<and> \<not> cf_success f \<and> cf_sent f = [] \<and> cf_error f \<in> {None, Some ''Payload must be valid JSON''}"

definition oracle_page_ok :: "oracle_page \<Rightarrow> bool" where
  "oracle_page_ok s \<longleftrightarrow> (case op_form s of None \<Rightarrow> op_loading s | Some f \<Rightarrow> \<not> op_loading s \<and> form_ok f)"

lemma form_ok_step: "form_ok f \<Longrightarrow> cf_loading (confirmation_step parse a e f) \<or> form_ok (confirmation_step parse a e f)"
  by (cases e) (auto simp: form_ok_def confirmation_submit_def split: option.split)

lemma oracle_page_step_ok: "oracle_page_ok s \<Longrightarrow> oracle_page_ok (oracle_page_step parse nonce a e s)"
proof (cases e)
  case (FORM_EVENT ev)
  assume ok: "oracle_page_ok s"
  show ?thesis
  proof (cases "op_form s")
    case (Some f)
    define f' where "f' = confirmation_step parse a ev f"
    have "form_ok f" "\<not> op_loading s" using ok Some by (simp_all add: oracle_page_ok_def)
    then have "cf_loading f' \<or> form_ok f'" unfolding f'_def by (intro form_ok_step)
    then show ?thesis using Some FORM_EVENT \<open>\<not> op_loading s\<close>
      by (auto simp: oracle_page_ok_def Let_def simp flip: f'_def simp del: confirmation_step.simps)
  qed (use ok FORM_EVENT in simp)
next
  case (REQUEST_ENDED ok)
  then show "oracle_page_ok s \<Longrightarrow> ?thesis"
    by (auto simp: oracle_page_ok_def fresh_form_def confirmation_form_start_def form_ok_def)
qed

text \<open>
  C39. Nobody who submits a confirmation on the page of an oracle is told how it ended: whatever is
  done and answered, the form never shows a success, and the only error it ever shows is that the
  payload is no JSON. A form that is shown is not loading.
\<close>

theorem confirmation_outcome_lost:
  assumes "op_form (fold (oracle_page_step parse nonce a) es (oracle_page_start nonce)) = Some f"
  shows "\<not> cf_success f \<and> cf_error f \<in> {None, Some ''Payload must be valid JSON''} \<and> \<not> cf_loading f
    \<and> \<not> op_loading (fold (oracle_page_step parse nonce a) es (oracle_page_start nonce))"
proof -
  have "oracle_page_ok (fold (oracle_page_step parse nonce a) es s)" if "oracle_page_ok s" for s
    using that by (induction es arbitrary: s) (simp_all add: oracle_page_step_ok)
  moreover have "oracle_page_ok (oracle_page_start nonce)"
    by (simp add: oracle_page_start_def fresh_form_def confirmation_form_start_def oracle_page_ok_def form_ok_def)
  ultimately show ?thesis using assms by (force simp: oracle_page_ok_def form_ok_def)
qed

definition demo_page_events :: "oracle_page_event list" where
  "demo_page_events = [FORM_EVENT (CF_ESCROW ''e1''), FORM_EVENT (CF_SIGNATURE ''sig''), FORM_EVENT CF_SUBMIT, REQUEST_ENDED True]"

definition demo_object :: "string \<Rightarrow> json option" where
  "demo_object t = (if t = ''{}'' then Some (JObj []) else None)"

lemma demo_page:
  "op_form (fold (oracle_page_step demo_object (\<lambda>n. ''n'') ''G1'') demo_page_events (oracle_page_start (\<lambda>n. ''n'')))
     = Some (confirmation_form_start ''n'')
   \<and> length (op_sent (fold (oracle_page_step demo_object (\<lambda>n. ''n'') ''G1'') demo_page_events (oracle_page_start (\<lambda>n. ''n'')))) = 1"
  by (simp add: demo_page_events_def oracle_page_start_def fresh_form_def confirmation_form_start_def confirmation_submit_def
      demo_object_def)

theorem confirmation_outcome_lost_witness:
  "length (op_sent (fold (oracle_page_step demo_object (\<lambda>n. ''n'') ''G1'') demo_page_events (oracle_page_start (\<lambda>n. ''n'')))) = 1
   \<and> \<not> cf_success (confirmation_form_start ''n'')"
  using confirmation_outcome_lost [OF conjunct1 [OF demo_page]] demo_page by blast

section \<open>The pages of the collateral\<close>

definition collateral_matches :: "string \<Rightarrow> web_collateral \<Rightarrow> bool" where
  "collateral_matches search c \<longleftrightarrow> search = [] \<or>
     (let q = js_lower search; has = (\<lambda>t. case t of None \<Rightarrow> False | Some s \<Rightarrow> contains_text q (js_lower s)) in
      has (wc_description c) \<or> has (wc_issuer c) \<or> has (wc_assetType c) \<or> contains_text q (js_lower (wc_id c)))"

definition collateral_filtered :: "string \<Rightarrow> web_collateral list \<Rightarrow> web_collateral list" where
  "collateral_filtered search cs = filter (collateral_matches search) cs"

text \<open>The total and the count are those of all rows that were loaded, not of those that are found.\<close>

definition collateral_total :: "(string \<Rightarrow> rat) \<Rightarrow> web_collateral list \<Rightarrow> rat" where
  "collateral_total num cs = js_sum (map (\<lambda>c. num (wc_amount c)) cs)"

definition lockedCount :: "web_collateral list \<Rightarrow> nat" where
  "lockedCount cs = length (filter (\<lambda>c. wc_status c = WC_LOCKED) cs)"

lemma locked_only_tab:
  "lockedCount (fetchCollaterals e (Some (collateral_status_text st)) None)
     = (if st = WC_LOCKED then length (fetchCollaterals e (Some (collateral_status_text st)) None) else 0)"
proof -
  have "lockedCount (filter (\<lambda>c. st = wc_status c) cs) = (if st = WC_LOCKED then length (filter (\<lambda>c. st = wc_status c) cs) else 0)" for cs
    by (induction cs) (auto simp: lockedCount_def)
  moreover have "fetchCollaterals e (Some (collateral_status_text st)) None = filter (\<lambda>c. st = wc_status c) MOCK_COLLATERALS"
    unfolding fetchCollaterals_def rows_or_mock_def option.case
  proof (rule filter_cong [OF refl])
    show "(Some (collateral_status_text st) \<in> {None, Some []} \<or> Some (collateral_status_text st) = Some (collateral_status_text (wc_status c)))
        = (st = wc_status c)" for c by (cases st; cases "wc_status c") simp_all
  qed
  ultimately show ?thesis by (simp only:)
qed

text \<open>The history of a valuation is drawn at random around the amount: 30 days, within 10 percent.\<close>

definition generateMockHistory :: "(int \<Rightarrow> string) \<Rightarrow> (nat \<Rightarrow> rat) \<Rightarrow> int \<Rightarrow> rat \<Rightarrow> (string \<times> rat) list" where
  "generateMockHistory iso_time rnd now amount =
     map (\<lambda>i. (iso_time (now - int i * 24 * 60 * 60 * 1000), fl64 (amount * fl64 (fl64 (9 / 10) + fl64 (rnd i * fl64 (2 / 10)))))) (rev [0..<30])"

section \<open>Oracles\<close>

record earnings =
  er_reward :: rat
  er_slashed :: rat
  er_staked :: rat
  er_net :: rat
  er_average :: rat

definition earnings_of :: "rat \<Rightarrow> rat \<Rightarrow> rat \<Rightarrow> nat \<Rightarrow> earnings" where
  "earnings_of reward slashed staked confirmed =
     \<lparr>er_reward = reward, er_slashed = slashed, er_staked = staked, er_net = fl64 (reward - slashed),
      er_average = if 0 < confirmed then fl64 (reward / of_nat confirmed) else 0\<rparr>"

definition successRate :: "nat \<Rightarrow> nat \<Rightarrow> int" where
  "successRate successful tot = (if 0 < tot then math_round (fl64 (fl64 (of_nat successful / of_nat tot) * 100)) else 0)"

lemma successRate_range:
  assumes "successful \<le> tot"
  shows "0 \<le> successRate successful tot \<and> successRate successful tot \<le> 100"
proof (cases "0 < tot")
  case True
  have ints: "fl64 1 = 1" "fl64 100 = 100" using js.fl_int [of 100] by simp_all
  have q: "0 \<le> of_nat successful / (of_nat tot :: rat)" "of_nat successful / (of_nat tot :: rat) \<le> 1"
    using assms True by (simp_all add: divide_le_eq)
  from js.fl_mono [OF q(1)] js.fl_mono [OF q(2)]
  have "0 \<le> fl64 (of_nat successful / of_nat tot)" "fl64 (of_nat successful / of_nat tot) \<le> 1" using ints by simp_all
  then have "fl64 0 \<le> fl64 (fl64 (of_nat successful / of_nat tot) * 100)" "fl64 (fl64 (of_nat successful / of_nat tot) * 100) \<le> fl64 100"
    by (intro js.fl_mono; simp)+
  then have "math_round 0 \<le> math_round (fl64 (fl64 (of_nat successful / of_nat tot) * 100))"
      "math_round (fl64 (fl64 (of_nat successful / of_nat tot) * 100)) \<le> math_round 100"
    using ints by (intro math_round_mono; simp)+
  then show ?thesis using True math_round_int [of 0] math_round_int [of 100] by (simp add: successRate_def)
qed (simp add: successRate_def)

end
