(* ===== verification/Web_Shell.thy ===== *)
theory Web_Shell
  imports Web_Tables Liquidity
begin

text \<open>
  What surrounds the pages of the web application: the menus (\<open>components/layout/Navbar.tsx\<close>,
  \<open>MobileBottomNav.tsx\<close>, \<open>Footer.tsx\<close>, \<open>components/dashboard/Sidebar.tsx\<close>, \<open>QuickActions.tsx\<close>)
  against the pages there are and the paths the proxy serves, the wallet of the menu and the
  dialog that picks one (\<open>components/auth/WalletPickerModal.tsx\<close>), the signals of mobile browsers
  (\<open>components/layout/MobileRuntimeSignals.tsx\<close>, \<open>app/api/v1/analytics/mobile\<close>), the card of first
  steps (\<open>components/onboarding/QuickStartCard.tsx\<close>), the state of the dashboard
  (\<open>hooks/useDashboard.ts\<close>), and the payment statuses of \<open>types/loan.ts\<close>.
\<close>

section \<open>Menus\<close>

definition NAVIGATION :: "string list" where
  "NAVIGATION = [''/dashboard'', ''/dashboard/deals'', ''/loans'', ''/dashboard/collateral'', ''/dashboard/escrows'',
     ''/dashboard/repayments'', ''/dashboard/risk'', ''/dashboard/alerts'']"

definition navLinks :: "string list" where
  "navLinks = [''/#features'', ''/#innovation'', ''/#impact'', ''/escrows'', ''/about'', ''/contact'', ''/governance'']"

definition navItems :: "string list" where
  "navItems = [''/'', ''/dashboard'', ''/escrows'', ''/loans'', ''/governance'']"

definition footer_links :: "string list" where
  "footer_links = [''/'', ''/#features'', ''/#innovation'', ''/dashboard'', ''/about'', ''/blog'', ''/careers'', ''/contact'', ''/docs'', ''/faq'']"

definition DEFAULT_ACTIONS :: "string list" where
  "DEFAULT_ACTIONS = [''/loans/new'', ''/escrows'', ''/collateral'', ''/risk'']"

text \<open>Which entries a menu marks, given the path of the browser.\<close>

definition sidebar_active :: "string \<Rightarrow> string \<Rightarrow> bool" where
  "sidebar_active pathname href \<longleftrightarrow> pathname = href"

definition navbar_active :: "string \<Rightarrow> string \<Rightarrow> bool" where
  "navbar_active pathname path \<longleftrightarrow>
     (if path = ''/'' then pathname = ''/''
      else if starts_with ''/#'' path then pathname = ''/''
      else pathname = path)"

definition bottom_active :: "string \<Rightarrow> string \<Rightarrow> bool" where
  "bottom_active pathname href \<longleftrightarrow> (if href = ''/'' then pathname = ''/'' else starts_with href pathname)"

text \<open>
  The pages of the application, one for each directory under \<open>app\<close> with a file \<open>page.tsx\<close>; None is
  a segment in brackets, which any text matches.
\<close>

definition app_pages :: "string option list list" where
  "app_pages =
     [[], [Some ''about''], [Some ''analytics''], [Some ''analytics'', Some ''portfolio''], [Some ''analytics'', Some ''reports''],
      [Some ''api-docs''], [Some ''collateral''], [Some ''collateral'', Some ''new''], [Some ''collateral'', None],
      [Some ''contact''], [Some ''dashboard''], [Some ''dashboard'', Some ''collateral''], [Some ''dashboard'', Some ''escrows''],
      [Some ''escrows''], [Some ''escrows'', Some ''new''], [Some ''escrows'', None],
      [Some ''governance''], [Some ''governance'', Some ''new''], [Some ''governance'', None],
      [Some ''loans''], [Some ''loans'', Some ''new''], [Some ''loans'', None], [Some ''login''],
      [Some ''oracles''], [Some ''oracles'', Some ''register''], [Some ''oracles'', None], [Some ''profile''],
      [Some ''risk''], [Some ''risk'', None]]"

definition path_segments :: "string \<Rightarrow> string list" where
  "path_segments p = filter (\<lambda>x. x \<noteq> []) (split_at (CHR ''/'') (takeWhile (\<lambda>c. c \<noteq> CHR ''#'') p))"

fun page_matches :: "string option list \<Rightarrow> string list \<Rightarrow> bool" where
  "page_matches [] [] = True"
| "page_matches (x # xs) (y # ys) = ((case x of None \<Rightarrow> True | Some n \<Rightarrow> n = y) \<and> page_matches xs ys)"
| "page_matches _ _ = False"

definition page_exists :: "string \<Rightarrow> bool" where
  "page_exists p \<longleftrightarrow> list_ex (\<lambda>pat. page_matches pat (path_segments p)) app_pages"

text \<open>
  Four links of the sidebar and four of the footer lead nowhere, half of the sidebar; all links of
  the other menus have a page.
\<close>

theorem dead_links:
  "filter (\<lambda>p. \<not> page_exists p) NAVIGATION = [''/dashboard/deals'', ''/dashboard/repayments'', ''/dashboard/risk'', ''/dashboard/alerts'']
   \<and> filter (\<lambda>p. \<not> page_exists p) footer_links = [''/blog'', ''/careers'', ''/docs'', ''/faq'']
   \<and> list_all page_exists (navLinks @ navItems @ DEFAULT_ACTIONS)"
  by (simp add: NAVIGATION_def footer_links_def navLinks_def navItems_def DEFAULT_ACTIONS_def page_exists_def app_pages_def path_segments_def)

text \<open>At any path the bar at the bottom marks at most one entry.\<close>

lemma bottom_marks_one:
  assumes "a \<in> set navItems" and "b \<in> set navItems" and "bottom_active p a" and "bottom_active p b"
  shows "a = b"
proof -
  have "take 2 a = take 2 p \<or> a = p" if "a \<in> set navItems" "bottom_active p a" for a
  proof (cases "a = ''/''")
    case False
    then have t: "take (length a) p = a" and "2 \<le> length a" using that by (auto simp: bottom_active_def starts_with_def navItems_def)
    then have "take 2 a = take 2 (take (length a) p)" and "min 2 (length a) = 2" by simp_all
    then show ?thesis by simp
  qed (use that in \<open>simp add: bottom_active_def\<close>)
  moreover have "take 2 a = take 2 b \<Longrightarrow> a = b" if "a \<in> set navItems" "b \<in> set navItems" for a b
    using that by (auto simp: navItems_def)
  moreover have "bottom_active a b \<Longrightarrow> a = b" if "a \<in> set navItems" "b \<in> set navItems" for a b
    using that by (auto simp: navItems_def bottom_active_def starts_with_def)
  ultimately show ?thesis using assms by metis
qed

lemma starts_with_append: "starts_with p s \<longleftrightarrow> (\<exists>r. s = p @ r)"
  unfolding starts_with_def by (metis append_eq_conv_conj)

text \<open>A path the proxy serves begins with a language, or is one it lets through.\<close>

lemma served_path:
  assumes "served_page T p"
  shows "(\<exists>l \<in> set locales. in_locale p l) \<or> starts_with ''/_next'' p \<or> starts_with ''/api'' p \<or> CHR ''.'' \<in> set p"
proof (rule ccontr)
  assume no: "\<not> ?thesis"
  then have none: "find (in_locale p) locales = None" by (simp add: find_None_iff)
  have "p \<noteq> ''/favicon.ico''" using no by auto
  then have "ps_kind (localized req) = REDIRECT" if "pr_path req = p" for req
    using that no none by (simp add: localized_def Let_def)
  then have "\<not> served_page T p" by (simp add: served_page_def proxy_def redirect_to_def Let_def split: prod.split)
  then show False using assms by simp
qed

lemma menu_path_unserved:
  assumes "href \<in> set (NAVIGATION @ tl navItems) \<or> href \<in> set navLinks \<and> \<not> starts_with ''/#'' href" and "starts_with href p" and "CHR ''.'' \<notin> set p"
  shows "\<not> served_page T p"
proof
  assume "served_page T p"
  then have "(\<exists>l \<in> set locales. in_locale p l) \<or> starts_with ''/_next'' p \<or> starts_with ''/api'' p"
    using served_path assms(3) by blast
  moreover obtain r where "p = href @ r" using assms(2) starts_with_append by blast
  ultimately show False using assms(1)
    by (auto simp: NAVIGATION_def navItems_def navLinks_def locales_def in_locale_def starts_with_def)
qed

text \<open>
  No menu ever shows where the visitor is: behind the proxy the path of the browser begins with a
  language, and the menus compare it with paths that do not. A path with a dot in it is the
  exception, which the proxy takes for a file.
\<close>

theorem no_entry_marked:
  assumes "served_page T p" and "CHR ''.'' \<notin> set p"
  shows "(\<forall>href \<in> set NAVIGATION. \<not> sidebar_active p href) \<and> (\<forall>href \<in> set navLinks. \<not> navbar_active p href)
    \<and> (\<forall>href \<in> set navItems. \<not> bottom_active p href)"
proof -
  have root: "p \<noteq> ''/''"
  proof
    assume "p = ''/''"
    then show False using served_path [OF assms(1)] by (auto simp: locales_def in_locale_def starts_with_def)
  qed
  have "\<not> starts_with href p" if "href \<in> set (NAVIGATION @ tl navItems) \<or> href \<in> set navLinks \<and> \<not> starts_with ''/#'' href" for href
    using menu_path_unserved [OF that] assms by blast
  moreover have "starts_with p p" by (simp add: starts_with_def)
  ultimately show ?thesis using root
    by (auto simp: sidebar_active_def navbar_active_def bottom_active_def navItems_def split: if_splits)
qed

theorem no_entry_marked_witness: "\<forall>href \<in> set navItems. \<not> bottom_active ''/en/loans'' href"
  using no_entry_marked [OF demo_served] by simp

section \<open>The wallet of the menu\<close>

record nav_wallet =
  nw_connected :: bool
  nw_address :: "string option"
  nw_walletMenu :: bool
  nw_mobileMenu :: bool

text \<open>An address out of the digits of a random number in base 16: \<open>random\<close> is its text.\<close>

definition mockAddress :: "string \<Rightarrow> string" where
  "mockAddress random = ''G'' @ js_upper (js_slice 2 54 random)"

definition handleWalletConnect :: "string \<Rightarrow> nav_wallet \<Rightarrow> nav_wallet" where
  "handleWalletConnect random w = w\<lparr>nw_address := Some (mockAddress random), nw_connected := True, nw_walletMenu := False\<rparr>"

definition handleWalletDisconnect :: "nav_wallet \<Rightarrow> nav_wallet" where
  "handleWalletDisconnect w = w\<lparr>nw_address := None, nw_connected := False\<rparr>"

definition nav_shortenAddress :: "string \<Rightarrow> string" where
  "nav_shortenAddress addr = take 6 addr @ ''...'' @ drop (length addr - 4) addr"

text \<open>What the visitor presses: one of the three providers, which do the same, and the buttons.\<close>

datatype nav_event = NAV_PROVIDER string | NAV_DISCONNECT | NAV_WALLET | NAV_MENU | NAV_LINK

fun nav_step :: "nav_event \<Rightarrow> nav_wallet \<Rightarrow> nav_wallet" where
  "nav_step (NAV_PROVIDER random) w = (if nw_walletMenu w then handleWalletConnect random w else w)"
| "nav_step NAV_DISCONNECT w = (if nw_walletMenu w \<and> nw_connected w then handleWalletDisconnect w else w)"
| "nav_step NAV_WALLET w = w\<lparr>nw_walletMenu := \<not> nw_walletMenu w\<rparr>"
| "nav_step NAV_MENU w = w\<lparr>nw_mobileMenu := \<not> nw_mobileMenu w\<rparr>"
| "nav_step NAV_LINK w = (if nw_mobileMenu w then w\<lparr>nw_mobileMenu := False\<rparr> else w)"

definition nav_start :: nav_wallet where
  "nav_start = \<lparr>nw_connected = False, nw_address = None, nw_walletMenu = False, nw_mobileMenu = False\<rparr>"

lemma mock_length: "length (mockAddress r) \<le> 53"
  by (simp add: mockAddress_def js_slice_def Let_def js_upper_def)

definition nav_ok :: "nav_wallet \<Rightarrow> bool" where
  "nav_ok w \<longleftrightarrow> (nw_connected w \<longleftrightarrow> nw_address w \<noteq> None) \<and> (\<forall>a. nw_address w = Some a \<longrightarrow> length a \<le> 53)"

lemma nav_step_ok: "nav_ok w \<Longrightarrow> nav_ok (nav_step e w)"
  by (cases e) (use mock_length in \<open>auto simp: nav_ok_def handleWalletConnect_def handleWalletDisconnect_def\<close>)

lemma nav_run_ok: "nav_ok w \<Longrightarrow> nav_ok (fold nav_step es w)"
  by (induction es arbitrary: w) (simp_all add: nav_step_ok)

text \<open>
  The menu is connected when it shows an address, and whatever the visitor presses that address is
  never one of an account: no wallet is asked, and the random digits are too few.
\<close>

theorem menu_address_invented:
  fixes es :: "nav_event list"
  defines "w \<equiv> fold nav_step es nav_start"
  shows "(nw_connected w \<longleftrightarrow> nw_address w \<noteq> None) \<and> (case nw_address w of None \<Rightarrow> True | Some a \<Rightarrow> \<not> STELLAR_ADDRESS_REGEX a)"
proof -
  have "nav_ok w" unfolding w_def by (rule nav_run_ok) (simp add: nav_ok_def nav_start_def)
  then show ?thesis by (auto simp: nav_ok_def STELLAR_ADDRESS_REGEX_def split: option.split)
qed

section \<open>Picking a wallet\<close>

record wallet_option =
  wo_id :: wallet_type
  wo_available :: bool
  wo_installed :: "bool option"
  wo_installUrl :: "string option"
  wo_comingSoon :: bool

definition picker_wallets :: "bool option \<Rightarrow> wallet_option list" where
  "picker_wallets freighterInstalled =
     [\<lparr>wo_id = FREIGHTER, wo_available = True, wo_installed = Some (freighterInstalled = Some True),
        wo_installUrl = Some ''https://www.freighter.app/'', wo_comingSoon = False\<rparr>,
      \<lparr>wo_id = WALLETCONNECT, wo_available = False, wo_installed = None, wo_installUrl = None, wo_comingSoon = True\<rparr>]"

definition freighter_description :: "bool option \<Rightarrow> string" where
  "freighter_description freighterInstalled = (case freighterInstalled of
     None \<Rightarrow> ''Checking...''
   | Some b \<Rightarrow> if b then ''Browser extension - ready to connect'' else ''Extension not detected - click to install'')"

text \<open>A click opens the page of the extension, connects, or does nothing.\<close>

datatype picked = INSTALL_PAGE string | CONNECT wallet_type

definition handleWalletClick :: "wallet_option \<Rightarrow> picked option" where
  "handleWalletClick wallet =
     (if \<not> wo_available wallet \<or> wo_comingSoon wallet then None
      else case wo_installUrl wallet of
        Some url \<Rightarrow> if wo_installed wallet \<noteq> Some True \<and> url \<noteq> [] then Some (INSTALL_PAGE url) else Some (CONNECT (wo_id wallet))
      | None \<Rightarrow> Some (CONNECT (wo_id wallet)))"

text \<open>
  The dialog: opening starts a timer of 100 milliseconds after which the extension is looked for,
  closing stops it, what was found stays. The button that opens it closes it before it connects,
  and while it connects every wallet is disabled.
\<close>

record picker =
  pk_open :: bool
  pk_timer :: bool
  pk_installed :: "bool option"
  pk_connecting :: bool
  pk_done :: "picked list"

datatype picker_event = PK_OPEN | PK_CLOSE | PK_TIMER bool | PK_CLICK nat | PK_CONNECTED

definition wallet_disabled :: "bool \<Rightarrow> wallet_option \<Rightarrow> bool" where
  "wallet_disabled isConnecting wallet \<longleftrightarrow> \<not> wo_available wallet \<or> wo_comingSoon wallet \<or> isConnecting"

definition picker_click :: "wallet_option \<Rightarrow> picker \<Rightarrow> picker" where
  "picker_click wallet k =
     (if wallet_disabled (pk_connecting k) wallet then k
      else case handleWalletClick wallet of
        None \<Rightarrow> k
      | Some (INSTALL_PAGE url) \<Rightarrow> k\<lparr>pk_done := pk_done k @ [INSTALL_PAGE url]\<rparr>
      | Some (CONNECT ty) \<Rightarrow> k\<lparr>pk_open := False, pk_timer := False, pk_connecting := True, pk_done := pk_done k @ [CONNECT ty]\<rparr>)"

fun picker_step :: "picker_event \<Rightarrow> picker \<Rightarrow> picker" where
  "picker_step PK_OPEN k = (if pk_open k \<or> pk_connecting k then k else k\<lparr>pk_open := True, pk_timer := True\<rparr>)"
| "picker_step PK_CLOSE k = k\<lparr>pk_open := False, pk_timer := False\<rparr>"
| "picker_step (PK_TIMER found) k = (if pk_timer k then k\<lparr>pk_installed := Some found, pk_timer := False\<rparr> else k)"
| "picker_step (PK_CLICK i) k =
     (if pk_open k \<and> i < length (picker_wallets (pk_installed k)) then picker_click (picker_wallets (pk_installed k) ! i) k else k)"
| "picker_step PK_CONNECTED k = k\<lparr>pk_connecting := False\<rparr>"

definition picker_start :: picker where
  "picker_start = \<lparr>pk_open = False, pk_timer = False, pk_installed = None, pk_connecting = False, pk_done = []\<rparr>"

lemma picker_click_effect:
  "picker_click (picker_wallets found ! i) k =
     (if pk_connecting k \<or> i \<noteq> 0 then k
      else if found = Some True then k\<lparr>pk_open := False, pk_timer := False, pk_connecting := True, pk_done := pk_done k @ [CONNECT FREIGHTER]\<rparr>
      else k\<lparr>pk_done := pk_done k @ [INSTALL_PAGE ''https://www.freighter.app/'']\<rparr>)"
  if "i < 2" for i
proof -
  have "i = 0 \<or> i = 1" using that by auto
  then show ?thesis by (auto simp: picker_click_def picker_wallets_def wallet_disabled_def handleWalletClick_def)
qed

lemma picker_length [simp]: "length (picker_wallets b) = 2"
  by (simp add: picker_wallets_def)

text \<open>
  Only Freighter is ever connected, and only after a check that found it. Until the first check
  is done, a click sends the visitor to the page where the extension is installed, also one who has
  it, while the dialog says that it is checking.
\<close>

theorem picker_connects_found:
  fixes es :: "picker_event list"
  defines "k \<equiv> fold picker_step es picker_start"
  assumes "CONNECT ty \<in> set (pk_done k)"
  shows "ty = FREIGHTER \<and> PK_TIMER True \<in> set es"
proof -
  have "(\<forall>ty. CONNECT ty \<in> set (pk_done (fold picker_step es picker_start)) \<longrightarrow> ty = FREIGHTER \<and> PK_TIMER True \<in> set es)
      \<and> (pk_installed (fold picker_step es picker_start) = Some True \<longrightarrow> PK_TIMER True \<in> set es)"
  proof (induction es rule: rev_induct)
    case (snoc e es)
    then show ?case by (cases e) (auto simp: picker_click_effect)
  qed (simp add: picker_start_def)
  then show ?thesis using assms(2) by (auto simp: k_def)
qed

theorem picker_connects_found_witness:
  "PK_TIMER True \<in> set [PK_OPEN, PK_TIMER True, PK_CLICK 0]"
  using picker_connects_found [of FREIGHTER "[PK_OPEN, PK_TIMER True, PK_CLICK 0]"]
  by (simp add: picker_start_def picker_click_effect)

lemma early_click_installs:
  "pk_done (fold picker_step [PK_OPEN, PK_CLICK 0, PK_TIMER True] picker_start) = [INSTALL_PAGE ''https://www.freighter.app/'']
   \<and> freighter_description (pk_installed (picker_step PK_OPEN picker_start)) = ''Checking...''"
  by (simp add: picker_start_def picker_click_effect freighter_description_def)

section \<open>Signals of mobile browsers\<close>

text \<open>A signal is its type and its payload; the rest of what is sent describes the browser.\<close>

record signals =
  sg_offline :: bool
  sg_dismissed :: bool
  sg_sent :: "(string \<times> (string \<times> json) list) list"

definition reportMobileSignal :: "string \<Rightarrow> (string \<times> json) list \<Rightarrow> signals \<Rightarrow> signals" where
  "reportMobileSignal ty payload g = g\<lparr>sg_sent := sg_sent g @ [(ty, payload)]\<rparr>"

datatype signal_event = NETWORK bool | PAGE_ERROR string string nat | REJECTION string | DISMISS_NOTICE

definition notice_shown :: "signals \<Rightarrow> bool" where
  "notice_shown g \<longleftrightarrow> \<not> (\<not> sg_offline g \<or> sg_dismissed g)"

fun signal_step :: "signal_event \<Rightarrow> signals \<Rightarrow> signals" where
  "signal_step (NETWORK onLine) g = reportMobileSignal (if \<not> onLine then ''offline'' else ''online'') [] (g\<lparr>sg_offline := \<not> onLine\<rparr>)"
| "signal_step (PAGE_ERROR message source line) g =
     reportMobileSignal ''error'' [(''message'', JStr message), (''source'', JStr source), (''line'', JNum (Fin (of_nat line)))] g"
| "signal_step (REJECTION reason) g = reportMobileSignal ''unhandledrejection'' [(''reason'', JStr reason)] g"
| "signal_step DISMISS_NOTICE g = (if notice_shown g then g\<lparr>sg_dismissed := True\<rparr> else g)"

definition signals_start :: "bool \<Rightarrow> signals" where
  "signals_start onLine = \<lparr>sg_offline = \<not> onLine, sg_dismissed = False, sg_sent = []\<rparr>"

text \<open>Dismissed once, the notice is not shown for any later time without a network.\<close>

lemma dismissed_for_ever: "sg_dismissed g \<Longrightarrow> \<not> notice_shown (fold signal_step es g)"
proof -
  have "sg_dismissed g \<Longrightarrow> sg_dismissed (signal_step e g)" for e g by (cases e) (simp_all add: reportMobileSignal_def)
  then have "sg_dismissed g \<Longrightarrow> sg_dismissed (fold signal_step es g)" by (induction es arbitrary: g) simp_all
  then show "sg_dismissed g \<Longrightarrow> \<not> notice_shown (fold signal_step es g)" by (simp add: notice_shown_def)
qed

text \<open>
  The route logs the body, or nothing when it is no JSON, with the address of the header, and always
  answers that it is fine. No body can set the address that is logged.
\<close>

definition mobile_POST :: "json option \<Rightarrow> string option \<Rightarrow> (string \<times> json) list \<times> json" where
  "mobile_POST body forwarded_for =
     (put_prop (''ip'', (case forwarded_for of None \<Rightarrow> JNull | Some a \<Rightarrow> JStr a))
        (spread (case body of None \<Rightarrow> JObj [] | Some payload \<Rightarrow> payload)),
      JObj [(''ok'', JBool True)])"

lemma logged_address: "map_of (fst (mobile_POST body a)) ''ip'' = Some (case a of None \<Rightarrow> JNull | Some x \<Rightarrow> JStr x)"
  by (simp add: mobile_POST_def map_of_put_prop)

section \<open>The card of first steps\<close>

record quick_item =
  qi_key :: quick_step
  qi_title :: string
  qi_description :: string
  qi_href :: string

definition QUICK_START_ITEMS :: "quick_item list" where
  "QUICK_START_ITEMS =
     [\<lparr>qi_key = ConnectWallet, qi_title = ''Connect Wallet'', qi_description = ''Sign actions securely with your Stellar wallet.'', qi_href = ''/login''\<rparr>,
      \<lparr>qi_key = UploadCollateral, qi_title = ''Upload Collateral'', qi_description = ''Tokenize invoices or inventory to back a deal.'', qi_href = ''/dashboard/collateral''\<rparr>,
      \<lparr>qi_key = CreateEscrow, qi_title = ''Create Escrow'', qi_description = ''Lock funds with clear release conditions.'', qi_href = ''/dashboard/escrows''\<rparr>,
      \<lparr>qi_key = MonitorLoan, qi_title = ''Monitor Loan'', qi_description = ''Track status, repayments, and maturity.'', qi_href = ''/loans''\<rparr>]"

text \<open>What the card has read of the storage: when it is made, at its timer, and at its button.\<close>

record quick_card =
  qc_txCount :: rat
  qc_state :: "(string \<times> json) list"

definition card_mount :: "(string \<Rightarrow> json option) \<Rightarrow> web_storage \<Rightarrow> quick_card" where
  "card_mount P s = \<lparr>qc_txCount = 0, qc_state = getQuickStartState P s\<rparr>"

definition card_read :: "(string \<Rightarrow> json option) \<Rightarrow> web_storage \<Rightarrow> quick_card" where
  "card_read P s = \<lparr>qc_txCount = getTransactionCount s, qc_state = getQuickStartState P s\<rparr>"

definition card_restart :: "(string \<Rightarrow> json option) \<Rightarrow> tour \<Rightarrow> quick_card \<times> tour" where
  "card_restart P t = (let t' = restartTour t in (card_read P (tour_storage t'), t'))"

text \<open>The small card, or the steps with their words: whether the account is new, and what each link says.\<close>

datatype card_view = Refresher | Steps bool nat "(quick_step \<times> string) list"

definition card_shown :: "quick_card \<Rightarrow> card_view" where
  "card_shown c =
     (let isNew = (qc_txCount c = 0);
          completed = length (filter (\<lambda>item. step_done (qc_state c) (qi_key item)) QUICK_START_ITEMS)
      in if \<not> isNew \<and> completed = length QUICK_START_ITEMS then Refresher
         else Steps isNew completed (map (\<lambda>item. (qi_key item, if step_done (qc_state c) (qi_key item) then ''View'' else ''Start'')) QUICK_START_ITEMS))"

text \<open>The storage stands for a set of steps and a counter (\<open>Onboarding\<close>); the card shows these.\<close>

lemma card_shows_progress:
  assumes "stands_for P s p"
  shows "card_shown (card_read P s) =
    (if 0 < pg_count p \<and> pg_done p = UNIV then Refresher
     else Steps (pg_count p = 0) (card (pg_done p)) (map (\<lambda>q. (q, if q \<in> pg_done p then ''View'' else ''Start'')) quick_steps))"
proof -
  have steps: "map qi_key QUICK_START_ITEMS = quick_steps" by (simp add: QUICK_START_ITEMS_def quick_steps_def)
  have univ: "set quick_steps = UNIV" "distinct quick_steps" using quick_step.exhaust by (auto simp: quick_steps_def)
  have four: "card (UNIV :: quick_step set) = 4" using distinct_card [OF univ(2)] unfolding univ(1) by (simp add: quick_steps_def)
  have "finite (UNIV :: quick_step set)" unfolding univ(1) [symmetric] by simp
  then have all: "card (pg_done p) = 4 \<longleftrightarrow> pg_done p = UNIV" using card_subset_eq [of UNIV "pg_done p"] four by auto
  have "map (\<lambda>item. (qi_key item, if qi_key item \<in> pg_done p then ''View'' else ''Start'')) QUICK_START_ITEMS
      = map (\<lambda>q. (q, if q \<in> pg_done p then ''View'' else ''Start'')) (map qi_key QUICK_START_ITEMS)" by simp
  then have rows: "map (\<lambda>item. (qi_key item, if qi_key item \<in> pg_done p then ''View'' else ''Start'')) QUICK_START_ITEMS
      = map (\<lambda>q. (q, if q \<in> pg_done p then ''View'' else ''Start'')) quick_steps" by (simp only: steps)
  have "length (filter (\<lambda>item. qi_key item \<in> pg_done p) QUICK_START_ITEMS) = length (filter (\<lambda>q. q \<in> pg_done p) (map qi_key QUICK_START_ITEMS))"
    by (simp add: filter_map o_def)
  also have "\<dots> = card (pg_done p)" unfolding steps using completed_flags [of "pg_done p"] by (simp add: completedCount_def done_flags [abs_def])
  finally have len: "length (filter (\<lambda>item. qi_key item \<in> pg_done p) QUICK_START_ITEMS) = card (pg_done p)" .
  have "length QUICK_START_ITEMS = 4" by (simp add: QUICK_START_ITEMS_def)
  then show ?thesis using assms all len rows by (simp add: card_shown_def card_read_def stands_for_def done_flags Let_def)
qed

text \<open>
  The button of the small card, which offers to see the tour again, forgets the steps: the card
  turns into the list with nothing done.
\<close>

lemma refresher_forgets:
  assumes "text_laws N P J" and "stands_for P (tour_storage t) p" and "0 < pg_count p" and "pg_count p + 1 < 10 ^ 12"
  shows "card_shown (fst (card_restart P t)) = Steps False 0 (map (\<lambda>q. (q, ''Start'')) quick_steps)"
proof -
  have "tour_storage (restartTour t) = resetOnboarding (tour_storage t)"
    by (simp add: restartTour_def startTour_def goToStep_def Let_def split: prod.split)
  moreover have "stands_for P (resetOnboarding (tour_storage t)) (p\<lparr>pg_done := {}\<rparr>)"
    using progress_step [OF assms(1,2,4), of Reset_Tour] by simp
  ultimately show ?thesis using card_shows_progress assms(3) by (simp add: card_restart_def Let_def)
qed

section \<open>Payment statuses\<close>

text \<open>
  The types of the server say that they are the only source of the statuses; the web application has
  a copy, with the same table.
\<close>

datatype web_payment_status = WEB_PENDING | WEB_PROCESSING | WEB_COMPLETED | WEB_FAILED

fun web_StatusTransitions :: "web_payment_status \<Rightarrow> web_payment_status list" where
  "web_StatusTransitions WEB_PENDING = [WEB_PROCESSING, WEB_FAILED]"
| "web_StatusTransitions WEB_PROCESSING = [WEB_COMPLETED, WEB_FAILED]"
| "web_StatusTransitions WEB_COMPLETED = []"
| "web_StatusTransitions WEB_FAILED = [WEB_PENDING]"

definition web_isValidStatusTransition :: "web_payment_status \<Rightarrow> web_payment_status \<Rightarrow> bool" where
  "web_isValidStatusTransition currentStatus newStatus \<longleftrightarrow> newStatus \<in> set (web_StatusTransitions currentStatus)"

definition web_isTerminalStatus :: "web_payment_status \<Rightarrow> bool" where
  "web_isTerminalStatus status \<longleftrightarrow> length (web_StatusTransitions status) = 0"

interpretation web_payment_machine: status_machine web_isValidStatusTransition web_isTerminalStatus
  by unfold_locales (auto simp: web_isValidStatusTransition_def web_isTerminalStatus_def)

fun on_server :: "web_payment_status \<Rightarrow> payment_status" where
  "on_server WEB_PENDING = PAYMENT_PENDING"
| "on_server WEB_PROCESSING = PAYMENT_PROCESSING"
| "on_server WEB_COMPLETED = PAYMENT_COMPLETED"
| "on_server WEB_FAILED = PAYMENT_FAILED"

lemma transitions_agree: "web_isValidStatusTransition a b \<longleftrightarrow> isValidStatusTransition (on_server a) (on_server b)"
  by (cases a; cases b) (simp_all add: web_isValidStatusTransition_def isValidStatusTransition_def)

lemma terminal_agree: "web_isTerminalStatus a \<longleftrightarrow> isTerminalStatus (on_server a)"
  by (cases a) (simp_all add: web_isTerminalStatus_def)

text \<open>The two allow the same histories of a payment.\<close>

theorem payment_tables_agree:
  "web_payment_machine.run a bs \<longleftrightarrow> payment_machine.run (on_server a) (map on_server bs)"
  by (induction bs arbitrary: a) (simp_all add: transitions_agree)

section \<open>The state of the dashboard\<close>

definition mock_repayment :: "string \<Rightarrow> rat \<Rightarrow> int \<Rightarrow> string \<Rightarrow> web_repayment" where
  "mock_repayment i amount paidAt txHash =
     \<lparr>wr_id = i, wr_amount = amount, wr_paidAt = paidAt, wr_txHash = txHash, wr_status = TX_COMPLETED\<rparr>"

definition DASHBOARD_LOANS :: "web_loan list" where
  "DASHBOARD_LOANS =
     [\<lparr>wl_id = ''loan-1'', wl_assetType = ''INVOICE'', wl_collateralValue = 50000, wl_principal = 25000, wl_interestRate = 17 / 2,
        wl_status = WL_ACTIVE,
        wl_repayments = [mock_repayment ''rep-1'' 5200 1768435200000 ''abc123'', mock_repayment ''rep-2'' 5200 1771113600000 ''def456''],
        wl_createdAt = 1761955200000\<rparr>,
      \<lparr>wl_id = ''loan-2'', wl_assetType = ''COMMODITY'', wl_collateralValue = 75000, wl_principal = 40000, wl_interestRate = 7,
        wl_status = WL_ACTIVE, wl_repayments = [mock_repayment ''rep-3'' 3100 1773100800000 ''ghi789''], wl_createdAt = 1765756800000\<rparr>,
      \<lparr>wl_id = ''loan-3'', wl_assetType = ''RECEIVABLE'', wl_collateralValue = 30000, wl_principal = 15000, wl_interestRate = 9,
        wl_status = WL_PENDING, wl_repayments = [], wl_createdAt = 1775001600000\<rparr>]"

definition INITIAL_NOTIFICATIONS :: "notification list" where
  "INITIAL_NOTIFICATIONS =
     [\<lparr>nt_id = ''n-1'', nt_title = Some ''Repayment received'', nt_body = ''Loan loan-1 received a 5,200 USDC repayment.'',
        nt_createdAt = Some (JStr ''2026-04-22T10:00:00.000Z''), nt_severity = Success, nt_read = False\<rparr>,
      \<lparr>nt_id = ''n-2'', nt_title = Some ''Escrow awaiting release'', nt_body = ''Escrow esc-009 is awaiting oracle confirmation.'',
        nt_createdAt = Some (JStr ''2026-04-23T08:30:00.000Z''), nt_severity = Warning, nt_read = False\<rparr>,
      \<lparr>nt_id = ''n-3'', nt_title = Some ''Risk score updated'', nt_body = ''Your aggregate risk score improved to A.'',
        nt_createdAt = Some (JStr ''2026-04-24T15:12:00.000Z''), nt_severity = Info, nt_read = True\<rparr>]"

text \<open>\<open>dh_refreshing\<close> is the number of refreshes whose pause of 350 milliseconds is not over.\<close>

record dashboard_hook =
  dh_loans :: "web_loan list"
  dh_notifications :: "notification list"
  dh_loading :: bool
  dh_error :: "string option"
  dh_lastUpdated :: "int option"
  dh_refreshing :: nat
  dh_live :: live

definition dash_refresh_begin :: "dashboard_hook \<Rightarrow> dashboard_hook" where
  "dash_refresh_begin d = d\<lparr>dh_loading := True, dh_error := None, dh_refreshing := dh_refreshing d + 1\<rparr>"

definition dash_refresh_end :: "int \<Rightarrow> dashboard_hook \<Rightarrow> dashboard_hook" where
  "dash_refresh_end now d = d\<lparr>dh_loans := DASHBOARD_LOANS, dh_lastUpdated := Some now, dh_loading := False,
     dh_refreshing := dh_refreshing d - 1, dh_live := dashboard_refresh (dh_live d)\<rparr>"

text \<open>The hook mounted: its first effect refreshes, the next starts the socket.\<close>

definition dashboard_mount :: dashboard_hook where
  "dashboard_mount = dash_refresh_begin \<lparr>dh_loans = [], dh_notifications = INITIAL_NOTIFICATIONS, dh_loading = True, dh_error = None,
     dh_lastUpdated = None, dh_refreshing = 0, dh_live = live_start no_live\<rparr>"

datatype dashboard_event = DH_REFRESH | DH_REFRESHED int | DH_SOCKET socket_event | DH_REFUSED | DH_MESSAGE json | DH_READ string | DH_CLEAR

fun dashboard_step :: "(json option \<Rightarrow> string) \<Rightarrow> dashboard_event \<Rightarrow> dashboard_hook \<Rightarrow> dashboard_hook" where
  "dashboard_step sh DH_REFRESH d = dash_refresh_begin d"
| "dashboard_step sh (DH_REFRESHED now) d = (if 0 < dh_refreshing d then dash_refresh_end now d else d)"
| "dashboard_step sh (DH_SOCKET e) d = d\<lparr>dh_live := dashboard_socket e (dh_live d)\<rparr>"
| "dashboard_step sh DH_REFUSED d = d\<lparr>dh_live := dashboard_refused (dh_live d)\<rparr>"
| "dashboard_step sh (DH_MESSAGE data) d = d\<lparr>dh_notifications := dashboard_message sh data (dh_notifications d)\<rparr>"
| "dashboard_step sh (DH_READ i) d = d\<lparr>dh_notifications := markNotificationRead i (dh_notifications d)\<rparr>"
| "dashboard_step sh DH_CLEAR d = d\<lparr>dh_notifications := clearNotifications (dh_notifications d)\<rparr>"

definition dash_ok :: "dashboard_hook \<Rightarrow> bool" where
  "dash_ok d \<longleftrightarrow> dh_loans d = (if dh_lastUpdated d = None then [] else DASHBOARD_LOANS) \<and> dh_error d = None \<and> length (dh_notifications d) \<le> 50
     \<and> (dh_refreshing d = 0 \<longrightarrow> \<not> dh_loading d)"

lemma message_bounded: "length ns \<le> 50 \<Longrightarrow> length (dashboard_message sh data ns) \<le> 50"
  using notifications_bounded [of ns sh "[data]"] by simp

lemma dash_step_ok: "dash_ok d \<Longrightarrow> dash_ok (dashboard_step sh e d)"
  by (cases e) (auto simp: dash_ok_def dash_refresh_begin_def dash_refresh_end_def message_bounded markNotificationRead_def clearNotifications_def)

lemma dash_run_ok: "dash_ok d \<Longrightarrow> dash_ok (fold (dashboard_step sh) es d)"
  by (induction es arbitrary: d) (simp_all add: dash_step_ok)

lemma mount_ok: "dash_ok dashboard_mount"
  by (simp add: dash_ok_def dashboard_mount_def dash_refresh_begin_def INITIAL_NOTIFICATIONS_def)

lemma mock_owed: "map owed DASHBOARD_LOANS = [27125, 42800, 8988507557068801 / 549755813888]"
  by code_simp

text \<open>
  Whatever happens, the dashboard shows nothing or the same three loans, to every visitor: a credit
  of 80000 over a collateral of 155000 with 72775 still owed. It never reports an error, what the
  live connection brings changes none of these figures, and there are never more than fifty notifications.
\<close>

theorem dashboard_shows_examples:
  fixes es :: "dashboard_event list" and sh :: "json option \<Rightarrow> string"
  defines "d \<equiv> fold (dashboard_step sh) es dashboard_mount"
  shows "aggregatePortfolio (dh_loans d) =
    (if dh_lastUpdated d = None
     then \<lparr>pf_totalCollateralValue = 0, pf_totalPrincipal = 0, pf_totalOutstanding = 0, pf_totalRepaid = 0, pf_activeLoanCount = 0,
       pf_pendingLoanCount = 0, pf_defaultedLoanCount = 0, pf_netPosition = 0, pf_utilization = 0\<rparr>
     else \<lparr>pf_totalCollateralValue = 155000, pf_totalPrincipal = 80000, pf_totalOutstanding = 72775, pf_totalRepaid = 13500, pf_activeLoanCount = 2,
       pf_pendingLoanCount = 1, pf_defaultedLoanCount = 0, pf_netPosition = 82225, pf_utilization = fl64 (16 / 31)\<rparr>)
    \<and> dh_error d = None \<and> length (dh_notifications d) \<le> 50"
proof -
  have "dash_ok d" unfolding d_def by (rule dash_run_ok [OF mount_ok])
  moreover have int: "fl64 (numeral n) = numeral n" if "(numeral n :: int) \<le> 2 ^ 53" for n
    using fl64_small_int [of "numeral n"] that by simp
  have "js_sum (map wl_collateralValue DASHBOARD_LOANS) = 155000" "js_sum (map wl_principal DASHBOARD_LOANS) = 80000"
    "js_sum (map repaid_of DASHBOARD_LOANS) = 13500"
    by (simp_all add: js_sum_def DASHBOARD_LOANS_def repaid_of_def mock_repayment_def int)
  moreover have "js_sum (map owed DASHBOARD_LOANS) = 86275" unfolding mock_owed by code_simp
  moreover have "map wl_status DASHBOARD_LOANS = [WL_ACTIVE, WL_ACTIVE, WL_PENDING]" by (simp add: DASHBOARD_LOANS_def)
  ultimately show ?thesis
    by (auto simp: dash_ok_def aggregatePortfolio_def js_sum_def Let_def int DASHBOARD_LOANS_def)
qed

text \<open>Two refreshes at once: the page says that it is up to date when the first is done.\<close>

lemma loading_of_first: "\<not> dh_loading (fold (dashboard_step sh) [DH_REFRESH, DH_REFRESHED t] dashboard_mount)
  \<and> dh_refreshing (fold (dashboard_step sh) [DH_REFRESH, DH_REFRESHED t] dashboard_mount) = 1"
  by (simp add: dashboard_mount_def dash_refresh_begin_def dash_refresh_end_def)

end
