(* ===== verification/Spec2Isabelle.thy ===== *)
theory Spec2Isabelle
  imports Escrow_Service Loan_Types Loan_Service Auth_Service Canonical_Json Governance Oracle_Service Rbac User_Payment
    Webhook_Service Rate_Limit Contract_Service Tx_Queue Risk_Engine Collateral_Service
    Http_Routes Http_Api Ws_State Analytics Csv_Export Proxy_Guard Web_Auth Contact_Form Dashboard
    Oracle_Api Collateral_Api Server_Runtime Read_Api Risk_View Live_Socket Loan_Form Governance_View Tx_View Web_Calls Onboarding Wallet_View Loan_View Web_Lists Locale_View Web_Forms Governance_Page Web_Panels Web_Tables Liquidity Web_Mutations Web_Shell
begin

text \<open>
  StelloVault, a trade finance platform on the Stellar network: a verification library of
  its server (\<open>server/src\<close>, TypeScript). The server keeps users, wallets, escrows,
  collateral, loans, oracles, proposals and webhooks in a PostgreSQL database through the
  Prisma client, prepares and submits transactions to Soroban contracts, and offers all this
  as an HTTP API.

  How the parts fit together. A request meets the global middlewares (jurisdiction and rate
  limits), a router with its own middlewares (session, permission, ownership, audit), a
  controller, and a service; a service reads and writes the database, sometimes in a
  transaction, calls the network, and announces what changed to the connected clients and
  to registered webhooks.

  Common ground:
  \<^item> Prelude: strings as JavaScript has them on 8-bit code units (trim, case mapping,
    inclusion), options, lists of rows, the collections of lemmas the theories share; the
    interface of a table with a key (locale \<open>keyed_table\<close>) and of a table of allowed status
    changes (\<open>status_machine\<close>).
  \<^item> App_Errors: the error classes of \<open>config/errors.ts\<close>, outcomes (an error or a value, and
    the state left behind), transactions with their roll-back, the error middleware.
  \<^item> Js_Number: JavaScript numbers. \<open>fl64\<close> is rounding to the nearest double, defined on the
    rationals; \<open>Math.round\<close> and the conversions used by the services.
  \<^item> Decimal_Js: the decimal.js operations as a record of functions with the laws the code
    relies on, and an instance.
  \<^item> Database: the rows and enumerations of \<open>prisma/schema.prisma\<close>, the record \<open>world\<close> of
    all tables, and an interpretation of \<open>keyed_table\<close> for every keyed table.
  \<^item> Platform: what comes from outside the repository as parameters: conversions of the
    engine, the rounding of a decimal column (with its laws), the calls to the network.

  The services, one theory each, operation by operation in the order of the code:
  \<^item> Escrow_Service (\<open>services/escrow.service.ts\<close>): creation, listing, the status machine
    with its compare-and-set under arbitrary interleaved writes (the \<open>env\<close> arguments), and
    the sweep of overdue escrows.
  \<^item> Loan_Types and Loan_Service (\<open>types/loan.ts\<close>, \<open>services/loan.service.ts\<close>): issuing,
    payment sessions and repayments; the invariant of the balance over all reachable states.
  \<^item> Auth_Service (\<open>services/auth.service.ts\<close>, \<open>middleware/auth.middleware.ts\<close>): challenges,
    login, sessions and wallets, with the step relation of all operations.
  \<^item> Rbac (\<open>types/rbac.ts\<close>, \<open>services/rbac.service.ts\<close>, \<open>middleware/rbac.middleware.ts\<close>).
  \<^item> User_Payment (\<open>services/user.service.ts\<close>, \<open>services/payment.service.ts\<close>).
  \<^item> Governance (\<open>services/governance.service.ts\<close> and its controller).
  \<^item> Canonical_Json and Oracle_Service (\<open>services/oracle.service.ts\<close>): the signed text,
    confirmations and their limits, reputation, disputes, stakes, threshold signatures.
  \<^item> Webhook_Service (\<open>services/webhook.service.ts\<close>, \<open>services/webhook-signature.service.ts\<close>,
    \<open>services/event-monitoring.service.ts\<close>): deliveries, retries and rate limits.
  \<^item> Rate_Limit (\<open>middleware/rate-limit.middleware.ts\<close>).
  \<^item> Contract_Service (\<open>services/contract.service.ts\<close>, \<open>services/blockchain.service.ts\<close>) and
    Tx_Queue (\<open>services/transaction-queue.service.ts\<close>): building, submitting and retrying.
  \<^item> Risk_Engine (\<open>services/risk-engine.service.ts\<close>, \<open>types/risk.ts\<close> and the controller).
  \<^item> Collateral_Service (\<open>services/collateral.service.ts\<close>).
  \<^item> Analytics (\<open>services/analytics.service.ts\<close>): the reports and their caches.
  \<^item> Ws_State (\<open>services/websocket.service.ts\<close>): the connections of the live updates and an
    abstract machine per client which they implement.
  \<^item> Http_Routes (\<open>app.ts\<close>, \<open>routes\<close>, \<open>middleware/audit.middleware.ts\<close>) and Http_Api
    (\<open>controllers\<close>): the routes with their middlewares as data, what a request has passed
    when its handler runs, and properties of whole requests down to the service.
  \<^item> Js_Parse: \<open>parseInt\<close> and \<open>Number\<close>. Oracle_Api and Collateral_Api: the controllers of the
    oracles, of collateral and of the analytics, and the collateral indexer. Read_Api: the
    handlers that read, those of the webhooks, and what stands in front of all routes.
  \<^item> Server_Runtime (\<open>server.ts\<close>, \<open>config\<close>, \<open>services/metrics.service.ts\<close>,
    \<open>services/database.service.ts\<close>, \<open>middleware/request-trace.middleware.ts\<close>): configuration,
    metrics, identifiers of requests, and the shutdown.

  The web application (\<open>frontend\<close>), as far as it has logic of its own:
  \<^item> Proxy_Guard (\<open>frontend/src/proxy.ts\<close>, \<open>frontend/src/lib/auth.ts\<close>): which page requests are
    served, redirected to the login, or redirected to a path with a locale.
  \<^item> Web_Auth (\<open>frontend/src/app/api/v1/auth\<close>): the login with a signed challenge and its cookies,
    and what a browser can reach with them, together with the proxy.
  \<^item> Contact_Form (\<open>frontend/src/app/api/contact/route.ts\<close>): its limiter and validation.
  \<^item> Dashboard (\<open>frontend/src/hooks/useDashboard.ts\<close>): totals, chart and feed.
  \<^item> Csv_Export (\<open>frontend/src/utils/dashboardExport.ts\<close>): the writer of the dashboard's CSV
    files, with a reader after RFC 4180 against which it is proved.
  \<^item> Risk_View (\<open>utils/riskScoreParsers.ts\<close>, \<open>hooks/useRiskScore.ts\<close>): parsers of any JSON value,
    the page's requests under switching wallets, and what it makes of the server's answers.
  \<^item> Live_Socket (\<open>hooks/useWebSocket.ts\<close>, and the sockets of \<open>useGovernance.ts\<close> and
    \<open>useDashboard.ts\<close>): reconnecting, with the locale \<open>reconnecting\<close> for what the three copies
    share, the notifications, and the server's events as the pages see them.
  \<^item> Loan_Form (\<open>components/loans/LoanForm.tsx\<close>), Governance_View (\<open>hooks/useGovernance.ts\<close>),
    Tx_View (\<open>contexts/TransactionStatusProvider.tsx\<close>, \<open>hooks/useLiquidity.ts\<close>,
    \<open>components/dashboard/LiquidityModal.tsx\<close>): forms and dialogs as machines whose events are
    what the user does and what arrives.
  \<^item> Web_Calls: the hooks' requests against the server's routes.
  \<^item> Onboarding (\<open>utils/onboarding.ts\<close>, \<open>components/onboarding\<close>): the local storage, which is
    proved to implement a set of steps and a counter, and the guided tour behind the proxy.
  \<^item> Wallet_View (\<open>hooks/useWalletAuth.ts\<close>, the button that connects and the login page), over
    Web_Auth and Proxy_Guard: signing in from the click to the cookies.
  \<^item> Loan_View (\<open>hooks/useLoans.ts\<close>, \<open>app/loans\<close>, \<open>components/loans\<close>,
    \<open>components/risk/LoanTimeline.tsx\<close>): the list, its pages, and the dialog for repayments.
  \<^item> Web_Lists (\<open>hooks/useEscrows.ts\<close>, \<open>useOracles.ts\<close>, \<open>useCollateral.ts\<close>, \<open>useKycStatus.ts\<close>,
    \<open>utils/stellar.ts\<close>) and Locale_View (\<open>utils/i18n\<close>, \<open>components/i18n\<close>): filters, fallbacks,
    helpers, languages and rates.
  \<^item> Web_Forms (\<open>components/governance/ProposalForm.tsx\<close>, \<open>components/escrows/EscrowForm.tsx\<close>,
    \<open>components/collateral\<close>, \<open>app/oracles/register\<close>, the confirmation and the contact forms): forms in
    steps, over the locale \<open>wizard\<close>: what a page checked is still so on the pages after it; the
    files of a tokenization, and the contact form down to the route of Contact_Form.
  \<^item> Governance_Page (\<open>app/governance\<close>, \<open>components/governance\<close>): the list of proposals with its
    filters and orders, and the page of one of them, whose buttons let nobody vote twice.
  \<^item> Web_Panels and Web_Tables (\<open>hooks/useAnalytics.ts\<close>, \<open>components/analytics\<close>,
    \<open>components/dashboard\<close>, \<open>components/risk\<close>, \<open>app/escrows\<close>): figures over the server's reports,
    shares and positions in charts, stored widgets, sorting (locale \<open>comparison\<close>), filters, pages.
  \<^item> Liquidity (\<open>hooks/useLiquidity.ts\<close>, \<open>components/dashboard/LiquidityModal.tsx\<close>): balances, the
    button for the whole amount, and a deposit or withdrawal from the check to the history.
  \<^item> Web_Mutations (\<open>hooks/useOracles.ts\<close>, \<open>hooks/useCollateral.ts\<close>, \<open>app/oracles\<close>,
    \<open>app/collateral\<close>): the requests that change something, against the server's replies.
  \<^item> Web_Shell (\<open>components/layout\<close>, \<open>components/auth/WalletPickerModal.tsx\<close>,
    \<open>components/onboarding/QuickStartCard.tsx\<close>, \<open>hooks/useDashboard.ts\<close>, \<open>types/loan.ts\<close>): the menus
    against the pages and the paths of the proxy, the wallet of the menu and the dialog that picks
    one, the first steps, the state of the dashboard, and the copy of the payment statuses.

  Conventions. An operation is a function of the parameters it uses, the times and fresh
  identifiers it takes, the request and the state; it returns the answer or the error and
  the state it leaves. Where the code awaits between a read and a write, an argument \<open>env\<close>
  stands for whatever other requests write in between, so that races are part of the
  statements. In the web application what the user does, what answers and which timers fire
  are events of a machine, in any order. Amounts are rationals, rounded where the code rounds (a double, a decimal
  column, decimal.js); counters of the code that never leave the range of exact integers
  are natural numbers.

  Bounds. Loops of the code are bounded by it: the polling of a transaction by thirty
  queries, the attempts of a job and of a webhook delivery by five; the functions \<open>poll\<close>
  and \<open>run_attempts\<close> terminate by the distance to these constants, and no fuel is used.

  The groups of lemmas. For each table the locale gives lookup after insertion and update;
  for each operation a lemma describes its successful outcome (names ending in \<open>Inr\<close>) and
  what it keeps; the invariants (balance of loans, primary wallets, votes, limits of
  confirmations, reputation, terminal escrows) are proved over step relations or traces.
  The numbered properties state what the operations promise, and several of them state
  precisely how the code departs from what its comments promise.

  Not modelled. Generated code (the Prisma client, more than half of the lines of TypeScript in the
  repository), the construction of loggers, queues, caches and database connections, and type
  declarations no operation uses; the handlers that only hand a query to a read operation; the
  script \<open>server/prisma/seed.ts\<close>, whose first statement names a role the schema does not have; the
  Soroban contracts and the older backend, which are written in Rust and which the server reaches
  only through the network, a parameter here; and of the web application under \<open>frontend\<close> the
  markup of pages and components, the libraries that draw charts, and the texts the browser makes
  of dates, numbers and amounts. What is loaded from a module by the framework (a file of
  translations, a page) and the browser itself are parameters or events.
\<close>

end
